(* ===== verification/Prelude.thy ===== *)
theory Prelude
  imports
    Main
    "HOL-Library.Word"
    "HOL-Library.Char_ord"
    "HOL-Library.List_Lexorder"
    "HOL-Library.Product_Lexorder"
begin

text \<open>
  Shared vocabulary of the development: Python exceptions as values, validators as
  lists of checks in source order, a monad for code that talks to ports (its world
  survives an exception, as a database does), and the theory of contiguous interval
  chains on which the capture components rest.
\<close>

section \<open>Exceptions and results\<close>

text \<open>
  \<open>FieldError f\<close> stands for a pydantic field constraint refused before the model's
  own validator runs; the other constructors are the classes the sources raise, with
  the message or code they carry. A parse error may also carry the topology-only capsule
  (\<open>SourceFailureCapsule\<close>) that the capture loop passes on to its health report.
\<close>

datatype structural_record_class =
    SC_EXTERNAL_USER | SC_TOOL_RESULT_USER | SC_OTHER_USER | SC_THINKING_TERMINAL
  | SC_VISIBLE_TERMINAL | SC_OTHER_ASSISTANT | SC_STOP_HOOK_SUMMARY | SC_OTHER_SYSTEM
  | SC_ATTACHMENT | SC_PROGRESS | SC_QUEUE_OPERATION | SC_OTHER

record failure_capsule =
  fk_record_index :: nat
  fk_byte_offset :: nat
  fk_record_classification :: structural_record_class
  fk_parent_in_pending_records :: bool
  fk_parent_in_history_records :: bool
  fk_parent_in_parent_turns :: bool
  fk_pending_record_count :: nat
  fk_history_record_count :: nat
  fk_lineage_map_count :: nat
  fk_logical_terminal_pending :: bool
  fk_active_turn_present :: bool
  fk_assembly_state_version :: nat

datatype py_error =
    FieldError string
  | ValueError string
  | TypeError string
  | RuntimeError string
  | AssertionError string
  | ReceiptBindingError string
  | SourceRecordParseError string "failure_capsule option"
  | CursorWriteConflict

type_synonym 'a result = "py_error + 'a"

definition bindE :: "'e + 'a \<Rightarrow> ('a \<Rightarrow> 'e + 'b) \<Rightarrow> 'e + 'b" where
  "bindE m f = (case m of Inl e \<Rightarrow> Inl e | Inr x \<Rightarrow> f x)"

lemma bindE_simps [simp]:
  "bindE (Inl e) f = Inl e"
  "bindE (Inr x) f = f x"
  by (simp_all add: bindE_def)

lemma bindE_Inr_iff: "bindE m f = Inr y \<longleftrightarrow> (\<exists>x. m = Inr x \<and> f x = Inr y)"
  by (cases m) simp_all

lemma bindE_Inl_iff: "bindE m f = Inl e \<longleftrightarrow> m = Inl e \<or> (\<exists>x. m = Inr x \<and> f x = Inl e)"
  by (cases m) simp_all

definition is_ok :: "'e + 'a \<Rightarrow> bool" where
  "is_ok r \<longleftrightarrow> (\<exists>x. r = Inr x)"

lemma is_ok_simps [simp]: "is_ok (Inr x)" "\<not> is_ok (Inl e)"
  by (simp_all add: is_ok_def)

lemma is_ok_code [code]: "is_ok (Inr x) = True" "is_ok (Inl e) = False"
  by simp_all

subsection \<open>Validators: the first failing check raises\<close>

definition raise_if :: "bool \<Rightarrow> 'e \<Rightarrow> 'e option" where
  "raise_if b e = (if b then Some e else None)"

definition nested :: "'e + 'a \<Rightarrow> 'e option" where
  "nested r = (case r of Inl e \<Rightarrow> Some e | Inr _ \<Rightarrow> None)"

fun first_error :: "'e option list \<Rightarrow> 'e option" where
  "first_error [] = None"
| "first_error (c # cs) = (case c of None \<Rightarrow> first_error cs | Some e \<Rightarrow> Some e)"

definition validated :: "'e option list \<Rightarrow> 'a \<Rightarrow> 'e + 'a" where
  "validated cs x = (case first_error cs of None \<Rightarrow> Inr x | Some e \<Rightarrow> Inl e)"

fun first_failure :: "('a \<Rightarrow> 'e option) \<Rightarrow> 'a list \<Rightarrow> 'e option" where
  "first_failure f [] = None"
| "first_failure f (x # xs) = (case f x of None \<Rightarrow> first_failure f xs | Some e \<Rightarrow> Some e)"

fun nested_opt :: "('a \<Rightarrow> 'e + 'b) \<Rightarrow> 'a option \<Rightarrow> 'e option" where
  "nested_opt f None = None"
| "nested_opt f (Some x) = nested (f x)"

definition nested_list :: "('a \<Rightarrow> 'e + 'b) \<Rightarrow> 'a list \<Rightarrow> 'e option" where
  "nested_list f xs = first_failure (\<lambda>x. nested (f x)) xs"

lemma raise_if_None [simp]: "raise_if b e = None \<longleftrightarrow> \<not> b"
  by (simp add: raise_if_def)

lemma raise_if_False [simp]: "raise_if False e = None"
  by simp

lemma raise_if_True [simp]: "raise_if True e = Some e"
  by (simp add: raise_if_def)

lemma nested_simps [simp]: "nested (Inr x) = None" "nested (Inl e) = Some e"
  by (simp_all add: nested_def)

lemma nested_None [simp]: "nested r = None \<longleftrightarrow> is_ok r"
  by (cases r) simp_all

lemma first_error_None [simp]: "first_error cs = None \<longleftrightarrow> (\<forall>c \<in> set cs. c = None)"
  by (induction cs) (auto split: option.splits)

lemma first_failure_None [simp]: "first_failure f xs = None \<longleftrightarrow> (\<forall>x \<in> set xs. f x = None)"
  by (induction xs) (auto split: option.splits)

lemma nested_opt_None [simp]: "nested_opt f x = None \<longleftrightarrow> (\<forall>y. x = Some y \<longrightarrow> is_ok (f y))"
  by (cases x) simp_all

lemma nested_list_None [simp]: "nested_list f xs = None \<longleftrightarrow> (\<forall>x \<in> set xs. is_ok (f x))"
  by (simp add: nested_list_def)

lemma validated_Inr [simp]:
  "validated cs x = Inr y \<longleftrightarrow> y = x \<and> (\<forall>c \<in> set cs. c = None)"
  unfolding validated_def first_error_None [symmetric]
  by (cases "first_error cs") (auto simp del: first_error_None)

lemma validated_ok [simp]: "is_ok (validated cs x) \<longleftrightarrow> (\<forall>c \<in> set cs. c = None)"
  by (simp add: is_ok_def)

lemma validated_Inl: "validated cs x = Inl e \<longleftrightarrow> first_error cs = Some e"
  by (cases "first_error cs") (simp_all add: validated_def del: first_error_None)

section \<open>Code that uses ports\<close>

text \<open>
  A port operation reads and changes the world \<open>'w\<close>. When it raises, the changes made
  before the exception remain: the world is returned on both paths.
\<close>

type_synonym ('w, 'a) io = "'w \<Rightarrow> 'a result \<times> 'w"

definition returnIO :: "'a \<Rightarrow> ('w, 'a) io" where
  "returnIO x w = (Inr x, w)"

definition raiseIO :: "py_error \<Rightarrow> ('w, 'a) io" where
  "raiseIO e w = (Inl e, w)"

definition liftIO :: "'a result \<Rightarrow> ('w, 'a) io" where
  "liftIO r w = (r, w)"

definition bindIO :: "('w, 'a) io \<Rightarrow> ('a \<Rightarrow> ('w, 'b) io) \<Rightarrow> ('w, 'b) io" where
  "bindIO m f w = (case m w of (Inl e, w') \<Rightarrow> (Inl e, w') | (Inr x, w') \<Rightarrow> f x w')"

definition checkIO :: "bool \<Rightarrow> py_error \<Rightarrow> ('w, unit) io" where
  "checkIO b e w = (if b then (Inl e, w) else (Inr (), w))"

named_theorems io_simps \<open>evaluation of the port monad\<close>

lemma returnIO_run [simp, io_simps]: "returnIO x w = (Inr x, w)"
  by (simp add: returnIO_def)

lemma raiseIO_run [simp, io_simps]: "raiseIO e w = (Inl e, w)"
  by (simp add: raiseIO_def)

lemma liftIO_run [simp, io_simps]: "liftIO r w = (r, w)"
  by (simp add: liftIO_def)

lemma bindIO_ok [simp]: "m w = (Inr x, w') \<Longrightarrow> bindIO m f w = f x w'"
  by (simp add: bindIO_def)

lemma bindIO_err [simp]: "m w = (Inl e, w') \<Longrightarrow> bindIO m f w = (Inl e, w')"
  by (simp add: bindIO_def)

lemma bindIO_Inr_iff:
  "bindIO m f w = (Inr y, w') \<longleftrightarrow> (\<exists>x w1. m w = (Inr x, w1) \<and> f x w1 = (Inr y, w'))"
  by (auto simp: bindIO_def split: sum.splits prod.splits)

lemma bindIO_returns:
  assumes "bindIO m f w = (Inr y, w')"
  obtains x w1 where "m w = (Inr x, w1)" "f x w1 = (Inr y, w')"
  using assms by (auto simp: bindIO_Inr_iff)

lemma bind_liftE:
  assumes "bindIO (liftIO r) f w = (Inr y, w')"
  obtains x where "r = Inr x" "f x w = (Inr y, w')"
  using assms by (auto simp: bindIO_Inr_iff)

lemma checkIO_run [io_simps]: "checkIO b e w = (if b then (Inl e, w) else (Inr (), w))"
  by (simp add: checkIO_def)

lemma checkIO_Inr [simp]: "checkIO b e w = (Inr u, w') \<longleftrightarrow> \<not> b \<and> w' = w"
  by (auto simp: checkIO_def)

lemma bind_checkE:
  assumes "bindIO (checkIO b e) f w = (Inr y, w')"
  obtains "\<not> b" "f () w = (Inr y, w')"
  using assms by (auto simp: bindIO_Inr_iff)

lemma bind_returnE:
  assumes "bindIO m (\<lambda>x. returnIO (g x)) w = (Inr y, w')"
  obtains x where "m w = (Inr x, w')" "y = g x"
  using assms by (auto simp: bindIO_Inr_iff)

section \<open>Contiguous chains of intervals\<close>

text \<open>
  The loops of the capture validators walk a sequence, require each element to begin
  where the previous one ended, and return where the walk ended.
\<close>

fun chain_walk :: "('a \<Rightarrow> nat) \<Rightarrow> ('a \<Rightarrow> nat) \<Rightarrow> 'e \<Rightarrow> nat \<Rightarrow> 'a list \<Rightarrow> 'e + nat" where
  "chain_walk lo hi e n [] = Inr n"
| "chain_walk lo hi e n (x # xs) =
     (if lo x \<noteq> n then Inl e else chain_walk lo hi e (hi x) xs)"

fun chain :: "('a \<Rightarrow> nat) \<Rightarrow> ('a \<Rightarrow> nat) \<Rightarrow> nat \<Rightarrow> 'a list \<Rightarrow> nat \<Rightarrow> bool" where
  "chain lo hi n [] m \<longleftrightarrow> m = n"
| "chain lo hi n (x # xs) m \<longleftrightarrow> lo x = n \<and> chain lo hi (hi x) xs m"

definition chain_checks ::
  "('a \<Rightarrow> nat) \<Rightarrow> ('a \<Rightarrow> nat) \<Rightarrow> nat \<Rightarrow> 'a list \<Rightarrow> nat \<Rightarrow> 'e \<Rightarrow> 'e \<Rightarrow> 'e option list" where
  "chain_checks lo hi n xs m e_gap e_end =
     (case chain_walk lo hi e_gap n xs of
        Inl e \<Rightarrow> [Some e]
      | Inr end_at \<Rightarrow> [raise_if (end_at \<noteq> m) e_end])"

lemma chain_walk_Inr: "chain_walk lo hi e n xs = Inr m \<longleftrightarrow> chain lo hi n xs m"
  by (induction xs arbitrary: n) auto

lemma chain_checks_None [simp]:
  "(\<forall>c \<in> set (chain_checks lo hi n xs m e1 e2). c = None) \<longleftrightarrow> chain lo hi n xs m"
proof (cases "chain_walk lo hi e1 n xs")
  case (Inl e)
  then have "\<not> chain lo hi n xs m"
    by (metis chain_walk_Inr sum.simps(4))
  with Inl show ?thesis by (simp add: chain_checks_def)
next
  case (Inr k)
  then have "chain lo hi n xs k" by (simp add: chain_walk_Inr)
  moreover have "chain lo hi n xs m \<Longrightarrow> m = k"
    using Inr by (metis chain_walk_Inr sum.inject(2))
  ultimately show ?thesis using Inr by (auto simp: chain_checks_def)
qed

lemma chain_functional: "chain lo hi n xs m \<Longrightarrow> chain lo hi n xs k \<Longrightarrow> m = k"
  by (induction xs arbitrary: n) auto

lemma chain_append:
  "chain lo hi n (xs @ ys) m \<longleftrightarrow> (\<exists>k. chain lo hi n xs k \<and> chain lo hi k ys m)"
  by (induction xs arbitrary: n) auto

lemma chain_snoc: "chain lo hi n (xs @ [x]) m \<longleftrightarrow> chain lo hi n xs (lo x) \<and> m = hi x"
  by (auto simp: chain_append)

lemma chain_hd: "chain lo hi n xs m \<Longrightarrow> xs \<noteq> [] \<Longrightarrow> lo (hd xs) = n"
  by (cases xs) auto

lemma chain_last: "chain lo hi n xs m \<Longrightarrow> xs \<noteq> [] \<Longrightarrow> hi (last xs) = m"
  by (induction xs arbitrary: n) auto

lemma chain_map:
  "chain lo hi n (map f xs) m \<longleftrightarrow> chain (lo \<circ> f) (hi \<circ> f) n xs m"
  by (induction xs arbitrary: n) auto

text \<open>
  The contract of a component that stores non-empty half-open intervals. Its lemmas say
  what the validators' loops buy: a chain partitions exactly the interval it spans.
\<close>

locale interval_store =
  fixes lo :: "'a \<Rightarrow> nat"
    and hi :: "'a \<Rightarrow> nat"
    and good :: "'a \<Rightarrow> bool"
  assumes good_nonempty: "good x \<Longrightarrow> lo x < hi x"
begin

lemma chain_le: "list_all good xs \<Longrightarrow> chain lo hi n xs m \<Longrightarrow> n \<le> m"
proof (induction xs arbitrary: n)
  case (Cons x xs)
  then have "hi x \<le> m" by auto
  with Cons.prems good_nonempty [of x] show ?case by auto
qed simp

lemma chain_progress: "list_all good xs \<Longrightarrow> chain lo hi n xs m \<Longrightarrow> xs \<noteq> [] \<Longrightarrow> n < m"
  by (cases xs) (auto dest: chain_le good_nonempty intro: less_le_trans)

lemma chain_covers:
  "list_all good xs \<Longrightarrow> chain lo hi n xs m \<Longrightarrow> (\<Union>x \<in> set xs. {lo x..<hi x}) = {n..<m}"
proof (induction xs arbitrary: n)
  case (Cons x xs)
  then have rest: "(\<Union>y \<in> set xs. {lo y..<hi y}) = {hi x..<m}" and le: "hi x \<le> m"
    by (auto dest: chain_le)
  from Cons.prems have x: "lo x = n" "n < hi x"
    using good_nonempty [of x] by auto
  have "{lo x..<hi x} \<union> {hi x..<m} = {n..<m}"
    using x le by (auto simp: ivl_disj_un)
  with rest show ?case by simp
qed simp

lemma chain_total:
  "list_all good xs \<Longrightarrow> chain lo hi n xs m \<Longrightarrow> (\<Sum>x \<leftarrow> xs. hi x - lo x) = m - n"
proof (induction xs arbitrary: n)
  case (Cons x xs)
  then have "(\<Sum>y \<leftarrow> xs. hi y - lo y) = m - hi x" "hi x \<le> m"
    by (auto dest: chain_le)
  with Cons.prems good_nonempty [of x] show ?case by auto
qed simp

lemma chain_members:
  assumes "list_all good xs" "chain lo hi n xs m" "x \<in> set xs"
  shows "n \<le> lo x \<and> hi x \<le> m"
proof -
  from assms(3) obtain ys zs where xs: "xs = ys @ x # zs" by (auto simp: in_set_conv_decomp)
  with assms(1,2) have "chain lo hi n ys (lo x)" "chain lo hi (hi x) zs m"
    "list_all good ys" "list_all good zs"
    by (auto simp: chain_append)
  then show ?thesis by (auto dest: chain_le)
qed

lemma chain_disjoint:
  assumes "list_all good xs" "chain lo hi n xs m" "i < j" "j < length xs"
  shows "hi (xs ! i) \<le> lo (xs ! j)"
proof -
  have "chain lo hi n (take j xs @ xs ! j # drop (Suc j) xs) m"
    using assms(2) id_take_nth_drop [OF assms(4)] by simp
  then have "chain lo hi n (take j xs) (lo (xs ! j))"
    by (auto simp: chain_append)
  moreover have "list_all good (take j xs)"
    using assms(1) by (auto simp: list_all_iff dest: in_set_takeD)
  moreover have "xs ! i \<in> set (take j xs)"
    using assms(3,4) nth_mem [of i "take j xs"] by simp
  ultimately show ?thesis by (blast dest: chain_members)
qed

lemma chain_unique_owner:
  assumes "list_all good xs" "chain lo hi n xs m" "n \<le> p" "p < m"
  shows "\<exists>!i. i < length xs \<and> lo (xs ! i) \<le> p \<and> p < hi (xs ! i)"
proof -
  from assms have "p \<in> (\<Union>x \<in> set xs. {lo x..<hi x})"
    by (simp add: chain_covers)
  then obtain i where i: "i < length xs" "lo (xs ! i) \<le> p" "p < hi (xs ! i)"
    by (auto simp: in_set_conv_nth)
  have "j = i" if j: "j < length xs" "lo (xs ! j) \<le> p" "p < hi (xs ! j)" for j
  proof (rule linorder_cases [of j i])
    assume "j < i"
    with chain_disjoint [OF assms(1,2) this i(1)] i(2) j(3) show ?thesis by linarith
  next
    assume "i < j"
    with chain_disjoint [OF assms(1,2) this j(1)] j(2) i(3) show ?thesis by linarith
  qed
  with i show ?thesis by blast
qed

end

section \<open>Lists\<close>

lemma list_all_snoc [simp]: "list_all P (xs @ [x]) \<longleftrightarrow> list_all P xs \<and> P x"
  by simp

lemma take_drop_slice: "i \<le> j \<Longrightarrow> take (j - i) (drop i xs) = drop i (take j xs)"
  by (simp add: drop_take)

end
