(* ===== verification/Codec.thy ===== *)
theory Codec
  imports Prelude
begin

text \<open>
  The byte and text encodings the sources use from Python's standard library, and the
  canonical JSON of \<open>application/semantic_task_contracts.py\<close>. Bytes are 8-bit words.
  Text is a list of characters whose code points are below 256. The hash function of
  \<open>hashlib.sha256\<close> is a parameter \<open>H\<close> of every definition that uses it; nothing is
  assumed of it except, where a digest is stored in a model field, that it returns 64
  lower-case hexadecimal digits.
\<close>

type_synonym bytes = "8 word list"
type_synonym hash = "bytes \<Rightarrow> string"
type_synonym uuid = "128 word"

datatype datetime = Aware int | Naive int

fun tz_missing :: "datetime \<Rightarrow> bool" where
  "tz_missing (Naive _) \<longleftrightarrow> True"
| "tz_missing (Aware _) \<longleftrightarrow> False"

section \<open>Hexadecimal\<close>

definition hexdigit :: "nat \<Rightarrow> char" where
  "hexdigit n = ''0123456789abcdef'' ! n"

fun index_of :: "'a \<Rightarrow> 'a list \<Rightarrow> nat option" where
  "index_of x [] = None"
| "index_of x (y # ys) = (if x = y then Some 0 else map_option Suc (index_of x ys))"

definition hexval :: "char \<Rightarrow> nat option" where
  "hexval c = index_of c ''0123456789abcdef''"

fun hex :: "bytes \<Rightarrow> string" where
  "hex [] = ''''"
| "hex (b # bs) = hexdigit (unat b div 16) # hexdigit (unat b mod 16) # hex bs"

fun fromhex :: "string \<Rightarrow> bytes option" where
  "fromhex [] = Some []"
| "fromhex [_] = None"
| "fromhex (x # y # cs) =
     (case (hexval x, hexval y, fromhex cs) of
        (Some a, Some b, Some bs) \<Rightarrow> Some (of_nat (16 * a + b) # bs)
      | _ \<Rightarrow> None)"

fun hexn :: "nat \<Rightarrow> nat \<Rightarrow> string" where
  "hexn 0 n = ''''"
| "hexn (Suc k) n = hexn k (n div 16) @ [hexdigit (n mod 16)]"

definition uuid_str :: "uuid \<Rightarrow> string" where
  "uuid_str u =
     (let h = hexn 32 (unat u)
      in take 8 h @ ''-'' @ take 4 (drop 8 h) @ ''-'' @ take 4 (drop 12 h) @ ''-''
         @ take 4 (drop 16 h) @ ''-'' @ drop 20 h)"

definition uuid_version :: "uuid \<Rightarrow> nat" where
  "uuid_version u = (unat u div 2 ^ 76) mod 16"

definition is_sha256 :: "string \<Rightarrow> bool" where
  "is_sha256 s \<longleftrightarrow> length s = 64 \<and> list_all (\<lambda>c. hexval c \<noteq> None) s"

definition sha256_documented :: "hash \<Rightarrow> bool" where
  "sha256_documented H \<longleftrightarrow> (\<forall>b. is_sha256 (H b))"

lemma sha256_documentedD [simp]: "sha256_documented H \<Longrightarrow> is_sha256 (H b)"
  by (simp add: sha256_documented_def)

lemma hexval_hexdigit [simp]: "n < 16 \<Longrightarrow> hexval (hexdigit n) = Some n"
  by (auto simp: hexval_def hexdigit_def less_Suc_eq numeral_eq_Suc)

lemma unat_byte_less [simp]: "unat (b :: 8 word) < 256"
  using unsigned_less [of b] by simp

lemma unat_byte_div [simp]: "unat (b :: 8 word) div 16 < 16"
  using unat_byte_less [of b] by linarith

lemma byte_of_nibbles [simp]:
  "of_nat (16 * (unat (b :: 8 word) div 16) + unat b mod 16) = b"
  by simp

lemma fromhex_hex [simp]: "fromhex (hex bs) = Some bs"
  by (induction bs) (simp_all del: of_nat_add of_nat_mult)

lemma length_hex [simp]: "length (hex bs) = 2 * length bs"
  by (induction bs) simp_all

lemma hex_inject [simp]: "hex a = hex b \<longleftrightarrow> a = b"
  by (metis fromhex_hex option.inject)

section \<open>Decimal numerals and UTF-8\<close>

definition digit :: "nat \<Rightarrow> char" where
  "digit n = ''0123456789'' ! n"

definition digit_val :: "char \<Rightarrow> nat option" where
  "digit_val c = index_of c ''0123456789''"

fun str_nat :: "nat \<Rightarrow> string" where
  "str_nat n = (if n < 10 then [digit n] else str_nat (n div 10) @ [digit (n mod 10)])"

declare str_nat.simps [simp del]

fun read_digits :: "nat \<Rightarrow> string \<Rightarrow> nat option" where
  "read_digits acc [] = Some acc"
| "read_digits acc (c # cs) =
     (case digit_val c of None \<Rightarrow> None | Some d \<Rightarrow> read_digits (10 * acc + d) cs)"

definition utf8_char :: "char \<Rightarrow> bytes" where
  "utf8_char c =
     (let n = (of_char c :: nat)
      in if n < 128 then [of_nat n] else [of_nat (192 + n div 64), of_nat (128 + n mod 64)])"

definition utf8 :: "string \<Rightarrow> bytes" where
  "utf8 s = concat (map utf8_char s)"

lemma digit_val_digit [simp]: "n < 10 \<Longrightarrow> digit_val (digit n) = Some n"
  by (auto simp: digit_val_def digit_def less_Suc_eq numeral_eq_Suc)

lemma read_digits_append:
  "read_digits acc (xs @ ys) =
     (case read_digits acc xs of None \<Rightarrow> None | Some a \<Rightarrow> read_digits a ys)"
  by (induction xs arbitrary: acc) (auto split: option.splits)

lemma read_digits_str_nat [simp]: "read_digits 0 (str_nat n) = Some n"
proof (induction n rule: str_nat.induct)
  case (1 n)
  then show ?case
    by (subst str_nat.simps) (auto simp: read_digits_append)
qed

lemma str_nat_inject [simp]: "str_nat m = str_nat n \<longleftrightarrow> m = n"
  by (metis read_digits_str_nat option.inject)

lemma str_nat_nonempty [simp]: "str_nat n \<noteq> []"
  by (subst str_nat.simps) simp

lemma str_nat_digits: "list_all (\<lambda>c. digit_val c \<noteq> None) (str_nat n)"
proof (induction n rule: str_nat.induct)
  case (1 n)
  then show ?case by (subst str_nat.simps) auto
qed

section \<open>Base64 as \<open>b64encode\<close> and strict \<open>b64decode\<close>\<close>

definition b64alphabet :: string where
  "b64alphabet = ''ABCDEFGHIJKLMNOPQRSTUVWXYZabcdefghijklmnopqrstuvwxyz0123456789+/''"

definition b64char :: "nat \<Rightarrow> char" where
  "b64char n = b64alphabet ! n"

definition b64val :: "char \<Rightarrow> nat option" where
  "b64val c = index_of c b64alphabet"

fun b64encode :: "bytes \<Rightarrow> string" where
  "b64encode [] = ''''"
| "b64encode [a] =
     [b64char (unat a div 4), b64char (unat a mod 4 * 16), CHR ''='', CHR ''='']"
| "b64encode [a, b] =
     [b64char (unat a div 4), b64char (unat a mod 4 * 16 + unat b div 16),
      b64char (unat b mod 16 * 4), CHR ''='']"
| "b64encode (a # b # c # bs) =
     b64char (unat a div 4) # b64char (unat a mod 4 * 16 + unat b div 16)
     # b64char (unat b mod 16 * 4 + unat c div 64) # b64char (unat c mod 64)
     # b64encode bs"

definition b64byte1 :: "nat \<Rightarrow> nat \<Rightarrow> 8 word" where
  "b64byte1 x y = of_nat (x * 4 + y div 16)"

definition b64byte2 :: "nat \<Rightarrow> nat \<Rightarrow> 8 word" where
  "b64byte2 y z = of_nat (y mod 16 * 16 + z div 4)"

definition b64byte3 :: "nat \<Rightarrow> nat \<Rightarrow> 8 word" where
  "b64byte3 z w = of_nat (z mod 4 * 64 + w)"

fun b64decode :: "string \<Rightarrow> bytes option" where
  "b64decode [] = Some []"
| "b64decode (x # y # z # w # cs) =
     (case (b64val x, b64val y) of
        (Some a, Some b) \<Rightarrow>
          (if w = CHR ''='' then
             (if cs \<noteq> [] then None
              else if z = CHR ''='' then Some [b64byte1 a b]
              else case b64val z of
                     None \<Rightarrow> None
                   | Some c \<Rightarrow> Some [b64byte1 a b, b64byte2 b c])
           else case (b64val z, b64val w, b64decode cs) of
                  (Some c, Some d, Some bs) \<Rightarrow>
                    Some (b64byte1 a b # b64byte2 b c # b64byte3 c d # bs)
                | _ \<Rightarrow> None)
      | _ \<Rightarrow> None)"
| "b64decode _ = None"

lemma index_of_nth: "distinct xs \<Longrightarrow> n < length xs \<Longrightarrow> index_of (xs ! n) xs = Some n"
  by (induction xs arbitrary: n) (auto simp: nth_Cons split: nat.splits)

lemma b64_distinct: "distinct b64alphabet" "length b64alphabet = 64"
  by (simp_all add: b64alphabet_def)

lemma b64val_char [simp]: "n < 64 \<Longrightarrow> b64val (b64char n) = Some n"
  unfolding b64val_def b64char_def using b64_distinct by (intro index_of_nth) simp_all

lemma b64_no_pad: "CHR ''='' \<notin> set b64alphabet"
  by (simp add: b64alphabet_def)

lemma b64char_no_pad [simp]: "n < 64 \<Longrightarrow> b64char n \<noteq> CHR ''=''"
  unfolding b64char_def using b64_no_pad b64_distinct(2) nth_mem [of n b64alphabet] by metis

lemma b64_ranges [simp]:
  fixes a b :: "8 word"
  shows "unat a div 4 < 64" "unat a mod 4 * 16 + unat b div 16 < 64"
    "unat a mod 4 * 16 < 64" "unat b mod 16 * 4 < 64" "unat b mod 16 * 4 + unat a div 64 < 64"
  using unat_byte_less [of a] unat_byte_less [of b] by linarith+

lemma b64_split [simp]:
  fixes x y q :: nat
  assumes "q < 16"
  shows "(x * 16 + q) div 16 = x" "(x * 16 + q) mod 16 = q"
  using assms by simp_all

lemma b64_split4 [simp]:
  fixes x q :: nat
  assumes "q < 4"
  shows "(x * 4 + q) div 4 = x" "(x * 4 + q) mod 4 = q"
  using assms by simp_all

lemma unat_byte_div64 [simp]: "unat (b :: 8 word) div 64 < 4"
  using unat_byte_less [of b] by linarith

lemma b64_bytes [simp]:
  fixes a b c :: "8 word"
  shows "b64byte1 (unat a div 4) (unat a mod 4 * 16 + unat b div 16) = a"
    "b64byte1 (unat a div 4) (unat a mod 4 * 16) = a"
    "b64byte2 (unat a mod 4 * 16 + unat b div 16) (unat b mod 16 * 4 + unat c div 64) = b"
    "b64byte2 (unat a mod 4 * 16 + unat b div 16) (unat b mod 16 * 4) = b"
    "b64byte3 (unat b mod 16 * 4 + unat c div 64) (unat c mod 64) = c"
  unfolding b64byte1_def b64byte2_def b64byte3_def
  by (simp_all del: of_nat_add of_nat_mult add: div_mult_mod_eq)

lemma b64decode_encode [simp]: "b64decode (b64encode bs) = Some bs"
  by (induction bs rule: b64encode.induct) simp_all

lemma length_b64encode: "length (b64encode bs) = 4 * ((length bs + 2) div 3)"
proof (induction bs rule: b64encode.induct)
  case (4 a b c bs)
  have "(length (a # b # c # bs) + 2) div 3 = Suc ((length bs + 2) div 3)"
    using div_add_self2 [of 3 "length bs + 2"] by simp
  with 4 show ?case by simp
qed simp_all

section \<open>Canonical JSON\<close>

datatype json =
    JNull
  | JBool bool
  | JInt int
  | JStr string
  | JList "json list"
  | JObj "(string \<times> json) list"

definition json_char :: "char \<Rightarrow> string" where
  "json_char c =
     (let n = (of_char c :: nat)
      in if n = 34 then [CHR 0x5C, CHR 0x22]
         else if n = 92 then [CHR 0x5C, CHR 0x5C]
         else if n = 10 then [CHR 0x5C, CHR ''n'']
         else if n = 13 then [CHR 0x5C, CHR ''r'']
         else if n = 9 then [CHR 0x5C, CHR ''t'']
         else if n = 8 then [CHR 0x5C, CHR ''b'']
         else if n = 12 then [CHR 0x5C, CHR ''f'']
         else if 32 \<le> n \<and> n \<le> 126 then [c]
         else [CHR 0x5C, CHR ''u''] @ hexn 4 n)"

definition json_string :: "string \<Rightarrow> string" where
  "json_string s = CHR 0x22 # concat (map json_char s) @ [CHR 0x22]"

definition str_int :: "int \<Rightarrow> string" where
  "str_int i = (if i < 0 then CHR ''-'' # str_nat (nat (- i)) else str_nat (nat i))"

fun join :: "string \<Rightarrow> string list \<Rightarrow> string" where
  "join sep [] = ''''"
| "join sep [x] = x"
| "join sep (x # y # xs) = x @ sep @ join sep (y # xs)"

fun json_render :: "json \<Rightarrow> string" where
  "json_render JNull = ''null''"
| "json_render (JBool b) = (if b then ''true'' else ''false'')"
| "json_render (JInt i) = str_int i"
| "json_render (JStr s) = json_string s"
| "json_render (JList xs) = ''['' @ join '','' (map json_render xs) @ '']''"
| "json_render (JObj kvs) =
     (let entries = sort_key fst (map (\<lambda>(k, v). (k, json_render v)) kvs)
      in CHR 0x7B # join '','' (map (\<lambda>(k, v). json_string k @ '':'' @ v) entries) @ [CHR 0x7D])"

definition canonical_json_bytes :: "json \<Rightarrow> bytes" where
  "canonical_json_bytes v = utf8 (json_render v)"

definition canonical_sha256 :: "hash \<Rightarrow> json \<Rightarrow> string" where
  "canonical_sha256 H v = H (canonical_json_bytes v)"

fun j_opt :: "('a \<Rightarrow> json) \<Rightarrow> 'a option \<Rightarrow> json" where
  "j_opt f None = JNull"
| "j_opt f (Some x) = f x"

abbreviation j_nat :: "nat \<Rightarrow> json" where
  "j_nat n \<equiv> JInt (int n)"

abbreviation j_uuid :: "uuid \<Rightarrow> json" where
  "j_uuid u \<equiv> JStr (uuid_str u)"

end
