(* ===== verification/Manifest.thy ===== *)
theory Manifest
  imports Codec
begin

text \<open>
  \<open>domain/module_manifest.py\<close>: the identifier pattern, semantic versions, version
  bounds and ranges with their parsers and printers, and the manifest data. The regular
  expressions are scanners; \<open>ident_lang\<close> is the language of the identifier pattern.
\<close>

section \<open>Identifiers\<close>

definition is_lower :: "char \<Rightarrow> bool" where
  "is_lower c \<longleftrightarrow> 97 \<le> (of_char c :: nat) \<and> (of_char c :: nat) \<le> 122"

definition is_digit :: "char \<Rightarrow> bool" where
  "is_digit c \<longleftrightarrow> 48 \<le> (of_char c :: nat) \<and> (of_char c :: nat) \<le> 57"

definition is_alnum :: "char \<Rightarrow> bool" where
  "is_alnum c \<longleftrightarrow> is_lower c \<or> is_digit c"

definition is_separator :: "char \<Rightarrow> bool" where
  "is_separator c \<longleftrightarrow> c \<in> {CHR ''.'', CHR ''_'', CHR ''-''}"

fun ident_scan :: "bool \<Rightarrow> string \<Rightarrow> bool" where
  "ident_scan may_end [] \<longleftrightarrow> may_end"
| "ident_scan may_end (c # cs) \<longleftrightarrow>
     (if is_alnum c then ident_scan True cs
      else is_separator c \<and> may_end \<and> ident_scan False cs)"

fun is_identifier :: "string \<Rightarrow> bool" where
  "is_identifier [] \<longleftrightarrow> False"
| "is_identifier (c # cs) \<longleftrightarrow> is_lower c \<and> ident_scan True cs"

definition identifier_field :: "nat \<Rightarrow> string \<Rightarrow> bool" where
  "identifier_field hi s \<longleftrightarrow> is_identifier s \<and> length s \<le> hi"

definition text_field :: "nat \<Rightarrow> nat \<Rightarrow> string \<Rightarrow> bool" where
  "text_field lo hi s \<longleftrightarrow> lo \<le> length s \<and> length s \<le> hi"

fun opt_field :: "('a \<Rightarrow> bool) \<Rightarrow> 'a option \<Rightarrow> bool" where
  "opt_field p None \<longleftrightarrow> True"
| "opt_field p (Some x) \<longleftrightarrow> p x"

inductive ident_lang :: "string \<Rightarrow> bool" where
  head: "is_lower c \<Longrightarrow> ident_lang [c]"
| more: "ident_lang s \<Longrightarrow> is_alnum c \<Longrightarrow> ident_lang (s @ [c])"
| segment: "ident_lang s \<Longrightarrow> is_separator d \<Longrightarrow> is_alnum c \<Longrightarrow> ident_lang (s @ [d, c])"

lemma separator_not_alnum: "is_separator c \<Longrightarrow> \<not> is_alnum c"
  by (auto simp: is_separator_def is_alnum_def is_lower_def is_digit_def)

lemma ident_scan_append:
  "ident_scan b (s @ [c]) \<longleftrightarrow>
     is_alnum c \<and>
     (ident_scan b s \<or> (\<exists>t d. s = t @ [d] \<and> is_separator d \<and> ident_scan b t) \<or> s = [])"
proof (induction s arbitrary: b)
  case Nil
  then show ?case by simp
next
  case (Cons x s)
  show ?case
  proof (cases "is_alnum c")
    case False
    with Cons show ?thesis by auto
  next
    case True
    have "(\<exists>t d. x # s = t @ [d] \<and> is_separator d \<and> ident_scan b t) \<longleftrightarrow>
        (s = [] \<and> is_separator x \<and> b) \<or>
        (\<exists>t d. s = t @ [d] \<and> is_separator d \<and> ident_scan b (x # t))"
      by (auto simp: Cons_eq_append_conv)
    with True Cons separator_not_alnum show ?thesis
      by (cases "s = []") auto
  qed
qed

lemma ident_lang_scan: "ident_lang s \<Longrightarrow> is_identifier s"
proof (induction rule: ident_lang.induct)
  case (more s c)
  then obtain x t where "s = x # t" "is_lower x" "ident_scan True t" by (cases s rule: list.exhaust) auto
  with more.hyps show ?case by (simp add: ident_scan_append)
next
  case (segment s d c)
  then obtain x t where s: "s = x # t" "is_lower x" "ident_scan True t" by (cases s rule: list.exhaust) auto
  have "ident_scan True ((t @ [d]) @ [c])"
    using segment.hyps s by (subst ident_scan_append) auto
  with s show ?case by simp
qed simp

lemma scan_ident_lang: "is_lower x \<Longrightarrow> ident_scan True s \<Longrightarrow> ident_lang (x # s)"
proof (induction s rule: length_induct)
  case (1 s)
  show ?case
  proof (cases s rule: rev_cases)
    case Nil
    with 1 show ?thesis by (auto intro: ident_lang.head)
  next
    case (snoc t c)
    with "1.prems" have c: "is_alnum c"
      and cases: "ident_scan True t \<or> (\<exists>u d. t = u @ [d] \<and> is_separator d \<and> ident_scan True u) \<or> t = []"
      by (auto simp: ident_scan_append split: if_splits)
    from cases consider "ident_scan True t"
      | u d where "t = u @ [d]" "is_separator d" "ident_scan True u" by auto
    then show ?thesis
    proof cases
      case 1
      then have "ident_lang (x # t)" using "1.IH" "1.prems"(1) snoc by simp
      then show ?thesis using ident_lang.more [OF _ c] snoc by fastforce
    next
      case 2
      then have "ident_lang (x # u)" using "1.IH" "1.prems"(1) snoc by simp
      then show ?thesis using ident_lang.segment [OF _ 2(2) c] snoc 2(1) by fastforce
    qed
  qed
qed

lemma identifier_language: "is_identifier s \<longleftrightarrow> ident_lang s"
proof
  assume "is_identifier s"
  then show "ident_lang s" by (cases s) (auto intro: scan_ident_lang)
qed (rule ident_lang_scan)

section \<open>Semantic versions\<close>

text \<open>
  The cases of \<open>ManifestContractError\<close>, by the message the source formats.
\<close>

datatype manifest_error =
    NegativeVersionPart
  | InvalidVersion string
  | InvalidVersionBound string
  | UnsupportedOperator string
  | EmptyVersionRange
  | InvalidConstraint string string

datatype semantic_version = SemVer (sv_major: int) (sv_minor: int) (sv_patch: int)

definition make_version :: "int \<Rightarrow> int \<Rightarrow> int \<Rightarrow> manifest_error + semantic_version" where
  "make_version a b c =
     (if min a (min b c) < 0 then Inl NegativeVersionPart else Inr (SemVer a b c))"

fun split_on :: "char \<Rightarrow> string \<Rightarrow> string list" where
  "split_on d [] = [[]]"
| "split_on d (c # cs) =
     (if c = d then [] # split_on d cs
      else case split_on d cs of [] \<Rightarrow> [[c]] | x # xs \<Rightarrow> (c # x) # xs)"

text \<open>The pattern \<open>0|[1-9][0-9]*\<close> and \<open>int\<close> on what it matches.\<close>

definition numeral_ok :: "string \<Rightarrow> bool" where
  "numeral_ok s \<longleftrightarrow> s = ''0'' \<or> (s \<noteq> [] \<and> list_all is_digit s \<and> hd s \<noteq> CHR ''0'')"

definition read_int :: "string \<Rightarrow> int" where
  "read_int s = (case read_digits 0 s of None \<Rightarrow> 0 | Some n \<Rightarrow> int n)"

definition parse_version :: "string \<Rightarrow> manifest_error + semantic_version" where
  "parse_version v =
     (case split_on (CHR ''.'') v of
        [a, b, c] \<Rightarrow>
          (if numeral_ok a \<and> numeral_ok b \<and> numeral_ok c
           then make_version (read_int a) (read_int b) (read_int c)
           else Inl (InvalidVersion v))
      | _ \<Rightarrow> Inl (InvalidVersion v))"

definition version_str :: "semantic_version \<Rightarrow> string" where
  "version_str v = str_int (sv_major v) @ ''.'' @ str_int (sv_minor v) @ ''.'' @ str_int (sv_patch v)"

definition parse_range_bound :: "string \<Rightarrow> manifest_error + semantic_version" where
  "parse_range_bound v =
     (case split_on (CHR ''.'') v of
        [a, b] \<Rightarrow>
          (if numeral_ok a \<and> numeral_ok b then make_version (read_int a) (read_int b) 0
           else Inl (InvalidVersionBound v))
      | [a, b, c] \<Rightarrow>
          (if numeral_ok a \<and> numeral_ok b \<and> numeral_ok c
           then make_version (read_int a) (read_int b) (read_int c)
           else Inl (InvalidVersionBound v))
      | _ \<Rightarrow> Inl (InvalidVersionBound v))"

definition KERNEL_VERSION :: semantic_version where
  "KERNEL_VERSION = SemVer 1 0 0"

definition version_key :: "semantic_version \<Rightarrow> int \<times> int \<times> int" where
  "version_key v = (sv_major v, sv_minor v, sv_patch v)"

text \<open>The dataclass is declared with \<open>order=True\<close>: its order is that of its field tuples.\<close>

instantiation semantic_version :: linorder
begin

definition less_eq_semantic_version :: "semantic_version \<Rightarrow> semantic_version \<Rightarrow> bool" where
  "less_eq_semantic_version v w \<longleftrightarrow> version_key v \<le> version_key w"

definition less_semantic_version :: "semantic_version \<Rightarrow> semantic_version \<Rightarrow> bool" where
  "less_semantic_version v w \<longleftrightarrow> version_key v < version_key w"

instance
proof
  fix v w :: semantic_version
  assume "v \<le> w" "w \<le> v"
  then have "version_key v = version_key w"
    by (simp add: less_eq_semantic_version_def)
  then show "v = w" by (cases v, cases w) (simp add: version_key_def)
qed (auto simp: less_eq_semantic_version_def less_semantic_version_def)

end

definition version_ok :: "semantic_version \<Rightarrow> bool" where
  "version_ok v \<longleftrightarrow> 0 \<le> sv_major v \<and> 0 \<le> sv_minor v \<and> 0 \<le> sv_patch v"

lemma make_version_Inr: "make_version a b c = Inr v \<longleftrightarrow> v = SemVer a b c \<and> version_ok v"
  by (auto simp: make_version_def version_ok_def)

lemma split_on_nonempty [simp]: "split_on d s \<noteq> []"
  by (induction s) (auto split: list.splits)

lemma split_on_no_sep: "d \<notin> set s \<Longrightarrow> split_on d s = [s]"
  by (induction s) auto

lemma split_on_append: "d \<notin> set s \<Longrightarrow> split_on d (s @ d # t) = s # split_on d t"
  by (induction s) auto

lemma split_on_join:
  "xs \<noteq> [] \<Longrightarrow> \<forall>x \<in> set xs. d \<notin> set x \<Longrightarrow> split_on d (join [d] xs) = xs"
  by (induction xs rule: induct_list012) (auto simp: split_on_no_sep split_on_append)

lemma digit_is_digit: "n < 10 \<Longrightarrow> is_digit (digit n)"
  by (auto simp: is_digit_def digit_def less_Suc_eq numeral_eq_Suc)

lemma digit_zero: "n < 10 \<Longrightarrow> digit n = CHR ''0'' \<longleftrightarrow> n = 0"
  by (auto simp: digit_def less_Suc_eq numeral_eq_Suc)

lemma str_nat_all_digits: "list_all is_digit (str_nat n)"
proof (induction n rule: str_nat.induct)
  case (1 n)
  then show ?case by (subst str_nat.simps) (auto simp: digit_is_digit)
qed

lemma str_nat_no_leading_zero: "0 < n \<Longrightarrow> hd (str_nat n) \<noteq> CHR ''0''"
proof (induction n rule: str_nat.induct)
  case (1 n)
  show ?case
  proof (cases "n < 10")
    case True
    with 1 show ?thesis by (subst str_nat.simps) (simp add: digit_zero)
  next
    case False
    with 1 have "hd (str_nat (n div 10)) \<noteq> CHR ''0''" by simp
    with False show ?thesis by (subst str_nat.simps) (simp add: hd_append)
  qed
qed

lemma numeral_ok_str_nat [simp]: "numeral_ok (str_nat n)"
proof (cases "n = 0")
  case True
  then show ?thesis by (simp add: numeral_ok_def str_nat.simps [of 0] digit_def)
next
  case False
  then show ?thesis
    using str_nat_no_leading_zero [of n] by (simp add: numeral_ok_def str_nat_all_digits)
qed

lemma read_int_str_int [simp]: "0 \<le> i \<Longrightarrow> read_int (str_int i) = i"
  by (simp add: read_int_def str_int_def)

lemma numeral_ok_str_int [simp]: "0 \<le> i \<Longrightarrow> numeral_ok (str_int i)"
  by (simp add: str_int_def)

lemma str_int_digits: "0 \<le> i \<Longrightarrow> c \<in> set (str_int i) \<Longrightarrow> is_digit c"
  using str_nat_all_digits [of "nat i"] by (auto simp: str_int_def list_all_iff)

lemma not_digit_chars [simp]:
  "\<not> is_digit (CHR ''.'')" "\<not> is_digit (CHR '','')" "\<not> is_digit (CHR ''='')"
  "\<not> is_digit (CHR 0x0A)"
  by (simp_all add: is_digit_def)

lemma split_version_str:
  "version_ok v \<Longrightarrow>
   split_on (CHR ''.'') (version_str v) =
     [str_int (sv_major v), str_int (sv_minor v), str_int (sv_patch v)]"
proof -
  assume "version_ok v"
  then have "CHR ''.'' \<notin> set (str_int (sv_major v))" "CHR ''.'' \<notin> set (str_int (sv_minor v))"
    "CHR ''.'' \<notin> set (str_int (sv_patch v))"
    using str_int_digits not_digit_chars(1) unfolding version_ok_def by blast+
  then show ?thesis by (simp add: version_str_def split_on_append split_on_no_sep)
qed

lemma parse_version_str: "version_ok v \<Longrightarrow> parse_version (version_str v) = Inr v"
  by (cases v) (simp add: parse_version_def split_version_str version_ok_def make_version_def min_def)

lemma parse_range_bound_str: "version_ok v \<Longrightarrow> parse_range_bound (version_str v) = Inr v"
  by (cases v) (simp add: parse_range_bound_def split_version_str version_ok_def make_version_def min_def)

section \<open>Version ranges\<close>

datatype version_constraint = VC (vc_operator: string) (vc_version: semantic_version)

type_synonym version_range = "version_constraint list"

definition constraint_allows :: "version_constraint \<Rightarrow> semantic_version \<Rightarrow> manifest_error + bool" where
  "constraint_allows c v =
     (if vc_operator c = ''>='' then Inr (vc_version c \<le> v)
      else if vc_operator c = ''<='' then Inr (v \<le> vc_version c)
      else if vc_operator c = ''>'' then Inr (vc_version c < v)
      else if vc_operator c = ''<'' then Inr (v < vc_version c)
      else if vc_operator c = ''=='' then Inr (v = vc_version c)
      else Inl (UnsupportedOperator (vc_operator c)))"

definition make_range :: "version_constraint list \<Rightarrow> manifest_error + version_range" where
  "make_range cs = (if cs = [] then Inl EmptyVersionRange else Inr cs)"

text \<open>\<open>str.strip\<close> removes the white space of the first 256 code points.\<close>

definition is_space :: "char \<Rightarrow> bool" where
  "is_space c \<longleftrightarrow>
     (let n = (of_char c :: nat)
      in (9 \<le> n \<and> n \<le> 13) \<or> (28 \<le> n \<and> n \<le> 32) \<or> n = 133 \<or> n = 160)"

definition strip :: "string \<Rightarrow> string" where
  "strip s = rev (dropWhile is_space (rev (dropWhile is_space s)))"

definition one_line :: "string \<Rightarrow> bool" where
  "one_line s \<longleftrightarrow> s \<noteq> [] \<and> CHR 0x0A \<notin> set s"

definition constraint_match :: "string \<Rightarrow> (string \<times> string) option" where
  "constraint_match s =
     (if take 2 s \<in> {''>='', ''<='', ''==''} \<and> one_line (drop 2 s)
      then Some (take 2 s, drop 2 s)
      else if take 1 s \<in> {''>'', ''<''} \<and> one_line (drop 1 s)
      then Some (take 1 s, drop 1 s)
      else None)"

fun parse_constraints :: "string \<Rightarrow> string list \<Rightarrow> manifest_error + version_constraint list" where
  "parse_constraints whole [] = Inr []"
| "parse_constraints whole (raw # raws) =
     (let constraint = strip raw
      in case constraint_match constraint of
           None \<Rightarrow> Inl (InvalidConstraint constraint whole)
         | Some (op, bound) \<Rightarrow>
             bindE (parse_range_bound bound) (\<lambda>v.
             bindE (parse_constraints whole raws) (\<lambda>cs. Inr (VC op v # cs))))"

definition parse_range :: "string \<Rightarrow> manifest_error + version_range" where
  "parse_range s = bindE (parse_constraints s (split_on (CHR '','') s)) make_range"

fun range_allows :: "version_range \<Rightarrow> semantic_version \<Rightarrow> manifest_error + bool" where
  "range_allows [] v = Inr True"
| "range_allows (c # cs) v =
     bindE (constraint_allows c v) (\<lambda>b. if b then range_allows cs v else Inr False)"

definition constraint_str :: "version_constraint \<Rightarrow> string" where
  "constraint_str c = vc_operator c @ version_str (vc_version c)"

definition range_str :: "version_range \<Rightarrow> string" where
  "range_str cs = join '','' (map constraint_str cs)"

definition constraint_ok :: "version_constraint \<Rightarrow> bool" where
  "constraint_ok c \<longleftrightarrow>
     vc_operator c \<in> {''>='', ''<='', ''=='', ''>'', ''<''} \<and> version_ok (vc_version c)"

definition range_ok :: "version_range \<Rightarrow> bool" where
  "range_ok cs \<longleftrightarrow> cs \<noteq> [] \<and> list_all constraint_ok cs"


lemma char_no_space [simp]: "is_digit c \<Longrightarrow> \<not> is_space c"
  by (auto simp: is_digit_def is_space_def Let_def)

lemma version_str_chars:
  "version_ok v \<Longrightarrow> c \<in> set (version_str v) \<Longrightarrow> is_digit c \<or> c = CHR ''.''"
  by (auto simp: version_str_def version_ok_def dest: str_int_digits)

lemma version_str_ends:
  "version_ok v \<Longrightarrow> version_str v \<noteq> [] \<and> is_digit (hd (version_str v)) \<and> is_digit (last (version_str v))"
proof -
  assume v: "version_ok v"
  have ne: "str_int i \<noteq> []" if "0 \<le> i" for i using that by (simp add: str_int_def)
  have sub: "hd (version_str v) \<in> set (str_int (sv_major v))" "last (version_str v) \<in> set (str_int (sv_patch v))"
    using v ne [of "sv_major v"] ne [of "sv_patch v"] by (auto simp: version_str_def version_ok_def)
  from v have pos: "0 \<le> sv_major v" "0 \<le> sv_patch v" by (simp_all add: version_ok_def)
  have "version_str v \<noteq> []" using ne [OF pos(1)] by (simp add: version_str_def)
  with str_int_digits [OF pos(1) sub(1)] str_int_digits [OF pos(2) sub(2)] show ?thesis by simp
qed

lemma dropWhile_id: "s \<noteq> [] \<Longrightarrow> \<not> p (hd s) \<Longrightarrow> dropWhile p s = s"
  by (cases s) auto

lemma strip_id: "s \<noteq> [] \<Longrightarrow> \<not> is_space (hd s) \<Longrightarrow> \<not> is_space (last s) \<Longrightarrow> strip s = s"
  by (simp add: strip_def dropWhile_id hd_rev)

lemma operator_chars [simp]:
  "\<not> is_space (CHR ''>'')" "\<not> is_space (CHR ''<'')" "\<not> is_space (CHR ''='')"
  by (simp_all add: is_space_def)

lemma constraint_str_match:
  assumes "constraint_ok c"
  shows "strip (constraint_str c) = constraint_str c"
    and "constraint_match (constraint_str c) = Some (vc_operator c, version_str (vc_version c))"
    and "CHR '','' \<notin> set (constraint_str c)"
proof -
  let ?v = "version_str (vc_version c)"
  from assms have ok: "version_ok (vc_version c)" by (simp add: constraint_ok_def)
  note ends = version_str_ends [OF ok] and chars = version_str_chars [OF ok]
  from ends obtain d ds where v: "?v = d # ds" "is_digit d" by (cases ?v rule: list.exhaust) auto
  then have d: "d \<noteq> CHR ''=''" by auto
  have ol: "one_line ?v" using ends chars [of "CHR 0x0A"] by (auto simp: one_line_def)
  have ops: "vc_operator c \<in> {''>='', ''<='', ''=='', ''>'', ''<''}"
    using assms by (simp add: constraint_ok_def)
  show "strip (constraint_str c) = constraint_str c"
    using ops ends by (intro strip_id) (auto simp: constraint_str_def)
  show "constraint_match (constraint_str c) = Some (vc_operator c, ?v)"
    using ops d ol by (auto simp: constraint_match_def constraint_str_def v)
  show "CHR '','' \<notin> set (constraint_str c)"
    using ops chars [of "CHR '',''"] by (auto simp: constraint_str_def)
qed

lemma parse_constraints_str:
  "list_all constraint_ok cs \<Longrightarrow> parse_constraints w (map constraint_str cs) = Inr cs"
  by (induction cs)
     (auto simp: constraint_str_match Let_def parse_range_bound_str constraint_ok_def)

lemma parse_range_str: "range_ok cs \<Longrightarrow> parse_range (range_str cs) = Inr cs"
  using constraint_str_match(3)
  by (auto simp: parse_range_def range_str_def range_ok_def split_on_join list_all_iff
      parse_constraints_str [unfolded list_all_iff] make_range_def)

lemma constraint_allows_ok: "constraint_ok c \<Longrightarrow> is_ok (constraint_allows c v)"
  by (auto simp: constraint_ok_def constraint_allows_def)

lemma range_allows_ok: "list_all constraint_ok cs \<Longrightarrow> is_ok (range_allows cs v)"
proof (induction cs)
  case (Cons c cs)
  then show ?case
    using constraint_allows_ok [of c v] by (auto simp: is_ok_def)
qed simp

text \<open>What the printers and parsers of the module rely on: a parsed range is well formed.\<close>

lemma parse_range_bound_ok: "parse_range_bound s = Inr v \<Longrightarrow> version_ok v"
  by (auto simp: parse_range_bound_def make_version_Inr split: list.splits if_splits)

lemma parse_constraints_ok: "parse_constraints w ss = Inr cs \<Longrightarrow> list_all constraint_ok cs \<and> (cs = [] \<longleftrightarrow> ss = [])"
proof (induction ss arbitrary: cs)
  case (Cons s ss)
  from Cons.prems obtain op b v cs' where
    "constraint_match (strip s) = Some (op, b)" "parse_range_bound b = Inr v"
    "parse_constraints w ss = Inr cs'" "cs = VC op v # cs'"
    by (auto simp: Let_def bindE_Inr_iff split: option.splits)
  with Cons.IH show ?case
    by (auto simp: constraint_ok_def constraint_match_def parse_range_bound_ok split: if_splits)
qed simp

lemma parse_range_ok: "parse_range s = Inr cs \<Longrightarrow> range_ok cs"
  by (auto simp: parse_range_def bindE_Inr_iff make_range_def range_ok_def
      dest: parse_constraints_ok split: if_splits)

section \<open>Module manifests\<close>

datatype module_kind = CAPABILITY | CAPTURE_ADAPTER | HARNESS_BRIDGE | PROVIDER | SURFACE

datatype module_audience = END_USER | ADMINISTRATOR | DEVELOPER | INTERNAL

datatype setup_class = AUTOMATIC | GUIDED_PERMISSION | CONFIGURATION | PROJECT_PATCH

datatype runtime_placement =
    API_CONTAINER | WORKER_CONTAINER | HOST_HELPER | DESKTOP_UI | BROWSER_EXTENSION | EXTERNAL_SERVICE

datatype contribution_kind =
    EVENT_EMITTER | HEALTH_CHECK | JOB | MATERIALIZER | MIGRATION | PROPOSAL_KIND
  | QUERY_OPERATION | SEMANTIC_TASK | UI_PANEL | VIEW

fun module_kind_value :: "module_kind \<Rightarrow> string" where
  "module_kind_value CAPABILITY = ''capability''"
| "module_kind_value CAPTURE_ADAPTER = ''capture_adapter''"
| "module_kind_value HARNESS_BRIDGE = ''harness_bridge''"
| "module_kind_value PROVIDER = ''provider''"
| "module_kind_value SURFACE = ''surface''"

fun module_audience_value :: "module_audience \<Rightarrow> string" where
  "module_audience_value END_USER = ''end_user''"
| "module_audience_value ADMINISTRATOR = ''administrator''"
| "module_audience_value DEVELOPER = ''developer''"
| "module_audience_value INTERNAL = ''internal''"

fun setup_class_value :: "setup_class \<Rightarrow> string" where
  "setup_class_value AUTOMATIC = ''automatic''"
| "setup_class_value GUIDED_PERMISSION = ''guided_permission''"
| "setup_class_value CONFIGURATION = ''configuration''"
| "setup_class_value PROJECT_PATCH = ''project_patch''"

fun placement_value :: "runtime_placement \<Rightarrow> string" where
  "placement_value API_CONTAINER = ''api_container''"
| "placement_value WORKER_CONTAINER = ''worker_container''"
| "placement_value HOST_HELPER = ''host_helper''"
| "placement_value DESKTOP_UI = ''desktop_ui''"
| "placement_value BROWSER_EXTENSION = ''browser_extension''"
| "placement_value EXTERNAL_SERVICE = ''external_service''"

fun contribution_kind_value :: "contribution_kind \<Rightarrow> string" where
  "contribution_kind_value EVENT_EMITTER = ''event_emitter''"
| "contribution_kind_value HEALTH_CHECK = ''health_check''"
| "contribution_kind_value JOB = ''job''"
| "contribution_kind_value MATERIALIZER = ''materializer''"
| "contribution_kind_value MIGRATION = ''migration''"
| "contribution_kind_value PROPOSAL_KIND = ''proposal_kind''"
| "contribution_kind_value QUERY_OPERATION = ''query_operation''"
| "contribution_kind_value SEMANTIC_TASK = ''semantic_task''"
| "contribution_kind_value UI_PANEL = ''ui_panel''"
| "contribution_kind_value VIEW = ''view''"

record contribution =
  co_kind :: contribution_kind
  co_identifier :: string

record module_requirement =
  mr_module_id :: string
  mr_version :: version_range

text \<open>\<open>RuntimePlacement | str\<close>: a placement the enum knows, or a string as it came.\<close>

datatype placement_entry = Placement runtime_placement | RawPlacement string

fun placement_entry_value :: "placement_entry \<Rightarrow> string" where
  "placement_entry_value (Placement p) = placement_value p"
| "placement_entry_value (RawPlacement s) = s"

record module_manifest =
  mm_module_id :: string
  mm_version :: semantic_version
  mm_module_api :: int
  mm_kind :: module_kind
  mm_audience :: module_audience
  mm_setup_class :: setup_class
  mm_runtime_placements :: "placement_entry list"
  mm_requires_kernel :: version_range
  mm_requires_modules :: "module_requirement list"
  mm_permissions_read :: "string list"
  mm_permissions_write :: "string list"
  mm_contributions :: "contribution list"
  mm_manifest_schema :: int

definition contribution_payload :: "contribution \<Rightarrow> json" where
  "contribution_payload c =
     JObj [(''kind'', JStr (contribution_kind_value (co_kind c))), (''id'', JStr (co_identifier c))]"

definition requirement_payload :: "module_requirement \<Rightarrow> json" where
  "requirement_payload r =
     JObj [(''id'', JStr (mr_module_id r)), (''version'', JStr (range_str (mr_version r)))]"

definition manifest_payload :: "module_manifest \<Rightarrow> json" where
  "manifest_payload m =
     JObj
       [(''manifest_schema'', JInt (mm_manifest_schema m)),
        (''id'', JStr (mm_module_id m)),
        (''version'', JStr (version_str (mm_version m))),
        (''module_api'', JInt (mm_module_api m)),
        (''kind'', JStr (module_kind_value (mm_kind m))),
        (''audience'', JStr (module_audience_value (mm_audience m))),
        (''setup_class'', JStr (setup_class_value (mm_setup_class m))),
        (''runtime_placements'',
           JList (map (JStr \<circ> placement_entry_value) (mm_runtime_placements m))),
        (''requires'',
           JObj [(''kernel'', JStr (range_str (mm_requires_kernel m))),
                    (''modules'', JList (map requirement_payload (mm_requires_modules m)))]),
        (''permissions'',
           JObj [(''reads'', JList (map JStr (mm_permissions_read m))),
                    (''writes'', JList (map JStr (mm_permissions_write m)))]),
        (''contributions'', JList (map contribution_payload (mm_contributions m)))]"

definition MANIFEST_SCHEMA_VERSION :: int where "MANIFEST_SCHEMA_VERSION = 1"

definition SUPPORTED_MODULE_API :: int where "SUPPORTED_MODULE_API = 1"

end
