(* ===== verification/HostProtocol.thy ===== *)
theory HostProtocol
  imports Manifest
begin

text \<open>
  \<open>application/capture/host_protocol.py\<close>: the wire models between the capture loops and
  the host helper. Each model is a record, its pydantic constructor a function
  \<open>make_...\<close> that returns the instance or the first error in field order and then in the
  order of its validator. \<open>Literal\<close> fields with one value are not stored; the JSON
  functions write them. \<open>Path\<close> is the POSIX flavour of \<open>pathlib\<close>.
\<close>

section \<open>Bounds, statuses and identities\<close>

definition HOST_HELPER_MAX_REQUEST_BYTES :: nat where "HOST_HELPER_MAX_REQUEST_BYTES = 16384"
definition HOST_HELPER_MAX_RESPONSE_BYTES :: nat where "HOST_HELPER_MAX_RESPONSE_BYTES = 393216"
definition HOST_HELPER_MAX_READ_BYTES :: nat where "HOST_HELPER_MAX_READ_BYTES = 262144"
definition HOST_HELPER_MAX_CAPABILITIES :: nat where "HOST_HELPER_MAX_CAPABILITIES = 32"

lemmas host_bounds =
  HOST_HELPER_MAX_REQUEST_BYTES_def HOST_HELPER_MAX_RESPONSE_BYTES_def
  HOST_HELPER_MAX_READ_BYTES_def HOST_HELPER_MAX_CAPABILITIES_def

datatype host_read_status =
    HR_DATA | HR_END_OF_FILE | HR_PERMISSION_REVOKED | HR_PERMISSION_DENIED
  | HR_SOURCE_UNAVAILABLE | HR_TRUNCATED | HR_ROTATED_OR_REPLACED | HR_IDENTITY_DRIFT

fun host_read_status_value :: "host_read_status \<Rightarrow> string" where
  "host_read_status_value HR_DATA = ''data''"
| "host_read_status_value HR_END_OF_FILE = ''end_of_file''"
| "host_read_status_value HR_PERMISSION_REVOKED = ''permission_revoked''"
| "host_read_status_value HR_PERMISSION_DENIED = ''permission_denied''"
| "host_read_status_value HR_SOURCE_UNAVAILABLE = ''source_unavailable''"
| "host_read_status_value HR_TRUNCATED = ''truncated''"
| "host_read_status_value HR_ROTATED_OR_REPLACED = ''rotated_or_replaced''"
| "host_read_status_value HR_IDENTITY_DRIFT = ''identity_drift''"

datatype host_helper_state = HH_READY | HH_STOPPING

fun host_helper_state_value :: "host_helper_state \<Rightarrow> string" where
  "host_helper_state_value HH_READY = ''ready''"
| "host_helper_state_value HH_STOPPING = ''stopping''"

record file_identity =
  fi_platform :: string
  fi_device :: nat
  fi_inode :: nat
  fi_birth_time_ns :: "nat option"

definition make_file_identity :: "file_identity \<Rightarrow> file_identity result" where
  "make_file_identity f =
     validated [raise_if (\<not> text_field 1 32 (fi_platform f)) (FieldError ''platform'')] f"

definition stable_key :: "file_identity \<Rightarrow> string" where
  "stable_key f =
     (let birth = (case fi_birth_time_ns f of Some t \<Rightarrow> str_nat t | None \<Rightarrow> ''unknown'')
      in fi_platform f @ '':'' @ str_nat (fi_device f) @ '':'' @ str_nat (fi_inode f) @ '':'' @ birth)"

section \<open>Approved sources\<close>

text \<open>\<open>PurePosixPath\<close>: a root of zero, one or exactly two slashes and its proper parts.\<close>

definition path_root :: "string \<Rightarrow> string" where
  "path_root s =
     (if take 1 s \<noteq> ''/'' then ''''
      else if take 2 s = ''//'' \<and> take 3 s \<noteq> ''///'' then ''//''
      else ''/'')"

definition path_names :: "string \<Rightarrow> string list" where
  "path_names s = filter (\<lambda>p. p \<noteq> '''' \<and> p \<noteq> ''.'') (split_on (CHR ''/'') s)"

definition path_parts :: "string \<Rightarrow> string list" where
  "path_parts s = (if path_root s = '''' then [] else [path_root s]) @ path_names s"

definition path_str :: "string \<Rightarrow> string" where
  "path_str s = (if path_parts s = [] then ''.'' else path_root s @ join ''/'' (path_names s))"

definition path_is_absolute :: "string \<Rightarrow> bool" where
  "path_is_absolute s \<longleftrightarrow> path_root s \<noteq> ''''"

record approved_source_grant =
  ag_capability_id :: string
  ag_approved_root :: string
  ag_relative_source :: string
  ag_credential_sha256 :: string

definition make_approved_source_grant :: "approved_source_grant \<Rightarrow> approved_source_grant result" where
  "make_approved_source_grant g =
     validated
       [raise_if (\<not> identifier_field 128 (ag_capability_id g)) (FieldError ''capability_id''),
        raise_if (\<not> text_field 1 4096 (ag_approved_root g)) (FieldError ''approved_root''),
        raise_if (\<not> text_field 1 4096 (ag_relative_source g)) (FieldError ''relative_source''),
        raise_if (\<not> is_sha256 (ag_credential_sha256 g)) (FieldError ''credential_sha256''),
        raise_if (CHR 0x00 \<in> set (ag_approved_root g) \<or> CHR 0x00 \<in> set (ag_relative_source g))
          (ValueError ''approved source paths cannot contain NUL''),
        raise_if (\<not> path_is_absolute (ag_approved_root g))
          (ValueError ''approved_root must be absolute on the helper host''),
        raise_if (path_str (ag_approved_root g) \<noteq> ag_approved_root g
            \<or> ''..'' \<in> set (path_parts (ag_approved_root g)))
          (ValueError ''approved_root must use normalized absolute syntax''),
        raise_if (CHR 0x5C \<in> set (ag_relative_source g))
          (ValueError ''relative_source must use protocol forward slashes''),
        raise_if (path_is_absolute (ag_relative_source g)
            \<or> list_ex (\<lambda>p. p \<in> {'''', ''.'', ''..''}) (path_parts (ag_relative_source g)))
          (ValueError ''relative_source must stay beneath its approved root''),
        raise_if (path_str (ag_relative_source g) \<noteq> ag_relative_source g)
          (ValueError ''relative_source must use normalized protocol syntax'')]
       g"

text \<open>
  The file the helper opens, resolved lexically from the root: \<open>..\<close> leaves the current
  directory, every other part enters one.
\<close>

fun lexical_walk :: "string list \<Rightarrow> string list \<Rightarrow> string list" where
  "lexical_walk here [] = here"
| "lexical_walk here (p # ps) =
     (if p = ''..'' then lexical_walk (butlast here) ps
      else if p \<in> {'''', ''.''} then lexical_walk here ps
      else lexical_walk (here @ [p]) ps)"

lemma lexical_walk_plain:
  "list_all (\<lambda>p. p \<notin> {'''', ''.'', ''..''}) ps \<Longrightarrow> lexical_walk here ps = here @ ps"
  by (induction ps arbitrary: here) auto

lemma path_names_plain: "p \<in> set (path_names s) \<Longrightarrow> p \<noteq> '''' \<and> p \<noteq> ''.''"
  by (simp add: path_names_def)

lemma grant_checks:
  assumes "make_approved_source_grant g = Inr g'"
  shows "path_is_absolute (ag_approved_root g)"
    and "path_str (ag_approved_root g) = ag_approved_root g"
    and "''..'' \<notin> set (path_parts (ag_approved_root g))"
    and "\<not> path_is_absolute (ag_relative_source g)"
    and "\<not> list_ex (\<lambda>p. p \<in> {'''', ''.'', ''..''}) (path_parts (ag_relative_source g))"
    and "path_str (ag_relative_source g) = ag_relative_source g"
  using assms unfolding make_approved_source_grant_def validated_Inr list.set ball_simps raise_if_None
  by blast+

lemma path_names_parts: "set (path_names s) \<subseteq> set (path_parts s)"
  by (auto simp: path_parts_def)

lemma grant_paths_confined:
  assumes "make_approved_source_grant g = Inr g'"
  shows "lexical_walk [] (path_names (ag_approved_root g) @ path_names (ag_relative_source g))
           = path_names (ag_approved_root g) @ path_names (ag_relative_source g)"
    and "path_root (ag_approved_root g) @ join ''/'' (path_names (ag_approved_root g)) = ag_approved_root g"
    and "path_names (ag_relative_source g) = [] \<or> join ''/'' (path_names (ag_relative_source g)) = ag_relative_source g"
proof -
  note c = grant_checks [OF assms]
  have "p \<notin> {'''', ''.'', ''..''}"
    if "p \<in> set (path_names (ag_approved_root g) @ path_names (ag_relative_source g))" for p
    using that c(3,5) path_names_plain path_names_parts unfolding list_ex_iff set_append by blast
  then show "lexical_walk [] (path_names (ag_approved_root g) @ path_names (ag_relative_source g))
      = path_names (ag_approved_root g) @ path_names (ag_relative_source g)"
    using lexical_walk_plain [of "path_names (ag_approved_root g) @ path_names (ag_relative_source g)" "[]"]
    unfolding list_all_iff append_Nil by blast
  have "path_parts (ag_approved_root g) \<noteq> []"
    using c(1) by (simp add: path_parts_def path_is_absolute_def)
  with c(2) show "path_root (ag_approved_root g) @ join ''/'' (path_names (ag_approved_root g)) = ag_approved_root g"
    by (simp add: path_str_def)
  show "path_names (ag_relative_source g) = [] \<or> join ''/'' (path_names (ag_relative_source g)) = ag_relative_source g"
    using c(4,6) by (auto simp: path_str_def path_is_absolute_def path_parts_def split: if_split_asm)
qed

section \<open>Requests\<close>

record host_helper_bootstrap_request =
  hb_request_id :: uuid
  hb_session_id :: uuid
  hb_capabilities :: "approved_source_grant list"

definition make_host_helper_bootstrap_request ::
  "host_helper_bootstrap_request \<Rightarrow> host_helper_bootstrap_request result" where
  "make_host_helper_bootstrap_request r =
     validated
       [nested_list make_approved_source_grant (hb_capabilities r),
        raise_if (hb_capabilities r = [] \<or> length (hb_capabilities r) > HOST_HELPER_MAX_CAPABILITIES)
          (FieldError ''capabilities''),
        raise_if (\<not> distinct (map ag_capability_id (hb_capabilities r)))
          (ValueError ''host helper capability IDs must be unique'')]
       r"

record host_read_request =
  rq_request_id :: uuid
  rq_capability_id :: string
  rq_capability_credential :: string
  rq_expected_identity :: "file_identity option"
  rq_byte_offset :: nat
  rq_max_bytes :: nat

definition make_host_read_request :: "host_read_request \<Rightarrow> host_read_request result" where
  "make_host_read_request r =
     validated
       [raise_if (\<not> identifier_field 128 (rq_capability_id r)) (FieldError ''capability_id''),
        raise_if (\<not> text_field 32 256 (rq_capability_credential r)) (FieldError ''capability_credential''),
        nested_opt make_file_identity (rq_expected_identity r),
        raise_if (rq_max_bytes r < 1 \<or> rq_max_bytes r > HOST_HELPER_MAX_READ_BYTES)
          (FieldError ''max_bytes'')]
       r"

datatype host_protocol_request =
    ReadRequest host_read_request
  | HealthRequest uuid
  | ShutdownRequest uuid

section \<open>Responses\<close>

record host_read_response =
  rs_request_id :: uuid
  rs_status :: host_read_status
  rs_file_identity :: "file_identity option"
  rs_start_offset :: nat
  rs_end_offset :: nat
  rs_observed_size :: nat
  rs_data_base64 :: string
  rs_data_sha256 :: string
  rs_end_of_file :: bool
  rs_diagnostic_code :: "string option"

definition bounded_read_checks :: "hash \<Rightarrow> host_read_response \<Rightarrow> bytes \<Rightarrow> py_error option list" where
  "bounded_read_checks H r payload =
     [raise_if (length payload > HOST_HELPER_MAX_READ_BYTES)
        (ValueError ''host helper response exceeds the read bound''),
      raise_if (H payload \<noteq> rs_data_sha256 r)
        (ValueError ''host helper response hash does not match its bytes''),
      raise_if (rs_end_offset r \<noteq> rs_start_offset r + length payload)
        (ValueError ''host helper response offsets do not bind its bytes'')]
     @ (if rs_status r \<in> {HR_DATA, HR_END_OF_FILE} then
          [raise_if (rs_file_identity r = None)
             (ValueError ''successful host reads require file identity''),
           raise_if (rs_end_offset r > rs_observed_size r)
             (ValueError ''successful host read exceeds observed file size''),
           raise_if (rs_end_of_file r \<and> rs_end_offset r \<noteq> rs_observed_size r)
             (ValueError ''end-of-file flag must bind the observed file size'')]
        else
          [raise_if (payload \<noteq> []) (ValueError ''failed host reads cannot disclose source bytes'')])
     @ [raise_if (rs_status r = HR_DATA \<and> payload = []) (ValueError ''data response requires source bytes''),
        raise_if (rs_status r = HR_END_OF_FILE \<and> payload \<noteq> [])
          (ValueError ''end-of-file response cannot contain bytes''),
        raise_if (rs_status r = HR_END_OF_FILE \<and> \<not> rs_end_of_file r)
          (ValueError ''end-of-file status requires its terminal flag'')]"

definition make_host_read_response :: "hash \<Rightarrow> host_read_response \<Rightarrow> host_read_response result" where
  "make_host_read_response H r =
     validated
       ([nested_opt make_file_identity (rs_file_identity r),
         raise_if (length (rs_data_base64 r) > 349528) (FieldError ''data_base64''),
         raise_if (\<not> is_sha256 (rs_data_sha256 r)) (FieldError ''data_sha256''),
         raise_if (\<not> opt_field (identifier_field 128) (rs_diagnostic_code r)) (FieldError ''diagnostic_code'')]
        @ (case b64decode (rs_data_base64 r) of
             None \<Rightarrow> [Some (ValueError ''host helper response data must be canonical base64'')]
           | Some payload \<Rightarrow> bounded_read_checks H r payload))
       r"

definition host_data :: "host_read_response \<Rightarrow> bytes" where
  "host_data r = (case b64decode (rs_data_base64 r) of None \<Rightarrow> [] | Some payload \<Rightarrow> payload)"

record host_health_response =
  hh_request_id :: uuid
  hh_session_id :: uuid
  hh_state :: host_helper_state
  hh_configured_capabilities :: nat
  hh_revoked_capabilities :: nat
  hh_last_read_request_id :: "uuid option"
  hh_last_read_status :: "host_read_status option"

definition make_host_health_response :: "host_health_response \<Rightarrow> host_health_response result" where
  "make_host_health_response r =
     validated
       [raise_if (hh_configured_capabilities r > HOST_HELPER_MAX_CAPABILITIES)
          (FieldError ''configured_capabilities''),
        raise_if (hh_revoked_capabilities r > HOST_HELPER_MAX_CAPABILITIES)
          (FieldError ''revoked_capabilities'')]
       r"

record host_bootstrap_response =
  br_request_id :: uuid
  br_session_id :: uuid
  br_configured_capabilities :: nat

definition make_host_bootstrap_response :: "host_bootstrap_response \<Rightarrow> host_bootstrap_response result" where
  "make_host_bootstrap_response r =
     validated
       [raise_if (br_configured_capabilities r < 1
            \<or> br_configured_capabilities r > HOST_HELPER_MAX_CAPABILITIES)
          (FieldError ''configured_capabilities'')]
       r"

record host_shutdown_response =
  sd_request_id :: uuid
  sd_session_id :: uuid

datatype host_protocol_response =
    BootstrapResponse host_bootstrap_response
  | ReadResponse host_read_response
  | HealthResponse host_health_response
  | ShutdownResponse host_shutdown_response

section \<open>Messages\<close>

definition file_identity_json :: "file_identity \<Rightarrow> json" where
  "file_identity_json f =
     JObj [(''platform'', JStr (fi_platform f)), (''device'', j_nat (fi_device f)),
           (''inode'', j_nat (fi_inode f)), (''birth_time_ns'', j_opt j_nat (fi_birth_time_ns f))]"

fun request_json :: "host_protocol_request \<Rightarrow> json" where
  "request_json (ReadRequest r) =
     JObj [(''protocol_version'', JInt 1), (''operation'', JStr ''read_append''),
           (''request_id'', j_uuid (rq_request_id r)), (''capability_id'', JStr (rq_capability_id r)),
           (''capability_credential'', JStr (rq_capability_credential r)),
           (''expected_identity'', j_opt file_identity_json (rq_expected_identity r)),
           (''byte_offset'', j_nat (rq_byte_offset r)), (''max_bytes'', j_nat (rq_max_bytes r))]"
| "request_json (HealthRequest u) =
     JObj [(''protocol_version'', JInt 1), (''operation'', JStr ''health''), (''request_id'', j_uuid u)]"
| "request_json (ShutdownRequest u) =
     JObj [(''protocol_version'', JInt 1), (''operation'', JStr ''shutdown''), (''request_id'', j_uuid u)]"

fun response_json :: "host_protocol_response \<Rightarrow> json" where
  "response_json (ReadResponse r) =
     JObj [(''protocol_version'', JInt 1), (''response_kind'', JStr ''read''),
           (''request_id'', j_uuid (rs_request_id r)),
           (''status'', JStr (host_read_status_value (rs_status r))),
           (''file_identity'', j_opt file_identity_json (rs_file_identity r)),
           (''start_offset'', j_nat (rs_start_offset r)), (''end_offset'', j_nat (rs_end_offset r)),
           (''observed_size'', j_nat (rs_observed_size r)),
           (''data_base64'', JStr (rs_data_base64 r)), (''data_sha256'', JStr (rs_data_sha256 r)),
           (''end_of_file'', JBool (rs_end_of_file r)),
           (''diagnostic_code'', j_opt JStr (rs_diagnostic_code r))]"
| "response_json (HealthResponse r) =
     JObj [(''protocol_version'', JInt 1), (''response_kind'', JStr ''health''),
           (''request_id'', j_uuid (hh_request_id r)), (''session_id'', j_uuid (hh_session_id r)),
           (''state'', JStr (host_helper_state_value (hh_state r))),
           (''configured_capabilities'', j_nat (hh_configured_capabilities r)),
           (''revoked_capabilities'', j_nat (hh_revoked_capabilities r)),
           (''last_read_request_id'', j_opt (\<lambda>u. j_uuid u) (hh_last_read_request_id r)),
           (''last_read_status'', j_opt (JStr \<circ> host_read_status_value) (hh_last_read_status r))]"
| "response_json (BootstrapResponse r) =
     JObj [(''protocol_version'', JInt 1), (''response_kind'', JStr ''initialize''),
           (''request_id'', j_uuid (br_request_id r)), (''session_id'', j_uuid (br_session_id r)),
           (''state'', JStr ''ready''),
           (''configured_capabilities'', j_nat (br_configured_capabilities r))]"
| "response_json (ShutdownResponse r) =
     JObj [(''protocol_version'', JInt 1), (''response_kind'', JStr ''shutdown''),
           (''request_id'', j_uuid (sd_request_id r)), (''session_id'', j_uuid (sd_session_id r)),
           (''state'', JStr ''stopping'')]"

definition credential_sha256 :: "hash \<Rightarrow> string \<Rightarrow> string" where
  "credential_sha256 H credential = H (utf8 credential)"

text \<open>
  The JSON validators are pydantic's \<open>TypeAdapter\<close>s: parameters of the parsers.
\<close>

definition parse_bootstrap_request ::
  "(bytes \<Rightarrow> host_helper_bootstrap_request result) \<Rightarrow> bytes \<Rightarrow> host_helper_bootstrap_request result" where
  "parse_bootstrap_request validate_json payload =
     (if length payload > HOST_HELPER_MAX_REQUEST_BYTES
      then Inl (ValueError ''host helper bootstrap exceeds the protocol bound'')
      else bindE (validate_json payload) make_host_helper_bootstrap_request)"

definition parse_protocol_request ::
  "(bytes \<Rightarrow> host_protocol_request result) \<Rightarrow> bytes \<Rightarrow> host_protocol_request result" where
  "parse_protocol_request validate_json payload =
     (if length payload > HOST_HELPER_MAX_REQUEST_BYTES
      then Inl (ValueError ''host helper request exceeds the protocol bound'')
      else validate_json payload)"

definition parse_protocol_response ::
  "(bytes \<Rightarrow> host_protocol_response result) \<Rightarrow> bytes \<Rightarrow> host_protocol_response result" where
  "parse_protocol_response validate_json payload =
     (if length payload > HOST_HELPER_MAX_RESPONSE_BYTES
      then Inl (ValueError ''host helper response exceeds the protocol bound'')
      else validate_json payload)"

definition encode_protocol_message :: "json \<Rightarrow> bytes result" where
  "encode_protocol_message message =
     (let payload = canonical_json_bytes message
      in if length payload > HOST_HELPER_MAX_RESPONSE_BYTES
         then Inl (ValueError ''host helper protocol message exceeds the response bound'')
         else Inr payload)"

section \<open>What a response that validates says\<close>

lemma read_response_binds:
  assumes "make_host_read_response H r = Inr r'"
  shows "r' = r"
    and "b64decode (rs_data_base64 r) = Some (host_data r)"
    and "length (host_data r) \<le> HOST_HELPER_MAX_READ_BYTES"
    and "H (host_data r) = rs_data_sha256 r"
    and "rs_end_offset r = rs_start_offset r + length (host_data r)"
    and "rs_status r = HR_DATA \<longleftrightarrow> host_data r \<noteq> []"
    and "rs_status r = HR_END_OF_FILE \<Longrightarrow> rs_end_offset r = rs_observed_size r"
    and "rs_status r \<in> {HR_DATA, HR_END_OF_FILE} \<Longrightarrow>
           rs_end_offset r \<le> rs_observed_size r \<and> (\<exists>f. rs_file_identity r = Some f \<and> is_ok (make_file_identity f))"
  using assms
  by (auto simp: make_host_read_response_def bounded_read_checks_def host_data_def
      split: option.splits if_splits)

end
