(* ===== verification/SourceRange.thy ===== *)
theory SourceRange
  imports HostProtocol
begin

text \<open>
  \<open>application/capture/source_range.py\<close>: exact source ranges and their chunks, the command
  builder, the durable receipt, the raw cursor and \<open>RawSourceCaptureLoop\<close>. The three
  ports of the loop and \<open>uuid4\<close> are the fields of \<open>raw_ports\<close>, over a world \<open>'w\<close>.
  The bytes of a range tile it: \<open>interval_store\<close> is interpreted on the chunks.
\<close>

section \<open>Ranges, chunks and checkpoints\<close>

datatype capture_surface =
    SURFACE_ARTIFACT | SURFACE_LIVE_HOOK | SURFACE_HARNESS | SURFACE_BROWSER | SURFACE_IMPORT
  | SURFACE_EXPLICIT_CHECKPOINT | SURFACE_SYNTHETIC

fun capture_surface_value :: "capture_surface \<Rightarrow> string" where
  "capture_surface_value SURFACE_ARTIFACT = ''artifact''"
| "capture_surface_value SURFACE_LIVE_HOOK = ''live_hook''"
| "capture_surface_value SURFACE_HARNESS = ''harness''"
| "capture_surface_value SURFACE_BROWSER = ''browser''"
| "capture_surface_value SURFACE_IMPORT = ''import''"
| "capture_surface_value SURFACE_EXPLICIT_CHECKPOINT = ''explicit_checkpoint''"
| "capture_surface_value SURFACE_SYNTHETIC = ''synthetic''"

record kernel_capture_binding =
  kb_tenant_id :: uuid
  kb_workspace_id :: uuid
  kb_access_scope_id :: uuid
  kb_source_object_id :: uuid
  kb_expected_source_object_schema_version :: nat

definition make_kernel_capture_binding :: "kernel_capture_binding \<Rightarrow> kernel_capture_binding result" where
  "make_kernel_capture_binding b =
     validated
       [raise_if (kb_expected_source_object_schema_version b < 1)
          (FieldError ''expected_source_object_schema_version'')]
       b"

definition SOURCE_RANGE_CHUNK_MAX_BYTES :: nat where "SOURCE_RANGE_CHUNK_MAX_BYTES = 65536"
definition SOURCE_RANGE_TRANSACTION_MAX_BYTES :: nat where
  "SOURCE_RANGE_TRANSACTION_MAX_BYTES = HOST_HELPER_MAX_READ_BYTES"
definition SOURCE_RANGE_TRANSACTION_MAX_CHUNKS :: nat where "SOURCE_RANGE_TRANSACTION_MAX_CHUNKS = 256"
definition SOURCE_RANGE_COMMAND_MAX_BYTES :: nat where "SOURCE_RANGE_COMMAND_MAX_BYTES = 786432"

lemmas range_bounds =
  SOURCE_RANGE_CHUNK_MAX_BYTES_def SOURCE_RANGE_TRANSACTION_MAX_BYTES_def
  SOURCE_RANGE_TRANSACTION_MAX_CHUNKS_def SOURCE_RANGE_COMMAND_MAX_BYTES_def host_bounds

datatype raw_source_capture_status =
    RC_CAPTURED | RC_END_OF_FILE | RC_PAUSED | RC_PERMISSION_REVOKED | RC_SOURCE_UNAVAILABLE
  | RC_IDENTITY_CHANGED

record source_range_policy_references =
  sp_capture_policy_id :: string
  sp_retention_policy_ref :: string

definition make_policy_references ::
  "source_range_policy_references \<Rightarrow> source_range_policy_references result" where
  "make_policy_references p =
     validated
       [raise_if (\<not> identifier_field 128 (sp_capture_policy_id p)) (FieldError ''capture_policy_id''),
        raise_if (\<not> text_field 1 256 (sp_retention_policy_ref p)) (FieldError ''retention_policy_ref'')]
       p"

record captured_chunk =
  sc_chunk_ordinal :: nat
  sc_byte_start :: nat
  sc_byte_end_exclusive :: nat
  sc_payload_byte_count :: nat
  sc_payload_sha256 :: string
  sc_payload_hex :: string

definition chunk_payload :: "captured_chunk \<Rightarrow> bytes" where
  "chunk_payload c = (case fromhex (sc_payload_hex c) of None \<Rightarrow> [] | Some p \<Rightarrow> p)"

text \<open>The pattern \<open>(?:[a-f0-9]{2})+\<close> with its length bounds.\<close>

definition hex_field :: "string \<Rightarrow> bool" where
  "hex_field s \<longleftrightarrow> text_field 2 (SOURCE_RANGE_CHUNK_MAX_BYTES * 2) s \<and> fromhex s \<noteq> None"

definition make_captured_chunk :: "hash \<Rightarrow> captured_chunk \<Rightarrow> captured_chunk result" where
  "make_captured_chunk H c =
     validated
       [raise_if (sc_chunk_ordinal c > SOURCE_RANGE_TRANSACTION_MAX_CHUNKS - 1) (FieldError ''chunk_ordinal''),
        raise_if (sc_byte_end_exclusive c = 0) (FieldError ''byte_end_exclusive''),
        raise_if (sc_payload_byte_count c < 1 \<or> sc_payload_byte_count c > SOURCE_RANGE_CHUNK_MAX_BYTES)
          (FieldError ''payload_byte_count''),
        raise_if (\<not> is_sha256 (sc_payload_sha256 c)) (FieldError ''payload_sha256''),
        raise_if (\<not> hex_field (sc_payload_hex c)) (FieldError ''payload_hex''),
        raise_if (sc_byte_end_exclusive c \<le> sc_byte_start c)
          (ValueError ''source-range chunk must have a non-empty byte range''),
        raise_if (sc_byte_end_exclusive c - sc_byte_start c \<noteq> sc_payload_byte_count c)
          (ValueError ''source-range chunk byte count must match its range''),
        raise_if (length (chunk_payload c) \<noteq> sc_payload_byte_count c)
          (ValueError ''source-range chunk byte count must match its payload''),
        raise_if (H (chunk_payload c) \<noteq> sc_payload_sha256 c)
          (ValueError ''source-range chunk hash must match its exact payload'')]
       c"

record byte_checkpoint =
  bc_checkpoint_key :: string
  bc_expected_sequence :: nat
  bc_next_sequence :: nat
  bc_expected_byte_offset :: nat
  bc_next_byte_offset :: nat
  bc_file_identity_key :: string
  bc_checkpoint_hash :: string

definition make_byte_checkpoint :: "byte_checkpoint \<Rightarrow> byte_checkpoint result" where
  "make_byte_checkpoint c =
     validated
       [raise_if (\<not> identifier_field 128 (bc_checkpoint_key c)) (FieldError ''checkpoint_key''),
        raise_if (bc_next_sequence c < 1) (FieldError ''next_sequence''),
        raise_if (bc_next_byte_offset c = 0) (FieldError ''next_byte_offset''),
        raise_if (\<not> text_field 1 256 (bc_file_identity_key c)) (FieldError ''file_identity_key''),
        raise_if (\<not> is_sha256 (bc_checkpoint_hash c)) (FieldError ''checkpoint_hash''),
        raise_if (bc_next_sequence c \<noteq> bc_expected_sequence c + 1)
          (ValueError ''source-byte checkpoint must advance exactly once''),
        raise_if (bc_next_byte_offset c \<le> bc_expected_byte_offset c)
          (ValueError ''source-byte checkpoint must advance bytes'')]
       c"

section \<open>The capture command\<close>

record range_command =
  rc_idempotency_key :: string
  rc_binding :: kernel_capture_binding
  rc_capability_id :: string
  rc_connector_id :: string
  rc_observed_connector_version :: "string option"
  rc_capture_surface :: capture_surface
  rc_source_revision_key :: string
  rc_file_identity :: file_identity
  rc_file_identity_key :: string
  rc_observed_source_format_version :: "string option"
  rc_byte_start :: nat
  rc_byte_end_exclusive :: nat
  rc_payload_byte_count :: nat
  rc_payload_sha256 :: string
  rc_chunks :: "captured_chunk list"
  rc_policies :: source_range_policy_references
  rc_checkpoint :: byte_checkpoint

definition binding_json :: "kernel_capture_binding \<Rightarrow> json" where
  "binding_json b =
     JObj [(''tenant_id'', j_uuid (kb_tenant_id b)), (''workspace_id'', j_uuid (kb_workspace_id b)),
           (''access_scope_id'', j_uuid (kb_access_scope_id b)),
           (''source_object_id'', j_uuid (kb_source_object_id b)),
           (''expected_source_object_schema_version'',
              j_nat (kb_expected_source_object_schema_version b))]"

definition chunk_json :: "captured_chunk \<Rightarrow> json" where
  "chunk_json c =
     JObj [(''chunk_ordinal'', j_nat (sc_chunk_ordinal c)), (''byte_start'', j_nat (sc_byte_start c)),
           (''byte_end_exclusive'', j_nat (sc_byte_end_exclusive c)),
           (''payload_byte_count'', j_nat (sc_payload_byte_count c)),
           (''payload_sha256'', JStr (sc_payload_sha256 c)), (''payload_hex'', JStr (sc_payload_hex c))]"

definition checkpoint_json :: "byte_checkpoint \<Rightarrow> json" where
  "checkpoint_json c =
     JObj [(''checkpoint_key'', JStr (bc_checkpoint_key c)),
           (''expected_sequence'', j_nat (bc_expected_sequence c)),
           (''next_sequence'', j_nat (bc_next_sequence c)),
           (''expected_byte_offset'', j_nat (bc_expected_byte_offset c)),
           (''next_byte_offset'', j_nat (bc_next_byte_offset c)),
           (''file_identity_key'', JStr (bc_file_identity_key c)),
           (''checkpoint_hash'', JStr (bc_checkpoint_hash c))]"

definition policies_json :: "source_range_policy_references \<Rightarrow> json" where
  "policies_json p =
     JObj [(''capture_policy_id'', JStr (sp_capture_policy_id p)),
           (''retention_policy_ref'', JStr (sp_retention_policy_ref p))]"

definition range_command_json :: "range_command \<Rightarrow> json" where
  "range_command_json c =
     JObj [(''contract_version'', JInt 1), (''expected_schema_version'', JInt 13),
           (''operation'', JStr ''capture_source_range''),
           (''idempotency_key'', JStr (rc_idempotency_key c)), (''binding'', binding_json (rc_binding c)),
           (''capability_id'', JStr (rc_capability_id c)), (''connector_id'', JStr (rc_connector_id c)),
           (''observed_connector_version'', j_opt JStr (rc_observed_connector_version c)),
           (''capture_surface'', JStr (capture_surface_value (rc_capture_surface c))),
           (''source_revision_key'', JStr (rc_source_revision_key c)),
           (''file_identity'', file_identity_json (rc_file_identity c)),
           (''file_identity_key'', JStr (rc_file_identity_key c)),
           (''observed_source_format_version'', j_opt JStr (rc_observed_source_format_version c)),
           (''byte_start'', j_nat (rc_byte_start c)),
           (''byte_end_exclusive'', j_nat (rc_byte_end_exclusive c)),
           (''payload_byte_count'', j_nat (rc_payload_byte_count c)),
           (''payload_sha256'', JStr (rc_payload_sha256 c)),
           (''chunks'', JList (map chunk_json (rc_chunks c))),
           (''policies'', policies_json (rc_policies c)),
           (''checkpoint'', checkpoint_json (rc_checkpoint c))]"

definition range_command_canonical_bytes :: "range_command \<Rightarrow> bytes" where
  "range_command_canonical_bytes c = canonical_json_bytes (range_command_json c)"

definition range_command_canonical_hash :: "hash \<Rightarrow> range_command \<Rightarrow> string" where
  "range_command_canonical_hash H c = canonical_sha256 H (range_command_json c)"

definition checkpoint_binding ::
  "hash \<Rightarrow> string \<Rightarrow> nat \<Rightarrow> nat \<Rightarrow> nat \<Rightarrow> nat \<Rightarrow> string \<Rightarrow> string \<Rightarrow> string" where
  "checkpoint_binding H key expected next_seq start stop identity_key payload_sha =
     H (utf8 (key @ '':'' @ str_nat expected @ '':'' @ str_nat next_seq @ '':'' @ str_nat start
              @ '':'' @ str_nat stop @ '':'' @ identity_key @ '':'' @ payload_sha))"

text \<open>The loop over \<open>enumerate(self.chunks)\<close>; it returns where the last chunk ended.\<close>

fun chunk_walk :: "nat \<Rightarrow> nat \<Rightarrow> captured_chunk list \<Rightarrow> py_error + nat" where
  "chunk_walk ordinal start [] = Inr start"
| "chunk_walk ordinal start (c # cs) =
     (if sc_chunk_ordinal c \<noteq> ordinal
      then Inl (ValueError ''source-range chunks must use contiguous ordinals'')
      else if sc_byte_start c \<noteq> start
      then Inl (ValueError ''source-range chunks must be byte contiguous'')
      else chunk_walk (ordinal + 1) (sc_byte_end_exclusive c) cs)"

definition range_command_checks :: "hash \<Rightarrow> range_command \<Rightarrow> py_error option list" where
  "range_command_checks H c =
     [raise_if (rc_file_identity_key c \<noteq> stable_key (rc_file_identity c))
        (ValueError ''source-range file identity key must be mechanical''),
      raise_if (rc_byte_end_exclusive c \<le> rc_byte_start c) (ValueError ''source range must be non-empty''),
      raise_if (rc_byte_end_exclusive c - rc_byte_start c \<noteq> rc_payload_byte_count c)
        (ValueError ''source-range byte count must match its range''),
      raise_if (bc_expected_byte_offset (rc_checkpoint c) \<noteq> rc_byte_start c)
        (ValueError ''source-range checkpoint must begin at the range start''),
      raise_if (bc_next_byte_offset (rc_checkpoint c) \<noteq> rc_byte_end_exclusive c)
        (ValueError ''source-range checkpoint must end at the range end''),
      raise_if (bc_file_identity_key (rc_checkpoint c) \<noteq> rc_file_identity_key c)
        (ValueError ''source-range checkpoint must bind file identity''),
      raise_if (bc_checkpoint_hash (rc_checkpoint c) \<noteq>
          checkpoint_binding H (bc_checkpoint_key (rc_checkpoint c))
            (bc_expected_sequence (rc_checkpoint c)) (bc_next_sequence (rc_checkpoint c))
            (rc_byte_start c) (rc_byte_end_exclusive c) (rc_file_identity_key c) (rc_payload_sha256 c))
        (ValueError ''source-range checkpoint hash must bind its range'')]
     @ (case chunk_walk 0 (rc_byte_start c) (rc_chunks c) of
          Inl e \<Rightarrow> [Some e]
        | Inr end_at \<Rightarrow>
            [raise_if (end_at \<noteq> rc_byte_end_exclusive c)
               (ValueError ''source-range chunks must cover the declared range''),
             raise_if (sum_list (map sc_payload_byte_count (rc_chunks c)) \<noteq> rc_payload_byte_count c)
               (ValueError ''source-range chunks must cover the declared byte count''),
             raise_if (H (concat (map chunk_payload (rc_chunks c))) \<noteq> rc_payload_sha256 c)
               (ValueError ''source-range hash must match its exact chunk payloads''),
             raise_if (length (range_command_canonical_bytes c) > SOURCE_RANGE_COMMAND_MAX_BYTES)
               (ValueError ''source-range command exceeds its canonical byte bound'')])"

definition make_range_command :: "hash \<Rightarrow> range_command \<Rightarrow> range_command result" where
  "make_range_command H c =
     validated
       ([raise_if (\<not> text_field 1 512 (rc_idempotency_key c)) (FieldError ''idempotency_key''),
         nested (make_kernel_capture_binding (rc_binding c)),
         raise_if (\<not> identifier_field 128 (rc_capability_id c)) (FieldError ''capability_id''),
         raise_if (\<not> identifier_field 128 (rc_connector_id c)) (FieldError ''connector_id''),
         raise_if (\<not> opt_field (text_field 1 128) (rc_observed_connector_version c))
           (FieldError ''observed_connector_version''),
         raise_if (\<not> text_field 1 512 (rc_source_revision_key c)) (FieldError ''source_revision_key''),
         nested (make_file_identity (rc_file_identity c)),
         raise_if (\<not> text_field 1 256 (rc_file_identity_key c)) (FieldError ''file_identity_key''),
         raise_if (\<not> opt_field (text_field 1 128) (rc_observed_source_format_version c))
           (FieldError ''observed_source_format_version''),
         raise_if (rc_byte_end_exclusive c = 0) (FieldError ''byte_end_exclusive''),
         raise_if (rc_payload_byte_count c < 1 \<or> rc_payload_byte_count c > SOURCE_RANGE_TRANSACTION_MAX_BYTES)
           (FieldError ''payload_byte_count''),
         raise_if (\<not> is_sha256 (rc_payload_sha256 c)) (FieldError ''payload_sha256''),
         nested_list (make_captured_chunk H) (rc_chunks c),
         raise_if (rc_chunks c = [] \<or> length (rc_chunks c) > SOURCE_RANGE_TRANSACTION_MAX_CHUNKS)
           (FieldError ''chunks''),
         nested (make_policy_references (rc_policies c)),
         nested (make_byte_checkpoint (rc_checkpoint c))]
        @ range_command_checks H c)
       c"

text \<open>\<open>range(0, len(payload), chunk_size)\<close> with the slices at those offsets.\<close>

function slice_chunks :: "hash \<Rightarrow> nat \<Rightarrow> nat \<Rightarrow> nat \<Rightarrow> bytes \<Rightarrow> captured_chunk list" where
  "slice_chunks H chunk_size ordinal start payload =
     (if payload = [] \<or> chunk_size = 0 then []
      else
        (let chunk = take chunk_size payload
         in \<lparr>sc_chunk_ordinal = ordinal, sc_byte_start = start,
             sc_byte_end_exclusive = start + length chunk, sc_payload_byte_count = length chunk,
             sc_payload_sha256 = H chunk, sc_payload_hex = hex chunk\<rparr>
            # slice_chunks H chunk_size (ordinal + 1) (start + length chunk) (drop chunk_size payload)))"
  by pat_completeness auto
termination by (relation "measure (\<lambda>(_, _, _, _, p). length p)") auto

declare slice_chunks.simps [simp del]

record range_loop_config =
  lc_binding :: kernel_capture_binding
  lc_capability_id :: string
  lc_capability_credential :: string
  lc_checkpoint_key :: string
  lc_connector_id :: string
  lc_observed_connector_version :: "string option"
  lc_capture_surface :: capture_surface
  lc_source_revision_key :: string
  lc_observed_source_format_version :: "string option"
  lc_policies :: source_range_policy_references
  lc_initial_byte_offset :: nat
  lc_read_size :: nat

text \<open>
  The keyword arguments that \<open>RawSourceCaptureLoop\<close> passes unchanged come in its
  configuration record; \<open>checked_chunks\<close> raises at the first chunk whose model refuses it.
\<close>

definition checked_chunks :: "hash \<Rightarrow> captured_chunk list \<Rightarrow> captured_chunk list result" where
  "checked_chunks H cs = validated [nested_list (make_captured_chunk H) cs] cs"

definition range_operation_hash ::
  "hash \<Rightarrow> kernel_capture_binding \<Rightarrow> string \<Rightarrow> string \<Rightarrow> nat \<Rightarrow> nat \<Rightarrow> string \<Rightarrow> string" where
  "range_operation_hash H binding revision_key identity_key start stop payload_sha =
     canonical_sha256 H
       (JObj [(''source_object_id'', j_uuid (kb_source_object_id binding)),
              (''source_revision_key'', JStr revision_key),
              (''file_identity_key'', JStr identity_key), (''byte_start'', j_nat start),
              (''byte_end_exclusive'', j_nat stop), (''payload_sha256'', JStr payload_sha)])"

definition range_command_of ::
  "hash \<Rightarrow> bytes \<Rightarrow> range_loop_config \<Rightarrow> file_identity \<Rightarrow> nat \<Rightarrow> nat \<Rightarrow> nat \<Rightarrow> range_command" where
  "range_command_of H payload cfg identity byte_start expected_sequence chunk_size =
     (let byte_end = byte_start + length payload;
          sha = H payload;
          key = stable_key identity
      in \<lparr>rc_idempotency_key =
             ''source-range:'' @ range_operation_hash H (lc_binding cfg) (lc_source_revision_key cfg)
               key byte_start byte_end sha,
          rc_binding = lc_binding cfg, rc_capability_id = lc_capability_id cfg,
          rc_connector_id = lc_connector_id cfg,
          rc_observed_connector_version = lc_observed_connector_version cfg,
          rc_capture_surface = lc_capture_surface cfg,
          rc_source_revision_key = lc_source_revision_key cfg,
          rc_file_identity = identity, rc_file_identity_key = key,
          rc_observed_source_format_version = lc_observed_source_format_version cfg,
          rc_byte_start = byte_start, rc_byte_end_exclusive = byte_end,
          rc_payload_byte_count = length payload, rc_payload_sha256 = sha,
          rc_chunks = slice_chunks H chunk_size 0 byte_start payload,
          rc_policies = lc_policies cfg,
          rc_checkpoint =
            \<lparr>bc_checkpoint_key = lc_checkpoint_key cfg, bc_expected_sequence = expected_sequence,
             bc_next_sequence = expected_sequence + 1, bc_expected_byte_offset = byte_start,
             bc_next_byte_offset = byte_end, bc_file_identity_key = key,
             bc_checkpoint_hash =
               checkpoint_binding H (lc_checkpoint_key cfg) expected_sequence (expected_sequence + 1)
                 byte_start byte_end key sha\<rparr>\<rparr>)"

definition build_capture_source_range_command ::
  "hash \<Rightarrow> bytes \<Rightarrow> range_loop_config \<Rightarrow> file_identity \<Rightarrow> nat \<Rightarrow> nat \<Rightarrow> nat \<Rightarrow> range_command result" where
  "build_capture_source_range_command H payload cfg identity byte_start expected_sequence chunk_size =
     (if \<not> (1 \<le> length payload \<and> length payload \<le> SOURCE_RANGE_TRANSACTION_MAX_BYTES)
      then Inl (ValueError ''source-range payload exceeds its transaction bound'')
      else if \<not> (1 \<le> chunk_size \<and> chunk_size \<le> SOURCE_RANGE_CHUNK_MAX_BYTES)
      then Inl (ValueError ''source-range chunk size exceeds its configured bound'')
      else
        (let command = range_command_of H payload cfg identity byte_start expected_sequence chunk_size
         in bindE (checked_chunks H (rc_chunks command)) (\<lambda>_.
            bindE (make_byte_checkpoint (rc_checkpoint command)) (\<lambda>_.
            make_range_command H command))))"

section \<open>Receipts, cursor and results\<close>

record range_receipt =
  rr_source_range_receipt_id :: uuid
  rr_idempotency_receipt_id :: uuid
  rr_source_object_id :: uuid
  rr_source_revision_key :: string
  rr_file_identity_key :: string
  rr_byte_start :: nat
  rr_byte_end_exclusive :: nat
  rr_payload_byte_count :: nat
  rr_payload_sha256 :: string
  rr_chunk_count :: nat
  rr_checkpoint_key :: string
  rr_checkpoint_sequence :: nat
  rr_authority_principal_id :: uuid
  rr_captured_at :: datetime
  rr_already_exists :: bool
  rr_replayed :: bool

definition make_range_receipt :: "range_receipt \<Rightarrow> range_receipt result" where
  "make_range_receipt r =
     validated
       [raise_if (\<not> text_field 1 512 (rr_source_revision_key r)) (FieldError ''source_revision_key''),
        raise_if (\<not> text_field 1 256 (rr_file_identity_key r)) (FieldError ''file_identity_key''),
        raise_if (rr_byte_end_exclusive r = 0) (FieldError ''byte_end_exclusive''),
        raise_if (rr_payload_byte_count r < 1 \<or> rr_payload_byte_count r > SOURCE_RANGE_TRANSACTION_MAX_BYTES)
          (FieldError ''payload_byte_count''),
        raise_if (\<not> is_sha256 (rr_payload_sha256 r)) (FieldError ''payload_sha256''),
        raise_if (rr_chunk_count r < 1 \<or> rr_chunk_count r > SOURCE_RANGE_TRANSACTION_MAX_CHUNKS)
          (FieldError ''chunk_count''),
        raise_if (\<not> identifier_field 128 (rr_checkpoint_key r)) (FieldError ''checkpoint_key''),
        raise_if (rr_checkpoint_sequence r < 1) (FieldError ''checkpoint_sequence''),
        raise_if (rr_byte_end_exclusive r - rr_byte_start r \<noteq> rr_payload_byte_count r)
          (ValueError ''source-range receipt byte count must match its range''),
        raise_if (tz_missing (rr_captured_at r))
          (ValueError ''source-range receipt capture time must be timezone-aware'')]
       r"

record range_acknowledgement =
  ra_source_range_receipt_id :: uuid
  ra_idempotency_receipt_id :: uuid
  ra_source_object_id :: uuid
  ra_source_revision_key :: string
  ra_file_identity_key :: string
  ra_payload_sha256 :: string
  ra_byte_start :: nat
  ra_byte_end_exclusive :: nat
  ra_checkpoint_key :: string
  ra_checkpoint_sequence :: nat
  ra_authority_principal_id :: uuid
  ra_already_exists :: bool
  ra_replayed :: bool

definition make_range_acknowledgement :: "range_acknowledgement \<Rightarrow> range_acknowledgement result" where
  "make_range_acknowledgement a =
     validated
       [raise_if (\<not> text_field 1 512 (ra_source_revision_key a)) (FieldError ''source_revision_key''),
        raise_if (\<not> text_field 1 256 (ra_file_identity_key a)) (FieldError ''file_identity_key''),
        raise_if (\<not> is_sha256 (ra_payload_sha256 a)) (FieldError ''payload_sha256''),
        raise_if (ra_byte_end_exclusive a = 0) (FieldError ''byte_end_exclusive''),
        raise_if (\<not> identifier_field 128 (ra_checkpoint_key a)) (FieldError ''checkpoint_key''),
        raise_if (ra_checkpoint_sequence a < 1) (FieldError ''checkpoint_sequence'')]
       a"

record raw_cursor =
  cu_capability_id :: string
  cu_revision :: nat
  cu_file_identity :: "file_identity option"
  cu_acknowledged_byte_offset :: nat
  cu_checkpoint_sequence :: nat
  cu_last_acknowledgement :: "range_acknowledgement option"

definition raw_cursor_checks :: "raw_cursor \<Rightarrow> py_error option list" where
  "raw_cursor_checks s =
     raise_if (cu_file_identity s = None
         \<and> (cu_checkpoint_sequence s \<noteq> 0 \<or> cu_last_acknowledgement s \<noteq> None))
       (ValueError ''raw-source cursor progress requires file identity'')
     # (case cu_last_acknowledgement s of
          None \<Rightarrow> []
        | Some a \<Rightarrow>
            [raise_if (ra_byte_end_exclusive a \<noteq> cu_acknowledged_byte_offset s)
               (ValueError ''raw-source cursor must bind its last durable receipt''),
             raise_if (ra_checkpoint_sequence a \<noteq> cu_checkpoint_sequence s)
               (ValueError ''raw-source cursor checkpoint must bind its receipt'')]
            @ (case cu_file_identity s of
                 None \<Rightarrow> [Some (AssertionError ''file_identity'')]
               | Some f \<Rightarrow>
                   [raise_if (ra_file_identity_key a \<noteq> stable_key f)
                      (ValueError ''raw-source cursor file identity must bind its receipt'')]))"

definition make_raw_cursor :: "raw_cursor \<Rightarrow> raw_cursor result" where
  "make_raw_cursor s =
     validated
       ([raise_if (\<not> identifier_field 128 (cu_capability_id s)) (FieldError ''capability_id''),
         nested_opt make_file_identity (cu_file_identity s),
         nested_opt make_range_acknowledgement (cu_last_acknowledgement s)]
        @ raw_cursor_checks s)
       s"

definition initial_raw_cursor :: "string \<Rightarrow> nat \<Rightarrow> raw_cursor result" where
  "initial_raw_cursor capability_id byte_offset =
     make_raw_cursor
       \<lparr>cu_capability_id = capability_id, cu_revision = 0, cu_file_identity = None,
        cu_acknowledged_byte_offset = byte_offset, cu_checkpoint_sequence = 0,
        cu_last_acknowledgement = None\<rparr>"

record raw_result =
  rt_status :: raw_source_capture_status
  rt_acknowledged_byte_offset :: nat
  rt_checkpoint_sequence :: nat
  rt_observed_size :: nat
  rt_diagnostic_code :: "string option"
  rt_receipt :: "range_receipt option"

definition make_raw_result :: "raw_result \<Rightarrow> raw_result result" where
  "make_raw_result r =
     validated
       ([raise_if (\<not> opt_field (identifier_field 128) (rt_diagnostic_code r)) (FieldError ''diagnostic_code''),
         nested_opt make_range_receipt (rt_receipt r)]
        @ (if rt_status r = RC_CAPTURED then
             (case rt_receipt r of
                None \<Rightarrow> [Some (ValueError ''captured raw-source result requires its receipt'')]
              | Some rcpt \<Rightarrow>
                  [raise_if (rr_byte_end_exclusive rcpt \<noteq> rt_acknowledged_byte_offset r
                       \<or> rr_checkpoint_sequence rcpt \<noteq> rt_checkpoint_sequence r)
                     (ValueError ''captured raw-source result must bind its receipt'')])
           else
             [raise_if (rt_receipt r \<noteq> None)
                (ValueError ''non-captured raw-source result cannot claim a receipt'')]))
       r"

record range_inspection =
  in_source_range_receipt_id :: uuid
  in_source_object_id :: uuid
  in_source_revision_key :: string
  in_file_identity_key :: string
  in_byte_start :: nat
  in_byte_end_exclusive :: nat
  in_payload_byte_count :: nat
  in_payload_sha256 :: string
  in_chunk_count :: nat
  in_connector_id :: string
  in_observed_connector_version :: "string option"
  in_observed_source_format_version :: "string option"
  in_parser_profile_version :: "string option"
  in_diagnostic_code :: "string option"
  in_recognized_record_type :: "string option"
  in_failing_field_name :: "string option"
  in_json_pointer :: "string option"
  in_byte_offset :: "nat option"
  in_record_index :: "nat option"
  in_raw_bytes_available :: bool

definition make_range_inspection :: "range_inspection \<Rightarrow> range_inspection result" where
  "make_range_inspection i =
     validated
       [raise_if (\<not> text_field 1 512 (in_source_revision_key i)) (FieldError ''source_revision_key''),
        raise_if (\<not> text_field 1 256 (in_file_identity_key i)) (FieldError ''file_identity_key''),
        raise_if (in_byte_end_exclusive i = 0) (FieldError ''byte_end_exclusive''),
        raise_if (in_payload_byte_count i < 1 \<or> in_payload_byte_count i > SOURCE_RANGE_TRANSACTION_MAX_BYTES)
          (FieldError ''payload_byte_count''),
        raise_if (\<not> is_sha256 (in_payload_sha256 i)) (FieldError ''payload_sha256''),
        raise_if (in_chunk_count i < 1 \<or> in_chunk_count i > SOURCE_RANGE_TRANSACTION_MAX_CHUNKS)
          (FieldError ''chunk_count''),
        raise_if (\<not> identifier_field 128 (in_connector_id i)) (FieldError ''connector_id''),
        raise_if (\<not> opt_field (text_field 1 128) (in_observed_connector_version i))
          (FieldError ''observed_connector_version''),
        raise_if (\<not> opt_field (text_field 1 128) (in_observed_source_format_version i))
          (FieldError ''observed_source_format_version''),
        raise_if (\<not> opt_field (text_field 1 128) (in_parser_profile_version i))
          (FieldError ''parser_profile_version''),
        raise_if (\<not> opt_field (identifier_field 128) (in_diagnostic_code i)) (FieldError ''diagnostic_code''),
        raise_if (\<not> opt_field (text_field 1 128) (in_recognized_record_type i))
          (FieldError ''recognized_record_type''),
        raise_if (\<not> opt_field (text_field 1 256) (in_failing_field_name i)) (FieldError ''failing_field_name''),
        raise_if (\<not> opt_field (text_field 1 512) (in_json_pointer i)) (FieldError ''json_pointer'')]
       i"

record raw_detail =
  de_source_range_receipt_id :: uuid
  de_chunk_ordinal :: nat
  de_byte_start :: nat
  de_byte_end_exclusive :: nat
  de_payload_sha256 :: string
  de_payload_hex :: string

definition detail_payload :: "raw_detail \<Rightarrow> bytes" where
  "detail_payload d = (case fromhex (de_payload_hex d) of None \<Rightarrow> [] | Some p \<Rightarrow> p)"

definition make_raw_detail :: "hash \<Rightarrow> raw_detail \<Rightarrow> raw_detail result" where
  "make_raw_detail H d =
     validated
       [raise_if (de_byte_end_exclusive d = 0) (FieldError ''byte_end_exclusive''),
        raise_if (\<not> is_sha256 (de_payload_sha256 d)) (FieldError ''payload_sha256''),
        raise_if (\<not> hex_field (de_payload_hex d)) (FieldError ''payload_hex''),
        raise_if (de_byte_end_exclusive d \<le> de_byte_start d)
          (ValueError ''raw source-range detail must be non-empty''),
        raise_if (length (detail_payload d) \<noteq> de_byte_end_exclusive d - de_byte_start d)
          (ValueError ''raw source-range detail must bind its byte range''),
        raise_if (H (detail_payload d) \<noteq> de_payload_sha256 d)
          (ValueError ''raw source-range detail must bind its exact payload'')]
       d"

end
