(* ===== verification/RangeLoop.thy ===== *)
theory RangeLoop
  imports SourceRange
begin

text \<open>
  \<open>RawSourceCaptureLoop\<close> of \<open>application/capture/source_range.py\<close> and what the range
  models guarantee: chunks tile their range and carry its bytes, the builder produces
  accepted commands, and a capture advances the cursor by exactly the bytes it stored.
\<close>

section \<open>Chunks tile a range\<close>

abbreviation chunk_good :: "hash \<Rightarrow> captured_chunk \<Rightarrow> bool" where
  "chunk_good H c \<equiv> is_ok (make_captured_chunk H c)"

lemma chunk_good_facts:
  assumes "chunk_good H c"
  shows "sc_byte_start c < sc_byte_end_exclusive c"
    and "sc_byte_end_exclusive c - sc_byte_start c = sc_payload_byte_count c"
    and "length (chunk_payload c) = sc_payload_byte_count c"
    and "H (chunk_payload c) = sc_payload_sha256 c"
  using assms by (simp_all add: make_captured_chunk_def)

interpretation chunks: interval_store sc_byte_start sc_byte_end_exclusive "chunk_good H" for H
  by unfold_locales (rule chunk_good_facts)

lemma chunk_walk_Inr:
  "chunk_walk n start cs = Inr stop \<longleftrightarrow>
     chain sc_byte_start sc_byte_end_exclusive start cs stop
     \<and> map sc_chunk_ordinal cs = [n..<n + length cs]"
  by (induction cs arbitrary: n start) (auto simp: upt_conv_Cons simp del: upt.simps)

lemma range_command_binds:
  assumes "make_range_command H c = Inr c'"
  shows "c' = c"
    and "list_all (chunk_good H) (rc_chunks c)"
    and "chain sc_byte_start sc_byte_end_exclusive (rc_byte_start c) (rc_chunks c) (rc_byte_end_exclusive c)"
    and "map sc_chunk_ordinal (rc_chunks c) = [0..<length (rc_chunks c)]"
    and "H (concat (map chunk_payload (rc_chunks c))) = rc_payload_sha256 c"
    and "rc_byte_start c < rc_byte_end_exclusive c"
    and "rc_byte_end_exclusive c - rc_byte_start c = rc_payload_byte_count c"
    and "rc_payload_byte_count c \<le> HOST_HELPER_MAX_READ_BYTES"
    and "rc_file_identity_key c = stable_key (rc_file_identity c)"
    and "bc_next_sequence (rc_checkpoint c) = bc_expected_sequence (rc_checkpoint c) + 1"
  using assms chunk_walk_Inr [of 0]
  by (auto simp: make_range_command_def range_command_checks_def list_all_iff
      make_byte_checkpoint_def SOURCE_RANGE_TRANSACTION_MAX_BYTES_def split: sum.splits)

section \<open>The builder\<close>

lemma slice_chunks_Nil [simp]: "slice_chunks H k n s [] = []"
  by (simp add: slice_chunks.simps)

lemma slice_chunks_chain:
  "0 < k \<Longrightarrow> chain sc_byte_start sc_byte_end_exclusive s (slice_chunks H k n s p) (s + length p)"
proof (induction H k n s p rule: slice_chunks.induct)
  case (1 H k n s p)
  have split: "s + min (length p) k + (length p - k) = s + length p" by (simp add: min_def)
  from 1 show ?case
    by (cases "p = []") (simp_all add: slice_chunks.simps [of H k n s p] Let_def split)
qed

lemma slice_chunks_payload:
  "0 < k \<Longrightarrow> concat (map chunk_payload (slice_chunks H k n s p)) = p"
proof (induction H k n s p rule: slice_chunks.induct)
  case (1 H k n s p)
  then show ?case
    by (cases "p = []")
       (simp_all add: slice_chunks.simps [of H k n s p] Let_def chunk_payload_def)
qed

lemma slice_chunks_ordinals:
  "0 < k \<Longrightarrow> map sc_chunk_ordinal (slice_chunks H k n s p) = [n..<n + length (slice_chunks H k n s p)]"
proof (induction H k n s p rule: slice_chunks.induct)
  case (1 H k n s p)
  then show ?case
    by (cases "p = []")
       (simp_all add: slice_chunks.simps [of H k n s p] Let_def upt_conv_Cons del: upt.simps)
qed

lemma slice_chunks_counts:
  "0 < k \<Longrightarrow> sum_list (map sc_payload_byte_count (slice_chunks H k n s p)) = length p"
proof (induction H k n s p rule: slice_chunks.induct)
  case (1 H k n s p)
  then show ?case
    by (cases "p = []") (simp_all add: slice_chunks.simps [of H k n s p] Let_def)
qed

lemma slice_chunks_length:
  "0 < k \<Longrightarrow> length (slice_chunks H k n s p) = (length p + k - 1) div k"
proof (induction H k n s p rule: slice_chunks.induct)
  case (1 H k n s p)
  show ?case
  proof (cases "p = []")
    case True
    with "1.prems" show ?thesis by (simp add: slice_chunks.simps)
  next
    case False
    then have IH: "length (slice_chunks H k (n + 1) (s + length (take k p)) (drop k p))
        = (length p - k + k - 1) div k"
      using 1 by simp
    have "(length p + k - 1) div k = (length p - 1 + k) div k"
      using False by (simp add: algebra_simps Suc_leI)
    also have "\<dots> = Suc ((length p - 1) div k)"
      using "1.prems" div_add_self2 [of k "length p - 1"] by simp
    finally have whole: "(length p + k - 1) div k = Suc ((length p - 1) div k)" .
    have "Suc ((length p - k + k - 1) div k) = (length p + k - 1) div k"
    proof (cases "length p \<le> k")
      case True
      then have "(length p - 1) div k = 0" using "1.prems" False by (simp add: div_eq_0_iff less_le_trans)
      with True "1.prems" whole show ?thesis by simp
    next
      case le: False
      with whole show ?thesis by simp
    qed
    with IH False "1.prems" show ?thesis
      by (simp add: slice_chunks.simps [of H k n s p] Let_def)
  qed
qed

lemma fromhex_hex_nonempty: "p \<noteq> [] \<Longrightarrow> text_field 2 (2 * m) (hex p) \<longleftrightarrow> length p \<le> m"
  by (cases p) (auto simp: text_field_def)

lemma slice_chunks_good:
  assumes "0 < k" "k \<le> SOURCE_RANGE_CHUNK_MAX_BYTES" "sha256_documented H"
    and "n + length (slice_chunks H k n s p) \<le> SOURCE_RANGE_TRANSACTION_MAX_CHUNKS"
  shows "list_all (chunk_good H) (slice_chunks H k n s p)"
  using assms
proof (induction H k n s p rule: slice_chunks.induct)
  case (1 H k n s p)
  show ?case
  proof (cases "p = []")
    case False
    let ?c = "\<lparr>sc_chunk_ordinal = n, sc_byte_start = s, sc_byte_end_exclusive = s + length (take k p),
      sc_payload_byte_count = length (take k p), sc_payload_sha256 = H (take k p),
      sc_payload_hex = hex (take k p)\<rparr>"
    have unfold: "slice_chunks H k n s p
        = ?c # slice_chunks H k (n + 1) (s + length (take k p)) (drop k p)"
      using False "1.prems"(1) by (subst slice_chunks.simps) (simp add: Let_def)
    have "text_field 2 (SOURCE_RANGE_CHUNK_MAX_BYTES * 2) (hex (take k p))"
      using fromhex_hex_nonempty [of "take k p" SOURCE_RANGE_CHUNK_MAX_BYTES] False "1.prems"
      by (simp add: mult.commute)
    then have "chunk_good H ?c"
      using False "1.prems" unfold
      by (auto simp: make_captured_chunk_def hex_field_def chunk_payload_def Suc_le_eq)
    moreover have "list_all (chunk_good H)
        (slice_chunks H k (n + 1) (s + length (take k p)) (drop k p))"
      using 1 False unfold by simp
    ultimately show ?thesis by (simp add: unfold)
  qed simp
qed

definition config_ok :: "range_loop_config \<Rightarrow> bool" where
  "config_ok cfg \<longleftrightarrow>
     1 \<le> kb_expected_source_object_schema_version (lc_binding cfg)
     \<and> identifier_field 128 (lc_capability_id cfg) \<and> identifier_field 128 (lc_connector_id cfg)
     \<and> identifier_field 128 (lc_checkpoint_key cfg)
     \<and> opt_field (text_field 1 128) (lc_observed_connector_version cfg)
     \<and> opt_field (text_field 1 128) (lc_observed_source_format_version cfg)
     \<and> text_field 1 512 (lc_source_revision_key cfg)
     \<and> identifier_field 128 (sp_capture_policy_id (lc_policies cfg))
     \<and> text_field 1 256 (sp_retention_policy_ref (lc_policies cfg))"

lemma hash_text [simp]: "sha256_documented H \<Longrightarrow> length (H b) = 64"
  using sha256_documentedD [of H b] by (simp add: is_sha256_def)

lemma operation_key_text:
  "sha256_documented H \<Longrightarrow>
   text_field 1 512 (''source-range:'' @ range_operation_hash H b r k s e p)"
  by (simp add: text_field_def range_operation_hash_def canonical_sha256_def)

lemma built_command_valid:
  assumes H: "sha256_documented H" and cfg: "config_ok cfg"
    and id: "is_ok (make_file_identity f)" "length (stable_key f) \<le> 256"
    and p: "p \<noteq> []" "length p \<le> SOURCE_RANGE_TRANSACTION_MAX_BYTES"
    and k: "1 \<le> k" "k \<le> SOURCE_RANGE_CHUNK_MAX_BYTES"
    and n: "(length p + k - 1) div k \<le> SOURCE_RANGE_TRANSACTION_MAX_CHUNKS"
    and size: "length (range_command_canonical_bytes (range_command_of H p cfg f s q k))
        \<le> SOURCE_RANGE_COMMAND_MAX_BYTES"
  shows "build_capture_source_range_command H p cfg f s q k = Inr (range_command_of H p cfg f s q k)"
proof -
  let ?c = "range_command_of H p cfg f s q k" and ?cs = "slice_chunks H k 0 s p"
  have k0: "0 < k" and len: "1 \<le> length p" using k p by (auto simp: Suc_le_eq)
  have good: "list_all (chunk_good H) ?cs"
    using slice_chunks_good [OF k0 k(2) H, of 0 s p] n by (simp add: slice_chunks_length [OF k0])
  have walk: "chunk_walk 0 s ?cs = Inr (s + length p)"
    using slice_chunks_chain [OF k0] slice_chunks_ordinals [OF k0, of H 0 s p] by (simp add: chunk_walk_Inr)
  have ne: "?cs \<noteq> []" using p k0 by (simp add: slice_chunks.simps [of H k 0 s p] Let_def)
  have key: "text_field 1 256 (stable_key f)"
    using id by (simp add: text_field_def stable_key_def)
  have cp: "is_ok (make_byte_checkpoint (rc_checkpoint ?c))"
    using cfg H key len
    by (auto simp: range_command_of_def Let_def make_byte_checkpoint_def config_ok_def checkpoint_binding_def)
  have cs: "checked_chunks H (rc_chunks ?c) = Inr (rc_chunks ?c)"
    using good by (simp add: checked_chunks_def list_all_iff range_command_of_def Let_def)
  have "make_range_command H ?c = Inr ?c"
    using cfg H key len good walk ne id p n size cp operation_key_text [OF H]
    by (auto simp: make_range_command_def range_command_checks_def config_ok_def list_all_iff
        make_kernel_capture_binding_def make_policy_references_def range_command_of_def Let_def
        slice_chunks_length [OF k0] slice_chunks_payload [OF k0] slice_chunks_counts [OF k0])
  with cs cp show ?thesis
    using p k len by (auto simp: build_capture_source_range_command_def Let_def is_ok_def)
qed

section \<open>The capture loop\<close>

record 'w raw_ports =
  rp_load :: "string \<Rightarrow> ('w, raw_cursor option) io"
  rp_commit :: "nat \<Rightarrow> raw_cursor \<Rightarrow> ('w, unit) io"
  rp_read :: "host_read_request \<Rightarrow> ('w, host_read_response) io"
  rp_capture :: "range_command \<Rightarrow> datetime \<Rightarrow> ('w, range_receipt) io"
  rp_uuid4 :: "('w, uuid) io"

definition make_raw_loop :: "range_loop_config \<Rightarrow> range_loop_config result" where
  "make_raw_loop cfg =
     (if \<not> (1 \<le> lc_read_size cfg \<and> lc_read_size cfg \<le> SOURCE_RANGE_TRANSACTION_MAX_BYTES)
      then Inl (ValueError ''raw-source read size exceeds its transaction bound'')
      else Inr cfg)"

definition plain_result ::
  "raw_source_capture_status \<Rightarrow> raw_cursor \<Rightarrow> nat \<Rightarrow> string option \<Rightarrow> raw_result result" where
  "plain_result status state observed diagnostic =
     make_raw_result
       \<lparr>rt_status = status, rt_acknowledged_byte_offset = cu_acknowledged_byte_offset state,
        rt_checkpoint_sequence = cu_checkpoint_sequence state, rt_observed_size = observed,
        rt_diagnostic_code = diagnostic, rt_receipt = None\<rparr>"

fun failed_read_status :: "host_read_status \<Rightarrow> raw_source_capture_status" where
  "failed_read_status HR_PERMISSION_REVOKED = RC_PERMISSION_REVOKED"
| "failed_read_status HR_PERMISSION_DENIED = RC_PERMISSION_REVOKED"
| "failed_read_status HR_ROTATED_OR_REPLACED = RC_IDENTITY_CHANGED"
| "failed_read_status HR_IDENTITY_DRIFT = RC_IDENTITY_CHANGED"
| "failed_read_status _ = RC_SOURCE_UNAVAILABLE"

text \<open>\<open>durable\<close> is \<open>Literal[True]\<close> in the receipt model, so its disjunct is never true.\<close>

definition receipt_unbound ::
  "range_loop_config \<Rightarrow> raw_cursor \<Rightarrow> file_identity \<Rightarrow> range_command \<Rightarrow> range_receipt \<Rightarrow> bool" where
  "receipt_unbound cfg state identity command receipt \<longleftrightarrow>
     rr_source_object_id receipt \<noteq> kb_source_object_id (lc_binding cfg)
     \<or> rr_source_revision_key receipt \<noteq> lc_source_revision_key cfg
     \<or> rr_file_identity_key receipt \<noteq> stable_key identity
     \<or> rr_byte_start receipt \<noteq> rc_byte_start command
     \<or> rr_byte_end_exclusive receipt \<noteq> rc_byte_end_exclusive command
     \<or> rr_payload_sha256 receipt \<noteq> rc_payload_sha256 command
     \<or> (\<not> rr_replayed receipt \<and> \<not> rr_already_exists receipt
        \<and> rr_chunk_count receipt \<noteq> length (rc_chunks command))
     \<or> rr_checkpoint_key receipt \<noteq> lc_checkpoint_key cfg
     \<or> rr_checkpoint_sequence receipt \<noteq> cu_checkpoint_sequence state + 1"

definition acknowledgement_of :: "range_receipt \<Rightarrow> range_acknowledgement" where
  "acknowledgement_of r =
     \<lparr>ra_source_range_receipt_id = rr_source_range_receipt_id r,
      ra_idempotency_receipt_id = rr_idempotency_receipt_id r,
      ra_source_object_id = rr_source_object_id r,
      ra_source_revision_key = rr_source_revision_key r,
      ra_file_identity_key = rr_file_identity_key r, ra_payload_sha256 = rr_payload_sha256 r,
      ra_byte_start = rr_byte_start r, ra_byte_end_exclusive = rr_byte_end_exclusive r,
      ra_checkpoint_key = rr_checkpoint_key r, ra_checkpoint_sequence = rr_checkpoint_sequence r,
      ra_authority_principal_id = rr_authority_principal_id r,
      ra_already_exists = rr_already_exists r, ra_replayed = rr_replayed r\<rparr>"

definition next_raw_cursor ::
  "raw_cursor \<Rightarrow> file_identity \<Rightarrow> range_receipt \<Rightarrow> raw_cursor" where
  "next_raw_cursor state identity receipt =
     \<lparr>cu_capability_id = cu_capability_id state, cu_revision = cu_revision state + 1,
      cu_file_identity = Some identity,
      cu_acknowledged_byte_offset = rr_byte_end_exclusive receipt,
      cu_checkpoint_sequence = rr_checkpoint_sequence receipt,
      cu_last_acknowledgement = Some (acknowledgement_of receipt)\<rparr>"

definition capture_data ::
  "hash \<Rightarrow> 'w raw_ports \<Rightarrow> range_loop_config \<Rightarrow> datetime \<Rightarrow> raw_cursor \<Rightarrow> host_read_response
    \<Rightarrow> file_identity \<Rightarrow> ('w, raw_result) io" where
  "capture_data H P cfg recorded_at state response identity =
     bindIO (liftIO (build_capture_source_range_command H (host_data response) cfg identity
               (rs_start_offset response) (cu_checkpoint_sequence state) SOURCE_RANGE_CHUNK_MAX_BYTES)) (\<lambda>command.
     bindIO (rp_capture P command recorded_at) (\<lambda>receipt.
     bindIO (checkIO (receipt_unbound cfg state identity command receipt)
               (ValueError ''raw-source durable receipt does not bind its request'')) (\<lambda>_.
     bindIO (liftIO (make_range_acknowledgement (acknowledgement_of receipt))) (\<lambda>_.
     bindIO (liftIO (make_raw_cursor (next_raw_cursor state identity receipt))) (\<lambda>next_state.
     bindIO (rp_commit P (cu_revision state) next_state) (\<lambda>_.
     liftIO (make_raw_result
       \<lparr>rt_status = RC_CAPTURED,
        rt_acknowledged_byte_offset = cu_acknowledged_byte_offset next_state,
        rt_checkpoint_sequence = cu_checkpoint_sequence next_state,
        rt_observed_size = rs_observed_size response,
        rt_diagnostic_code = None, rt_receipt = Some receipt\<rparr>)))))))"

definition capture_response ::
  "hash \<Rightarrow> 'w raw_ports \<Rightarrow> range_loop_config \<Rightarrow> datetime \<Rightarrow> raw_cursor \<Rightarrow> host_read_response
    \<Rightarrow> ('w, raw_result) io" where
  "capture_response H P cfg recorded_at state response =
     (if rs_status response = HR_END_OF_FILE
      then liftIO (plain_result RC_END_OF_FILE state (rs_observed_size response) None)
      else if rs_status response \<noteq> HR_DATA
      then liftIO (plain_result (failed_read_status (rs_status response)) state
             (rs_observed_size response) (rs_diagnostic_code response))
      else case rs_file_identity response of
             None \<Rightarrow> raiseIO (AssertionError ''file_identity'')
           | Some identity \<Rightarrow>
               if cu_file_identity state \<noteq> None \<and> cu_file_identity state \<noteq> Some identity
               then liftIO (plain_result RC_IDENTITY_CHANGED state (rs_observed_size response)
                      (Some ''host.identity-changed''))
               else capture_data H P cfg recorded_at state response identity)"

definition raw_state ::
  "'w raw_ports \<Rightarrow> range_loop_config \<Rightarrow> ('w, raw_cursor) io" where
  "raw_state P cfg =
     bindIO (rp_load P (lc_capability_id cfg)) (\<lambda>loaded.
       liftIO (case loaded of
                 Some state \<Rightarrow> Inr state
               | None \<Rightarrow> initial_raw_cursor (lc_capability_id cfg) (lc_initial_byte_offset cfg)))"

definition raw_read ::
  "'w raw_ports \<Rightarrow> range_loop_config \<Rightarrow> raw_cursor \<Rightarrow> ('w, host_read_response) io" where
  "raw_read P cfg state =
     bindIO (rp_uuid4 P) (\<lambda>request_id.
     bindIO (liftIO (make_host_read_request
       \<lparr>rq_request_id = request_id, rq_capability_id = lc_capability_id cfg,
        rq_capability_credential = lc_capability_credential cfg,
        rq_expected_identity = cu_file_identity state,
        rq_byte_offset = cu_acknowledged_byte_offset state, rq_max_bytes = lc_read_size cfg\<rparr>)) (\<lambda>request.
     bindIO (rp_read P request) (\<lambda>response.
     bindIO (checkIO (rs_request_id response \<noteq> rq_request_id request)
               (ValueError ''raw-source host response request identity mismatch'')) (\<lambda>_.
     bindIO (checkIO (rs_start_offset response \<noteq> rq_byte_offset request)
               (ValueError ''raw-source host response byte offset mismatch'')) (\<lambda>_.
     returnIO response)))))"

definition raw_run_once ::
  "hash \<Rightarrow> 'w raw_ports \<Rightarrow> range_loop_config \<Rightarrow> datetime \<Rightarrow> ('w, raw_result) io" where
  "raw_run_once H P cfg recorded_at =
     bindIO (checkIO (tz_missing recorded_at)
               (ValueError ''raw-source recorded_at must be timezone-aware'')) (\<lambda>_.
     bindIO (raw_state P cfg) (\<lambda>state.
     bindIO (raw_read P cfg state) (\<lambda>response.
     capture_response H P cfg recorded_at state response)))"

fun raw_transactions ::
  "hash \<Rightarrow> 'w raw_ports \<Rightarrow> range_loop_config \<Rightarrow> datetime \<Rightarrow> nat \<Rightarrow> raw_result list
    \<Rightarrow> ('w, raw_result list) io" where
  "raw_transactions H P cfg recorded_at 0 results =
     bindIO (liftIO (make_raw_result
       \<lparr>rt_status = RC_PAUSED,
        rt_acknowledged_byte_offset = rt_acknowledged_byte_offset (last results),
        rt_checkpoint_sequence = rt_checkpoint_sequence (last results),
        rt_observed_size = rt_observed_size (last results),
        rt_diagnostic_code = Some ''source-range.transaction-budget-reached'',
        rt_receipt = None\<rparr>)) (\<lambda>paused. returnIO (results @ [paused]))"
| "raw_transactions H P cfg recorded_at (Suc n) results =
     bindIO (raw_run_once H P cfg recorded_at) (\<lambda>result.
       if rt_status result \<noteq> RC_CAPTURED then returnIO (results @ [result])
       else raw_transactions H P cfg recorded_at n (results @ [result]))"

definition raw_run_until_pause ::
  "hash \<Rightarrow> 'w raw_ports \<Rightarrow> range_loop_config \<Rightarrow> datetime \<Rightarrow> nat \<Rightarrow> ('w, raw_result list) io" where
  "raw_run_until_pause H P cfg recorded_at max_transactions =
     (if \<not> (1 \<le> max_transactions \<and> max_transactions \<le> 1024)
      then raiseIO (ValueError ''raw-source transaction budget is invalid'')
      else raw_transactions H P cfg recorded_at max_transactions [])"

section \<open>What one run does\<close>

lemma failed_read_not_captured [simp]: "failed_read_status s \<noteq> RC_CAPTURED"
  by (cases s) simp_all

lemma plain_result_Inr:
  "plain_result st s n d = Inr r \<Longrightarrow>
   rt_status r = st \<and> rt_acknowledged_byte_offset r = cu_acknowledged_byte_offset s
   \<and> rt_checkpoint_sequence r = cu_checkpoint_sequence s"
  by (simp add: plain_result_def make_raw_result_def)

lemma built_command_shape:
  assumes "build_capture_source_range_command H p cfg f s q k = Inr c"
  shows "c = range_command_of H p cfg f s q k" and "make_range_command H c = Inr c"
    and "p \<noteq> []"
  using assms
  by (auto simp: build_capture_source_range_command_def Let_def bindE_Inr_iff make_range_command_def
      split: if_splits)

lemma range_command_of_fields [simp]:
  "rc_byte_start (range_command_of H p cfg f s q k) = s"
  "rc_byte_end_exclusive (range_command_of H p cfg f s q k) = s + length p"
  "rc_payload_sha256 (range_command_of H p cfg f s q k) = H p"
  "rc_chunks (range_command_of H p cfg f s q k) = slice_chunks H k 0 s p"
  by (simp_all add: range_command_of_def Let_def)

lemma capture_data_trace:
  assumes "capture_data H P cfg t s resp f w = (Inr r, w')"
  obtains c w1 rcpt w2 where
    "build_capture_source_range_command H (host_data resp) cfg f (rs_start_offset resp)
       (cu_checkpoint_sequence s) SOURCE_RANGE_CHUNK_MAX_BYTES = Inr c"
    "rp_capture P c t w = (Inr rcpt, w1)" "\<not> receipt_unbound cfg s f c rcpt"
    "make_raw_cursor (next_raw_cursor s f rcpt) = Inr (next_raw_cursor s f rcpt)"
    "rp_commit P (cu_revision s) (next_raw_cursor s f rcpt) w1 = (Inr (), w')"
    "rt_status r = RC_CAPTURED" "rt_receipt r = Some rcpt"
    "rt_acknowledged_byte_offset r = rr_byte_end_exclusive rcpt"
    "rt_checkpoint_sequence r = rr_checkpoint_sequence rcpt"
proof -
  from assms obtain c rcpt w1 cur where
    "build_capture_source_range_command H (host_data resp) cfg f (rs_start_offset resp)
       (cu_checkpoint_sequence s) SOURCE_RANGE_CHUNK_MAX_BYTES = Inr c"
    "rp_capture P c t w = (Inr rcpt, w1)" "\<not> receipt_unbound cfg s f c rcpt"
    and cur: "make_raw_cursor (next_raw_cursor s f rcpt) = Inr cur"
    and "rp_commit P (cu_revision s) cur w1 = (Inr (), w')"
    "rt_status r = RC_CAPTURED" "rt_receipt r = Some rcpt"
    "rt_acknowledged_byte_offset r = cu_acknowledged_byte_offset cur"
    "rt_checkpoint_sequence r = cu_checkpoint_sequence cur"
    by (auto simp: capture_data_def bindIO_Inr_iff make_raw_result_def)
  moreover from cur have "cur = next_raw_cursor s f rcpt" by (simp add: make_raw_cursor_def)
  ultimately show thesis using that cur by (simp add: next_raw_cursor_def)
qed

lemma raw_run_once_cases:
  assumes "raw_run_once H P cfg t w = (Inr r, w')"
  obtains
    (quiet) s resp w1 where "raw_state P cfg w = (Inr s, w1)" "raw_read P cfg s w1 = (Inr resp, w')"
      "rt_status r \<noteq> RC_CAPTURED" "rt_acknowledged_byte_offset r = cu_acknowledged_byte_offset s"
      "rt_checkpoint_sequence r = cu_checkpoint_sequence s"
  | (captured) s resp f w1 w2 where "raw_state P cfg w = (Inr s, w1)" "raw_read P cfg s w1 = (Inr resp, w2)"
      "rs_status resp = HR_DATA" "rs_file_identity resp = Some f"
      "cu_file_identity s = None \<or> cu_file_identity s = Some f"
      "capture_data H P cfg t s resp f w2 = (Inr r, w')"
proof -
  from assms obtain s w1 resp w2 where st: "raw_state P cfg w = (Inr s, w1)"
    and rd: "raw_read P cfg s w1 = (Inr resp, w2)"
    and cr: "capture_response H P cfg t s resp w2 = (Inr r, w')"
    by (auto simp: raw_run_once_def bindIO_Inr_iff)
  from cr consider st' n d where "plain_result st' s n d = Inr r" "st' \<noteq> RC_CAPTURED" "w' = w2"
    | f where "rs_status resp = HR_DATA" "rs_file_identity resp = Some f"
      "cu_file_identity s = None \<or> cu_file_identity s = Some f"
      "capture_data H P cfg t s resp f w2 = (Inr r, w')"
    by (auto simp: capture_response_def split: if_split_asm option.splits)
  then show thesis
  proof cases
    case 1
    with st rd show thesis using quiet plain_result_Inr [OF 1(1)] by simp
  next
    case 2
    with st rd show thesis by (rule captured)
  qed
qed

lemma raw_read_offsets:
  "raw_read P cfg s w = (Inr resp, w') \<Longrightarrow> rs_start_offset resp = cu_acknowledged_byte_offset s"
  by (auto simp: raw_read_def bindIO_Inr_iff make_host_read_request_def)

section \<open>Runs of the loop\<close>

text \<open>
  What the loop relies on from its ports: \<open>view\<close> is the cursor stored under the loop's
  capability; \<open>load\<close> reads it, a successful \<open>commit\<close> replaces it, and nothing else
  changes it.
\<close>

definition raw_store_contract ::
  "'w raw_ports \<Rightarrow> string \<Rightarrow> ('w \<Rightarrow> raw_cursor option) \<Rightarrow> bool" where
  "raw_store_contract P cap view \<longleftrightarrow>
     (\<forall>w x w'. rp_load P cap w = (Inr x, w') \<longrightarrow> x = view w \<and> view w' = view w)
     \<and> (\<forall>rq w r w'. rp_read P rq w = (r, w') \<longrightarrow> view w' = view w)
     \<and> (\<forall>c t w r w'. rp_capture P c t w = (r, w') \<longrightarrow> view w' = view w)
     \<and> (\<forall>w r w'. rp_uuid4 P w = (r, w') \<longrightarrow> view w' = view w)
     \<and> (\<forall>n s w w'. rp_commit P n s w = (Inr (), w') \<longrightarrow> view w' = Some s)"

definition raw_position :: "('w \<Rightarrow> raw_cursor option) \<Rightarrow> range_loop_config \<Rightarrow> 'w \<Rightarrow> nat" where
  "raw_position view cfg w =
     (case view w of None \<Rightarrow> lc_initial_byte_offset cfg | Some s \<Rightarrow> cu_acknowledged_byte_offset s)"

lemma raw_state_position:
  assumes "raw_store_contract P (lc_capability_id cfg) view" "raw_state P cfg w = (Inr s, w')"
  shows "cu_acknowledged_byte_offset s = raw_position view cfg w" and "view w' = view w"
proof -
  from assms(2) obtain x where x: "rp_load P (lc_capability_id cfg) w = (Inr x, w')"
    "(case x of Some s \<Rightarrow> Inr s
      | None \<Rightarrow> initial_raw_cursor (lc_capability_id cfg) (lc_initial_byte_offset cfg)) = Inr s"
    by (auto simp: raw_state_def bindIO_Inr_iff)
  with assms(1) have v: "x = view w" "view w' = view w"
    unfolding raw_store_contract_def by blast+
  then show "view w' = view w" by simp
  show "cu_acknowledged_byte_offset s = raw_position view cfg w"
    using x(2) v(1)
    by (cases "view w") (auto simp: raw_position_def initial_raw_cursor_def make_raw_cursor_def)
qed

lemma raw_read_view:
  assumes "raw_store_contract P cap view" "raw_read P cfg s w = (Inr resp, w')"
  shows "view w' = view w"
proof -
  from assms(2) obtain u w1 rq where "rp_uuid4 P w = (Inr u, w1)" "rp_read P rq w1 = (Inr resp, w')"
    by (auto simp: raw_read_def bindIO_Inr_iff)
  with assms(1) show ?thesis unfolding raw_store_contract_def by metis
qed

lemma capture_data_position:
  assumes contract: "raw_store_contract P (lc_capability_id cfg) view"
    and run: "capture_data H P cfg t s resp f w = (Inr r, w')"
  shows "\<exists>rcpt. rt_receipt r = Some rcpt \<and> rt_status r = RC_CAPTURED
      \<and> rr_byte_start rcpt = rs_start_offset resp
      \<and> rr_byte_end_exclusive rcpt = rs_start_offset resp + length (host_data resp)
      \<and> host_data resp \<noteq> []
      \<and> view w' = Some (next_raw_cursor s f rcpt)"
proof -
  from run obtain c w1 rcpt where
    b: "build_capture_source_range_command H (host_data resp) cfg f (rs_start_offset resp)
      (cu_checkpoint_sequence s) SOURCE_RANGE_CHUNK_MAX_BYTES = Inr c"
    and ok: "\<not> receipt_unbound cfg s f c rcpt"
    and com: "rp_commit P (cu_revision s) (next_raw_cursor s f rcpt) w1 = (Inr (), w')"
    and r: "rt_status r = RC_CAPTURED" "rt_receipt r = Some rcpt"
    by (rule capture_data_trace)
  have "view w' = Some (next_raw_cursor s f rcpt)"
    using contract com unfolding raw_store_contract_def by blast
  with built_command_shape [OF b] ok r show ?thesis
    by (auto simp: receipt_unbound_def)
qed

lemma raw_run_once_position:
  assumes contract: "raw_store_contract P (lc_capability_id cfg) view"
    and run: "raw_run_once H P cfg t w = (Inr r, w')"
  shows "if rt_status r = RC_CAPTURED
         then (\<exists>rcpt. rt_receipt r = Some rcpt \<and> rr_byte_start rcpt = raw_position view cfg w
                \<and> rr_byte_end_exclusive rcpt = raw_position view cfg w'
                \<and> rr_byte_start rcpt < rr_byte_end_exclusive rcpt)
         else view w' = view w"
  using run
proof (cases rule: raw_run_once_cases)
  case (quiet s resp w1)
  then show ?thesis
    using raw_state_position [OF contract quiet(1)] raw_read_view [OF contract quiet(2)] by simp
next
  case (captured s resp f w1 w2)
  from capture_data_position [OF contract captured(6)]
  obtain rcpt where "rt_receipt r = Some rcpt" "rt_status r = RC_CAPTURED"
      "rr_byte_start rcpt = rs_start_offset resp"
      "rr_byte_end_exclusive rcpt = rs_start_offset resp + length (host_data resp)"
      "host_data resp \<noteq> []" "view w' = Some (next_raw_cursor s f rcpt)" by blast
  with raw_state_position(1) [OF contract captured(1)] raw_read_offsets [OF captured(2)]
  show ?thesis by (simp add: raw_position_def next_raw_cursor_def)
qed

definition captured_receipts :: "raw_result list \<Rightarrow> range_receipt list" where
  "captured_receipts rs = map (the \<circ> rt_receipt) rs"

definition receipt_nonempty :: "range_receipt \<Rightarrow> bool" where
  "receipt_nonempty r \<longleftrightarrow> rr_byte_start r < rr_byte_end_exclusive r"

interpretation receipts: interval_store rr_byte_start rr_byte_end_exclusive receipt_nonempty
  by unfold_locales (simp add: receipt_nonempty_def)

lemma raw_transactions_tile:
  assumes contract: "raw_store_contract P (lc_capability_id cfg) view"
    and run: "raw_transactions H P cfg t n acc w = (Inr rs, w')"
  shows "\<exists>caps fin. rs = acc @ caps @ [fin] \<and> length caps \<le> n
    \<and> list_all (\<lambda>r. rt_status r = RC_CAPTURED) caps \<and> rt_status fin \<noteq> RC_CAPTURED
    \<and> list_all receipt_nonempty (captured_receipts caps)
    \<and> chain rr_byte_start rr_byte_end_exclusive (raw_position view cfg w) (captured_receipts caps)
        (raw_position view cfg w')"
  using run
proof (induction n arbitrary: acc w)
  case 0
  then obtain fin where "rs = acc @ [fin]" "rt_status fin = RC_PAUSED" "w' = w"
    by (auto simp: bindIO_Inr_iff make_raw_result_def)
  then have "rs = acc @ [] @ [fin] \<and> rt_status fin \<noteq> RC_CAPTURED
      \<and> chain rr_byte_start rr_byte_end_exclusive (raw_position view cfg w) (captured_receipts [])
          (raw_position view cfg w')"
    by (simp add: captured_receipts_def)
  then show ?case by (intro exI [of _ "[]"] exI [of _ fin]) (simp add: captured_receipts_def)
next
  case (Suc n)
  then obtain r w1 where one: "raw_run_once H P cfg t w = (Inr r, w1)"
    and rest: "(if rt_status r \<noteq> RC_CAPTURED then returnIO (acc @ [r])
                else raw_transactions H P cfg t n (acc @ [r])) w1 = (Inr rs, w')"
    by (auto simp: bindIO_Inr_iff)
  note pos = raw_run_once_position [OF contract one]
  show ?case
  proof (cases "rt_status r = RC_CAPTURED")
    case False
    with rest pos show ?thesis
      by (intro exI [of _ "[]"] exI [of _ r]) (auto simp: captured_receipts_def raw_position_def)
  next
    case True
    with pos obtain rcpt where rcpt: "rt_receipt r = Some rcpt"
      "rr_byte_start rcpt = raw_position view cfg w" "rr_byte_end_exclusive rcpt = raw_position view cfg w1"
      "receipt_nonempty rcpt"
      by (auto simp: receipt_nonempty_def)
    from Suc.IH [of "acc @ [r]" w1] rest True obtain caps fin where
      "rs = acc @ (r # caps) @ [fin]" "length caps \<le> n" "list_all (\<lambda>r. rt_status r = RC_CAPTURED) caps"
      "rt_status fin \<noteq> RC_CAPTURED" "list_all receipt_nonempty (captured_receipts caps)"
      "chain rr_byte_start rr_byte_end_exclusive (raw_position view cfg w1) (captured_receipts caps)
         (raw_position view cfg w')"
      by auto
    with rcpt True show ?thesis
      by (intro exI [of _ "r # caps"] exI [of _ fin]) (auto simp: captured_receipts_def)
  qed
qed

end
