(* ===== verification/SourceAdapter.thy ===== *)
theory SourceAdapter
  imports RangeLoop
begin

text \<open>
  The data of \<open>application/capture/source_adapter.py\<close>: newline framing, the pending
  ranges and spans of an assembly, and the adapter cursor with its validator. Both framers
  of the capture code satisfy the locale \<open>newline_framing\<close>. Python's \<open>date\<close> is its
  ordinal; the ISO renderings of dates and times are parameters of the JSON functions.
\<close>

section \<open>Bounds\<close>

definition HOST_CAPTURE_MAX_PARTIAL_TAIL_BYTES :: nat where "HOST_CAPTURE_MAX_PARTIAL_TAIL_BYTES = 65536"
definition HOST_CAPTURE_MAX_STORED_PARTIAL_TAIL_BYTES :: nat where
  "HOST_CAPTURE_MAX_STORED_PARTIAL_TAIL_BYTES = HOST_HELPER_MAX_READ_BYTES"
definition HOST_CAPTURE_MAX_STORED_PARTIAL_TAIL_BASE64_BYTES :: nat where
  "HOST_CAPTURE_MAX_STORED_PARTIAL_TAIL_BASE64_BYTES =
     4 * ((HOST_CAPTURE_MAX_STORED_PARTIAL_TAIL_BYTES + 2) div 3)"
definition HOST_CAPTURE_MAX_RECORD_BYTES :: nat where "HOST_CAPTURE_MAX_RECORD_BYTES = 65536"
definition HOST_CAPTURE_MAX_BATCH_RECORDS :: nat where "HOST_CAPTURE_MAX_BATCH_RECORDS = 64"
definition HOST_CAPTURE_MAX_WINDOW_RECORDS :: nat where "HOST_CAPTURE_MAX_WINDOW_RECORDS = 1024"
definition HOST_CAPTURE_MAX_STREAMING_ASSEMBLY_RECORDS :: nat where
  "HOST_CAPTURE_MAX_STREAMING_ASSEMBLY_RECORDS = 4096"
definition HOST_CAPTURE_MAX_PENDING_RANGES :: nat where "HOST_CAPTURE_MAX_PENDING_RANGES = 128"
definition HOST_CAPTURE_MAX_CONTINUATION_STATE_BYTES :: nat where
  "HOST_CAPTURE_MAX_CONTINUATION_STATE_BYTES = 65536"
definition HOST_CAPTURE_MAX_STREAMING_ASSEMBLY_BYTES :: nat where
  "HOST_CAPTURE_MAX_STREAMING_ASSEMBLY_BYTES = 8388608"
definition HOST_CAPTURE_MAX_QUARANTINE :: nat where "HOST_CAPTURE_MAX_QUARANTINE = 32"
definition HOST_CAPTURE_MAX_SCOPE_EXCLUSIONS :: nat where "HOST_CAPTURE_MAX_SCOPE_EXCLUSIONS = 1024"
definition HOST_CAPTURE_MAX_RETRY_ATTEMPTS :: nat where "HOST_CAPTURE_MAX_RETRY_ATTEMPTS = 8"

lemmas adapter_bounds =
  HOST_CAPTURE_MAX_PARTIAL_TAIL_BYTES_def HOST_CAPTURE_MAX_STORED_PARTIAL_TAIL_BYTES_def
  HOST_CAPTURE_MAX_STORED_PARTIAL_TAIL_BASE64_BYTES_def HOST_CAPTURE_MAX_RECORD_BYTES_def
  HOST_CAPTURE_MAX_BATCH_RECORDS_def HOST_CAPTURE_MAX_WINDOW_RECORDS_def
  HOST_CAPTURE_MAX_STREAMING_ASSEMBLY_RECORDS_def HOST_CAPTURE_MAX_PENDING_RANGES_def
  HOST_CAPTURE_MAX_CONTINUATION_STATE_BYTES_def HOST_CAPTURE_MAX_STREAMING_ASSEMBLY_BYTES_def
  HOST_CAPTURE_MAX_QUARANTINE_def HOST_CAPTURE_MAX_SCOPE_EXCLUSIONS_def
  HOST_CAPTURE_MAX_RETRY_ATTEMPTS_def

section \<open>Framing\<close>

record framed_record =
  fr_start_offset :: nat
  fr_end_offset :: nat
  fr_framed_bytes :: bytes
  fr_content_bytes :: bytes
  fr_oversized :: bool
  fr_record_index :: nat
  fr_framed_sha256 :: "string option"

definition framed_source_sha256 :: "hash \<Rightarrow> framed_record \<Rightarrow> string" where
  "framed_source_sha256 H r =
     (case fr_framed_sha256 r of
        Some s \<Rightarrow> if s = '''' then H (fr_framed_bytes r) else s
      | None \<Rightarrow> H (fr_framed_bytes r))"

text \<open>\<open>payload.find(b"\<newline>", cursor)\<close> on the bytes from the cursor on: the line and the rest.\<close>

fun next_line :: "bytes \<Rightarrow> (bytes \<times> bytes) option" where
  "next_line [] = None"
| "next_line (b # bs) =
     (if b = 10 then Some ([b], bs)
      else case next_line bs of None \<Rightarrow> None | Some (l, r) \<Rightarrow> Some (b # l, r))"

definition line_content :: "bytes \<Rightarrow> bytes" where
  "line_content framed =
     (let content = butlast framed
      in if content \<noteq> [] \<and> last content = 13 then butlast content else content)"

definition frame_line :: "nat \<Rightarrow> nat \<Rightarrow> nat \<Rightarrow> bytes \<Rightarrow> framed_record" where
  "frame_line max_record_bytes offset index framed =
     \<lparr>fr_start_offset = offset, fr_end_offset = offset + length framed, fr_framed_bytes = framed,
      fr_content_bytes = line_content framed, fr_oversized = length framed > max_record_bytes,
      fr_record_index = index, fr_framed_sha256 = None\<rparr>"

lemma next_line_split: "next_line p = Some (l, r) \<Longrightarrow> p = l @ r \<and> l \<noteq> []"
  by (induction p arbitrary: l) (auto split: if_splits option.splits)

lemma next_line_shape: "next_line p = Some (l, r) \<Longrightarrow> last l = 10 \<and> (10::8 word) \<notin> set (butlast l)"
proof (induction p arbitrary: l)
  case (Cons b p)
  show ?case
  proof (cases "b = 10")
    case True
    with Cons.prems show ?thesis by auto
  next
    case False
    with Cons.prems obtain l' where l': "next_line p = Some (l', r)" "l = b # l'"
      by (auto split: option.splits)
    with Cons.IH [OF l'(1)] next_line_split [OF l'(1)] False show ?thesis by auto
  qed
qed simp

lemma next_line_None: "next_line p = None \<longleftrightarrow> (10::8 word) \<notin> set p"
  by (induction p) (auto split: option.splits)

lemma next_line_shorter: "next_line p = Some (l, r) \<Longrightarrow> length r < length p"
  using next_line_split [of p l r] by auto

record framer =
  nf_max_record_bytes :: nat
  nf_max_partial_tail_bytes :: nat
  nf_max_batch_records :: nat

definition make_framer :: "framer \<Rightarrow> framer result" where
  "make_framer f =
     validated
       [raise_if (\<not> (1 \<le> nf_max_record_bytes f \<and> nf_max_record_bytes f \<le> HOST_HELPER_MAX_READ_BYTES))
          (ValueError ''record bound must fit the host read window''),
        raise_if (\<not> (1 \<le> nf_max_partial_tail_bytes f
            \<and> nf_max_partial_tail_bytes f \<le> HOST_HELPER_MAX_READ_BYTES))
          (ValueError ''partial-tail bound must fit the host read window''),
        raise_if (\<not> (1 \<le> nf_max_batch_records f
            \<and> nf_max_batch_records f \<le> HOST_CAPTURE_MAX_WINDOW_RECORDS))
          (ValueError ''record-count bound exceeds the SDK maximum'')]
       f"

record framed_batch =
  fb_records :: "framed_record list"
  fb_partial_tail :: bytes
  fb_has_unprocessed_records :: bool
  fb_partial_tail_overflow :: bool

text \<open>The loop of \<open>frame\<close>: at most \<open>budget\<close> more records; it returns the unframed rest.\<close>

fun frame_batch :: "nat \<Rightarrow> nat \<Rightarrow> nat \<Rightarrow> nat \<Rightarrow> bytes \<Rightarrow> framed_record list \<times> bytes" where
  "frame_batch max_record_bytes 0 offset index payload = ([], payload)"
| "frame_batch max_record_bytes (Suc budget) offset index payload =
     (case next_line payload of
        None \<Rightarrow> ([], payload)
      | Some (framed, rest) \<Rightarrow>
          (let (records, tail) =
             frame_batch max_record_bytes budget (offset + length framed) (index + 1) rest
           in (frame_line max_record_bytes offset index framed # records, tail)))"

definition framer_frame :: "framer \<Rightarrow> bytes \<Rightarrow> nat \<Rightarrow> nat \<Rightarrow> framed_batch result" where
  "framer_frame f payload base_offset base_record_index =
     (if length payload > HOST_HELPER_MAX_READ_BYTES + nf_max_partial_tail_bytes f
      then Inl (ValueError ''framing input exceeds the bounded acquisition window'')
      else
        (let (records, rest) =
               frame_batch (nf_max_record_bytes f) (nf_max_batch_records f) base_offset base_record_index payload;
             has_unprocessed = next_line rest \<noteq> None;
             partial = (if has_unprocessed then [] else rest)
         in Inr \<lparr>fb_records = records,
                 fb_partial_tail = (if length partial \<le> nf_max_partial_tail_bytes f then partial else []),
                 fb_has_unprocessed_records = has_unprocessed,
                 fb_partial_tail_overflow = length partial > nf_max_partial_tail_bytes f\<rparr>))"

text \<open>\<open>_frame_complete_records\<close> of \<open>transcript_fold.py\<close>: the same loop without a record budget.\<close>

function frame_complete_records ::
  "nat \<Rightarrow> nat \<Rightarrow> nat \<Rightarrow> bytes \<Rightarrow> framed_record list \<times> bytes" where
  "frame_complete_records max_record_bytes offset index payload =
     (case next_line payload of
        None \<Rightarrow> ([], payload)
      | Some (framed, rest) \<Rightarrow>
          (let (records, tail) =
             frame_complete_records max_record_bytes (offset + length framed) (index + 1) rest
           in (frame_line max_record_bytes offset index framed # records, tail)))"
  by pat_completeness auto
termination
  by (relation "measure (\<lambda>(_, _, _, p). length p)") (auto dest: next_line_shorter)

declare frame_complete_records.simps [simp del]

text \<open>
  The shape both framers produce: every record is one line at its offset and index.
\<close>

fun framed_from :: "nat \<Rightarrow> nat \<Rightarrow> nat \<Rightarrow> framed_record list \<Rightarrow> bool" where
  "framed_from mx offset index [] \<longleftrightarrow> True"
| "framed_from mx offset index (r # rs) \<longleftrightarrow>
     r = frame_line mx offset index (fr_framed_bytes r)
     \<and> fr_framed_bytes r \<noteq> [] \<and> last (fr_framed_bytes r) = 10
     \<and> 10 \<notin> set (butlast (fr_framed_bytes r))
     \<and> framed_from mx (fr_end_offset r) (index + 1) rs"

definition record_nonempty :: "framed_record \<Rightarrow> bool" where
  "record_nonempty r \<longleftrightarrow> fr_start_offset r < fr_end_offset r"

interpretation records: interval_store fr_start_offset fr_end_offset record_nonempty
  by unfold_locales (simp add: record_nonempty_def)

lemma framed_from_head:
  "framed_from mx off idx (r # rs) \<Longrightarrow>
   fr_start_offset r = off \<and> fr_end_offset r = off + length (fr_framed_bytes r)
   \<and> fr_record_index r = idx \<and> record_nonempty r \<and> fr_framed_sha256 r = None"
proof -
  assume "framed_from mx off idx (r # rs)"
  then have r: "r = frame_line mx off idx (fr_framed_bytes r)" "fr_framed_bytes r \<noteq> []"
    by simp_all
  have "fr_start_offset r = off" "fr_end_offset r = off + length (fr_framed_bytes r)"
    "fr_record_index r = idx" "fr_framed_sha256 r = None"
    by (subst r(1), simp add: frame_line_def)+
  with r(2) show ?thesis by (simp add: record_nonempty_def)
qed

lemma framed_from_chain:
  "framed_from mx off idx rs \<Longrightarrow>
   list_all record_nonempty rs
   \<and> chain fr_start_offset fr_end_offset off rs (off + length (concat (map fr_framed_bytes rs)))
   \<and> map fr_record_index rs = [idx..<idx + length rs]"
proof (induction rs arbitrary: off idx)
  case (Cons r rs)
  note h = framed_from_head [OF Cons.prems]
  from Cons.prems h have "framed_from mx (off + length (fr_framed_bytes r)) (idx + 1) rs" by simp
  from Cons.IH [OF this] h show ?case by (simp add: upt_conv_Cons add.assoc del: upt.simps)
qed simp

lemma framed_from_append:
  "framed_from mx off idx (rs @ ss) \<longleftrightarrow>
     framed_from mx off idx rs
     \<and> framed_from mx (off + length (concat (map fr_framed_bytes rs))) (idx + length rs) ss"
proof (induction rs arbitrary: off idx)
  case (Cons r rs)
  show ?case
  proof (cases "framed_from mx off idx [r]")
    case True
    note h = framed_from_head [OF True]
    from Cons.IH [of "fr_end_offset r" "idx + 1"] h True show ?thesis by (simp add: add.assoc)
  qed auto
qed simp

locale newline_framing =
  fixes frame :: "nat \<Rightarrow> nat \<Rightarrow> bytes \<Rightarrow> framed_record list \<times> bytes"
    and max_record :: nat
  assumes frame_shape: "framed_from max_record off idx (fst (frame off idx p))"
    and frame_joined: "concat (map fr_framed_bytes (fst (frame off idx p))) @ snd (frame off idx p) = p"
begin

lemma frame_chain:
  "frame off idx p = (rs, t) \<Longrightarrow>
   chain fr_start_offset fr_end_offset off rs (off + (length p - length t))"
proof -
  assume f: "frame off idx p = (rs, t)"
  have "length (concat (map fr_framed_bytes rs)) = length p - length t"
    using arg_cong [OF frame_joined [of off idx p], of length] f by simp
  with framed_from_chain [OF frame_shape [of off idx p]] f show ?thesis by simp
qed

lemma frame_nonempty: "frame off idx p = (rs, t) \<Longrightarrow> list_all record_nonempty rs"
  using framed_from_chain [OF frame_shape [of off idx p]] by simp

lemma frame_indexes:
  "frame off idx p = (rs, t) \<Longrightarrow> map fr_record_index rs = [idx..<idx + length rs]"
  using framed_from_chain [OF frame_shape [of off idx p]] by simp

lemma frame_bytes:
  "frame off idx p = (rs, t) \<Longrightarrow> p = concat (map fr_framed_bytes rs) @ t"
  using frame_joined [of off idx p] by simp

lemma frame_record_slice:
  assumes "frame off idx p = (rs, t)" "i < length rs"
  shows "fr_framed_bytes (rs ! i) =
    take (fr_end_offset (rs ! i) - fr_start_offset (rs ! i)) (drop (fr_start_offset (rs ! i) - off) p)"
proof -
  let ?l = "take i rs" and ?r = "rs ! i" and ?s = "drop (Suc i) rs"
  have rs: "rs = ?l @ ?r # ?s" using assms(2) by (simp add: id_take_nth_drop)
  have "framed_from max_record off idx (?l @ ?r # ?s)"
    using frame_shape [of off idx p] assms(1) rs by simp
  then have "framed_from max_record (off + length (concat (map fr_framed_bytes ?l))) (idx + length ?l) (?r # ?s)"
    unfolding framed_from_append by blast
  from framed_from_head [OF this] have
    "fr_start_offset ?r - off = length (concat (map fr_framed_bytes ?l))"
    "fr_end_offset ?r - fr_start_offset ?r = length (fr_framed_bytes ?r)" by simp_all
  moreover have "p = concat (map fr_framed_bytes ?l) @ fr_framed_bytes ?r @ concat (map fr_framed_bytes ?s) @ t"
    using frame_bytes [OF assms(1)] arg_cong [OF rs, of "\<lambda>x. concat (map fr_framed_bytes x)"] by simp
  ultimately show ?thesis by simp
qed

end

lemma frame_complete_None:
  "next_line p = None \<Longrightarrow> frame_complete_records mx off idx p = ([], p)"
  by (simp add: frame_complete_records.simps)

lemma frame_complete_Some:
  "next_line p = Some (l, r) \<Longrightarrow>
   frame_complete_records mx off idx p =
     (frame_line mx off idx l # fst (frame_complete_records mx (off + length l) (idx + 1) r),
      snd (frame_complete_records mx (off + length l) (idx + 1) r))"
  by (simp add: case_prod_beta frame_complete_records.simps [of mx off idx p])

lemma frame_complete_shape:
  "framed_from mx off idx (fst (frame_complete_records mx off idx p))
   \<and> concat (map fr_framed_bytes (fst (frame_complete_records mx off idx p)))
      @ snd (frame_complete_records mx off idx p) = p"
proof (induction mx off idx p rule: frame_complete_records.induct)
  case (1 mx off idx p)
  show ?case
  proof (cases "next_line p")
    case None
    then show ?thesis by (simp add: frame_complete_records.simps)
  next
    case (Some x)
    then obtain l r where x: "next_line p = Some (l, r)" by (cases x) auto
    show ?thesis
      unfolding frame_complete_Some [OF x]
      using 1 [OF x refl] next_line_split [OF x] next_line_shape [OF x]
      by (simp add: frame_line_def)
  qed
qed

lemma frame_batch_None: "next_line p = None \<Longrightarrow> frame_batch mx n off idx p = ([], p)"
  by (cases n) simp_all

lemma frame_batch_Some:
  "next_line p = Some (l, r) \<Longrightarrow>
   frame_batch mx (Suc n) off idx p =
     (frame_line mx off idx l # fst (frame_batch mx n (off + length l) (idx + 1) r),
      snd (frame_batch mx n (off + length l) (idx + 1) r))"
  by (simp add: case_prod_beta)

lemma frame_batch_shape:
  "framed_from mx off idx (fst (frame_batch mx n off idx p))
   \<and> concat (map fr_framed_bytes (fst (frame_batch mx n off idx p))) @ snd (frame_batch mx n off idx p) = p"
proof (induction n arbitrary: off idx p)
  case (Suc n)
  show ?case
  proof (cases "next_line p")
    case None
    then show ?thesis by (simp add: frame_batch_None del: frame_batch.simps)
  next
    case (Some x)
    then obtain l r where x: "next_line p = Some (l, r)" by (cases x) auto
    show ?thesis
      unfolding frame_batch_Some [OF x]
      using Suc.IH [of "off + length l" "idx + 1" r] next_line_split [OF x] next_line_shape [OF x]
      by (simp add: frame_line_def)
  qed
qed simp

interpretation fold_framing: newline_framing "frame_complete_records mx" mx for mx
  using frame_complete_shape by unfold_locales blast+

interpretation batch_framing: newline_framing "frame_batch mx n" mx for mx n
  using frame_batch_shape by unfold_locales blast+

lemma frame_complete_tail: "frame_complete_records mx off idx p = (rs, t) \<Longrightarrow> 10 \<notin> set t"
proof (induction mx off idx p arbitrary: rs t rule: frame_complete_records.induct)
  case (1 mx off idx p)
  show ?case
  proof (cases "next_line p")
    case None
    with 1 show ?thesis by (auto simp: frame_complete_records.simps [of mx off idx p] next_line_None)
  next
    case (Some x)
    then obtain l r where x: "next_line p = Some (l, r)" by (cases x) auto
    obtain rs' where "frame_complete_records mx (off + length l) (idx + 1) r = (rs', t)"
      using "1.prems" by (auto simp: frame_complete_records.simps [of mx off idx p] x split: prod.splits)
    with "1.IH" [OF x refl] show ?thesis by blast
  qed
qed

lemma frame_batch_length: "length (fst (frame_batch mx n off idx p)) \<le> n"
proof (induction n arbitrary: off idx p)
  case (Suc n)
  then show ?case by (cases "next_line p") (auto simp: case_prod_beta)
qed simp

lemma frame_batch_stops:
  "length (fst (frame_batch mx n off idx p)) < n \<Longrightarrow> next_line (snd (frame_batch mx n off idx p)) = None"
proof (induction n arbitrary: off idx p)
  case (Suc n)
  then show ?case by (cases "next_line p") (auto simp: case_prod_beta)
qed simp

end
