(* ===== verification/AdapterCursor.thy ===== *)
theory AdapterCursor
  imports SourceAdapter
begin

text \<open>
  The cursor models of \<open>application/capture/source_adapter.py\<close>: pending records and ranges,
  verified spans, quarantine and scope exclusions, cursor proposals and the adapter cursor
  (versions 1 and 2) with its validator, and their JSON dumps.
\<close>

section \<open>States and reasons\<close>

datatype host_capture_state =
    HC_HEALTHY | HC_WAITING_FOR_COMPLETE_RECORD | HC_DEGRADED | HC_QUARANTINED
  | HC_PERMISSION_REVOKED | HC_IDENTITY_CHANGED

fun host_capture_state_value :: "host_capture_state \<Rightarrow> string" where
  "host_capture_state_value HC_HEALTHY = ''healthy''"
| "host_capture_state_value HC_WAITING_FOR_COMPLETE_RECORD = ''waiting_for_complete_record''"
| "host_capture_state_value HC_DEGRADED = ''degraded''"
| "host_capture_state_value HC_QUARANTINED = ''quarantined''"
| "host_capture_state_value HC_PERMISSION_REVOKED = ''permission_revoked''"
| "host_capture_state_value HC_IDENTITY_CHANGED = ''identity_changed''"

datatype scope_exclusion_reason = OFF_DATE | MISSING_SOURCE_TIME | CROSS_MIDNIGHT

fun scope_exclusion_reason_value :: "scope_exclusion_reason \<Rightarrow> string" where
  "scope_exclusion_reason_value OFF_DATE = ''off_date''"
| "scope_exclusion_reason_value MISSING_SOURCE_TIME = ''missing_source_time''"
| "scope_exclusion_reason_value CROSS_MIDNIGHT = ''cross_midnight''"

datatype scope_exclusion_disposition = FINALIZED_TURN | SCOPE_START

fun scope_exclusion_disposition_value :: "scope_exclusion_disposition \<Rightarrow> string" where
  "scope_exclusion_disposition_value FINALIZED_TURN = ''finalized_turn''"
| "scope_exclusion_disposition_value SCOPE_START = ''scope_start''"

text \<open>A \<open>date\<close> is its proleptic ordinal.\<close>

type_synonym date = int

record finalized_scope_exclusion =
  fx_approved_date :: date
  fx_reason :: scope_exclusion_reason

section \<open>Quarantine, exclusions, pending records and ranges\<close>

record quarantine_entry =
  qe_file_identity :: file_identity
  qe_start_offset :: nat
  qe_end_offset :: nat
  qe_source_bytes_sha256 :: string
  qe_diagnostic_code :: string
  qe_occurrences :: nat

definition make_quarantine_entry :: "quarantine_entry \<Rightarrow> quarantine_entry result" where
  "make_quarantine_entry e =
     validated
       [nested (make_file_identity (qe_file_identity e)),
        raise_if (\<not> is_sha256 (qe_source_bytes_sha256 e)) (FieldError ''source_bytes_sha256''),
        raise_if (\<not> identifier_field 128 (qe_diagnostic_code e)) (FieldError ''diagnostic_code''),
        raise_if (qe_occurrences e < 1 \<or> qe_occurrences e > 1000000) (FieldError ''occurrences''),
        raise_if (qe_end_offset e \<le> qe_start_offset e)
          (ValueError ''quarantine byte range must be non-empty'')]
       e"

record scope_exclusion_entry =
  se_capability_id :: string
  se_file_identity :: file_identity
  se_start_offset :: nat
  se_end_offset :: nat
  se_start_record_index :: nat
  se_end_record_index :: nat
  se_source_bytes_sha256 :: string
  se_approved_date :: date
  se_reason :: scope_exclusion_reason
  se_disposition_kind :: scope_exclusion_disposition
  se_excluded_logical_turn_count :: "nat option"

definition make_scope_exclusion_entry :: "scope_exclusion_entry \<Rightarrow> scope_exclusion_entry result" where
  "make_scope_exclusion_entry e =
     validated
       [raise_if (\<not> identifier_field 128 (se_capability_id e)) (FieldError ''capability_id''),
        nested (make_file_identity (se_file_identity e)),
        raise_if (se_end_offset e < 1) (FieldError ''end_offset''),
        raise_if (se_end_record_index e < 1) (FieldError ''end_record_index''),
        raise_if (\<not> is_sha256 (se_source_bytes_sha256 e)) (FieldError ''source_bytes_sha256''),
        raise_if (\<not> opt_field (\<lambda>n. n \<le> 1000000) (se_excluded_logical_turn_count e))
          (FieldError ''excluded_logical_turn_count''),
        raise_if (se_end_offset e \<le> se_start_offset e)
          (ValueError ''scope exclusion byte range must be non-empty''),
        raise_if (se_end_record_index e \<le> se_start_record_index e)
          (ValueError ''scope exclusion record range must be non-empty'')]
       e"

record pending_record =
  pr_start_offset :: nat
  pr_end_offset :: nat
  pr_record_index :: nat
  pr_source_bytes_sha256 :: string

definition make_pending_record :: "pending_record \<Rightarrow> pending_record result" where
  "make_pending_record r =
     validated
       [raise_if (pr_end_offset r < 1) (FieldError ''end_offset''),
        raise_if (\<not> is_sha256 (pr_source_bytes_sha256 r)) (FieldError ''source_bytes_sha256''),
        raise_if (pr_end_offset r \<le> pr_start_offset r)
          (ValueError ''pending assembly record range must be non-empty'')]
       r"

definition pending_record_from_framed :: "hash \<Rightarrow> framed_record \<Rightarrow> pending_record result" where
  "pending_record_from_framed H r =
     make_pending_record
       \<lparr>pr_start_offset = fr_start_offset r, pr_end_offset = fr_end_offset r,
        pr_record_index = fr_record_index r, pr_source_bytes_sha256 = framed_source_sha256 H r\<rparr>"

definition pending_record_to_framed :: "pending_record \<Rightarrow> framed_record" where
  "pending_record_to_framed r =
     \<lparr>fr_start_offset = pr_start_offset r, fr_end_offset = pr_end_offset r, fr_framed_bytes = [],
      fr_content_bytes = [], fr_oversized = False, fr_record_index = pr_record_index r,
      fr_framed_sha256 = Some (pr_source_bytes_sha256 r)\<rparr>"

record pending_assembly_range =
  pa_file_identity :: file_identity
  pa_start_offset :: nat
  pa_end_offset :: nat
  pa_start_record_index :: nat
  pa_end_record_index :: nat
  pa_byte_count :: nat
  pa_source_bytes_sha256 :: string

definition make_pending_assembly_range :: "pending_assembly_range \<Rightarrow> pending_assembly_range result" where
  "make_pending_assembly_range r =
     validated
       [nested (make_file_identity (pa_file_identity r)),
        raise_if (pa_end_offset r < 1) (FieldError ''end_offset''),
        raise_if (pa_end_record_index r < 1) (FieldError ''end_record_index''),
        raise_if (pa_byte_count r < 1 \<or> pa_byte_count r > HOST_CAPTURE_MAX_STREAMING_ASSEMBLY_BYTES)
          (FieldError ''byte_count''),
        raise_if (\<not> is_sha256 (pa_source_bytes_sha256 r)) (FieldError ''source_bytes_sha256''),
        raise_if (pa_end_offset r \<le> pa_start_offset r)
          (ValueError ''pending assembly range bytes must be non-empty''),
        raise_if (pa_end_record_index r \<le> pa_start_record_index r)
          (ValueError ''pending assembly range records must be non-empty''),
        raise_if (pa_byte_count r \<noteq> pa_end_offset r - pa_start_offset r)
          (ValueError ''pending assembly range byte count must match its span'')]
       r"

fun records_contiguous :: "framed_record list \<Rightarrow> py_error option" where
  "records_contiguous (p # c # rs) =
     (if fr_end_offset p \<noteq> fr_start_offset c
      then Some (ValueError ''pending assembly records must be byte contiguous'')
      else if fr_record_index p + 1 \<noteq> fr_record_index c
      then Some (ValueError ''pending assembly records must be index contiguous'')
      else records_contiguous (c # rs))"
| "records_contiguous _ = None"

definition pending_range_from_records ::
  "hash \<Rightarrow> framed_record list \<Rightarrow> file_identity \<Rightarrow> pending_assembly_range result" where
  "pending_range_from_records H rs identity =
     (if rs = [] then Inl (ValueError ''pending assembly range requires records'')
      else case records_contiguous rs of
             Some e \<Rightarrow> Inl e
           | None \<Rightarrow>
               (let source_bytes = concat (map fr_framed_bytes rs)
                in make_pending_assembly_range
                     \<lparr>pa_file_identity = identity, pa_start_offset = fr_start_offset (hd rs),
                      pa_end_offset = fr_end_offset (last rs),
                      pa_start_record_index = fr_record_index (hd rs),
                      pa_end_record_index = fr_record_index (last rs) + 1,
                      pa_byte_count = length source_bytes, pa_source_bytes_sha256 = H source_bytes\<rparr>))"

record verified_assembly_span =
  va_file_identity :: file_identity
  va_start_offset :: nat
  va_end_offset :: nat
  va_start_record_index :: nat
  va_end_record_index :: nat
  va_byte_count :: nat
  va_record_count :: nat
  va_range_count :: nat
  va_source_bytes_sha256 :: string

definition make_verified_assembly_span :: "verified_assembly_span \<Rightarrow> verified_assembly_span result" where
  "make_verified_assembly_span s =
     validated
       [nested (make_file_identity (va_file_identity s)),
        raise_if (va_end_offset s < 1) (FieldError ''end_offset''),
        raise_if (va_end_record_index s < 1) (FieldError ''end_record_index''),
        raise_if (va_byte_count s < 1 \<or> va_byte_count s > HOST_CAPTURE_MAX_STREAMING_ASSEMBLY_BYTES)
          (FieldError ''byte_count''),
        raise_if (va_record_count s < 1 \<or> va_record_count s > HOST_CAPTURE_MAX_STREAMING_ASSEMBLY_RECORDS)
          (FieldError ''record_count''),
        raise_if (va_range_count s < 1 \<or> va_range_count s > HOST_CAPTURE_MAX_PENDING_RANGES)
          (FieldError ''range_count''),
        raise_if (\<not> is_sha256 (va_source_bytes_sha256 s)) (FieldError ''source_bytes_sha256''),
        raise_if (va_end_offset s \<le> va_start_offset s)
          (ValueError ''verified assembly span bytes must be non-empty''),
        raise_if (va_end_record_index s \<le> va_start_record_index s)
          (ValueError ''verified assembly span records must be non-empty''),
        raise_if (va_byte_count s \<noteq> va_end_offset s - va_start_offset s)
          (ValueError ''verified assembly byte count must match its span''),
        raise_if (va_record_count s \<noteq> va_end_record_index s - va_start_record_index s)
          (ValueError ''verified assembly record count must match its span'')]
       s"

section \<open>Proposals and acknowledgements\<close>

record proposed_source_cursor =
  pc_capability_id :: string
  pc_file_identity :: file_identity
  pc_start_offset :: nat
  pc_end_offset :: nat
  pc_source_bytes_sha256 :: string
  pc_envelope_hash :: string
  pc_expected_checkpoint_sequence :: nat
  pc_next_checkpoint_sequence :: nat

definition make_proposed_source_cursor :: "proposed_source_cursor \<Rightarrow> proposed_source_cursor result" where
  "make_proposed_source_cursor p =
     validated
       [raise_if (\<not> identifier_field 128 (pc_capability_id p)) (FieldError ''capability_id''),
        nested (make_file_identity (pc_file_identity p)),
        raise_if (pc_end_offset p < 1) (FieldError ''end_offset''),
        raise_if (\<not> is_sha256 (pc_source_bytes_sha256 p)) (FieldError ''source_bytes_sha256''),
        raise_if (\<not> is_sha256 (pc_envelope_hash p)) (FieldError ''envelope_hash''),
        raise_if (pc_next_checkpoint_sequence p < 1) (FieldError ''next_checkpoint_sequence''),
        raise_if (pc_end_offset p \<le> pc_start_offset p)
          (ValueError ''proposed source cursor must advance bytes''),
        raise_if (pc_next_checkpoint_sequence p \<noteq> pc_expected_checkpoint_sequence p + 1)
          (ValueError ''proposed checkpoint must advance exactly once'')]
       p"

record cursor_acknowledgement =
  ca_proposal :: proposed_source_cursor
  ca_operation_id :: string
  ca_receipt_request_hash :: string
  ca_receipt_event_id :: uuid
  ca_receipt_delivery_id :: uuid
  ca_authority_principal_id :: uuid
  ca_replayed :: bool

definition make_cursor_acknowledgement :: "cursor_acknowledgement \<Rightarrow> cursor_acknowledgement result" where
  "make_cursor_acknowledgement a =
     validated
       [nested (make_proposed_source_cursor (ca_proposal a)),
        raise_if (\<not> text_field 1 512 (ca_operation_id a)) (FieldError ''operation_id''),
        raise_if (\<not> is_sha256 (ca_receipt_request_hash a)) (FieldError ''receipt_request_hash'')]
       a"

section \<open>The adapter cursor\<close>

record host_cursor =
  hc_cursor_version :: nat
  hc_capability_id :: string
  hc_revision :: nat
  hc_file_identity :: "file_identity option"
  hc_acknowledged_offset :: nat
  hc_acknowledged_record_index :: nat
  hc_checkpoint_sequence :: nat
  hc_partial_tail_base64 :: string
  hc_partial_tail_sha256 :: string
  hc_pending_assembly_bytes :: nat
  hc_pending_assembly_sha256 :: string
  hc_pending_assembly_records :: "pending_record list"
  hc_pending_assembly_ranges :: "pending_assembly_range list"
  hc_extractor_state_base64 :: string
  hc_extractor_state_sha256 :: string
  hc_pending_capture_recorded_at :: "datetime option"
  hc_source_state :: host_capture_state
  hc_observed_size :: nat
  hc_retry_attempts :: nat
  hc_diagnostic_code :: "string option"
  hc_quarantine :: "quarantine_entry list"
  hc_quarantine_overflow_count :: nat
  hc_scope_exclusions :: "scope_exclusion_entry list"
  hc_last_acknowledgement :: "cursor_acknowledgement option"

definition initial_host_cursor :: "hash \<Rightarrow> string \<Rightarrow> host_cursor" where
  "initial_host_cursor H capability_id =
     \<lparr>hc_cursor_version = 2, hc_capability_id = capability_id, hc_revision = 0,
      hc_file_identity = None, hc_acknowledged_offset = 0, hc_acknowledged_record_index = 0,
      hc_checkpoint_sequence = 0, hc_partial_tail_base64 = '''', hc_partial_tail_sha256 = H [],
      hc_pending_assembly_bytes = 0, hc_pending_assembly_sha256 = H [],
      hc_pending_assembly_records = [], hc_pending_assembly_ranges = [],
      hc_extractor_state_base64 = '''', hc_extractor_state_sha256 = H [],
      hc_pending_capture_recorded_at = None, hc_source_state = HC_HEALTHY, hc_observed_size = 0,
      hc_retry_attempts = 0, hc_diagnostic_code = None, hc_quarantine = [],
      hc_quarantine_overflow_count = 0, hc_scope_exclusions = [], hc_last_acknowledgement = None\<rparr>"

definition pending_record_json :: "pending_record \<Rightarrow> json" where
  "pending_record_json r =
     JObj [(''start_offset'', j_nat (pr_start_offset r)), (''end_offset'', j_nat (pr_end_offset r)),
           (''record_index'', j_nat (pr_record_index r)),
           (''source_bytes_sha256'', JStr (pr_source_bytes_sha256 r))]"

definition pending_assembly_range_json :: "pending_assembly_range \<Rightarrow> json" where
  "pending_assembly_range_json r =
     JObj [(''range_version'', JInt 1), (''file_identity'', file_identity_json (pa_file_identity r)),
           (''start_offset'', j_nat (pa_start_offset r)), (''end_offset'', j_nat (pa_end_offset r)),
           (''start_record_index'', j_nat (pa_start_record_index r)),
           (''end_record_index'', j_nat (pa_end_record_index r)),
           (''byte_count'', j_nat (pa_byte_count r)),
           (''source_bytes_sha256'', JStr (pa_source_bytes_sha256 r))]"

definition quarantine_entry_json :: "quarantine_entry \<Rightarrow> json" where
  "quarantine_entry_json e =
     JObj [(''file_identity'', file_identity_json (qe_file_identity e)),
           (''start_offset'', j_nat (qe_start_offset e)), (''end_offset'', j_nat (qe_end_offset e)),
           (''source_bytes_sha256'', JStr (qe_source_bytes_sha256 e)),
           (''diagnostic_code'', JStr (qe_diagnostic_code e)), (''occurrences'', j_nat (qe_occurrences e))]"

definition scope_exclusion_entry_json :: "(date \<Rightarrow> string) \<Rightarrow> scope_exclusion_entry \<Rightarrow> json" where
  "scope_exclusion_entry_json iso_date e =
     JObj [(''capability_id'', JStr (se_capability_id e)),
           (''file_identity'', file_identity_json (se_file_identity e)),
           (''start_offset'', j_nat (se_start_offset e)), (''end_offset'', j_nat (se_end_offset e)),
           (''start_record_index'', j_nat (se_start_record_index e)),
           (''end_record_index'', j_nat (se_end_record_index e)),
           (''source_bytes_sha256'', JStr (se_source_bytes_sha256 e)),
           (''approved_date'', JStr (iso_date (se_approved_date e))),
           (''reason'', JStr (scope_exclusion_reason_value (se_reason e))),
           (''disposition_kind'', JStr (scope_exclusion_disposition_value (se_disposition_kind e))),
           (''excluded_logical_turn_count'', j_opt j_nat (se_excluded_logical_turn_count e))]"

definition proposed_source_cursor_json :: "proposed_source_cursor \<Rightarrow> json" where
  "proposed_source_cursor_json p =
     JObj [(''proposal_version'', JInt 1), (''capability_id'', JStr (pc_capability_id p)),
           (''file_identity'', file_identity_json (pc_file_identity p)),
           (''start_offset'', j_nat (pc_start_offset p)), (''end_offset'', j_nat (pc_end_offset p)),
           (''source_bytes_sha256'', JStr (pc_source_bytes_sha256 p)),
           (''envelope_hash'', JStr (pc_envelope_hash p)),
           (''expected_checkpoint_sequence'', j_nat (pc_expected_checkpoint_sequence p)),
           (''next_checkpoint_sequence'', j_nat (pc_next_checkpoint_sequence p))]"

definition proposed_cursor_canonical_hash :: "hash \<Rightarrow> proposed_source_cursor \<Rightarrow> string" where
  "proposed_cursor_canonical_hash H p = canonical_sha256 H (proposed_source_cursor_json p)"

definition cursor_acknowledgement_json :: "cursor_acknowledgement \<Rightarrow> json" where
  "cursor_acknowledgement_json a =
     JObj [(''proposal'', proposed_source_cursor_json (ca_proposal a)),
           (''operation_id'', JStr (ca_operation_id a)),
           (''receipt_request_hash'', JStr (ca_receipt_request_hash a)),
           (''receipt_event_id'', j_uuid (ca_receipt_event_id a)),
           (''receipt_delivery_id'', j_uuid (ca_receipt_delivery_id a)),
           (''authority_principal_id'', j_uuid (ca_authority_principal_id a)),
           (''replayed'', JBool (ca_replayed a))]"

definition host_cursor_json ::
  "(datetime \<Rightarrow> string) \<Rightarrow> (date \<Rightarrow> string) \<Rightarrow> host_cursor \<Rightarrow> json" where
  "host_cursor_json iso_datetime iso_date s =
     JObj [(''cursor_version'', j_nat (hc_cursor_version s)),
           (''capability_id'', JStr (hc_capability_id s)), (''revision'', j_nat (hc_revision s)),
           (''file_identity'', j_opt file_identity_json (hc_file_identity s)),
           (''acknowledged_offset'', j_nat (hc_acknowledged_offset s)),
           (''acknowledged_record_index'', j_nat (hc_acknowledged_record_index s)),
           (''checkpoint_sequence'', j_nat (hc_checkpoint_sequence s)),
           (''partial_tail_base64'', JStr (hc_partial_tail_base64 s)),
           (''partial_tail_sha256'', JStr (hc_partial_tail_sha256 s)),
           (''pending_assembly_bytes'', j_nat (hc_pending_assembly_bytes s)),
           (''pending_assembly_sha256'', JStr (hc_pending_assembly_sha256 s)),
           (''pending_assembly_records'', JList (map pending_record_json (hc_pending_assembly_records s))),
           (''pending_assembly_ranges'',
              JList (map pending_assembly_range_json (hc_pending_assembly_ranges s))),
           (''extractor_state_base64'', JStr (hc_extractor_state_base64 s)),
           (''extractor_state_sha256'', JStr (hc_extractor_state_sha256 s)),
           (''pending_capture_recorded_at'',
              j_opt (JStr \<circ> iso_datetime) (hc_pending_capture_recorded_at s)),
           (''source_state'', JStr (host_capture_state_value (hc_source_state s))),
           (''observed_size'', j_nat (hc_observed_size s)),
           (''retry_attempts'', j_nat (hc_retry_attempts s)),
           (''diagnostic_code'', j_opt JStr (hc_diagnostic_code s)),
           (''quarantine'', JList (map quarantine_entry_json (hc_quarantine s))),
           (''quarantine_overflow_count'', j_nat (hc_quarantine_overflow_count s)),
           (''scope_exclusions'',
              JList (map (scope_exclusion_entry_json iso_date) (hc_scope_exclusions s))),
           (''last_acknowledgement'', j_opt cursor_acknowledgement_json (hc_last_acknowledgement s))]"

definition hc_partial_tail :: "host_cursor \<Rightarrow> bytes" where
  "hc_partial_tail s = (case b64decode (hc_partial_tail_base64 s) of None \<Rightarrow> [] | Some b \<Rightarrow> b)"

definition hc_extractor_state :: "host_cursor \<Rightarrow> bytes" where
  "hc_extractor_state s = (case b64decode (hc_extractor_state_base64 s) of None \<Rightarrow> [] | Some b \<Rightarrow> b)"

definition hc_pending_end_offset :: "host_cursor \<Rightarrow> nat" where
  "hc_pending_end_offset s =
     (if hc_pending_assembly_ranges s \<noteq> [] then pa_end_offset (last (hc_pending_assembly_ranges s))
      else if hc_pending_assembly_records s \<noteq> [] then pr_end_offset (last (hc_pending_assembly_records s))
      else hc_acknowledged_offset s)"

definition hc_pending_end_record_index :: "host_cursor \<Rightarrow> nat" where
  "hc_pending_end_record_index s =
     (if hc_pending_assembly_ranges s \<noteq> [] then pa_end_record_index (last (hc_pending_assembly_ranges s))
      else if hc_pending_assembly_records s \<noteq> []
      then pr_record_index (last (hc_pending_assembly_records s)) + 1
      else hc_acknowledged_record_index s)"

fun pending_record_walk :: "nat \<Rightarrow> nat \<Rightarrow> pending_record list \<Rightarrow> py_error + nat" where
  "pending_record_walk start index [] = Inr start"
| "pending_record_walk start index (r # rs) =
     (if pr_start_offset r \<noteq> start
      then Inl (ValueError ''pending assembly record bytes must be contiguous'')
      else if pr_record_index r \<noteq> index
      then Inl (ValueError ''pending assembly record indexes must be contiguous'')
      else pending_record_walk (pr_end_offset r) (index + 1) rs)"

fun pending_range_walk ::
  "file_identity option \<Rightarrow> nat \<Rightarrow> nat \<Rightarrow> pending_assembly_range list \<Rightarrow> py_error + nat \<times> nat" where
  "pending_range_walk identity start index [] = Inr (start, index)"
| "pending_range_walk identity start index (r # rs) =
     (if identity \<noteq> Some (pa_file_identity r)
      then Inl (ValueError ''pending assembly range must bind the cursor file identity'')
      else if pa_start_offset r \<noteq> start
      then Inl (ValueError ''pending assembly range bytes must be contiguous'')
      else if pa_start_record_index r \<noteq> index
      then Inl (ValueError ''pending assembly range indexes must be contiguous'')
      else pending_range_walk identity (pa_end_offset r) (pa_end_record_index r) rs)"

definition pending_assembly_checks :: "hash \<Rightarrow> host_cursor \<Rightarrow> py_error option list" where
  "pending_assembly_checks H s =
     (if hc_pending_assembly_records s \<noteq> [] then
        (case pending_record_walk (hc_acknowledged_offset s) (hc_acknowledged_record_index s)
                (hc_pending_assembly_records s) of
           Inl e \<Rightarrow> [Some e]
         | Inr stop \<Rightarrow>
             [raise_if (stop - hc_acknowledged_offset s \<noteq> hc_pending_assembly_bytes s)
                (ValueError ''pending assembly byte count must match its records''),
              raise_if (hc_pending_assembly_sha256 s \<noteq>
                  canonical_sha256 H (JList (map pending_record_json (hc_pending_assembly_records s))))
                (ValueError ''pending assembly record hash does not match its records'')])
      else if hc_pending_assembly_ranges s \<noteq> [] then
        (case pending_range_walk (hc_file_identity s) (hc_acknowledged_offset s)
                (hc_acknowledged_record_index s) (hc_pending_assembly_ranges s) of
           Inl e \<Rightarrow> [Some e]
         | Inr (stop, index) \<Rightarrow>
             [raise_if (stop - hc_acknowledged_offset s \<noteq> hc_pending_assembly_bytes s)
                (ValueError ''pending assembly byte count must match its ranges''),
              raise_if (index - hc_acknowledged_record_index s > HOST_CAPTURE_MAX_STREAMING_ASSEMBLY_RECORDS)
                (ValueError ''pending assembly record span exceeds its bound''),
              raise_if (hc_pending_assembly_sha256 s \<noteq>
                  canonical_sha256 H
                    (JList (map pending_assembly_range_json (hc_pending_assembly_ranges s))))
                (ValueError ''pending assembly range hash does not match its ranges'')])
      else if hc_pending_assembly_bytes s = 0 then
        [raise_if (hc_pending_assembly_sha256 s \<noteq> H [])
           (ValueError ''empty pending assembly must use the empty SHA-256'')]
      else
        [raise_if (hc_pending_assembly_bytes s > HOST_HELPER_MAX_READ_BYTES)
           (ValueError ''raw pending assembly exceeds the host read window'')])"

fun exclusion_walk ::
  "host_cursor \<Rightarrow> (nat \<times> nat \<times> nat \<times> nat) list \<Rightarrow> scope_exclusion_entry list \<Rightarrow> py_error option" where
  "exclusion_walk s seen [] = None"
| "exclusion_walk s seen (e # es) =
     (if se_capability_id e \<noteq> hc_capability_id s
      then Some (ValueError ''scope exclusion must bind the cursor capability'')
      else if Some (se_file_identity e) \<noteq> hc_file_identity s
      then Some (ValueError ''scope exclusion must bind the cursor file identity'')
      else
        (let range = (se_start_offset e, se_end_offset e, se_start_record_index e, se_end_record_index e)
         in if range \<in> set seen then Some (ValueError ''scope exclusion ranges must be unique'')
            else exclusion_walk s (range # seen) es))"

definition host_cursor_tail_checks :: "hash \<Rightarrow> host_cursor \<Rightarrow> bytes \<Rightarrow> bytes \<Rightarrow> py_error option list" where
  "host_cursor_tail_checks H s tail extractor_state =
     [raise_if (length extractor_state > HOST_CAPTURE_MAX_CONTINUATION_STATE_BYTES)
        (ValueError ''extractor continuation state exceeds its bound''),
      raise_if (H extractor_state \<noteq> hc_extractor_state_sha256 s)
        (ValueError ''extractor state hash does not match its bytes''),
      raise_if (\<not> opt_field (\<lambda>t. \<not> tz_missing t) (hc_pending_capture_recorded_at s))
        (ValueError ''pending capture time must be timezone-aware''),
      raise_if (hc_cursor_version s = 1 \<and> hc_pending_assembly_ranges s \<noteq> [])
        (ValueError ''cursor v1 cannot contain compact pending ranges''),
      raise_if (hc_cursor_version s = 2 \<and> hc_pending_assembly_records s \<noteq> [])
        (ValueError ''cursor v2 cannot contain legacy pending records'')]
     @ pending_assembly_checks H s
     @ [raise_if (hc_acknowledged_offset s > hc_observed_size s)
          (ValueError ''acknowledged offset cannot exceed observed source size''),
        raise_if (tail \<noteq> [] \<and> hc_pending_assembly_bytes s \<noteq> 0
            \<and> hc_pending_assembly_records s = [] \<and> hc_pending_assembly_ranges s = [])
          (ValueError ''partial tail and pending assembly are mutually exclusive''),
        raise_if (hc_file_identity s = None
            \<and> (hc_acknowledged_offset s \<noteq> 0 \<or> tail \<noteq> [] \<or> hc_pending_assembly_bytes s \<noteq> 0
               \<or> hc_pending_assembly_records s \<noteq> [] \<or> hc_pending_assembly_ranges s \<noteq> []
               \<or> extractor_state \<noteq> [] \<or> hc_pending_capture_recorded_at s \<noteq> None
               \<or> hc_scope_exclusions s \<noteq> [] \<or> hc_last_acknowledgement s \<noteq> None))
          (ValueError ''cursor progress requires stable file identity''),
        exclusion_walk s [] (hc_scope_exclusions s)]
     @ (case hc_last_acknowledgement s of
          None \<Rightarrow> []
        | Some a \<Rightarrow>
            [raise_if (pc_end_offset (ca_proposal a) \<noteq> hc_acknowledged_offset s)
               (ValueError ''last receipt must bind the acknowledged byte offset''),
             raise_if (pc_next_checkpoint_sequence (ca_proposal a) \<noteq> hc_checkpoint_sequence s)
               (ValueError ''last receipt must bind the checkpoint sequence''),
             raise_if (Some (pc_file_identity (ca_proposal a)) \<noteq> hc_file_identity s)
               (ValueError ''last receipt must bind the current file identity'')])"

definition host_cursor_checks :: "hash \<Rightarrow> host_cursor \<Rightarrow> py_error option list" where
  "host_cursor_checks H s =
     (case b64decode (hc_partial_tail_base64 s) of
        None \<Rightarrow> [Some (ValueError ''partial tail must be canonical base64'')]
      | Some tail \<Rightarrow>
          [raise_if (length tail > HOST_CAPTURE_MAX_STORED_PARTIAL_TAIL_BYTES)
             (ValueError ''partial tail exceeds its preservation bound''),
           raise_if (H tail \<noteq> hc_partial_tail_sha256 s)
             (ValueError ''partial tail hash does not match its bytes'')]
          @ (case b64decode (hc_extractor_state_base64 s) of
               None \<Rightarrow> [Some (ValueError ''extractor state must be canonical base64'')]
             | Some extractor_state \<Rightarrow> host_cursor_tail_checks H s tail extractor_state))"

definition make_host_cursor :: "hash \<Rightarrow> host_cursor \<Rightarrow> host_cursor result" where
  "make_host_cursor H s =
     validated
       ([raise_if (hc_cursor_version s \<notin> {1, 2}) (FieldError ''cursor_version''),
         raise_if (\<not> identifier_field 128 (hc_capability_id s)) (FieldError ''capability_id''),
         nested_opt make_file_identity (hc_file_identity s),
         raise_if (length (hc_partial_tail_base64 s) > HOST_CAPTURE_MAX_STORED_PARTIAL_TAIL_BASE64_BYTES)
           (FieldError ''partial_tail_base64''),
         raise_if (\<not> is_sha256 (hc_partial_tail_sha256 s)) (FieldError ''partial_tail_sha256''),
         raise_if (hc_pending_assembly_bytes s > HOST_CAPTURE_MAX_STREAMING_ASSEMBLY_BYTES)
           (FieldError ''pending_assembly_bytes''),
         raise_if (\<not> is_sha256 (hc_pending_assembly_sha256 s)) (FieldError ''pending_assembly_sha256''),
         nested_list make_pending_record (hc_pending_assembly_records s),
         raise_if (length (hc_pending_assembly_records s) > HOST_CAPTURE_MAX_WINDOW_RECORDS)
           (FieldError ''pending_assembly_records''),
         nested_list make_pending_assembly_range (hc_pending_assembly_ranges s),
         raise_if (length (hc_pending_assembly_ranges s) > HOST_CAPTURE_MAX_PENDING_RANGES)
           (FieldError ''pending_assembly_ranges''),
         raise_if (length (hc_extractor_state_base64 s) > 87384) (FieldError ''extractor_state_base64''),
         raise_if (\<not> is_sha256 (hc_extractor_state_sha256 s)) (FieldError ''extractor_state_sha256''),
         raise_if (hc_retry_attempts s > HOST_CAPTURE_MAX_RETRY_ATTEMPTS) (FieldError ''retry_attempts''),
         raise_if (\<not> opt_field (identifier_field 128) (hc_diagnostic_code s)) (FieldError ''diagnostic_code''),
         nested_list make_quarantine_entry (hc_quarantine s),
         raise_if (length (hc_quarantine s) > HOST_CAPTURE_MAX_QUARANTINE) (FieldError ''quarantine''),
         raise_if (hc_quarantine_overflow_count s > 1000000) (FieldError ''quarantine_overflow_count''),
         nested_list make_scope_exclusion_entry (hc_scope_exclusions s),
         raise_if (length (hc_scope_exclusions s) > HOST_CAPTURE_MAX_SCOPE_EXCLUSIONS)
           (FieldError ''scope_exclusions''),
         nested_opt make_cursor_acknowledgement (hc_last_acknowledgement s)]
        @ host_cursor_checks H s)
       s"

section \<open>What a cursor that validates says\<close>

lemma pending_record_walk_Inr:
  "pending_record_walk n i rs = Inr m \<longleftrightarrow>
     chain pr_start_offset pr_end_offset n rs m \<and> map pr_record_index rs = [i..<i + length rs]"
  by (induction rs arbitrary: n i) (auto simp: upt_conv_Cons simp del: upt.simps)

lemma pending_range_walk_Inr:
  "pending_range_walk f n i rs = Inr (m, j) \<longleftrightarrow>
     chain pa_start_offset pa_end_offset n rs m
     \<and> chain pa_start_record_index pa_end_record_index i rs j
     \<and> (\<forall>r \<in> set rs. f = Some (pa_file_identity r))"
  by (induction rs arbitrary: n i) auto

lemma pending_range_facts:
  assumes "is_ok (make_pending_assembly_range r)"
  shows "pa_start_offset r < pa_end_offset r" and "pa_start_record_index r < pa_end_record_index r"
  using assms by (simp_all add: make_pending_assembly_range_def)

interpretation assembly_ranges: interval_store pa_start_offset pa_end_offset
  "\<lambda>r. is_ok (make_pending_assembly_range r)"
  by unfold_locales (rule pending_range_facts)

lemma records_contiguous_None:
  assumes "framed_from mx off idx rs"
  shows "records_contiguous rs = None"
  using assms
proof (induction rs arbitrary: off idx rule: records_contiguous.induct)
  case (1 p c rs)
  then have c: "framed_from mx (fr_end_offset p) (idx + 1) (c # rs)" by simp
  with framed_from_head [OF "1.prems"] framed_from_head [OF c] "1.IH" show ?case by auto
qed auto

end
