(* ===== verification/FoldData.thy ===== *)
theory FoldData
  imports AdapterCursor
begin

text \<open>
  The models of \<open>application/capture/transcript_fold.py\<close>: durable reads with their lineage,
  fold outcomes, the fold command with its builder, receipts and the fold cursor. The
  conversation envelope is a type parameter \<open>'e\<close> with its JSON validator and its canonical
  rendering in \<open>fold_env\<close>; \<open>ev_hash\<close> is SHA-256.
\<close>

section \<open>Bounds and environment\<close>

definition TRANSCRIPT_FOLD_MAX_READ_BYTES :: nat where "TRANSCRIPT_FOLD_MAX_READ_BYTES = 8388608"
definition TRANSCRIPT_FOLD_MAX_MIGRATION_BYTES :: nat where "TRANSCRIPT_FOLD_MAX_MIGRATION_BYTES = 67108864"
definition TRANSCRIPT_FOLD_LEGACY_MIGRATION_CHUNK_BYTES :: nat where
  "TRANSCRIPT_FOLD_LEGACY_MIGRATION_CHUNK_BYTES = 1000000"
definition TRANSCRIPT_FOLD_MAX_OUTCOMES :: nat where "TRANSCRIPT_FOLD_MAX_OUTCOMES = 256"
definition TRANSCRIPT_FOLD_MAX_LINEAGE_RANGES :: nat where "TRANSCRIPT_FOLD_MAX_LINEAGE_RANGES = 1024"
definition TRANSCRIPT_FOLD_COMMAND_MAX_BYTES :: nat where "TRANSCRIPT_FOLD_COMMAND_MAX_BYTES = 16777216"
definition CAPTURE_ENVELOPE_MAX_BYTES :: nat where "CAPTURE_ENVELOPE_MAX_BYTES = 1048576"

lemmas fold_bounds =
  TRANSCRIPT_FOLD_MAX_READ_BYTES_def TRANSCRIPT_FOLD_MAX_MIGRATION_BYTES_def
  TRANSCRIPT_FOLD_LEGACY_MIGRATION_CHUNK_BYTES_def TRANSCRIPT_FOLD_MAX_OUTCOMES_def
  TRANSCRIPT_FOLD_MAX_LINEAGE_RANGES_def TRANSCRIPT_FOLD_COMMAND_MAX_BYTES_def
  CAPTURE_ENVELOPE_MAX_BYTES_def

record 'e fold_env =
  ev_hash :: hash
  ev_validate_envelope :: "string \<Rightarrow> 'e result"
  ev_envelope_json :: "'e \<Rightarrow> string"

definition envelope_hash :: "'e fold_env \<Rightarrow> 'e \<Rightarrow> string" where
  "envelope_hash E e = ev_hash E (utf8 (ev_envelope_json E e))"

datatype fold_outcome_kind = EXACT_TURN | TRANSCRIPT_SPAN | POLICY_DISPOSITION

fun fold_outcome_kind_value :: "fold_outcome_kind \<Rightarrow> string" where
  "fold_outcome_kind_value EXACT_TURN = ''exact_turn''"
| "fold_outcome_kind_value TRANSCRIPT_SPAN = ''transcript_span''"
| "fold_outcome_kind_value POLICY_DISPOSITION = ''policy_disposition''"

datatype fold_run_status =
    FOLDED | FR_END_OF_DURABLE_RANGES | FR_WAITING_FOR_COMPLETE_RECORD | WAITING_FOR_EXACT_TURN
  | FR_DEGRADED

datatype durable_read_status = DATA | END_OF_DURABLE_RANGES

section \<open>Durable reads\<close>

record fold_source_range =
  fs_source_range_receipt_id :: uuid
  fs_receipt_byte_start :: nat
  fs_receipt_byte_end_exclusive :: nat
  fs_receipt_payload_sha256 :: string
  fs_byte_start :: nat
  fs_byte_end_exclusive :: nat
  fs_source_bytes_sha256 :: string

definition make_fold_source_range :: "fold_source_range \<Rightarrow> fold_source_range result" where
  "make_fold_source_range r =
     validated
       [raise_if (fs_receipt_byte_end_exclusive r = 0) (FieldError ''receipt_byte_end_exclusive''),
        raise_if (\<not> is_sha256 (fs_receipt_payload_sha256 r)) (FieldError ''receipt_payload_sha256''),
        raise_if (fs_byte_end_exclusive r = 0) (FieldError ''byte_end_exclusive''),
        raise_if (\<not> is_sha256 (fs_source_bytes_sha256 r)) (FieldError ''source_bytes_sha256''),
        raise_if (fs_receipt_byte_end_exclusive r \<le> fs_receipt_byte_start r)
          (ValueError ''source-range receipt bounds must be non-empty''),
        raise_if (\<not> (fs_receipt_byte_start r \<le> fs_byte_start r
            \<and> fs_byte_start r < fs_byte_end_exclusive r
            \<and> fs_byte_end_exclusive r \<le> fs_receipt_byte_end_exclusive r))
          (ValueError ''fold lineage must remain inside its retained receipt'')]
       r"

abbreviation lineage_ok :: "fold_source_range \<Rightarrow> bool" where
  "lineage_ok r \<equiv> is_ok (make_fold_source_range r)"

record durable_read_request =
  dq_source_object_id :: uuid
  dq_source_revision_key :: string
  dq_file_identity_key :: string
  dq_byte_start :: nat
  dq_max_bytes :: nat

definition make_durable_read_request :: "durable_read_request \<Rightarrow> durable_read_request result" where
  "make_durable_read_request q =
     validated
       [raise_if (\<not> text_field 1 512 (dq_source_revision_key q)) (FieldError ''source_revision_key''),
        raise_if (\<not> text_field 1 256 (dq_file_identity_key q)) (FieldError ''file_identity_key''),
        raise_if (dq_max_bytes q < 1 \<or> dq_max_bytes q > TRANSCRIPT_FOLD_MAX_MIGRATION_BYTES)
          (FieldError ''max_bytes'')]
       q"

record durable_read =
  dr_status :: durable_read_status
  dr_source_object_id :: uuid
  dr_source_revision_key :: string
  dr_file_identity :: "file_identity option"
  dr_file_identity_key :: string
  dr_connector_id :: "string option"
  dr_observed_connector_version :: "string option"
  dr_observed_source_format_version :: "string option"
  dr_byte_start :: nat
  dr_byte_end_exclusive :: nat
  dr_durable_end_offset :: nat
  dr_payload_hex :: string
  dr_payload_sha256 :: string
  dr_ranges :: "fold_source_range list"
  dr_first_captured_at :: "datetime option"

definition dr_payload :: "durable_read \<Rightarrow> bytes" where
  "dr_payload r = (case fromhex (dr_payload_hex r) of None \<Rightarrow> [] | Some p \<Rightarrow> p)"

definition durable_read_checks :: "hash \<Rightarrow> durable_read \<Rightarrow> py_error option list" where
  "durable_read_checks H r =
     [raise_if (dr_byte_end_exclusive r < dr_byte_start r)
        (ValueError ''durable fold read byte range is invalid''),
      raise_if (dr_durable_end_offset r < dr_byte_end_exclusive r)
        (ValueError ''durable fold read cannot exceed retained bytes''),
      raise_if (length (dr_payload r) \<noteq> dr_byte_end_exclusive r - dr_byte_start r)
        (ValueError ''durable fold read bytes must match its range''),
      raise_if (H (dr_payload r) \<noteq> dr_payload_sha256 r)
        (ValueError ''durable fold read hash must bind its exact bytes'')]
     @ (if dr_status r = DATA then
          [raise_if (dr_payload r = [] \<or> dr_file_identity r = None \<or> dr_ranges r = [])
             (ValueError ''durable fold data requires bytes and lineage''),
           raise_if (dr_first_captured_at r = None \<or> \<not> opt_field (\<lambda>t. \<not> tz_missing t) (dr_first_captured_at r))
             (ValueError ''durable fold data requires a timezone-aware receipt time'')]
          @ chain_checks fs_byte_start fs_byte_end_exclusive (dr_byte_start r) (dr_ranges r)
              (dr_byte_end_exclusive r)
              (ValueError ''durable fold lineage must be byte contiguous'')
              (ValueError ''durable fold lineage must cover all returned bytes'')
        else
          [raise_if (dr_payload r \<noteq> [] \<or> dr_ranges r \<noteq> [] \<or> dr_byte_end_exclusive r \<noteq> dr_byte_start r)
             (ValueError ''end-of-range reads cannot claim source bytes'')])"

definition make_durable_read :: "hash \<Rightarrow> durable_read \<Rightarrow> durable_read result" where
  "make_durable_read H r =
     validated
       ([raise_if (\<not> text_field 1 512 (dr_source_revision_key r)) (FieldError ''source_revision_key''),
         nested_opt make_file_identity (dr_file_identity r),
         raise_if (\<not> text_field 1 256 (dr_file_identity_key r)) (FieldError ''file_identity_key''),
         raise_if (\<not> opt_field (identifier_field 128) (dr_connector_id r)) (FieldError ''connector_id''),
         raise_if (\<not> opt_field (text_field 1 128) (dr_observed_connector_version r))
           (FieldError ''observed_connector_version''),
         raise_if (\<not> opt_field (text_field 1 128) (dr_observed_source_format_version r))
           (FieldError ''observed_source_format_version''),
         raise_if (fromhex (dr_payload_hex r) = None) (FieldError ''payload_hex''),
         raise_if (\<not> is_sha256 (dr_payload_sha256 r)) (FieldError ''payload_sha256''),
         nested_list make_fold_source_range (dr_ranges r),
         raise_if (length (dr_ranges r) > TRANSCRIPT_FOLD_MAX_LINEAGE_RANGES) (FieldError ''ranges'')]
        @ durable_read_checks H r)
       r"

section \<open>Outcomes\<close>

record exact_turn_evidence =
  et_envelope_canonical_json :: string
  et_envelope_sha256 :: string

definition make_exact_turn_evidence :: "'e fold_env \<Rightarrow> exact_turn_evidence \<Rightarrow> exact_turn_evidence result" where
  "make_exact_turn_evidence E x =
     validated
       ([raise_if (\<not> text_field 2 CAPTURE_ENVELOPE_MAX_BYTES (et_envelope_canonical_json x))
           (FieldError ''envelope_canonical_json''),
         raise_if (\<not> is_sha256 (et_envelope_sha256 x)) (FieldError ''envelope_sha256'')]
        @ (case ev_validate_envelope E (et_envelope_canonical_json x) of
             Inl e \<Rightarrow> [Some e]
           | Inr envelope \<Rightarrow>
               [raise_if (ev_envelope_json E envelope \<noteq> et_envelope_canonical_json x)
                  (ValueError ''exact-turn fold result must remain canonical''),
                raise_if (envelope_hash E envelope \<noteq> et_envelope_sha256 x)
                  (ValueError ''exact-turn fold hash must bind its canonical bytes'')]))
       x"

record transcript_span =
  ts_source_object_id :: uuid
  ts_source_revision_key :: string
  ts_file_identity_key :: string
  ts_byte_start :: nat
  ts_byte_end_exclusive :: nat
  ts_start_record_index :: nat
  ts_end_record_index :: nat
  ts_source_bytes_sha256 :: string

definition make_transcript_span :: "transcript_span \<Rightarrow> transcript_span result" where
  "make_transcript_span s =
     validated
       [raise_if (\<not> text_field 1 512 (ts_source_revision_key s)) (FieldError ''source_revision_key''),
        raise_if (\<not> text_field 1 256 (ts_file_identity_key s)) (FieldError ''file_identity_key''),
        raise_if (ts_byte_end_exclusive s = 0) (FieldError ''byte_end_exclusive''),
        raise_if (ts_end_record_index s = 0) (FieldError ''end_record_index''),
        raise_if (\<not> is_sha256 (ts_source_bytes_sha256 s)) (FieldError ''source_bytes_sha256''),
        raise_if (ts_byte_end_exclusive s \<le> ts_byte_start s)
          (ValueError ''transcript span bytes must be non-empty''),
        raise_if (ts_end_record_index s \<le> ts_start_record_index s)
          (ValueError ''transcript span records must be non-empty'')]
       s"

record policy_disposition =
  pd_disposition_code :: string
  pd_scope_reason :: "scope_exclusion_reason option"

definition make_policy_disposition :: "policy_disposition \<Rightarrow> policy_disposition result" where
  "make_policy_disposition d =
     validated [raise_if (\<not> identifier_field 128 (pd_disposition_code d)) (FieldError ''disposition_code'')] d"

record fold_outcome =
  fo_outcome_kind :: fold_outcome_kind
  fo_byte_start :: nat
  fo_byte_end_exclusive :: nat
  fo_start_record_index :: nat
  fo_end_record_index :: nat
  fo_source_bytes_sha256 :: string
  fo_lineage :: "fold_source_range list"
  fo_exact_turn :: "exact_turn_evidence option"
  fo_transcript_span :: "transcript_span option"
  fo_policy_disposition :: "policy_disposition option"

definition outcome_details :: "fold_outcome \<Rightarrow> bool list" where
  "outcome_details r =
     [fo_exact_turn r \<noteq> None, fo_transcript_span r \<noteq> None, fo_policy_disposition r \<noteq> None]"

fun expected_detail_missing :: "fold_outcome \<Rightarrow> fold_outcome_kind \<Rightarrow> bool" where
  "expected_detail_missing r EXACT_TURN \<longleftrightarrow> fo_exact_turn r = None"
| "expected_detail_missing r TRANSCRIPT_SPAN \<longleftrightarrow> fo_transcript_span r = None"
| "expected_detail_missing r POLICY_DISPOSITION \<longleftrightarrow> fo_policy_disposition r = None"

definition fold_outcome_checks :: "fold_outcome \<Rightarrow> py_error option list" where
  "fold_outcome_checks r =
     [raise_if (fo_byte_end_exclusive r \<le> fo_byte_start r)
        (ValueError ''fold outcome bytes must be non-empty''),
      raise_if (fo_end_record_index r < fo_start_record_index r)
        (ValueError ''fold outcome record range is invalid''),
      raise_if (length (filter (\<lambda>b. b) (outcome_details r)) \<noteq> 1)
        (ValueError ''fold outcome requires exactly one typed result''),
      raise_if (expected_detail_missing r (fo_outcome_kind r))
        (ValueError ''fold outcome kind must match its typed result''),
      raise_if (fo_outcome_kind r \<noteq> POLICY_DISPOSITION \<and> fo_end_record_index r \<le> fo_start_record_index r)
        (ValueError ''exact turns and transcript spans require records'')]
     @ chain_checks fs_byte_start fs_byte_end_exclusive (fo_byte_start r) (fo_lineage r)
         (fo_byte_end_exclusive r)
         (ValueError ''fold outcome lineage must be byte contiguous'')
         (ValueError ''fold outcome lineage must cover its exact bytes'')
     @ (case fo_transcript_span r of
          None \<Rightarrow> []
        | Some s \<Rightarrow>
            [raise_if ((ts_byte_start s, ts_byte_end_exclusive s, ts_start_record_index s,
                 ts_end_record_index s, ts_source_bytes_sha256 s)
                \<noteq> (fo_byte_start r, fo_byte_end_exclusive r, fo_start_record_index r,
                   fo_end_record_index r, fo_source_bytes_sha256 r))
               (ValueError ''transcript span must bind its fold outcome'')])"

definition make_fold_outcome :: "'e fold_env \<Rightarrow> fold_outcome \<Rightarrow> fold_outcome result" where
  "make_fold_outcome E r =
     validated
       ([raise_if (fo_byte_end_exclusive r = 0) (FieldError ''byte_end_exclusive''),
         raise_if (\<not> is_sha256 (fo_source_bytes_sha256 r)) (FieldError ''source_bytes_sha256''),
         nested_list make_fold_source_range (fo_lineage r),
         raise_if (fo_lineage r = [] \<or> length (fo_lineage r) > TRANSCRIPT_FOLD_MAX_LINEAGE_RANGES)
           (FieldError ''lineage''),
         nested_opt (make_exact_turn_evidence E) (fo_exact_turn r),
         nested_opt make_transcript_span (fo_transcript_span r),
         nested_opt make_policy_disposition (fo_policy_disposition r)]
        @ fold_outcome_checks r)
       r"

abbreviation outcome_ok :: "'e fold_env \<Rightarrow> fold_outcome \<Rightarrow> bool" where
  "outcome_ok E r \<equiv> is_ok (make_fold_outcome E r)"

section \<open>The fold command\<close>

record legacy_cursor_binding =
  lb_cursor_version :: nat
  lb_cursor_sha256 :: string
  lb_acknowledged_byte_offset :: nat
  lb_acknowledged_record_index :: nat
  lb_checkpoint_sequence :: nat
  lb_last_receipt_event_id :: "uuid option"

definition make_legacy_cursor_binding :: "legacy_cursor_binding \<Rightarrow> legacy_cursor_binding result" where
  "make_legacy_cursor_binding b =
     validated
       [raise_if (lb_cursor_version b \<notin> {1, 2}) (FieldError ''cursor_version''),
        raise_if (\<not> is_sha256 (lb_cursor_sha256 b)) (FieldError ''cursor_sha256''),
        raise_if (lb_acknowledged_byte_offset b = 0) (FieldError ''acknowledged_byte_offset'')]
       b"

record fold_checkpoint =
  fc_checkpoint_key :: string
  fc_expected_sequence :: nat
  fc_next_sequence :: nat
  fc_checkpoint_hash :: string

definition make_fold_checkpoint :: "fold_checkpoint \<Rightarrow> fold_checkpoint result" where
  "make_fold_checkpoint c =
     validated
       [raise_if (\<not> identifier_field 128 (fc_checkpoint_key c)) (FieldError ''checkpoint_key''),
        raise_if (fc_next_sequence c < 1) (FieldError ''next_sequence''),
        raise_if (\<not> is_sha256 (fc_checkpoint_hash c)) (FieldError ''checkpoint_hash''),
        raise_if (fc_next_sequence c \<noteq> fc_expected_sequence c + 1)
          (ValueError ''transcript fold checkpoint must advance exactly once'')]
       c"

record fold_command =
  cf_idempotency_key :: string
  cf_binding :: kernel_capture_binding
  cf_capability_id :: string
  cf_connector_id :: string
  cf_adapter_profile_version :: "string option"
  cf_observed_source_format_version :: "string option"
  cf_source_revision_key :: string
  cf_file_identity :: file_identity
  cf_file_identity_key :: string
  cf_byte_start :: nat
  cf_byte_end_exclusive :: nat
  cf_start_record_index :: nat
  cf_end_record_index :: nat
  cf_complete_record_count :: nat
  cf_source_bytes_sha256 :: string
  cf_outcomes_sha256 :: string
  cf_outcomes :: "fold_outcome list"
  cf_checkpoint :: fold_checkpoint
  cf_legacy_cursor :: "legacy_cursor_binding option"

definition fold_source_range_json :: "fold_source_range \<Rightarrow> json" where
  "fold_source_range_json r =
     JObj [(''source_range_receipt_id'', j_uuid (fs_source_range_receipt_id r)),
           (''receipt_byte_start'', j_nat (fs_receipt_byte_start r)),
           (''receipt_byte_end_exclusive'', j_nat (fs_receipt_byte_end_exclusive r)),
           (''receipt_payload_sha256'', JStr (fs_receipt_payload_sha256 r)),
           (''byte_start'', j_nat (fs_byte_start r)),
           (''byte_end_exclusive'', j_nat (fs_byte_end_exclusive r)),
           (''source_bytes_sha256'', JStr (fs_source_bytes_sha256 r))]"

definition exact_turn_json :: "exact_turn_evidence \<Rightarrow> json" where
  "exact_turn_json x =
     JObj [(''envelope_canonical_json'', JStr (et_envelope_canonical_json x)),
           (''envelope_sha256'', JStr (et_envelope_sha256 x))]"

definition transcript_span_json :: "transcript_span \<Rightarrow> json" where
  "transcript_span_json s =
     JObj [(''transcript_span_version'', JInt 1), (''source_object_id'', j_uuid (ts_source_object_id s)),
           (''source_revision_key'', JStr (ts_source_revision_key s)),
           (''file_identity_key'', JStr (ts_file_identity_key s)),
           (''byte_start'', j_nat (ts_byte_start s)),
           (''byte_end_exclusive'', j_nat (ts_byte_end_exclusive s)),
           (''start_record_index'', j_nat (ts_start_record_index s)),
           (''end_record_index'', j_nat (ts_end_record_index s)),
           (''source_bytes_sha256'', JStr (ts_source_bytes_sha256 s)),
           (''topology_status'', JStr ''unknown''),
           (''content_storage'', JStr ''retained_source_ranges'')]"

definition policy_disposition_json :: "policy_disposition \<Rightarrow> json" where
  "policy_disposition_json d =
     JObj [(''disposition_code'', JStr (pd_disposition_code d)),
           (''scope_reason'', j_opt (JStr \<circ> scope_exclusion_reason_value) (pd_scope_reason d))]"

definition fold_outcome_json :: "fold_outcome \<Rightarrow> json" where
  "fold_outcome_json r =
     JObj [(''outcome_kind'', JStr (fold_outcome_kind_value (fo_outcome_kind r))),
           (''byte_start'', j_nat (fo_byte_start r)),
           (''byte_end_exclusive'', j_nat (fo_byte_end_exclusive r)),
           (''start_record_index'', j_nat (fo_start_record_index r)),
           (''end_record_index'', j_nat (fo_end_record_index r)),
           (''source_bytes_sha256'', JStr (fo_source_bytes_sha256 r)),
           (''lineage'', JList (map fold_source_range_json (fo_lineage r))),
           (''exact_turn'', j_opt exact_turn_json (fo_exact_turn r)),
           (''transcript_span'', j_opt transcript_span_json (fo_transcript_span r)),
           (''policy_disposition'', j_opt policy_disposition_json (fo_policy_disposition r))]"

definition outcomes_hash :: "hash \<Rightarrow> fold_outcome list \<Rightarrow> string" where
  "outcomes_hash H outs = canonical_sha256 H (JList (map fold_outcome_json outs))"

definition fold_checkpoint_json :: "fold_checkpoint \<Rightarrow> json" where
  "fold_checkpoint_json c =
     JObj [(''checkpoint_key'', JStr (fc_checkpoint_key c)),
           (''expected_sequence'', j_nat (fc_expected_sequence c)),
           (''next_sequence'', j_nat (fc_next_sequence c)),
           (''checkpoint_hash'', JStr (fc_checkpoint_hash c))]"

definition legacy_cursor_binding_json :: "legacy_cursor_binding \<Rightarrow> json" where
  "legacy_cursor_binding_json b =
     JObj [(''cursor_version'', j_nat (lb_cursor_version b)), (''cursor_sha256'', JStr (lb_cursor_sha256 b)),
           (''acknowledged_byte_offset'', j_nat (lb_acknowledged_byte_offset b)),
           (''acknowledged_record_index'', j_nat (lb_acknowledged_record_index b)),
           (''checkpoint_sequence'', j_nat (lb_checkpoint_sequence b)),
           (''last_receipt_event_id'', j_opt JStr (map_option uuid_str (lb_last_receipt_event_id b)))]"

definition fold_command_json :: "fold_command \<Rightarrow> json" where
  "fold_command_json c =
     JObj [(''contract_version'', JInt 1), (''expected_schema_version'', JInt 14),
           (''operation'', JStr ''commit_transcript_fold''),
           (''idempotency_key'', JStr (cf_idempotency_key c)), (''binding'', binding_json (cf_binding c)),
           (''capability_id'', JStr (cf_capability_id c)), (''connector_id'', JStr (cf_connector_id c)),
           (''adapter_profile_version'', j_opt JStr (cf_adapter_profile_version c)),
           (''observed_source_format_version'', j_opt JStr (cf_observed_source_format_version c)),
           (''source_revision_key'', JStr (cf_source_revision_key c)),
           (''file_identity'', file_identity_json (cf_file_identity c)),
           (''file_identity_key'', JStr (cf_file_identity_key c)),
           (''byte_start'', j_nat (cf_byte_start c)),
           (''byte_end_exclusive'', j_nat (cf_byte_end_exclusive c)),
           (''start_record_index'', j_nat (cf_start_record_index c)),
           (''end_record_index'', j_nat (cf_end_record_index c)),
           (''complete_record_count'', j_nat (cf_complete_record_count c)),
           (''source_bytes_sha256'', JStr (cf_source_bytes_sha256 c)),
           (''outcomes_sha256'', JStr (cf_outcomes_sha256 c)),
           (''outcomes'', JList (map fold_outcome_json (cf_outcomes c))),
           (''checkpoint'', fold_checkpoint_json (cf_checkpoint c)),
           (''legacy_cursor'', j_opt legacy_cursor_binding_json (cf_legacy_cursor c))]"

definition fold_command_canonical_bytes :: "fold_command \<Rightarrow> bytes" where
  "fold_command_canonical_bytes c = canonical_json_bytes (fold_command_json c)"

definition fold_command_canonical_hash :: "hash \<Rightarrow> fold_command \<Rightarrow> string" where
  "fold_command_canonical_hash H c = canonical_sha256 H (fold_command_json c)"

definition fold_checkpoint_sha256 ::
  "hash \<Rightarrow> string \<Rightarrow> nat \<Rightarrow> nat \<Rightarrow> uuid \<Rightarrow> string \<Rightarrow> string \<Rightarrow> nat \<Rightarrow> nat \<Rightarrow> nat \<Rightarrow> nat
    \<Rightarrow> string \<Rightarrow> string \<Rightarrow> string" where
  "fold_checkpoint_sha256 H key expected next_seq object revision identity_key b_start b_end r_start r_end
      source_sha outcomes_sha =
     H (utf8 (key @ '':'' @ str_nat expected @ '':'' @ str_nat next_seq @ '':'' @ uuid_str object
         @ '':'' @ revision @ '':'' @ identity_key @ '':'' @ str_nat b_start @ '':'' @ str_nat b_end
         @ '':'' @ str_nat r_start @ '':'' @ str_nat r_end @ '':'' @ source_sha @ '':'' @ outcomes_sha))"

fun outcome_walk :: "nat \<Rightarrow> nat \<Rightarrow> fold_outcome list \<Rightarrow> py_error + nat \<times> nat" where
  "outcome_walk b r [] = Inr (b, r)"
| "outcome_walk b r (x # xs) =
     (if fo_byte_start x \<noteq> b
      then Inl (ValueError ''transcript fold outcomes must be byte contiguous'')
      else if fo_start_record_index x \<noteq> r
      then Inl (ValueError ''transcript fold outcomes must be record contiguous'')
      else outcome_walk (fo_byte_end_exclusive x) (fo_end_record_index x) xs)"

definition legacy_checks :: "fold_command \<Rightarrow> legacy_cursor_binding \<Rightarrow> py_error option list" where
  "legacy_checks c b =
     [raise_if (cf_byte_start c \<noteq> 0) (ValueError ''legacy cursor migration must begin at byte zero''),
      raise_if (lb_acknowledged_byte_offset b < cf_byte_end_exclusive c
          \<or> lb_acknowledged_record_index b < cf_end_record_index c
          \<or> lb_checkpoint_sequence b \<noteq> fc_expected_sequence (cf_checkpoint c))
        (ValueError ''legacy cursor migration must bind prior progress''),
      raise_if (length (cf_outcomes c) \<noteq> 1 \<or> fo_outcome_kind (hd (cf_outcomes c)) \<noteq> POLICY_DISPOSITION)
        (ValueError ''legacy cursor migration requires one disposition'')]"

definition fold_command_checks :: "hash \<Rightarrow> fold_command \<Rightarrow> py_error option list" where
  "fold_command_checks H c =
     [raise_if (cf_file_identity_key c \<noteq> stable_key (cf_file_identity c))
        (ValueError ''transcript fold file identity key must be mechanical''),
      raise_if (cf_byte_end_exclusive c \<le> cf_byte_start c)
        (ValueError ''transcript fold bytes must be non-empty''),
      raise_if (cf_end_record_index c < cf_start_record_index c)
        (ValueError ''transcript fold record range is invalid''),
      raise_if (cf_complete_record_count c \<noteq> cf_end_record_index c - cf_start_record_index c)
        (ValueError ''transcript fold record count must match its range'')]
     @ (case outcome_walk (cf_byte_start c) (cf_start_record_index c) (cf_outcomes c) of
          Inl e \<Rightarrow> [Some e]
        | Inr (b, r) \<Rightarrow>
            [raise_if (b \<noteq> cf_byte_end_exclusive c)
               (ValueError ''transcript fold outcomes must cover its exact bytes''),
             raise_if (r \<noteq> cf_end_record_index c)
               (ValueError ''transcript fold outcomes must cover every complete record'')])
     @ [raise_if (list_ex (\<lambda>x. fo_outcome_kind x = EXACT_TURN) (cf_outcomes c)
            \<and> (cf_adapter_profile_version c = None \<or> cf_observed_source_format_version c = None))
          (ValueError ''exact transcript folds require a qualified adapter profile''),
        raise_if (outcomes_hash H (cf_outcomes c) \<noteq> cf_outcomes_sha256 c)
          (ValueError ''transcript fold outcome hash must bind every outcome''),
        raise_if (fc_checkpoint_hash (cf_checkpoint c) \<noteq>
            fold_checkpoint_sha256 H (fc_checkpoint_key (cf_checkpoint c))
              (fc_expected_sequence (cf_checkpoint c)) (fc_next_sequence (cf_checkpoint c))
              (kb_source_object_id (cf_binding c)) (cf_source_revision_key c) (cf_file_identity_key c)
              (cf_byte_start c) (cf_byte_end_exclusive c) (cf_start_record_index c)
              (cf_end_record_index c) (cf_source_bytes_sha256 c) (cf_outcomes_sha256 c))
          (ValueError ''transcript fold checkpoint must bind its exact result'')]
     @ (case cf_legacy_cursor c of None \<Rightarrow> [] | Some b \<Rightarrow> legacy_checks c b)
     @ [raise_if (length (fold_command_canonical_bytes c) > TRANSCRIPT_FOLD_COMMAND_MAX_BYTES)
          (ValueError ''transcript fold command exceeds its canonical bound'')]"

definition make_fold_command :: "'e fold_env \<Rightarrow> fold_command \<Rightarrow> fold_command result" where
  "make_fold_command E c =
     validated
       ([raise_if (\<not> text_field 1 512 (cf_idempotency_key c)) (FieldError ''idempotency_key''),
         nested (make_kernel_capture_binding (cf_binding c)),
         raise_if (\<not> identifier_field 128 (cf_capability_id c)) (FieldError ''capability_id''),
         raise_if (\<not> identifier_field 128 (cf_connector_id c)) (FieldError ''connector_id''),
         raise_if (\<not> opt_field (text_field 1 128) (cf_adapter_profile_version c))
           (FieldError ''adapter_profile_version''),
         raise_if (\<not> opt_field (text_field 1 128) (cf_observed_source_format_version c))
           (FieldError ''observed_source_format_version''),
         raise_if (\<not> text_field 1 512 (cf_source_revision_key c)) (FieldError ''source_revision_key''),
         nested (make_file_identity (cf_file_identity c)),
         raise_if (\<not> text_field 1 256 (cf_file_identity_key c)) (FieldError ''file_identity_key''),
         raise_if (cf_byte_end_exclusive c = 0) (FieldError ''byte_end_exclusive''),
         raise_if (cf_complete_record_count c > 1000000) (FieldError ''complete_record_count''),
         raise_if (\<not> is_sha256 (cf_source_bytes_sha256 c)) (FieldError ''source_bytes_sha256''),
         raise_if (\<not> is_sha256 (cf_outcomes_sha256 c)) (FieldError ''outcomes_sha256''),
         nested_list (make_fold_outcome E) (cf_outcomes c),
         raise_if (cf_outcomes c = [] \<or> length (cf_outcomes c) > TRANSCRIPT_FOLD_MAX_OUTCOMES)
           (FieldError ''outcomes''),
         nested (make_fold_checkpoint (cf_checkpoint c)),
         nested_opt make_legacy_cursor_binding (cf_legacy_cursor c)]
        @ fold_command_checks (ev_hash E) c)
       c"

end
