(* ===== verification/FoldCursor.thy ===== *)
theory FoldCursor
  imports FoldData
begin

text \<open>
  The second half of the models of \<open>application/capture/transcript_fold.py\<close>: the command
  builder, receipts and acknowledgements, pending ranges, the fold cursor, health and inbox
  items, and what the validators guarantee: outcomes, lineage and pending ranges are chains,
  so \<open>interval_store\<close> gives that every byte has exactly one owner.
\<close>

section \<open>The command builder\<close>

record fold_loop_config =
  fl_binding :: kernel_capture_binding
  fl_capability_id :: string
  fl_checkpoint_key :: string
  fl_connector_id :: string
  fl_source_revision_key :: string
  fl_file_identity_key :: string
  fl_observed_source_format_version :: "string option"
  fl_source_format_disposition_code :: "string option"
  fl_sealed_byte_end_exclusive :: "nat option"
  fl_read_size :: nat

definition fold_operation_hash ::
  "hash \<Rightarrow> fold_loop_config \<Rightarrow> file_identity \<Rightarrow> nat \<Rightarrow> nat \<Rightarrow> string \<Rightarrow> string \<Rightarrow> string option \<Rightarrow> string" where
  "fold_operation_hash H cfg identity b_start b_end source_sha outcomes_sha legacy_sha =
     canonical_sha256 H
       (JObj [(''source_object_id'', j_uuid (kb_source_object_id (fl_binding cfg))),
              (''source_revision_key'', JStr (fl_source_revision_key cfg)),
              (''file_identity_key'', JStr (stable_key identity)),
              (''byte_start'', j_nat b_start), (''byte_end_exclusive'', j_nat b_end),
              (''source_bytes_sha256'', JStr source_sha), (''outcomes_sha256'', JStr outcomes_sha),
              (''legacy_cursor_sha256'', j_opt JStr legacy_sha)])"

definition fold_command_of ::
  "hash \<Rightarrow> fold_loop_config \<Rightarrow> string option \<Rightarrow> string option \<Rightarrow> file_identity \<Rightarrow> fold_outcome list
    \<Rightarrow> bytes \<Rightarrow> nat \<Rightarrow> legacy_cursor_binding option \<Rightarrow> fold_command" where
  "fold_command_of H cfg profile format identity outcomes source_bytes expected_sequence legacy =
     (let b_start = fo_byte_start (hd outcomes);
          b_end = fo_byte_end_exclusive (last outcomes);
          source_sha = H source_bytes;
          outcomes_sha = outcomes_hash H outcomes;
          r_start = fo_start_record_index (hd outcomes);
          r_end = fo_end_record_index (last outcomes);
          next_sequence = expected_sequence + 1
      in \<lparr>cf_idempotency_key =
             ''transcript-fold:'' @ fold_operation_hash H cfg identity b_start b_end source_sha outcomes_sha
               (map_option lb_cursor_sha256 legacy),
          cf_binding = fl_binding cfg, cf_capability_id = fl_capability_id cfg,
          cf_connector_id = fl_connector_id cfg, cf_adapter_profile_version = profile,
          cf_observed_source_format_version = format,
          cf_source_revision_key = fl_source_revision_key cfg, cf_file_identity = identity,
          cf_file_identity_key = stable_key identity, cf_byte_start = b_start,
          cf_byte_end_exclusive = b_end, cf_start_record_index = r_start,
          cf_end_record_index = r_end, cf_complete_record_count = r_end - r_start,
          cf_source_bytes_sha256 = source_sha, cf_outcomes_sha256 = outcomes_sha,
          cf_outcomes = outcomes,
          cf_checkpoint =
            \<lparr>fc_checkpoint_key = fl_checkpoint_key cfg, fc_expected_sequence = expected_sequence,
             fc_next_sequence = next_sequence,
             fc_checkpoint_hash =
               fold_checkpoint_sha256 H (fl_checkpoint_key cfg) expected_sequence next_sequence
                 (kb_source_object_id (fl_binding cfg)) (fl_source_revision_key cfg)
                 (stable_key identity) b_start b_end r_start r_end source_sha outcomes_sha\<rparr>,
          cf_legacy_cursor = legacy\<rparr>)"

text \<open>
  The builder's keyword arguments that the loop passes from its configuration come in the
  record. A negative record count is refused by the field of the command.
\<close>

definition build_transcript_fold_command ::
  "'e fold_env \<Rightarrow> fold_loop_config \<Rightarrow> string option \<Rightarrow> string option \<Rightarrow> file_identity
    \<Rightarrow> fold_outcome list \<Rightarrow> bytes \<Rightarrow> nat \<Rightarrow> legacy_cursor_binding option \<Rightarrow> fold_command result" where
  "build_transcript_fold_command E cfg profile format identity outcomes source_bytes expected_sequence legacy =
     (if outcomes = [] then Inl (ValueError ''transcript fold command requires outcomes'')
      else if int (length source_bytes)
          \<noteq> int (fo_byte_end_exclusive (last outcomes)) - int (fo_byte_start (hd outcomes))
      then Inl (ValueError ''transcript fold command bytes must match its outcomes'')
      else
        (let command = fold_command_of (ev_hash E) cfg profile format identity outcomes source_bytes
                         expected_sequence legacy
         in bindE (make_fold_checkpoint (cf_checkpoint command)) (\<lambda>_.
            if cf_end_record_index command < cf_start_record_index command
            then Inl (FieldError ''complete_record_count'')
            else make_fold_command E command)))"

section \<open>Receipts, acknowledgements and pending ranges\<close>

record fold_receipt =
  ft_transcript_fold_receipt_id :: uuid
  ft_idempotency_receipt_id :: uuid
  ft_source_object_id :: uuid
  ft_source_revision_key :: string
  ft_file_identity_key :: string
  ft_byte_start :: nat
  ft_byte_end_exclusive :: nat
  ft_start_record_index :: nat
  ft_end_record_index :: nat
  ft_complete_record_count :: nat
  ft_source_bytes_sha256 :: string
  ft_outcomes_sha256 :: string
  ft_exact_turn_count :: nat
  ft_transcript_span_count :: nat
  ft_policy_disposition_count :: nat
  ft_checkpoint_key :: string
  ft_checkpoint_sequence :: nat
  ft_authority_principal_id :: uuid
  ft_folded_at :: datetime
  ft_replayed :: bool

definition make_fold_receipt :: "fold_receipt \<Rightarrow> fold_receipt result" where
  "make_fold_receipt r =
     validated
       [raise_if (\<not> text_field 1 512 (ft_source_revision_key r)) (FieldError ''source_revision_key''),
        raise_if (\<not> text_field 1 256 (ft_file_identity_key r)) (FieldError ''file_identity_key''),
        raise_if (ft_byte_end_exclusive r = 0) (FieldError ''byte_end_exclusive''),
        raise_if (\<not> is_sha256 (ft_source_bytes_sha256 r)) (FieldError ''source_bytes_sha256''),
        raise_if (\<not> is_sha256 (ft_outcomes_sha256 r)) (FieldError ''outcomes_sha256''),
        raise_if (\<not> identifier_field 128 (ft_checkpoint_key r)) (FieldError ''checkpoint_key''),
        raise_if (ft_checkpoint_sequence r < 1) (FieldError ''checkpoint_sequence''),
        raise_if (ft_byte_end_exclusive r \<le> ft_byte_start r)
          (ValueError ''transcript fold receipt bytes must be non-empty''),
        raise_if (int (ft_end_record_index r) - int (ft_start_record_index r)
            \<noteq> int (ft_complete_record_count r))
          (ValueError ''transcript fold receipt must bind its record count''),
        raise_if (tz_missing (ft_folded_at r))
          (ValueError ''transcript fold receipt time must be timezone-aware''),
        raise_if (ft_exact_turn_count r + ft_transcript_span_count r + ft_policy_disposition_count r < 1)
          (ValueError ''transcript fold receipt requires an outcome'')]
       r"

record fold_ack =
  fa_transcript_fold_receipt_id :: uuid
  fa_idempotency_receipt_id :: uuid
  fa_byte_start :: nat
  fa_byte_end_exclusive :: nat
  fa_start_record_index :: nat
  fa_end_record_index :: nat
  fa_source_bytes_sha256 :: string
  fa_outcomes_sha256 :: string
  fa_checkpoint_sequence :: nat
  fa_authority_principal_id :: uuid
  fa_replayed :: bool

definition make_fold_ack :: "fold_ack \<Rightarrow> fold_ack result" where
  "make_fold_ack a =
     validated
       [raise_if (fa_byte_end_exclusive a = 0) (FieldError ''byte_end_exclusive''),
        raise_if (\<not> is_sha256 (fa_source_bytes_sha256 a)) (FieldError ''source_bytes_sha256''),
        raise_if (\<not> is_sha256 (fa_outcomes_sha256 a)) (FieldError ''outcomes_sha256''),
        raise_if (fa_checkpoint_sequence a < 1) (FieldError ''checkpoint_sequence'')]
       a"

definition fold_ack_of :: "fold_receipt \<Rightarrow> fold_ack" where
  "fold_ack_of r =
     \<lparr>fa_transcript_fold_receipt_id = ft_transcript_fold_receipt_id r,
      fa_idempotency_receipt_id = ft_idempotency_receipt_id r, fa_byte_start = ft_byte_start r,
      fa_byte_end_exclusive = ft_byte_end_exclusive r,
      fa_start_record_index = ft_start_record_index r, fa_end_record_index = ft_end_record_index r,
      fa_source_bytes_sha256 = ft_source_bytes_sha256 r, fa_outcomes_sha256 = ft_outcomes_sha256 r,
      fa_checkpoint_sequence = ft_checkpoint_sequence r,
      fa_authority_principal_id = ft_authority_principal_id r, fa_replayed = ft_replayed r\<rparr>"

record fold_pending =
  fp_byte_start :: nat
  fp_byte_end_exclusive :: nat
  fp_start_record_index :: nat
  fp_end_record_index :: nat
  fp_source_bytes_sha256 :: string

definition make_fold_pending :: "fold_pending \<Rightarrow> fold_pending result" where
  "make_fold_pending p =
     validated
       [raise_if (fp_byte_end_exclusive p = 0) (FieldError ''byte_end_exclusive''),
        raise_if (fp_end_record_index p = 0) (FieldError ''end_record_index''),
        raise_if (\<not> is_sha256 (fp_source_bytes_sha256 p)) (FieldError ''source_bytes_sha256''),
        raise_if (fp_byte_end_exclusive p \<le> fp_byte_start p)
          (ValueError ''pending fold bytes must be non-empty''),
        raise_if (fp_end_record_index p \<le> fp_start_record_index p)
          (ValueError ''pending fold records must be non-empty'')]
       p"

section \<open>The fold cursor\<close>

record fold_cursor =
  cs_capability_id :: string
  cs_revision :: nat
  cs_file_identity :: "file_identity option"
  cs_acknowledged_offset :: nat
  cs_acknowledged_record_index :: nat
  cs_checkpoint_sequence :: nat
  cs_pending_ranges :: "fold_pending list"
  cs_extractor_state_base64 :: string
  cs_extractor_state_sha256 :: string
  cs_pending_tail_byte_count :: nat
  cs_pending_tail_sha256 :: string
  cs_source_state :: host_capture_state
  cs_durable_end_offset :: nat
  cs_diagnostic_code :: "string option"
  cs_last_acknowledgement :: "fold_ack option"

definition default_fold_cursor :: "hash \<Rightarrow> string \<Rightarrow> fold_cursor" where
  "default_fold_cursor H capability_id =
     \<lparr>cs_capability_id = capability_id, cs_revision = 0, cs_file_identity = None,
      cs_acknowledged_offset = 0, cs_acknowledged_record_index = 0, cs_checkpoint_sequence = 0,
      cs_pending_ranges = [], cs_extractor_state_base64 = '''', cs_extractor_state_sha256 = H [],
      cs_pending_tail_byte_count = 0, cs_pending_tail_sha256 = H [], cs_source_state = HC_HEALTHY,
      cs_durable_end_offset = 0, cs_diagnostic_code = None, cs_last_acknowledgement = None\<rparr>"

fun pending_walk :: "nat \<Rightarrow> nat \<Rightarrow> fold_pending list \<Rightarrow> py_error + nat \<times> nat" where
  "pending_walk b r [] = Inr (b, r)"
| "pending_walk b r (p # ps) =
     (if fp_byte_start p \<noteq> b then Inl (ValueError ''pending fold ranges must be byte contiguous'')
      else if fp_start_record_index p \<noteq> r
      then Inl (ValueError ''pending fold ranges must be record contiguous'')
      else pending_walk (fp_byte_end_exclusive p) (fp_end_record_index p) ps)"

definition fold_cursor_state_checks :: "hash \<Rightarrow> fold_cursor \<Rightarrow> bytes \<Rightarrow> py_error option list" where
  "fold_cursor_state_checks H s extractor_state =
     [raise_if (length extractor_state > HOST_CAPTURE_MAX_CONTINUATION_STATE_BYTES)
        (ValueError ''fold extractor state exceeds its bound''),
      raise_if (H extractor_state \<noteq> cs_extractor_state_sha256 s)
        (ValueError ''fold extractor state hash must bind its bytes'')]
     @ (case pending_walk (cs_acknowledged_offset s) (cs_acknowledged_record_index s) (cs_pending_ranges s) of
          Inl e \<Rightarrow> [Some e]
        | Inr (_, r) \<Rightarrow>
            [raise_if (r - cs_acknowledged_record_index s > HOST_CAPTURE_MAX_STREAMING_ASSEMBLY_RECORDS)
               (ValueError ''pending fold records exceed the adapter SDK bound'')])
     @ [raise_if (cs_pending_tail_byte_count s = 0 \<and> cs_pending_tail_sha256 s \<noteq> H [])
          (ValueError ''empty fold tail must use the empty SHA-256''),
        raise_if (cs_acknowledged_offset s > cs_durable_end_offset s)
          (ValueError ''fold cursor cannot exceed retained source bytes''),
        raise_if (cs_file_identity s = None
            \<and> (cs_acknowledged_offset s \<noteq> 0 \<or> cs_pending_ranges s \<noteq> [] \<or> extractor_state \<noteq> []
               \<or> cs_pending_tail_byte_count s \<noteq> 0 \<or> cs_last_acknowledgement s \<noteq> None))
          (ValueError ''fold cursor progress requires file identity'')]
     @ (case cs_last_acknowledgement s of
          None \<Rightarrow> []
        | Some a \<Rightarrow>
            [raise_if (fa_byte_end_exclusive a \<noteq> cs_acknowledged_offset s
                 \<or> fa_end_record_index a \<noteq> cs_acknowledged_record_index s
                 \<or> fa_checkpoint_sequence a \<noteq> cs_checkpoint_sequence s)
               (ValueError ''fold cursor must bind its last durable receipt'')])"

definition make_fold_cursor :: "hash \<Rightarrow> fold_cursor \<Rightarrow> fold_cursor result" where
  "make_fold_cursor H s =
     validated
       ([raise_if (\<not> identifier_field 128 (cs_capability_id s)) (FieldError ''capability_id''),
         nested_opt make_file_identity (cs_file_identity s),
         nested_list make_fold_pending (cs_pending_ranges s),
         raise_if (length (cs_pending_ranges s) > HOST_CAPTURE_MAX_PENDING_RANGES)
           (FieldError ''pending_ranges''),
         raise_if (length (cs_extractor_state_base64 s) > 87384) (FieldError ''extractor_state_base64''),
         raise_if (\<not> is_sha256 (cs_extractor_state_sha256 s)) (FieldError ''extractor_state_sha256''),
         raise_if (\<not> is_sha256 (cs_pending_tail_sha256 s)) (FieldError ''pending_tail_sha256''),
         raise_if (\<not> opt_field (identifier_field 128) (cs_diagnostic_code s)) (FieldError ''diagnostic_code''),
         nested_opt make_fold_ack (cs_last_acknowledgement s)]
        @ (case b64decode (cs_extractor_state_base64 s) of
             None \<Rightarrow> [Some (ValueError ''fold extractor state must be canonical base64'')]
           | Some extractor_state \<Rightarrow> fold_cursor_state_checks H s extractor_state))
       s"

definition cs_extractor_state :: "fold_cursor \<Rightarrow> bytes" where
  "cs_extractor_state s = (case b64decode (cs_extractor_state_base64 s) of None \<Rightarrow> [] | Some b \<Rightarrow> b)"

definition cs_pending_end_offset :: "fold_cursor \<Rightarrow> nat" where
  "cs_pending_end_offset s =
     (if cs_pending_ranges s = [] then cs_acknowledged_offset s
      else fp_byte_end_exclusive (last (cs_pending_ranges s)))"

definition cs_pending_end_record_index :: "fold_cursor \<Rightarrow> nat" where
  "cs_pending_end_record_index s =
     (if cs_pending_ranges s = [] then cs_acknowledged_record_index s
      else fp_end_record_index (last (cs_pending_ranges s)))"

section \<open>Health and inbox\<close>

record fold_health =
  he_capability_id :: string
  he_status :: fold_run_status
  he_acknowledged_offset :: nat
  he_acknowledged_record_index :: nat
  he_checkpoint_sequence :: nat
  he_durable_end_offset :: nat
  he_pending_complete_record_count :: nat
  he_pending_tail_byte_count :: nat
  he_exact_turn_count :: nat
  he_transcript_span_count :: nat
  he_policy_disposition_count :: nat
  he_diagnostic_code :: "string option"
  he_receipt :: "fold_receipt option"

definition make_fold_health :: "fold_health \<Rightarrow> fold_health result" where
  "make_fold_health h =
     validated
       [raise_if (\<not> identifier_field 128 (he_capability_id h)) (FieldError ''capability_id''),
        raise_if (\<not> opt_field (identifier_field 128) (he_diagnostic_code h)) (FieldError ''diagnostic_code''),
        nested_opt make_fold_receipt (he_receipt h)]
       h"

record fold_inbox_item =
  ib_transcript_fold_receipt_id :: uuid
  ib_outcome_ordinal :: nat
  ib_source_object_id :: uuid
  ib_outcome_kind :: fold_outcome_kind
  ib_byte_start :: nat
  ib_byte_end_exclusive :: nat
  ib_start_record_index :: nat
  ib_end_record_index :: nat
  ib_source_bytes_sha256 :: string
  ib_exact_envelope_sha256 :: "string option"
  ib_disposition_code :: "string option"
  ib_adapter_profile_version :: "string option"
  ib_folded_at :: datetime

definition make_fold_inbox_item :: "fold_inbox_item \<Rightarrow> fold_inbox_item result" where
  "make_fold_inbox_item i =
     validated
       ([raise_if (ib_byte_end_exclusive i = 0) (FieldError ''byte_end_exclusive''),
         raise_if (\<not> is_sha256 (ib_source_bytes_sha256 i)) (FieldError ''source_bytes_sha256''),
         raise_if (\<not> opt_field is_sha256 (ib_exact_envelope_sha256 i)) (FieldError ''exact_envelope_sha256''),
         raise_if (\<not> opt_field (identifier_field 128) (ib_disposition_code i)) (FieldError ''disposition_code''),
         raise_if (\<not> opt_field (text_field 1 128) (ib_adapter_profile_version i))
           (FieldError ''adapter_profile_version''),
         raise_if (tz_missing (ib_folded_at i))
           (ValueError ''transcript fold inbox time must be timezone-aware'')]
        @ (if ib_outcome_kind i = EXACT_TURN then
             [raise_if (ib_exact_envelope_sha256 i = None \<or> ib_disposition_code i \<noteq> None)
                (ValueError ''exact-turn inbox outcome must expose only its hash'')]
           else if ib_outcome_kind i = POLICY_DISPOSITION then
             [raise_if (ib_disposition_code i = None \<or> ib_exact_envelope_sha256 i \<noteq> None)
                (ValueError ''policy inbox outcome must expose its disposition'')]
           else
             [raise_if (ib_exact_envelope_sha256 i \<noteq> None \<or> ib_disposition_code i \<noteq> None)
                (ValueError ''transcript-span inbox outcome exposes bounds only'')]))
       i"

section \<open>Chains in valid models\<close>

lemma lineage_facts:
  assumes "lineage_ok r"
  shows "fs_byte_start r < fs_byte_end_exclusive r"
    and "fs_receipt_byte_start r \<le> fs_byte_start r"
    and "fs_byte_end_exclusive r \<le> fs_receipt_byte_end_exclusive r"
  using assms by (simp_all add: make_fold_source_range_def)

interpretation lineage: interval_store fs_byte_start fs_byte_end_exclusive lineage_ok
  by unfold_locales (rule lineage_facts)

lemma outcome_facts:
  assumes "outcome_ok E x"
  shows "fo_byte_start x < fo_byte_end_exclusive x"
    and "fo_start_record_index x \<le> fo_end_record_index x"
    and "fo_outcome_kind x \<noteq> POLICY_DISPOSITION \<Longrightarrow> fo_start_record_index x < fo_end_record_index x"
    and "list_all lineage_ok (fo_lineage x)"
    and "chain fs_byte_start fs_byte_end_exclusive (fo_byte_start x) (fo_lineage x) (fo_byte_end_exclusive x)"
  using assms by (auto simp: make_fold_outcome_def fold_outcome_checks_def list_all_iff ball_Un)

interpretation outcomes: interval_store fo_byte_start fo_byte_end_exclusive "outcome_ok E" for E
  by unfold_locales (rule outcome_facts)

lemma pending_facts:
  assumes "is_ok (make_fold_pending p)"
  shows "fp_byte_start p < fp_byte_end_exclusive p" and "fp_start_record_index p < fp_end_record_index p"
  using assms by (simp_all add: make_fold_pending_def)

interpretation pendings: interval_store fp_byte_start fp_byte_end_exclusive
  "\<lambda>p. is_ok (make_fold_pending p)"
  by unfold_locales (rule pending_facts)

lemma outcome_walk_Inr:
  "outcome_walk b r xs = Inr (b', r') \<longleftrightarrow>
     chain fo_byte_start fo_byte_end_exclusive b xs b'
     \<and> chain fo_start_record_index fo_end_record_index r xs r'"
  by (induction xs arbitrary: b r) auto

lemma pending_walk_Inr:
  "pending_walk b r ps = Inr (b', r') \<longleftrightarrow>
     chain fp_byte_start fp_byte_end_exclusive b ps b'
     \<and> chain fp_start_record_index fp_end_record_index r ps r'"
  by (induction ps arbitrary: b r) auto

lemma durable_read_binds:
  assumes "make_durable_read H r = Inr r'"
  shows "r' = r" and "fromhex (dr_payload_hex r) = Some (dr_payload r)"
    and "dr_byte_end_exclusive r = dr_byte_start r + length (dr_payload r)"
    and "dr_byte_end_exclusive r \<le> dr_durable_end_offset r"
    and "H (dr_payload r) = dr_payload_sha256 r"
    and "list_all lineage_ok (dr_ranges r)"
    and "dr_status r = DATA \<Longrightarrow>
      chain fs_byte_start fs_byte_end_exclusive (dr_byte_start r) (dr_ranges r) (dr_byte_end_exclusive r)
      \<and> dr_ranges r \<noteq> [] \<and> dr_payload r \<noteq> [] \<and> dr_file_identity r \<noteq> None"
    and "dr_status r = END_OF_DURABLE_RANGES \<Longrightarrow> dr_byte_end_exclusive r = dr_byte_start r"
  using assms
  by (auto simp: make_durable_read_def durable_read_checks_def list_all_iff dr_payload_def ball_Un
      split: if_splits option.splits)

lemma fold_command_binds:
  assumes "make_fold_command E c = Inr c'"
  shows "c' = c"
    and "list_all (outcome_ok E) (cf_outcomes c)"
    and "chain fo_byte_start fo_byte_end_exclusive (cf_byte_start c) (cf_outcomes c) (cf_byte_end_exclusive c)"
    and "chain fo_start_record_index fo_end_record_index (cf_start_record_index c) (cf_outcomes c)
          (cf_end_record_index c)"
    and "cf_byte_start c < cf_byte_end_exclusive c"
    and "1 \<le> length (cf_outcomes c) \<and> length (cf_outcomes c) \<le> TRANSCRIPT_FOLD_MAX_OUTCOMES"
    and "cf_complete_record_count c = cf_end_record_index c - cf_start_record_index c"
    and "fc_next_sequence (cf_checkpoint c) = fc_expected_sequence (cf_checkpoint c) + 1"
    and "(\<exists>x \<in> set (cf_outcomes c). fo_outcome_kind x = EXACT_TURN) \<Longrightarrow> cf_adapter_profile_version c \<noteq> None"
proof -
  from assms have f: "\<forall>x \<in> set (fold_command_checks (ev_hash E) c). x = None"
    and g: "nested_list (make_fold_outcome E) (cf_outcomes c) = None"
      "\<not> (cf_outcomes c = [] \<or> length (cf_outcomes c) > TRANSCRIPT_FOLD_MAX_OUTCOMES)"
      "nested (make_fold_checkpoint (cf_checkpoint c)) = None" and "c' = c"
    by (simp_all add: make_fold_command_def ball_Un)
  from f obtain b r where w: "outcome_walk (cf_byte_start c) (cf_start_record_index c) (cf_outcomes c) = Inr (b, r)"
    by (cases "outcome_walk (cf_byte_start c) (cf_start_record_index c) (cf_outcomes c)")
       (auto simp: fold_command_checks_def)
  with f have br: "b = cf_byte_end_exclusive c" "r = cf_end_record_index c"
    by (simp_all add: fold_command_checks_def ball_Un)
  show "c' = c" by fact
  show "list_all (outcome_ok E) (cf_outcomes c)" using g(1) by (simp add: list_all_iff)
  show "chain fo_byte_start fo_byte_end_exclusive (cf_byte_start c) (cf_outcomes c) (cf_byte_end_exclusive c)"
    and "chain fo_start_record_index fo_end_record_index (cf_start_record_index c) (cf_outcomes c)
      (cf_end_record_index c)"
    using w br by (simp_all add: outcome_walk_Inr)
  show "1 \<le> length (cf_outcomes c) \<and> length (cf_outcomes c) \<le> TRANSCRIPT_FOLD_MAX_OUTCOMES"
    using g(2) by (auto simp: Suc_le_eq)
  show "fc_next_sequence (cf_checkpoint c) = fc_expected_sequence (cf_checkpoint c) + 1"
    using g(3) by (simp add: make_fold_checkpoint_def)
  show "cf_byte_start c < cf_byte_end_exclusive c"
    "cf_complete_record_count c = cf_end_record_index c - cf_start_record_index c"
    using f by (simp_all add: fold_command_checks_def ball_Un)
  show "cf_adapter_profile_version c \<noteq> None"
    if "\<exists>x \<in> set (cf_outcomes c). fo_outcome_kind x = EXACT_TURN"
    using f that by (auto simp: fold_command_checks_def ball_Un list_ex_iff)
qed

lemma fold_cursor_binds:
  assumes "make_fold_cursor H s = Inr s'"
  shows "s' = s"
    and "list_all (\<lambda>p. is_ok (make_fold_pending p)) (cs_pending_ranges s)"
    and "chain fp_byte_start fp_byte_end_exclusive (cs_acknowledged_offset s) (cs_pending_ranges s)
          (cs_pending_end_offset s)"
    and "chain fp_start_record_index fp_end_record_index (cs_acknowledged_record_index s)
          (cs_pending_ranges s) (cs_pending_end_record_index s)"
    and "length (cs_pending_ranges s) \<le> HOST_CAPTURE_MAX_PENDING_RANGES"
    and "cs_acknowledged_offset s \<le> cs_durable_end_offset s"
    and "b64decode (cs_extractor_state_base64 s) = Some (cs_extractor_state s)"
proof -
  from assms obtain x where x: "b64decode (cs_extractor_state_base64 s) = Some x"
    and f: "\<forall>c \<in> set (fold_cursor_state_checks H s x). c = None" and "s' = s"
    and g: "\<forall>p \<in> set (cs_pending_ranges s). is_ok (make_fold_pending p)"
      "length (cs_pending_ranges s) \<le> HOST_CAPTURE_MAX_PENDING_RANGES"
    by (auto simp: make_fold_cursor_def ball_Un split: option.splits)
  from f obtain b r where w:
    "pending_walk (cs_acknowledged_offset s) (cs_acknowledged_record_index s) (cs_pending_ranges s) = Inr (b, r)"
    by (cases "pending_walk (cs_acknowledged_offset s) (cs_acknowledged_record_index s) (cs_pending_ranges s)")
       (auto simp: fold_cursor_state_checks_def)
  then have c: "chain fp_byte_start fp_byte_end_exclusive (cs_acknowledged_offset s) (cs_pending_ranges s) b"
    "chain fp_start_record_index fp_end_record_index (cs_acknowledged_record_index s) (cs_pending_ranges s) r"
    by (simp_all add: pending_walk_Inr)
  moreover have "b = cs_pending_end_offset s" "r = cs_pending_end_record_index s"
    using c chain_last [OF c(1)] chain_last [OF c(2)]
    by (auto simp: cs_pending_end_offset_def cs_pending_end_record_index_def)
  ultimately show "chain fp_byte_start fp_byte_end_exclusive (cs_acknowledged_offset s) (cs_pending_ranges s)
          (cs_pending_end_offset s)"
    "chain fp_start_record_index fp_end_record_index (cs_acknowledged_record_index s)
          (cs_pending_ranges s) (cs_pending_end_record_index s)" by simp_all
  show "s' = s" by fact
  show "list_all (\<lambda>p. is_ok (make_fold_pending p)) (cs_pending_ranges s)" using g by (simp add: list_all_iff)
  show "length (cs_pending_ranges s) \<le> HOST_CAPTURE_MAX_PENDING_RANGES" using g by simp
  show "cs_acknowledged_offset s \<le> cs_durable_end_offset s"
    using f by (simp add: fold_cursor_state_checks_def ball_Un)
  show "b64decode (cs_extractor_state_base64 s) = Some (cs_extractor_state s)"
    using x by (simp add: cs_extractor_state_def)
qed

end
