(* ===== verification/FoldLoop.thy ===== *)
theory FoldLoop
  imports FoldCursor
begin

text \<open>
  \<open>DurableTranscriptFoldLoop\<close> of \<open>application/capture/transcript_fold.py\<close>: exact reads with
  lineage slicing, the record loop with its exact-turn and fallback outcomes, the sealed
  span, the legacy cursor migration and \<open>run_once\<close>. The ports, the adapter's assembler and
  builder and the ISO renderings are the fields of \<open>fold_loop\<close>; an assembler or builder is
  a function that may raise. The instance attributes of the class are \<open>lp_config\<close>.
\<close>

section \<open>Adapter and loop\<close>

record ('f, 'e) fold_adapter =
  ad_profile_version :: string
  ad_connector_id :: string
  ad_source_format_version :: string
  ad_advance :: "framed_record \<Rightarrow> bytes \<Rightarrow> (bytes \<times> 'f option) result"
  ad_build_from_source_span ::
    "('f \<Rightarrow> verified_assembly_span \<Rightarrow> datetime \<Rightarrow> 'e option result) option"
  ad_max_record_bytes :: nat
  ad_max_span_bytes :: nat
  ad_max_turn_records :: nat
  ad_topology_fallback_codes :: "string list"
  ad_finalized_scope_exclusion :: "('f \<Rightarrow> finalized_scope_exclusion option result) option"

definition make_fold_adapter :: "('f, 'e) fold_adapter \<Rightarrow> ('f, 'e) fold_adapter result" where
  "make_fold_adapter a =
     validated
       [raise_if (ad_profile_version a = '''' \<or> length (ad_profile_version a) > 128)
          (ValueError ''fold adapter profile version is invalid''),
        raise_if (\<not> (1 \<le> ad_max_record_bytes a \<and> ad_max_record_bytes a \<le> 262144))
          (ValueError ''fold adapter record bound is invalid''),
        raise_if (\<not> (1 \<le> ad_max_span_bytes a \<and> ad_max_span_bytes a \<le> TRANSCRIPT_FOLD_MAX_READ_BYTES))
          (ValueError ''fold adapter span bound is invalid''),
        raise_if (\<not> (1 \<le> ad_max_turn_records a
            \<and> ad_max_turn_records a \<le> HOST_CAPTURE_MAX_STREAMING_ASSEMBLY_RECORDS))
          (ValueError ''fold adapter record-count bound is invalid'')]
       a"

text \<open>What \<open>load\<close> returns: the older adapter cursor or the fold cursor.\<close>

datatype loaded_cursor = Legacy host_cursor | Fold fold_cursor

record ('w, 'f, 'e) fold_loop =
  lp_env :: "'e fold_env"
  lp_config :: fold_loop_config
  lp_adapter :: "('f, 'e) fold_adapter option"
  lp_load :: "string \<Rightarrow> ('w, loaded_cursor option) io"
  lp_commit :: "nat \<Rightarrow> fold_cursor \<Rightarrow> ('w, unit) io"
  lp_read :: "durable_read_request \<Rightarrow> ('w, durable_read) io"
  lp_submit :: "fold_command \<Rightarrow> datetime \<Rightarrow> ('w, fold_receipt) io"
  lp_iso_datetime :: "datetime \<Rightarrow> string"
  lp_iso_date :: "date \<Rightarrow> string"

definition make_fold_loop :: "('w, 'f, 'e) fold_loop \<Rightarrow> ('w, 'f, 'e) fold_loop result" where
  "make_fold_loop L =
     (let cfg = lp_config L in
      validated
       [raise_if (\<not> (1 \<le> fl_read_size cfg \<and> fl_read_size cfg \<le> TRANSCRIPT_FOLD_MAX_READ_BYTES))
          (ValueError ''transcript fold read size is invalid''),
        raise_if (\<not> opt_field (\<lambda>a. ad_connector_id a = fl_connector_id cfg) (lp_adapter L))
          (ValueError ''transcript fold adapter must bind the connector''),
        raise_if (\<not> opt_field (\<lambda>code. lp_adapter L = None \<and> identifier_field 128 code)
            (fl_source_format_disposition_code cfg))
          (ValueError ''source-format disposition configuration is invalid''),
        raise_if (\<not> opt_field (\<lambda>n. 0 < n) (fl_sealed_byte_end_exclusive cfg))
          (ValueError ''sealed transcript fold byte end must be positive'')]
       L)"

abbreviation lp_hash :: "('w, 'f, 'e) fold_loop \<Rightarrow> hash" where
  "lp_hash L \<equiv> ev_hash (lp_env L)"

section \<open>Exact reads\<close>

text \<open>\<open>payload_byte_start\<close> is the start of the read, never after \<open>byte_start\<close>.\<close>

fun slice_lineage ::
  "hash \<Rightarrow> bytes \<Rightarrow> nat \<Rightarrow> nat \<Rightarrow> nat \<Rightarrow> fold_source_range list \<Rightarrow> fold_source_range list" where
  "slice_lineage H payload payload_byte_start byte_start byte_end [] = []"
| "slice_lineage H payload payload_byte_start byte_start byte_end (r # rs) =
     (let start = max byte_start (fs_byte_start r);
          stop = min byte_end (fs_byte_end_exclusive r);
          rest = slice_lineage H payload payload_byte_start byte_start byte_end rs
      in if stop \<le> start then rest
         else if start = fs_byte_start r \<and> stop = fs_byte_end_exclusive r then r # rest
         else
           r\<lparr>fs_byte_start := start, fs_byte_end_exclusive := stop,
             fs_source_bytes_sha256 :=
               H (take (stop - start) (drop (start - payload_byte_start) payload))\<rparr> # rest)"

definition durable_request :: "fold_loop_config \<Rightarrow> nat \<Rightarrow> nat \<Rightarrow> durable_read_request" where
  "durable_request cfg byte_start max_bytes =
     \<lparr>dq_source_object_id = kb_source_object_id (fl_binding cfg),
      dq_source_revision_key = fl_source_revision_key cfg,
      dq_file_identity_key = fl_file_identity_key cfg,
      dq_byte_start = byte_start, dq_max_bytes = max_bytes\<rparr>"

definition durable_read_from ::
  "('w, 'f, 'e) fold_loop \<Rightarrow> nat \<Rightarrow> nat \<Rightarrow> ('w, durable_read) io" where
  "durable_read_from L byte_start max_bytes =
     bindIO (liftIO (make_durable_read_request (durable_request (lp_config L) byte_start max_bytes)))
       (lp_read L)"

definition truncated_read :: "hash \<Rightarrow> durable_read \<Rightarrow> nat \<Rightarrow> nat \<Rightarrow> durable_read result" where
  "truncated_read H read byte_start byte_end =
     (let payload = take (byte_end - byte_start) (dr_payload read)
      in make_durable_read H
           (read\<lparr>dr_status := DATA, dr_byte_start := byte_start, dr_byte_end_exclusive := byte_end,
                 dr_payload_hex := hex payload, dr_payload_sha256 := H payload,
                 dr_ranges := slice_lineage H (dr_payload read) (dr_byte_start read) byte_start byte_end
                                (dr_ranges read)\<rparr>))"

text \<open>\<open>_read_exact\<close>; no caller passes its \<open>max_bytes\<close>.\<close>

definition read_exact :: "('w, 'f, 'e) fold_loop \<Rightarrow> nat \<Rightarrow> nat \<Rightarrow> ('w, durable_read) io" where
  "read_exact L byte_start byte_end =
     bindIO (checkIO (byte_end \<le> byte_start) (ValueError ''exact durable fold read must be non-empty'')) (\<lambda>_.
     bindIO (durable_read_from L byte_start (byte_end - byte_start)) (\<lambda>read.
     if dr_status read \<noteq> DATA \<or> dr_byte_start read \<noteq> byte_start \<or> dr_byte_end_exclusive read < byte_end
     then raiseIO (ValueError ''durable source ranges do not cover the fold result'')
     else if dr_byte_end_exclusive read \<noteq> byte_end
     then liftIO (truncated_read (lp_hash L) read byte_start byte_end)
     else returnIO read))"

section \<open>Checks, states and outcomes\<close>

definition validate_read :: "fold_loop_config \<Rightarrow> durable_read \<Rightarrow> fold_cursor \<Rightarrow> unit result" where
  "validate_read cfg read state =
     validated
       [raise_if (dr_source_object_id read \<noteq> kb_source_object_id (fl_binding cfg))
          (ValueError ''durable fold source object mismatch''),
        raise_if (dr_source_revision_key read \<noteq> fl_source_revision_key cfg)
          (ValueError ''durable fold source revision mismatch''),
        raise_if (dr_file_identity_key read \<noteq> fl_file_identity_key cfg)
          (ValueError ''durable fold file identity key mismatch''),
        raise_if (dr_byte_start read \<noteq> cs_pending_end_offset state)
          (ValueError ''durable fold source read is not cursor contiguous''),
        raise_if (cs_file_identity state \<noteq> None \<and> dr_file_identity read \<noteq> None
            \<and> dr_file_identity read \<noteq> cs_file_identity state)
          (ValueError ''durable fold source identity changed'')]
       ()"

definition fold_receipt_unbound :: "fold_command \<Rightarrow> fold_receipt \<Rightarrow> bool" where
  "fold_receipt_unbound c r \<longleftrightarrow>
     ft_source_object_id r \<noteq> kb_source_object_id (cf_binding c)
     \<or> ft_source_revision_key r \<noteq> cf_source_revision_key c
     \<or> ft_file_identity_key r \<noteq> cf_file_identity_key c
     \<or> ft_byte_start r \<noteq> cf_byte_start c
     \<or> ft_byte_end_exclusive r \<noteq> cf_byte_end_exclusive c
     \<or> ft_start_record_index r \<noteq> cf_start_record_index c
     \<or> ft_end_record_index r \<noteq> cf_end_record_index c
     \<or> ft_source_bytes_sha256 r \<noteq> cf_source_bytes_sha256 c
     \<or> ft_outcomes_sha256 r \<noteq> cf_outcomes_sha256 c
     \<or> ft_checkpoint_key r \<noteq> fc_checkpoint_key (cf_checkpoint c)
     \<or> ft_checkpoint_sequence r \<noteq> fc_next_sequence (cf_checkpoint c)"

definition validate_receipt :: "fold_command \<Rightarrow> fold_receipt \<Rightarrow> unit result" where
  "validate_receipt c r =
     validated
       [raise_if (fold_receipt_unbound c r)
          (ValueError ''durable transcript fold receipt does not bind its command'')]
       ()"

definition updated_state ::
  "hash \<Rightarrow> fold_cursor \<Rightarrow> file_identity option \<Rightarrow> fold_pending list \<Rightarrow> bytes \<Rightarrow> bytes
    \<Rightarrow> host_capture_state \<Rightarrow> nat \<Rightarrow> string option \<Rightarrow> bool \<Rightarrow> fold_cursor result" where
  "updated_state H state identity pending extractor tail source_state durable_end diagnostic keep_ack =
     make_fold_cursor H
       \<lparr>cs_capability_id = cs_capability_id state, cs_revision = cs_revision state + 1,
        cs_file_identity = identity, cs_acknowledged_offset = cs_acknowledged_offset state,
        cs_acknowledged_record_index = cs_acknowledged_record_index state,
        cs_checkpoint_sequence = cs_checkpoint_sequence state, cs_pending_ranges = pending,
        cs_extractor_state_base64 = b64encode extractor, cs_extractor_state_sha256 = H extractor,
        cs_pending_tail_byte_count = length tail, cs_pending_tail_sha256 = H tail,
        cs_source_state = source_state, cs_durable_end_offset = durable_end,
        cs_diagnostic_code = diagnostic,
        cs_last_acknowledgement = (if keep_ack then cs_last_acknowledgement state else None)\<rparr>"

definition fold_health ::
  "fold_cursor \<Rightarrow> fold_run_status \<Rightarrow> fold_receipt option \<Rightarrow> fold_health result" where
  "fold_health state status receipt =
     make_fold_health
       \<lparr>he_capability_id = cs_capability_id state, he_status = status,
        he_acknowledged_offset = cs_acknowledged_offset state,
        he_acknowledged_record_index = cs_acknowledged_record_index state,
        he_checkpoint_sequence = cs_checkpoint_sequence state,
        he_durable_end_offset = cs_durable_end_offset state,
        he_pending_complete_record_count =
          cs_pending_end_record_index state - cs_acknowledged_record_index state,
        he_pending_tail_byte_count = cs_pending_tail_byte_count state,
        he_exact_turn_count = (case receipt of None \<Rightarrow> 0 | Some r \<Rightarrow> ft_exact_turn_count r),
        he_transcript_span_count = (case receipt of None \<Rightarrow> 0 | Some r \<Rightarrow> ft_transcript_span_count r),
        he_policy_disposition_count =
          (case receipt of None \<Rightarrow> 0 | Some r \<Rightarrow> ft_policy_disposition_count r),
        he_diagnostic_code = cs_diagnostic_code state, he_receipt = receipt\<rparr>"

definition span_outcome ::
  "'e fold_env \<Rightarrow> fold_loop_config \<Rightarrow> nat \<Rightarrow> nat \<Rightarrow> nat \<Rightarrow> nat \<Rightarrow> durable_read \<Rightarrow> fold_outcome result" where
  "span_outcome E cfg b_start b_end r_start r_end read =
     (let span =
        \<lparr>ts_source_object_id = kb_source_object_id (fl_binding cfg),
         ts_source_revision_key = fl_source_revision_key cfg,
         ts_file_identity_key = fl_file_identity_key cfg, ts_byte_start = b_start,
         ts_byte_end_exclusive = b_end, ts_start_record_index = r_start,
         ts_end_record_index = r_end, ts_source_bytes_sha256 = dr_payload_sha256 read\<rparr>
      in bindE (make_transcript_span span) (\<lambda>_.
         make_fold_outcome E
           \<lparr>fo_outcome_kind = TRANSCRIPT_SPAN, fo_byte_start = b_start, fo_byte_end_exclusive = b_end,
            fo_start_record_index = r_start, fo_end_record_index = r_end,
            fo_source_bytes_sha256 = dr_payload_sha256 read, fo_lineage = dr_ranges read,
            fo_exact_turn = None, fo_transcript_span = Some span, fo_policy_disposition = None\<rparr>))"

definition policy_outcome ::
  "'e fold_env \<Rightarrow> nat \<Rightarrow> nat \<Rightarrow> nat \<Rightarrow> nat \<Rightarrow> durable_read \<Rightarrow> string \<Rightarrow> scope_exclusion_reason option
    \<Rightarrow> fold_outcome result" where
  "policy_outcome E b_start b_end r_start r_end read code reason =
     (let disposition = \<lparr>pd_disposition_code = code, pd_scope_reason = reason\<rparr>
      in bindE (make_policy_disposition disposition) (\<lambda>_.
         make_fold_outcome E
           \<lparr>fo_outcome_kind = POLICY_DISPOSITION, fo_byte_start = b_start, fo_byte_end_exclusive = b_end,
            fo_start_record_index = r_start, fo_end_record_index = r_end,
            fo_source_bytes_sha256 = dr_payload_sha256 read, fo_lineage = dr_ranges read,
            fo_exact_turn = None, fo_transcript_span = None, fo_policy_disposition = Some disposition\<rparr>))"

definition exact_outcome ::
  "'e fold_env \<Rightarrow> nat \<Rightarrow> nat \<Rightarrow> nat \<Rightarrow> nat \<Rightarrow> durable_read \<Rightarrow> 'e \<Rightarrow> fold_outcome result" where
  "exact_outcome E b_start b_end r_start r_end read envelope =
     (let evidence = \<lparr>et_envelope_canonical_json = ev_envelope_json E envelope,
                      et_envelope_sha256 = envelope_hash E envelope\<rparr>
      in bindE (make_exact_turn_evidence E evidence) (\<lambda>_.
         make_fold_outcome E
           \<lparr>fo_outcome_kind = EXACT_TURN, fo_byte_start = b_start, fo_byte_end_exclusive = b_end,
            fo_start_record_index = r_start, fo_end_record_index = r_end,
            fo_source_bytes_sha256 = dr_payload_sha256 read, fo_lineage = dr_ranges read,
            fo_exact_turn = Some evidence, fo_transcript_span = None, fo_policy_disposition = None\<rparr>))"

definition build_exact_envelope ::
  "('f, 'e) fold_adapter \<Rightarrow> 'f \<Rightarrow> verified_assembly_span \<Rightarrow> datetime \<Rightarrow> 'e result" where
  "build_exact_envelope a finalized span recorded_at =
     (case ad_build_from_source_span a of
        None \<Rightarrow> Inl (ValueError ''durable fold requires a compact exact-turn builder'')
      | Some compact_build \<Rightarrow>
          bindE (compact_build finalized span recorded_at) (\<lambda>envelope.
            case envelope of
              None \<Rightarrow> Inl (TypeError ''durable fold exact result must be a conversation envelope'')
            | Some e \<Rightarrow> Inr e))"

definition qualified_adapter :: "('w, 'f, 'e) fold_loop \<Rightarrow> durable_read \<Rightarrow> ('f, 'e) fold_adapter option" where
  "qualified_adapter L read =
     (case lp_adapter L of
        None \<Rightarrow> None
      | Some a \<Rightarrow>
          if dr_connector_id read \<noteq> Some (ad_connector_id a)
             \<or> dr_observed_source_format_version read \<noteq> Some (ad_source_format_version a)
             \<or> fl_observed_source_format_version (lp_config L) \<noteq> Some (ad_source_format_version a)
          then None else Some a)"

definition is_sealed_read :: "fold_loop_config \<Rightarrow> durable_read \<Rightarrow> bool" where
  "is_sealed_read cfg read \<longleftrightarrow>
     (case fl_sealed_byte_end_exclusive cfg of
        None \<Rightarrow> False
      | Some sealed \<Rightarrow> dr_durable_end_offset read = sealed \<and> dr_byte_end_exclusive read = sealed)"

section \<open>The record loop\<close>

record fold_acc =
  ac_outcomes :: "fold_outcome list"
  ac_assembly_state :: bytes
  ac_start_offset :: nat
  ac_start_record :: nat
  ac_pending_start :: nat
  ac_consumed :: nat
  ac_fallback :: "(string \<times> fold_outcome_kind) option"
  ac_limit_reached :: bool

definition fall_back :: "nat \<Rightarrow> string \<Rightarrow> fold_outcome_kind \<Rightarrow> fold_acc \<Rightarrow> fold_acc" where
  "fall_back index code kind acc = acc\<lparr>ac_fallback := Some (code, kind), ac_pending_start := index\<rparr>"

definition finalize_turn ::
  "('w, 'f, 'e) fold_loop \<Rightarrow> ('f, 'e) fold_adapter \<Rightarrow> file_identity \<Rightarrow> datetime \<Rightarrow> framed_record \<Rightarrow> 'f
    \<Rightarrow> fold_acc \<Rightarrow> ('w, fold_outcome) io" where
  "finalize_turn L a identity recorded_at record finalized acc =
     (let b_start = ac_start_offset acc;
          b_end = fr_end_offset record;
          r_start = ac_start_record acc;
          r_end = fr_record_index record + 1
      in bindIO (read_exact L b_start b_end) (\<lambda>exact.
         bindIO (liftIO (make_verified_assembly_span
           \<lparr>va_file_identity = identity, va_start_offset = b_start, va_end_offset = b_end,
            va_start_record_index = r_start, va_end_record_index = r_end,
            va_byte_count = b_end - b_start, va_record_count = r_end - r_start,
            va_range_count = length (dr_ranges exact),
            va_source_bytes_sha256 = dr_payload_sha256 exact\<rparr>)) (\<lambda>span.
         bindIO (liftIO (case ad_finalized_scope_exclusion a of
                           None \<Rightarrow> Inr None | Some f \<Rightarrow> f finalized)) (\<lambda>exclusion.
         case exclusion of
           Some x \<Rightarrow>
             liftIO (policy_outcome (lp_env L) b_start b_end r_start r_end exact
               (''fold.scope-'' @ scope_exclusion_reason_value (fx_reason x)) (Some (fx_reason x)))
         | None \<Rightarrow>
             bindIO (liftIO (build_exact_envelope a finalized span
               (case dr_first_captured_at exact of Some t \<Rightarrow> t | None \<Rightarrow> recorded_at))) (\<lambda>envelope.
             liftIO (exact_outcome (lp_env L) b_start b_end r_start r_end exact envelope))))))"

fun fold_records ::
  "('w, 'f, 'e) fold_loop \<Rightarrow> ('f, 'e) fold_adapter \<Rightarrow> file_identity \<Rightarrow> datetime \<Rightarrow> nat
    \<Rightarrow> framed_record list \<Rightarrow> fold_acc \<Rightarrow> ('w, fold_acc) io" where
  "fold_records L a identity recorded_at index [] acc = returnIO acc"
| "fold_records L a identity recorded_at index (record # records) acc =
     (if length (ac_outcomes acc) = TRANSCRIPT_FOLD_MAX_OUTCOMES
      then returnIO (acc\<lparr>ac_pending_start := index, ac_limit_reached := True\<rparr>)
      else if fr_oversized record
      then returnIO (fall_back index ''fold.record-size-limit'' POLICY_DISPOSITION acc)
      else if fr_record_index record + 1 - ac_start_record acc > ad_max_turn_records a
      then returnIO (fall_back index ''fold.turn-record-limit'' POLICY_DISPOSITION acc)
      else if fr_end_offset record - ac_start_offset acc > ad_max_span_bytes a
      then returnIO (fall_back index ''fold.span-byte-limit'' POLICY_DISPOSITION acc)
      else
        (case ad_advance a record (ac_assembly_state acc) of
           Inl (SourceRecordParseError code _) \<Rightarrow>
             returnIO (fall_back index code
               (if code \<in> set (ad_topology_fallback_codes a) then TRANSCRIPT_SPAN else POLICY_DISPOSITION) acc)
         | Inl e \<Rightarrow> raiseIO e
         | Inr (next_state, finalized) \<Rightarrow>
             if length next_state > HOST_CAPTURE_MAX_CONTINUATION_STATE_BYTES
             then returnIO (fall_back index ''fold.continuation-state-size-limit'' POLICY_DISPOSITION acc)
             else
               (let acc = acc\<lparr>ac_assembly_state := next_state, ac_consumed := index + 1\<rparr>
                in case finalized of
                     None \<Rightarrow> fold_records L a identity recorded_at (index + 1) records acc
                   | Some f \<Rightarrow>
                       bindIO (finalize_turn L a identity recorded_at record f acc) (\<lambda>outcome.
                         fold_records L a identity recorded_at (index + 1) records
                           (acc\<lparr>ac_outcomes := ac_outcomes acc @ [outcome],
                                ac_start_offset := fr_end_offset record,
                                ac_start_record := fr_record_index record + 1,
                                ac_pending_start := index + 1\<rparr>)))))"

text \<open>With no qualified adapter the whole read falls back at once.\<close>

definition unqualified_fallback :: "fold_loop_config \<Rightarrow> string \<times> fold_outcome_kind" where
  "unqualified_fallback cfg =
     (case fl_source_format_disposition_code cfg of
        Some code \<Rightarrow>
          (if code = '''' then ''fold.unqualified-source-format'' else code, POLICY_DISPOSITION)
      | None \<Rightarrow> (''fold.unqualified-source-format'', TRANSCRIPT_SPAN))"

definition assemble_records ::
  "('w, 'f, 'e) fold_loop \<Rightarrow> ('f, 'e) fold_adapter option \<Rightarrow> durable_read \<Rightarrow> file_identity \<Rightarrow> datetime
    \<Rightarrow> framed_record list \<Rightarrow> fold_cursor \<Rightarrow> ('w, fold_acc) io" where
  "assemble_records L adapter read identity recorded_at records state =
     (let start =
        \<lparr>ac_outcomes = [], ac_assembly_state = cs_extractor_state state,
         ac_start_offset = cs_acknowledged_offset state,
         ac_start_record = cs_acknowledged_record_index state, ac_pending_start = 0,
         ac_consumed = 0, ac_fallback = None, ac_limit_reached = False\<rparr>
      in case adapter of
           None \<Rightarrow> returnIO (start\<lparr>ac_fallback := Some (unqualified_fallback (lp_config L))\<rparr>)
         | Some a \<Rightarrow>
             bindIO (fold_records L a identity recorded_at 0 records start) (\<lambda>acc.
               returnIO
                 (if ac_fallback acc = None \<and> \<not> ac_limit_reached acc
                     \<and> ac_start_offset acc < fr_end_offset (last records)
                     \<and> is_sealed_read (lp_config L) read
                  then acc\<lparr>ac_fallback := Some (''fold.sealed-evidence-boundary'', TRANSCRIPT_SPAN)\<rparr>
                  else acc)))"

definition apply_fallback ::
  "('w, 'f, 'e) fold_loop \<Rightarrow> framed_record list \<Rightarrow> fold_acc \<Rightarrow> ('w, fold_acc) io" where
  "apply_fallback L records acc =
     (case ac_fallback acc of
        None \<Rightarrow> returnIO acc
      | Some (code, kind) \<Rightarrow>
          (let b_start = ac_start_offset acc;
               b_end = fr_end_offset (last records);
               r_start = ac_start_record acc;
               r_end = fr_record_index (last records) + 1
           in bindIO (read_exact L b_start b_end) (\<lambda>read.
              bindIO (liftIO
                (if kind = TRANSCRIPT_SPAN
                 then span_outcome (lp_env L) (lp_config L) b_start b_end r_start r_end read
                 else policy_outcome (lp_env L) b_start b_end r_start r_end read
                        (if code = '''' then ''fold.unsupported-record'' else code) None)) (\<lambda>outcome.
              returnIO
                (acc\<lparr>ac_outcomes := ac_outcomes acc @ [outcome], ac_start_offset := b_end,
                     ac_start_record := r_end, ac_consumed := length records,
                     ac_pending_start := length records, ac_assembly_state := []\<rparr>)))))"

end
