(* ===== verification/FoldRun.thy ===== *)
theory FoldRun
  imports FoldLoop
begin

text \<open>
  The rest of \<open>DurableTranscriptFoldLoop\<close>: submission and cursor commit, the sealed pending
  span, the legacy cursor migration and \<open>run_once\<close>. The migration's \<open>while\<close> loop is a
  \<open>function\<close>; it terminates because a receipt is only accepted when it binds its command,
  whose byte end lies past the loop's offset.
\<close>

section \<open>Submission\<close>

definition submit_command ::
  "('w, 'f, 'e) fold_loop \<Rightarrow> fold_command \<Rightarrow> datetime \<Rightarrow> ('w, fold_receipt) io" where
  "submit_command L command recorded_at =
     bindIO (lp_submit L command recorded_at) (\<lambda>receipt.
     bindIO (liftIO (validate_receipt command receipt)) (\<lambda>_. returnIO receipt))"

text \<open>The cursor built from a receipt: no pending range, empty extractor state and tail.\<close>

definition acknowledged_state ::
  "hash \<Rightarrow> fold_cursor \<Rightarrow> file_identity \<Rightarrow> nat \<Rightarrow> fold_receipt \<Rightarrow> fold_cursor result" where
  "acknowledged_state H state identity durable_end receipt =
     bindE (make_fold_ack (fold_ack_of receipt)) (\<lambda>ack.
     make_fold_cursor H
       ((default_fold_cursor H (cs_capability_id state))
          \<lparr>cs_revision := cs_revision state, cs_file_identity := Some identity,
           cs_acknowledged_offset := ft_byte_end_exclusive receipt,
           cs_acknowledged_record_index := ft_end_record_index receipt,
           cs_checkpoint_sequence := ft_checkpoint_sequence receipt,
           cs_durable_end_offset := durable_end, cs_last_acknowledgement := Some ack\<rparr>))"

definition commit_sealed_pending_span ::
  "('w, 'f, 'e) fold_loop \<Rightarrow> fold_cursor \<Rightarrow> file_identity option \<Rightarrow> bytes \<Rightarrow> nat \<Rightarrow> string option
    \<Rightarrow> string option \<Rightarrow> datetime \<Rightarrow> ('w, fold_health) io" where
  "commit_sealed_pending_span L state identity tail durable_end format profile recorded_at =
     (case identity of
        None \<Rightarrow> raiseIO (ValueError ''sealed transcript span requires pending source evidence'')
      | Some f \<Rightarrow>
          if cs_pending_ranges state = []
          then raiseIO (ValueError ''sealed transcript span requires pending source evidence'')
          else
            bindIO (read_exact L (cs_acknowledged_offset state) (cs_pending_end_offset state)) (\<lambda>read.
            bindIO (liftIO (span_outcome (lp_env L) (lp_config L) (cs_acknowledged_offset state)
                      (cs_pending_end_offset state) (cs_acknowledged_record_index state)
                      (cs_pending_end_record_index state) read)) (\<lambda>outcome.
            bindIO (liftIO (build_transcript_fold_command (lp_env L) (lp_config L) profile format f
                      [outcome] (dr_payload read) (cs_checkpoint_sequence state) None)) (\<lambda>command.
            bindIO (submit_command L command recorded_at) (\<lambda>receipt.
            bindIO (liftIO (acknowledged_state (lp_hash L) state f durable_end receipt)) (\<lambda>acknowledged.
            bindIO (liftIO (updated_state (lp_hash L) acknowledged (Some f) [] [] tail
                      (if tail \<noteq> [] then HC_WAITING_FOR_COMPLETE_RECORD else HC_HEALTHY) durable_end
                      (Some ''fold.sealed-evidence-boundary'') True)) (\<lambda>updated.
            bindIO (lp_commit L (cs_revision state) updated) (\<lambda>_.
            liftIO (fold_health updated FOLDED (Some receipt))))))))))"

section \<open>Pending ranges after a run\<close>

definition pending_of_records :: "hash \<Rightarrow> framed_record list \<Rightarrow> fold_pending result" where
  "pending_of_records H records =
     make_fold_pending
       \<lparr>fp_byte_start = fr_start_offset (hd records),
        fp_byte_end_exclusive = fr_end_offset (last records),
        fp_start_record_index = fr_record_index (hd records),
        fp_end_record_index = fr_record_index (last records) + 1,
        fp_source_bytes_sha256 = H (concat (map fr_framed_bytes records))\<rparr>"

definition next_pending_ranges ::
  "hash \<Rightarrow> bool \<Rightarrow> framed_record list \<Rightarrow> fold_cursor \<Rightarrow> fold_acc \<Rightarrow> fold_pending list result" where
  "next_pending_ranges H qualified records state acc =
     (let remaining = (if ac_limit_reached acc then [] else drop (ac_pending_start acc) records)
      in bindE (if remaining \<noteq> []
                then bindE (pending_of_records H remaining) (\<lambda>p. Inr [p])
                else if ac_outcomes acc = [] \<and> cs_pending_ranges state \<noteq> []
                then Inr (cs_pending_ranges state)
                else Inr []) (\<lambda>pending.
         if ac_outcomes acc = [] \<and> qualified \<and> ac_consumed acc = length records \<and> records \<noteq> []
         then bindE (pending_of_records H records) (\<lambda>p. Inr (cs_pending_ranges state @ [p]))
         else Inr pending))"

section \<open>The reads of \<open>run_once\<close>\<close>

definition fold_without_records ::
  "('w, 'f, 'e) fold_loop \<Rightarrow> ('f, 'e) fold_adapter option \<Rightarrow> durable_read \<Rightarrow> file_identity \<Rightarrow> datetime
    \<Rightarrow> bytes \<Rightarrow> fold_cursor \<Rightarrow> ('w, fold_health) io" where
  "fold_without_records L adapter read identity recorded_at tail state =
     (if cs_pending_ranges state \<noteq> [] \<and> is_sealed_read (lp_config L) read
      then commit_sealed_pending_span L state (Some identity) tail (dr_durable_end_offset read)
             (dr_observed_source_format_version read) (map_option ad_profile_version adapter) recorded_at
      else
        bindIO (liftIO (updated_state (lp_hash L) state (Some identity) (cs_pending_ranges state)
                  (cs_extractor_state state) tail HC_WAITING_FOR_COMPLETE_RECORD
                  (dr_durable_end_offset read) None True)) (\<lambda>updated.
        bindIO (lp_commit L (cs_revision state) updated) (\<lambda>_.
        liftIO (fold_health updated FR_WAITING_FOR_COMPLETE_RECORD None))))"

definition submit_outcomes ::
  "('w, 'f, 'e) fold_loop \<Rightarrow> ('f, 'e) fold_adapter option \<Rightarrow> durable_read \<Rightarrow> file_identity \<Rightarrow> datetime
    \<Rightarrow> fold_cursor \<Rightarrow> fold_acc \<Rightarrow> ('w, fold_receipt option \<times> fold_cursor) io" where
  "submit_outcomes L adapter read identity recorded_at state acc =
     (if ac_outcomes acc = [] then returnIO (None, state)
      else
        bindIO (read_exact L (fo_byte_start (hd (ac_outcomes acc)))
                  (fo_byte_end_exclusive (last (ac_outcomes acc)))) (\<lambda>command_read.
        bindIO (liftIO (build_transcript_fold_command (lp_env L) (lp_config L)
                  (map_option ad_profile_version adapter) (dr_observed_source_format_version read)
                  identity (ac_outcomes acc) (dr_payload command_read)
                  (cs_checkpoint_sequence state) None)) (\<lambda>command.
        bindIO (submit_command L command recorded_at) (\<lambda>receipt.
        bindIO (liftIO (acknowledged_state (lp_hash L) state identity (dr_durable_end_offset read)
                  receipt)) (\<lambda>next_state.
        returnIO (Some receipt, next_state))))))"

definition commit_fold ::
  "('w, 'f, 'e) fold_loop \<Rightarrow> ('f, 'e) fold_adapter option \<Rightarrow> durable_read \<Rightarrow> file_identity
    \<Rightarrow> framed_record list \<Rightarrow> bytes \<Rightarrow> fold_cursor \<Rightarrow> fold_acc \<Rightarrow> fold_receipt option \<Rightarrow> fold_cursor
    \<Rightarrow> ('w, fold_health) io" where
  "commit_fold L adapter read identity records partial_tail state acc receipt next_state =
     (let tail = (if ac_limit_reached acc then [] else partial_tail)
      in bindIO (liftIO (next_pending_ranges (lp_hash L) (adapter \<noteq> None) records state acc)) (\<lambda>pending.
         bindIO (liftIO (updated_state (lp_hash L) next_state (Some identity) pending
                   (if adapter = None then [] else ac_assembly_state acc) tail
                   (if pending \<noteq> [] \<or> tail \<noteq> [] then HC_WAITING_FOR_COMPLETE_RECORD else HC_HEALTHY)
                   (dr_durable_end_offset read) (map_option fst (ac_fallback acc)) (receipt \<noteq> None))) (\<lambda>final.
         bindIO (lp_commit L (cs_revision state) final) (\<lambda>_.
         liftIO (fold_health final
           (if receipt \<noteq> None then FOLDED
            else if pending \<noteq> [] then WAITING_FOR_EXACT_TURN
            else FR_WAITING_FOR_COMPLETE_RECORD) receipt)))))"

definition fold_data ::
  "('w, 'f, 'e) fold_loop \<Rightarrow> datetime \<Rightarrow> fold_cursor \<Rightarrow> durable_read \<Rightarrow> file_identity
    \<Rightarrow> ('w, fold_health) io" where
  "fold_data L recorded_at state read identity =
     (let adapter = qualified_adapter L read;
          (records, tail) =
            frame_complete_records (case adapter of None \<Rightarrow> 262144 | Some a \<Rightarrow> ad_max_record_bytes a)
              (dr_byte_start read) (cs_pending_end_record_index state) (dr_payload read)
      in if records = [] then fold_without_records L adapter read identity recorded_at tail state
         else
           bindIO (assemble_records L adapter read identity recorded_at records state) (\<lambda>assembled.
           bindIO (apply_fallback L records assembled) (\<lambda>acc.
           bindIO (submit_outcomes L adapter read identity recorded_at state acc) (\<lambda>(receipt, next_state).
           commit_fold L adapter read identity records tail state acc receipt next_state))))"

definition fold_end_of_ranges ::
  "('w, 'f, 'e) fold_loop \<Rightarrow> datetime \<Rightarrow> fold_cursor \<Rightarrow> durable_read \<Rightarrow> ('w, fold_health) io" where
  "fold_end_of_ranges L recorded_at state read =
     (if cs_pending_ranges state \<noteq> [] \<and> is_sealed_read (lp_config L) read
      then commit_sealed_pending_span L state (cs_file_identity state) [] (dr_durable_end_offset read)
             (fl_observed_source_format_version (lp_config L)) None recorded_at
      else
        liftIO (fold_health state
          (if cs_pending_ranges state \<noteq> [] then WAITING_FOR_EXACT_TURN
           else if cs_pending_tail_byte_count state \<noteq> 0 then FR_WAITING_FOR_COMPLETE_RECORD
           else FR_END_OF_DURABLE_RANGES) None))"

section \<open>Migration of an adapter cursor\<close>

definition count_newlines :: "bytes \<Rightarrow> nat" where
  "count_newlines p = length (filter (\<lambda>b. b = 10) p)"

text \<open>\<open>payload.rfind(b"\<newline>") + 1\<close>.\<close>

definition last_line_end :: "bytes \<Rightarrow> nat" where
  "last_line_end p = length p - length (takeWhile (\<lambda>b. b \<noteq> 10) (rev p))"

definition ends_line :: "bytes \<Rightarrow> bool" where
  "ends_line p \<longleftrightarrow> p \<noteq> [] \<and> last p = 10"

definition legacy_binding ::
  "('w, 'f, 'e) fold_loop \<Rightarrow> host_cursor \<Rightarrow> legacy_cursor_binding result" where
  "legacy_binding L legacy =
     make_legacy_cursor_binding
       \<lparr>lb_cursor_version = hc_cursor_version legacy,
        lb_cursor_sha256 =
          canonical_sha256 (lp_hash L) (host_cursor_json (lp_iso_datetime L) (lp_iso_date L) legacy),
        lb_acknowledged_byte_offset = hc_acknowledged_offset legacy,
        lb_acknowledged_record_index = hc_acknowledged_record_index legacy,
        lb_checkpoint_sequence = hc_checkpoint_sequence legacy,
        lb_last_receipt_event_id = map_option ca_receipt_event_id (hc_last_acknowledgement legacy)\<rparr>"

text \<open>The read of one chunk, cut back to its last complete record before the cursor's end.\<close>

definition migration_read ::
  "('w, 'f, 'e) fold_loop \<Rightarrow> host_cursor \<Rightarrow> nat \<Rightarrow> ('w, durable_read \<times> nat) io" where
  "migration_read L legacy next_offset =
     (let requested_end = min (hc_acknowledged_offset legacy)
                            (next_offset + TRANSCRIPT_FOLD_LEGACY_MIGRATION_CHUNK_BYTES)
      in bindIO (read_exact L next_offset requested_end) (\<lambda>read.
         bindIO (checkIO (dr_file_identity read = None) (AssertionError ''file_identity'')) (\<lambda>_.
         bindIO (checkIO (hc_file_identity legacy \<noteq> dr_file_identity read)
                   (ValueError ''legacy adapter cursor file identity mismatch'')) (\<lambda>_.
         if requested_end < hc_acknowledged_offset legacy
         then
           (let complete = last_line_end (dr_payload read);
                chunk_end = next_offset + complete
            in if complete = 0
               then raiseIO (ValueError ''legacy adapter cursor record exceeds the migration window'')
               else if chunk_end \<noteq> requested_end
               then bindIO (read_exact L next_offset chunk_end) (\<lambda>cut. returnIO (cut, chunk_end))
               else returnIO (read, chunk_end))
         else if \<not> ends_line (dr_payload read)
         then raiseIO (ValueError ''legacy adapter cursor does not end at a complete record'')
         else returnIO (read, requested_end)))))"

definition migration_submit ::
  "('w, 'f, 'e) fold_loop \<Rightarrow> legacy_cursor_binding \<Rightarrow> datetime \<Rightarrow> nat \<Rightarrow> nat \<Rightarrow> nat \<Rightarrow> nat \<Rightarrow> nat
    \<Rightarrow> durable_read \<Rightarrow> file_identity \<Rightarrow> ('w, fold_receipt \<times> durable_read) io" where
  "migration_submit L binding recorded_at next_offset chunk_end next_record record_end expected_sequence
      read identity =
     bindIO (liftIO (policy_outcome (lp_env L) next_offset chunk_end next_record record_end read
               ''fold.legacy-cursor-receipt-migration'' None)) (\<lambda>outcome.
     bindIO (liftIO (build_transcript_fold_command (lp_env L) (lp_config L)
               (map_option ad_profile_version (lp_adapter L))
               (dr_observed_source_format_version read) identity [outcome] (dr_payload read)
               expected_sequence (if next_offset = 0 then Some binding else None))) (\<lambda>command.
     bindIO (submit_command L command recorded_at) (\<lambda>receipt.
     returnIO (receipt, read))))"

definition migration_step ::
  "('w, 'f, 'e) fold_loop \<Rightarrow> host_cursor \<Rightarrow> legacy_cursor_binding \<Rightarrow> datetime \<Rightarrow> nat \<Rightarrow> nat \<Rightarrow> nat
    \<Rightarrow> ('w, fold_receipt \<times> durable_read) io" where
  "migration_step L legacy binding recorded_at next_offset next_record expected_sequence =
     bindIO (migration_read L legacy next_offset) (\<lambda>(read, chunk_end).
     (let record_count = count_newlines (dr_payload read);
          record_end = next_record + record_count
      in bindIO (checkIO (record_count = 0)
                   (ValueError ''legacy adapter cursor migration made no progress'')) (\<lambda>_.
         bindIO (checkIO (record_end > hc_acknowledged_record_index legacy)
                   (ValueError ''legacy adapter cursor record count mismatch'')) (\<lambda>_.
         case dr_file_identity read of
           None \<Rightarrow> raiseIO (AssertionError ''file_identity'')
         | Some identity \<Rightarrow>
             migration_submit L binding recorded_at next_offset chunk_end next_record record_end
               expected_sequence read identity))))"

lemma submit_command_binds:
  assumes "submit_command L c t w = (Inr r, w')"
  shows "lp_submit L c t w = (Inr r, w')" and "\<not> fold_receipt_unbound c r"
  using assms by (auto simp: submit_command_def bindIO_Inr_iff validate_receipt_def)

lemma built_fold_command:
  assumes "build_transcript_fold_command E cfg p f i outs bytes seq leg = Inr c"
  shows "c = fold_command_of (ev_hash E) cfg p f i outs bytes seq leg"
    and "make_fold_command E c = Inr c" and "outs \<noteq> []"
    and "length bytes + fo_byte_start (hd outs) = fo_byte_end_exclusive (last outs)"
proof -
  let ?c = "fold_command_of (ev_hash E) cfg p f i outs bytes seq leg"
  from assms have "outs \<noteq> []" "int (length bytes) = int (fo_byte_end_exclusive (last outs)) - int (fo_byte_start (hd outs))"
    and m: "make_fold_command E ?c = Inr c"
    by (auto simp: build_transcript_fold_command_def Let_def bindE_Inr_iff split: if_split_asm)
  then show "outs \<noteq> []" "length bytes + fo_byte_start (hd outs) = fo_byte_end_exclusive (last outs)"
    by linarith+
  from m have "c = ?c" by (rule fold_command_binds(1))
  with m show "c = ?c" "make_fold_command E c = Inr c" by simp_all
qed

lemma fold_command_of_fields [simp]:
  "cf_byte_start (fold_command_of H cfg p f i outs b q leg) = fo_byte_start (hd outs)"
  "cf_byte_end_exclusive (fold_command_of H cfg p f i outs b q leg) = fo_byte_end_exclusive (last outs)"
  "cf_start_record_index (fold_command_of H cfg p f i outs b q leg) = fo_start_record_index (hd outs)"
  "cf_end_record_index (fold_command_of H cfg p f i outs b q leg) = fo_end_record_index (last outs)"
  "cf_outcomes (fold_command_of H cfg p f i outs b q leg) = outs"
  "cf_source_bytes_sha256 (fold_command_of H cfg p f i outs b q leg) = H b"
  "fc_checkpoint_key (cf_checkpoint (fold_command_of H cfg p f i outs b q leg)) = fl_checkpoint_key cfg"
  "fc_expected_sequence (cf_checkpoint (fold_command_of H cfg p f i outs b q leg)) = q"
  "fc_next_sequence (cf_checkpoint (fold_command_of H cfg p f i outs b q leg)) = q + 1"
  "cf_legacy_cursor (fold_command_of H cfg p f i outs b q leg) = leg"
  "cf_adapter_profile_version (fold_command_of H cfg p f i outs b q leg) = p"
  by (simp_all add: fold_command_of_def Let_def)

lemma policy_outcome_shape:
  assumes "policy_outcome E bs be rs re read code reason = Inr x"
  shows "fo_byte_start x = bs \<and> fo_byte_end_exclusive x = be \<and> fo_start_record_index x = rs
    \<and> fo_end_record_index x = re \<and> fo_outcome_kind x = POLICY_DISPOSITION \<and> outcome_ok E x"
  using assms by (auto simp: policy_outcome_def Let_def bindE_Inr_iff make_fold_outcome_def is_ok_def)

lemma span_outcome_shape:
  assumes "span_outcome E cfg bs be rs re read = Inr x"
  shows "fo_byte_start x = bs \<and> fo_byte_end_exclusive x = be \<and> fo_start_record_index x = rs
    \<and> fo_end_record_index x = re \<and> fo_outcome_kind x = TRANSCRIPT_SPAN \<and> outcome_ok E x"
  using assms by (auto simp: span_outcome_def Let_def bindE_Inr_iff make_fold_outcome_def is_ok_def)

lemma exact_outcome_shape:
  assumes "exact_outcome E bs be rs re read e = Inr x"
  shows "fo_byte_start x = bs \<and> fo_byte_end_exclusive x = be \<and> fo_start_record_index x = rs
    \<and> fo_end_record_index x = re \<and> fo_outcome_kind x = EXACT_TURN \<and> outcome_ok E x"
  using assms by (auto simp: exact_outcome_def Let_def bindE_Inr_iff make_fold_outcome_def is_ok_def)

lemma migration_submit_trace:
  assumes "migration_submit L b t n ce r re q read f w = (Inr y, w')"
  obtains x c receipt where
    "policy_outcome (lp_env L) n ce r re read ''fold.legacy-cursor-receipt-migration'' None = Inr x"
    "build_transcript_fold_command (lp_env L) (lp_config L)
       (map_option ad_profile_version (lp_adapter L)) (dr_observed_source_format_version read)
       f [x] (dr_payload read) q (if n = 0 then Some b else None) = Inr c"
    "submit_command L c t w = (Inr receipt, w')" "y = (receipt, read)"
  using assms unfolding migration_submit_def by (elim bind_liftE bind_returnE) (rule that)

lemma migration_submit_receipt:
  assumes "migration_submit L b t n ce r re q read f w = (Inr (receipt, read'), w')"
  shows "read' = read \<and> ft_byte_start receipt = n \<and> ft_byte_end_exclusive receipt = ce \<and> n < ce
    \<and> ft_start_record_index receipt = r \<and> ft_end_record_index receipt = re
    \<and> ft_checkpoint_sequence receipt = q + 1"
  using assms
proof (rule migration_submit_trace)
  fix x c receipt'
  assume x: "policy_outcome (lp_env L) n ce r re read ''fold.legacy-cursor-receipt-migration'' None = Inr x"
    and c: "build_transcript_fold_command (lp_env L) (lp_config L)
       (map_option ad_profile_version (lp_adapter L)) (dr_observed_source_format_version read)
       f [x] (dr_payload read) q (if n = 0 then Some b else None) = Inr c"
    and s: "submit_command L c t w = (Inr receipt', w')" and y: "(receipt, read') = (receipt', read)"
  note x' = policy_outcome_shape [OF x] and c' = built_fold_command(1) [OF c]
  have "n < ce" using outcome_facts(1) [of "lp_env L" x] x' by simp
  with submit_command_binds(2) [OF s] x' y show ?thesis
    unfolding c' by (simp add: fold_receipt_unbound_def)
qed

lemma migration_step_submits:
  assumes "migration_step L legacy b t n r q w = (Inr (receipt, read), w')"
  obtains ce w1 f where "migration_read L legacy n w = (Inr (read, ce), w1)"
    "count_newlines (dr_payload read) \<noteq> 0"
    "r + count_newlines (dr_payload read) \<le> hc_acknowledged_record_index legacy"
    "dr_file_identity read = Some f"
    "migration_submit L b t n ce r (r + count_newlines (dr_payload read)) q read f w1
      = (Inr (receipt, read), w')"
proof -
  from assms obtain p w1 where m: "migration_read L legacy n w = (Inr p, w1)"
    and rest: "(case p of (read, chunk_end) \<Rightarrow>
       let record_count = count_newlines (dr_payload read); record_end = r + record_count
       in bindIO (checkIO (record_count = 0)
                   (ValueError ''legacy adapter cursor migration made no progress'')) (\<lambda>_.
          bindIO (checkIO (record_end > hc_acknowledged_record_index legacy)
                   (ValueError ''legacy adapter cursor record count mismatch'')) (\<lambda>_.
          case dr_file_identity read of
            None \<Rightarrow> raiseIO (AssertionError ''file_identity'')
          | Some identity \<Rightarrow> migration_submit L b t n chunk_end r record_end q read identity))) w1
      = (Inr (receipt, read), w')"
    unfolding migration_step_def by (rule bindIO_returns)
  obtain read' ce where p: "p = (read', ce)" by (cases p)
  from rest p obtain f where f: "count_newlines (dr_payload read') \<noteq> 0"
    "r + count_newlines (dr_payload read') \<le> hc_acknowledged_record_index legacy"
    "dr_file_identity read' = Some f"
    "migration_submit L b t n ce r (r + count_newlines (dr_payload read')) q read' f w1
      = (Inr (receipt, read), w')"
    by (cases "dr_file_identity read'") (auto simp: Let_def bindIO_Inr_iff)
  with migration_submit_receipt [OF f(4)] m p that show thesis by simp
qed

lemma migration_step_receipt:
  assumes "migration_step L legacy b t n r q w = (Inr (receipt, read), w')"
  shows "ft_byte_start receipt = n" and "n < ft_byte_end_exclusive receipt"
    and "ft_start_record_index receipt = r" and "ft_checkpoint_sequence receipt = q + 1"
    and "ft_end_record_index receipt \<le> hc_acknowledged_record_index legacy"
    and "r < ft_end_record_index receipt"
proof -
  from assms obtain ce w1 f where "count_newlines (dr_payload read) \<noteq> 0"
    "r + count_newlines (dr_payload read) \<le> hc_acknowledged_record_index legacy"
    and s: "migration_submit L b t n ce r (r + count_newlines (dr_payload read)) q read f w1
      = (Inr (receipt, read), w')"
    by (rule migration_step_submits)
  with migration_submit_receipt [OF s] show "ft_byte_start receipt = n"
    "n < ft_byte_end_exclusive receipt" "ft_start_record_index receipt = r"
    "ft_checkpoint_sequence receipt = q + 1"
    "ft_end_record_index receipt \<le> hc_acknowledged_record_index legacy"
    "r < ft_end_record_index receipt" by auto
qed

function migrate_chunks ::
  "('w, 'f, 'e) fold_loop \<Rightarrow> host_cursor \<Rightarrow> legacy_cursor_binding \<Rightarrow> datetime \<Rightarrow> nat \<Rightarrow> nat \<Rightarrow> nat
    \<Rightarrow> (fold_receipt \<times> durable_read) option
    \<Rightarrow> ('w, nat \<times> nat \<times> (fold_receipt \<times> durable_read) option) io" where
  "migrate_chunks L legacy binding recorded_at next_offset next_record expected_sequence latest w =
     (if next_offset < hc_acknowledged_offset legacy then
        (case migration_step L legacy binding recorded_at next_offset next_record expected_sequence w of
           (Inl e, w') \<Rightarrow> (Inl e, w')
         | (Inr (receipt, read), w') \<Rightarrow>
             migrate_chunks L legacy binding recorded_at (ft_byte_end_exclusive receipt)
               (ft_end_record_index receipt) (ft_checkpoint_sequence receipt) (Some (receipt, read)) w')
      else (Inr (next_offset, next_record, latest), w))"
  by pat_completeness auto
termination
proof (relation "measure (\<lambda>(_, legacy, _, _, n, _). hc_acknowledged_offset legacy - n)", goal_cases)
  case (2 L legacy b t n r q latest w a w' x receipt read)
  then have "migration_step L legacy b t n r q w = (Inr (receipt, read), w')" by simp
  with 2(1) migration_step_receipt(2) show ?case by fastforce
qed simp

declare migrate_chunks.simps [simp del]

definition plain_legacy_assembly :: "host_cursor \<Rightarrow> bool" where
  "plain_legacy_assembly legacy \<longleftrightarrow>
     \<not> (hc_pending_assembly_bytes legacy \<noteq> 0 \<or> hc_pending_assembly_records legacy \<noteq> []
        \<or> hc_pending_assembly_ranges legacy \<noteq> [] \<or> hc_partial_tail legacy \<noteq> [])"

definition migrated_state ::
  "hash \<Rightarrow> host_cursor \<Rightarrow> fold_receipt \<Rightarrow> durable_read \<Rightarrow> fold_cursor result" where
  "migrated_state H legacy receipt read =
     bindE (make_fold_ack (fold_ack_of receipt)) (\<lambda>ack.
     make_fold_cursor H
       ((default_fold_cursor H (hc_capability_id legacy))
          \<lparr>cs_revision := hc_revision legacy + 1, cs_file_identity := dr_file_identity read,
           cs_acknowledged_offset := ft_byte_end_exclusive receipt,
           cs_acknowledged_record_index := ft_end_record_index receipt,
           cs_checkpoint_sequence := ft_checkpoint_sequence receipt,
           cs_extractor_state_base64 :=
             (if plain_legacy_assembly legacy then hc_extractor_state_base64 legacy else ''''),
           cs_extractor_state_sha256 :=
             (if plain_legacy_assembly legacy then hc_extractor_state_sha256 legacy else H []),
           cs_durable_end_offset := dr_durable_end_offset read,
           cs_last_acknowledgement := Some ack\<rparr>))"

definition migrate_legacy_cursor ::
  "('w, 'f, 'e) fold_loop \<Rightarrow> host_cursor \<Rightarrow> datetime \<Rightarrow> ('w, fold_cursor) io" where
  "migrate_legacy_cursor L legacy recorded_at =
     bindIO (checkIO (hc_capability_id legacy \<noteq> fl_capability_id (lp_config L))
               (ValueError ''legacy adapter cursor capability mismatch'')) (\<lambda>_.
     if hc_acknowledged_offset legacy = 0
     then
       bindIO (liftIO (make_fold_cursor (lp_hash L)
                 ((default_fold_cursor (lp_hash L) (hc_capability_id legacy))
                    \<lparr>cs_revision := hc_revision legacy + 1,
                     cs_file_identity := hc_file_identity legacy,
                     cs_durable_end_offset := hc_acknowledged_offset legacy\<rparr>))) (\<lambda>migrated.
       bindIO (lp_commit L (hc_revision legacy) migrated) (\<lambda>_. returnIO migrated))
     else
       bindIO (liftIO (legacy_binding L legacy)) (\<lambda>binding.
       bindIO (migrate_chunks L legacy binding recorded_at 0 0 (hc_checkpoint_sequence legacy) None) (\<lambda>(next_offset, next_record, latest).
       case latest of
         None \<Rightarrow> raiseIO (ValueError ''legacy adapter cursor migration coverage mismatch'')
       | Some (receipt, read) \<Rightarrow>
           bindIO (checkIO (next_offset \<noteq> hc_acknowledged_offset legacy
                     \<or> next_record \<noteq> hc_acknowledged_record_index legacy)
                     (ValueError ''legacy adapter cursor migration coverage mismatch'')) (\<lambda>_.
           bindIO (liftIO (migrated_state (lp_hash L) legacy receipt read)) (\<lambda>migrated.
           bindIO (lp_commit L (hc_revision legacy) migrated) (\<lambda>_. returnIO migrated))))))"

section \<open>\<open>run_once\<close>\<close>

definition fold_state :: "('w, 'f, 'e) fold_loop \<Rightarrow> datetime \<Rightarrow> ('w, fold_cursor) io" where
  "fold_state L recorded_at =
     bindIO (lp_load L (fl_capability_id (lp_config L))) (\<lambda>loaded.
     case loaded of
       Some (Legacy legacy) \<Rightarrow> migrate_legacy_cursor L legacy recorded_at
     | None \<Rightarrow> liftIO (make_fold_cursor (lp_hash L)
                 (default_fold_cursor (lp_hash L) (fl_capability_id (lp_config L))))
     | Some (Fold state) \<Rightarrow> returnIO state)"

definition fold_from_state ::
  "('w, 'f, 'e) fold_loop \<Rightarrow> datetime \<Rightarrow> fold_cursor \<Rightarrow> ('w, fold_health) io" where
  "fold_from_state L recorded_at state =
     bindIO (durable_read_from L (cs_pending_end_offset state) (fl_read_size (lp_config L))) (\<lambda>read.
     bindIO (liftIO (validate_read (lp_config L) read state)) (\<lambda>_.
     if dr_status read = END_OF_DURABLE_RANGES then fold_end_of_ranges L recorded_at state read
     else case dr_file_identity read of
            None \<Rightarrow> raiseIO (AssertionError ''file_identity'')
          | Some identity \<Rightarrow> fold_data L recorded_at state read identity))"

definition fold_run_once :: "('w, 'f, 'e) fold_loop \<Rightarrow> datetime \<Rightarrow> ('w, fold_health) io" where
  "fold_run_once L recorded_at =
     bindIO (checkIO (tz_missing recorded_at)
               (ValueError ''transcript fold time must be timezone-aware'')) (\<lambda>_.
     bindIO (fold_state L recorded_at) (\<lambda>state. fold_from_state L recorded_at state))"

end
