(* ===== verification/Effects.thy ===== *)
theory Effects
  imports Prelude
begin

text \<open>
  Exception handlers over ports, and the partial-correctness triples in which the runs of
  the host capture loop are verified: a precondition on the world, a postcondition for the
  value returned, and one for the world left behind by an exception.
\<close>

section \<open>Handlers\<close>

definition catchIO :: "('w, 'a) io \<Rightarrow> (py_error \<Rightarrow> ('w, 'a) io) \<Rightarrow> ('w, 'a) io" where
  "catchIO m h w = (case m w of (Inl e, w') \<Rightarrow> h e w' | (Inr x, w') \<Rightarrow> (Inr x, w'))"

text \<open>\<open>try: x = m except ...\<close> followed by code that runs outside the \<open>try\<close>.\<close>

definition tryIO :: "('w, 'a) io \<Rightarrow> (py_error \<Rightarrow> ('w, 'b) io) \<Rightarrow> ('a \<Rightarrow> ('w, 'b) io) \<Rightarrow> ('w, 'b) io" where
  "tryIO m h f w = (case m w of (Inl e, w') \<Rightarrow> h e w' | (Inr x, w') \<Rightarrow> f x w')"

lemma tryIO_simps [simp]:
  "m w = (Inr x, w') \<Longrightarrow> tryIO m h f w = f x w'"
  "m w = (Inl e, w') \<Longrightarrow> tryIO m h f w = h e w'"
  by (simp_all add: tryIO_def)

section \<open>Triples\<close>

definition ensures ::
  "('w \<Rightarrow> bool) \<Rightarrow> ('w, 'a) io \<Rightarrow> ('a \<Rightarrow> 'w \<Rightarrow> bool) \<Rightarrow> ('w \<Rightarrow> bool) \<Rightarrow> bool" where
  "ensures P m Q E \<longleftrightarrow>
     (\<forall>w r w'. P w \<longrightarrow> m w = (r, w') \<longrightarrow> (case r of Inl e \<Rightarrow> E w' | Inr x \<Rightarrow> Q x w'))"

named_theorems triples \<open>rules for the triples of port computations\<close>

lemma ensuresI:
  assumes "\<And>w x w'. P w \<Longrightarrow> m w = (Inr x, w') \<Longrightarrow> Q x w'"
    and "\<And>w e w'. P w \<Longrightarrow> m w = (Inl e, w') \<Longrightarrow> E w'"
  shows "ensures P m Q E"
  unfolding ensures_def by (auto split: sum.split intro: assms)

lemma ensures_returns: "ensures P m Q E \<Longrightarrow> P w \<Longrightarrow> m w = (Inr x, w') \<Longrightarrow> Q x w'"
  unfolding ensures_def by fastforce

lemma ensures_raises: "ensures P m Q E \<Longrightarrow> P w \<Longrightarrow> m w = (Inl e, w') \<Longrightarrow> E w'"
  unfolding ensures_def by fastforce

lemma ensures_bind:
  assumes "ensures P m R E" "\<And>x. ensures (R x) (f x) Q E"
  shows "ensures P (bindIO m f) Q E"
proof (rule ensuresI)
  fix w x w' assume P: "P w" and run: "bindIO m f w = (Inr x, w')"
  from run obtain y w1 where y: "m w = (Inr y, w1)" "f y w1 = (Inr x, w')"
    by (rule bindIO_returns)
  with assms P show "Q x w'" by (blast dest: ensures_returns)
next
  fix w e w' assume P: "P w" and run: "bindIO m f w = (Inl e, w')"
  obtain r w1 where m: "m w = (r, w1)" by (cases "m w")
  show "E w'"
  proof (cases r)
    case (Inl e')
    with m run assms(1) P show ?thesis by (auto dest: ensures_raises)
  next
    case (Inr y)
    with m run have "f y w1 = (Inl e, w')" by simp
    with m Inr assms P show ?thesis by (blast dest: ensures_returns ensures_raises)
  qed
qed

lemma ensures_try:
  assumes "ensures P m R D" "\<And>e. ensures D (h e) Q E" "\<And>x. ensures (R x) (f x) Q E"
  shows "ensures P (tryIO m h f) Q E"
proof -
  have "case r of Inl e \<Rightarrow> E w' | Inr x \<Rightarrow> Q x w'" if P: "P w" and run: "tryIO m h f w = (r, w')" for w r w'
  proof -
    obtain r1 w1 where m: "m w = (r1, w1)" by (cases "m w")
    show ?thesis
    proof (cases r1)
      case (Inl e)
      with m run have "h e w1 = (r, w')" by simp
      moreover from assms(1) P m Inl have "D w1" by (blast dest: ensures_raises)
      ultimately show ?thesis using assms(2) unfolding ensures_def by blast
    next
      case (Inr x)
      with m run have "f x w1 = (r, w')" by simp
      moreover from assms(1) P m Inr have "R x w1" by (blast dest: ensures_returns)
      ultimately show ?thesis using assms(3) unfolding ensures_def by blast
    qed
  qed
  then show ?thesis unfolding ensures_def by blast
qed

lemma ensures_return: "(\<And>w. P w \<Longrightarrow> Q x w) \<Longrightarrow> ensures P (returnIO x) Q E"
  by (simp add: ensures_def)

lemma ensures_raise: "(\<And>w. P w \<Longrightarrow> E w) \<Longrightarrow> ensures P (raiseIO e) Q E"
  by (simp add: ensures_def)

lemma ensures_lift:
  "(\<And>w x. P w \<Longrightarrow> r = Inr x \<Longrightarrow> Q x w) \<Longrightarrow> (\<And>w. P w \<Longrightarrow> E w) \<Longrightarrow> ensures P (liftIO r) Q E"
  by (auto simp: ensures_def split: sum.split)

lemma ensures_check:
  "(\<And>w. P w \<Longrightarrow> \<not> b \<Longrightarrow> Q () w) \<Longrightarrow> (\<And>w. P w \<Longrightarrow> E w) \<Longrightarrow> ensures P (checkIO b e) Q E"
  by (auto simp: ensures_def checkIO_def split: if_splits)

lemma ensures_if:
  "(b \<Longrightarrow> ensures P m Q E) \<Longrightarrow> (\<not> b \<Longrightarrow> ensures P n Q E) \<Longrightarrow> ensures P (if b then m else n) Q E"
  by simp

lemma ensures_weaken:
  "ensures P m Q E \<Longrightarrow> (\<And>w. P' w \<Longrightarrow> P w) \<Longrightarrow> (\<And>x w. Q x w \<Longrightarrow> Q' x w) \<Longrightarrow> (\<And>w. E w \<Longrightarrow> E' w)
    \<Longrightarrow> ensures P' m Q' E'"
  unfolding ensures_def by (fastforce split: sum.splits)

lemma ensures_pure:
  "(b \<Longrightarrow> ensures P m Q E) \<Longrightarrow> ensures (\<lambda>w. b \<and> P w) m Q E"
  unfolding ensures_def by blast

lemma ensures_bind_lift:
  assumes "\<And>x. r = Inr x \<Longrightarrow> ensures P (f x) Q E" "\<And>w. P w \<Longrightarrow> E w"
  shows "ensures P (bindIO (liftIO r) f) Q E"
  using assms by (cases r) (auto simp: ensures_def bindIO_def)

lemma ensures_bind_check:
  assumes "\<not> b \<Longrightarrow> ensures P (f ()) Q E" "\<And>w. P w \<Longrightarrow> E w"
  shows "ensures P (bindIO (checkIO b e) f) Q E"
  using assms by (cases b) (auto simp: ensures_def bindIO_def checkIO_def)

section \<open>Histories\<close>

text \<open>
  A port that notes its calls: the world carries a list of events, to which a call that
  returns adds. A computation is quiet when it leaves the history, however it ends.
\<close>

definition with_history :: "('w, 'a) io \<Rightarrow> ('a \<Rightarrow> 'ev list) \<Rightarrow> ('w \<times> 'ev list, 'a) io" where
  "with_history m note s =
     (case m (fst s) of
        (Inl e, w) \<Rightarrow> (Inl e, (w, snd s))
      | (Inr x, w) \<Rightarrow> (Inr x, (w, snd s @ note x)))"

definition quiet :: "('w \<times> 'ev list, 'a) io \<Rightarrow> bool" where
  "quiet m \<longleftrightarrow> (\<forall>s r s'. m s = (r, s') \<longrightarrow> snd s' = snd s)"

named_theorems quiet_intros \<open>computations that leave the history\<close>

lemma quietD: "quiet m \<Longrightarrow> m s = (r, s') \<Longrightarrow> snd s' = snd s"
  unfolding quiet_def by blast

lemma quiet_bind [quiet_intros]: "quiet m \<Longrightarrow> (\<And>x. quiet (f x)) \<Longrightarrow> quiet (bindIO m f)"
  unfolding quiet_def bindIO_def by (auto split: prod.splits sum.splits) metis+

lemma quiet_basic [quiet_intros]:
  "quiet (returnIO x)" "quiet (raiseIO e)" "quiet (liftIO r)" "quiet (checkIO b e)"
  by (auto simp: quiet_def returnIO_def raiseIO_def liftIO_def checkIO_def split: if_splits)

lemma quiet_if [quiet_intros]: "quiet m \<Longrightarrow> quiet n \<Longrightarrow> quiet (if b then m else n)"
  by simp

lemma quiet_history [quiet_intros]: "quiet (with_history m (\<lambda>_. []))"
  by (auto simp: quiet_def with_history_def split: prod.splits sum.splits)

lemma ensures_quiet:
  assumes "quiet m" "\<And>w. P w \<Longrightarrow> \<phi> (snd w)" "\<And>w. \<phi> (snd w) \<Longrightarrow> E w" "\<And>x w. \<phi> (snd w) \<Longrightarrow> Q x w"
  shows "ensures P m Q E"
  using assms unfolding ensures_def quiet_def by (fastforce split: sum.split)

section \<open>Stores\<close>

text \<open>
  What a store holds follows from the history: \<open>after\<close> folds the events into it. A computation
  follows a store when the store it leaves is the one its own new events give.
\<close>

definition follows ::
  "('ev list \<Rightarrow> 'v \<Rightarrow> 'v) \<Rightarrow> ('w \<Rightarrow> 'v) \<Rightarrow> ('w \<times> 'ev list, 'a) io \<Rightarrow> bool" where
  "follows after view m \<longleftrightarrow>
     (\<forall>s r s'. m s = (r, s') \<longrightarrow>
        (\<exists>new. snd s' = snd s @ new \<and> view (fst s') = after new (view (fst s))))"

locale event_store =
  fixes after :: "'ev list \<Rightarrow> 'v \<Rightarrow> 'v"
  assumes after_nil [simp]: "after [] v = v"
    and after_append: "after (a @ b) v = after b (after a v)"
begin

lemma follows_sequence:
  assumes "follows after view m" "m s = (r, s1)"
    and "\<exists>later. snd s' = snd s1 @ later \<and> view (fst s') = after later (view (fst s1))"
  shows "\<exists>new. snd s' = snd s @ new \<and> view (fst s') = after new (view (fst s))"
proof -
  from assms(1,2) obtain new where "snd s1 = snd s @ new" "view (fst s1) = after new (view (fst s))"
    unfolding follows_def by blast
  moreover from assms(3) obtain later where
    "snd s' = snd s1 @ later" "view (fst s') = after later (view (fst s1))" by blast
  ultimately show ?thesis by (intro exI [of _ "new @ later"]) (simp add: after_append)
qed

lemma follows_bind:
  assumes "follows after view m" "\<And>x. follows after view (f x)"
  shows "follows after view (bindIO m f)"
  unfolding follows_def
proof (intro allI impI)
  fix s r s' assume run: "bindIO m f s = (r, s')"
  obtain r1 s1 where m1: "m s = (r1, s1)" by (cases "m s")
  show "\<exists>new. snd s' = snd s @ new \<and> view (fst s') = after new (view (fst s))"
  proof (rule follows_sequence [OF assms(1) m1], cases r1)
    case (Inl e)
    with run m1 show "\<exists>later. snd s' = snd s1 @ later \<and> view (fst s') = after later (view (fst s1))"
      by (intro exI [of _ "[]"]) simp
  next
    case (Inr x)
    with run m1 assms(2) show "\<exists>later. snd s' = snd s1 @ later \<and> view (fst s') = after later (view (fst s1))"
      unfolding follows_def by simp
  qed
qed

lemma follows_try:
  assumes "follows after view m" "\<And>e. follows after view (h e)" "\<And>x. follows after view (f x)"
  shows "follows after view (tryIO m h f)"
  unfolding follows_def
proof (intro allI impI)
  fix s r s' assume run: "tryIO m h f s = (r, s')"
  obtain r1 s1 where m1: "m s = (r1, s1)" by (cases "m s")
  show "\<exists>new. snd s' = snd s @ new \<and> view (fst s') = after new (view (fst s))"
    by (rule follows_sequence [OF assms(1) m1], cases r1)
      (insert run m1 assms(2,3), simp_all add: follows_def)
qed

lemma follows_quiet:
  assumes "\<And>s r s'. m s = (r, s') \<Longrightarrow> view s' = view s"
  shows "follows after view (with_history m (\<lambda>_. []))"
  unfolding follows_def with_history_def
  by (auto split: prod.splits sum.splits dest: assms intro: exI [of _ "[]"])

lemma follows_basic:
  "follows after view (returnIO x)" "follows after view (raiseIO e)" "follows after view (liftIO r)"
  "follows after view (checkIO b e)"
  by (auto simp: follows_def returnIO_def raiseIO_def liftIO_def checkIO_def split: if_splits)

lemma follows_if: "follows after view m \<Longrightarrow> follows after view n \<Longrightarrow> follows after view (if b then m else n)"
  by simp

end

end
