(* ===== verification/FoldTrace.thy ===== *)
theory FoldTrace
  imports FoldRun Effects
begin

text \<open>
  What \<open>run_once\<close> does to the outside. \<open>traced\<close> adds a history to the world of a loop: the
  submissions that returned a receipt and the cursor states that were stored, in order. The
  loop's code is unchanged, so a statement on the history is a statement on its calls.
\<close>

section \<open>The traced loop\<close>

datatype fold_event = Submitted fold_command fold_receipt | Stored nat fold_cursor

definition traced :: "('w, 'f, 'e) fold_loop \<Rightarrow> ('w \<times> fold_event list, 'f, 'e) fold_loop" where
  "traced L =
     \<lparr>lp_env = lp_env L, lp_config = lp_config L, lp_adapter = lp_adapter L,
      lp_load = (\<lambda>c. with_history (lp_load L c) (\<lambda>_. [])),
      lp_commit = (\<lambda>n s. with_history (lp_commit L n s) (\<lambda>_. [Stored n s])),
      lp_read = (\<lambda>q. with_history (lp_read L q) (\<lambda>_. [])),
      lp_submit = (\<lambda>c t. with_history (lp_submit L c t) (\<lambda>r. [Submitted c r])),
      lp_iso_datetime = lp_iso_datetime L, lp_iso_date = lp_iso_date L\<rparr>"

lemma traced_fields [simp]:
  "lp_env (traced L) = lp_env L" "lp_config (traced L) = lp_config L"
  "lp_adapter (traced L) = lp_adapter L"
  "lp_iso_datetime (traced L) = lp_iso_datetime L" "lp_iso_date (traced L) = lp_iso_date L"
  by (simp_all add: traced_def)

lemma quiet_ports [quiet_intros]: "quiet (lp_read (traced L) q)" "quiet (lp_load (traced L) c)"
  by (auto simp: quiet_def traced_def with_history_def split: prod.splits sum.splits)

lemma quiet_read_exact [quiet_intros]: "quiet (read_exact (traced L) a b)"
  unfolding read_exact_def durable_read_from_def by (intro quiet_intros)

lemma quiet_finalize_turn [quiet_intros]: "quiet (finalize_turn (traced L) a f t r x acc)"
  unfolding finalize_turn_def Let_def
  by (intro quiet_intros) (auto split: option.splits intro!: quiet_intros)

lemma quiet_fold_records [quiet_intros]: "quiet (fold_records (traced L) a f t i rs acc)"
proof (induction rs arbitrary: i acc)
  case (Cons r rs)
  show ?case
    by (auto simp: Let_def split: sum.splits py_error.splits option.splits prod.splits
        intro!: quiet_intros Cons.IH)
qed (simp add: quiet_intros)

lemma quiet_assemble_records [quiet_intros]: "quiet (assemble_records (traced L) ad read f t rs s)"
  unfolding assemble_records_def Let_def by (auto split: option.splits intro!: quiet_intros)

lemma quiet_apply_fallback [quiet_intros]: "quiet (apply_fallback (traced L) rs acc)"
  unfolding apply_fallback_def Let_def by (auto split: option.splits prod.splits intro!: quiet_intros)

lemma traced_submit:
  "lp_submit (traced L) c t s = (Inr r, s') \<Longrightarrow> snd s' = snd s @ [Submitted c r]"
  by (auto simp: traced_def with_history_def split: prod.splits sum.splits)

lemma traced_commit:
  "lp_commit (traced L) n c s = (Inr u, s') \<Longrightarrow> snd s' = snd s @ [Stored n c]"
  by (auto simp: traced_def with_history_def split: prod.splits sum.splits)

section \<open>The invariant of the record loop\<close>

definition acc_covers :: "'e fold_env \<Rightarrow> fold_cursor \<Rightarrow> fold_acc \<Rightarrow> bool" where
  "acc_covers E s acc \<longleftrightarrow>
     chain fo_byte_start fo_byte_end_exclusive (cs_acknowledged_offset s) (ac_outcomes acc)
       (ac_start_offset acc)
     \<and> chain fo_start_record_index fo_end_record_index (cs_acknowledged_record_index s)
         (ac_outcomes acc) (ac_start_record acc)
     \<and> list_all (outcome_ok E) (ac_outcomes acc)"

definition acc_position :: "framed_record list \<Rightarrow> nat \<Rightarrow> fold_acc \<Rightarrow> bool" where
  "acc_position records i acc \<longleftrightarrow>
     ac_fallback acc = None \<and> \<not> ac_limit_reached acc \<and> ac_consumed acc = i \<and> ac_pending_start acc \<le> i
     \<and> (if ac_outcomes acc = [] then ac_pending_start acc = 0
        else 0 < ac_pending_start acc
          \<and> ac_start_offset acc = fr_end_offset (records ! (ac_pending_start acc - 1)))"

definition acc_complete :: "framed_record list \<Rightarrow> fold_acc \<Rightarrow> bool" where
  "acc_complete records acc \<longleftrightarrow>
     (ac_limit_reached acc \<longrightarrow> ac_fallback acc = None \<and> ac_outcomes acc \<noteq> [])
     \<and> (ac_fallback acc = None \<and> \<not> ac_limit_reached acc \<longrightarrow> acc_position records (length records) acc)"

lemma finalize_turn_outcome:
  assumes "finalize_turn L a f t r x acc w = (Inr out, w')"
  shows "fo_byte_start out = ac_start_offset acc \<and> fo_byte_end_exclusive out = fr_end_offset r
    \<and> fo_start_record_index out = ac_start_record acc
    \<and> fo_end_record_index out = fr_record_index r + 1 \<and> outcome_ok (lp_env L) out"
  using assms unfolding finalize_turn_def Let_def
  by (auto elim!: bindIO_returns dest!: policy_outcome_shape exact_outcome_shape split: option.splits)

lemma fold_records_step:
  assumes "fold_records L a f t i (r # rs) acc w = (Inr acc', w')"
  obtains
    (limit) "length (ac_outcomes acc) = TRANSCRIPT_FOLD_MAX_OUTCOMES"
      "acc' = acc\<lparr>ac_pending_start := i, ac_limit_reached := True\<rparr>"
  | (fallback) code kind where "acc' = fall_back i code kind acc"
  | (consumed) st where "length (ac_outcomes acc) \<noteq> TRANSCRIPT_FOLD_MAX_OUTCOMES"
      "fold_records L a f t (i + 1) rs (acc\<lparr>ac_assembly_state := st, ac_consumed := i + 1\<rparr>) w = (Inr acc', w')"
  | (finalized) st x out w1 where "length (ac_outcomes acc) \<noteq> TRANSCRIPT_FOLD_MAX_OUTCOMES"
      "finalize_turn L a f t r x (acc\<lparr>ac_assembly_state := st, ac_consumed := i + 1\<rparr>) w = (Inr out, w1)"
      "fold_records L a f t (i + 1) rs
         (acc\<lparr>ac_assembly_state := st, ac_consumed := i + 1, ac_outcomes := ac_outcomes acc @ [out],
              ac_start_offset := fr_end_offset r, ac_start_record := fr_record_index r + 1,
              ac_pending_start := i + 1\<rparr>) w1 = (Inr acc', w')"
proof -
  show thesis
  proof (cases "ad_advance a r (ac_assembly_state acc)")
    case (Inl e)
    with assms show thesis
      using limit fallback
      by (cases e) (auto simp: raiseIO_def split: if_split_asm)
  next
    case (Inr p)
    obtain st fin where p: "p = (st, fin)" by (cases p)
    show thesis
    proof (cases fin)
      case None
      with assms Inr p show thesis
        using limit fallback consumed by (auto simp: Let_def split: if_split_asm)
    next
      case (Some x)
      with assms Inr p show thesis
        using limit fallback finalized
        by (auto simp: Let_def split: if_split_asm elim!: bindIO_returns)
    qed
  qed
qed

lemma fold_records_invariant:
  assumes "fold_records L a f t i rs acc w = (Inr acc', w')"
    and "acc_covers (lp_env L) s acc" "acc_position records i acc"
    and "drop i records = rs" "i \<le> length records"
  shows "acc_covers (lp_env L) s acc' \<and> acc_complete records acc'"
  using assms
proof (induction rs arbitrary: i acc w)
  case Nil
  then show ?case by (auto simp: acc_complete_def acc_position_def)
next
  case (Cons r rs)
  have "i < length records" using Cons.prems(4) by (cases "i < length records") auto
  then have "drop i records = records ! i # drop (i + 1) records" by (simp add: Cons_nth_drop_Suc)
  with Cons.prems(4) \<open>i < length records\<close>
  have r: "records ! i = r" "drop (i + 1) records = rs" "i + 1 \<le> length records" by auto
  note inv = Cons.prems(2,3)
  from Cons.prems(1) show ?case
  proof (cases rule: fold_records_step)
    case limit
    with inv show ?thesis
      by (auto simp: acc_covers_def acc_complete_def acc_position_def TRANSCRIPT_FOLD_MAX_OUTCOMES_def)
  next
    case (fallback code kind)
    with inv show ?thesis
      by (auto simp: acc_covers_def acc_complete_def acc_position_def fall_back_def)
  next
    case (consumed st)
    show ?thesis
      using inv by (intro Cons.IH [OF consumed(2) _ _ r(2,3)])
        (auto simp: acc_covers_def acc_position_def split: if_splits)
  next
    case (finalized st x out w1)
    note out = finalize_turn_outcome [OF finalized(2)]
    show ?thesis
      using inv out finalized(1) r(1) by (intro Cons.IH [OF finalized(3) _ _ r(2,3)])
        (auto simp: acc_covers_def acc_position_def chain_snoc split: if_splits)
  qed
qed

section \<open>Effects of a computation\<close>

text \<open>\<open>emits m Q\<close>: however \<open>m\<close> ends, it only extends the history, and \<open>Q\<close> relates its result
  to the extension.\<close>

definition emits ::
  "('w \<times> fold_event list, 'a) io \<Rightarrow> ('a result \<Rightarrow> fold_event list \<Rightarrow> bool) \<Rightarrow> bool" where
  "emits m Q \<longleftrightarrow> (\<forall>s r s'. m s = (r, s') \<longrightarrow> (\<exists>new. snd s' = snd s @ new \<and> Q r new))"

lemma emits_weaken: "emits m P \<Longrightarrow> (\<And>r new. P r new \<Longrightarrow> Q r new) \<Longrightarrow> emits m Q"
  unfolding emits_def by blast

lemma emits_bind:
  assumes m: "emits m P"
    and f: "\<And>x new. P (Inr x) new \<Longrightarrow> emits (f x) (\<lambda>r later. Q r (new @ later))"
    and e: "\<And>e new. P (Inl e) new \<Longrightarrow> Q (Inl e) new"
  shows "emits (bindIO m f) Q"
  unfolding emits_def
proof (intro allI impI)
  fix s r s'
  assume run: "bindIO m f s = (r, s')"
  obtain r1 s1 where m1: "m s = (r1, s1)" by (cases "m s")
  with m obtain new where new: "snd s1 = snd s @ new" "P r1 new"
    unfolding emits_def by blast
  show "\<exists>new. snd s' = snd s @ new \<and> Q r new"
  proof (cases r1)
    case (Inl e)
    with run m1 new assms(3) show ?thesis by auto
  next
    case (Inr x)
    with run m1 have "f x s1 = (r, s')" by simp
    with f [of x new] new Inr obtain later where "snd s' = snd s1 @ later" "Q r (new @ later)"
      unfolding emits_def by blast
    with new show ?thesis by (intro exI [of _ "new @ later"]) simp
  qed
qed

lemma emits_quiet:
  assumes "quiet m" "\<And>s x s'. m s = (Inr x, s') \<Longrightarrow> V x"
  shows "emits m (\<lambda>r new. new = [] \<and> (\<forall>x. r = Inr x \<longrightarrow> V x))"
  using assms unfolding emits_def quiet_def by (metis append_Nil2)

lemma emits_pure:
  "quiet m \<Longrightarrow> (\<And>s r s'. m s = (r, s') \<Longrightarrow> Q r []) \<Longrightarrow> emits m Q"
  unfolding emits_def quiet_def by (metis append_Nil2)

lemma emits_after_quiet:
  assumes "quiet m" "\<And>s x s'. m s = (Inr x, s') \<Longrightarrow> V x"
    and "\<And>x. V x \<Longrightarrow> emits (f x) Q" and "\<And>e. Q (Inl e) []"
  shows "emits (bindIO m f) Q"
  using emits_quiet [OF assms(1,2)]
  by (rule emits_bind) (auto simp: assms(3,4))

lemma emits_lift:
  "(\<And>x. r = Inr x \<Longrightarrow> emits (f x) Q) \<Longrightarrow> (\<And>e. r = Inl e \<Longrightarrow> Q (Inl e) []) \<Longrightarrow>
   emits (bindIO (liftIO r) f) Q"
  by (cases r) (simp_all add: emits_def bindIO_def)

section \<open>The steps a run may take\<close>

definition fold_submits :: "'e fold_env \<Rightarrow> fold_cursor \<Rightarrow> fold_command \<Rightarrow> bool" where
  "fold_submits E s c \<longleftrightarrow>
     make_fold_command E c = Inr c
     \<and> cf_byte_start c = cs_acknowledged_offset s
     \<and> cf_start_record_index c = cs_acknowledged_record_index s
     \<and> fc_expected_sequence (cf_checkpoint c) = cs_checkpoint_sequence s"

definition fold_commits :: "fold_cursor \<Rightarrow> fold_command \<Rightarrow> fold_receipt \<Rightarrow> fold_cursor \<Rightarrow> bool" where
  "fold_commits s c r s' \<longleftrightarrow>
     \<not> fold_receipt_unbound c r
     \<and> cs_capability_id s' = cs_capability_id s
     \<and> cs_revision s' = cs_revision s + 1
     \<and> cs_acknowledged_offset s' = cf_byte_end_exclusive c
     \<and> cs_acknowledged_record_index s' = cf_end_record_index c
     \<and> cs_checkpoint_sequence s' = cs_checkpoint_sequence s + 1
     \<and> cs_last_acknowledgement s' = Some (fold_ack_of r)"

definition fold_waits :: "fold_cursor \<Rightarrow> fold_cursor \<Rightarrow> bool" where
  "fold_waits s s' \<longleftrightarrow>
     cs_capability_id s' = cs_capability_id s
     \<and> cs_revision s' = cs_revision s + 1
     \<and> cs_acknowledged_offset s' = cs_acknowledged_offset s
     \<and> cs_acknowledged_record_index s' = cs_acknowledged_record_index s
     \<and> cs_checkpoint_sequence s' = cs_checkpoint_sequence s"

fun fold_effect :: "'e fold_env \<Rightarrow> fold_cursor \<Rightarrow> fold_health result \<Rightarrow> fold_event list \<Rightarrow> bool" where
  "fold_effect E s r [] \<longleftrightarrow> (case r of Inl e \<Rightarrow> True | Inr h \<Rightarrow> he_receipt h = None)"
| "fold_effect E s r [Stored n s'] \<longleftrightarrow>
     n = cs_revision s \<and> fold_waits s s' \<and> make_fold_cursor (ev_hash E) s' = Inr s'
     \<and> (case r of Inl e \<Rightarrow> True | Inr h \<Rightarrow> he_receipt h = None)"
| "fold_effect E s r [Submitted c rcpt] \<longleftrightarrow> fold_submits E s c \<and> \<not> is_ok r"
| "fold_effect E s r [Submitted c rcpt, Stored n s'] \<longleftrightarrow>
     n = cs_revision s \<and> fold_submits E s c \<and> fold_commits s c rcpt s'
     \<and> make_fold_cursor (ev_hash E) s' = Inr s'
     \<and> (case r of Inl e \<Rightarrow> True | Inr h \<Rightarrow> he_receipt h = Some rcpt \<and> he_status h = FOLDED)"
| "fold_effect E s r _ \<longleftrightarrow> False"

lemma make_fold_cursor_id: "make_fold_cursor H s = Inr s' \<Longrightarrow> s' = s"
  by (rule fold_cursor_binds(1))

lemma updated_state_Inr:
  assumes "updated_state H s f p x t st d g k = Inr s'"
  shows "make_fold_cursor H s' = Inr s' \<and> fold_waits s s' \<and> cs_pending_ranges s' = p
    \<and> cs_file_identity s' = f \<and> cs_durable_end_offset s' = d \<and> cs_diagnostic_code s' = g
    \<and> cs_last_acknowledgement s' = (if k then cs_last_acknowledgement s else None)
    \<and> cs_extractor_state s' = x \<and> cs_pending_tail_byte_count s' = length t"
  using assms make_fold_cursor_id [OF assms [unfolded updated_state_def]]
  by (auto simp: updated_state_def fold_waits_def cs_extractor_state_def)

lemma acknowledged_state_Inr:
  assumes "acknowledged_state H s f d r = Inr s'"
  shows "cs_capability_id s' = cs_capability_id s \<and> cs_revision s' = cs_revision s
    \<and> cs_acknowledged_offset s' = ft_byte_end_exclusive r
    \<and> cs_acknowledged_record_index s' = ft_end_record_index r
    \<and> cs_checkpoint_sequence s' = ft_checkpoint_sequence r
    \<and> cs_last_acknowledgement s' = Some (fold_ack_of r)"
proof -
  from assms obtain a where a: "make_fold_ack (fold_ack_of r) = Inr a"
    and m: "make_fold_cursor H
       ((default_fold_cursor H (cs_capability_id s))
          \<lparr>cs_revision := cs_revision s, cs_file_identity := Some f,
           cs_acknowledged_offset := ft_byte_end_exclusive r,
           cs_acknowledged_record_index := ft_end_record_index r,
           cs_checkpoint_sequence := ft_checkpoint_sequence r,
           cs_durable_end_offset := d, cs_last_acknowledgement := Some a\<rparr>) = Inr s'"
    by (auto simp: acknowledged_state_def bindE_Inr_iff)
  from a have "a = fold_ack_of r" by (simp add: make_fold_ack_def)
  with make_fold_cursor_id [OF m] show ?thesis by (simp add: default_fold_cursor_def)
qed

lemma fold_health_Inr: "fold_health s st r = Inr h \<Longrightarrow> he_receipt h = r \<and> he_status h = st"
  by (simp add: fold_health_def make_fold_health_def)

lemma emits_submit:
  assumes "fold_submits E s c"
    and "\<And>r. \<not> fold_receipt_unbound c r \<Longrightarrow> emits (f r) (\<lambda>res later. fold_effect E s res (Submitted c r # later))"
  shows "emits (bindIO (submit_command (traced L) c t) f) (fold_effect E s)"
proof (rule emits_bind)
  show "emits (submit_command (traced L) c t)
      (\<lambda>res new. case res of
         Inl e \<Rightarrow> new = [] \<or> (\<exists>r. new = [Submitted c r])
       | Inr r \<Rightarrow> new = [Submitted c r] \<and> \<not> fold_receipt_unbound c r)"
    unfolding emits_def submit_command_def
    by (auto simp: bindIO_def traced_def with_history_def validate_receipt_def validated_def
        split: prod.splits sum.splits option.splits if_splits)
  show "emits (f r) (\<lambda>res later. fold_effect E s res (new @ later))"
    if "case Inr r of Inl e \<Rightarrow> new = [] \<or> (\<exists>r. new = [Submitted c r])
        | Inr r \<Rightarrow> new = [Submitted c r] \<and> \<not> fold_receipt_unbound c r" for r new
    using that assms(2) by auto
  show "fold_effect E s (Inl e) new"
    if "case Inl e of Inl e \<Rightarrow> new = [] \<or> (\<exists>r. new = [Submitted c r])
        | Inr r \<Rightarrow> new = [Submitted c r] \<and> \<not> fold_receipt_unbound c r" for e :: py_error and new
    using that assms(1) by auto
qed

lemma emits_commit:
  assumes "\<And>e. Q (Inl e) []" and "Q h [Stored n s']"
  shows "emits (bindIO (lp_commit (traced L) n s') (\<lambda>_. liftIO h)) Q"
  unfolding emits_def using assms
  by (auto simp: bindIO_def traced_def with_history_def split: prod.splits sum.splits)

lemma fold_commitsI:
  assumes "fold_submits E s c" "\<not> fold_receipt_unbound c r"
    and "acknowledged_state H s f d r = Inr a" "fold_waits a s'" "cs_last_acknowledgement s' = cs_last_acknowledgement a"
  shows "fold_commits s c r s'"
  using assms(1,2,4,5) acknowledged_state_Inr [OF assms(3)] fold_command_binds(8) [of E c c]
  by (simp add: fold_submits_def fold_commits_def fold_waits_def fold_receipt_unbound_def)

lemma single_outcome_submits:
  assumes "build_transcript_fold_command E cfg p f i [x] b q None = Inr c"
    and "fo_byte_start x = cs_acknowledged_offset s" "fo_start_record_index x = cs_acknowledged_record_index s"
    and "q = cs_checkpoint_sequence s"
  shows "fold_submits E s c"
  using built_fold_command(1,2) [OF assms(1)] assms(2-) by (simp add: fold_submits_def)

lemma emits_sealed_span:
  "emits (commit_sealed_pending_span (traced L) s f tail d fmt p t) (fold_effect (lp_env L) s)"
proof (cases "f = None \<or> cs_pending_ranges s = []")
  case True
  then show ?thesis
    by (auto simp: commit_sealed_pending_span_def emits_def split: option.splits)
next
  case False
  then obtain i where i: "f = Some i" "cs_pending_ranges s \<noteq> []" by auto
  show ?thesis
    unfolding commit_sealed_pending_span_def i(1) option.case if_not_P [OF i(2)]
  proof (rule emits_after_quiet [OF quiet_read_exact TrueI], intro emits_lift)
    fix read x c
    assume x: "span_outcome (lp_env (traced L)) (lp_config (traced L)) (cs_acknowledged_offset s)
        (cs_pending_end_offset s) (cs_acknowledged_record_index s) (cs_pending_end_record_index s) read = Inr x"
      and c: "build_transcript_fold_command (lp_env (traced L)) (lp_config (traced L)) p fmt i [x]
        (dr_payload read) (cs_checkpoint_sequence s) None = Inr c"
    have sub: "fold_submits (lp_env L) s c"
      using single_outcome_submits [OF c] span_outcome_shape [OF x] by simp
    show "emits (bindIO (submit_command (traced L) c t) (\<lambda>receipt.
        bindIO (liftIO (acknowledged_state (lp_hash (traced L)) s i d receipt)) (\<lambda>acknowledged.
        bindIO (liftIO (updated_state (lp_hash (traced L)) acknowledged (Some i) [] [] tail
          (if tail \<noteq> [] then HC_WAITING_FOR_COMPLETE_RECORD else HC_HEALTHY) d
          (Some ''fold.sealed-evidence-boundary'') True)) (\<lambda>updated.
        bindIO (lp_commit (traced L) (cs_revision s) updated) (\<lambda>_.
        liftIO (fold_health updated FOLDED (Some receipt))))))) (fold_effect (lp_env L) s)"
    proof (rule emits_submit [OF sub], intro emits_lift)
      fix r a u
      assume r: "\<not> fold_receipt_unbound c r"
        and a: "acknowledged_state (lp_hash (traced L)) s i d r = Inr a"
        and u: "updated_state (lp_hash (traced L)) a (Some i) [] [] tail
          (if tail \<noteq> [] then HC_WAITING_FOR_COMPLETE_RECORD else HC_HEALTHY) d
          (Some ''fold.sealed-evidence-boundary'') True = Inr u"
      have "fold_commits s c r u"
        using updated_state_Inr [OF u] by (intro fold_commitsI [OF sub r a]) auto
      then show "emits (bindIO (lp_commit (traced L) (cs_revision s) u)
          (\<lambda>_. liftIO (fold_health u FOLDED (Some r))))
          (\<lambda>res later. fold_effect (lp_env L) s res (Submitted c r # later))"
        using sub updated_state_Inr [OF u] fold_health_Inr [of u FOLDED "Some r"]
        by (intro emits_commit) (auto split: sum.splits)
    qed (use sub in auto)
  qed auto
qed

section \<open>The record path of a run\<close>

definition acc_final :: "framed_record list \<Rightarrow> bool \<Rightarrow> fold_acc \<Rightarrow> bool" where
  "acc_final records qualified acc \<longleftrightarrow>
     (if ac_limit_reached acc then ac_outcomes acc \<noteq> []
      else if ac_outcomes acc = [] then qualified \<and> ac_consumed acc = length records
      else ac_pending_start acc < length records
           \<or> ac_start_offset acc = fr_end_offset (last records))"

lemma assemble_records_facts:
  assumes "assemble_records L ad read f t records s w = (Inr acc, w')" "records \<noteq> []"
  shows "acc_covers (lp_env L) s acc \<and> acc_complete records acc
    \<and> (ad = None \<longrightarrow> ac_fallback acc \<noteq> None \<and> ac_outcomes acc = [] \<and> \<not> ac_limit_reached acc)"
proof (cases ad)
  case None
  with assms show ?thesis
    by (auto simp: assemble_records_def Let_def acc_covers_def acc_complete_def)
next
  case (Some a)
  let ?start = "\<lparr>ac_outcomes = [], ac_assembly_state = cs_extractor_state s,
         ac_start_offset = cs_acknowledged_offset s,
         ac_start_record = cs_acknowledged_record_index s, ac_pending_start = 0,
         ac_consumed = 0, ac_fallback = None, ac_limit_reached = False\<rparr>"
  from assms Some obtain acc1 where
    r: "fold_records L a f t 0 records ?start w = (Inr acc1, w')"
    and acc: "acc = acc1 \<or> acc = acc1\<lparr>ac_fallback := Some (''fold.sealed-evidence-boundary'', TRANSCRIPT_SPAN)\<rparr>
        \<and> \<not> ac_limit_reached acc1"
    by (auto simp: assemble_records_def Let_def elim!: bind_returnE split: if_split_asm)
  have "acc_covers (lp_env L) s acc1 \<and> acc_complete records acc1"
    by (rule fold_records_invariant [OF r]) (simp_all add: acc_covers_def acc_position_def)
  with acc Some show ?thesis by (auto simp: acc_covers_def acc_complete_def)
qed

lemma apply_fallback_facts:
  assumes "apply_fallback L records acc w = (Inr acc', w')" "records \<noteq> []"
    and "acc_covers (lp_env L) s acc" "acc_complete records acc"
    and "ad = None \<longrightarrow> ac_fallback acc \<noteq> None"
  shows "acc_covers (lp_env L) s acc' \<and> acc_final records (ad \<noteq> None) acc'
    \<and> ac_fallback acc' = ac_fallback acc \<and> ac_limit_reached acc' = ac_limit_reached acc"
proof (cases "ac_fallback acc")
  case None
  with assms have "acc' = acc" by (simp add: apply_fallback_def)
  moreover have "ac_start_offset acc = fr_end_offset (last records)"
    if "acc_position records (length records) acc" "ac_outcomes acc \<noteq> []"
      "\<not> ac_pending_start acc < length records"
    using that assms(2) by (auto simp: acc_position_def last_conv_nth)
  ultimately show ?thesis
    using assms None
    by (cases "ac_pending_start acc = length records")
       (auto simp: acc_complete_def acc_final_def acc_position_def)
next
  case (Some p)
  then obtain code kind where p: "ac_fallback acc = Some (code, kind)" by (cases p) auto
  from assms(1) obtain read out where
    "(if kind = TRANSCRIPT_SPAN
      then span_outcome (lp_env L) (lp_config L) (ac_start_offset acc) (fr_end_offset (last records))
             (ac_start_record acc) (fr_record_index (last records) + 1) read
      else policy_outcome (lp_env L) (ac_start_offset acc) (fr_end_offset (last records))
             (ac_start_record acc) (fr_record_index (last records) + 1) read
             (if code = '''' then ''fold.unsupported-record'' else code) None) = Inr out"
    and acc': "acc' = acc\<lparr>ac_outcomes := ac_outcomes acc @ [out],
        ac_start_offset := fr_end_offset (last records),
        ac_start_record := fr_record_index (last records) + 1, ac_consumed := length records,
        ac_pending_start := length records, ac_assembly_state := []\<rparr>"
    unfolding apply_fallback_def Let_def p option.case prod.case
    by (elim bindIO_returns bind_liftE) simp
  then have "fo_byte_start out = ac_start_offset acc \<and> fo_byte_end_exclusive out = fr_end_offset (last records)
      \<and> fo_start_record_index out = ac_start_record acc
      \<and> fo_end_record_index out = fr_record_index (last records) + 1 \<and> outcome_ok (lp_env L) out"
    by (auto dest: span_outcome_shape policy_outcome_shape split: if_split_asm)
  with assms(3,4) acc' p show ?thesis
    by (auto simp: acc_covers_def acc_final_def acc_complete_def chain_snoc)
qed

lemma bindIO_assoc: "bindIO (bindIO m g) h = bindIO m (\<lambda>x. bindIO (g x) h)"
  by (auto simp: bindIO_def fun_eq_iff split: prod.splits sum.splits)

lemma bindIO_return: "bindIO (returnIO x) h = h x"
  by (simp add: bindIO_def fun_eq_iff)

lemma emits_commit_fold:
  assumes P: "\<And>s'. fold_waits n s' \<Longrightarrow> make_fold_cursor (lp_hash L) s' = Inr s' \<Longrightarrow>
      cs_last_acknowledgement s' = (if rc \<noteq> None then cs_last_acknowledgement n else None) \<Longrightarrow>
      Q' s'"
    and Q: "\<And>s' r. Q' s' \<Longrightarrow> (case r of Inl e \<Rightarrow> True
        | Inr h \<Rightarrow> he_receipt h = rc \<and> (rc \<noteq> None \<longrightarrow> he_status h = FOLDED)) \<Longrightarrow>
      Q r [Stored (cs_revision s) s']"
    and E: "\<And>e. Q (Inl e) []"
  shows "emits (commit_fold (traced L) ad read f records tail s acc rc n) Q"
  unfolding commit_fold_def Let_def
proof (intro emits_lift)
  fix pending final
  assume u: "updated_state (lp_hash (traced L)) n (Some f) pending
       (if ad = None then [] else ac_assembly_state acc) (if ac_limit_reached acc then [] else tail)
       (if pending \<noteq> [] \<or> (if ac_limit_reached acc then [] else tail) \<noteq> []
        then HC_WAITING_FOR_COMPLETE_RECORD else HC_HEALTHY)
       (dr_durable_end_offset read) (map_option fst (ac_fallback acc)) (rc \<noteq> None) = Inr final"
  have "Q' final" using updated_state_Inr [OF u] by (intro P) auto
  then show "emits (bindIO (lp_commit (traced L) (cs_revision s) final) (\<lambda>_.
      liftIO (fold_health final (if rc \<noteq> None then FOLDED
        else if pending \<noteq> [] then WAITING_FOR_EXACT_TURN else FR_WAITING_FOR_COMPLETE_RECORD) rc))) Q"
    by (intro emits_commit Q E) (auto split: sum.splits dest!: fold_health_Inr)
qed (rule E)+

lemma emits_fold_outcomes:
  assumes "acc_covers (lp_env L) s acc"
  shows "emits (bindIO (submit_outcomes (traced L) ad read f t s acc)
      (\<lambda>(receipt, next_state). commit_fold (traced L) ad read f records tail s acc receipt next_state))
    (fold_effect (lp_env L) s)"
proof (cases "ac_outcomes acc = []")
  case True
  have "emits (commit_fold (traced L) ad read f records tail s acc None s) (fold_effect (lp_env L) s)"
    by (rule emits_commit_fold [where Q' = "\<lambda>s'. fold_waits s s' \<and> make_fold_cursor (lp_hash L) s' = Inr s'"])
       (auto split: sum.splits)
  with True show ?thesis by (simp add: submit_outcomes_def bindIO_def emits_def)
next
  case False
  show ?thesis
    unfolding submit_outcomes_def if_not_P [OF False] bindIO_assoc bindIO_return prod.case
  proof (rule emits_after_quiet [OF quiet_read_exact TrueI], intro emits_lift)
    fix cr c
    assume c: "build_transcript_fold_command (lp_env (traced L)) (lp_config (traced L))
        (map_option ad_profile_version ad) (dr_observed_source_format_version read) f (ac_outcomes acc)
        (dr_payload cr) (cs_checkpoint_sequence s) None = Inr c"
    from assms False have hd: "fo_byte_start (hd (ac_outcomes acc)) = cs_acknowledged_offset s"
      "fo_start_record_index (hd (ac_outcomes acc)) = cs_acknowledged_record_index s"
      by (auto simp: acc_covers_def dest: chain_hd)
    have sub: "fold_submits (lp_env L) s c"
      using built_fold_command(1,2) [OF c] hd by (simp add: fold_submits_def)
    show "emits (bindIO (submit_command (traced L) c t) (\<lambda>receipt.
        bindIO (liftIO (acknowledged_state (lp_hash (traced L)) s f (dr_durable_end_offset read) receipt))
          (\<lambda>next_state. commit_fold (traced L) ad read f records tail s acc (Some receipt) next_state)))
        (fold_effect (lp_env L) s)"
    proof (rule emits_submit [OF sub], intro emits_lift)
      fix r n
      assume r: "\<not> fold_receipt_unbound c r"
        and n: "acknowledged_state (lp_hash (traced L)) s f (dr_durable_end_offset read) r = Inr n"
      show "emits (commit_fold (traced L) ad read f records tail s acc (Some r) n)
          (\<lambda>res later. fold_effect (lp_env L) s res (Submitted c r # later))"
        using acknowledged_state_Inr [OF n] sub
        by (intro emits_commit_fold [where Q' = "\<lambda>s'. fold_commits s c r s' \<and> make_fold_cursor (lp_hash L) s' = Inr s'"])
           (auto intro!: fold_commitsI [OF sub r n] split: sum.splits)
    qed (use sub in auto)
  qed auto
qed

lemma emits_fold_data:
  "emits (fold_data (traced L) t s read f) (fold_effect (lp_env L) s)"
proof -
  let ?ad = "qualified_adapter (traced L) read"
  obtain records tail where fr: "frame_complete_records
      (case ?ad of None \<Rightarrow> 262144 | Some a \<Rightarrow> ad_max_record_bytes a) (dr_byte_start read)
      (cs_pending_end_record_index s) (dr_payload read) = (records, tail)"
    by (cases "frame_complete_records
      (case ?ad of None \<Rightarrow> 262144 | Some a \<Rightarrow> ad_max_record_bytes a) (dr_byte_start read)
      (cs_pending_end_record_index s) (dr_payload read)")
  show ?thesis
  proof (cases "records = []")
    case True
    have "emits (fold_without_records (traced L) ?ad read f t tail s) (fold_effect (lp_env L) s)"
    proof (cases "cs_pending_ranges s \<noteq> [] \<and> is_sealed_read (lp_config L) read")
      case True
      then show ?thesis by (simp add: fold_without_records_def emits_sealed_span)
    next
      case False
      then show ?thesis
        unfolding fold_without_records_def traced_fields if_not_P [OF False]
        by (auto intro!: emits_lift emits_commit split: sum.splits
            dest!: fold_health_Inr dest: updated_state_Inr)
    qed
    with fr True show ?thesis by (simp add: fold_data_def Let_def)
  next
    case False
    show ?thesis
      unfolding fold_data_def Let_def fr prod.case if_not_P [OF False]
    proof (rule emits_after_quiet [OF quiet_assemble_records])
      show "acc_covers (lp_env L) s acc \<and> acc_complete records acc \<and>
          (?ad = None \<longrightarrow> ac_fallback acc \<noteq> None \<and> ac_outcomes acc = [] \<and> \<not> ac_limit_reached acc)"
        if "assemble_records (traced L) ?ad read f t records s w = (Inr acc, w')" for acc w w'
        using assemble_records_facts [OF that False] by simp
      fix acc
      assume acc: "acc_covers (lp_env L) s acc \<and> acc_complete records acc \<and>
          (?ad = None \<longrightarrow> ac_fallback acc \<noteq> None \<and> ac_outcomes acc = [] \<and> \<not> ac_limit_reached acc)"
      show "emits (bindIO (apply_fallback (traced L) records acc) (\<lambda>acc.
          bindIO (submit_outcomes (traced L) ?ad read f t s acc) (\<lambda>(receipt, next_state).
          commit_fold (traced L) ?ad read f records tail s acc receipt next_state)))
          (fold_effect (lp_env L) s)"
      proof (rule emits_after_quiet [OF quiet_apply_fallback])
        show "acc_covers (lp_env L) s acc'"
          if "apply_fallback (traced L) records acc w = (Inr acc', w')" for acc' w w'
          using apply_fallback_facts [OF that False, of s ?ad] acc by simp
      qed (auto intro: emits_fold_outcomes)
    qed simp
  qed
qed

lemma quiet_durable_read_from [quiet_intros]: "quiet (durable_read_from (traced L) a b)"
  unfolding durable_read_from_def by (intro quiet_intros)

lemma emits_fold_from_state:
  "emits (fold_from_state (traced L) t s) (fold_effect (lp_env L) s)"
  unfolding fold_from_state_def
proof (rule emits_after_quiet [OF quiet_durable_read_from TrueI], intro emits_lift)
  fix read
  have health: "emits (liftIO (fold_health s st None)) (fold_effect (lp_env L) s)" for st
    by (cases "fold_health s st None") (auto simp: emits_def dest: fold_health_Inr)
  have "emits (fold_end_of_ranges (traced L) t s read) (fold_effect (lp_env L) s)"
    unfolding fold_end_of_ranges_def by (auto intro: health emits_sealed_span)
  moreover have "emits (raiseIO e) (fold_effect (lp_env L) s)" for e
    by (simp add: emits_def)
  ultimately show "emits (if dr_status read = END_OF_DURABLE_RANGES then fold_end_of_ranges (traced L) t s read
      else case dr_file_identity read of
             None \<Rightarrow> raiseIO (AssertionError ''file_identity'')
           | Some identity \<Rightarrow> fold_data (traced L) t s read identity) (fold_effect (lp_env L) s)"
    by (auto simp: emits_fold_data split: option.splits)
qed auto

end
