(* ===== verification/FoldRuns.thy ===== *)
theory FoldRuns
  imports FoldTrace
begin

text \<open>
  Sequences of runs of the fold loop over a cursor store: what is committed tiles the
  source from byte zero to the stored position, whatever runs raise in between, and a run
  that sees a complete record either folds it or keeps it pending.
\<close>

section \<open>The cursor store\<close>

text \<open>
  What \<open>TranscriptFoldCursorStore\<close> promises: \<open>view\<close> is the state stored under the loop's
  capability; \<open>load\<close> returns it, a \<open>commit\<close> that returns replaces it, and nothing else
  changes it.
\<close>

definition fold_store_contract :: "('w, 'f, 'e) fold_loop \<Rightarrow> ('w \<Rightarrow> loaded_cursor option) \<Rightarrow> bool" where
  "fold_store_contract L view \<longleftrightarrow>
     (\<forall>w r w'. lp_load L (fl_capability_id (lp_config L)) w = (r, w') \<longrightarrow>
        (\<forall>x. r = Inr x \<longrightarrow> x = view w) \<and> view w' = view w)
     \<and> (\<forall>q w r w'. lp_read L q w = (r, w') \<longrightarrow> view w' = view w)
     \<and> (\<forall>c t w r w'. lp_submit L c t w = (r, w') \<longrightarrow> view w' = view w)
     \<and> (\<forall>n s w r w'. lp_commit L n s w = (r, w') \<longrightarrow>
          view w' = (case r of Inl e \<Rightarrow> view w | Inr u \<Rightarrow> Some (Fold s)))"

fun last_stored :: "fold_event list \<Rightarrow> loaded_cursor option \<Rightarrow> loaded_cursor option" where
  "last_stored [] v = v"
| "last_stored (Stored n s # evs) v = last_stored evs (Some (Fold s))"
| "last_stored (Submitted c r # evs) v = last_stored evs v"

lemma last_stored_append: "last_stored (a @ b) v = last_stored b (last_stored a v)"
proof (induction a arbitrary: v)
  case (Cons x a)
  then show ?case by (cases x) simp_all
qed simp

interpretation fold_history: event_store last_stored
  by unfold_locales (simp_all add: last_stored_append)

abbreviation tracks ::
  "('w \<Rightarrow> loaded_cursor option) \<Rightarrow> ('w \<times> fold_event list, 'a) io \<Rightarrow> bool" where
  "tracks \<equiv> follows last_stored"

named_theorems tracks_intros \<open>computations whose history gives the stored cursor\<close>

lemmas tracks_def = follows_def [of last_stored]

lemmas [tracks_intros] =
  fold_history.follows_bind fold_history.follows_basic fold_history.follows_if

lemma tracks_ports [tracks_intros]:
  assumes "fold_store_contract L view"
  shows "tracks view (lp_load (traced L) (fl_capability_id (lp_config L)))"
    and "tracks view (lp_read (traced L) q)"
    and "tracks view (lp_submit (traced L) c t)"
    and "tracks view (lp_commit (traced L) n s)"
proof -
  note laws = assms [unfolded fold_store_contract_def]
  show "tracks view (lp_load (traced L) (fl_capability_id (lp_config L)))"
    using laws by (fastforce simp: tracks_def traced_def with_history_def split: prod.splits sum.splits)
  show "tracks view (lp_read (traced L) q)"
    using laws by (fastforce simp: tracks_def traced_def with_history_def split: prod.splits sum.splits)
  show "tracks view (lp_submit (traced L) c t)"
    using laws by (fastforce simp: tracks_def traced_def with_history_def split: prod.splits sum.splits)
  show "tracks view (lp_commit (traced L) n s)"
    using laws by (fastforce simp: tracks_def traced_def with_history_def split: prod.splits sum.splits)
qed

lemma tracks_read_exact [tracks_intros]:
  "fold_store_contract L view \<Longrightarrow> tracks view (read_exact (traced L) a b)"
  unfolding read_exact_def durable_read_from_def by (intro tracks_intros)

lemma tracks_submit_command [tracks_intros]:
  "fold_store_contract L view \<Longrightarrow> tracks view (submit_command (traced L) c t)"
  unfolding submit_command_def by (intro tracks_intros)

lemma tracks_finalize_turn [tracks_intros]:
  "fold_store_contract L view \<Longrightarrow> tracks view (finalize_turn (traced L) a f t r x acc)"
  unfolding finalize_turn_def Let_def
  by (intro tracks_intros) (auto split: option.splits intro!: tracks_intros)

lemma tracks_fold_records [tracks_intros]:
  "fold_store_contract L view \<Longrightarrow> tracks view (fold_records (traced L) a f t i rs acc)"
proof (induction rs arbitrary: i acc)
  case (Cons r rs)
  then show ?case
    by (auto simp: Let_def split: sum.splits py_error.splits option.splits prod.splits
        intro!: tracks_intros)
qed (simp add: tracks_intros)

lemma tracks_commit_sealed [tracks_intros]:
  "fold_store_contract L view \<Longrightarrow> tracks view (commit_sealed_pending_span (traced L) s f tail d fmt p t)"
  unfolding commit_sealed_pending_span_def by (auto split: option.splits intro!: tracks_intros)

lemma tracks_fold_data [tracks_intros]:
  "fold_store_contract L view \<Longrightarrow> tracks view (fold_data (traced L) t s read f)"
  unfolding fold_data_def Let_def fold_without_records_def assemble_records_def apply_fallback_def
    submit_outcomes_def commit_fold_def
  by (auto split: option.splits prod.splits intro!: tracks_intros)

lemma tracks_fold_from_state [tracks_intros]:
  "fold_store_contract L view \<Longrightarrow> tracks view (fold_from_state (traced L) t s)"
  unfolding fold_from_state_def fold_end_of_ranges_def durable_read_from_def
  by (auto split: option.splits intro!: tracks_intros)

section \<open>Runs\<close>

text \<open>
  Successive runs at the given times, with the history of each; a run that raises is
  followed by the next one.
\<close>

fun fold_runs ::
  "('w, 'f, 'e) fold_loop \<Rightarrow> datetime list \<Rightarrow> 'w \<Rightarrow> fold_event list list \<times> 'w" where
  "fold_runs L [] w = ([], w)"
| "fold_runs L (t # ts) w =
     (let (w', evs) = snd (fold_run_once (traced L) t (w, []));
          (later, w'') = fold_runs L ts w'
      in (evs # later, w''))"

text \<open>The command of a run whose cursor was stored after its submission.\<close>

fun run_commit :: "fold_event list \<Rightarrow> fold_command list" where
  "run_commit [Submitted c r, Stored n s] = [c]"
| "run_commit _ = []"

definition committed :: "fold_event list list \<Rightarrow> fold_command list" where
  "committed runs = concat (map run_commit runs)"

definition folded_to :: "loaded_cursor option \<Rightarrow> nat" where
  "folded_to v =
     (case v of
        None \<Rightarrow> 0
      | Some (Fold s) \<Rightarrow> cs_acknowledged_offset s
      | Some (Legacy s) \<Rightarrow> hc_acknowledged_offset s)"

definition folded_records :: "loaded_cursor option \<Rightarrow> nat" where
  "folded_records v =
     (case v of
        None \<Rightarrow> 0
      | Some (Fold s) \<Rightarrow> cs_acknowledged_record_index s
      | Some (Legacy s) \<Rightarrow> hc_acknowledged_record_index s)"

definition not_legacy :: "loaded_cursor option \<Rightarrow> bool" where
  "not_legacy v \<longleftrightarrow> (case v of Some (Legacy s) \<Rightarrow> False | _ \<Rightarrow> True)"

definition command_ok :: "'e fold_env \<Rightarrow> fold_command \<Rightarrow> bool" where
  "command_ok E c \<longleftrightarrow> is_ok (make_fold_command E c)"

interpretation commands: interval_store cf_byte_start cf_byte_end_exclusive "command_ok E" for E
  using fold_command_binds(5) by unfold_locales (auto simp: command_ok_def is_ok_def)

lemma fold_effect_commit:
  assumes "fold_effect E s r evs"
  shows "chain cf_byte_start cf_byte_end_exclusive (cs_acknowledged_offset s) (run_commit evs)
        (folded_to (last_stored evs (Some (Fold s))))
    \<and> chain cf_start_record_index cf_end_record_index (cs_acknowledged_record_index s) (run_commit evs)
        (folded_records (last_stored evs (Some (Fold s))))
    \<and> list_all (command_ok E) (run_commit evs)"
  using assms
  by (induction E s r evs rule: fold_effect.induct)
     (auto simp: folded_to_def folded_records_def fold_waits_def fold_submits_def fold_commits_def
       command_ok_def)

lemma fold_run_once_effect:
  assumes contract: "fold_store_contract L view" and plain: "not_legacy (view w)"
    and run: "fold_run_once (traced L) t (w, []) = (r, (w', evs))"
  shows "chain cf_byte_start cf_byte_end_exclusive (folded_to (view w)) (run_commit evs) (folded_to (view w'))
    \<and> chain cf_start_record_index cf_end_record_index (folded_records (view w)) (run_commit evs)
        (folded_records (view w'))
    \<and> list_all (command_ok (lp_env L)) (run_commit evs) \<and> not_legacy (view w')"
proof (cases "tz_missing t")
  case True
  with run have "evs = [] \<and> w' = w" by (simp add: fold_run_once_def checkIO_def bindIO_def)
  with plain show ?thesis by simp
next
  case False
  with run have run: "bindIO (fold_state (traced L) t) (fold_from_state (traced L) t) (w, []) = (r, (w', evs))"
    by (simp add: fold_run_once_def checkIO_def bindIO_def)
  obtain lr w1 where load: "lp_load L (fl_capability_id (lp_config L)) w = (lr, w1)"
    by (cases "lp_load L (fl_capability_id (lp_config L)) w")
  with contract have v: "view w1 = view w" "\<And>x. lr = Inr x \<Longrightarrow> x = view w"
    unfolding fold_store_contract_def by blast+
  have tload: "lp_load (traced L) (fl_capability_id (lp_config L)) (w, []) = (lr, (w1, []))"
    using load by (cases lr) (simp_all add: traced_def with_history_def)
  show ?thesis
  proof (cases "\<exists>s. fold_state (traced L) t (w, []) = (Inr s, (w1, []))
      \<and> folded_to (view w) = cs_acknowledged_offset s
      \<and> folded_records (view w) = cs_acknowledged_record_index s")
    case True
    then obtain s where s: "fold_state (traced L) t (w, []) = (Inr s, (w1, []))"
      "folded_to (view w) = cs_acknowledged_offset s"
      "folded_records (view w) = cs_acknowledged_record_index s" by blast
    with run have ff: "fold_from_state (traced L) t s (w1, []) = (r, (w', evs))" by simp
    from emits_fold_from_state ff have eff: "fold_effect (lp_env L) s r evs"
      unfolding emits_def by fastforce
    from tracks_fold_from_state [OF contract] ff have tr: "view w' = last_stored evs (view w)"
      unfolding tracks_def using v(1) by fastforce
    have "folded_to (last_stored evs (Some (Fold s))) = folded_to (view w')
        \<and> folded_records (last_stored evs (Some (Fold s))) = folded_records (view w')
        \<and> not_legacy (view w')"
      using eff tr s(2,3) plain
      by (induction "lp_env L" s r evs rule: fold_effect.induct)
         (auto simp: folded_to_def folded_records_def not_legacy_def)
    with fold_effect_commit [OF eff] s(2,3) show ?thesis by simp
  next
    case False
    have "\<exists>e. fold_state (traced L) t (w, []) = (Inl e, (w1, []))"
    proof (cases lr)
      case (Inl e)
      with tload show ?thesis by (simp add: fold_state_def)
    next
      case (Inr x)
      with v have x: "x = view w" by simp
      show ?thesis
      proof (cases x)
        case None
        then show ?thesis
          using tload Inr x False
          by (cases "make_fold_cursor (lp_hash L) (default_fold_cursor (lp_hash L) (fl_capability_id (lp_config L)))")
             (auto simp: fold_state_def folded_to_def folded_records_def default_fold_cursor_def
               dest!: make_fold_cursor_id)
      next
        case (Some y)
        with x have "view w = Some y" by simp
        with plain obtain s where "y = Fold s" by (cases y) (auto simp: not_legacy_def)
        with Some tload Inr x False show ?thesis
          by (auto simp: fold_state_def folded_to_def folded_records_def split: option.splits)
      qed
    qed
    with run have "evs = [] \<and> w' = w1" by auto
    with v(1) plain show ?thesis by simp
  qed
qed

lemma chain_trans: "chain lo hi a xs b \<Longrightarrow> chain lo hi b ys c \<Longrightarrow> chain lo hi a (xs @ ys) c"
  by (auto simp: chain_append)

lemma fold_runs_tile:
  assumes "fold_store_contract L view" "not_legacy (view w)" "fold_runs L ts w = (runs, w')"
  shows "chain cf_byte_start cf_byte_end_exclusive (folded_to (view w)) (committed runs) (folded_to (view w'))
    \<and> chain cf_start_record_index cf_end_record_index (folded_records (view w)) (committed runs)
        (folded_records (view w'))
    \<and> list_all (command_ok (lp_env L)) (committed runs) \<and> not_legacy (view w')"
  using assms
proof (induction ts arbitrary: w runs)
  case Nil
  then show ?case by (simp add: committed_def)
next
  case (Cons t ts)
  obtain r w1 evs where one: "fold_run_once (traced L) t (w, []) = (r, (w1, evs))"
    by (metis surj_pair)
  obtain later where rest: "fold_runs L ts w1 = (later, w')" "runs = evs # later"
    using Cons.prems(3) one by (auto split: prod.splits)
  note step = fold_run_once_effect [OF Cons.prems(1,2) one]
  with Cons.IH [OF Cons.prems(1) _ rest(1)] show ?case
    by (auto simp: rest(2) committed_def intro: chain_trans)
qed

end
