(* ===== verification/Registry.thy ===== *)
theory Registry
  imports Manifest
begin

text \<open>
  \<open>application/module_registry.py\<close>, first half: issues and health, the registry inspection
  with its dependency-cycle search. A mapping is an association list with distinct keys, a
  \<open>frozenset\<close> a list read through \<open>set\<close>, a \<open>set\<close> that is only tested a HOL set. Characters
  are the first 256 code points.
\<close>

section \<open>Permissions, issues and health\<close>

definition ALLOWED_READ_PERMISSIONS :: "string list" where
  "ALLOWED_READ_PERMISSIONS =
     [''beads'', ''claims'', ''relations'', ''sources'', ''proposals'', ''projections'', ''telemetry'']"

definition ALLOWED_WRITE_PERMISSIONS :: "string list" where
  "ALLOWED_WRITE_PERMISSIONS = [''own_schema'', ''proposals'', ''kernel_commands'']"

definition DATABASE_WRITE_DENIED_PLACEMENTS :: "runtime_placement list" where
  "DATABASE_WRITE_DENIED_PLACEMENTS = [HOST_HELPER, BROWSER_EXTENSION]"

definition RESERVED_DESKTOP_IDENTITY :: string where "RESERVED_DESKTOP_IDENTITY = ''desktop_full''"

definition DEVELOPER_ARTIFACT_IDENTITY :: string where "DEVELOPER_ARTIFACT_IDENTITY = ''developer''"

datatype module_state = ENABLED | DISABLED | DEGRADED | INCOMPATIBLE

fun module_state_value :: "module_state \<Rightarrow> string" where
  "module_state_value ENABLED = ''enabled''"
| "module_state_value DISABLED = ''disabled''"
| "module_state_value DEGRADED = ''degraded''"
| "module_state_value INCOMPATIBLE = ''incompatible''"

record profile_definition =
  pf_profile_id :: string
  pf_module_ids :: "string list"

definition profile_payload :: "profile_definition \<Rightarrow> json" where
  "profile_payload p =
     JObj [(''id'', JStr (pf_profile_id p)), (''modules'', JList (map JStr (pf_module_ids p)))]"

record validation_issue =
  is_code :: string
  is_subject :: string
  is_detail :: string

definition issue :: "string \<Rightarrow> string \<Rightarrow> string \<Rightarrow> validation_issue" where
  "issue code subject detail = \<lparr>is_code = code, is_subject = subject, is_detail = detail\<rparr>"

definition issue_sort_key :: "validation_issue \<Rightarrow> string \<times> string \<times> string" where
  "issue_sort_key i = (is_code i, is_subject i, is_detail i)"

record module_health =
  mh_module_id :: string
  mh_version :: string
  mh_state :: module_state
  mh_reason :: string

definition module_health_payload :: "module_health \<Rightarrow> json" where
  "module_health_payload h =
     JObj [(''id'', JStr (mh_module_id h)), (''version'', JStr (mh_version h)),
           (''state'', JStr (module_state_value (mh_state h))), (''reason'', JStr (mh_reason h))]"

record registry_inspection =
  ri_combined_module_version :: string
  ri_modules :: "module_health list"
  ri_issues :: "validation_issue list"

definition compatible :: "registry_inspection \<Rightarrow> bool" where
  "compatible i \<longleftrightarrow> ri_issues i = []"

text \<open>The exceptions of the module; \<open>RegistryValidationError\<close> carries its inspection.\<close>

datatype registry_error =
    ManifestError manifest_error
  | RegistryValidationError registry_inspection
  | ProfileCompositionError string
  | ReleaseIdentityError string

definition require_compatible :: "registry_inspection \<Rightarrow> registry_error + unit" where
  "require_compatible i = (if ri_issues i \<noteq> [] then Inl (RegistryValidationError i) else Inr ())"

definition registry_error_summary :: "registry_inspection \<Rightarrow> string" where
  "registry_error_summary i =
     ''built-in module registry rejected: ''
     @ join ''; '' (map (\<lambda>x. is_code x @ ''('' @ is_subject x @ ''): '' @ is_detail x) (ri_issues i))"

section \<open>Versions of a registry\<close>

type_synonym placement_grants = "(string \<times> runtime_placement list) list"

definition combined_version :: "hash \<Rightarrow> json \<Rightarrow> string" where
  "combined_version H payload = ''modules-v1:'' @ H (utf8 (json_render payload))"

definition sorted_manifests :: "module_manifest list \<Rightarrow> module_manifest list" where
  "sorted_manifests ms = sort_key (\<lambda>m. (mm_module_id m, mm_version m)) ms"

definition registry_payload ::
  "module_manifest list \<Rightarrow> profile_definition list \<Rightarrow> placement_grants \<Rightarrow> json" where
  "registry_payload ms ps grants =
     JObj [(''kernel_version'', JStr (version_str KERNEL_VERSION)),
           (''module_api'', JInt SUPPORTED_MODULE_API),
           (''manifests'', JList (map manifest_payload (sorted_manifests ms))),
           (''profiles'', JList (map profile_payload (sort_key pf_profile_id ps))),
           (''placement_grants'',
              JObj (map (\<lambda>(m, ps). (m, JList (map JStr (sort (remdups (map placement_value ps))))))
                      (sort_key fst grants)))]"

section \<open>The cycle search\<close>

type_synonym module_graph = "(string \<times> string list) list"

definition manifest_by_id :: "module_manifest list \<Rightarrow> string \<Rightarrow> module_manifest option" where
  "manifest_by_id ms m = find (\<lambda>x. mm_module_id x = m) ms"

definition registered :: "module_manifest list \<Rightarrow> string list" where
  "registered ms = remdups (map mm_module_id ms)"

definition required_ids :: "module_manifest \<Rightarrow> string list" where
  "required_ids m = map mr_module_id (mm_requires_modules m)"

definition dependency_graph :: "module_manifest list \<Rightarrow> module_graph" where
  "dependency_graph ms =
     map (\<lambda>i. (i, case manifest_by_id ms i of
                     None \<Rightarrow> []
                   | Some m \<Rightarrow> sort (filter (\<lambda>d. d \<in> set (registered ms)) (required_ids m))))
       (registered ms)"

definition successors :: "module_graph \<Rightarrow> string \<Rightarrow> string list" where
  "successors g x = (case map_of g x of None \<Rightarrow> [] | Some ds \<Rightarrow> ds)"

text \<open>
  \<open>visit\<close> over a list of modules: \<open>active\<close> is the recursion stack, the pair holds the visited
  and the cyclic modules. \<open>active[active_indexes[m]:]\<close> is the stack from \<open>m\<close> on.
\<close>

function visit_all ::
  "module_graph \<Rightarrow> string list \<Rightarrow> string list \<Rightarrow> string set \<Rightarrow> string set \<Rightarrow> string set \<times> string set" where
  "visit_all g active [] visited cyclic = (visited, cyclic)"
| "visit_all g active (x # xs) visited cyclic =
     (if x \<in> visited then visit_all g active xs visited cyclic
      else if x \<in> set active
      then visit_all g active xs visited (cyclic \<union> set (dropWhile (\<lambda>y. y \<noteq> x) active))
      else
        (let inner = visit_all g (active @ [x]) (successors g x) visited cyclic
         in visit_all g active xs (insert x (fst inner)) (snd inner)))"
  by pat_completeness auto
termination
proof (relation "measures [\<lambda>(g, active, _). card (fst ` set g - set active), \<lambda>(_, _, xs, _). length xs]", goal_cases)
  case (4 g active x xs visited cyclic)
  show ?case
  proof (cases "x \<in> fst ` set g")
    case True
    with 4 have "card (fst ` set g - set (active @ [x])) < card (fst ` set g - set active)"
      by (intro psubset_card_mono) auto
    then show ?thesis by simp
  next
    case False
    then have "successors g x = []"
      by (force simp: successors_def dest: map_of_SomeD split: option.splits)
    moreover from False have "fst ` set g - set (active @ [x]) = fst ` set g - set active" by auto
    ultimately show ?thesis by simp
  qed
qed auto

definition cycle_nodes :: "module_manifest list \<Rightarrow> string set" where
  "cycle_nodes ms =
     (let g = dependency_graph ms in snd (visit_all g [] (sort (map fst g)) {} {}))"

subsection \<open>The search finds a cycle exactly when there is one\<close>

definition edges :: "module_graph \<Rightarrow> (string \<times> string) set" where
  "edges g = {(x, y). y \<in> set (successors g x)}"

inductive layered :: "module_graph \<Rightarrow> string set \<Rightarrow> bool" for g where
  empty: "layered g {}"
| finish: "layered g V \<Longrightarrow> x \<notin> V \<Longrightarrow> set (successors g x) \<subseteq> V \<Longrightarrow> layered g (insert x V)"

lemma layered_closed: "layered g V \<Longrightarrow> x \<in> V \<Longrightarrow> (x, y) \<in> edges g \<Longrightarrow> y \<in> V"
  by (induction rule: layered.induct) (auto simp: edges_def)

lemma layered_reach: "layered g V \<Longrightarrow> x \<in> V \<Longrightarrow> (x, y) \<in> (edges g)\<^sup>+ \<Longrightarrow> y \<in> V"
  by (rotate_tac 2, induction rule: trancl_induct) (auto intro: layered_closed)

lemma layered_acyclic: "layered g V \<Longrightarrow> x \<in> V \<Longrightarrow> (x, x) \<notin> (edges g)\<^sup>+"
proof (induction arbitrary: x rule: layered.induct)
  case (finish V z)
  show ?case
  proof (cases "x \<in> V")
    case True
    then show ?thesis by (rule finish.IH)
  next
    case False
    with finish.prems have x: "x = z" by simp
    have "y \<in> V" if "(z, y) \<in> (edges g)\<^sup>+" for y
      using that
    proof (induction rule: trancl_induct)
      case (base y)
      with finish.hyps show ?case by (auto simp: edges_def)
    next
      case (step y u)
      with layered_closed [OF finish.hyps(1)] show ?case by blast
    qed
    with finish.hyps(2) x show ?thesis by blast
  qed
qed simp

lemma visit_all_grows:
  "visit_all g active xs V C = (V', C') \<Longrightarrow> V \<subseteq> V' \<and> C \<subseteq> C'"
proof (induction g active xs V C arbitrary: V' C' rule: visit_all.induct)
  case (2 g active x xs V C)
  consider "x \<in> V" | "x \<notin> V" "x \<in> set active" | "x \<notin> V" "x \<notin> set active" by blast
  then show ?case
  proof cases
    case 3
    obtain V1 C1 where "visit_all g (active @ [x]) (successors g x) V C = (V1, C1)" by (metis surj_pair)
    with 2 3 show ?thesis by (fastforce simp: Let_def)
  qed (use 2 in fastforce)+
qed simp

lemma visit_all_layered:
  assumes "visit_all g active xs V C = (V', {})" "layered g V" "V \<inter> set active = {}"
  shows "layered g V' \<and> set xs \<subseteq> V' \<and> V' \<inter> set active = {}"
  using assms
proof (induction g active xs V C arbitrary: V' rule: visit_all.induct)
  case (2 g active x xs V C)
  consider "x \<in> V" | "x \<notin> V" "x \<in> set active" | "x \<notin> V" "x \<notin> set active" by blast
  then show ?case
  proof cases
    case 1
    with 2 visit_all_grows [of g active xs V C V' "{}"] show ?thesis by auto
  next
    case c: 2
    let ?D = "set (dropWhile (\<lambda>y. y \<noteq> x) active)"
    from c "2.prems" have "visit_all g active xs V (C \<union> ?D) = (V', {})" by simp
    from visit_all_grows [OF this] have "?D = {}" by auto
    with c show ?thesis by (auto simp: dropWhile_eq_Nil_conv)
  next
    case 3
    obtain V1 C1 where inner: "visit_all g (active @ [x]) (successors g x) V C = (V1, C1)"
      by (metis surj_pair)
    with 3 "2.prems" have outer: "visit_all g active xs (insert x V1) C1 = (V', {})"
      by (simp add: Let_def)
    from visit_all_grows [OF this] have C1: "C1 = {}" and V1: "insert x V1 \<subseteq> V'" by auto
    from "2.IH"(3) [OF 3, of V1] inner C1 "2.prems"(2,3) 3
    have "layered g V1" "set (successors g x) \<subseteq> V1" "V1 \<inter> set (active @ [x]) = {}" by auto
    then have "layered g (insert x V1)" "insert x V1 \<inter> set active = {}"
      using 3 by (auto intro: layered.finish)
    with "2.IH"(4) [OF 3 refl, of V'] outer inner V1 show ?thesis by auto
  qed
qed simp

definition stack_ok :: "module_graph \<Rightarrow> string list \<Rightarrow> bool" where
  "stack_ok g active \<longleftrightarrow> (\<forall>i. Suc i < length active \<longrightarrow> (active ! i, active ! Suc i) \<in> edges g)"

lemma stack_reach:
  "stack_ok g active \<Longrightarrow> i < j \<Longrightarrow> j < length active \<Longrightarrow> (active ! i, active ! j) \<in> (edges g)\<^sup>+"
proof (induction j)
  case (Suc j)
  then have e: "(active ! j, active ! Suc j) \<in> edges g" by (simp add: stack_ok_def)
  show ?case
  proof (cases "i = j")
    case True
    with e show ?thesis by auto
  next
    case False
    with Suc e show ?thesis by (auto intro: trancl_into_trancl)
  qed
qed simp

lemma stack_cycle:
  assumes "stack_ok g active" "active \<noteq> []" "(last active, x) \<in> edges g" "x \<in> set active"
    and "y \<in> set (dropWhile (\<lambda>y. y \<noteq> x) active)"
  shows "(y, y) \<in> (edges g)\<^sup>+"
proof -
  let ?s = "dropWhile (\<lambda>y. y \<noteq> x) active" and ?p = "takeWhile (\<lambda>y. y \<noteq> x) active"
  have s: "active = ?p @ ?s" by simp
  from assms(4) have "?s \<noteq> []" by (auto simp: dropWhile_eq_Nil_conv)
  with hd_dropWhile [of "\<lambda>y. y \<noteq> x" active] have "?s \<noteq> []" "hd ?s = x" by auto
  then have x: "?s ! 0 = x" by (simp add: hd_conv_nth)
  have ok: "stack_ok g ?s"
    unfolding stack_ok_def
  proof (intro allI impI)
    fix i assume i: "Suc i < length ?s"
    have len: "length active = length ?p + length ?s" by (metis s length_append)
    have nth: "active ! (length ?p + j) = ?s ! j" for j by (metis s nth_append_length_plus)
    from i len assms(1) have "(active ! (length ?p + i), active ! (length ?p + Suc i)) \<in> edges g"
      by (simp add: stack_ok_def)
    then show "(?s ! i, ?s ! Suc i) \<in> edges g" by (simp only: nth)
  qed
  from assms(5) obtain i where i: "i < length ?s" "?s ! i = y" by (auto simp: in_set_conv_nth)
  have last: "last active = ?s ! (length ?s - 1)"
    using \<open>?s \<noteq> []\<close> s by (metis last_appendR last_conv_nth)
  have to_last: "(y, last active) \<in> (edges g)\<^sup>*"
    using stack_reach [OF ok, of i "length ?s - 1"] i last
    by (cases "i = length ?s - 1") (auto intro: trancl_into_rtrancl)
  have from_x: "(x, y) \<in> (edges g)\<^sup>*"
    using stack_reach [OF ok, of 0 i] i x by (cases "i = 0") (auto intro: trancl_into_rtrancl)
  from to_last assms(3) from_x show ?thesis
    by (meson rtrancl_into_trancl1 trancl_rtrancl_trancl)
qed

lemma visit_all_sound:
  assumes "visit_all g active xs V C = (V', C')" "stack_ok g active"
    and "active \<noteq> [] \<Longrightarrow> \<forall>x \<in> set xs. (last active, x) \<in> edges g"
    and "\<forall>y \<in> C. (y, y) \<in> (edges g)\<^sup>+"
  shows "\<forall>y \<in> C'. (y, y) \<in> (edges g)\<^sup>+"
  using assms
proof (induction g active xs V C arbitrary: V' C' rule: visit_all.induct)
  case (2 g active x xs V C)
  consider "x \<in> V" | "x \<notin> V" "x \<in> set active" | "x \<notin> V" "x \<notin> set active" by blast
  then show ?case
  proof cases
    case 1
    with 2 show ?thesis by auto
  next
    case c: 2
    then have ne: "active \<noteq> []" by auto
    with c "2.prems" have "\<forall>y \<in> C \<union> set (dropWhile (\<lambda>y. y \<noteq> x) active). (y, y) \<in> (edges g)\<^sup>+"
      using stack_cycle [OF "2.prems"(2) ne _ c(2)] by auto
    with c 2 show ?thesis by auto
  next
    case 3
    obtain V1 C1 where inner: "visit_all g (active @ [x]) (successors g x) V C = (V1, C1)"
      by (metis surj_pair)
    with 3 "2.prems"(1) have outer: "visit_all g active xs (insert x V1) C1 = (V', C')"
      by (simp add: Let_def)
    have "stack_ok g (active @ [x])"
      unfolding stack_ok_def
    proof (intro allI impI)
      fix i assume i: "Suc i < length (active @ [x])"
      show "((active @ [x]) ! i, (active @ [x]) ! Suc i) \<in> edges g"
      proof (cases "Suc i < length active")
        case True
        with "2.prems"(2) show ?thesis by (simp add: stack_ok_def nth_append)
      next
        case False
        with i have "Suc i = length active" by simp
        then have "active \<noteq> []" "i = length active - 1" "i < length active" by auto
        with "2.prems"(3) i show ?thesis by (simp add: nth_append last_conv_nth)
      qed
    qed
    moreover have "\<forall>y \<in> set (successors g x). (last (active @ [x]), y) \<in> edges g"
      by (simp add: edges_def)
    ultimately have "\<forall>y \<in> C1. (y, y) \<in> (edges g)\<^sup>+"
      using "2.IH"(3) [OF 3 inner] "2.prems"(4) by blast
    with "2.IH"(4) [OF 3 refl, of V' C'] outer inner "2.prems"(2,3) show ?thesis by simp
  qed
qed simp

text \<open>The issue list reports a cycle exactly when the dependency graph has one.\<close>

lemma cycle_nodes_on_cycle: "x \<in> cycle_nodes ms \<Longrightarrow> (x, x) \<in> (edges (dependency_graph ms))\<^sup>+"
  using visit_all_sound [of "dependency_graph ms" "[]" "sort (map fst (dependency_graph ms))" "{}" "{}"]
  by (auto simp: cycle_nodes_def Let_def stack_ok_def intro: surjective_pairing)

lemma trancl_dom: "(x, y) \<in> R\<^sup>+ \<Longrightarrow> \<exists>z. (x, z) \<in> R"
  by (induction rule: trancl_induct) auto

lemma cycle_nodes_empty_acyclic:
  assumes "cycle_nodes ms = {}"
  shows "acyclic (edges (dependency_graph ms))"
proof (rule acyclicI, intro allI notI)
  fix x assume c: "(x, x) \<in> (edges (dependency_graph ms))\<^sup>+"
  let ?g = "dependency_graph ms" and ?r = "visit_all (dependency_graph ms) [] (sort (map fst (dependency_graph ms))) {} {}"
  from assms have "?r = (fst ?r, {})" by (simp add: cycle_nodes_def Let_def prod_eq_iff)
  from visit_all_layered [OF this] have l: "layered ?g (fst ?r)" "set (map fst ?g) \<subseteq> fst ?r"
    by (auto intro: layered.empty)
  from trancl_dom [OF c] have "map_of ?g x \<noteq> None"
    by (cases "map_of ?g x") (simp_all add: edges_def successors_def)
  then have "x \<in> set (map fst ?g)" by (simp add: map_of_eq_None_iff)
  with l layered_acyclic [OF l(1)] c show False by blast
qed

end
