(* ===== verification/Inspection.thy ===== *)
theory Inspection
  imports Registry
begin

text \<open>
  \<open>application/module_registry.py\<close>: \<open>inspect_registry\<close>, one definition per group of checks,
  in source order, and \<open>BuiltInModuleRegistry._from_source_controlled\<close>. The checks
  accumulate issues; the only exception is the unsupported operator of a version constraint.
\<close>

section \<open>Checks on one manifest\<close>

definition issue_if :: "bool \<Rightarrow> validation_issue \<Rightarrow> validation_issue list" where
  "issue_if b i = (if b then [i] else [])"

lemma issue_if_simps [simp]:
  "issue_if b i = [] \<longleftrightarrow> \<not> b" "set (issue_if b i) = (if b then {i} else {})"
  by (simp_all add: issue_if_def)

definition duplicate_id_issues :: "module_manifest list \<Rightarrow> validation_issue list" where
  "duplicate_id_issues ms =
     concat (map (\<lambda>m. let n = count_list (map mm_module_id ms) m
                      in issue_if (1 < n)
                           (issue ''duplicate_module_id'' m
                              (''registered '' @ str_nat n @ '' times'')))
       (sort (registered ms)))"

definition unknown_grant_issues ::
  "module_manifest list \<Rightarrow> placement_grants \<Rightarrow> validation_issue list" where
  "unknown_grant_issues ms grants =
     map (\<lambda>m. issue ''unknown_placement_grant'' m
                ''placement grant has no registered built-in module'')
       (sort (filter (\<lambda>m. m \<notin> set (registered ms)) (map fst grants)))"

definition identity_issues :: "module_manifest \<Rightarrow> registry_error + validation_issue list" where
  "identity_issues m =
     (let subject = mm_module_id m
      in case range_allows (mm_requires_kernel m) KERNEL_VERSION of
           Inl e \<Rightarrow> Inl (ManifestError e)
         | Inr ok \<Rightarrow> Inr
             (issue_if (\<not> is_identifier subject)
                (issue ''invalid_module_id'' subject ''identifier is not canonical'')
              @ issue_if (mm_manifest_schema m \<noteq> MANIFEST_SCHEMA_VERSION)
                (issue ''incompatible_manifest_schema'' subject
                   (''requires '' @ str_int (mm_manifest_schema m)
                    @ '', supports '' @ str_int MANIFEST_SCHEMA_VERSION))
              @ issue_if (mm_module_api m \<noteq> SUPPORTED_MODULE_API)
                (issue ''incompatible_module_api'' subject
                   (''requires '' @ str_int (mm_module_api m)
                    @ '', supports '' @ str_int SUPPORTED_MODULE_API))
              @ issue_if (\<not> ok)
                (issue ''incompatible_kernel_version'' subject
                   (''requires '' @ range_str (mm_requires_kernel m)
                    @ '', running '' @ version_str KERNEL_VERSION))
              @ issue_if (mm_runtime_placements m = [])
                (issue ''missing_runtime_placement'' subject
                   ''at least one placement is required'')))"

text \<open>\<open>repr\<close> of a string over the first 256 code points.\<close>

definition repr_char :: "char \<Rightarrow> char \<Rightarrow> string" where
  "repr_char q c =
     (let n = (of_char c :: nat)
      in if c = q \<or> n = 92 then [CHR 0x5C, c]
         else if n = 9 then [CHR 0x5C, CHR ''t'']
         else if n = 10 then [CHR 0x5C, CHR ''n'']
         else if n = 13 then [CHR 0x5C, CHR ''r'']
         else if n < 32 \<or> (127 \<le> n \<and> n \<le> 160) \<or> n = 173
         then [CHR 0x5C, CHR ''x'', hexdigit (n div 16), hexdigit (n mod 16)]
         else [c])"

definition py_repr :: "string \<Rightarrow> string" where
  "py_repr s =
     (let q = (if CHR 0x27 \<in> set s \<and> CHR 0x22 \<notin> set s then CHR 0x22 else CHR 0x27)
      in [q] @ concat (map (repr_char q) s) @ [q])"

fun placement_issues ::
  "string \<Rightarrow> runtime_placement list \<Rightarrow> runtime_placement list \<Rightarrow> placement_entry list
   \<Rightarrow> validation_issue list \<times> runtime_placement list" where
  "placement_issues subject granted seen [] = ([], seen)"
| "placement_issues subject granted seen (RawPlacement s # ps) =
     (let rest = placement_issues subject granted seen ps
      in (issue ''invalid_runtime_placement'' subject (''unknown placement '' @ py_repr s) # fst rest,
          snd rest))"
| "placement_issues subject granted seen (Placement p # ps) =
     (let rest = placement_issues subject granted (List.insert p seen) ps
      in (issue_if (p \<in> set seen)
            (issue ''duplicate_runtime_placement'' subject (placement_value p))
          @ issue_if (p \<notin> set granted)
            (issue ''unauthorized_runtime_placement'' subject (placement_value p))
          @ fst rest, snd rest))"

definition permission_issues ::
  "module_manifest \<Rightarrow> runtime_placement list \<Rightarrow> validation_issue list" where
  "permission_issues m seen =
     (let subject = mm_module_id m
      in map (issue ''unauthorized_read_permission'' subject)
           (filter (\<lambda>p. p \<notin> set ALLOWED_READ_PERMISSIONS) (mm_permissions_read m))
         @ map (issue ''unauthorized_write_permission'' subject)
           (filter (\<lambda>p. p \<notin> set ALLOWED_WRITE_PERMISSIONS) (mm_permissions_write m))
         @ issue_if (\<not> distinct (mm_permissions_read m))
           (issue ''duplicate_read_permission'' subject ''permission identifiers repeat'')
         @ issue_if (\<not> distinct (mm_permissions_write m))
           (issue ''duplicate_write_permission'' subject ''permission identifiers repeat'')
         @ concat (map (\<lambda>p. map (\<lambda>w. issue ''placement_write_denied'' subject
                                         (placement_value p @ '' cannot declare '' @ w))
                              (sort (remdups (mm_permissions_write m))))
             (sort_key placement_value
                (filter (\<lambda>p. p \<in> set DATABASE_WRITE_DENIED_PLACEMENTS) seen))))"

fun dependency_issues ::
  "module_manifest list \<Rightarrow> string \<Rightarrow> string list \<Rightarrow> module_requirement list
   \<Rightarrow> registry_error + validation_issue list" where
  "dependency_issues ms subject seen [] = Inr []"
| "dependency_issues ms subject seen (r # rs) =
     (let again = issue_if (mr_module_id r \<in> set seen)
                    (issue ''duplicate_dependency'' subject (mr_module_id r));
          here = (case manifest_by_id ms (mr_module_id r) of
                    None \<Rightarrow> Inr [issue ''missing_dependency'' subject (mr_module_id r)]
                  | Some d \<Rightarrow>
                      (case range_allows (mr_version r) (mm_version d) of
                         Inl e \<Rightarrow> Inl (ManifestError e)
                       | Inr ok \<Rightarrow> Inr (issue_if (\<not> ok)
                           (issue ''incompatible_dependency_version'' subject
                              (mr_module_id r @ '' requires '' @ range_str (mr_version r)
                               @ '', registered '' @ version_str (mm_version d))))))
      in bindE here (\<lambda>h.
         bindE (dependency_issues ms subject (mr_module_id r # seen) rs) (\<lambda>t.
         Inr (again @ h @ t))))"

type_synonym contribution_key = "contribution_kind \<times> string"

definition contribution_key :: "contribution \<Rightarrow> contribution_key" where
  "contribution_key c = (co_kind c, co_identifier c)"

definition contribution_label :: "contribution \<Rightarrow> string" where
  "contribution_label c = contribution_kind_value (co_kind c) @ '':'' @ co_identifier c"

text \<open>\<open>contribution_owners.setdefault\<close>: the first module that contributes a key owns it.\<close>

fun contribution_issues ::
  "string \<Rightarrow> contribution_key list \<Rightarrow> (contribution_key \<times> string) list \<Rightarrow> contribution list
   \<Rightarrow> validation_issue list \<times> (contribution_key \<times> string) list" where
  "contribution_issues subject local owners [] = ([], owners)"
| "contribution_issues subject local owners (c # cs) =
     (let key = contribution_key c;
          owners' = (case map_of owners key of None \<Rightarrow> (key, subject) # owners | Some _ \<Rightarrow> owners);
          owner = (case map_of owners key of None \<Rightarrow> subject | Some own \<Rightarrow> own);
          rest = contribution_issues subject (key # local) owners' cs
      in (issue_if (\<not> is_identifier (co_identifier c))
            (issue ''invalid_contribution_id'' subject (contribution_label c))
          @ issue_if (key \<in> set local)
            (issue ''duplicate_contribution_id'' subject (contribution_label c))
          @ issue_if (owner \<noteq> subject)
            (issue ''contribution_collision'' subject
               (contribution_label c @ '' already owned by '' @ owner))
          @ fst rest, snd rest))"

definition manifest_issues ::
  "module_manifest list \<Rightarrow> placement_grants \<Rightarrow> (contribution_key \<times> string) list \<Rightarrow> module_manifest
   \<Rightarrow> registry_error + validation_issue list \<times> (contribution_key \<times> string) list" where
  "manifest_issues ms grants owners m =
     (let subject = mm_module_id m;
          grant = map_of grants subject;
          granted = (case grant of None \<Rightarrow> [] | Some g \<Rightarrow> g);
          placed = placement_issues subject granted [] (mm_runtime_placements m);
          contributed = contribution_issues subject [] owners (mm_contributions m)
      in bindE (identity_issues m) (\<lambda>i.
         bindE (dependency_issues ms subject [] (mm_requires_modules m)) (\<lambda>d.
         Inr (i @ issue_if (grant = None)
                (issue ''missing_placement_grant'' subject
                   ''module has no source-controlled placement grant'')
              @ fst placed @ permission_issues m (snd placed) @ d @ fst contributed,
              snd contributed))))"

fun manifests_issues ::
  "module_manifest list \<Rightarrow> placement_grants \<Rightarrow> (contribution_key \<times> string) list
   \<Rightarrow> module_manifest list \<Rightarrow> registry_error + validation_issue list" where
  "manifests_issues ms grants owners [] = Inr []"
| "manifests_issues ms grants owners (m # rest) =
     bindE (manifest_issues ms grants owners m) (\<lambda>(here, owners').
     bindE (manifests_issues ms grants owners' rest) (\<lambda>later. Inr (here @ later)))"

section \<open>Cycles, profiles and the inspection\<close>

definition cycle_issues :: "module_manifest list \<Rightarrow> validation_issue list" where
  "cycle_issues ms =
     (let cyclic = cycle_nodes ms
      in map (\<lambda>m. issue ''dependency_cycle'' m ''module participates in a dependency cycle'')
           (sort (filter (\<lambda>m. m \<in> cyclic) (registered ms))))"

definition profile_module_issues ::
  "module_manifest list \<Rightarrow> profile_definition \<Rightarrow> string \<Rightarrow> validation_issue list" where
  "profile_module_issues ms p m =
     (case manifest_by_id ms m of
        None \<Rightarrow> [issue ''unknown_profile_module'' (pf_profile_id p) m]
      | Some pm \<Rightarrow> map (\<lambda>d. issue ''profile_missing_dependency'' (pf_profile_id p)
                              (m @ '' requires '' @ d))
          (filter (\<lambda>d. d \<notin> set (pf_module_ids p)) (required_ids pm)))"

fun profiles_issues ::
  "module_manifest list \<Rightarrow> string list \<Rightarrow> profile_definition list \<Rightarrow> validation_issue list" where
  "profiles_issues ms seen [] = []"
| "profiles_issues ms seen (p # ps) =
     (let pid = pf_profile_id p
      in issue_if (\<not> is_identifier pid)
           (issue ''invalid_profile_id'' pid ''identifier is not canonical'')
         @ issue_if (pid = RESERVED_DESKTOP_IDENTITY)
           (issue ''reserved_release_profile'' pid
              ''desktop_full belongs to the later SQL-12A signed profile'')
         @ issue_if (pid \<in> set seen)
           (issue ''duplicate_profile_id'' pid ''profile identifiers repeat'')
         @ issue_if (\<not> distinct (pf_module_ids p))
           (issue ''duplicate_profile_module'' pid ''module identifiers repeat'')
         @ concat (map (profile_module_issues ms p) (sort (remdups (pf_module_ids p))))
         @ profiles_issues ms (pid # seen) ps)"

definition inspected_health :: "validation_issue list \<Rightarrow> module_manifest \<Rightarrow> module_health" where
  "inspected_health issues m =
     (let mine = filter (\<lambda>i. is_subject i = mm_module_id m) issues
      in \<lparr>mh_module_id = mm_module_id m, mh_version = version_str (mm_version m),
          mh_state = (if mine \<noteq> [] then INCOMPATIBLE else DISABLED),
          mh_reason = (if mine \<noteq> []
                       then join ''; '' (map (\<lambda>i. is_code i @ '': '' @ is_detail i) mine)
                       else ''registry compatible; no profile composed'')\<rparr>)"

definition inspect_registry ::
  "hash \<Rightarrow> module_manifest list \<Rightarrow> profile_definition list \<Rightarrow> placement_grants
   \<Rightarrow> registry_error + registry_inspection" where
  "inspect_registry H ms ps grants =
     bindE (manifests_issues ms grants [] (sorted_manifests ms)) (\<lambda>found.
     let issues = sort_key issue_sort_key
           (duplicate_id_issues ms @ unknown_grant_issues ms grants @ found @ cycle_issues ms
            @ profiles_issues ms [] (sort_key pf_profile_id ps))
     in Inr \<lparr>ri_combined_module_version = combined_version H (registry_payload ms ps grants),
             ri_modules = map (inspected_health issues) (sorted_manifests ms),
             ri_issues = issues\<rparr>)"

section \<open>The registry\<close>

record module_registry =
  rg_manifests :: "module_manifest list"
  rg_profiles :: "profile_definition list"
  rg_placement_grants :: placement_grants
  rg_combined_module_version :: string

definition from_source_controlled ::
  "hash \<Rightarrow> module_manifest list \<Rightarrow> profile_definition list \<Rightarrow> placement_grants
   \<Rightarrow> registry_error + module_registry" where
  "from_source_controlled H ms ps grants =
     bindE (inspect_registry H ms ps grants) (\<lambda>i.
     bindE (require_compatible i) (\<lambda>_.
     Inr \<lparr>rg_manifests = sort_key mm_module_id ms, rg_profiles = sort_key pf_profile_id ps,
          rg_placement_grants = grants,
          rg_combined_module_version = ri_combined_module_version i\<rparr>))"

section \<open>What an accepted registry promises\<close>

definition placements_wf :: "runtime_placement list \<Rightarrow> module_manifest \<Rightarrow> bool" where
  "placements_wf granted m \<longleftrightarrow>
     (\<exists>ps. mm_runtime_placements m = map Placement ps \<and> ps \<noteq> [] \<and> distinct ps
           \<and> set ps \<subseteq> set granted
           \<and> (set ps \<inter> set DATABASE_WRITE_DENIED_PLACEMENTS \<noteq> {} \<longrightarrow> mm_permissions_write m = []))"

definition requirement_met :: "module_manifest list \<Rightarrow> module_requirement \<Rightarrow> bool" where
  "requirement_met ms r \<longleftrightarrow>
     (\<exists>d. manifest_by_id ms (mr_module_id r) = Some d \<and> range_allows (mr_version r) (mm_version d) = Inr True)"

definition identity_wf :: "module_manifest \<Rightarrow> bool" where
  "identity_wf m \<longleftrightarrow>
     is_identifier (mm_module_id m) \<and> mm_manifest_schema m = MANIFEST_SCHEMA_VERSION
     \<and> mm_module_api m = SUPPORTED_MODULE_API
     \<and> range_allows (mm_requires_kernel m) KERNEL_VERSION = Inr True"

definition permissions_wf :: "module_manifest \<Rightarrow> bool" where
  "permissions_wf m \<longleftrightarrow>
     distinct (mm_permissions_read m) \<and> set (mm_permissions_read m) \<subseteq> set ALLOWED_READ_PERMISSIONS
     \<and> distinct (mm_permissions_write m) \<and> set (mm_permissions_write m) \<subseteq> set ALLOWED_WRITE_PERMISSIONS"

definition contribution_keys :: "module_manifest \<Rightarrow> contribution_key list" where
  "contribution_keys m = map contribution_key (mm_contributions m)"

definition manifest_wf :: "module_manifest list \<Rightarrow> placement_grants \<Rightarrow> module_manifest \<Rightarrow> bool" where
  "manifest_wf ms grants m \<longleftrightarrow>
     identity_wf m \<and> permissions_wf m
     \<and> (\<exists>g. map_of grants (mm_module_id m) = Some g \<and> placements_wf g m)
     \<and> distinct (required_ids m) \<and> (\<forall>r \<in> set (mm_requires_modules m). requirement_met ms r)
     \<and> distinct (contribution_keys m)
     \<and> (\<forall>c \<in> set (mm_contributions m). is_identifier (co_identifier c))"

definition profile_wf :: "module_manifest list \<Rightarrow> profile_definition \<Rightarrow> bool" where
  "profile_wf ms p \<longleftrightarrow>
     is_identifier (pf_profile_id p) \<and> pf_profile_id p \<noteq> RESERVED_DESKTOP_IDENTITY
     \<and> distinct (pf_module_ids p)
     \<and> (\<forall>m \<in> set (pf_module_ids p).
          \<exists>d. manifest_by_id ms m = Some d \<and> set (required_ids d) \<subseteq> set (pf_module_ids p))"

definition registry_wf ::
  "module_manifest list \<Rightarrow> profile_definition list \<Rightarrow> placement_grants \<Rightarrow> bool" where
  "registry_wf ms ps grants \<longleftrightarrow>
     distinct (map mm_module_id ms) \<and> fst ` set grants \<subseteq> mm_module_id ` set ms
     \<and> (\<forall>m \<in> set ms. manifest_wf ms grants m)
     \<and> (\<forall>a \<in> set ms. \<forall>b \<in> set ms. mm_module_id a \<noteq> mm_module_id b \<longrightarrow>
          set (contribution_keys a) \<inter> set (contribution_keys b) = {})
     \<and> acyclic (edges (dependency_graph ms))
     \<and> distinct (map pf_profile_id ps) \<and> list_all (profile_wf ms) ps"

lemma concat_map_Nil: "concat (map f xs) = [] \<longleftrightarrow> (\<forall>x \<in> set xs. f x = [])"
  by (induction xs) auto

lemma distinct_count_list: "distinct xs \<longleftrightarrow> (\<forall>x \<in> set xs. count_list xs x \<le> 1)"
proof (induction xs)
  case (Cons a xs)
  show ?case
  proof (cases "a \<in> set xs")
    case True
    then have "count_list xs a \<noteq> 0" by (simp add: count_list_0_iff)
    with True show ?thesis by auto
  next
    case False
    then have "count_list xs a = 0" by (simp add: count_list_0_iff)
    with False Cons show ?thesis by auto
  qed
qed simp

lemma duplicate_id_none: "duplicate_id_issues ms = [] \<longleftrightarrow> distinct (map mm_module_id ms)"
  by (auto simp: duplicate_id_issues_def concat_map_Nil Let_def distinct_count_list registered_def not_less)

lemma unknown_grant_none: "unknown_grant_issues ms grants = [] \<longleftrightarrow> fst ` set grants \<subseteq> mm_module_id ` set ms"
proof -
  have "unknown_grant_issues ms grants = []
        \<longleftrightarrow> set (filter (\<lambda>m. m \<notin> set (registered ms)) (map fst grants)) = {}"
    by (simp add: unknown_grant_issues_def flip: set_empty)
  also have "\<dots> \<longleftrightarrow> fst ` set grants \<subseteq> mm_module_id ` set ms" by (auto simp: registered_def)
  finally show ?thesis .
qed

lemma identity_none: "identity_issues m = Inr [] \<longleftrightarrow> identity_wf m \<and> mm_runtime_placements m \<noteq> []"
  by (auto simp: identity_issues_def identity_wf_def Let_def split: sum.splits)

lemma placement_issues_none:
  "fst (placement_issues s granted seen ps) = [] \<longleftrightarrow>
     (\<exists>qs. ps = map Placement qs \<and> distinct qs \<and> set qs \<inter> set seen = {} \<and> set qs \<subseteq> set granted)"
proof (induction s granted seen ps rule: placement_issues.induct)
  case (2 s granted seen x ps)
  then show ?case by (auto simp: Let_def)
next
  case (3 s granted seen p ps)
  show ?case
  proof
    assume "fst (placement_issues s granted seen (Placement p # ps)) = []"
    then obtain qs where "ps = map Placement qs" "distinct qs" "set qs \<inter> set (List.insert p seen) = {}"
      "set qs \<subseteq> set granted" "p \<notin> set seen" "p \<in> set granted"
      using 3 by (auto simp: Let_def)
    then show "\<exists>qs. Placement p # ps = map Placement qs \<and> distinct qs
                  \<and> set qs \<inter> set seen = {} \<and> set qs \<subseteq> set granted"
      by (intro exI [of _ "p # qs"]) auto
  next
    assume "\<exists>qs. Placement p # ps = map Placement qs \<and> distinct qs
               \<and> set qs \<inter> set seen = {} \<and> set qs \<subseteq> set granted"
    then obtain qs where "ps = map Placement qs" "distinct (p # qs)" "set (p # qs) \<inter> set seen = {}"
      "set (p # qs) \<subseteq> set granted" by (auto simp: map_eq_Cons_conv Cons_eq_map_conv)
    with 3 show "fst (placement_issues s granted seen (Placement p # ps)) = []"
      by (auto simp: Let_def)
  qed
qed auto

lemma placement_issues_seen:
  "set (snd (placement_issues s granted seen (map Placement qs))) = set qs \<union> set seen"
  by (induction qs arbitrary: seen) (auto simp: Let_def)


lemma permission_none:
  "permission_issues m seen = [] \<longleftrightarrow>
     permissions_wf m \<and> (set seen \<inter> set DATABASE_WRITE_DENIED_PLACEMENTS \<noteq> {} \<longrightarrow> mm_permissions_write m = [])"
proof -
  have sub: "filter (\<lambda>p. p \<notin> set A) xs = [] \<longleftrightarrow> set xs \<subseteq> set A" for A :: "string list" and xs
    by (auto simp: filter_empty_conv)
  have nil: "sort (remdups xs) = [] \<longleftrightarrow> xs = []" for xs :: "string list"
    by (metis set_empty set_remdups set_sort)
  have writes: "concat (map (\<lambda>p. map (f p) (sort (remdups (mm_permissions_write m))))
          (sort_key placement_value (filter (\<lambda>p. p \<in> set D) seen))) = []
        \<longleftrightarrow> (set seen \<inter> set D \<noteq> {} \<longrightarrow> mm_permissions_write m = [])"
    for f :: "runtime_placement \<Rightarrow> string \<Rightarrow> validation_issue" and D
    by (simp only: concat_map_Nil map_is_Nil_conv nil) auto
  show ?thesis
    unfolding permission_issues_def Let_def permissions_wf_def append_is_Nil_conv map_is_Nil_conv sub
      issue_if_simps writes
    by (simp only: not_not conj_ac)
qed

lemma dependency_none:
  "dependency_issues ms s seen rs = Inr [] \<longleftrightarrow>
     distinct (map mr_module_id rs) \<and> mr_module_id ` set rs \<inter> set seen = {} \<and> (\<forall>r \<in> set rs. requirement_met ms r)"
proof (induction ms s seen rs rule: dependency_issues.induct)
  case (2 ms s seen r rs)
  show ?case
  proof (cases "manifest_by_id ms (mr_module_id r)")
    case None
    then show ?thesis by (simp add: Let_def requirement_met_def bindE_Inr_iff)
  next
    case (Some d)
    show ?thesis
    proof (cases "range_allows (mr_version r) (mm_version d)")
      case (Inl e)
      with Some show ?thesis by (simp add: Let_def requirement_met_def)
    next
      case (Inr ok)
      have "dependency_issues ms s seen (r # rs) = Inr []
            \<longleftrightarrow> mr_module_id r \<notin> set seen \<and> ok \<and> dependency_issues ms s (mr_module_id r # seen) rs = Inr []"
        using Some Inr by (auto simp: Let_def bindE_Inr_iff)
      moreover have "dependency_issues ms s (mr_module_id r # seen) rs = Inr []
            \<longleftrightarrow> distinct (map mr_module_id rs) \<and> mr_module_id ` set rs \<inter> set (mr_module_id r # seen) = {}
                \<and> (\<forall>r \<in> set rs. requirement_met ms r)"
        using 2 Some Inr by (simp add: Let_def)
      moreover have "requirement_met ms r \<longleftrightarrow> ok"
        using Some Inr by (simp add: requirement_met_def)
      ultimately show ?thesis unfolding list.map list.set distinct.simps by auto
    qed
  qed
qed simp

lemma contribution_owners_after:
  "map_of (snd (contribution_issues s local owners cs)) k =
     (case map_of owners k of Some own \<Rightarrow> Some own
      | None \<Rightarrow> if k \<in> contribution_key ` set cs then Some s else None)"
  by (induction s local owners cs rule: contribution_issues.induct)
    (auto simp: Let_def split: option.splits)

lemma contribution_step:
  "fst (contribution_issues s local owners (c # cs)) = [] \<longleftrightarrow>
     is_identifier (co_identifier c) \<and> contribution_key c \<notin> set local
     \<and> map_of owners (contribution_key c) \<in> {None, Some s}
     \<and> fst (contribution_issues s (contribution_key c # local)
              (case map_of owners (contribution_key c) of
                 None \<Rightarrow> (contribution_key c, s) # owners | Some _ \<Rightarrow> owners) cs) = []"
  unfolding contribution_issues.simps Let_def fst_conv append_is_Nil_conv issue_if_simps
  by (cases "map_of owners (contribution_key c)") auto

lemma contribution_none:
  "fst (contribution_issues s local owners cs) = [] \<longleftrightarrow>
     (\<forall>c \<in> set cs. is_identifier (co_identifier c)) \<and> distinct (map contribution_key cs)
     \<and> contribution_key ` set cs \<inter> set local = {}
     \<and> (\<forall>k \<in> contribution_key ` set cs. map_of owners k \<in> {None, Some s})"
proof (induction cs arbitrary: local owners)
  case (Cons c cs)
  let ?k = "contribution_key c"
  let ?o = "case map_of owners ?k of None \<Rightarrow> (?k, s) # owners | Some _ \<Rightarrow> owners"
  have lookup: "map_of ?o k = (if k = ?k \<and> map_of owners ?k = None then Some s else map_of owners k)" for k
    by (cases "map_of owners ?k") auto
  have later: "(\<forall>k \<in> contribution_key ` set cs. map_of ?o k \<in> {None, Some s}) \<longleftrightarrow>
        (\<forall>k \<in> contribution_key ` set cs. map_of owners k \<in> {None, Some s})"
    if "map_of owners ?k \<in> {None, Some s}"
    using that by (simp only: lookup) auto
  show ?case
    unfolding contribution_step Cons.IH
    using later by auto
qed simp


definition owns_all :: "(contribution_key \<times> string) list \<Rightarrow> module_manifest \<Rightarrow> bool" where
  "owns_all owners m \<longleftrightarrow>
     (\<forall>k \<in> set (contribution_keys m). map_of owners k \<in> {None, Some (mm_module_id m)})"

lemma manifest_issues_shape:
  "manifest_issues ms grants owners m = Inr (is, owners') \<Longrightarrow>
     owners' = snd (contribution_issues (mm_module_id m) [] owners (mm_contributions m))"
  by (auto simp: manifest_issues_def Let_def bindE_Inr_iff)

lemma manifest_parts:
  "(\<exists>owners'. manifest_issues ms grants owners m = Inr ([], owners')) \<longleftrightarrow>
     identity_issues m = Inr [] \<and> map_of grants (mm_module_id m) \<noteq> None
     \<and> fst (placement_issues (mm_module_id m) (the (map_of grants (mm_module_id m))) []
          (mm_runtime_placements m)) = []
     \<and> permission_issues m (snd (placement_issues (mm_module_id m)
          (the (map_of grants (mm_module_id m))) [] (mm_runtime_placements m))) = []
     \<and> dependency_issues ms (mm_module_id m) [] (mm_requires_modules m) = Inr []
     \<and> fst (contribution_issues (mm_module_id m) [] owners (mm_contributions m)) = []"
  unfolding manifest_issues_def Let_def bindE_Inr_iff prod.inject sum.inject append_is_Nil_conv
    issue_if_simps
  by (cases "map_of grants (mm_module_id m)"; simp only: option.case option.sel; blast)

lemma placements_none:
  "mm_runtime_placements m \<noteq> []
   \<and> fst (placement_issues s g [] (mm_runtime_placements m)) = []
   \<and> permission_issues m (snd (placement_issues s g [] (mm_runtime_placements m))) = [] \<longleftrightarrow>
     placements_wf g m \<and> permissions_wf m"
  unfolding placement_issues_none placements_wf_def permission_none
  using placement_issues_seen [of s g "[]"] by (auto 0 4)

lemma manifest_none:
  "(\<exists>owners'. manifest_issues ms grants owners m = Inr ([], owners')) \<longleftrightarrow>
     manifest_wf ms grants m \<and> owns_all owners m"
proof (cases "map_of grants (mm_module_id m)")
  case None
  then show ?thesis unfolding manifest_parts manifest_wf_def by simp
next
  case (Some g)
  have c: "fst (contribution_issues (mm_module_id m) [] owners (mm_contributions m)) = [] \<longleftrightarrow>
      (\<forall>c \<in> set (mm_contributions m). is_identifier (co_identifier c))
      \<and> distinct (contribution_keys m) \<and> owns_all owners m"
    unfolding contribution_none owns_all_def contribution_keys_def by simp
  have d: "dependency_issues ms (mm_module_id m) [] (mm_requires_modules m) = Inr [] \<longleftrightarrow>
      distinct (required_ids m) \<and> (\<forall>r \<in> set (mm_requires_modules m). requirement_met ms r)"
    unfolding dependency_none required_ids_def by simp
  show ?thesis
    unfolding manifest_parts c d identity_none manifest_wf_def
    using placements_none [of m "mm_module_id m" g] by (simp add: Some) blast
qed


definition apart :: "module_manifest \<Rightarrow> module_manifest \<Rightarrow> bool" where
  "apart a b \<longleftrightarrow> mm_module_id a \<noteq> mm_module_id b \<longrightarrow>
     set (contribution_keys a) \<inter> set (contribution_keys b) = {}"

lemma apart_sym: "apart a b \<Longrightarrow> apart b a"
  by (auto simp: apart_def)

lemma apart_self [simp]: "apart a a"
  by (simp add: apart_def)

lemma owns_all_after:
  assumes "manifest_issues ms grants owners m = Inr (is, owners')" "owns_all owners m"
  shows "owns_all owners' b \<longleftrightarrow> owns_all owners b \<and> apart m b"
proof -
  have at: "map_of owners' k \<in> {None, Some (mm_module_id b)} \<longleftrightarrow>
      map_of owners k \<in> {None, Some (mm_module_id b)}
      \<and> (k \<in> set (contribution_keys m) \<longrightarrow> mm_module_id m = mm_module_id b)" for k
  proof (cases "map_of owners k")
    case None
    then show ?thesis
      by (simp add: manifest_issues_shape [OF assms(1)] contribution_owners_after contribution_keys_def)
  next
    case (Some own)
    with assms(2) show ?thesis
      by (auto simp: manifest_issues_shape [OF assms(1)] contribution_owners_after owns_all_def)
  qed
  show ?thesis unfolding owns_all_def at apart_def by auto
qed

lemma manifests_none:
  "manifests_issues ms grants owners xs = Inr [] \<longleftrightarrow>
     (\<forall>m \<in> set xs. manifest_wf ms grants m \<and> owns_all owners m) \<and> (\<forall>a \<in> set xs. \<forall>b \<in> set xs. apart a b)"
proof (induction xs arbitrary: owners)
  case (Cons m xs)
  have step: "manifests_issues ms grants owners (m # xs) = Inr [] \<longleftrightarrow>
      (\<exists>owners'. manifest_issues ms grants owners m = Inr ([], owners')
         \<and> manifests_issues ms grants owners' xs = Inr [])"
    by (auto simp: bindE_Inr_iff)
  show ?case
  proof (cases "manifest_wf ms grants m \<and> owns_all owners m")
    case True
    then obtain owners' where o: "manifest_issues ms grants owners m = Inr ([], owners')"
      using manifest_none by blast
    from True have *: "owns_all owners' b \<longleftrightarrow> owns_all owners b \<and> apart m b" for b
      by (intro owns_all_after [OF o]) simp
    show ?thesis
      unfolding step using True o by (simp add: Cons.IH *) (blast intro: apart_sym)
  next
    case False
    then show ?thesis unfolding step using manifest_none [of ms grants owners m] by auto
  qed
qed simp

lemma cycle_none: "cycle_issues ms = [] \<longleftrightarrow> acyclic (edges (dependency_graph ms))"
proof -
  have "cycle_nodes ms \<subseteq> set (registered ms)"
  proof
    fix x assume "x \<in> cycle_nodes ms"
    from trancl_dom [OF cycle_nodes_on_cycle [OF this]]
    have "map_of (dependency_graph ms) x \<noteq> None"
      by (cases "map_of (dependency_graph ms) x") (simp_all add: edges_def successors_def)
    then show "x \<in> set (registered ms)"
      by (auto simp: map_of_eq_None_iff dependency_graph_def)
  qed
  then have "cycle_issues ms = [] \<longleftrightarrow> cycle_nodes ms = {}"
    by (auto simp: cycle_issues_def Let_def simp flip: set_empty)
  also have "\<dots> \<longleftrightarrow> acyclic (edges (dependency_graph ms))"
    using cycle_nodes_empty_acyclic cycle_nodes_on_cycle by (auto simp: acyclic_def)
  finally show ?thesis .
qed

lemma profile_modules_none:
  "profile_module_issues ms p m = [] \<longleftrightarrow>
     (\<exists>d. manifest_by_id ms m = Some d \<and> set (required_ids d) \<subseteq> set (pf_module_ids p))"
  by (auto simp: profile_module_issues_def filter_empty_conv split: option.splits)

lemma profiles_none:
  "profiles_issues ms seen ps = [] \<longleftrightarrow>
     (\<forall>p \<in> set ps. profile_wf ms p) \<and> distinct (map pf_profile_id ps)
     \<and> pf_profile_id ` set ps \<inter> set seen = {}"
proof (induction ms seen ps rule: profiles_issues.induct)
  case (2 ms seen p ps)
  have IH: "profiles_issues ms (pf_profile_id p # seen) ps = [] \<longleftrightarrow>
     (\<forall>p \<in> set ps. profile_wf ms p) \<and> distinct (map pf_profile_id ps)
     \<and> pf_profile_id ` set ps \<inter> set (pf_profile_id p # seen) = {}" by (rule 2 [OF refl])
  show ?case
    unfolding profiles_issues.simps Let_def append_is_Nil_conv issue_if_simps concat_map_Nil
      profile_modules_none IH set_sort set_remdups profile_wf_def not_not
    by auto
qed simp

lemma sort_key_Nil [simp]: "sort_key f xs = [] \<longleftrightarrow> xs = []"
  by (metis length_0_conv length_sort)

lemma distinct_sort_key: "distinct (map f (sort_key g xs)) \<longleftrightarrow> distinct (map f xs)"
  by (simp add: distinct_map)

lemma inspect_compatible:
  "(\<exists>i. inspect_registry H ms ps grants = Inr i \<and> compatible i) \<longleftrightarrow> registry_wf ms ps grants"
proof -
  have "(\<exists>i. inspect_registry H ms ps grants = Inr i \<and> compatible i) \<longleftrightarrow>
      duplicate_id_issues ms = [] \<and> unknown_grant_issues ms grants = []
      \<and> manifests_issues ms grants [] (sorted_manifests ms) = Inr []
      \<and> cycle_issues ms = [] \<and> profiles_issues ms [] (sort_key pf_profile_id ps) = []"
    by (auto simp: inspect_registry_def bindE_Inr_iff Let_def compatible_def)
  also have "\<dots> \<longleftrightarrow> registry_wf ms ps grants"
    unfolding duplicate_id_none unknown_grant_none manifests_none cycle_none profiles_none
      registry_wf_def sorted_manifests_def distinct_sort_key set_sort
    by (auto simp: owns_all_def apart_def list_all_iff)
  finally show ?thesis .
qed

lemma from_source_controlled_ok:
  "from_source_controlled H ms ps grants = Inr r \<longleftrightarrow>
     registry_wf ms ps grants
     \<and> r = \<lparr>rg_manifests = sort_key mm_module_id ms, rg_profiles = sort_key pf_profile_id ps,
            rg_placement_grants = grants,
            rg_combined_module_version = combined_version H (registry_payload ms ps grants)\<rparr>"
proof -
  have version: "inspect_registry H ms ps grants = Inr i \<Longrightarrow>
      ri_combined_module_version i = combined_version H (registry_payload ms ps grants)" for i
    by (auto simp: inspect_registry_def bindE_Inr_iff Let_def)
  show ?thesis
    unfolding inspect_compatible [of H, symmetric] from_source_controlled_def bindE_Inr_iff
      require_compatible_def compatible_def
    using version by auto
qed

end
