(* ===== verification/Composition.thy ===== *)
theory Composition
  imports Inspection
begin

text \<open>
  \<open>application/module_registry.py\<close>: \<open>BuiltInModuleRegistry.compose\<close> and the composition
  health report. States and reasons are the dictionaries of the code; the \<open>while changed\<close>
  loop is the recursive function \<open>settle\<close>, whose measure counts the ENABLED modules.
\<close>

section \<open>Data\<close>

record kernel_boundary_health =
  kb_canonical_store :: string
  kb_observation_ledger :: string
  kb_semantic_authority :: string
  kb_recall_contract :: string
  kb_raw_sql_pluggable :: bool

definition kernel_boundary :: kernel_boundary_health where
  "kernel_boundary =
     \<lparr>kb_canonical_store = ''postgres'', kb_observation_ledger = ''fixed_kernel_contract'',
      kb_semantic_authority = ''fixed_kernel_contract'',
      kb_recall_contract = ''fixed_kernel_contract'', kb_raw_sql_pluggable = False\<rparr>"

record composition_report =
  cr_profile_ids :: "string list"
  cr_artifact_identity :: string
  cr_combined_module_version :: string
  cr_overall_state :: module_state
  cr_kernel :: kernel_boundary_health
  cr_modules :: "module_health list"

definition assert_artifact_identity :: "composition_report \<Rightarrow> string \<Rightarrow> registry_error + unit" where
  "assert_artifact_identity r identity =
     (if identity = cr_artifact_identity r then Inr ()
      else if identity = RESERVED_DESKTOP_IDENTITY
      then Inl (ReleaseIdentityError
        (''desktop_full is reserved for the later SQL-12A signed release ''
         @ ''profile; PR-00A developer compositions cannot claim it''))
      else Inl (ReleaseIdentityError (''unknown artifact identity '' @ py_repr identity)))"

text \<open>The dictionaries of the registry keep the last entry of an id.\<close>

definition rg_profile :: "module_registry \<Rightarrow> string \<Rightarrow> profile_definition option" where
  "rg_profile g p = find (\<lambda>d. pf_profile_id d = p) (rev (rg_profiles g))"

definition rg_manifest :: "module_registry \<Rightarrow> string \<Rightarrow> module_manifest option" where
  "rg_manifest g m = find (\<lambda>d. mm_module_id d = m) (rev (rg_manifests g))"

section \<open>The settling loop\<close>

record composing =
  cp_states :: "string \<Rightarrow> module_state option"
  cp_reasons :: "string \<Rightarrow> string option"

definition unavailable :: "composing \<Rightarrow> module_manifest \<Rightarrow> string list" where
  "unavailable c m =
     sort (filter (\<lambda>d. cp_states c d \<noteq> Some ENABLED) (required_ids m))"

definition degrade :: "string \<Rightarrow> string list \<Rightarrow> composing \<Rightarrow> composing" where
  "degrade m missing c =
     \<lparr>cp_states = (cp_states c)(m \<mapsto> DEGRADED),
      cp_reasons = (cp_reasons c)(m \<mapsto> ''dependency unavailable: '' @ join '', '' missing)\<rparr>"

text \<open>
  One pass over \<open>sorted(selected)\<close>; the flag is \<open>changed\<close>. A selected module without a
  manifest is the \<open>KeyError\<close> of \<open>_manifests_by_id[module_id]\<close>, here \<open>Inl\<close> its id.
\<close>

fun settle_pass ::
  "(string \<Rightarrow> module_manifest option) \<Rightarrow> string list \<Rightarrow> composing \<Rightarrow> string + (composing \<times> bool)" where
  "settle_pass f [] c = Inr (c, False)"
| "settle_pass f (m # ms) c =
     (if cp_states c m \<noteq> Some ENABLED then settle_pass f ms c
      else
        (case f m of
           None \<Rightarrow> Inl m
         | Some manifest \<Rightarrow>
             (if unavailable c manifest \<noteq> []
              then bindE (settle_pass f ms (degrade m (unavailable c manifest) c))
                     (\<lambda>(c', _). Inr (c', True))
              else settle_pass f ms c)))"

definition enabled_in :: "string list \<Rightarrow> composing \<Rightarrow> string set" where
  "enabled_in sel c = {m \<in> set sel. cp_states c m = Some ENABLED}"

lemma finite_enabled_in [simp]: "finite (enabled_in sel c)"
  by (simp add: enabled_in_def)

lemma enabled_in_degrade [simp]: "enabled_in sel (degrade m d c) = enabled_in sel c - {m}"
  by (auto simp: enabled_in_def degrade_def)

definition enabled :: "composing \<Rightarrow> string set" where
  "enabled c = {m. cp_states c m = Some ENABLED}"

lemma unavailable_Nil: "unavailable c m = [] \<longleftrightarrow> set (required_ids m) \<subseteq> enabled c"
  by (auto simp: unavailable_def enabled_def filter_empty_conv)

lemma enabled_degrade [simp]: "enabled (degrade m d c) = enabled c - {m}"
  by (auto simp: enabled_def degrade_def)

lemma enabled_in_enabled: "enabled_in sel c = set sel \<inter> enabled c"
  by (auto simp: enabled_in_def enabled_def)

lemma settle_pass_step:
  assumes "settle_pass f (m # ms) c = Inr (c', b)"
  obtains (skip) "m \<notin> enabled c" "settle_pass f ms c = Inr (c', b)"
    | (keep) d where "m \<in> enabled c" "f m = Some d" "set (required_ids d) \<subseteq> enabled c"
        "settle_pass f ms c = Inr (c', b)"
    | (drop) d b' where "m \<in> enabled c" "f m = Some d" "\<not> set (required_ids d) \<subseteq> enabled c"
        "settle_pass f ms (degrade m (unavailable c d) c) = Inr (c', b')" "b"
proof (cases "m \<in> enabled c")
  case False
  with assms show ?thesis by (intro skip) (simp_all add: enabled_def)
next
  case True
  with assms obtain d where d: "f m = Some d" by (cases "f m") (simp_all add: enabled_def)
  show ?thesis
  proof (cases "unavailable c d = []")
    case True
    with assms d \<open>m \<in> enabled c\<close> have "settle_pass f ms c = Inr (c', b)"
      by (simp add: enabled_def)
    moreover from True have "set (required_ids d) \<subseteq> enabled c" by (simp only: unavailable_Nil)
    ultimately show ?thesis using d \<open>m \<in> enabled c\<close> by (intro keep)
  next
    case False
    with assms d \<open>m \<in> enabled c\<close> obtain b' where
      "settle_pass f ms (degrade m (unavailable c d) c) = Inr (c', b')" "b"
      by (auto simp: bindE_Inr_iff enabled_def)
    moreover from False have "\<not> set (required_ids d) \<subseteq> enabled c" by (metis unavailable_Nil)
    ultimately show ?thesis using d \<open>m \<in> enabled c\<close> by (metis drop)
  qed
qed

lemma settle_pass_enabled:
  "settle_pass f ms c = Inr (c', b) \<Longrightarrow> set ms \<subseteq> set sel \<Longrightarrow>
     enabled_in sel c' \<subseteq> enabled_in sel c \<and> (b \<longrightarrow> enabled_in sel c' \<subset> enabled_in sel c)
     \<and> (\<not> b \<longrightarrow> c' = c)"
proof (induction ms arbitrary: c b)
  case (Cons m ms)
  from Cons.prems(2) have sub: "set ms \<subseteq> set sel" "m \<in> set sel" by auto
  from Cons.prems(1) show ?case
  proof (cases rule: settle_pass_step)
    case (drop d b')
    from Cons.IH [OF drop(4) sub(1)] have "enabled_in sel c' \<subseteq> enabled_in sel c - {m}" by simp
    moreover from drop(1) sub(2) have "m \<in> enabled_in sel c" by (simp add: enabled_in_enabled)
    ultimately show ?thesis using drop(5) by blast
  qed (use Cons.IH [OF _ sub(1)] in \<open>simp_all\<close>)
qed simp

function settle ::
  "(string \<Rightarrow> module_manifest option) \<Rightarrow> string list \<Rightarrow> composing \<Rightarrow> string + composing" where
  "settle f sel c =
     (case settle_pass f sel c of
        Inl m \<Rightarrow> Inl m
      | Inr (c', changed) \<Rightarrow> if changed then settle f sel c' else Inr c')"
  by pat_completeness auto
termination
  by (relation "measure (\<lambda>(_, sel, c). card (enabled_in sel c))")
    (auto intro!: psubset_card_mono dest: settle_pass_enabled [OF _ subset_refl])

declare settle.simps [simp del]

text \<open>
  The loop computes the greatest set of enabled modules that is closed under requirements.
\<close>

definition closed_under :: "(string \<Rightarrow> module_manifest option) \<Rightarrow> string set \<Rightarrow> bool" where
  "closed_under f S \<longleftrightarrow> (\<forall>m \<in> S. \<forall>d. f m = Some d \<longrightarrow> set (required_ids d) \<subseteq> S)"

definition narrows :: "(string \<Rightarrow> module_manifest option) \<Rightarrow> composing \<Rightarrow> composing \<Rightarrow> bool" where
  "narrows f c c' \<longleftrightarrow>
     enabled c' \<subseteq> enabled c
     \<and> (\<forall>S. S \<subseteq> enabled c \<longrightarrow> closed_under f S \<longrightarrow> S \<subseteq> enabled c')
     \<and> (\<forall>m. m \<notin> enabled c \<longrightarrow> cp_states c' m = cp_states c m \<and> cp_reasons c' m = cp_reasons c m)
     \<and> (\<forall>m \<in> enabled c - enabled c'. cp_states c' m = Some DEGRADED)"

lemma narrows_refl [simp]: "narrows f c c"
  by (simp add: narrows_def)

lemma narrowsD:
  assumes "narrows f c c'"
  shows "enabled c' \<subseteq> enabled c"
    and "S \<subseteq> enabled c \<Longrightarrow> closed_under f S \<Longrightarrow> S \<subseteq> enabled c'"
    and "m \<notin> enabled c \<Longrightarrow> cp_states c' m = cp_states c m"
    and "m \<notin> enabled c \<Longrightarrow> cp_reasons c' m = cp_reasons c m"
    and "m \<in> enabled c \<Longrightarrow> m \<notin> enabled c' \<Longrightarrow> cp_states c' m = Some DEGRADED"
  using assms by (simp_all add: narrows_def)

lemma narrows_trans:
  assumes 1: "narrows f a b" and 2: "narrows f b c"
  shows "narrows f a c"
  unfolding narrows_def
proof (intro conjI allI impI ballI)
  show "enabled c \<subseteq> enabled a" using narrowsD(1) [OF 1] narrowsD(1) [OF 2] by simp
  show "S \<subseteq> enabled c" if "S \<subseteq> enabled a" "closed_under f S" for S
    using narrowsD(2) [OF 2 narrowsD(2) [OF 1 that] that(2)] .
  fix m
  show "cp_states c m = cp_states a m" "cp_reasons c m = cp_reasons a m" if "m \<notin> enabled a"
  proof -
    from that narrowsD(1) [OF 1] have b: "m \<notin> enabled b" by auto
    show "cp_states c m = cp_states a m" using narrowsD(3) [OF 1 that] narrowsD(3) [OF 2 b] by simp
    show "cp_reasons c m = cp_reasons a m" using narrowsD(4) [OF 1 that] narrowsD(4) [OF 2 b] by simp
  qed
  show "cp_states c m = Some DEGRADED" if m: "m \<in> enabled a - enabled c"
  proof (cases "m \<in> enabled b")
    case True
    with m narrowsD(5) [OF 2] show ?thesis by simp
  next
    case False
    with m narrowsD(5) [OF 1] narrowsD(3) [OF 2 False] show ?thesis by simp
  qed
qed

lemma narrows_degrade:
  assumes "m \<in> enabled c" "f m = Some d" "\<not> set (required_ids d) \<subseteq> enabled c"
  shows "narrows f c (degrade m x c)"
  unfolding narrows_def
proof (intro conjI allI impI ballI)
  show "S \<subseteq> enabled (degrade m x c)" if "S \<subseteq> enabled c" "closed_under f S" for S
    using that assms by (auto simp: closed_under_def)
qed (use assms in \<open>auto simp: enabled_def degrade_def\<close>)

lemma settle_pass_narrows: "settle_pass f ms c = Inr (c', b) \<Longrightarrow> narrows f c c'"
proof (induction ms arbitrary: c b)
  case (Cons m ms)
  from Cons.prems show ?case
  proof (cases rule: settle_pass_step)
    case (drop d b')
    from narrows_trans [OF narrows_degrade [of m c f d, OF drop(1-3)] Cons.IH [OF drop(4)]] show ?thesis .
  qed (use Cons.IH in blast)+
qed simp

lemma settle_pass_fixed:
  "settle_pass f ms c = Inr (c', False) \<Longrightarrow>
     c' = c \<and> (\<forall>m \<in> set ms \<inter> enabled c. \<exists>d. f m = Some d \<and> set (required_ids d) \<subseteq> enabled c)"
proof (induction ms arbitrary: c)
  case (Cons m ms)
  from Cons.prems show ?case by (cases rule: settle_pass_step) (use Cons.IH in \<open>auto\<close>)
qed simp

lemma settle_spec:
  "settle f sel c = Inr c' \<Longrightarrow>
     narrows f c c' \<and> (\<forall>m \<in> set sel \<inter> enabled c'. \<exists>d. f m = Some d \<and> set (required_ids d) \<subseteq> enabled c')"
proof (induction f sel c rule: settle.induct)
  case (1 f sel c)
  from "1.prems" obtain c1 b where p: "settle_pass f sel c = Inr (c1, b)"
    and rest: "(if b then settle f sel c1 else Inr c1) = Inr c'"
    by (subst (asm) settle.simps) (auto split: sum.splits prod.splits)
  show ?case
  proof (cases b)
    case True
    with rest have r: "settle f sel c1 = Inr c'" by simp
    from "1.IH" [OF p refl True r] narrows_trans [OF settle_pass_narrows [OF p]] show ?thesis by simp
  next
    case False
    with rest p have q: "settle_pass f sel c = Inr (c', False)" by simp
    from settle_pass_fixed [OF q] settle_pass_narrows [OF q] show ?thesis by simp
  qed
qed

text \<open>The loop returns when every selected module has a manifest.\<close>

lemma settle_pass_total:
  "\<forall>m \<in> set ms. f m \<noteq> None \<Longrightarrow> \<exists>c' b. settle_pass f ms c = Inr (c', b)"
proof (induction ms arbitrary: c)
  case (Cons m ms)
  then obtain d where d: "f m = Some d" by auto
  from Cons have IH: "\<exists>c' b. settle_pass f ms c = Inr (c', b)" for c by simp
  from IH [of c] IH [of "degrade m (unavailable c d) c"] d show ?case
    by (cases "unavailable c d = []"; cases "cp_states c m = Some ENABLED") (auto split: prod.splits)
qed auto

lemma settle_total: "\<forall>m \<in> set sel. f m \<noteq> None \<Longrightarrow> \<exists>r. settle f sel c = Inr r"
proof (induction f sel c rule: settle.induct)
  case (1 f sel c)
  from settle_pass_total [OF "1.prems", of c] obtain c1 b where p: "settle_pass f sel c = Inr (c1, b)"
    by auto
  with "1.IH" [OF p refl _ "1.prems"] show ?case
    by (subst settle.simps) (auto split: sum.splits prod.splits)
qed

section \<open>Composition\<close>

datatype compose_error = Registry registry_error | MissingManifest string

definition compose_fail :: "string \<Rightarrow> compose_error + 'a" where
  "compose_fail message = Inl (Registry (ProfileCompositionError message))"

definition requested_profiles :: "module_registry \<Rightarrow> string list \<Rightarrow> string list" where
  "requested_profiles g profile_ids =
     sort (remdups (profile_ids @ (if rg_profile g ''core'' \<noteq> None then [''core''] else [])))"

definition selected_modules :: "module_registry \<Rightarrow> string list \<Rightarrow> string list" where
  "selected_modules g profiles =
     sort (remdups (concat (map (\<lambda>p. case rg_profile g p of None \<Rightarrow> [] | Some d \<Rightarrow> pf_module_ids d)
                              profiles)))"

definition outside :: "string list \<Rightarrow> string list \<Rightarrow> string list" where
  "outside selected ms = sort (remdups (filter (\<lambda>m. m \<notin> set selected) ms))"

definition compose_checks ::
  "module_registry \<Rightarrow> string list \<Rightarrow> string list \<Rightarrow> (string \<times> string) list
   \<Rightarrow> compose_error + string list \<times> string list" where
  "compose_checks g profile_ids disabled degraded =
     (let ordered = requested_profiles g profile_ids;
          unknown = filter (\<lambda>p. rg_profile g p = None) ordered;
          selected = selected_modules g ordered;
          overlap = sort (remdups (filter (\<lambda>m. m \<in> fst ` set degraded) disabled))
      in if profile_ids = []
         then compose_fail ''at least one source-controlled profile is required''
         else if unknown \<noteq> []
         then compose_fail (''unknown source-controlled profile: '' @ join '', '' unknown)
         else if outside selected disabled \<noteq> []
         then compose_fail (''cannot disable modules outside the selected profiles: ''
                            @ join '', '' (outside selected disabled))
         else if outside selected (map fst degraded) \<noteq> []
         then compose_fail (''cannot degrade modules outside the selected profiles: ''
                            @ join '', '' (outside selected (map fst degraded)))
         else if overlap \<noteq> []
         then compose_fail (''a module cannot be both disabled and degraded: '' @ join '', '' overlap)
         else if \<exists>r \<in> set degraded. strip (snd r) = ''''
         then compose_fail ''degraded module reasons cannot be empty''
         else Inr (ordered, selected))"

definition initial_composing ::
  "string list \<Rightarrow> string list \<Rightarrow> (string \<times> string) list \<Rightarrow> composing" where
  "initial_composing selected disabled degraded =
     \<lparr>cp_states = (\<lambda>m. if m \<notin> set selected then None
                      else if m \<in> set disabled then Some DISABLED
                      else if m \<in> fst ` set degraded then Some DEGRADED else Some ENABLED),
      cp_reasons = (\<lambda>m. if m \<notin> set selected then None
                       else if m \<in> set disabled then Some ''disabled by developer composition''
                       else case map_of degraded m of
                              Some reason \<Rightarrow> Some reason
                            | None \<Rightarrow> Some ''selected and compatible'')\<rparr>"

definition composed_health :: "composing \<Rightarrow> module_manifest \<Rightarrow> module_health" where
  "composed_health c m =
     \<lparr>mh_module_id = mm_module_id m, mh_version = version_str (mm_version m),
      mh_state = (case cp_states c (mm_module_id m) of None \<Rightarrow> DISABLED | Some s \<Rightarrow> s),
      mh_reason = (case cp_reasons c (mm_module_id m) of
                     None \<Rightarrow> ''not selected by profile'' | Some r \<Rightarrow> r)\<rparr>"

definition composition_payload ::
  "module_registry \<Rightarrow> string list \<Rightarrow> module_health list \<Rightarrow> json" where
  "composition_payload g profiles health =
     JObj [(''registry'', JStr (rg_combined_module_version g)),
           (''profiles'', JList (map JStr profiles)),
           (''modules'', JList (map (\<lambda>h. JObj [(''id'', JStr (mh_module_id h)),
                                                (''version'', JStr (mh_version h)),
                                                (''state'', JStr (module_state_value (mh_state h)))])
                                health))]"

definition composed_report ::
  "hash \<Rightarrow> module_registry \<Rightarrow> string list \<Rightarrow> string list \<Rightarrow> composing \<Rightarrow> composition_report" where
  "composed_report H g ordered selected c =
     (let health = map (composed_health c) (rg_manifests g)
      in \<lparr>cr_profile_ids = ordered, cr_artifact_identity = DEVELOPER_ARTIFACT_IDENTITY,
          cr_combined_module_version = combined_version H (composition_payload g ordered health),
          cr_overall_state =
            (if \<exists>h \<in> set health. mh_module_id h \<in> set selected \<and> mh_state h \<noteq> ENABLED
             then DEGRADED else ENABLED),
          cr_kernel = kernel_boundary, cr_modules = health\<rparr>)"

definition compose ::
  "hash \<Rightarrow> module_registry \<Rightarrow> string list \<Rightarrow> string list \<Rightarrow> (string \<times> string) list
   \<Rightarrow> compose_error + composition_report" where
  "compose H g profile_ids disabled degraded =
     bindE (compose_checks g profile_ids disabled degraded) (\<lambda>(ordered, selected).
     case settle (rg_manifest g) selected (initial_composing selected disabled degraded) of
       Inl m \<Rightarrow> Inl (MissingManifest m)
     | Inr c \<Rightarrow> Inr (composed_report H g ordered selected c))"

section \<open>What a composition reports\<close>

text \<open>A module that is selected and neither disabled nor degraded by the caller.\<close>

definition admitted ::
  "module_registry \<Rightarrow> string list \<Rightarrow> string list \<Rightarrow> (string \<times> string) list \<Rightarrow> string set" where
  "admitted g profile_ids disabled degraded =
     set (selected_modules g (requested_profiles g profile_ids)) - set disabled - fst ` set degraded"

lemma compose_checks_Inr:
  "compose_checks g ps dis deg = Inr (ordered, selected) \<Longrightarrow>
     ordered = requested_profiles g ps \<and> selected = selected_modules g ordered \<and> ps \<noteq> []
     \<and> set dis \<subseteq> set selected \<and> fst ` set deg \<subseteq> set selected \<and> set dis \<inter> fst ` set deg = {}"
  by (auto simp: compose_checks_def compose_fail_def Let_def outside_def filter_empty_conv split: if_splits)

lemma enabled_initial:
  "enabled (initial_composing selected dis deg) = set selected - set dis - fst ` set deg"
  by (auto simp: enabled_def initial_composing_def)

lemma compose_Inr:
  assumes "compose H g ps dis deg = Inr r"
  obtains c where
    "settle (rg_manifest g) (selected_modules g (requested_profiles g ps))
       (initial_composing (selected_modules g (requested_profiles g ps)) dis deg) = Inr c"
    "r = composed_report H g (requested_profiles g ps)
           (selected_modules g (requested_profiles g ps)) c"
    "compose_checks g ps dis deg
       = Inr (requested_profiles g ps, selected_modules g (requested_profiles g ps))"
proof -
  from assms obtain ordered selected where k: "compose_checks g ps dis deg = Inr (ordered, selected)"
    and rest: "(case settle (rg_manifest g) selected (initial_composing selected dis deg) of
       Inl m \<Rightarrow> Inl (MissingManifest m)
     | Inr c \<Rightarrow> Inr (composed_report H g ordered selected c)) = Inr r"
    unfolding compose_def bindE_Inr_iff by auto
  from compose_checks_Inr [OF k] have o: "ordered = requested_profiles g ps"
    "selected = selected_modules g (requested_profiles g ps)" by auto
  from rest obtain c where c: "settle (rg_manifest g) selected (initial_composing selected dis deg) = Inr c"
    by (cases "settle (rg_manifest g) selected (initial_composing selected dis deg)") simp_all
  with rest k o show ?thesis by (intro that [of c]) simp_all
qed

text \<open>
  A module is reported ENABLED exactly when it belongs to some set of admitted modules that is
  closed under requirements: composition keeps the greatest such set.
\<close>

lemma compose_enabled_greatest:
  assumes "compose H g ps dis deg = Inr r" "h \<in> set (cr_modules r)"
  shows "mh_state h = ENABLED \<longleftrightarrow>
     (\<exists>S. mh_module_id h \<in> S \<and> S \<subseteq> admitted g ps dis deg \<and> closed_under (rg_manifest g) S)"
proof -
  let ?sel = "selected_modules g (requested_profiles g ps)"
  obtain c where c: "settle (rg_manifest g) ?sel (initial_composing ?sel dis deg) = Inr c"
    and r: "r = composed_report H g (requested_profiles g ps) ?sel c"
    using assms(1) by (rule compose_Inr)
  have mods: "cr_modules r = map (composed_health c) (rg_manifests g)"
    by (simp add: r composed_report_def Let_def)
  note spec = settle_spec [OF c]
  from assms(2) mods obtain m where h: "h = composed_health c m" by auto
  have state: "mh_state h = ENABLED \<longleftrightarrow> mh_module_id h \<in> enabled c"
    by (auto simp: h composed_health_def enabled_def split: option.splits)
  have init: "enabled (initial_composing ?sel dis deg) = admitted g ps dis deg"
    by (simp add: enabled_initial admitted_def)
  note n = narrowsD(1,2) [OF conjunct1 [OF spec], unfolded init]
  have "closed_under (rg_manifest g) (enabled c)"
    unfolding closed_under_def
  proof (intro ballI allI impI)
    fix m d assume m: "m \<in> enabled c" "rg_manifest g m = Some d"
    with n(1) have "m \<in> set ?sel" by (auto simp: admitted_def)
    with m bspec [OF conjunct2 [OF spec], of m] show "set (required_ids d) \<subseteq> enabled c" by simp
  qed
  with n state show ?thesis by blast
qed


lemma accepted_selected:
  assumes "from_source_controlled H ms prs grants = Inr g" "m \<in> set (selected_modules g profiles)"
  shows "rg_manifest g m \<noteq> None"
proof -
  from assms(1) have wf: "registry_wf ms prs grants" and g: "rg_manifests g = sort_key mm_module_id ms"
    "rg_profiles g = sort_key pf_profile_id prs"
    by (simp_all add: from_source_controlled_ok)
  from assms(2) obtain p where "m \<in> set (case rg_profile g p of None \<Rightarrow> [] | Some d \<Rightarrow> pf_module_ids d)"
    unfolding selected_modules_def by auto
  then obtain d where p: "rg_profile g p = Some d" "m \<in> set (pf_module_ids d)"
    by (cases "rg_profile g p") simp_all
  from p(1) have "d \<in> set (rev (rg_profiles g))"
    unfolding rg_profile_def by (metis find_Some_iff nth_mem)
  with g have "d \<in> set prs" by simp
  with wf have "profile_wf ms d" by (simp add: registry_wf_def list_all_iff)
  with p(2) obtain e where "manifest_by_id ms m = Some e" unfolding profile_wf_def by blast
  then have "m \<in> mm_module_id ` set ms" by (auto simp: manifest_by_id_def find_Some_iff)
  with g show ?thesis by (auto simp: rg_manifest_def find_None_iff)
qed

lemma compose_total:
  assumes "from_source_controlled H ms prs grants = Inr g"
    and "compose_checks g ps dis deg = Inr (ordered, selected)"
  shows "\<exists>r. compose K g ps dis deg = Inr r"
proof -
  from compose_checks_Inr [OF assms(2)] have "selected = selected_modules g ordered" by simp
  with accepted_selected [OF assms(1)] have "\<forall>m \<in> set selected. rg_manifest g m \<noteq> None" by simp
  from settle_total [OF this] obtain c where
    "settle (rg_manifest g) selected (initial_composing selected dis deg) = Inr c" by blast
  with assms(2) show ?thesis by (simp add: compose_def)
qed

end
