(* ===== verification/Scenario.thy ===== *)
theory Scenario
  imports FoldRuns Composition "HOL-Library.Code_Target_Numeral"
begin

text \<open>
  Concrete inputs on which the properties are evaluated: a source of three lines and an
  unfinished fourth, its host and its ledger, the two capture loops over them, and a small
  registry. The digest is a constant; only its documented format matters to the code.
\<close>

section \<open>The source and its ledger\<close>

definition demo_hash :: hash where "demo_hash b = replicate 64 (CHR ''0'')"

lemma demo_hash_documented: "sha256_documented demo_hash"
proof -
  have "is_sha256 (demo_hash [])" by code_simp
  then show ?thesis by (simp add: sha256_documented_def demo_hash_def)
qed

definition demo_source :: bytes where "demo_source = [97, 10, 98, 10, 99, 10, 100]"

definition demo_file :: file_identity where
  "demo_file = \<lparr>fi_platform = ''posix'', fi_device = 1, fi_inode = 2, fi_birth_time_ns = None\<rparr>"

definition demo_binding :: kernel_capture_binding where
  "demo_binding =
     \<lparr>kb_tenant_id = 1, kb_workspace_id = 2, kb_access_scope_id = 3, kb_source_object_id = 4,
      kb_expected_source_object_schema_version = 1\<rparr>"

definition demo_bytes :: "nat \<Rightarrow> nat \<Rightarrow> bytes" where
  "demo_bytes start count = take count (drop start demo_source)"

section \<open>The raw capture loop\<close>

definition demo_range_config :: range_loop_config where
  "demo_range_config =
     \<lparr>lc_binding = demo_binding, lc_capability_id = ''capability'',
      lc_capability_credential = replicate 64 CHR ''c'', lc_checkpoint_key = ''checkpoint'',
      lc_connector_id = ''connector'', lc_observed_connector_version = None,
      lc_capture_surface = SURFACE_ARTIFACT, lc_source_revision_key = ''revision'',
      lc_observed_source_format_version = None,
      lc_policies = \<lparr>sp_capture_policy_id = ''capture'', sp_retention_policy_ref = ''retain''\<rparr>,
      lc_initial_byte_offset = 0, lc_read_size = 4\<rparr>"

definition demo_host_read :: "host_read_request \<Rightarrow> host_read_response" where
  "demo_host_read q =
     (let d = demo_bytes (rq_byte_offset q) (rq_max_bytes q)
      in \<lparr>rs_request_id = rq_request_id q,
          rs_status = (if d = [] then HR_END_OF_FILE else HR_DATA),
          rs_file_identity = Some demo_file, rs_start_offset = rq_byte_offset q,
          rs_end_offset = rq_byte_offset q + length d, rs_observed_size = length demo_source,
          rs_data_base64 = b64encode d, rs_data_sha256 = demo_hash d,
          rs_end_of_file = (rq_byte_offset q + length d = length demo_source),
          rs_diagnostic_code = None\<rparr>)"

definition demo_range_receipt :: "range_command \<Rightarrow> datetime \<Rightarrow> range_receipt" where
  "demo_range_receipt c t =
     \<lparr>rr_source_range_receipt_id = 7, rr_idempotency_receipt_id = 8,
      rr_source_object_id = kb_source_object_id (rc_binding c),
      rr_source_revision_key = rc_source_revision_key c,
      rr_file_identity_key = rc_file_identity_key c, rr_byte_start = rc_byte_start c,
      rr_byte_end_exclusive = rc_byte_end_exclusive c,
      rr_payload_byte_count = rc_payload_byte_count c, rr_payload_sha256 = rc_payload_sha256 c,
      rr_chunk_count = length (rc_chunks c), rr_checkpoint_key = bc_checkpoint_key (rc_checkpoint c),
      rr_checkpoint_sequence = bc_next_sequence (rc_checkpoint c), rr_authority_principal_id = 9,
      rr_captured_at = t, rr_already_exists = False, rr_replayed = False\<rparr>"

definition demo_ports :: "raw_cursor option raw_ports" where
  "demo_ports =
     \<lparr>rp_load = (\<lambda>_ w. (Inr w, w)), rp_commit = (\<lambda>_ s w. (Inr (), Some s)),
      rp_read = (\<lambda>q w. (Inr (demo_host_read q), w)),
      rp_capture = (\<lambda>c t w. (Inr (demo_range_receipt c t), w)), rp_uuid4 = (\<lambda>w. (Inr 5, w))\<rparr>"

lemma demo_ports_contract: "raw_store_contract demo_ports c (\<lambda>w. w)"
  by (simp add: raw_store_contract_def demo_ports_def)

section \<open>The fold loop\<close>

text \<open>Two lines make a turn; the envelope is trivial.\<close>

definition demo_env :: "unit fold_env" where
  "demo_env = \<lparr>ev_hash = demo_hash, ev_validate_envelope = (\<lambda>_. Inr ()), ev_envelope_json = (\<lambda>_. ''{}'')\<rparr>"

definition demo_adapter :: "(unit, unit) fold_adapter" where
  "demo_adapter =
     \<lparr>ad_profile_version = ''profile-1'', ad_connector_id = ''connector'',
      ad_source_format_version = ''format-1'',
      ad_advance = (\<lambda>r st. Inr (if st = [] then ([1], None) else ([], Some ()))),
      ad_build_from_source_span = Some (\<lambda>_ _ _. Inr (Some ())),
      ad_max_record_bytes = 1024, ad_max_span_bytes = 4096, ad_max_turn_records = 16,
      ad_topology_fallback_codes = [], ad_finalized_scope_exclusion = None\<rparr>"

definition demo_fold_config :: fold_loop_config where
  "demo_fold_config =
     \<lparr>fl_binding = demo_binding, fl_capability_id = ''capability'', fl_checkpoint_key = ''checkpoint'',
      fl_connector_id = ''connector'', fl_source_revision_key = ''revision'',
      fl_file_identity_key = stable_key demo_file,
      fl_observed_source_format_version = Some ''format-1'',
      fl_source_format_disposition_code = None, fl_sealed_byte_end_exclusive = None,
      fl_read_size = 4096\<rparr>"

definition demo_durable_read :: "durable_read_request \<Rightarrow> durable_read" where
  "demo_durable_read q =
     (let d = demo_bytes (dq_byte_start q) (dq_max_bytes q);
          stop = dq_byte_start q + length d
      in \<lparr>dr_status = (if d = [] then END_OF_DURABLE_RANGES else DATA),
          dr_source_object_id = dq_source_object_id q,
          dr_source_revision_key = dq_source_revision_key q,
          dr_file_identity = Some demo_file, dr_file_identity_key = dq_file_identity_key q,
          dr_connector_id = Some ''connector'', dr_observed_connector_version = None,
          dr_observed_source_format_version = Some ''format-1'', dr_byte_start = dq_byte_start q,
          dr_byte_end_exclusive = stop, dr_durable_end_offset = length demo_source,
          dr_payload_hex = hex d, dr_payload_sha256 = demo_hash d,
          dr_ranges =
            (if d = [] then []
             else [\<lparr>fs_source_range_receipt_id = 7, fs_receipt_byte_start = 0,
                    fs_receipt_byte_end_exclusive = length demo_source,
                    fs_receipt_payload_sha256 = demo_hash demo_source, fs_byte_start = dq_byte_start q,
                    fs_byte_end_exclusive = stop, fs_source_bytes_sha256 = demo_hash d\<rparr>]),
          dr_first_captured_at = Some (Aware 0)\<rparr>)"

definition demo_fold_receipt :: "fold_command \<Rightarrow> datetime \<Rightarrow> fold_receipt" where
  "demo_fold_receipt c t =
     (let kinds = map fo_outcome_kind (cf_outcomes c)
      in \<lparr>ft_transcript_fold_receipt_id = 10, ft_idempotency_receipt_id = 11,
          ft_source_object_id = kb_source_object_id (cf_binding c),
          ft_source_revision_key = cf_source_revision_key c,
          ft_file_identity_key = cf_file_identity_key c, ft_byte_start = cf_byte_start c,
          ft_byte_end_exclusive = cf_byte_end_exclusive c,
          ft_start_record_index = cf_start_record_index c,
          ft_end_record_index = cf_end_record_index c,
          ft_complete_record_count = cf_complete_record_count c,
          ft_source_bytes_sha256 = cf_source_bytes_sha256 c,
          ft_outcomes_sha256 = cf_outcomes_sha256 c,
          ft_exact_turn_count = count_list kinds EXACT_TURN,
          ft_transcript_span_count = count_list kinds TRANSCRIPT_SPAN,
          ft_policy_disposition_count = count_list kinds POLICY_DISPOSITION,
          ft_checkpoint_key = fc_checkpoint_key (cf_checkpoint c),
          ft_checkpoint_sequence = fc_next_sequence (cf_checkpoint c),
          ft_authority_principal_id = 9, ft_folded_at = t, ft_replayed = False\<rparr>)"

definition demo_loop :: "(loaded_cursor option, unit, unit) fold_loop" where
  "demo_loop =
     \<lparr>lp_env = demo_env, lp_config = demo_fold_config, lp_adapter = Some demo_adapter,
      lp_load = (\<lambda>_ w. (Inr w, w)), lp_commit = (\<lambda>_ s w. (Inr (), Some (Fold s))),
      lp_read = (\<lambda>q w. (Inr (demo_durable_read q), w)),
      lp_submit = (\<lambda>c t w. (Inr (demo_fold_receipt c t), w)),
      lp_iso_datetime = (\<lambda>_. ''t''), lp_iso_date = (\<lambda>_. ''d'')\<rparr>"

lemma demo_loop_contract: "fold_store_contract demo_loop (\<lambda>w. w)"
  by (simp add: fold_store_contract_def demo_loop_def)

section \<open>A registry\<close>

definition demo_manifest :: "string \<Rightarrow> string list \<Rightarrow> module_manifest" where
  "demo_manifest i deps =
     \<lparr>mm_module_id = i, mm_version = SemVer 1 0 0, mm_module_api = 1, mm_kind = CAPABILITY,
      mm_audience = END_USER, mm_setup_class = AUTOMATIC,
      mm_runtime_placements = [Placement API_CONTAINER],
      mm_requires_kernel = [VC ''>='' (SemVer 0 0 0)],
      mm_requires_modules =
        map (\<lambda>d. \<lparr>mr_module_id = d, mr_version = [VC ''>='' (SemVer 1 0 0)]\<rparr>) deps,
      mm_permissions_read = [], mm_permissions_write = [], mm_contributions = [],
      mm_manifest_schema = 1\<rparr>"

definition demo_registry :: module_registry where
  "demo_registry =
     \<lparr>rg_manifests = [demo_manifest ''a'' [''b''], demo_manifest ''b'' [], demo_manifest ''c'' []],
      rg_profiles = [\<lparr>pf_profile_id = ''core'', pf_module_ids = [''a'', ''b'', ''c'']\<rparr>],
      rg_placement_grants = [], rg_combined_module_version = ''v''\<rparr>"

end
