(* ===== verification/CaptureClaims.thy ===== *)
theory CaptureClaims
  imports Scenario
begin

text \<open>
  The properties of the host protocol, of the framing of records and of the raw capture loop,
  each with its evaluation on the scenario.
\<close>

section \<open>The raw capture loop\<close>

text \<open>
  C24: a bounded series of capture transactions that returns reports its captured transactions
  first and one other result last; the captured receipts are non-empty and tile the source from
  the position stored before the call to the position stored after it.
\<close>

theorem raw_capture_tiles:
  assumes "raw_store_contract P (lc_capability_id cfg) view"
    and "raw_run_until_pause H P cfg t n w = (Inr rs, w')"
  shows "\<exists>caps fin. rs = caps @ [fin] \<and> length caps \<le> n
    \<and> list_all (\<lambda>r. rt_status r = RC_CAPTURED) caps \<and> rt_status fin \<noteq> RC_CAPTURED
    \<and> list_all receipt_nonempty (captured_receipts caps)
    \<and> chain rr_byte_start rr_byte_end_exclusive (raw_position view cfg w) (captured_receipts caps)
        (raw_position view cfg w')"
proof -
  from assms(2) have "raw_transactions H P cfg t n [] w = (Inr rs, w')"
    by (auto simp: raw_run_until_pause_def split: if_splits)
  from raw_transactions_tile [OF assms(1) this] show ?thesis by simp
qed

definition demo_capture :: "raw_result list result \<times> raw_cursor option" where
  "demo_capture = raw_run_until_pause demo_hash demo_ports demo_range_config (Aware 0) 4 None"

theorem raw_capture_tiles_witness:
  "\<exists>rs caps fin. fst demo_capture = Inr rs \<and> rs = caps @ [fin] \<and> length rs = 3
    \<and> chain rr_byte_start rr_byte_end_exclusive 0 (captured_receipts caps)
        (raw_position (\<lambda>w. w) demo_range_config (snd demo_capture))"
proof -
  have "case fst demo_capture of Inr rs \<Rightarrow> length rs = 3 | Inl e \<Rightarrow> False" by code_simp
  then obtain rs where "fst demo_capture = Inr rs" "length rs = 3"
    by (cases "fst demo_capture") simp_all
  then have rs: "demo_capture = (Inr rs, snd demo_capture)" "length rs = 3"
    by (simp_all add: prod_eq_iff)
  then have run: "raw_run_until_pause demo_hash demo_ports demo_range_config (Aware 0) 4 None
      = (Inr rs, snd demo_capture)" by (simp add: demo_capture_def)
  from raw_capture_tiles [OF demo_ports_contract run] obtain caps fin where
    "rs = caps @ [fin]"
    "chain rr_byte_start rr_byte_end_exclusive (raw_position (\<lambda>w. w) demo_range_config None)
       (captured_receipts caps) (raw_position (\<lambda>w. w) demo_range_config (snd demo_capture))" by blast
  moreover have "raw_position (\<lambda>w. w) demo_range_config None = 0"
    by (simp add: raw_position_def demo_range_config_def)
  moreover have "fst demo_capture = Inr rs" using rs(1) by (metis fst_conv)
  ultimately show ?thesis using rs(2) by (intro exI [of _ rs] exI [of _ caps] exI [of _ fin]) simp
qed

text \<open>
  C25: in a range command that validates, the chunks are numbered from zero, every byte of the
  range is in exactly one chunk, and the chunk payloads joined in order hash to the payload
  hash of the command.
\<close>

theorem range_command_partition:
  assumes "make_range_command H c = Inr c'"
    and "rc_byte_start c \<le> n" "n < rc_byte_end_exclusive c"
  shows "(\<exists>!i. i < length (rc_chunks c) \<and> sc_byte_start (rc_chunks c ! i) \<le> n
           \<and> n < sc_byte_end_exclusive (rc_chunks c ! i))
    \<and> map sc_chunk_ordinal (rc_chunks c) = [0..<length (rc_chunks c)]
    \<and> H (concat (map chunk_payload (rc_chunks c))) = rc_payload_sha256 c"
  using chunks.chain_unique_owner [OF range_command_binds(2,3) [OF assms(1)] assms(2,3)]
    range_command_binds(4,5) [OF assms(1)] by (intro conjI)

definition demo_range_command :: range_command where
  "demo_range_command =
     range_command_of demo_hash [104, 105, 10, 120, 121] demo_range_config demo_file 4 0 2"

theorem range_command_partition_witness:
  "(\<exists>!i. i < length (rc_chunks demo_range_command)
      \<and> sc_byte_start (rc_chunks demo_range_command ! i) \<le> 7
      \<and> 7 < sc_byte_end_exclusive (rc_chunks demo_range_command ! i))
   \<and> length (rc_chunks demo_range_command) = 3"
proof -
  have "is_ok (make_range_command demo_hash demo_range_command)" by code_simp
  then obtain c' where c': "make_range_command demo_hash demo_range_command = Inr c'"
    by (auto simp: is_ok_def)
  have "rc_byte_start demo_range_command \<le> 7 \<and> 7 < rc_byte_end_exclusive demo_range_command
      \<and> length (rc_chunks demo_range_command) = 3" by code_simp
  with conjunct1 [OF range_command_partition [OF c', of 7]] show ?thesis by simp
qed

text \<open>
  The command builder accepts every non-empty payload within its bounds: with an admissible
  configuration and file identity, a chunk size within its limit, and no more chunks and
  canonical bytes than a command may have, the command it builds passes its validator.
\<close>

theorem range_builder_accepts:
  assumes "sha256_documented H" "config_ok cfg"
    and "is_ok (make_file_identity f)" "length (stable_key f) \<le> 256"
    and "p \<noteq> []" "length p \<le> SOURCE_RANGE_TRANSACTION_MAX_BYTES"
    and "1 \<le> k" "k \<le> SOURCE_RANGE_CHUNK_MAX_BYTES"
    and "(length p + k - 1) div k \<le> SOURCE_RANGE_TRANSACTION_MAX_CHUNKS"
    and "length (range_command_canonical_bytes (range_command_of H p cfg f s q k))
        \<le> SOURCE_RANGE_COMMAND_MAX_BYTES"
  shows "build_capture_source_range_command H p cfg f s q k = Inr (range_command_of H p cfg f s q k)"
  using assms by (rule built_command_valid)

theorem range_builder_accepts_witness:
  "build_capture_source_range_command demo_hash [104, 105, 10, 120, 121] demo_range_config demo_file 4 0 2
     = Inr (range_command_of demo_hash [104, 105, 10, 120, 121] demo_range_config demo_file 4 0 2)"
proof (rule range_builder_accepts)
  show "sha256_documented demo_hash" by (rule demo_hash_documented)
qed (code_simp+)

section \<open>Framing\<close>

text \<open>
  C26: framing splits a payload into complete records and an unfinished tail, losing nothing: the
  record bytes and the tail join to the payload, the tail has no newline, the records tile the
  payload from its offset on with consecutive indexes, and each ends with its only newline.
\<close>

theorem framing_partition:
  assumes "frame_complete_records mx off idx p = (rs, t)"
  shows "p = concat (map fr_framed_bytes rs) @ t \<and> 10 \<notin> set t
    \<and> chain fr_start_offset fr_end_offset off rs (off + (length p - length t))
    \<and> map fr_record_index rs = [idx..<idx + length rs]
    \<and> framed_from mx off idx rs"
  using fold_framing.frame_bytes [OF assms] frame_complete_tail [OF assms]
    fold_framing.frame_chain [OF assms] fold_framing.frame_indexes [OF assms]
    fold_framing.frame_shape [of mx off idx p] assms by simp

theorem framing_partition_witness:
  "let (rs, t) = frame_complete_records 1 10 5 demo_source
   in demo_source = concat (map fr_framed_bytes rs) @ t \<and> t = [100]
     \<and> map fr_oversized rs = [True, True, True]"
proof -
  have e: "frame_complete_records 1 10 5 demo_source
      = (fst (frame_complete_records 1 10 5 demo_source), snd (frame_complete_records 1 10 5 demo_source))" by simp
  have "snd (frame_complete_records 1 10 5 demo_source) = [100]
      \<and> map fr_oversized (fst (frame_complete_records 1 10 5 demo_source)) = [True, True, True]" by code_simp
  with framing_partition [OF e] show ?thesis by (simp add: case_prod_beta)
qed

text \<open>
  the batch framer of the source adapters returns at most the records asked for, leaves
  complete records behind only when it returned that many, and otherwise obeys the same law: its
  records and the bytes left over join to the payload.
\<close>

theorem batch_framing_bounded:
  assumes "frame_batch mx n off idx p = (rs, t)"
  shows "length rs \<le> n \<and> (length rs < n \<longrightarrow> 10 \<notin> set t)
    \<and> p = concat (map fr_framed_bytes rs) @ t \<and> framed_from mx off idx rs"
  using frame_batch_length [of mx n off idx p] frame_batch_stops [of mx n off idx p]
    batch_framing.frame_bytes [OF assms] batch_framing.frame_shape [where mx = mx and n = n and off = off and idx = idx and p = p] assms
  by (simp add: next_line_None)

theorem batch_framing_bounded_witness:
  "length (fst (frame_batch 100 2 0 0 demo_source)) \<le> 2
   \<and> snd (frame_batch 100 2 0 0 demo_source) = [99, 10, 100]"
proof -
  have "frame_batch 100 2 0 0 demo_source
      = (fst (frame_batch 100 2 0 0 demo_source), snd (frame_batch 100 2 0 0 demo_source))" by simp
  from batch_framing_bounded [OF this] show ?thesis by (simp, code_simp)
qed

section \<open>The host protocol\<close>

text \<open>
  a host read response that validates is bound to its bytes: they decode, are within the
  read bound, hash to the declared digest and span the declared offsets; data means bytes,
  end of file means the observed size is reached, and both carry a file identity.
\<close>

theorem host_response_bound:
  assumes "make_host_read_response H r = Inr r'"
  shows "b64decode (rs_data_base64 r) = Some (host_data r)
    \<and> length (host_data r) \<le> HOST_HELPER_MAX_READ_BYTES \<and> H (host_data r) = rs_data_sha256 r
    \<and> rs_end_offset r = rs_start_offset r + length (host_data r)
    \<and> (rs_status r = HR_DATA \<longleftrightarrow> host_data r \<noteq> [])
    \<and> (rs_status r = HR_END_OF_FILE \<longrightarrow> rs_end_offset r = rs_observed_size r)
    \<and> (rs_status r \<in> {HR_DATA, HR_END_OF_FILE} \<longrightarrow> rs_file_identity r \<noteq> None)"
  using read_response_binds(2-7) [OF assms] read_response_binds(8) [OF assms] by blast

definition demo_response :: host_read_response where
  "demo_response =
     \<lparr>rs_request_id = 5, rs_status = HR_DATA, rs_file_identity = Some demo_file, rs_start_offset = 2,
      rs_end_offset = 6, rs_observed_size = 7, rs_data_base64 = b64encode (demo_bytes 2 4),
      rs_data_sha256 = demo_hash [], rs_end_of_file = False, rs_diagnostic_code = None\<rparr>"

theorem host_response_bound_witness:
  "b64decode (rs_data_base64 demo_response) = Some (host_data demo_response)
   \<and> rs_end_offset demo_response = rs_start_offset demo_response + length (host_data demo_response)
   \<and> host_data demo_response = [98, 10, 99, 10]"
proof -
  have "is_ok (make_host_read_response demo_hash demo_response)" by code_simp
  then obtain r' where "make_host_read_response demo_hash demo_response = Inr r'" by (auto simp: is_ok_def)
  from host_response_bound [OF this] have
    "b64decode (rs_data_base64 demo_response) = Some (host_data demo_response)"
    "rs_end_offset demo_response = rs_start_offset demo_response + length (host_data demo_response)" by auto
  moreover have "host_data demo_response = [98, 10, 99, 10]" by code_simp
  ultimately show ?thesis by blast
qed

text \<open>
  an approved source stays inside its approved root: walking the names of the root and then
  of the relative source never goes up, and the root and the source are spelled canonically.
\<close>

theorem grant_confined:
  assumes "make_approved_source_grant g = Inr g'"
  shows "lexical_walk [] (path_names (ag_approved_root g) @ path_names (ag_relative_source g))
           = path_names (ag_approved_root g) @ path_names (ag_relative_source g)
    \<and> path_root (ag_approved_root g) @ join ''/'' (path_names (ag_approved_root g)) = ag_approved_root g"
  using grant_paths_confined(1,2) [OF assms] by simp

definition demo_grant :: approved_source_grant where
  "demo_grant =
     \<lparr>ag_capability_id = ''capability'', ag_approved_root = ''/home/user'',
      ag_relative_source = ''logs/session.jsonl'', ag_credential_sha256 = demo_hash []\<rparr>"

theorem grant_confined_witness:
  "lexical_walk [] (path_names ''/home/user'' @ path_names ''logs/session.jsonl'')
     = [''home'', ''user'', ''logs'', ''session.jsonl'']"
proof -
  have "is_ok (make_approved_source_grant demo_grant)" by code_simp
  then obtain g' where "make_approved_source_grant demo_grant = Inr g'" by (auto simp: is_ok_def)
  from conjunct1 [OF grant_confined [OF this]]
  have "lexical_walk [] (path_names ''/home/user'' @ path_names ''logs/session.jsonl'')
      = path_names ''/home/user'' @ path_names ''logs/session.jsonl''" by (simp add: demo_grant_def)
  also have "\<dots> = [''home'', ''user'', ''logs'', ''session.jsonl'']" by code_simp
  finally show ?thesis .
qed

text \<open>
  A grant whose relative source is the single dot is accepted, although the check of its
  parts lists the dot among the parts to refuse: a path of the single dot has no parts.
\<close>

theorem dot_source_accepted:
  "is_ok (make_approved_source_grant
     \<lparr>ag_capability_id = ''capability'', ag_approved_root = ''/home/user'',
      ag_relative_source = ''.'', ag_credential_sha256 = replicate 64 CHR ''0''\<rparr>)"
  by code_simp

end
