(* ===== verification/HostLoop.thy ===== *)
theory HostLoop
  imports AdapterCursor Effects
begin

text \<open>
  The host capture loop of \<open>application/capture/source_adapter.py\<close> (\<open>HostCaptureLoop\<close>), first
  part: its health report, the submission contract it uses from \<open>capture/contracts.py\<close>, its
  configuration and ports, the cursor update \<open>_updated\<close>, and the re-reads that verify the bytes
  behind a range. The extractor, the assembler and the envelope builders are pure functions
  that may raise; the host, the store, the kernel, the scope seeker and \<open>uuid4\<close> are ports.
\<close>

section \<open>Health\<close>

definition HOST_CAPTURE_MAX_ASSEMBLY_STATE_BYTES :: nat where
  "HOST_CAPTURE_MAX_ASSEMBLY_STATE_BYTES = 1048576"

definition make_failure_capsule :: "failure_capsule \<Rightarrow> failure_capsule result" where
  "make_failure_capsule k =
     validated
       [raise_if (fk_pending_record_count k > HOST_CAPTURE_MAX_WINDOW_RECORDS)
          (FieldError ''pending_record_count''),
        raise_if (fk_history_record_count k > HOST_CAPTURE_MAX_STREAMING_ASSEMBLY_RECORDS)
          (FieldError ''history_record_count''),
        raise_if (fk_lineage_map_count k > HOST_CAPTURE_MAX_STREAMING_ASSEMBLY_RECORDS)
          (FieldError ''lineage_map_count''),
        raise_if (fk_assembly_state_version k \<notin> {2, 3, 4}) (FieldError ''assembly_state_version'')]
       k"

record capture_health =
  hv_capability_id :: string
  hv_source_state :: host_capture_state
  hv_file_identity :: "file_identity option"
  hv_acknowledged_offset :: nat
  hv_acknowledged_record_index :: nat
  hv_checkpoint_sequence :: nat
  hv_pending_partial_tail_bytes :: nat
  hv_pending_assembly_bytes :: nat
  hv_observed_size :: nat
  hv_lag_bytes :: nat
  hv_retry_attempts :: nat
  hv_quarantine_count :: nat
  hv_quarantine_overflow_count :: nat
  hv_scope_exclusion_count :: nat
  hv_scope_exclusion_reason_counts :: "(scope_exclusion_reason \<times> nat) list"
  hv_diagnostic_code :: "string option"
  hv_failure_capsule :: "failure_capsule option"
  hv_last_acknowledgement :: "cursor_acknowledgement option"

definition make_reason_count :: "scope_exclusion_reason \<times> nat \<Rightarrow> (scope_exclusion_reason \<times> nat) result" where
  "make_reason_count c =
     validated
       [raise_if (snd c < 1 \<or> snd c > HOST_CAPTURE_MAX_SCOPE_EXCLUSIONS) (FieldError ''count'')] c"

definition make_capture_health :: "capture_health \<Rightarrow> capture_health result" where
  "make_capture_health h =
     validated
       [raise_if (\<not> identifier_field 128 (hv_capability_id h)) (FieldError ''capability_id''),
        nested_opt make_file_identity (hv_file_identity h),
        raise_if (hv_pending_partial_tail_bytes h > HOST_CAPTURE_MAX_STORED_PARTIAL_TAIL_BYTES)
          (FieldError ''pending_partial_tail_bytes''),
        raise_if (hv_pending_assembly_bytes h > HOST_CAPTURE_MAX_STREAMING_ASSEMBLY_BYTES)
          (FieldError ''pending_assembly_bytes''),
        raise_if (hv_retry_attempts h > HOST_CAPTURE_MAX_RETRY_ATTEMPTS) (FieldError ''retry_attempts''),
        raise_if (hv_quarantine_count h > HOST_CAPTURE_MAX_QUARANTINE) (FieldError ''quarantine_count''),
        raise_if (hv_scope_exclusion_count h > HOST_CAPTURE_MAX_SCOPE_EXCLUSIONS)
          (FieldError ''scope_exclusion_count''),
        nested_list make_reason_count (hv_scope_exclusion_reason_counts h),
        raise_if (length (hv_scope_exclusion_reason_counts h) > 3)
          (FieldError ''scope_exclusion_reason_counts''),
        nested_opt make_failure_capsule (hv_failure_capsule h),
        nested_opt make_cursor_acknowledgement (hv_last_acknowledgement h),
        raise_if (\<not> distinct (map fst (hv_scope_exclusion_reason_counts h)))
          (ValueError ''scope exclusion reason counts must be unique''),
        raise_if (sum_list (map snd (hv_scope_exclusion_reason_counts h)) \<noteq> hv_scope_exclusion_count h)
          (ValueError ''scope exclusion reason counts must equal their total'')]
       h"

definition scope_exclusion_count_for :: "capture_health \<Rightarrow> scope_exclusion_reason \<Rightarrow> nat" where
  "scope_exclusion_count_for h reason =
     (case find (\<lambda>c. fst c = reason) (hv_scope_exclusion_reason_counts h) of
        Some c \<Rightarrow> snd c | None \<Rightarrow> 0)"

text \<open>The dictionary of counts, in insertion order.\<close>

fun count_reason ::
  "scope_exclusion_reason \<Rightarrow> (scope_exclusion_reason \<times> nat) list \<Rightarrow> (scope_exclusion_reason \<times> nat) list" where
  "count_reason r [] = [(r, 1)]"
| "count_reason r ((q, n) # cs) = (if q = r then (q, n + 1) # cs else (q, n) # count_reason r cs)"

definition capture_health_of :: "host_cursor \<Rightarrow> failure_capsule option \<Rightarrow> capture_health result" where
  "capture_health_of s capsule =
     make_capture_health
       \<lparr>hv_capability_id = hc_capability_id s, hv_source_state = hc_source_state s,
        hv_file_identity = hc_file_identity s, hv_acknowledged_offset = hc_acknowledged_offset s,
        hv_acknowledged_record_index = hc_acknowledged_record_index s,
        hv_checkpoint_sequence = hc_checkpoint_sequence s,
        hv_pending_partial_tail_bytes = length (hc_partial_tail s),
        hv_pending_assembly_bytes = hc_pending_assembly_bytes s,
        hv_observed_size = hc_observed_size s,
        hv_lag_bytes = hc_observed_size s - hc_acknowledged_offset s,
        hv_retry_attempts = hc_retry_attempts s, hv_quarantine_count = length (hc_quarantine s),
        hv_quarantine_overflow_count = hc_quarantine_overflow_count s,
        hv_scope_exclusion_count = length (hc_scope_exclusions s),
        hv_scope_exclusion_reason_counts =
          foldl (\<lambda>cs e. count_reason (se_reason e) cs) [] (hc_scope_exclusions s),
        hv_diagnostic_code = hc_diagnostic_code s, hv_failure_capsule = capsule,
        hv_last_acknowledgement = hc_last_acknowledgement s\<rparr>"

section \<open>Submission\<close>

datatype capture_ingress_status =
    CI_DETECTED | CI_RECEIVED | CI_DUPLICATE | CI_QUARANTINED | CI_ACCEPTED | CI_AMENDED | CI_DELETED

record connector_cursor =
  cc_checkpoint_key :: string
  cc_expected_sequence :: nat
  cc_next_sequence :: nat
  cc_checkpoint_hash :: string

definition make_connector_cursor :: "connector_cursor \<Rightarrow> connector_cursor result" where
  "make_connector_cursor c =
     validated
       [raise_if (\<not> identifier_field 128 (cc_checkpoint_key c)) (FieldError ''checkpoint_key''),
        raise_if (cc_next_sequence c < 1) (FieldError ''next_sequence''),
        raise_if (\<not> is_sha256 (cc_checkpoint_hash c)) (FieldError ''checkpoint_hash''),
        raise_if (cc_next_sequence c \<noteq> cc_expected_sequence c + 1)
          (ValueError ''connector cursor must advance exactly one sequence'')]
       c"

record submission_receipt =
  sr_delivery_id :: uuid
  sr_event_id :: "uuid option"
  sr_idempotency_receipt_id :: uuid
  sr_operation_id :: string
  sr_request_hash :: string
  sr_checkpoint_sequence :: "nat option"
  sr_ingress_status :: capture_ingress_status
  sr_authority_principal_id :: uuid
  sr_replayed :: bool

definition make_submission_receipt :: "submission_receipt \<Rightarrow> submission_receipt result" where
  "make_submission_receipt r =
     validated
       [raise_if (\<not> text_field 1 512 (sr_operation_id r)) (FieldError ''operation_id''),
        raise_if (\<not> is_sha256 (sr_request_hash r)) (FieldError ''request_hash''),
        raise_if (\<not> opt_field (\<lambda>n. 1 \<le> n) (sr_checkpoint_sequence r)) (FieldError ''checkpoint_sequence'')]
       r"

section \<open>The loop and its ports\<close>

record seek_request =
  sq_capability_id :: string
  sq_capability_credential :: string
  sq_expected_identity :: "file_identity option"
  sq_start_offset :: nat
  sq_start_record_index :: nat
  sq_read_size :: nat

record seek_result =
  sk_file_identity :: file_identity
  sk_observed_size :: nat
  sk_start_offset :: nat
  sk_end_offset :: nat
  sk_start_record_index :: nat
  sk_end_record_index :: nat
  sk_source_bytes_sha256 :: string
  sk_approved_date :: date
  sk_reason :: scope_exclusion_reason
  sk_excluded_logical_turn_count :: "nat option"

definition make_seek_result :: "seek_result \<Rightarrow> seek_result result" where
  "make_seek_result r =
     validated
       [raise_if (sk_end_offset r < sk_start_offset r) (ValueError ''scope seek byte range is invalid''),
        raise_if (sk_end_record_index r < sk_start_record_index r)
          (ValueError ''scope seek record range is invalid''),
        raise_if (sk_observed_size r < sk_end_offset r)
          (ValueError ''scope seek range exceeds the observed source''),
        raise_if (\<not> opt_field (\<lambda>n. n \<le> 1000000) (sk_excluded_logical_turn_count r))
          (ValueError ''scope seek logical-turn count is invalid''),
        raise_if (\<not> is_sha256 (sk_source_bytes_sha256 r)) (ValueError ''scope seek hash is invalid'')]
       r"

record ('w, 'x, 'e) host_loop =
  hl_hash :: hash
  hl_read :: "host_read_request \<Rightarrow> ('w, host_read_response) io"
  hl_uuid4 :: "('w, uuid) io"
  hl_extract :: "(framed_record \<Rightarrow> 'x option result) option"
  hl_build :: "('x \<Rightarrow> framed_record \<Rightarrow> file_identity \<Rightarrow> datetime \<Rightarrow> 'e result) option"
  hl_advance :: "(framed_record \<Rightarrow> bytes \<Rightarrow> (bytes \<times> 'x option) result) option"
  hl_begin_after_scope_start :: "(bytes \<Rightarrow> bytes result) option"
  hl_assembled_build ::
    "('x \<Rightarrow> framed_record list \<Rightarrow> file_identity \<Rightarrow> datetime \<Rightarrow> 'e result) option"
  hl_span_build :: "('x \<Rightarrow> verified_assembly_span \<Rightarrow> datetime \<Rightarrow> 'e result) option"
  hl_submit :: "'e \<Rightarrow> string \<Rightarrow> connector_cursor \<Rightarrow> datetime \<Rightarrow> ('w, submission_receipt) io"
  hl_load :: "string \<Rightarrow> ('w, host_cursor option) io"
  hl_commit :: "nat \<Rightarrow> host_cursor \<Rightarrow> ('w, unit) io"
  hl_envelope_hash :: "'e \<Rightarrow> string"
  hl_event_id :: "'e \<Rightarrow> uuid"
  hl_capability_id :: string
  hl_capability_credential :: string
  hl_checkpoint_key :: string
  hl_read_size :: nat
  hl_framer :: framer
  hl_exclusion :: "('x \<Rightarrow> finalized_scope_exclusion option) option"
  hl_seek :: "(seek_request \<Rightarrow> ('w, seek_result) io) option"
  hl_max_streaming :: "nat option"

definition make_host_loop :: "('w, 'x, 'e) host_loop \<Rightarrow> ('w, 'x, 'e) host_loop result" where
  "make_host_loop L =
     (let single = hl_extract L \<noteq> None \<or> hl_build L \<noteq> None;
          assembly = hl_advance L \<noteq> None \<or> hl_assembled_build L \<noteq> None
      in validated
           [raise_if (\<not> (nf_max_record_bytes (hl_framer L) \<le> hl_read_size L
                \<and> hl_read_size L \<le> HOST_HELPER_MAX_READ_BYTES))
              (ValueError ''host capture read_size must hold one complete valid record''),
            raise_if (single = assembly) (ValueError ''configure exactly one source extraction mode''),
            raise_if (single \<and> (hl_extract L = None \<or> hl_build L = None))
              (ValueError ''single-record extraction requires its envelope builder''),
            raise_if (assembly \<and> (hl_advance L = None \<or> hl_assembled_build L = None))
              (ValueError ''assembly extraction requires its envelope builder''),
            raise_if (case hl_max_streaming L of
                         None \<Rightarrow> False
                       | Some n \<Rightarrow> \<not> assembly \<or> \<not> (1 \<le> n \<and> n \<le> HOST_CAPTURE_MAX_STREAMING_ASSEMBLY_BYTES))
              (ValueError ''streaming assembly bound is invalid''),
            raise_if (hl_max_streaming L \<noteq> None \<and> hl_span_build L = None)
              (ValueError ''streaming assembly requires an SDK-v4 compact envelope builder''),
            raise_if (hl_seek L \<noteq> None \<and> \<not> assembly)
              (ValueError ''scope seeking requires assembly extraction'')]
           L)"

definition streaming :: "('w, 'x, 'e) host_loop \<Rightarrow> bool" where
  "streaming L \<longleftrightarrow> hl_max_streaming L \<noteq> None"

section \<open>The cursor update\<close>

record host_update =
  up_file_identity :: "file_identity option"
  up_acknowledged_offset :: "nat option"
  up_acknowledged_record_index :: "nat option"
  up_checkpoint_sequence :: "nat option"
  up_partial_tail :: "bytes option"
  up_pending_assembly :: "bytes option"
  up_pending_assembly_records :: "pending_record list option"
  up_pending_assembly_ranges :: "pending_assembly_range list option"
  up_extractor_state :: "bytes option"
  up_source_state :: "host_capture_state option"
  up_observed_size :: "nat option"
  up_retry_attempts :: "nat option"
  up_diagnostic_code :: "string option"
  up_quarantine :: "quarantine_entry list option"
  up_quarantine_overflow_count :: "nat option"
  up_scope_exclusions :: "scope_exclusion_entry list option"
  up_last_acknowledgement :: "cursor_acknowledgement option"
  up_clear_last_acknowledgement :: bool
  up_pending_capture_recorded_at :: "datetime option"
  up_clear_pending_capture_recorded_at :: bool

definition no_update :: host_update where
  "no_update =
     \<lparr>up_file_identity = None, up_acknowledged_offset = None, up_acknowledged_record_index = None,
      up_checkpoint_sequence = None, up_partial_tail = None, up_pending_assembly = None,
      up_pending_assembly_records = None, up_pending_assembly_ranges = None,
      up_extractor_state = None, up_source_state = None, up_observed_size = None,
      up_retry_attempts = None, up_diagnostic_code = None, up_quarantine = None,
      up_quarantine_overflow_count = None, up_scope_exclusions = None,
      up_last_acknowledgement = None, up_clear_last_acknowledgement = False,
      up_pending_capture_recorded_at = None, up_clear_pending_capture_recorded_at = False\<rparr>"

fun keep :: "'a option \<Rightarrow> 'a \<Rightarrow> 'a" where
  "keep None y = y"
| "keep (Some x) y = x"

definition configured_pending_forms :: "host_update \<Rightarrow> nat" where
  "configured_pending_forms u =
     (if keep (up_pending_assembly u) [] \<noteq> [] then 1 else 0)
     + (if keep (up_pending_assembly_records u) [] \<noteq> [] then 1 else 0)
     + (if keep (up_pending_assembly_ranges u) [] \<noteq> [] then 1 else 0)"

text \<open>
  The three representations of a pending assembly, applied in the order of the source. The
  byte count of records and ranges is the difference of their outer offsets; the callers pass
  contiguous lists, so it is not negative.
\<close>

definition put_pending_assembly :: "hash \<Rightarrow> bytes option \<Rightarrow> host_cursor \<Rightarrow> host_cursor" where
  "put_pending_assembly H p s =
     (case p of
        None \<Rightarrow> s
      | Some b \<Rightarrow> s\<lparr>hc_pending_assembly_bytes := length b, hc_pending_assembly_sha256 := H b,
                   hc_pending_assembly_records := [], hc_pending_assembly_ranges := []\<rparr>)"

definition put_pending_records :: "hash \<Rightarrow> pending_record list option \<Rightarrow> host_cursor \<Rightarrow> host_cursor" where
  "put_pending_records H p s =
     (case p of
        None \<Rightarrow> s
      | Some rs \<Rightarrow>
          s\<lparr>hc_pending_assembly_records := rs,
            hc_pending_assembly_bytes :=
              (if rs = [] then 0 else pr_end_offset (last rs) - pr_start_offset (hd rs)),
            hc_pending_assembly_sha256 :=
              (if rs = [] then H [] else canonical_sha256 H (JList (map pending_record_json rs))),
            hc_pending_assembly_ranges := []\<rparr>)"

definition pending_ranges_sha256 :: "hash \<Rightarrow> pending_assembly_range list \<Rightarrow> string" where
  "pending_ranges_sha256 H rs =
     (if rs = [] then H [] else canonical_sha256 H (JList (map pending_assembly_range_json rs)))"

definition put_pending_ranges ::
  "hash \<Rightarrow> pending_assembly_range list option \<Rightarrow> host_cursor \<Rightarrow> host_cursor" where
  "put_pending_ranges H p s =
     (case p of
        None \<Rightarrow> s
      | Some rs \<Rightarrow>
          s\<lparr>hc_pending_assembly_records := [], hc_pending_assembly_ranges := rs,
            hc_pending_assembly_bytes :=
              (if rs = [] then 0 else pa_end_offset (last rs) - pa_start_offset (hd rs)),
            hc_pending_assembly_sha256 := pending_ranges_sha256 H rs\<rparr>)"

definition put_bytes :: "hash \<Rightarrow> host_update \<Rightarrow> host_cursor \<Rightarrow> host_cursor" where
  "put_bytes H u s =
     (let s1 = (case up_partial_tail u of
                  None \<Rightarrow> s
                | Some b \<Rightarrow> s\<lparr>hc_partial_tail_base64 := b64encode b, hc_partial_tail_sha256 := H b\<rparr>);
          s2 = put_pending_ranges H (up_pending_assembly_ranges u)
                 (put_pending_records H (up_pending_assembly_records u)
                   (put_pending_assembly H (up_pending_assembly u) s1))
      in case up_extractor_state u of
           None \<Rightarrow> s2
         | Some b \<Rightarrow> s2\<lparr>hc_extractor_state_base64 := b64encode b, hc_extractor_state_sha256 := H b\<rparr>)"

definition apply_update :: "hash \<Rightarrow> host_cursor \<Rightarrow> host_update \<Rightarrow> host_cursor" where
  "apply_update H s u =
     (put_bytes H u s)
       \<lparr>hc_cursor_version := 2, hc_revision := hc_revision s + 1,
        hc_file_identity := (case up_file_identity u of None \<Rightarrow> hc_file_identity s | Some f \<Rightarrow> Some f),
        hc_acknowledged_offset := keep (up_acknowledged_offset u) (hc_acknowledged_offset s),
        hc_acknowledged_record_index :=
          keep (up_acknowledged_record_index u) (hc_acknowledged_record_index s),
        hc_checkpoint_sequence := keep (up_checkpoint_sequence u) (hc_checkpoint_sequence s),
        hc_source_state := keep (up_source_state u) (hc_source_state s),
        hc_observed_size := keep (up_observed_size u) (hc_observed_size s),
        hc_retry_attempts := keep (up_retry_attempts u) (hc_retry_attempts s),
        hc_diagnostic_code := up_diagnostic_code u,
        hc_quarantine := keep (up_quarantine u) (hc_quarantine s),
        hc_quarantine_overflow_count :=
          keep (up_quarantine_overflow_count u) (hc_quarantine_overflow_count s),
        hc_scope_exclusions := keep (up_scope_exclusions u) (hc_scope_exclusions s),
        hc_last_acknowledgement :=
          (case up_last_acknowledgement u of
             Some a \<Rightarrow> Some a
           | None \<Rightarrow> if up_clear_last_acknowledgement u then None else hc_last_acknowledgement s),
        hc_pending_capture_recorded_at :=
          (case up_pending_capture_recorded_at u of
             Some t \<Rightarrow> Some t
           | None \<Rightarrow> if up_clear_pending_capture_recorded_at u then None
                    else hc_pending_capture_recorded_at s)\<rparr>"

definition host_updated :: "hash \<Rightarrow> host_cursor \<Rightarrow> host_update \<Rightarrow> host_cursor result" where
  "host_updated H s u =
     (if up_pending_capture_recorded_at u \<noteq> None \<and> up_clear_pending_capture_recorded_at u
      then Inl (ValueError ''pending capture time cannot be set and cleared together'')
      else if up_last_acknowledgement u \<noteq> None \<and> up_clear_last_acknowledgement u
      then Inl (ValueError ''last acknowledgement cannot be set and cleared together'')
      else if configured_pending_forms u > 1
      then Inl (ValueError ''pending assembly representations are mutually exclusive'')
      else if length (keep (up_extractor_state u) []) > HOST_CAPTURE_MAX_CONTINUATION_STATE_BYTES
      then Inl (ValueError ''extractor continuation state exceeds its bound'')
      else make_host_cursor H (apply_update H s u))"

text \<open>\<open>_updated\<close> followed by \<open>_commit\<close> under the revision it started from.\<close>

definition host_commit ::
  "('w, 'x, 'e) host_loop \<Rightarrow> host_cursor \<Rightarrow> host_update \<Rightarrow> ('w, host_cursor) io" where
  "host_commit L s u =
     bindIO (liftIO (host_updated (hl_hash L) s u)) (\<lambda>s'.
     bindIO (hl_commit L (hc_revision s) s') (\<lambda>_. returnIO s'))"

definition retry_next :: "host_cursor \<Rightarrow> nat" where
  "retry_next s = min (hc_retry_attempts s + 1) HOST_CAPTURE_MAX_RETRY_ATTEMPTS"

end
