(* ===== verification/HostRun.thy ===== *)
theory HostRun
  imports HostLoop
begin

text \<open>
  The run of the host capture loop (\<open>HostCaptureLoop.run_once\<close> and its helpers): the re-read
  of a range under its file identity, the upgrade of a version 1 cursor, the scope seek,
  quarantine, and the record loop with its two extraction modes and its streaming variant.
\<close>

section \<open>Verified re-reads\<close>

definition host_request ::
  "('w, 'x, 'e) host_loop \<Rightarrow> file_identity option \<Rightarrow> nat \<Rightarrow> nat \<Rightarrow> ('w, host_read_request) io" where
  "host_request L identity offset count =
     bindIO (hl_uuid4 L) (\<lambda>request_id.
     liftIO (make_host_read_request
       \<lparr>rq_request_id = request_id, rq_capability_id = hl_capability_id L,
        rq_capability_credential = hl_capability_credential L, rq_expected_identity = identity,
        rq_byte_offset = offset, rq_max_bytes = count\<rparr>))"

text \<open>One iteration of the inner \<open>while\<close>: the bytes of one read, at most those that remain.\<close>

definition reread_chunk ::
  "('w, 'x, 'e) host_loop \<Rightarrow> file_identity \<Rightarrow> nat \<Rightarrow> nat \<Rightarrow> ('w, bytes) io" where
  "reread_chunk L identity stop offset =
     bindIO (host_request L (Some identity) offset (min (hl_read_size L) (stop - offset))) (\<lambda>request.
     bindIO (hl_read L request) (\<lambda>response.
     bindIO (checkIO (rs_request_id response \<noteq> rq_request_id request)
               (ReceiptBindingError ''source range response identity mismatch'')) (\<lambda>_.
     bindIO (checkIO (rs_start_offset response \<noteq> offset)
               (ReceiptBindingError ''source range response offset mismatch'')) (\<lambda>_.
     bindIO (checkIO (rs_status response \<notin> {HR_DATA, HR_END_OF_FILE})
               (ReceiptBindingError ''source range became unavailable'')) (\<lambda>_.
     bindIO (checkIO (rs_file_identity response \<noteq> Some identity)
               (ReceiptBindingError ''source range file identity mismatch'')) (\<lambda>_.
     bindIO (checkIO (host_data response = [] \<or> length (host_data response) > stop - offset)
               (ReceiptBindingError ''source range read length mismatch'')) (\<lambda>_.
     returnIO (host_data response))))))))"

lemma reread_chunk_bound:
  assumes "reread_chunk L identity stop offset w = (Inr data, w')"
  shows "data \<noteq> []" and "length data \<le> stop - offset"
  using assms by (auto simp: reread_chunk_def bindIO_Inr_iff)

function reread ::
  "('w, 'x, 'e) host_loop \<Rightarrow> file_identity \<Rightarrow> nat \<Rightarrow> nat \<Rightarrow> ('w, bytes) io" where
  "reread L identity stop offset w =
     (if offset < stop then
        (case reread_chunk L identity stop offset w of
           (Inl e, w') \<Rightarrow> (Inl e, w')
         | (Inr data, w') \<Rightarrow>
             (case reread L identity stop (offset + length data) w' of
                (Inl e, w'') \<Rightarrow> (Inl e, w'')
              | (Inr rest, w'') \<Rightarrow> (Inr (data @ rest), w'')))
      else (Inr [], w))"
  by pat_completeness auto
termination
proof (relation "measure (\<lambda>(_, _, stop, offset, _). stop - offset)", goal_cases)
  case (2 L identity stop offset w a w' data)
  then have "reread_chunk L identity stop offset w = (Inr data, w')" by simp
  from reread_chunk_bound [OF this] 2(1) show ?case by (cases data) auto
qed simp

declare reread.simps [simp del]

fun reread_ranges ::
  "('w, 'x, 'e) host_loop \<Rightarrow> file_identity \<Rightarrow> nat \<Rightarrow> nat \<Rightarrow> pending_assembly_range list \<Rightarrow> ('w, bytes) io" where
  "reread_ranges L identity offset index [] = returnIO []"
| "reread_ranges L identity offset index (r # rs) =
     bindIO (checkIO (pa_file_identity r \<noteq> identity)
               (ReceiptBindingError ''source range file identity mismatch'')) (\<lambda>_.
     bindIO (checkIO (pa_start_offset r \<noteq> offset)
               (ReceiptBindingError ''source range byte continuity mismatch'')) (\<lambda>_.
     bindIO (checkIO (pa_start_record_index r \<noteq> index)
               (ReceiptBindingError ''source range record continuity mismatch'')) (\<lambda>_.
     bindIO (reread L identity (pa_end_offset r) (pa_start_offset r)) (\<lambda>data.
     bindIO (checkIO (hl_hash L data \<noteq> pa_source_bytes_sha256 r)
               (ReceiptBindingError ''source range content drift'')) (\<lambda>_.
     bindIO (reread_ranges L identity (pa_end_offset r) (pa_end_record_index r) rs) (\<lambda>rest.
     returnIO (data @ rest)))))))"

definition source_ranges_sha256 ::
  "('w, 'x, 'e) host_loop \<Rightarrow> pending_assembly_range list \<Rightarrow> ('w, string) io" where
  "source_ranges_sha256 L ranges =
     (if ranges = [] then raiseIO (ValueError ''source range hashing requires ranges'')
      else
        bindIO (reread_ranges L (pa_file_identity (hd ranges)) (pa_start_offset (hd ranges))
                  (pa_start_record_index (hd ranges)) ranges) (\<lambda>data.
        returnIO (hl_hash L data)))"

fun reread_records ::
  "('w, 'x, 'e) host_loop \<Rightarrow> file_identity \<Rightarrow> framed_record list \<Rightarrow> ('w, bytes) io" where
  "reread_records L identity [] = returnIO []"
| "reread_records L identity (r # rs) =
     bindIO (reread L identity (fr_end_offset r) (fr_start_offset r)) (\<lambda>data.
     bindIO (checkIO (hl_hash L data \<noteq> framed_source_sha256 (hl_hash L) r)
               (ReceiptBindingError ''source range content drift'')) (\<lambda>_.
     bindIO (reread_records L identity rs) (\<lambda>rest. returnIO (data @ rest))))"

definition source_range_sha256 ::
  "('w, 'x, 'e) host_loop \<Rightarrow> framed_record list \<Rightarrow> file_identity \<Rightarrow> ('w, string) io" where
  "source_range_sha256 L records identity =
     (if records = [] then raiseIO (ValueError ''source range hashing requires records'')
      else bindIO (reread_records L identity records) (\<lambda>data. returnIO (hl_hash L data)))"

definition assembly_source_sha256 ::
  "('w, 'x, 'e) host_loop \<Rightarrow> framed_record list \<Rightarrow> file_identity \<Rightarrow> ('w, string) io" where
  "assembly_source_sha256 L records identity =
     (if streaming L then source_range_sha256 L records identity
      else returnIO (hl_hash L (concat (map fr_framed_bytes records))))"

section \<open>Ranges of an assembly\<close>

definition ranges_with_records ::
  "hash \<Rightarrow> pending_assembly_range list \<Rightarrow> framed_record list \<Rightarrow> file_identity
    \<Rightarrow> pending_assembly_range list result" where
  "ranges_with_records H ranges records identity =
     (if records = [] then Inr ranges
      else
        bindE (pending_range_from_records H records identity) (\<lambda>r.
          if ranges \<noteq> [] \<and> pa_file_identity (last ranges) \<noteq> pa_file_identity r
          then Inl (ReceiptBindingError ''pending assembly range identity drift'')
          else if ranges \<noteq> [] \<and> pa_end_offset (last ranges) \<noteq> pa_start_offset r
          then Inl (ReceiptBindingError ''pending assembly range byte gap'')
          else if ranges \<noteq> [] \<and> pa_end_record_index (last ranges) \<noteq> pa_start_record_index r
          then Inl (ReceiptBindingError ''pending assembly range record gap'')
          else Inr (ranges @ [r])))"

definition streaming_limit_diagnostic ::
  "('w, 'x, 'e) host_loop \<Rightarrow> pending_assembly_range list \<Rightarrow> string option" where
  "streaming_limit_diagnostic L ranges =
     (if ranges = [] then None
      else if length ranges > HOST_CAPTURE_MAX_PENDING_RANGES
      then Some ''assembly.streaming-range-limit''
      else if pa_end_record_index (last ranges) - pa_start_record_index (hd ranges)
                > HOST_CAPTURE_MAX_STREAMING_ASSEMBLY_RECORDS
      then Some ''assembly.streaming-record-limit''
      else if (case hl_max_streaming L of
                 None \<Rightarrow> False
               | Some n \<Rightarrow> pa_end_offset (last ranges) - pa_start_offset (hd ranges) > n)
      then Some ''assembly.streaming-span-limit''
      else None)"

definition verified_span ::
  "pending_assembly_range list \<Rightarrow> string \<Rightarrow> verified_assembly_span result" where
  "verified_span ranges digest =
     (if ranges = [] then Inl (ValueError ''verified assembly span requires ranges'')
      else make_verified_assembly_span
             \<lparr>va_file_identity = pa_file_identity (hd ranges),
              va_start_offset = pa_start_offset (hd ranges),
              va_end_offset = pa_end_offset (last ranges),
              va_start_record_index = pa_start_record_index (hd ranges),
              va_end_record_index = pa_end_record_index (last ranges),
              va_byte_count = pa_end_offset (last ranges) - pa_start_offset (hd ranges),
              va_record_count = pa_end_record_index (last ranges) - pa_start_record_index (hd ranges),
              va_range_count = length ranges, va_source_bytes_sha256 = digest\<rparr>)"

section \<open>Failures, quarantine and drift\<close>

definition mapped_failure_state :: "host_read_status \<Rightarrow> host_capture_state" where
  "mapped_failure_state st =
     (if st = HR_PERMISSION_REVOKED then HC_PERMISSION_REVOKED
      else if st \<in> {HR_ROTATED_OR_REPLACED, HR_IDENTITY_DRIFT, HR_TRUNCATED} then HC_IDENTITY_CHANGED
      else HC_DEGRADED)"

definition commit_host_failure ::
  "('w, 'x, 'e) host_loop \<Rightarrow> host_cursor \<Rightarrow> host_read_response \<Rightarrow> ('w, host_cursor) io" where
  "commit_host_failure L s response =
     host_commit L s
       (no_update
          \<lparr>up_source_state := Some (mapped_failure_state (rs_status response)),
           up_observed_size := Some (max (rs_observed_size response) (hc_acknowledged_offset s)),
           up_retry_attempts := Some (retry_next s),
           up_diagnostic_code :=
             (case rs_diagnostic_code response of
                Some c \<Rightarrow> Some c
              | None \<Rightarrow> Some (''host.'' @ host_read_status_value (rs_status response)))\<rparr>)"

definition same_quarantine :: "quarantine_entry \<Rightarrow> quarantine_entry \<Rightarrow> bool" where
  "same_quarantine a b \<longleftrightarrow>
     qe_file_identity a = qe_file_identity b \<and> qe_start_offset a = qe_start_offset b
     \<and> qe_end_offset a = qe_end_offset b \<and> qe_source_bytes_sha256 a = qe_source_bytes_sha256 b
     \<and> qe_diagnostic_code a = qe_diagnostic_code b"

text \<open>The first entry equal in all but its count is counted once more; \<open>None\<close> is the \<open>else\<close> of the loop.\<close>

fun count_quarantine :: "quarantine_entry \<Rightarrow> quarantine_entry list \<Rightarrow> quarantine_entry list option" where
  "count_quarantine e [] = None"
| "count_quarantine e (q # qs) =
     (if same_quarantine q e
      then Some (q\<lparr>qe_occurrences := min (qe_occurrences q + 1) 1000000\<rparr> # qs)
      else map_option ((#) q) (count_quarantine e qs))"

definition quarantined ::
  "quarantine_entry \<Rightarrow> quarantine_entry list \<Rightarrow> nat \<Rightarrow> (quarantine_entry list \<times> nat) result" where
  "quarantined e entries overflow =
     (case count_quarantine e entries of
        Some entries' \<Rightarrow> Inr (entries', overflow)
      | None \<Rightarrow>
          if length entries < HOST_CAPTURE_MAX_QUARANTINE
          then bindE (make_quarantine_entry e) (\<lambda>e'. Inr (entries @ [e'], overflow))
          else Inr (entries, min (overflow + 1) 1000000))"

definition quarantine ::
  "('w, 'x, 'e) host_loop \<Rightarrow> host_cursor \<Rightarrow> file_identity \<Rightarrow> nat \<Rightarrow> nat \<Rightarrow> string \<Rightarrow> string \<Rightarrow> nat
    \<Rightarrow> ('w, host_cursor) io" where
  "quarantine L s identity start stop digest code observed =
     bindIO (liftIO (quarantined
       \<lparr>qe_file_identity = identity, qe_start_offset = start, qe_end_offset = stop,
        qe_source_bytes_sha256 = digest, qe_diagnostic_code = code, qe_occurrences = 1\<rparr>
       (hc_quarantine s) (hc_quarantine_overflow_count s))) (\<lambda>(entries, overflow).
     host_commit L s
       (no_update
          \<lparr>up_file_identity := Some identity, up_source_state := Some HC_QUARANTINED,
           up_observed_size := Some (max observed (hc_acknowledged_offset s)),
           up_diagnostic_code := Some code, up_quarantine := Some entries,
           up_quarantine_overflow_count := Some overflow\<rparr>))"

text \<open>A commit, or a quarantine, after which the run returns the health of the stored cursor.\<close>

definition report :: "('w, host_cursor) io \<Rightarrow> failure_capsule option \<Rightarrow> ('w, capture_health) io" where
  "report m capsule = bindIO m (\<lambda>s. liftIO (capture_health_of s capsule))"

definition drift_update :: "host_cursor \<Rightarrow> nat \<Rightarrow> string \<Rightarrow> host_update" where
  "drift_update s observed code =
     no_update
       \<lparr>up_source_state := Some HC_IDENTITY_CHANGED, up_observed_size := Some observed,
        up_retry_attempts := Some (retry_next s), up_diagnostic_code := Some code\<rparr>"

definition report_drift ::
  "('w, 'x, 'e) host_loop \<Rightarrow> host_cursor \<Rightarrow> nat \<Rightarrow> string \<Rightarrow> ('w, capture_health) io" where
  "report_drift L s observed code = report (host_commit L s (drift_update s observed code)) None"


section \<open>The start of a run\<close>

definition upgrade_streaming_cursor ::
  "('w, 'x, 'e) host_loop \<Rightarrow> host_cursor \<Rightarrow> ('w, host_cursor) io" where
  "upgrade_streaming_cursor L s =
     (let same = no_update\<lparr>up_source_state := Some (hc_source_state s),
                           up_retry_attempts := Some (hc_retry_attempts s),
                           up_diagnostic_code := hc_diagnostic_code s\<rparr>
      in if hc_cursor_version s = 2 then returnIO s
         else if hc_pending_assembly_records s \<noteq> []
         then
           (case hc_file_identity s of
              None \<Rightarrow> raiseIO (ReceiptBindingError ''legacy pending records lack file identity'')
            | Some identity \<Rightarrow>
                (let records = map pending_record_to_framed (hc_pending_assembly_records s)
                 in bindIO (source_range_sha256 L records identity) (\<lambda>digest.
                    bindIO (liftIO (make_pending_assembly_range
                      \<lparr>pa_file_identity = identity, pa_start_offset = fr_start_offset (hd records),
                       pa_end_offset = fr_end_offset (last records),
                       pa_start_record_index = fr_record_index (hd records),
                       pa_end_record_index = fr_record_index (last records) + 1,
                       pa_byte_count = fr_end_offset (last records) - fr_start_offset (hd records),
                       pa_source_bytes_sha256 = digest\<rparr>)) (\<lambda>r.
                    host_commit L s
                      (same\<lparr>up_pending_assembly_records := Some [],
                            up_pending_assembly_ranges := Some [r]\<rparr>)))))
         else if hc_pending_assembly_bytes s \<noteq> 0 then returnIO s
         else host_commit L s same)"

text \<open>The update that acknowledges bytes; the last two fields distinguish its callers.\<close>

definition advance_update ::
  "file_identity \<Rightarrow> nat \<Rightarrow> nat \<Rightarrow> bytes \<Rightarrow> nat \<Rightarrow> host_update" where
  "advance_update identity offset index extractor_state observed =
     no_update
       \<lparr>up_file_identity := Some identity, up_acknowledged_offset := Some offset,
        up_acknowledged_record_index := Some index, up_partial_tail := Some [],
        up_pending_assembly := Some [], up_pending_assembly_records := Some [],
        up_pending_assembly_ranges := Some [], up_extractor_state := Some extractor_state,
        up_source_state := Some HC_HEALTHY, up_observed_size := Some observed,
        up_retry_attempts := Some 0, up_diagnostic_code := None,
        up_clear_pending_capture_recorded_at := True\<rparr>"

definition exclusion_update ::
  "host_cursor \<Rightarrow> scope_exclusion_entry \<Rightarrow> bytes \<Rightarrow> nat \<Rightarrow> host_update" where
  "exclusion_update s e extractor_state observed =
     (advance_update (se_file_identity e) (se_end_offset e) (se_end_record_index e) extractor_state observed)
       \<lparr>up_scope_exclusions := Some (hc_scope_exclusions s @ [e]),
        up_clear_last_acknowledgement := True\<rparr>"

definition seek_scope_start ::
  "('w, 'x, 'e) host_loop \<Rightarrow> (seek_request \<Rightarrow> ('w, seek_result) io) \<Rightarrow> host_cursor
    \<Rightarrow> ('w, host_cursor) io" where
  "seek_scope_start L seek s =
     bindIO (seek
       \<lparr>sq_capability_id = hl_capability_id L, sq_capability_credential = hl_capability_credential L,
        sq_expected_identity = hc_file_identity s, sq_start_offset = hc_acknowledged_offset s,
        sq_start_record_index = hc_acknowledged_record_index s, sq_read_size = hl_read_size L\<rparr>) (\<lambda>found.
     bindIO (liftIO (make_seek_result found)) (\<lambda>result.
     bindIO (checkIO (sk_start_offset result \<noteq> hc_acknowledged_offset s)
               (ReceiptBindingError ''scope seek start offset mismatch'')) (\<lambda>_.
     bindIO (checkIO (sk_start_record_index result \<noteq> hc_acknowledged_record_index s)
               (ReceiptBindingError ''scope seek start record mismatch'')) (\<lambda>_.
     bindIO (checkIO (hc_file_identity s \<noteq> None \<and> Some (sk_file_identity result) \<noteq> hc_file_identity s)
               (ReceiptBindingError ''scope seek file identity mismatch'')) (\<lambda>_.
     if sk_end_offset result = sk_start_offset result then returnIO s
     else
       bindIO (checkIO (sk_end_record_index result = sk_start_record_index result)
                 (ReceiptBindingError ''scope seek advanced bytes without records'')) (\<lambda>_.
       bindIO (checkIO (length (hc_scope_exclusions s) \<ge> HOST_CAPTURE_MAX_SCOPE_EXCLUSIONS)
                 (RuntimeError ''scope exclusion capacity exceeded'')) (\<lambda>_.
       bindIO (liftIO (make_scope_exclusion_entry
         \<lparr>se_capability_id = hl_capability_id L, se_file_identity = sk_file_identity result,
          se_start_offset = sk_start_offset result, se_end_offset = sk_end_offset result,
          se_start_record_index = sk_start_record_index result,
          se_end_record_index = sk_end_record_index result,
          se_source_bytes_sha256 = sk_source_bytes_sha256 result,
          se_approved_date = sk_approved_date result, se_reason = sk_reason result,
          se_disposition_kind = SCOPE_START,
          se_excluded_logical_turn_count = sk_excluded_logical_turn_count result\<rparr>)) (\<lambda>exclusion.
       bindIO (liftIO (if hl_advance L = None then Inr (hc_extractor_state s)
                       else case hl_begin_after_scope_start L of
                              None \<Rightarrow> Inr (hc_extractor_state s)
                            | Some begin_after \<Rightarrow> begin_after (hc_extractor_state s))) (\<lambda>assembly_state.
       host_commit L s (exclusion_update s exclusion assembly_state (sk_observed_size result)))))))))))"

section \<open>The record loop\<close>

record host_acc =
  la_state :: host_cursor
  la_assembly_state :: bytes
  la_records :: "framed_record list"
  la_ranges :: "pending_assembly_range list"
  la_committed :: bool
  la_recorded_at :: datetime

text \<open>
  Extraction of one record: the next assembly state and what it finalizes. Single-record
  extraction leaves the state as it is.
\<close>

definition extract_record ::
  "('w, 'x, 'e) host_loop \<Rightarrow> framed_record \<Rightarrow> bytes \<Rightarrow> (bytes \<times> 'x option) result" where
  "extract_record L record state =
     (case hl_advance L of
        None \<Rightarrow>
          (case hl_extract L of
             None \<Rightarrow> Inl (AssertionError ''extractor'')
           | Some extract \<Rightarrow> bindE (extract record) (\<lambda>finalized. Inr (state, finalized)))
      | Some advance \<Rightarrow>
          bindE (advance record state) (\<lambda>(next_state, finalized).
            if length next_state > HOST_CAPTURE_MAX_ASSEMBLY_STATE_BYTES
            then Inl (SourceRecordParseError ''assembly.state-size-limit'' None)
            else Inr (next_state, finalized)))"

text \<open>Where the assembly in progress starts and the digest of its bytes.\<close>

definition assembly_span ::
  "('w, 'x, 'e) host_loop \<Rightarrow> file_identity \<Rightarrow> host_acc \<Rightarrow> ('w, nat \<times> string) io" where
  "assembly_span L identity acc =
     (if streaming L
      then
        bindIO (liftIO (ranges_with_records (hl_hash L) (la_ranges acc) (la_records acc) identity)) (\<lambda>ranges.
        bindIO (source_ranges_sha256 L ranges) (\<lambda>digest. returnIO (pa_start_offset (hd ranges), digest)))
      else
        returnIO (fr_start_offset (hd (la_records acc)),
                  hl_hash L (concat (map fr_framed_bytes (la_records acc)))))"

definition quarantine_assembly ::
  "('w, 'x, 'e) host_loop \<Rightarrow> file_identity \<Rightarrow> nat \<Rightarrow> framed_record \<Rightarrow> host_acc \<Rightarrow> string
    \<Rightarrow> failure_capsule option \<Rightarrow> ('w, capture_health + host_acc) io" where
  "quarantine_assembly L identity observed record acc code capsule =
     bindIO (assembly_span L identity acc) (\<lambda>(start, digest).
     bindIO (report (quarantine L (la_state acc) identity start (fr_end_offset record) digest code observed)
               capsule) (\<lambda>h. returnIO (Inl h)))"

definition validate_capture_receipt ::
  "submission_receipt \<Rightarrow> string \<Rightarrow> proposed_source_cursor \<Rightarrow> uuid \<Rightarrow> unit result" where
  "validate_capture_receipt receipt operation_id proposal event_id =
     validated
       [raise_if (sr_operation_id receipt \<noteq> operation_id)
          (ReceiptBindingError ''durable receipt operation identity mismatch''),
        raise_if (sr_event_id receipt \<noteq> Some event_id)
          (ReceiptBindingError ''durable receipt event identity mismatch''),
        raise_if (sr_checkpoint_sequence receipt \<noteq> Some (pc_next_checkpoint_sequence proposal))
          (ReceiptBindingError ''durable receipt checkpoint mismatch''),
        raise_if (sr_ingress_status receipt \<notin> {CI_ACCEPTED, CI_DUPLICATE, CI_AMENDED})
          (ReceiptBindingError ''durable receipt did not accept the source record'')]
       ()"


text \<open>Where a finalized assembly starts, its digest, and the verified span in streaming mode.\<close>

definition finalized_span ::
  "('w, 'x, 'e) host_loop \<Rightarrow> file_identity \<Rightarrow> host_acc
    \<Rightarrow> ('w, pending_assembly_range list \<times> string option \<times> nat \<times> nat \<times> string \<times> verified_assembly_span option) io" where
  "finalized_span L identity acc =
     (if streaming L
      then
        bindIO (liftIO (ranges_with_records (hl_hash L) (la_ranges acc) (la_records acc) identity)) (\<lambda>ranges.
        bindIO (source_ranges_sha256 L ranges) (\<lambda>digest.
        case streaming_limit_diagnostic L ranges of
          Some code \<Rightarrow> returnIO (ranges, Some code, 0, 0, digest, None)
        | None \<Rightarrow>
            bindIO (liftIO (verified_span ranges digest)) (\<lambda>span.
            returnIO (ranges, None, va_start_offset span, va_start_record_index span, digest, Some span))))
      else
        bindIO (assembly_source_sha256 L (la_records acc) identity) (\<lambda>digest.
        returnIO ([], None, fr_start_offset (hd (la_records acc)), fr_record_index (hd (la_records acc)),
                  digest, None)))"

definition build_envelope ::
  "('w, 'x, 'e) host_loop \<Rightarrow> 'x \<Rightarrow> framed_record \<Rightarrow> framed_record list \<Rightarrow> file_identity
    \<Rightarrow> verified_assembly_span option \<Rightarrow> datetime \<Rightarrow> 'e result" where
  "build_envelope L finalized record records identity span recorded_at =
     (if hl_advance L = None
      then (case hl_build L of
              None \<Rightarrow> Inl (AssertionError ''envelope_builder'')
            | Some build \<Rightarrow> build finalized record identity recorded_at)
      else
        (case hl_assembled_build L of
           None \<Rightarrow> Inl (AssertionError ''assembled_envelope_builder'')
         | Some build \<Rightarrow>
             (case (span, hl_span_build L) of
                (Some s, Some compact_build) \<Rightarrow> compact_build finalized s recorded_at
              | (Some s, None) \<Rightarrow> Inl (TypeError ''build_from_source_span'')
              | (None, _) \<Rightarrow> build finalized records identity recorded_at)))"

definition operation_id :: "('w, 'x, 'e) host_loop \<Rightarrow> 'e \<Rightarrow> string" where
  "operation_id L envelope =
     ''host-capture.v1:'' @ hl_capability_id L @ '':'' @ uuid_str (hl_event_id L envelope)"

definition proposal_of ::
  "('w, 'x, 'e) host_loop \<Rightarrow> host_cursor \<Rightarrow> file_identity \<Rightarrow> nat \<Rightarrow> nat \<Rightarrow> string \<Rightarrow> 'e
    \<Rightarrow> proposed_source_cursor" where
  "proposal_of L s identity start stop digest envelope =
     \<lparr>pc_capability_id = hl_capability_id L, pc_file_identity = identity, pc_start_offset = start,
      pc_end_offset = stop, pc_source_bytes_sha256 = digest,
      pc_envelope_hash = hl_envelope_hash L envelope,
      pc_expected_checkpoint_sequence = hc_checkpoint_sequence s,
      pc_next_checkpoint_sequence = hc_checkpoint_sequence s + 1\<rparr>"

definition connector_cursor_of :: "hash \<Rightarrow> string \<Rightarrow> proposed_source_cursor \<Rightarrow> connector_cursor" where
  "connector_cursor_of H key p =
     \<lparr>cc_checkpoint_key = key, cc_expected_sequence = pc_expected_checkpoint_sequence p,
      cc_next_sequence = pc_next_checkpoint_sequence p,
      cc_checkpoint_hash = proposed_cursor_canonical_hash H p\<rparr>"

definition acknowledgement_for ::
  "proposed_source_cursor \<Rightarrow> uuid \<Rightarrow> submission_receipt \<Rightarrow> cursor_acknowledgement" where
  "acknowledgement_for p event_id receipt =
     \<lparr>ca_proposal = p, ca_operation_id = sr_operation_id receipt,
      ca_receipt_request_hash = sr_request_hash receipt, ca_receipt_event_id = event_id,
      ca_receipt_delivery_id = sr_delivery_id receipt,
      ca_authority_principal_id = sr_authority_principal_id receipt,
      ca_replayed = sr_replayed receipt\<rparr>"

text \<open>The pinned capture time is stored before the envelope is built, so that a replay builds it again.\<close>

definition pin_recorded_at ::
  "('w, 'x, 'e) host_loop \<Rightarrow> host_cursor \<Rightarrow> file_identity \<Rightarrow> datetime \<Rightarrow> nat \<Rightarrow> ('w, host_cursor) io" where
  "pin_recorded_at L s identity recorded_at observed =
     (if hc_pending_capture_recorded_at s = None
      then host_commit L s
             (no_update\<lparr>up_file_identity := Some identity,
                        up_pending_capture_recorded_at := Some recorded_at,
                        up_observed_size := Some observed\<rparr>)
      else returnIO s)"

definition acknowledged_update ::
  "file_identity \<Rightarrow> framed_record \<Rightarrow> bytes \<Rightarrow> nat \<Rightarrow> proposed_source_cursor \<Rightarrow> cursor_acknowledgement
    \<Rightarrow> host_update" where
  "acknowledged_update f record st n p a =
     (advance_update f (fr_end_offset record) (fr_record_index record + 1) st n)
       \<lparr>up_checkpoint_sequence := Some (pc_next_checkpoint_sequence p), up_last_acknowledgement := Some a\<rparr>"

text \<open>Submission of the envelope of one finalized assembly, and the acknowledged cursor.\<close>

definition submit_finalized ::
  "('w, 'x, 'e) host_loop \<Rightarrow> datetime \<Rightarrow> file_identity \<Rightarrow> nat \<Rightarrow> host_cursor \<Rightarrow> datetime \<Rightarrow> 'x
    \<Rightarrow> framed_record \<Rightarrow> framed_record list \<Rightarrow> nat \<Rightarrow> string \<Rightarrow> verified_assembly_span option \<Rightarrow> bytes
    \<Rightarrow> ('w, host_cursor) io" where
  "submit_finalized L recorded_at identity observed s capture_recorded_at finalized record records start digest
      span assembly_state =
     bindIO (pin_recorded_at L s identity capture_recorded_at observed) (\<lambda>pinned.
     bindIO (liftIO (build_envelope L finalized record records identity span capture_recorded_at)) (\<lambda>envelope.
     bindIO (liftIO (make_proposed_source_cursor
               (proposal_of L pinned identity start (fr_end_offset record) digest envelope))) (\<lambda>proposal.
     bindIO (liftIO (make_connector_cursor
               (connector_cursor_of (hl_hash L) (hl_checkpoint_key L) proposal))) (\<lambda>cursor.
     bindIO (hl_submit L envelope (operation_id L envelope) cursor recorded_at) (\<lambda>receipt.
     bindIO (liftIO (validate_capture_receipt receipt (operation_id L envelope) proposal
               (hl_event_id L envelope))) (\<lambda>_.
     bindIO (liftIO (make_cursor_acknowledgement
               (acknowledgement_for proposal (hl_event_id L envelope) receipt))) (\<lambda>acknowledgement.
     host_commit L pinned
       (acknowledged_update identity record assembly_state observed proposal acknowledgement))))))))"

definition exclude_finalized ::
  "('w, 'x, 'e) host_loop \<Rightarrow> file_identity \<Rightarrow> nat \<Rightarrow> host_cursor \<Rightarrow> finalized_scope_exclusion
    \<Rightarrow> framed_record \<Rightarrow> nat \<Rightarrow> nat \<Rightarrow> string \<Rightarrow> bytes \<Rightarrow> ('w, host_cursor) io" where
  "exclude_finalized L identity observed s x record start start_index digest assembly_state =
     bindIO (checkIO (length (hc_scope_exclusions s) \<ge> HOST_CAPTURE_MAX_SCOPE_EXCLUSIONS)
               (RuntimeError ''scope exclusion capacity exceeded'')) (\<lambda>_.
     bindIO (liftIO (make_scope_exclusion_entry
       \<lparr>se_capability_id = hl_capability_id L, se_file_identity = identity, se_start_offset = start,
        se_end_offset = fr_end_offset record, se_start_record_index = start_index,
        se_end_record_index = fr_record_index record + 1, se_source_bytes_sha256 = digest,
        se_approved_date = fx_approved_date x, se_reason = fx_reason x,
        se_disposition_kind = FINALIZED_TURN, se_excluded_logical_turn_count = Some 1\<rparr>)) (\<lambda>exclusion.
     host_commit L s (exclusion_update s exclusion assembly_state observed)))"

definition dispose_finalized ::
  "('w, 'x, 'e) host_loop \<Rightarrow> datetime \<Rightarrow> file_identity \<Rightarrow> nat \<Rightarrow> host_acc \<Rightarrow> 'x \<Rightarrow> framed_record
    \<Rightarrow> nat \<Rightarrow> nat \<Rightarrow> string \<Rightarrow> verified_assembly_span option \<Rightarrow> ('w, host_acc) io" where
  "dispose_finalized L recorded_at identity observed acc finalized record start start_index digest span =
     bindIO
       (case (case hl_exclusion L of None \<Rightarrow> None | Some f \<Rightarrow> f finalized) of
          Some x \<Rightarrow>
            exclude_finalized L identity observed (la_state acc) x record start start_index digest
              (la_assembly_state acc)
        | None \<Rightarrow>
            submit_finalized L recorded_at identity observed (la_state acc) (la_recorded_at acc) finalized
              record (la_records acc) start digest span (la_assembly_state acc)) (\<lambda>s.
     returnIO (acc\<lparr>la_state := s, la_committed := True, la_recorded_at := recorded_at,
                   la_records := [], la_ranges := []\<rparr>))"

definition host_finalized ::
  "('w, 'x, 'e) host_loop \<Rightarrow> datetime \<Rightarrow> file_identity \<Rightarrow> nat \<Rightarrow> framed_record \<Rightarrow> host_acc \<Rightarrow> 'x
    \<Rightarrow> ('w, capture_health + host_acc) io" where
  "host_finalized L recorded_at identity observed record acc finalized =
     (if length (la_assembly_state acc) > HOST_CAPTURE_MAX_CONTINUATION_STATE_BYTES
      then quarantine_assembly L identity observed record acc ''assembly.continuation-state-size-limit'' None
      else
        bindIO (finalized_span L identity acc) (\<lambda>(ranges, limit, start, start_index, digest, span).
        case limit of
          Some code \<Rightarrow>
            bindIO (report (quarantine L (la_state acc) identity (pa_start_offset (hd ranges))
                      (pa_end_offset (last ranges)) digest code observed) None) (\<lambda>h. returnIO (Inl h))
        | None \<Rightarrow>
            bindIO (dispose_finalized L recorded_at identity observed acc finalized record start start_index
                      digest span) (\<lambda>acc'. returnIO (Inr acc'))))"

text \<open>One iteration of the loop: a value of the left side is an early return of the run.\<close>

definition host_record ::
  "('w, 'x, 'e) host_loop \<Rightarrow> datetime \<Rightarrow> file_identity \<Rightarrow> nat \<Rightarrow> framed_record \<Rightarrow> host_acc
    \<Rightarrow> ('w, capture_health + host_acc) io" where
  "host_record L recorded_at identity observed record acc =
     (if fr_oversized record
      then
        bindIO (report (quarantine L (la_state acc) identity (fr_start_offset record) (fr_end_offset record)
                  (hl_hash L (fr_framed_bytes record)) ''framing.record-size-limit'' observed) None)
          (\<lambda>h. returnIO (Inl h))
      else
        (let acc = acc\<lparr>la_records := la_records acc @ [record]\<rparr>
         in case extract_record L record (la_assembly_state acc) of
              Inl (SourceRecordParseError code capsule) \<Rightarrow>
                quarantine_assembly L identity observed record acc code capsule
            | Inl e \<Rightarrow> raiseIO e
            | Inr (next_state, finalized) \<Rightarrow>
                (case finalized of
                   None \<Rightarrow> returnIO (Inr (acc\<lparr>la_assembly_state := next_state\<rparr>))
                 | Some x \<Rightarrow>
                     host_finalized L recorded_at identity observed record
                       (acc\<lparr>la_assembly_state := next_state\<rparr>) x)))"

fun host_records ::
  "('w, 'x, 'e) host_loop \<Rightarrow> datetime \<Rightarrow> file_identity \<Rightarrow> nat \<Rightarrow> framed_record list \<Rightarrow> host_acc
    \<Rightarrow> ('w, capture_health + host_acc) io" where
  "host_records L recorded_at identity observed [] acc = returnIO (Inr acc)"
| "host_records L recorded_at identity observed (record # records) acc =
     bindIO (host_record L recorded_at identity observed record acc) (\<lambda>r.
       case r of
         Inl h \<Rightarrow> returnIO (Inl h)
       | Inr acc' \<Rightarrow> host_records L recorded_at identity observed records acc')"


section \<open>After the records\<close>

definition health_now :: "host_cursor \<Rightarrow> ('w, capture_health) io" where
  "health_now s = liftIO (capture_health_of s None)"

definition finish_streaming ::
  "('w, 'x, 'e) host_loop \<Rightarrow> file_identity \<Rightarrow> nat \<Rightarrow> framed_batch \<Rightarrow> host_acc
    \<Rightarrow> ('w, capture_health) io" where
  "finish_streaming L identity observed batch acc =
     (let s = la_state acc
      in bindIO (liftIO (ranges_with_records (hl_hash L) (la_ranges acc) (la_records acc) identity)) (\<lambda>ranges.
         let quarantine_ranges = (\<lambda>code.
               bindIO (source_ranges_sha256 L ranges) (\<lambda>digest.
               report (quarantine L s identity (pa_start_offset (hd ranges)) (pa_end_offset (last ranges))
                 digest code observed) None));
             pending_bytes =
               (if ranges = [] then 0 else pa_end_offset (last ranges) - hc_acknowledged_offset s);
             desired_state =
               (if ranges \<noteq> [] \<or> fb_partial_tail batch \<noteq> [] \<or> fb_has_unprocessed_records batch
                then HC_WAITING_FOR_COMPLETE_RECORD else HC_HEALTHY)
         in case streaming_limit_diagnostic L ranges of
              Some code \<Rightarrow> quarantine_ranges code
            | None \<Rightarrow>
                if length (la_assembly_state acc) > HOST_CAPTURE_MAX_CONTINUATION_STATE_BYTES
                then quarantine_ranges ''assembly.continuation-state-size-limit''
                else if hc_partial_tail s \<noteq> fb_partial_tail batch \<or> hc_cursor_version s \<noteq> 2
                  \<or> hc_pending_assembly_records s \<noteq> [] \<or> hc_pending_assembly_ranges s \<noteq> ranges
                  \<or> hc_pending_assembly_bytes s \<noteq> pending_bytes
                  \<or> hc_pending_assembly_sha256 s \<noteq> pending_ranges_sha256 (hl_hash L) ranges
                  \<or> hc_extractor_state s \<noteq> la_assembly_state acc \<or> hc_file_identity s \<noteq> Some identity
                  \<or> hc_source_state s \<noteq> desired_state \<or> hc_observed_size s \<noteq> observed
                  \<or> hc_retry_attempts s \<noteq> 0 \<or> hc_diagnostic_code s \<noteq> None
                then
                  report (host_commit L s
                    (no_update
                       \<lparr>up_file_identity := Some identity, up_partial_tail := Some (fb_partial_tail batch),
                        up_pending_assembly_records := Some [], up_pending_assembly_ranges := Some ranges,
                        up_extractor_state := Some (la_assembly_state acc),
                        up_source_state := Some desired_state, up_observed_size := Some observed,
                        up_retry_attempts := Some 0, up_diagnostic_code := None\<rparr>)) None
                else health_now s))"

definition finish_window ::
  "('w, 'x, 'e) host_loop \<Rightarrow> file_identity \<Rightarrow> host_read_request \<Rightarrow> nat \<Rightarrow> bytes \<Rightarrow> framed_batch
    \<Rightarrow> host_acc \<Rightarrow> ('w, capture_health) io" where
  "finish_window L identity request observed combined batch acc =
     (let s = la_state acc;
          assembling = (hl_advance L \<noteq> None);
          pending_start =
            (if la_records acc \<noteq> [] then fr_start_offset (hd (la_records acc))
             else hc_acknowledged_offset s);
          pending_assembly =
            (if assembling then drop (pending_start - rq_byte_offset request) combined else []);
          desired_state =
            (if fb_partial_tail batch \<noteq> [] \<or> pending_assembly \<noteq> [] \<or> fb_has_unprocessed_records batch
             then HC_WAITING_FOR_COMPLETE_RECORD else HC_HEALTHY);
          desired_tail = (if assembling then [] else fb_partial_tail batch)
      in if fb_has_unprocessed_records batch \<and> \<not> la_committed acc then health_now s
         else if hc_partial_tail s \<noteq> desired_tail
           \<or> hc_pending_assembly_bytes s \<noteq> length pending_assembly
           \<or> hc_pending_assembly_sha256 s \<noteq> hl_hash L pending_assembly
           \<or> hc_file_identity s \<noteq> Some identity \<or> hc_source_state s \<noteq> desired_state
           \<or> hc_observed_size s \<noteq> observed \<or> hc_retry_attempts s \<noteq> 0 \<or> hc_diagnostic_code s \<noteq> None
         then
           report (host_commit L s
             (no_update
                \<lparr>up_file_identity := Some identity, up_partial_tail := Some desired_tail,
                 up_pending_assembly := Some pending_assembly, up_source_state := Some desired_state,
                 up_observed_size := Some observed, up_retry_attempts := Some 0,
                 up_diagnostic_code := None\<rparr>)) None
         else health_now s)"

definition finish_batch ::
  "('w, 'x, 'e) host_loop \<Rightarrow> file_identity \<Rightarrow> host_read_request \<Rightarrow> nat \<Rightarrow> bytes \<Rightarrow> framed_batch
    \<Rightarrow> host_acc \<Rightarrow> ('w, capture_health) io" where
  "finish_batch L identity request observed combined batch acc =
     (let stuck = hl_advance L \<noteq> None \<and> la_records acc \<noteq> [] \<and> \<not> la_committed acc \<and> \<not> streaming L
      in if stuck \<and> length combined = rq_max_bytes request
           \<and> observed > rq_byte_offset request + length combined
         then report (quarantine L (la_state acc) identity (rq_byte_offset request)
                (rq_byte_offset request + length combined) (hl_hash L combined)
                ''assembly.acquisition-window-limit'' observed) None
         else if stuck \<and> fb_has_unprocessed_records batch
         then report (quarantine L (la_state acc) identity (fr_start_offset (hd (la_records acc)))
                (fr_end_offset (last (la_records acc)))
                (hl_hash L (concat (map fr_framed_bytes (la_records acc))))
                ''assembly.record-count-limit'' observed) None
         else if hl_advance L \<noteq> None \<and> streaming L then finish_streaming L identity observed batch acc
         else finish_window L identity request observed combined batch acc)"

section \<open>\<open>run_once\<close>\<close>

definition initial_acc :: "('w, 'x, 'e) host_loop \<Rightarrow> datetime \<Rightarrow> host_cursor \<Rightarrow> host_acc" where
  "initial_acc L recorded_at s =
     \<lparr>la_state = s, la_assembly_state = hc_extractor_state s,
      la_records = (if streaming L then [] else map pending_record_to_framed (hc_pending_assembly_records s)),
      la_ranges = hc_pending_assembly_ranges s, la_committed = False,
      la_recorded_at = keep (hc_pending_capture_recorded_at s) recorded_at\<rparr>"

definition host_batch ::
  "('w, 'x, 'e) host_loop \<Rightarrow> datetime \<Rightarrow> host_cursor \<Rightarrow> file_identity \<Rightarrow> host_read_request \<Rightarrow> nat
    \<Rightarrow> bytes \<Rightarrow> ('w, capture_health) io" where
  "host_batch L recorded_at s identity request observed combined =
     bindIO (liftIO (framer_frame (hl_framer L) combined (rq_byte_offset request)
               (if streaming L then hc_pending_end_record_index s
                else hc_acknowledged_record_index s + length (hc_pending_assembly_records s)))) (\<lambda>batch.
     if fb_partial_tail_overflow batch
     then report (quarantine L s identity (rq_byte_offset request)
            (rq_byte_offset request + length combined) (hl_hash L combined)
            ''framing.partial-tail-limit'' observed) None
     else
       bindIO (host_records L recorded_at identity observed (fb_records batch) (initial_acc L recorded_at s)) (\<lambda>r.
       case r of
         Inl h \<Rightarrow> returnIO h
       | Inr acc \<Rightarrow> finish_batch L identity request observed combined batch acc))"

definition host_response ::
  "('w, 'x, 'e) host_loop \<Rightarrow> datetime \<Rightarrow> host_cursor \<Rightarrow> host_read_request \<Rightarrow> host_read_response
    \<Rightarrow> ('w, capture_health) io" where
  "host_response L recorded_at s request response =
     (let observed = rs_observed_size response;
          data = host_data response;
          prefix = take (hc_pending_assembly_bytes s) data
      in if rs_status response \<notin> {HR_DATA, HR_END_OF_FILE}
         then report (commit_host_failure L s response) None
         else case rs_file_identity response of
           None \<Rightarrow> raiseIO (AssertionError ''file_identity'')
         | Some identity \<Rightarrow>
             if hc_file_identity s \<noteq> None \<and> hc_file_identity s \<noteq> Some identity
             then report (host_commit L s
                    (no_update\<lparr>up_source_state := Some HC_IDENTITY_CHANGED,
                               up_diagnostic_code := Some ''host.identity-changed'',
                               up_observed_size := Some observed\<rparr>)) None
             else if hc_pending_assembly_bytes s \<noteq> 0 \<and> hc_pending_assembly_records s = []
               \<and> hc_pending_assembly_ranges s = []
               \<and> (length prefix \<noteq> hc_pending_assembly_bytes s
                  \<or> hl_hash L prefix \<noteq> hc_pending_assembly_sha256 s)
             then report_drift L s (max observed (hc_acknowledged_offset s)) ''host.pending-assembly-drift''
             else if hc_partial_tail s \<noteq> []
               \<and> take (length (hc_partial_tail s)) data \<noteq> hc_partial_tail s
             then report_drift L s (max observed (hc_acknowledged_offset s)) ''host.partial-tail-drift''
             else host_batch L recorded_at s identity request observed data)"

definition host_poll ::
  "('w, 'x, 'e) host_loop \<Rightarrow> datetime \<Rightarrow> host_cursor \<Rightarrow> ('w, capture_health) io" where
  "host_poll L recorded_at s =
     bindIO (host_request L (hc_file_identity s)
               (if streaming L then hc_pending_end_offset s else hc_acknowledged_offset s)
               (hl_read_size L)) (\<lambda>request.
     bindIO (hl_read L request) (\<lambda>response.
     bindIO (checkIO (rs_request_id response \<noteq> rq_request_id request)
               (ReceiptBindingError ''host response request identity mismatch'')) (\<lambda>_.
     bindIO (checkIO (rs_start_offset response \<noteq> rq_byte_offset request)
               (ReceiptBindingError ''host response byte offset mismatch'')) (\<lambda>_.
     bindIO (checkIO (length (host_data response) > rq_max_bytes request)
               (ReceiptBindingError ''host response exceeds the requested byte bound'')) (\<lambda>_.
     host_response L recorded_at s request response)))))"

text \<open>The seek for the start of the scope, on a cursor that has not moved yet.\<close>

definition host_seek ::
  "('w, 'x, 'e) host_loop \<Rightarrow> datetime \<Rightarrow> host_cursor \<Rightarrow> ('w, capture_health) io" where
  "host_seek L recorded_at s =
     (case hl_seek L of
        None \<Rightarrow> host_poll L recorded_at s
      | Some seek \<Rightarrow>
          if hc_acknowledged_offset s = 0 \<and> hc_acknowledged_record_index s = 0
            \<and> hc_checkpoint_sequence s = 0 \<and> hc_scope_exclusions s = []
          then
            tryIO (seek_scope_start L seek s)
              (\<lambda>e. case e of
                 SourceRecordParseError code capsule \<Rightarrow>
                   report (host_commit L s
                     (no_update\<lparr>up_source_state := Some HC_DEGRADED, up_retry_attempts := Some (retry_next s),
                                up_diagnostic_code := Some code\<rparr>)) capsule
               | _ \<Rightarrow> raiseIO e)
              (host_poll L recorded_at)
          else host_poll L recorded_at s)"

definition pending_range_drift ::
  "('w, 'x, 'e) host_loop \<Rightarrow> host_cursor \<Rightarrow> py_error \<Rightarrow> ('w, capture_health) io" where
  "pending_range_drift L s e =
     (case e of
        ReceiptBindingError _ \<Rightarrow> report_drift L s (hc_observed_size s) ''host.pending-range-drift''
      | _ \<Rightarrow> raiseIO e)"

text \<open>
  In streaming mode the cursor is upgraded and its pending ranges are read again first; the
  handler sees the cursor that the \<open>try\<close> block had assigned when it raised.
\<close>

definition host_verified ::
  "('w, 'x, 'e) host_loop \<Rightarrow> datetime \<Rightarrow> host_cursor \<Rightarrow> ('w, capture_health) io" where
  "host_verified L recorded_at s =
     (if \<not> streaming L then host_seek L recorded_at s
      else
        tryIO (upgrade_streaming_cursor L s) (pending_range_drift L s) (\<lambda>s'.
          if hc_pending_assembly_ranges s' = [] then host_seek L recorded_at s'
          else tryIO (source_ranges_sha256 L (hc_pending_assembly_ranges s')) (pending_range_drift L s')
                 (\<lambda>_. host_seek L recorded_at s')))"

definition load_host_state :: "('w, 'x, 'e) host_loop \<Rightarrow> ('w, host_cursor) io" where
  "load_host_state L =
     bindIO (hl_load L (hl_capability_id L)) (\<lambda>loaded.
     liftIO (case loaded of
               Some s \<Rightarrow> Inr s
             | None \<Rightarrow> make_host_cursor (hl_hash L) (initial_host_cursor (hl_hash L) (hl_capability_id L))))"

definition host_run_once ::
  "('w, 'x, 'e) host_loop \<Rightarrow> datetime \<Rightarrow> ('w, capture_health) io" where
  "host_run_once L recorded_at =
     bindIO (checkIO (tz_missing recorded_at)
               (ValueError ''host capture recorded_at must be timezone-aware'')) (\<lambda>_.
     bindIO (load_host_state L) (host_verified L recorded_at))"

definition host_loop_health :: "('w, 'x, 'e) host_loop \<Rightarrow> ('w, capture_health) io" where
  "host_loop_health L = bindIO (load_host_state L) health_now"

end
