(* ===== verification/HostTrace.thy ===== *)
theory HostTrace
  imports HostRun
begin

text \<open>
  What a run of the host capture loop does to the kernel and to its cursor store. The traced
  loop notes every submission that returned a receipt and every stored cursor; \<open>host_at\<close> says
  how such a history moves the cursor: by acknowledged submissions and by recorded scope
  exclusions, each over the bytes that follow the acknowledged ones, and by nothing else.
\<close>

section \<open>The traced loop\<close>

datatype 'e host_event =
    HSubmitted 'e string connector_cursor datetime submission_receipt
  | HStored nat host_cursor

definition host_traced :: "('w, 'x, 'e) host_loop \<Rightarrow> ('w \<times> 'e host_event list, 'x, 'e) host_loop" where
  "host_traced L =
     \<lparr>hl_hash = hl_hash L, hl_read = (\<lambda>q. with_history (hl_read L q) (\<lambda>_. [])),
      hl_uuid4 = with_history (hl_uuid4 L) (\<lambda>_. []), hl_extract = hl_extract L,
      hl_build = hl_build L, hl_advance = hl_advance L,
      hl_begin_after_scope_start = hl_begin_after_scope_start L,
      hl_assembled_build = hl_assembled_build L, hl_span_build = hl_span_build L,
      hl_submit = (\<lambda>e k c t. with_history (hl_submit L e k c t) (\<lambda>r. [HSubmitted e k c t r])),
      hl_load = (\<lambda>c. with_history (hl_load L c) (\<lambda>_. [])),
      hl_commit = (\<lambda>n s. with_history (hl_commit L n s) (\<lambda>_. [HStored n s])),
      hl_envelope_hash = hl_envelope_hash L, hl_event_id = hl_event_id L,
      hl_capability_id = hl_capability_id L, hl_capability_credential = hl_capability_credential L,
      hl_checkpoint_key = hl_checkpoint_key L, hl_read_size = hl_read_size L,
      hl_framer = hl_framer L, hl_exclusion = hl_exclusion L,
      hl_seek = map_option (\<lambda>seek q. with_history (seek q) (\<lambda>_. [])) (hl_seek L),
      hl_max_streaming = hl_max_streaming L\<rparr>"

lemma host_traced_fields [simp]:
  "hl_hash (host_traced L) = hl_hash L" "hl_extract (host_traced L) = hl_extract L"
  "hl_build (host_traced L) = hl_build L" "hl_advance (host_traced L) = hl_advance L"
  "hl_assembled_build (host_traced L) = hl_assembled_build L"
  "hl_span_build (host_traced L) = hl_span_build L"
  "hl_envelope_hash (host_traced L) = hl_envelope_hash L" "hl_event_id (host_traced L) = hl_event_id L"
  "hl_capability_id (host_traced L) = hl_capability_id L"
  "hl_checkpoint_key (host_traced L) = hl_checkpoint_key L" "hl_framer (host_traced L) = hl_framer L"
  "hl_exclusion (host_traced L) = hl_exclusion L" "hl_max_streaming (host_traced L) = hl_max_streaming L"
  "streaming (host_traced L) = streaming L"
  "hl_begin_after_scope_start (host_traced L) = hl_begin_after_scope_start L"
  by (simp_all add: host_traced_def streaming_def)

lemma host_traced_derived [simp]:
  "build_envelope (host_traced L) = build_envelope L" "operation_id (host_traced L) = operation_id L"
  "proposal_of (host_traced L) = proposal_of L"
  "streaming_limit_diagnostic (host_traced L) = streaming_limit_diagnostic L"
  "extract_record (host_traced L) = extract_record L"
  unfolding fun_eq_iff build_envelope_def operation_id_def proposal_of_def
    streaming_limit_diagnostic_def extract_record_def host_traced_fields by simp_all

lemma host_ports_quiet [quiet_intros]:
  "quiet (hl_read (host_traced L) q)" "quiet (hl_uuid4 (host_traced L))"
  "quiet (hl_load (host_traced L) c)"
  by (simp_all add: host_traced_def quiet_intros)

lemma seek_quiet: "hl_seek (host_traced L) = Some seek \<Longrightarrow> quiet (seek q)"
  by (auto simp: host_traced_def quiet_intros)

section \<open>Re-reads leave the history\<close>

lemma quiet_request [quiet_intros]: "quiet (host_request (host_traced L) f n k)"
  unfolding host_request_def by (intro quiet_intros)

lemma quiet_reread_chunk [quiet_intros]: "quiet (reread_chunk (host_traced L) f stop n)"
  unfolding reread_chunk_def by (intro quiet_intros)

lemma reread_quiet: "reread (host_traced L) f stop n s = (r, s') \<Longrightarrow> snd s' = snd s"
proof (induction "host_traced L" f stop n s arbitrary: r s' rule: reread.induct)
  case (1 f stop n s)
  show ?case
  proof (cases "n < stop")
    case False
    with "1.prems" show ?thesis by (simp add: reread.simps)
  next
    case True
    obtain c s1 where chunk: "reread_chunk (host_traced L) f stop n s = (c, s1)"
      by (cases "reread_chunk (host_traced L) f stop n s")
    note q = quietD [OF quiet_reread_chunk chunk]
    show ?thesis
    proof (cases c)
      case (Inl e)
      with "1.prems" True chunk q show ?thesis by (simp add: reread.simps)
    next
      case (Inr data)
      obtain c2 s2 where rest: "reread (host_traced L) f stop (n + length data) s1 = (c2, s2)"
        by (cases "reread (host_traced L) f stop (n + length data) s1")
      from "1.hyps" [OF True chunk [symmetric] Inr rest] have "snd s2 = snd s1" .
      with "1.prems" True chunk Inr rest q show ?thesis
        by (cases c2) (auto simp: reread.simps [of _ _ _ n])
    qed
  qed
qed

lemma quiet_reread [quiet_intros]: "quiet (reread (host_traced L) f stop n)"
  unfolding quiet_def by (blast intro: reread_quiet)

lemma quiet_reread_ranges [quiet_intros]: "quiet (reread_ranges (host_traced L) f n i rs)"
  by (induction rs arbitrary: n i) (simp_all only: reread_ranges.simps, (intro quiet_intros; assumption?)+)

lemma quiet_source_ranges [quiet_intros]: "quiet (source_ranges_sha256 (host_traced L) rs)"
  unfolding source_ranges_sha256_def by (intro quiet_intros)

lemma quiet_reread_records [quiet_intros]: "quiet (reread_records (host_traced L) f rs)"
  by (induction rs) (simp_all only: reread_records.simps, (intro quiet_intros; assumption?)+)

lemma quiet_source_range [quiet_intros]: "quiet (source_range_sha256 (host_traced L) rs f)"
  unfolding source_range_sha256_def by (intro quiet_intros)

lemma quiet_assembly_source [quiet_intros]: "quiet (assembly_source_sha256 (host_traced L) rs f)"
  unfolding assembly_source_sha256_def by (intro quiet_intros)

section \<open>Valid cursors\<close>

interpretation assembly_records: interval_store pa_start_record_index pa_end_record_index
  "\<lambda>r. is_ok (make_pending_assembly_range r)"
  by unfold_locales (rule pending_range_facts)


definition host_valid :: "hash \<Rightarrow> host_cursor \<Rightarrow> bool" where
  "host_valid H s \<longleftrightarrow> make_host_cursor H s = Inr s"

lemma make_host_cursor_id: "make_host_cursor H s = Inr s' \<Longrightarrow> s' = s"
  by (simp add: make_host_cursor_def)

lemma host_valid_tail:
  assumes "host_valid H s"
  obtains tail st where "\<forall>c \<in> set (host_cursor_tail_checks H s tail st). c = None"
    "b64decode (hc_partial_tail_base64 s) = Some tail" "b64decode (hc_extractor_state_base64 s) = Some st"
proof -
  from assms have "\<forall>c \<in> set (host_cursor_checks H s). c = None"
    by (simp add: host_valid_def make_host_cursor_def)
  then show thesis
    by (auto simp: host_cursor_checks_def intro: that split: option.splits)
qed

lemma host_valid_ranges:
  assumes "host_valid H s" "hc_pending_assembly_ranges s \<noteq> []"
  shows "hc_pending_assembly_records s = []"
    and "\<exists>m j. chain pa_start_offset pa_end_offset (hc_acknowledged_offset s) (hc_pending_assembly_ranges s) m
      \<and> chain pa_start_record_index pa_end_record_index (hc_acknowledged_record_index s)
          (hc_pending_assembly_ranges s) j"
proof -
  from assms(1) obtain tail st where t: "\<forall>c \<in> set (host_cursor_tail_checks H s tail st). c = None"
    by (rule host_valid_tail)
  from assms(1) have "hc_cursor_version s \<in> {1, 2}"
    by (auto simp: host_valid_def make_host_cursor_def)
  with t assms(2) show rs: "hc_pending_assembly_records s = []"
    by (auto simp: host_cursor_tail_checks_def)
  from t have "\<forall>c \<in> set (pending_assembly_checks H s). c = None"
    by (simp add: host_cursor_tail_checks_def)
  with rs assms(2) show "\<exists>m j. chain pa_start_offset pa_end_offset (hc_acknowledged_offset s)
        (hc_pending_assembly_ranges s) m
      \<and> chain pa_start_record_index pa_end_record_index (hc_acknowledged_record_index s)
          (hc_pending_assembly_ranges s) j"
    by (auto simp: pending_assembly_checks_def pending_range_walk_Inr split: sum.splits)
qed

lemma host_valid_records:
  assumes "host_valid H s" "hc_pending_assembly_records s \<noteq> []"
  shows "pr_start_offset (hd (hc_pending_assembly_records s)) = hc_acknowledged_offset s"
    and "pr_record_index (hd (hc_pending_assembly_records s)) = hc_acknowledged_record_index s"
    and "hc_pending_assembly_ranges s = []" and "hc_cursor_version s = 1"
proof -
  from assms(1) obtain tail st where t: "\<forall>c \<in> set (host_cursor_tail_checks H s tail st). c = None"
    by (rule host_valid_tail)
  from assms(1) have v: "hc_cursor_version s \<in> {1, 2}"
    by (auto simp: host_valid_def make_host_cursor_def)
  with t assms(2) show "hc_pending_assembly_ranges s = []" "hc_cursor_version s = 1"
    by (auto simp: host_cursor_tail_checks_def)
  from t have "\<forall>c \<in> set (pending_assembly_checks H s). c = None"
    by (simp add: host_cursor_tail_checks_def)
  then obtain stop where "pending_record_walk (hc_acknowledged_offset s) (hc_acknowledged_record_index s)
      (hc_pending_assembly_records s) = Inr stop"
    using assms(2) by (auto simp: pending_assembly_checks_def split: sum.splits)
  with assms(2) show "pr_start_offset (hd (hc_pending_assembly_records s)) = hc_acknowledged_offset s"
    "pr_record_index (hd (hc_pending_assembly_records s)) = hc_acknowledged_record_index s"
    by (cases "hc_pending_assembly_records s"; auto split: if_splits)+
qed

lemma host_updated_Inr:
  assumes "host_updated H s u = Inr s'"
  shows "s' = apply_update H s u" and "host_valid H s'"
proof -
  from assms have "make_host_cursor H (apply_update H s u) = Inr s'"
    by (auto simp: host_updated_def split: if_splits)
  from make_host_cursor_id [OF this] this show "s' = apply_update H s u" "host_valid H s'"
    by (simp_all add: host_valid_def)
qed


section \<open>How a history moves the cursor\<close>

datatype disposition = Acked proposed_source_cursor nat nat | Excluded scope_exclusion_entry

fun dp_start :: "disposition \<Rightarrow> nat" where
  "dp_start (Acked p i j) = pc_start_offset p"
| "dp_start (Excluded e) = se_start_offset e"

fun dp_end :: "disposition \<Rightarrow> nat" where
  "dp_end (Acked p i j) = pc_end_offset p"
| "dp_end (Excluded e) = se_end_offset e"

fun dp_start_record :: "disposition \<Rightarrow> nat" where
  "dp_start_record (Acked p i j) = i"
| "dp_start_record (Excluded e) = se_start_record_index e"

fun dp_end_record :: "disposition \<Rightarrow> nat" where
  "dp_end_record (Acked p i j) = j"
| "dp_end_record (Excluded e) = se_end_record_index e"

fun dp_valid :: "disposition \<Rightarrow> bool" where
  "dp_valid (Acked p i j) \<longleftrightarrow> is_ok (make_proposed_source_cursor p)"
| "dp_valid (Excluded e) \<longleftrightarrow> is_ok (make_scope_exclusion_entry e)"

text \<open>A store that moves nothing, one that records an exclusion, and one that acknowledges.\<close>

definition host_waits :: "host_cursor \<Rightarrow> host_cursor \<Rightarrow> bool" where
  "host_waits s s' \<longleftrightarrow>
     hc_acknowledged_offset s' = hc_acknowledged_offset s
     \<and> hc_acknowledged_record_index s' = hc_acknowledged_record_index s
     \<and> hc_checkpoint_sequence s' = hc_checkpoint_sequence s
     \<and> hc_scope_exclusions s' = hc_scope_exclusions s
     \<and> hc_last_acknowledgement s' = hc_last_acknowledgement s
     \<and> (hc_pending_capture_recorded_at s \<noteq> None
        \<longrightarrow> hc_pending_capture_recorded_at s' = hc_pending_capture_recorded_at s)"

definition host_excludes :: "host_cursor \<Rightarrow> scope_exclusion_entry \<Rightarrow> host_cursor \<Rightarrow> bool" where
  "host_excludes s e s' \<longleftrightarrow>
     is_ok (make_scope_exclusion_entry e)
     \<and> se_start_offset e = hc_acknowledged_offset s \<and> se_end_offset e = hc_acknowledged_offset s'
     \<and> se_start_record_index e = hc_acknowledged_record_index s
     \<and> se_end_record_index e = hc_acknowledged_record_index s'
     \<and> hc_checkpoint_sequence s' = hc_checkpoint_sequence s
     \<and> hc_scope_exclusions s' = hc_scope_exclusions s @ [e]
     \<and> hc_last_acknowledgement s' = None \<and> hc_pending_capture_recorded_at s' = None"

definition host_acknowledges ::
  "host_cursor \<Rightarrow> proposed_source_cursor \<Rightarrow> host_cursor \<Rightarrow> bool" where
  "host_acknowledges s p s' \<longleftrightarrow>
     is_ok (make_proposed_source_cursor p)
     \<and> pc_start_offset p = hc_acknowledged_offset s \<and> pc_end_offset p = hc_acknowledged_offset s'
     \<and> hc_acknowledged_record_index s < hc_acknowledged_record_index s'
     \<and> pc_expected_checkpoint_sequence p = hc_checkpoint_sequence s
     \<and> hc_checkpoint_sequence s' = hc_checkpoint_sequence s + 1
     \<and> hc_scope_exclusions s' = hc_scope_exclusions s
     \<and> map_option ca_proposal (hc_last_acknowledgement s') = Some p
     \<and> hc_pending_capture_recorded_at s' = None"

text \<open>The envelope was built with the capture time that the stored cursor pins.\<close>

definition host_pinned :: "('w, 'x, 'e) host_loop \<Rightarrow> host_cursor \<Rightarrow> 'e \<Rightarrow> bool" where
  "host_pinned L s e \<longleftrightarrow>
     (\<exists>t x record records f span. hc_pending_capture_recorded_at s = Some t
        \<and> build_envelope L x record records f span t = Inr e)"

definition host_bound ::
  "('w, 'x, 'e) host_loop \<Rightarrow> proposed_source_cursor \<Rightarrow> 'e \<Rightarrow> string \<Rightarrow> connector_cursor
    \<Rightarrow> submission_receipt \<Rightarrow> bool" where
  "host_bound L p e k c r \<longleftrightarrow>
     k = operation_id L e \<and> c = connector_cursor_of (hl_hash L) (hl_checkpoint_key L) p
     \<and> pc_envelope_hash p = hl_envelope_hash L e
     \<and> validate_capture_receipt r k p (hl_event_id L e) = Inr ()"

inductive host_at ::
  "('w, 'x, 'e) host_loop \<Rightarrow> host_cursor \<Rightarrow> 'e host_event list \<Rightarrow> disposition list \<Rightarrow> host_cursor \<Rightarrow> bool"
  for L s0 where
  at_start: "host_at L s0 [] [] s0"
| at_wait: "host_at L s0 evs ds s \<Longrightarrow> host_waits s s' \<Longrightarrow>
    host_at L s0 (evs @ [HStored (hc_revision s) s']) ds s'"
| at_exclude: "host_at L s0 evs ds s \<Longrightarrow> host_excludes s e s' \<Longrightarrow>
    host_at L s0 (evs @ [HStored (hc_revision s) s']) (ds @ [Excluded e]) s'"
| at_acknowledge: "host_at L s0 evs ds s \<Longrightarrow> host_pinned L s e \<Longrightarrow> host_bound L p e k c r \<Longrightarrow>
    host_acknowledges s p s' \<Longrightarrow>
    host_at L s0 (evs @ [HSubmitted e k c t r, HStored (hc_revision s) s'])
      (ds @ [Acked p (hc_acknowledged_record_index s) (hc_acknowledged_record_index s')]) s'"

definition stored_at ::
  "('w, 'x, 'e) host_loop \<Rightarrow> host_cursor \<Rightarrow> host_cursor \<Rightarrow> 'w \<times> 'e host_event list \<Rightarrow> bool" where
  "stored_at L s0 s w \<longleftrightarrow> host_valid (hl_hash L) s \<and> (\<exists>ds. host_at L s0 (snd w) ds s)"

text \<open>What a run leaves: a followed history, or one whose last submission was not stored.\<close>

definition left_at :: "('w, 'x, 'e) host_loop \<Rightarrow> host_cursor \<Rightarrow> 'w \<times> 'e host_event list \<Rightarrow> bool" where
  "left_at L s0 w \<longleftrightarrow>
     (\<exists>evs ds s. host_at L s0 evs ds s \<and> host_valid (hl_hash L) s
        \<and> (snd w = evs \<or> (\<exists>e k c t r. snd w = evs @ [HSubmitted e k c t r] \<and> host_pinned L s e)))"

lemma stored_left: "stored_at L s0 s w \<Longrightarrow> left_at L s0 w"
  unfolding stored_at_def left_at_def by blast

section \<open>Triples of the parts\<close>

text \<open>An error that leaves the stored cursor as it was is in particular a run's end.\<close>

lemma keeps_left:
  "ensures P m Q (stored_at L s0 s) \<Longrightarrow> ensures P m Q (left_at L s0)"
  by (erule ensures_weaken) (auto intro: stored_left)

lemma quiet_keeps:
  assumes "quiet m"
  shows "ensures (stored_at L s0 s) m (\<lambda>_. stored_at L s0 s) (stored_at L s0 s)"
proof (rule ensures_quiet [OF assms, where \<phi> = "\<lambda>evs. host_valid (hl_hash L) s \<and> (\<exists>ds. host_at L s0 evs ds s)"])
qed (auto simp: stored_at_def)

lemmas quiet_triple = keeps_left [OF quiet_keeps]

lemma traced_commit_cases:
  assumes "hl_commit (host_traced L) n s' w = (r, w')"
  shows "snd w' = (case r of Inl e \<Rightarrow> snd w | Inr u \<Rightarrow> snd w @ [HStored n s'])"
  using assms by (auto simp: host_traced_def with_history_def split: prod.splits sum.splits)

lemma commit_keeps:
  assumes "\<And>s'. host_updated (hl_hash L) s u = Inr s' \<Longrightarrow> host_waits s s' \<or> (\<exists>e. host_excludes s e s')"
  shows "ensures (stored_at L s0 s) (host_commit (host_traced L) s u) (stored_at L s0) (stored_at L s0 s)"
proof (cases "host_updated (hl_hash L) s u")
  case (Inl e)
  then show ?thesis
    by (intro ensuresI) (auto simp: host_commit_def bindIO_def)
next
  case (Inr s')
  have run: "host_commit (host_traced L) s u w
      = bindIO (hl_commit (host_traced L) (hc_revision s) s') (\<lambda>_. returnIO s') w" for w
    using Inr by (simp add: host_commit_def bindIO_def)
  show ?thesis
  proof (rule ensuresI)
    fix w x w' assume at: "stored_at L s0 s w" and "host_commit (host_traced L) s u w = (Inr x, w')"
    with run have x: "x = s'" "snd w' = snd w @ [HStored (hc_revision s) s']"
      by (auto elim!: bindIO_returns dest!: traced_commit_cases)
    with at assms [OF Inr] host_updated_Inr(2) [OF Inr] show "stored_at L s0 x w'"
      unfolding stored_at_def by (auto intro: host_at.intros)
  next
    fix w e w' assume at: "stored_at L s0 s w" and run': "host_commit (host_traced L) s u w = (Inl e, w')"
    obtain r w1 where c: "hl_commit (host_traced L) (hc_revision s) s' w = (r, w1)"
      by (cases "hl_commit (host_traced L) (hc_revision s) s' w")
    from run' run c have "r = Inl e" "w1 = w'" by (cases r; simp)+
    with traced_commit_cases [OF c] have "snd w' = snd w" by simp
    with at show "stored_at L s0 s w'" by (simp add: stored_at_def)
  qed
qed

definition waiting_update :: "host_cursor \<Rightarrow> host_update \<Rightarrow> bool" where
  "waiting_update s u \<longleftrightarrow>
     up_acknowledged_offset u = None \<and> up_acknowledged_record_index u = None
     \<and> up_checkpoint_sequence u = None \<and> up_scope_exclusions u = None
     \<and> up_last_acknowledgement u = None \<and> \<not> up_clear_last_acknowledgement u
     \<and> \<not> up_clear_pending_capture_recorded_at u
     \<and> (up_pending_capture_recorded_at u \<noteq> None \<longrightarrow> hc_pending_capture_recorded_at s = None)"

lemma waiting_update_waits: "waiting_update s u \<Longrightarrow> host_waits s (apply_update H s u)"
  by (auto simp: waiting_update_def host_waits_def apply_update_def split: option.split)

lemma waiting_keeps:
  "waiting_update s u \<Longrightarrow>
   ensures (stored_at L s0 s) (host_commit (host_traced L) s u) (stored_at L s0) (stored_at L s0 s)"
  by (rule commit_keeps) (auto dest!: host_updated_Inr(1) intro: waiting_update_waits)

lemmas waiting_triple = keeps_left [OF waiting_keeps]

lemma waiting_no_update [simp]:
  "waiting_update s (no_update\<lparr>up_source_state := a, up_retry_attempts := b, up_diagnostic_code := c\<rparr>)"
  "waiting_update s (drift_update s n code)"
  by (simp_all add: waiting_update_def no_update_def drift_update_def)

lemma report_triple:
  assumes "ensures P m (stored_at L s0) (left_at L s0)"
  shows "ensures P (report m k) (\<lambda>_. left_at L s0) (left_at L s0)"
  unfolding report_def
  by (rule ensures_bind [OF assms]) (auto intro: ensures_lift stored_left)

lemma health_triple: "ensures (stored_at L s0 s) (health_now s') (\<lambda>_. left_at L s0) (left_at L s0)"
  unfolding health_now_def by (auto intro: ensures_lift stored_left)

lemma quarantine_triple:
  "ensures (stored_at L s0 s) (quarantine (host_traced L) s f a b d code n) (stored_at L s0) (left_at L s0)"
  unfolding quarantine_def case_prod_beta
proof (rule ensures_bind [OF quiet_triple])
  show "quiet (liftIO x)" for x by (rule quiet_basic)
  show "ensures (stored_at L s0 s) (host_commit (host_traced L) s
      (no_update\<lparr>up_file_identity := Some f, up_source_state := Some HC_QUARANTINED,
         up_observed_size := Some (max n (hc_acknowledged_offset s)), up_diagnostic_code := Some code,
         up_quarantine := Some (fst x), up_quarantine_overflow_count := Some (snd x)\<rparr>))
      (stored_at L s0) (left_at L s0)" for x
    by (rule waiting_triple) (simp add: waiting_update_def no_update_def)
qed


lemma host_commit_returns:
  "host_commit L s u w = (Inr s', w') \<Longrightarrow> host_updated (hl_hash L) s u = Inr s'"
  by (auto simp: host_commit_def elim!: bindIO_returns bind_liftE)

lemma committed_no_records:
  assumes "host_updated H s u = Inr s'"
  shows "hc_pending_assembly_records s' = []"
  using host_updated_Inr [OF assms] host_valid_records(4) [of H s']
  by (auto simp: apply_update_def)

lemma upgrade_keeps:
  "ensures (stored_at L s0 s) (upgrade_streaming_cursor (host_traced L) s)
     (stored_at L s0) (stored_at L s0 s)"
proof -
  let ?same = "no_update\<lparr>up_source_state := Some (hc_source_state s),
      up_retry_attempts := Some (hc_retry_attempts s), up_diagnostic_code := hc_diagnostic_code s\<rparr>"
  have ranges: "ensures (stored_at L s0 s)
      (host_commit (host_traced L) s
        (?same\<lparr>up_pending_assembly_records := Some [], up_pending_assembly_ranges := Some [r]\<rparr>))
      (stored_at L s0) (stored_at L s0 s)" for r
    by (rule waiting_keeps) (simp add: waiting_update_def no_update_def)
  have same: "ensures (stored_at L s0 s) (host_commit (host_traced L) s ?same) (stored_at L s0) (stored_at L s0 s)"
    by (rule waiting_keeps) simp
  have ret: "ensures (stored_at L s0 s) (returnIO s) (stored_at L s0) (stored_at L s0 s)"
    by (rule ensures_return)
  show ?thesis
    unfolding upgrade_streaming_cursor_def Let_def
    using ranges same ret
    by (auto split: option.split intro!: ensures_bind [OF quiet_keeps] quiet_intros ensures_raise)
qed

lemma upgraded_no_records:
  assumes "upgrade_streaming_cursor L s w = (Inr s', w')" "host_valid (hl_hash L) s"
  shows "hc_pending_assembly_records s' = []"
  using assms host_valid_records(4) [OF assms(2)]
  by (auto simp: upgrade_streaming_cursor_def Let_def elim!: bindIO_returns bind_liftE
      dest!: host_commit_returns committed_no_records split: if_splits option.splits)

text \<open>The update that excludes a valid entry which starts at the acknowledged position.\<close>

lemma exclusion_excludes:
  assumes "is_ok (make_scope_exclusion_entry e)" "se_start_offset e = hc_acknowledged_offset s"
    "se_start_record_index e = hc_acknowledged_record_index s"
  shows "host_excludes s e (apply_update H s (exclusion_update s e st n))"
  using assms
  by (simp add: host_excludes_def apply_update_def exclusion_update_def advance_update_def no_update_def)

definition moved_to :: "nat \<Rightarrow> nat \<Rightarrow> host_cursor \<Rightarrow> bool" where
  "moved_to n i s \<longleftrightarrow>
     hc_acknowledged_offset s = n \<and> hc_acknowledged_record_index s = i
     \<and> hc_pending_capture_recorded_at s = None"

lemma exclusion_keeps:
  assumes "is_ok (make_scope_exclusion_entry e)" "se_start_offset e = hc_acknowledged_offset s"
    "se_start_record_index e = hc_acknowledged_record_index s"
  shows "ensures (stored_at L s0 s) (host_commit (host_traced L) s (exclusion_update s e st n))
    (\<lambda>s' w. stored_at L s0 s' w \<and> moved_to (se_end_offset e) (se_end_record_index e) s') (stored_at L s0 s)"
proof -
  note ex = exclusion_excludes [OF assms]
  have c: "ensures (stored_at L s0 s) (host_commit (host_traced L) s (exclusion_update s e st n))
    (stored_at L s0) (stored_at L s0 s)"
    using ex by (intro commit_keeps) (auto dest!: host_updated_Inr(1))
  show ?thesis
  proof (rule ensuresI)
    fix w s' w' assume at: "stored_at L s0 s w"
      and run: "host_commit (host_traced L) s (exclusion_update s e st n) w = (Inr s', w')"
    from run have "host_updated (hl_hash L) s (exclusion_update s e st n) = Inr s'"
      by (auto simp: host_commit_def elim!: bindIO_returns bind_liftE)
    from host_updated_Inr(1) [OF this] ensures_returns [OF c at run]
    show "stored_at L s0 s' w' \<and> moved_to (se_end_offset e) (se_end_record_index e) s'"
      by (simp add: moved_to_def apply_update_def exclusion_update_def advance_update_def no_update_def)
  qed (rule ensures_raises [OF c])
qed

lemma make_scope_exclusion_id: "make_scope_exclusion_entry e = Inr e' \<Longrightarrow> e' = e"
  by (simp add: make_scope_exclusion_entry_def)

lemma seek_keeps:
  assumes "hl_seek (host_traced L) = Some seek"
  shows "ensures (stored_at L s0 s) (seek_scope_start (host_traced L) seek s)
    (stored_at L s0) (stored_at L s0 s)"
  unfolding seek_scope_start_def
proof (intro ensures_bind [OF quiet_keeps [OF seek_quiet [OF assms]]] ensures_bind_lift ensures_bind_check
    ensures_if ensures_return)
  fix found result exclusion st
  assume start: "\<not> sk_start_offset result \<noteq> hc_acknowledged_offset s"
    "\<not> sk_start_record_index result \<noteq> hc_acknowledged_record_index s"
    and ex: "make_scope_exclusion_entry
       \<lparr>se_capability_id = hl_capability_id (host_traced L), se_file_identity = sk_file_identity result,
        se_start_offset = sk_start_offset result, se_end_offset = sk_end_offset result,
        se_start_record_index = sk_start_record_index result,
        se_end_record_index = sk_end_record_index result,
        se_source_bytes_sha256 = sk_source_bytes_sha256 result,
        se_approved_date = sk_approved_date result, se_reason = sk_reason result,
        se_disposition_kind = SCOPE_START,
        se_excluded_logical_turn_count = sk_excluded_logical_turn_count result\<rparr> = Inr exclusion"
  from make_scope_exclusion_id [OF ex] start
  have "se_start_offset exclusion = hc_acknowledged_offset s"
    "se_start_record_index exclusion = hc_acknowledged_record_index s" by simp_all
  moreover from ex make_scope_exclusion_id [OF ex] have "is_ok (make_scope_exclusion_entry exclusion)"
    by simp
  ultimately show "ensures (stored_at L s0 s)
      (host_commit (host_traced L) s (exclusion_update s exclusion st (sk_observed_size result)))
      (stored_at L s0) (stored_at L s0 s)"
    by (intro ensures_weaken [OF exclusion_keeps]) simp_all
qed


lemma sought_no_records:
  assumes "seek_scope_start L seek s w = (Inr s', w')"
  shows "s' = s \<or> hc_pending_assembly_records s' = []"
  using assms
  by (auto simp: seek_scope_start_def elim!: bindIO_returns bind_liftE bind_checkE
      dest!: host_commit_returns committed_no_records split: if_splits)

section \<open>The record loop\<close>

text \<open>The assembly in progress starts where the acknowledged bytes end; \<open>n\<close> and \<open>i\<close> are the next record's.\<close>

definition acc_starts :: "('w, 'x, 'e) host_loop \<Rightarrow> host_acc \<Rightarrow> nat \<Rightarrow> nat \<Rightarrow> bool" where
  "acc_starts L acc n i \<longleftrightarrow>
     (if streaming L \<and> la_ranges acc \<noteq> []
      then pa_start_offset (hd (la_ranges acc)) = hc_acknowledged_offset (la_state acc)
        \<and> pa_start_record_index (hd (la_ranges acc)) = hc_acknowledged_record_index (la_state acc)
        \<and> hc_acknowledged_record_index (la_state acc) \<le> i
      else if la_records acc \<noteq> []
      then fr_start_offset (hd (la_records acc)) = hc_acknowledged_offset (la_state acc)
        \<and> fr_record_index (hd (la_records acc)) = hc_acknowledged_record_index (la_state acc)
        \<and> hc_acknowledged_record_index (la_state acc) \<le> i
      else n = hc_acknowledged_offset (la_state acc) \<and> i = hc_acknowledged_record_index (la_state acc))"

definition acc_at ::
  "('w, 'x, 'e) host_loop \<Rightarrow> host_cursor \<Rightarrow> nat \<Rightarrow> nat \<Rightarrow> host_acc \<Rightarrow> 'w \<times> 'e host_event list \<Rightarrow> bool" where
  "acc_at L s0 n i acc w \<longleftrightarrow> stored_at L s0 (la_state acc) w \<and> acc_starts L acc n i"

lemma acc_starts_extend:
  assumes "acc_starts L acc n i" "fr_start_offset record = n" "fr_record_index record = i"
  shows "acc_starts L (acc\<lparr>la_records := la_records acc @ [record], la_assembly_state := st\<rparr>) n' (i + 1)"
  using assms by (auto simp: acc_starts_def split: if_splits)

lemma ranges_with_records_hd:
  assumes "ranges_with_records H ranges records f = Inr out" "records \<noteq> []"
  shows "out \<noteq> []"
    and "pa_start_offset (hd out) = (if ranges = [] then fr_start_offset (hd records) else pa_start_offset (hd ranges))"
    and "pa_start_record_index (hd out)
      = (if ranges = [] then fr_record_index (hd records) else pa_start_record_index (hd ranges))"
  using assms
  by (auto simp: ranges_with_records_def bindE_Inr_iff pending_range_from_records_def Let_def
      make_pending_assembly_range_def split: if_splits option.splits)

lemma verified_span_fields:
  "verified_span ranges d = Inr span \<Longrightarrow>
   va_start_offset span = pa_start_offset (hd ranges)
   \<and> va_start_record_index span = pa_start_record_index (hd ranges)"
  by (auto simp: verified_span_def make_verified_assembly_span_def split: if_splits)

text \<open>The span of a finalized assembly starts at the acknowledged position.\<close>

definition span_starts ::
  "host_cursor \<Rightarrow> pending_assembly_range list \<times> string option \<times> nat \<times> nat \<times> string \<times> verified_assembly_span option
    \<Rightarrow> bool" where
  "span_starts s p \<longleftrightarrow>
     (case p of (ranges, limit, start, start_index, digest, span) \<Rightarrow>
        limit = None \<longrightarrow> start = hc_acknowledged_offset s \<and> start_index = hc_acknowledged_record_index s)"

lemma finalized_span_triple:
  assumes "acc_starts L acc n i" "la_records acc \<noteq> []"
  shows "ensures (stored_at L s0 s) (finalized_span (host_traced L) f acc)
    (\<lambda>p w. stored_at L s0 s w \<and> span_starts (la_state acc) p) (left_at L s0)"
proof (cases "streaming L")
  case True
  have split: "ensures (stored_at L s0 s)
      (case streaming_limit_diagnostic L ranges of
         Some code \<Rightarrow> returnIO (ranges, Some code, 0, 0, digest, None)
       | None \<Rightarrow>
           bindIO (liftIO (verified_span ranges digest)) (\<lambda>span.
             returnIO (ranges, None, va_start_offset span, va_start_record_index span, digest, Some span)))
      (\<lambda>p w. stored_at L s0 s w \<and> span_starts (la_state acc) p) (left_at L s0)"
    if "ranges_with_records (hl_hash L) (la_ranges acc) (la_records acc) f = Inr ranges" for ranges digest
    using ranges_with_records_hd [OF that assms(2)] assms True
    by (auto split: option.split intro!: ensures_return ensures_bind_lift stored_left
        simp: span_starts_def acc_starts_def dest!: verified_span_fields)
  show ?thesis
    unfolding finalized_span_def host_traced_fields host_traced_derived if_P [OF True]
    by (rule ensures_bind_lift, rule ensures_bind [OF quiet_triple [OF quiet_source_ranges]], rule split)
      (auto intro: stored_left)
next
  case False
  with assms show ?thesis
    unfolding finalized_span_def host_traced_fields
    by (auto intro!: ensures_bind [OF quiet_triple] quiet_intros ensures_return
        simp: span_starts_def acc_starts_def)
qed

lemma quarantine_assembly_triple:
  "ensures (stored_at L s0 (la_state acc)) (quarantine_assembly (host_traced L) f n record acc code k)
     (\<lambda>r w. isl r \<and> left_at L s0 w) (left_at L s0)"
proof -
  have "quiet (assembly_span (host_traced L) f acc)"
    unfolding assembly_span_def by (intro quiet_intros)
  then show ?thesis
    unfolding quarantine_assembly_def case_prod_beta
    by (auto intro!: ensures_bind [OF quiet_triple] ensures_bind [OF report_triple [OF quarantine_triple]]
        ensures_return)
qed

lemma exclude_triple:
  assumes "start = hc_acknowledged_offset s" "start_index = hc_acknowledged_record_index s"
  shows "ensures (stored_at L s0 s)
    (exclude_finalized (host_traced L) f n s x record start start_index d st)
    (\<lambda>s' w. stored_at L s0 s' w \<and> moved_to (fr_end_offset record) (fr_record_index record + 1) s') (left_at L s0)"
  unfolding exclude_finalized_def
proof (intro ensures_bind_check ensures_bind_lift)
  fix e
  assume ex: "make_scope_exclusion_entry
      \<lparr>se_capability_id = hl_capability_id (host_traced L), se_file_identity = f,
       se_start_offset = start, se_end_offset = fr_end_offset record,
       se_start_record_index = start_index, se_end_record_index = fr_record_index record + 1,
       se_source_bytes_sha256 = d, se_approved_date = fx_approved_date x, se_reason = fx_reason x,
       se_disposition_kind = FINALIZED_TURN, se_excluded_logical_turn_count = Some 1\<rparr> = Inr e"
  note e = make_scope_exclusion_id [OF ex]
  from ex e have "is_ok (make_scope_exclusion_entry e)" by simp
  moreover from e assms have "se_start_offset e = hc_acknowledged_offset s"
    "se_start_record_index e = hc_acknowledged_record_index s" by simp_all
  ultimately show "ensures (stored_at L s0 s) (host_commit (host_traced L) s (exclusion_update s e st n))
    (\<lambda>s' w. stored_at L s0 s' w \<and> moved_to (fr_end_offset record) (fr_record_index record + 1) s') (left_at L s0)"
    by (intro ensures_weaken [OF exclusion_keeps]) (auto simp: e intro: stored_left)
qed (auto intro: stored_left)


text \<open>After pinning, the stored cursor has the capture time the envelope will be built with.\<close>

definition pinned_at :: "host_cursor \<Rightarrow> datetime \<Rightarrow> host_cursor \<Rightarrow> bool" where
  "pinned_at s t s1 \<longleftrightarrow>
     hc_pending_capture_recorded_at s1 = Some t
     \<and> hc_acknowledged_offset s1 = hc_acknowledged_offset s
     \<and> hc_acknowledged_record_index s1 = hc_acknowledged_record_index s"

lemma pin_triple:
  assumes "keep (hc_pending_capture_recorded_at s) t = t"
  shows "ensures (stored_at L s0 s) (pin_recorded_at (host_traced L) s f t n)
    (\<lambda>s1 w. stored_at L s0 s1 w \<and> pinned_at s t s1) (left_at L s0)"
proof (cases "hc_pending_capture_recorded_at s")
  case (Some u)
  with assms show ?thesis
    by (auto simp: pin_recorded_at_def pinned_at_def intro!: ensures_return)
next
  case None
  let ?u = "no_update\<lparr>up_file_identity := Some f, up_pending_capture_recorded_at := Some t,
    up_observed_size := Some n\<rparr>"
  have c: "ensures (stored_at L s0 s) (host_commit (host_traced L) s ?u) (stored_at L s0) (left_at L s0)"
    using None by (intro waiting_triple) (simp add: waiting_update_def no_update_def)
  have pinned: "pinned_at s t s1" if "host_commit (host_traced L) s ?u w = (Inr s1, w')" for s1 w w'
  proof -
    from host_commit_returns [OF that] have "s1 = apply_update (hl_hash L) s ?u"
      by (intro host_updated_Inr(1)) simp
    then show ?thesis
      by (simp add: pinned_at_def apply_update_def no_update_def)
  qed
  have "ensures (stored_at L s0 s) (host_commit (host_traced L) s ?u)
      (\<lambda>s1 w. stored_at L s0 s1 w \<and> pinned_at s t s1) (left_at L s0)"
  proof (rule ensuresI)
    fix w s1 w' assume "stored_at L s0 s w" and run: "host_commit (host_traced L) s ?u w = (Inr s1, w')"
    from ensures_returns [OF c this] pinned [OF run] show "stored_at L s0 s1 w' \<and> pinned_at s t s1" ..
  qed (rule ensures_raises [OF c], assumption+)
  then show ?thesis unfolding pin_recorded_at_def if_P [OF None] .
qed

lemma traced_submit_cases:
  assumes "hl_submit (host_traced L) e k c t w = (r, w')"
  shows "snd w' = (case r of Inl x \<Rightarrow> snd w | Inr receipt \<Rightarrow> snd w @ [HSubmitted e k c t receipt])"
  using assms by (auto simp: host_traced_def with_history_def split: prod.splits sum.splits)

lemma make_proposed_id: "make_proposed_source_cursor p = Inr q \<Longrightarrow> q = p"
  by (simp add: make_proposed_source_cursor_def)

lemma make_acknowledgement_id: "make_cursor_acknowledgement a = Inr b \<Longrightarrow> b = a"
  by (simp add: make_cursor_acknowledgement_def)

lemma make_connector_id: "make_connector_cursor c = Inr d \<Longrightarrow> d = c"
  by (simp add: make_connector_cursor_def)

text \<open>The cursor between a submission and its store, as the triples see it.\<close>

definition submitted_at ::
  "('w, 'x, 'e) host_loop \<Rightarrow> host_cursor \<Rightarrow> host_cursor \<Rightarrow> 'e \<Rightarrow> string \<Rightarrow> connector_cursor \<Rightarrow> datetime
    \<Rightarrow> submission_receipt \<Rightarrow> 'w \<times> 'e host_event list \<Rightarrow> bool" where
  "submitted_at L s0 s e k c t r w \<longleftrightarrow>
     host_pinned L s e \<and> host_valid (hl_hash L) s
     \<and> (\<exists>evs ds. host_at L s0 evs ds s \<and> snd w = evs @ [HSubmitted e k c t r])"

lemma submitted_left: "submitted_at L s0 s e k c t r w \<Longrightarrow> left_at L s0 w"
  unfolding submitted_at_def left_at_def by blast

lemma submit_port_triple:
  assumes "host_pinned L s e"
  shows "ensures (stored_at L s0 s) (hl_submit (host_traced L) e k c t) (submitted_at L s0 s e k c t)
    (left_at L s0)"
proof (rule ensuresI)
  fix w r w' assume at: "stored_at L s0 s w" and run: "hl_submit (host_traced L) e k c t w = (Inr r, w')"
  from traced_submit_cases [OF run] at assms show "submitted_at L s0 s e k c t r w'"
    by (auto simp: stored_at_def submitted_at_def)
next
  fix w x w' assume at: "stored_at L s0 s w" and run: "hl_submit (host_traced L) e k c t w = (Inl x, w')"
  from traced_submit_cases [OF run] at have "stored_at L s0 s w'" by (simp add: stored_at_def)
  then show "left_at L s0 w'" by (rule stored_left)
qed

lemma acknowledge_triple:
  assumes "host_bound L p e k c r"
    and "\<And>s'. host_updated (hl_hash L) s u = Inr s' \<Longrightarrow> host_acknowledges s p s'"
  shows "ensures (submitted_at L s0 s e k c t r) (host_commit (host_traced L) s u) (stored_at L s0) (left_at L s0)"
proof (cases "host_updated (hl_hash L) s u")
  case (Inl x)
  then show ?thesis
    by (intro ensuresI) (auto simp: host_commit_def bindIO_def intro: submitted_left)
next
  case (Inr s')
  have run: "host_commit (host_traced L) s u w
      = bindIO (hl_commit (host_traced L) (hc_revision s) s') (\<lambda>_. returnIO s') w" for w
    using Inr by (simp add: host_commit_def bindIO_def)
  show ?thesis
  proof (rule ensuresI)
    fix w x w' assume at: "submitted_at L s0 s e k c t r w" and "host_commit (host_traced L) s u w = (Inr x, w')"
    with run have x: "x = s'" "snd w' = snd w @ [HStored (hc_revision s) s']"
      by (auto elim!: bindIO_returns dest!: traced_commit_cases)
    from at obtain evs ds where "host_at L s0 evs ds s" "snd w = evs @ [HSubmitted e k c t r]"
      "host_pinned L s e" by (auto simp: submitted_at_def)
    with x at_acknowledge [OF _ _ assms(1) assms(2) [OF Inr]] host_updated_Inr(2) [OF Inr]
    show "stored_at L s0 x w'"
      unfolding stored_at_def by fastforce
  next
    fix w x w' assume at: "submitted_at L s0 s e k c t r w"
      and run': "host_commit (host_traced L) s u w = (Inl x, w')"
    obtain q w1 where c: "hl_commit (host_traced L) (hc_revision s) s' w = (q, w1)"
      by (cases "hl_commit (host_traced L) (hc_revision s) s' w")
    from run' run c have "q = Inl x" "w1 = w'" by (cases q; simp)+
    with traced_commit_cases [OF c] at have "submitted_at L s0 s e k c t r w'"
      by (simp add: submitted_at_def)
    then show "left_at L s0 w'" by (rule submitted_left)
  qed
qed

lemma submit_triple:
  assumes pin: "keep (hc_pending_capture_recorded_at s) t = t"
    and start: "start = hc_acknowledged_offset s"
    and index: "hc_acknowledged_record_index s \<le> fr_record_index record"
  shows "ensures (stored_at L s0 s)
    (submit_finalized (host_traced L) now f n s t x record records start d span st)
    (\<lambda>s' w. stored_at L s0 s' w \<and> moved_to (fr_end_offset record) (fr_record_index record + 1) s') (left_at L s0)"
  unfolding submit_finalized_def
proof (rule ensures_bind [OF pin_triple [OF pin]], rule ensures_weaken [OF ensures_pure])
  fix s1
  let ?Q = "\<lambda>s' w. stored_at L s0 s' w \<and> moved_to (fr_end_offset record) (fr_record_index record + 1) s'"
  assume p1: "pinned_at s t s1"
  show "ensures (stored_at L s0 s1)
     (bindIO (liftIO (build_envelope (host_traced L) x record records f span t)) (\<lambda>envelope.
      bindIO (liftIO (make_proposed_source_cursor
               (proposal_of (host_traced L) s1 f start (fr_end_offset record) d envelope))) (\<lambda>proposal.
      bindIO (liftIO (make_connector_cursor
               (connector_cursor_of (hl_hash (host_traced L)) (hl_checkpoint_key (host_traced L)) proposal))) (\<lambda>cursor.
      bindIO (hl_submit (host_traced L) envelope (operation_id (host_traced L) envelope) cursor now) (\<lambda>receipt.
      bindIO (liftIO (validate_capture_receipt receipt (operation_id (host_traced L) envelope) proposal
               (hl_event_id (host_traced L) envelope))) (\<lambda>_.
      bindIO (liftIO (make_cursor_acknowledgement
               (acknowledgement_for proposal (hl_event_id (host_traced L) envelope) receipt))) (\<lambda>acknowledgement.
      host_commit (host_traced L) s1 (acknowledged_update f record st n proposal acknowledgement))))))))
     ?Q (left_at L s0)"
    unfolding host_traced_fields host_traced_derived
  proof (rule ensures_bind_lift, rule ensures_bind_lift, rule ensures_bind_lift,
      rule ensures_bind [OF submit_port_triple], goal_cases)
    case (1 e p c)
    with p1 show ?case unfolding host_pinned_def pinned_at_def by blast
  next
    case (2 e p c receipt)
    note p = make_proposed_id [OF 2(2)]
    have commit: "ensures (submitted_at L s0 s1 e (operation_id L e) c now receipt)
        (host_commit (host_traced L) s1 (acknowledged_update f record st n p a)) ?Q (left_at L s0)"
      if "validate_capture_receipt receipt (operation_id L e) p (hl_event_id L e) = Inr u"
        "make_cursor_acknowledgement (acknowledgement_for p (hl_event_id L e) receipt) = Inr a" for u a
    proof -
      from that(1) make_connector_id [OF 2(3)] p
      have bound: "host_bound L p e (operation_id L e) c receipt"
        by (simp add: host_bound_def proposal_of_def)
      have acks: "host_acknowledges s1 p s'"
        if "host_updated (hl_hash L) s1 (acknowledged_update f record st n p a) = Inr s'" for s'
        using host_updated_Inr(1) [OF that] p1 start index 2(2) p
          make_acknowledgement_id [OF \<open>make_cursor_acknowledgement _ = Inr a\<close>]
        by (simp add: host_acknowledges_def apply_update_def acknowledged_update_def advance_update_def
            no_update_def pinned_at_def proposal_of_def acknowledgement_for_def)
      note c = acknowledge_triple [OF bound acks]
      show ?thesis
      proof (rule ensuresI)
        fix w s' w' assume "submitted_at L s0 s1 e (operation_id L e) c now receipt w"
          and run: "host_commit (host_traced L) s1 (acknowledged_update f record st n p a) w = (Inr s', w')"
        with ensures_returns [OF c] have "stored_at L s0 s' w'" by blast
        moreover from host_commit_returns [OF run]
        have "s' = apply_update (hl_hash L) s1 (acknowledged_update f record st n p a)"
          by (intro host_updated_Inr(1)) simp
        ultimately show "?Q s' w'"
          by (simp add: moved_to_def apply_update_def acknowledged_update_def advance_update_def no_update_def)
      qed (rule ensures_raises [OF c])
    qed
    then show ?case
      by (auto intro!: ensures_bind_lift intro: submitted_left)
  qed (auto intro: stored_left)
qed (auto intro: stored_left)


text \<open>The invariant of the loop, with the capture time that a pinned cursor demands.\<close>

definition acc_ready ::
  "('w, 'x, 'e) host_loop \<Rightarrow> host_cursor \<Rightarrow> nat \<Rightarrow> nat \<Rightarrow> host_acc \<Rightarrow> 'w \<times> 'e host_event list \<Rightarrow> bool" where
  "acc_ready L s0 n i acc w \<longleftrightarrow>
     acc_starts L acc n i
     \<and> keep (hc_pending_capture_recorded_at (la_state acc)) (la_recorded_at acc) = la_recorded_at acc
     \<and> stored_at L s0 (la_state acc) w"

lemma acc_ready_left: "acc_ready L s0 n i acc w \<Longrightarrow> left_at L s0 w"
  unfolding acc_ready_def by (blast intro: stored_left)

lemma dispose_triple:
  assumes "start = hc_acknowledged_offset (la_state acc)"
    "start_index = hc_acknowledged_record_index (la_state acc)"
    "hc_acknowledged_record_index (la_state acc) \<le> fr_record_index record"
    "keep (hc_pending_capture_recorded_at (la_state acc)) (la_recorded_at acc) = la_recorded_at acc"
  shows "ensures (stored_at L s0 (la_state acc))
    (dispose_finalized (host_traced L) now f n acc x record start start_index d span)
    (acc_ready L s0 (fr_end_offset record) (fr_record_index record + 1)) (left_at L s0)"
proof -
  have ready: "ensures (\<lambda>w. stored_at L s0 s' w \<and> moved_to (fr_end_offset record) (fr_record_index record + 1) s')
     (returnIO (acc\<lparr>la_state := s', la_committed := True, la_recorded_at := now, la_records := [], la_ranges := []\<rparr>))
     (acc_ready L s0 (fr_end_offset record) (fr_record_index record + 1)) (left_at L s0)" for s'
    by (rule ensures_return) (simp add: acc_ready_def acc_starts_def moved_to_def)
  show ?thesis
    unfolding dispose_finalized_def host_traced_fields
    using exclude_triple [OF assms(1,2)] submit_triple [OF assms(4,1,3)] ready
    by (auto split: option.split intro!: ensures_bind)
qed

lemma acc_starts_index: "acc_starts L acc n i \<Longrightarrow> hc_acknowledged_record_index (la_state acc) \<le> i"
  by (auto simp: acc_starts_def split: if_splits)

lemma finalized_triple:
  assumes acc: "acc = acc0\<lparr>la_records := la_records acc0 @ [record], la_assembly_state := st\<rparr>"
    and starts: "acc_starts L acc0 n i" "fr_start_offset record = n" "fr_record_index record = i"
    and pin: "keep (hc_pending_capture_recorded_at (la_state acc)) (la_recorded_at acc) = la_recorded_at acc"
  shows "ensures (stored_at L s0 (la_state acc)) (host_finalized (host_traced L) now f m record acc x)
    (\<lambda>r w. case r of Inl h \<Rightarrow> left_at L s0 w
                 | Inr acc' \<Rightarrow> acc_ready L s0 (fr_end_offset record) (i + 1) acc' w) (left_at L s0)"
proof -
  let ?Q = "\<lambda>r w. case r of Inl h \<Rightarrow> left_at L s0 w
                 | Inr acc' \<Rightarrow> acc_ready L s0 (fr_end_offset record) (i + 1) acc' w"
  note s1 = acc_starts_extend [OF starts, of st, folded acc]
  have ne: "la_records acc \<noteq> []" by (simp add: acc)
  have le: "hc_acknowledged_record_index (la_state acc) \<le> fr_record_index record"
    using acc_starts_index [OF starts(1)] starts(3) by (simp add: acc)
  have quar: "ensures (stored_at L s0 (la_state acc)) (quarantine_assembly (host_traced L) f m record acc code k)
      ?Q (left_at L s0)" for code k
    by (rule ensures_weaken [OF quarantine_assembly_triple]) (auto split: sum.split)
  have limit: "ensures (stored_at L s0 (la_state acc))
     (bindIO (report (quarantine (host_traced L) (la_state acc) f a b d code m) None) (\<lambda>h. returnIO (Inl h)))
     ?Q (left_at L s0)" for a b d code
    by (rule ensures_bind [OF report_triple [OF quarantine_triple]]) (rule ensures_return, simp)
  have disp: "ensures (stored_at L s0 (la_state acc))
     (bindIO (dispose_finalized (host_traced L) now f m acc x record start start_index d span)
       (\<lambda>acc'. returnIO (Inr acc'))) ?Q (left_at L s0)"
    if "start = hc_acknowledged_offset (la_state acc)" "start_index = hc_acknowledged_record_index (la_state acc)"
    for start start_index d span
    by (rule ensures_bind [OF dispose_triple [OF that le pin]]) (rule ensures_return, simp add: starts(3))
  let ?rest = "\<lambda>p. case p of (ranges, limit, start, start_index, digest, span) \<Rightarrow>
        (case limit of
          Some code \<Rightarrow>
            bindIO (report (quarantine (host_traced L) (la_state acc) f (pa_start_offset (hd ranges))
                      (pa_end_offset (last ranges)) digest code m) None) (\<lambda>h. returnIO (Inl h))
        | None \<Rightarrow>
            bindIO (dispose_finalized (host_traced L) now f m acc x record start start_index digest span)
              (\<lambda>acc'. returnIO (Inr acc')))"
  have rest: "ensures (stored_at L s0 (la_state acc)) (?rest p) ?Q (left_at L s0)"
    if "span_starts (la_state acc) p" for p
  proof -
    obtain ranges lim start start_index d span where p: "p = (ranges, lim, start, start_index, d, span)"
      by (cases p)
    show ?thesis
    proof (cases lim)
      case None
      with that p have "start = hc_acknowledged_offset (la_state acc)"
        "start_index = hc_acknowledged_record_index (la_state acc)" by (simp_all add: span_starts_def)
      from disp [OF this] None p show ?thesis by simp
    next
      case (Some code)
      with limit p show ?thesis by simp
    qed
  qed
  have "ensures (\<lambda>w. stored_at L s0 (la_state acc) w \<and> span_starts (la_state acc) p) (?rest p)
      ?Q (left_at L s0)" for p
    unfolding conj_commute [of "stored_at L s0 (la_state acc) _"]
    by (rule ensures_pure) (rule rest)
  note rest = ensures_bind [OF finalized_span_triple [OF s1 ne] this]
  show ?thesis
    unfolding host_finalized_def
    by (rule ensures_if, rule quar, rule rest)
qed

lemma record_triple:
  assumes "fr_start_offset record = n" "fr_record_index record = i"
  shows "ensures (acc_ready L s0 n i acc) (host_record (host_traced L) now f m record acc)
    (\<lambda>r w. case r of Inl h \<Rightarrow> left_at L s0 w
                 | Inr acc' \<Rightarrow> acc_ready L s0 (fr_end_offset record) (i + 1) acc' w) (left_at L s0)"
proof -
  let ?Q = "\<lambda>r w. case r of Inl h \<Rightarrow> left_at L s0 w
                 | Inr acc' \<Rightarrow> acc_ready L s0 (fr_end_offset record) (i + 1) acc' w"
  let ?acc = "acc\<lparr>la_records := la_records acc @ [record]\<rparr>"
  have main: "ensures (stored_at L s0 (la_state acc)) (host_record (host_traced L) now f m record acc)
      ?Q (left_at L s0)"
    if starts: "acc_starts L acc n i"
      and pin: "keep (hc_pending_capture_recorded_at (la_state acc)) (la_recorded_at acc) = la_recorded_at acc"
  proof -
    have over: "ensures (stored_at L s0 (la_state acc))
      (bindIO (report (quarantine (host_traced L) (la_state acc) f a b d code m) None) (\<lambda>h. returnIO (Inl h)))
      ?Q (left_at L s0)" for a b d code
      by (rule ensures_bind [OF report_triple [OF quarantine_triple]]) (rule ensures_return, simp)
    have quar: "ensures (stored_at L s0 (la_state acc)) (quarantine_assembly (host_traced L) f m record ?acc code k)
      ?Q (left_at L s0)" for code k
      by (rule ensures_weaken [OF quarantine_assembly_triple]) (auto split: sum.split)
    have fin: "ensures (stored_at L s0 (la_state acc))
        (host_finalized (host_traced L) now f m record (?acc\<lparr>la_assembly_state := st\<rparr>) x) ?Q (left_at L s0)" for st x
    proof -
      have "la_state (?acc\<lparr>la_assembly_state := st\<rparr>) = la_state acc" by simp
      then show ?thesis
        using finalized_triple [where acc = "?acc\<lparr>la_assembly_state := st\<rparr>" and st = st, OF _ starts assms] pin
        by simp
    qed
    have more: "ensures (stored_at L s0 (la_state acc)) (returnIO (Inr (?acc\<lparr>la_assembly_state := st\<rparr>)))
        ?Q (left_at L s0)" for st
      using acc_starts_extend [OF starts assms] pin
      by (intro ensures_return) (simp add: acc_ready_def)
    have err: "ensures (stored_at L s0 (la_state acc)) (raiseIO e) ?Q (left_at L s0)" for e
      by (rule ensures_raise) (rule stored_left)
    show ?thesis
      unfolding host_record_def Let_def host_traced_derived host_traced_fields
    proof (rule ensures_if, rule over, goal_cases)
      case 1
      show ?case
      proof (cases "extract_record L record (la_assembly_state ?acc)")
        case (Inl e)
        show ?thesis unfolding Inl
          by (cases e; simp only: sum.case py_error.case; rule quar err)
      next
        case (Inr p)
        obtain st x where p: "p = (st, x)" by (cases p)
        show ?thesis unfolding Inr p
          by (cases x; simp only: sum.case prod.case option.case; rule fin more)
      qed
    qed
  qed
  have "ensures (\<lambda>w. (acc_starts L acc n i
        \<and> keep (hc_pending_capture_recorded_at (la_state acc)) (la_recorded_at acc) = la_recorded_at acc)
      \<and> stored_at L s0 (la_state acc) w) (host_record (host_traced L) now f m record acc) ?Q (left_at L s0)"
    by (rule ensures_pure) (erule conjE, rule main)
  then show ?thesis
    by (rule ensures_weaken) (simp_all add: acc_ready_def [of L s0 n i acc])
qed

lemma records_triple:
  assumes "framed_from mx n i records"
  shows "ensures (acc_ready L s0 n i acc) (host_records (host_traced L) now f m records acc)
    (\<lambda>r w. case r of Inl h \<Rightarrow> left_at L s0 w | Inr acc' \<Rightarrow> stored_at L s0 (la_state acc') w) (left_at L s0)"
  using assms
proof (induction records arbitrary: n i acc)
  case Nil
  show ?case
    unfolding host_records.simps by (rule ensures_return) (simp add: acc_ready_def)
next
  case (Cons r rs)
  note h = framed_from_head [OF Cons.prems]
  from Cons.prems have rest: "framed_from mx (fr_end_offset r) (i + 1) rs" by simp
  show ?case
    unfolding host_records.simps
  proof (rule ensures_bind [OF record_triple], goal_cases)
    case (3 x)
    show ?case
      using Cons.IH [OF rest] by (cases x) (auto intro: ensures_return)
  qed (insert h, auto)
qed


section \<open>The rest of the run\<close>

lemma waiting_report:
  "waiting_update s u \<Longrightarrow>
   ensures (stored_at L s0 s) (report (host_commit (host_traced L) s u) k) (\<lambda>_. left_at L s0) (left_at L s0)"
  by (rule report_triple) (rule waiting_triple)

lemma finish_streaming_triple:
  "ensures (stored_at L s0 (la_state acc)) (finish_streaming (host_traced L) f n batch acc)
     (\<lambda>_. left_at L s0) (left_at L s0)"
  unfolding finish_streaming_def Let_def host_traced_fields host_traced_derived
proof (rule ensures_bind_lift, goal_cases)
  case (1 ranges)
  have quar: "ensures (stored_at L s0 (la_state acc))
      (bindIO (source_ranges_sha256 (host_traced L) ranges) (\<lambda>digest.
         report (quarantine (host_traced L) (la_state acc) f (pa_start_offset (hd ranges))
           (pa_end_offset (last ranges)) digest code n) None))
      (\<lambda>_. left_at L s0) (left_at L s0)" for code
    by (rule ensures_bind [OF quiet_triple [OF quiet_source_ranges] report_triple [OF quarantine_triple]])
  show ?case
  proof (cases "streaming_limit_diagnostic L ranges")
    case None
    show ?thesis unfolding None option.case
      by (rule ensures_if, rule quar, rule ensures_if, rule waiting_report)
        (simp add: waiting_update_def no_update_def, rule health_triple)
  next
    case (Some code)
    show ?thesis unfolding Some option.case by (rule quar)
  qed
qed (rule stored_left)

lemma finish_window_triple:
  "ensures (stored_at L s0 (la_state acc)) (finish_window (host_traced L) f q n data batch acc)
     (\<lambda>_. left_at L s0) (left_at L s0)"
  unfolding finish_window_def Let_def
  by (rule ensures_if, rule health_triple, rule ensures_if, rule waiting_report)
    (simp add: waiting_update_def no_update_def, rule health_triple)

lemma finish_batch_triple:
  "ensures (stored_at L s0 (la_state acc)) (finish_batch (host_traced L) f q n data batch acc)
     (\<lambda>_. left_at L s0) (left_at L s0)"
  unfolding finish_batch_def Let_def
  by (intro ensures_if report_triple [OF quarantine_triple] finish_streaming_triple finish_window_triple)

lemma initial_ready:
  assumes "stored_at L s0 s w" "streaming L \<Longrightarrow> hc_pending_assembly_records s = []"
  shows "acc_ready L s0
    (if streaming L then hc_pending_end_offset s else hc_acknowledged_offset s)
    (if streaming L then hc_pending_end_record_index s
     else hc_acknowledged_record_index s + length (hc_pending_assembly_records s))
    (initial_acc L now s) w"
proof -
  from assms(1) have v: "host_valid (hl_hash L) s" by (simp add: stored_at_def)
  have "acc_starts L (initial_acc L now s)
    (if streaming L then hc_pending_end_offset s else hc_acknowledged_offset s)
    (if streaming L then hc_pending_end_record_index s
     else hc_acknowledged_record_index s + length (hc_pending_assembly_records s))"
  proof (cases "streaming L \<and> hc_pending_assembly_ranges s \<noteq> []")
    case True
    from host_valid_ranges(2) [OF v] True obtain m j where
      m: "chain pa_start_offset pa_end_offset (hc_acknowledged_offset s) (hc_pending_assembly_ranges s) m"
      and j: "chain pa_start_record_index pa_end_record_index (hc_acknowledged_record_index s)
        (hc_pending_assembly_ranges s) j" by blast
    have ok: "\<forall>r \<in> set (hc_pending_assembly_ranges s). is_ok (make_pending_assembly_range r)"
      using v by (simp add: host_valid_def make_host_cursor_def)
    have "hc_acknowledged_record_index s \<le> j"
      using assembly_records.chain_le [OF _ j] ok by (simp add: list_all_iff)
    moreover from chain_last [OF j] True have "hc_pending_end_record_index s = j"
      by (simp add: hc_pending_end_record_index_def)
    ultimately show ?thesis
      using True chain_hd [OF m] chain_hd [OF j] by (simp add: acc_starts_def initial_acc_def)
  next
    case False
    with assms(2) show ?thesis
      using host_valid_records [OF v]
      by (auto simp: acc_starts_def initial_acc_def hc_pending_end_offset_def hc_pending_end_record_index_def
          hd_map pending_record_to_framed_def)
  qed
  moreover have "keep (hc_pending_capture_recorded_at s) (keep (hc_pending_capture_recorded_at s) now)
      = keep (hc_pending_capture_recorded_at s) now"
    by (cases "hc_pending_capture_recorded_at s") simp_all
  ultimately show ?thesis
    using assms(1) by (simp add: acc_ready_def initial_acc_def)
qed

lemma batch_triple:
  assumes "streaming L \<Longrightarrow> hc_pending_assembly_records s = []"
    and "rq_byte_offset q = (if streaming L then hc_pending_end_offset s else hc_acknowledged_offset s)"
  shows "ensures (stored_at L s0 s) (host_batch (host_traced L) now s f q n data)
    (\<lambda>_. left_at L s0) (left_at L s0)"
  unfolding host_batch_def host_traced_fields
proof (rule ensures_bind_lift, goal_cases)
  case (1 batch)
  let ?i = "if streaming L then hc_pending_end_record_index s
    else hc_acknowledged_record_index s + length (hc_pending_assembly_records s)"
  from 1 have "fb_records batch
      = fst (frame_batch (nf_max_record_bytes (hl_framer L)) (nf_max_batch_records (hl_framer L))
          (rq_byte_offset q) ?i data)"
    by (auto simp: framer_frame_def Let_def split: if_splits prod.splits)
  with frame_batch_shape
  have framed: "framed_from (nf_max_record_bytes (hl_framer L)) (rq_byte_offset q) ?i (fb_records batch)"
    by simp
  have "ensures (stored_at L s0 s)
      (host_records (host_traced L) now f n (fb_records batch) (initial_acc (host_traced L) now s))
      (\<lambda>r w. case r of Inl h \<Rightarrow> left_at L s0 w | Inr acc' \<Rightarrow> stored_at L s0 (la_state acc') w) (left_at L s0)"
  proof (rule ensures_weaken [OF records_triple [OF framed]])
    fix w assume "stored_at L s0 s w"
    from initial_ready [OF this assms(1), of now]
    show "acc_ready L s0 (rq_byte_offset q) ?i (initial_acc (host_traced L) now s) w"
      by (simp add: assms(2) initial_acc_def)
  qed
  then show ?case
    by (intro ensures_if report_triple [OF quarantine_triple] ensures_bind)
      (auto split: sum.split intro: ensures_return finish_batch_triple)
qed (rule stored_left)

lemma response_triple:
  assumes "streaming L \<Longrightarrow> hc_pending_assembly_records s = []"
    and "rq_byte_offset q = (if streaming L then hc_pending_end_offset s else hc_acknowledged_offset s)"
  shows "ensures (stored_at L s0 s) (host_response (host_traced L) now s q resp)
    (\<lambda>_. left_at L s0) (left_at L s0)"
proof -
  have fail: "ensures (stored_at L s0 s) (report (commit_host_failure (host_traced L) s resp) None)
      (\<lambda>_. left_at L s0) (left_at L s0)"
    unfolding commit_host_failure_def
    by (rule waiting_report) (simp add: waiting_update_def no_update_def)
  have drift: "ensures (stored_at L s0 s) (report_drift (host_traced L) s n code)
      (\<lambda>_. left_at L s0) (left_at L s0)" for n code
    unfolding report_drift_def by (rule waiting_report) simp
  have ident: "ensures (stored_at L s0 s) (report (host_commit (host_traced L) s
      (no_update\<lparr>up_source_state := Some HC_IDENTITY_CHANGED,
        up_diagnostic_code := Some ''host.identity-changed'', up_observed_size := Some n\<rparr>)) None)
      (\<lambda>_. left_at L s0) (left_at L s0)" for n
    by (rule waiting_report) (simp add: waiting_update_def no_update_def)
  have err: "ensures (stored_at L s0 s) (raiseIO e) (\<lambda>_. left_at L s0) (left_at L s0)" for e
    by (rule ensures_raise) (rule stored_left)
  show ?thesis
    unfolding host_response_def Let_def host_traced_fields
    by (cases "rs_file_identity resp"; simp only: option.case)
      (intro ensures_if fail drift ident err batch_triple [OF assms]; assumption)+
qed


lemma poll_triple:
  assumes "streaming L \<Longrightarrow> hc_pending_assembly_records s = []"
  shows "ensures (stored_at L s0 s) (host_poll (host_traced L) now s) (\<lambda>_. left_at L s0) (left_at L s0)"
proof -
  let ?n = "if streaming L then hc_pending_end_offset s else hc_acknowledged_offset s"
  have req: "ensures (stored_at L s0 s)
      (host_request (host_traced L) (hc_file_identity s) ?n (hl_read_size (host_traced L)))
      (\<lambda>q w. rq_byte_offset q = ?n \<and> stored_at L s0 s w) (left_at L s0)"
  proof (rule ensuresI)
    fix w q w' assume at: "stored_at L s0 s w"
      and run: "host_request (host_traced L) (hc_file_identity s) ?n (hl_read_size (host_traced L)) w = (Inr q, w')"
    from run have "rq_byte_offset q = ?n"
      by (auto simp: host_request_def make_host_read_request_def elim!: bindIO_returns)
    with ensures_returns [OF quiet_triple [OF quiet_request] at run]
    show "rq_byte_offset q = ?n \<and> stored_at L s0 s w'" by simp
  qed (rule ensures_raises [OF quiet_triple [OF quiet_request]], assumption+)
  show ?thesis
    unfolding host_poll_def host_traced_fields
    by (rule ensures_bind [OF req], rule ensures_pure,
        rule ensures_bind [OF quiet_triple [OF host_ports_quiet(1)]],
        (rule ensures_bind_check, (rule ensures_bind_check)?)+)
      (auto intro: stored_left response_triple [OF assms])
qed



text \<open>What the rest of the run needs of the cursor, kept by the seek and by the upgrade.\<close>

definition streams :: "('w, 'x, 'e) host_loop \<Rightarrow> host_cursor \<Rightarrow> bool" where
  "streams L s \<longleftrightarrow> (streaming L \<longrightarrow> hc_pending_assembly_records s = [])"

lemma poll_streams:
  "ensures (\<lambda>w. streams L s \<and> stored_at L s0 s w) (host_poll (host_traced L) now s)
     (\<lambda>_. left_at L s0) (left_at L s0)"
  by (rule ensures_pure) (rule poll_triple, simp add: streams_def)

lemma ensures_also:
  assumes "ensures P m Q E" "\<And>w x w'. P w \<Longrightarrow> m w = (Inr x, w') \<Longrightarrow> R x"
  shows "ensures P m (\<lambda>x w. R x \<and> Q x w) E"
proof (rule ensuresI)
  fix w x w' assume "P w" "m w = (Inr x, w')"
  with ensures_returns [OF assms(1)] assms(2) show "R x \<and> Q x w'" by blast
qed (rule ensures_raises [OF assms(1)])

lemma seeking_triple:
  assumes "streams L s"
  shows "ensures (stored_at L s0 s) (host_seek (host_traced L) now s) (\<lambda>_. left_at L s0) (left_at L s0)"
proof (cases "hl_seek (host_traced L)")
  case None
  with poll_streams [of L s s0 now] assms show ?thesis by (simp add: host_seek_def)
next
  case (Some seek)
  have poll: "ensures (stored_at L s0 s) (host_poll (host_traced L) now s) (\<lambda>_. left_at L s0) (left_at L s0)"
    using poll_streams [of L s s0 now] assms by simp
  have sought: "ensures (stored_at L s0 s) (seek_scope_start (host_traced L) seek s)
      (\<lambda>s' w. streams L s' \<and> stored_at L s0 s' w) (stored_at L s0 s)"
    using seek_keeps [OF Some] by (rule ensures_also) (insert assms, auto simp: streams_def dest!: sought_no_records)
  have handler: "ensures (stored_at L s0 s)
      (case e of
         SourceRecordParseError code capsule \<Rightarrow>
           report (host_commit (host_traced L) s
             (no_update\<lparr>up_source_state := Some HC_DEGRADED, up_retry_attempts := Some (retry_next s),
                        up_diagnostic_code := Some code\<rparr>)) capsule
       | _ \<Rightarrow> raiseIO e) (\<lambda>_. left_at L s0) (left_at L s0)" for e
    by (cases e; simp only: py_error.case)
      ((rule ensures_raise, rule stored_left, assumption)
       | (rule waiting_report, simp add: waiting_update_def no_update_def))+
  show ?thesis
    unfolding host_seek_def Some option.case
    by (rule ensures_if, rule ensures_try [OF sought handler], rule poll_streams, rule poll)
qed

lemma drift_handler_triple:
  "ensures (stored_at L s0 s) (pending_range_drift (host_traced L) s e) (\<lambda>_. left_at L s0) (left_at L s0)"
  unfolding pending_range_drift_def
  by (cases e; simp only: py_error.case)
    ((rule ensures_raise, rule stored_left, assumption)
     | (unfold report_drift_def, rule waiting_report, simp))+

lemma verified_triple:
  "ensures (stored_at L s0 s) (host_verified (host_traced L) now s) (\<lambda>_. left_at L s0) (left_at L s0)"
proof (cases "streaming L")
  case False
  then show ?thesis
    by (simp add: host_verified_def) (rule seeking_triple, simp add: streams_def)
next
  case True
  have upgraded: "ensures (stored_at L s0 s) (upgrade_streaming_cursor (host_traced L) s)
      (\<lambda>s' w. streams L s' \<and> stored_at L s0 s' w) (stored_at L s0 s)"
    using upgrade_keeps
    by (rule ensures_also) (auto simp: streams_def stored_at_def dest!: upgraded_no_records)
  have rest: "ensures (\<lambda>w. streams L s' \<and> stored_at L s0 s' w)
     (if hc_pending_assembly_ranges s' = [] then host_seek (host_traced L) now s'
      else tryIO (source_ranges_sha256 (host_traced L) (hc_pending_assembly_ranges s'))
             (pending_range_drift (host_traced L) s') (\<lambda>_. host_seek (host_traced L) now s'))
     (\<lambda>_. left_at L s0) (left_at L s0)" for s'
    by (rule ensures_pure, rule ensures_if, erule seeking_triple,
        rule ensures_try [OF quiet_keeps [OF quiet_source_ranges] drift_handler_triple], erule seeking_triple)
  have eq: "host_verified (host_traced L) now s = tryIO (upgrade_streaming_cursor (host_traced L) s)
     (pending_range_drift (host_traced L) s) (\<lambda>s'.
       if hc_pending_assembly_ranges s' = [] then host_seek (host_traced L) now s'
       else tryIO (source_ranges_sha256 (host_traced L) (hc_pending_assembly_ranges s'))
             (pending_range_drift (host_traced L) s') (\<lambda>_. host_seek (host_traced L) now s'))"
    using True by (simp add: host_verified_def)
  show ?thesis
    unfolding eq by (rule ensures_try [OF upgraded drift_handler_triple rest])
qed

text \<open>One run of the traced loop from a valid stored cursor.\<close>

theorem host_verified_history:
  assumes "host_valid (hl_hash L) s" "host_verified (host_traced L) now s (w, []) = (r, (w', evs))"
  shows "\<exists>w''. left_at L s (w'', evs)"
proof -
  have "stored_at L s s (w, [])"
    using assms(1) by (auto simp: stored_at_def intro: at_start)
  with verified_triple [of L s s now] assms(2) have "left_at L s (w', evs)"
    unfolding ensures_def by (cases r) fastforce+
  then show ?thesis ..
qed

end
