(* ===== verification/HostRuns.thy ===== *)
theory HostRuns
  imports HostTrace
begin

text \<open>
  Sequences of runs of the host capture loop over a cursor store: the bytes below the stored
  position are tiled by acknowledged submissions and recorded exclusions, whatever runs raise
  in between, and no envelope is submitted before the capture time it was built with is stored.
\<close>

section \<open>The cursor store\<close>

text \<open>
  What \<open>CaptureCursorStore\<close> promises: \<open>view\<close> is the state stored under the loop's capability;
  \<open>load\<close> returns it, a \<open>commit\<close> that returns replaces it, and nothing else changes it.
\<close>

definition host_store_contract :: "('w, 'x, 'e) host_loop \<Rightarrow> ('w \<Rightarrow> host_cursor option) \<Rightarrow> bool" where
  "host_store_contract L view \<longleftrightarrow>
     (\<forall>w r w'. hl_load L (hl_capability_id L) w = (r, w') \<longrightarrow>
        (\<forall>x. r = Inr x \<longrightarrow> x = view w) \<and> view w' = view w)
     \<and> (\<forall>q w r w'. hl_read L q w = (r, w') \<longrightarrow> view w' = view w)
     \<and> (\<forall>w r w'. hl_uuid4 L w = (r, w') \<longrightarrow> view w' = view w)
     \<and> (\<forall>e k c t w r w'. hl_submit L e k c t w = (r, w') \<longrightarrow> view w' = view w)
     \<and> (\<forall>seek q w r w'. hl_seek L = Some seek \<longrightarrow> seek q w = (r, w') \<longrightarrow> view w' = view w)
     \<and> (\<forall>n s w r w'. hl_commit L n s w = (r, w') \<longrightarrow>
          view w' = (case r of Inl e \<Rightarrow> view w | Inr u \<Rightarrow> Some s))"

fun last_host_stored :: "'e host_event list \<Rightarrow> host_cursor option \<Rightarrow> host_cursor option" where
  "last_host_stored [] v = v"
| "last_host_stored (HStored n s # evs) v = last_host_stored evs (Some s)"
| "last_host_stored (HSubmitted e k c t r # evs) v = last_host_stored evs v"

lemma last_host_stored_append: "last_host_stored (a @ b) v = last_host_stored b (last_host_stored a v)"
  by (induction a v rule: last_host_stored.induct) simp_all

interpretation host_history: event_store last_host_stored
  by unfold_locales (simp_all add: last_host_stored_append)

named_theorems host_follows \<open>computations of the host loop that follow the store\<close>

lemmas [host_follows] =
  host_history.follows_bind host_history.follows_basic host_history.follows_if host_history.follows_try

lemma host_ports_follow [host_follows]:
  assumes "host_store_contract L view"
  shows "follows last_host_stored view (hl_load (host_traced L) (hl_capability_id L))"
    and "follows last_host_stored view (hl_read (host_traced L) q)"
    and "follows last_host_stored view (hl_uuid4 (host_traced L))"
    and "follows last_host_stored view (hl_submit (host_traced L) e k c t)"
    and "follows last_host_stored view (hl_commit (host_traced L) n s)"
proof -
  note laws = assms [unfolded host_store_contract_def]
  show "follows last_host_stored view (hl_load (host_traced L) (hl_capability_id L))"
    "follows last_host_stored view (hl_read (host_traced L) q)"
    "follows last_host_stored view (hl_uuid4 (host_traced L))"
    using laws by (auto simp: host_traced_def intro!: host_history.follows_quiet)
  show "follows last_host_stored view (hl_submit (host_traced L) e k c t)"
    using laws by (fastforce simp: follows_def host_traced_def with_history_def split: prod.splits sum.splits)
  show "follows last_host_stored view (hl_commit (host_traced L) n s)"
    using laws by (fastforce simp: follows_def host_traced_def with_history_def split: prod.splits sum.splits)
qed

lemma seek_follows [host_follows]:
  assumes "host_store_contract L view" "hl_seek (host_traced L) = Some seek"
  shows "follows last_host_stored view (seek q)"
  using assms by (auto simp: host_traced_def host_store_contract_def intro!: host_history.follows_quiet)


lemma follows_request [host_follows]:
  "host_store_contract L view \<Longrightarrow> follows last_host_stored view (host_request (host_traced L) f n k)"
  unfolding host_request_def by (intro host_follows)

lemma follows_chunk [host_follows]:
  "host_store_contract L view \<Longrightarrow> follows last_host_stored view (reread_chunk (host_traced L) f stop n)"
  unfolding reread_chunk_def by (intro host_follows)

lemma follows_reread_run:
  assumes "host_store_contract L view" "reread (host_traced L) f stop n s = (r, s')"
  shows "\<exists>new. snd s' = snd s @ new \<and> view (fst s') = last_host_stored new (view (fst s))"
  using assms(2)
proof (induction "host_traced L" f stop n s arbitrary: r s' rule: reread.induct)
  case (1 f stop n s)
  show ?case
  proof (cases "n < stop")
    case False
    with "1.prems" show ?thesis by (simp add: reread.simps)
  next
    case True
    obtain c s1 where chunk: "reread_chunk (host_traced L) f stop n s = (c, s1)"
      by (cases "reread_chunk (host_traced L) f stop n s")
    show ?thesis
    proof (rule host_history.follows_sequence [OF follows_chunk [OF assms(1)] chunk], cases c)
      case (Inl e)
      with "1.prems" True chunk
      show "\<exists>later. snd s' = snd s1 @ later \<and> view (fst s') = last_host_stored later (view (fst s1))"
        by (intro exI [of _ "[]"]) (simp add: reread.simps)
    next
      case (Inr data)
      obtain c2 s2 where rest: "reread (host_traced L) f stop (n + length data) s1 = (c2, s2)"
        by (cases "reread (host_traced L) f stop (n + length data) s1")
      with "1.prems" True chunk Inr have "s' = s2"
        by (cases c2) (auto simp: reread.simps [of _ _ _ n])
      with "1.hyps" [OF True chunk [symmetric] Inr rest]
      show "\<exists>later. snd s' = snd s1 @ later \<and> view (fst s') = last_host_stored later (view (fst s1))" by simp
    qed
  qed
qed

lemma follows_reread [host_follows]:
  "host_store_contract L view \<Longrightarrow> follows last_host_stored view (reread (host_traced L) f stop n)"
  unfolding follows_def by (blast intro: follows_reread_run)

lemma follows_reread_ranges [host_follows]:
  assumes "host_store_contract L view"
  shows "follows last_host_stored view (reread_ranges (host_traced L) f n i rs)"
  by (induction rs arbitrary: n i; unfold reread_ranges.simps; intro host_follows assms)

lemma follows_source_ranges [host_follows]:
  "host_store_contract L view \<Longrightarrow> follows last_host_stored view (source_ranges_sha256 (host_traced L) rs)"
  unfolding source_ranges_sha256_def by (intro host_follows)

lemma follows_reread_records [host_follows]:
  assumes "host_store_contract L view"
  shows "follows last_host_stored view (reread_records (host_traced L) f rs)"
  by (induction rs; unfold reread_records.simps; intro host_follows assms)

lemma follows_source_range [host_follows]:
  "host_store_contract L view \<Longrightarrow> follows last_host_stored view (source_range_sha256 (host_traced L) rs f)"
  unfolding source_range_sha256_def by (intro host_follows)

lemma follows_assembly_source [host_follows]:
  "host_store_contract L view \<Longrightarrow> follows last_host_stored view (assembly_source_sha256 (host_traced L) rs f)"
  unfolding assembly_source_sha256_def by (intro host_follows)

lemma follows_commit [host_follows]:
  "host_store_contract L view \<Longrightarrow> follows last_host_stored view (host_commit (host_traced L) s u)"
  unfolding host_commit_def by (intro host_follows)

lemma follows_quarantine [host_follows]:
  "host_store_contract L view \<Longrightarrow> follows last_host_stored view (quarantine (host_traced L) s f a b d code n)"
  unfolding quarantine_def case_prod_beta by (intro host_follows)

lemma follows_report [host_follows]:
  "follows last_host_stored view m \<Longrightarrow> follows last_host_stored view (report m k)"
  unfolding report_def by (intro host_follows)

lemma follows_health [host_follows]: "follows last_host_stored view (health_now s)"
  unfolding health_now_def by (intro host_follows)

lemma follows_upgrade [host_follows]:
  "host_store_contract L view \<Longrightarrow> follows last_host_stored view (upgrade_streaming_cursor (host_traced L) s)"
  unfolding upgrade_streaming_cursor_def Let_def by (auto split: option.split intro!: host_follows)

lemma follows_seek [host_follows]:
  "host_store_contract L view \<Longrightarrow> hl_seek (host_traced L) = Some seek \<Longrightarrow>
   follows last_host_stored view (seek_scope_start (host_traced L) seek s)"
  unfolding seek_scope_start_def by (intro host_follows)

lemma follows_dispose [host_follows]:
  "host_store_contract L view \<Longrightarrow>
   follows last_host_stored view (dispose_finalized (host_traced L) now f n acc x r a i d span)"
  unfolding dispose_finalized_def exclude_finalized_def submit_finalized_def pin_recorded_at_def
  by (auto split: option.split intro!: host_follows)

lemma follows_finalized [host_follows]:
  "host_store_contract L view \<Longrightarrow> follows last_host_stored view (host_finalized (host_traced L) now f m r acc x)"
  unfolding host_finalized_def quarantine_assembly_def assembly_span_def finalized_span_def case_prod_beta
  by (auto split: option.split intro!: host_follows)

lemma follows_record [host_follows]:
  assumes "host_store_contract L view"
  shows "follows last_host_stored view (host_record (host_traced L) now f m r acc)"
proof -
  have q: "follows last_host_stored view (quarantine_assembly (host_traced L) f m r acc' code k)" for acc' code k
    unfolding quarantine_assembly_def assembly_span_def case_prod_beta by (intro host_follows assms)
  note parts = q follows_finalized [OF assms] host_history.follows_basic
  show ?thesis
    unfolding host_record_def Let_def
    by (rule host_history.follows_if, intro host_follows assms)
      (auto split: sum.split py_error.split prod.split option.split intro: parts)
qed

lemma follows_records [host_follows]:
  assumes "host_store_contract L view"
  shows "follows last_host_stored view (host_records (host_traced L) now f m rs acc)"
proof (induction rs arbitrary: acc)
  case Nil
  show ?case unfolding host_records.simps by (rule host_history.follows_basic)
next
  case (Cons r rs)
  have "follows last_host_stored view (case x of Inl h \<Rightarrow> returnIO (Inl h)
      | Inr acc' \<Rightarrow> host_records (host_traced L) now f m rs acc')" for x
    by (cases x; simp only: sum.case; rule host_history.follows_basic Cons.IH)
  then show ?case unfolding host_records.simps by (intro host_follows assms)
qed

lemma follows_finish_streaming [host_follows]:
  assumes "host_store_contract L view"
  shows "follows last_host_stored view (finish_streaming (host_traced L) f n batch acc)"
  unfolding finish_streaming_def Let_def
proof (rule host_history.follows_bind, rule host_history.follows_basic, goal_cases)
  case (1 ranges)
  show ?case
  proof (cases "streaming_limit_diagnostic (host_traced L) ranges")
    case None
    show ?thesis unfolding None option.case by (intro host_follows assms)
  next
    case (Some code)
    show ?thesis unfolding Some option.case by (intro host_follows assms)
  qed
qed

lemma follows_finish_batch [host_follows]:
  "host_store_contract L view \<Longrightarrow>
   follows last_host_stored view (finish_batch (host_traced L) f q n data b acc)"
  unfolding finish_batch_def finish_window_def Let_def by (intro host_follows)

lemma follows_verified [host_follows]:
  assumes "host_store_contract L view"
  shows "follows last_host_stored view (host_verified (host_traced L) now s)"
proof -
  note fin = follows_finish_batch [OF assms]
  have batch: "follows last_host_stored view (host_batch (host_traced L) now s f q n data)" for s f q n data
    unfolding host_batch_def
    by (intro host_follows assms) (auto split: sum.split intro: fin host_history.follows_basic)
  have resp: "follows last_host_stored view (host_response (host_traced L) now s q r)" for s q r
    unfolding host_response_def Let_def report_drift_def commit_host_failure_def
    by (intro host_follows assms) (auto split: option.split intro!: host_follows assms batch)
  have poll: "follows last_host_stored view (host_poll (host_traced L) now s)" for s
    unfolding host_poll_def by (intro host_follows assms resp)
  have seek: "follows last_host_stored view (host_seek (host_traced L) now s)" for s
    unfolding host_seek_def
    by (auto split: option.split py_error.split intro!: host_follows assms poll)
  have drift: "follows last_host_stored view (pending_range_drift (host_traced L) s e)" for s e
    unfolding pending_range_drift_def report_drift_def
    by (auto split: py_error.split intro!: host_follows assms)
  show ?thesis
    unfolding host_verified_def by (intro host_follows assms seek drift)
qed


section \<open>What a history accounts for\<close>

definition captured_to :: "host_cursor option \<Rightarrow> nat" where
  "captured_to v = (case v of None \<Rightarrow> 0 | Some s \<Rightarrow> hc_acknowledged_offset s)"

definition captured_records :: "host_cursor option \<Rightarrow> nat" where
  "captured_records v = (case v of None \<Rightarrow> 0 | Some s \<Rightarrow> hc_acknowledged_record_index s)"

definition excluded_scopes :: "host_cursor option \<Rightarrow> scope_exclusion_entry list" where
  "excluded_scopes v = (case v of None \<Rightarrow> [] | Some s \<Rightarrow> hc_scope_exclusions s)"

definition captured_checkpoint :: "host_cursor option \<Rightarrow> nat" where
  "captured_checkpoint v = (case v of None \<Rightarrow> 0 | Some s \<Rightarrow> hc_checkpoint_sequence s)"

fun exclusions_of :: "disposition list \<Rightarrow> scope_exclusion_entry list" where
  "exclusions_of [] = []"
| "exclusions_of (Excluded e # ds) = e # exclusions_of ds"
| "exclusions_of (Acked p i j # ds) = exclusions_of ds"

fun proposals_of :: "disposition list \<Rightarrow> proposed_source_cursor list" where
  "proposals_of [] = []"
| "proposals_of (Excluded e # ds) = proposals_of ds"
| "proposals_of (Acked p i j # ds) = p # proposals_of ds"

lemma dispositions_append [simp]:
  "exclusions_of (as @ bs) = exclusions_of as @ exclusions_of bs"
  "proposals_of (as @ bs) = proposals_of as @ proposals_of bs"
  by (induction as rule: exclusions_of.induct; simp)+

text \<open>
  The dispositions \<open>ds\<close> carry the store from \<open>v\<close> to \<open>v'\<close>: they tile the bytes and the records
  in between, the exclusions are the ones appended, and each acknowledged proposal advances the
  checkpoint once and belongs to a submission whose receipt is bound to it.
\<close>

definition host_submitted ::
  "('w, 'x, 'e) host_loop \<Rightarrow> 'e host_event list \<Rightarrow> proposed_source_cursor \<Rightarrow> bool" where
  "host_submitted L evs p \<longleftrightarrow> (\<exists>e k c t r. HSubmitted e k c t r \<in> set evs \<and> host_bound L p e k c r)"

definition accounts ::
  "('w, 'x, 'e) host_loop \<Rightarrow> 'e host_event list \<Rightarrow> disposition list \<Rightarrow> host_cursor option
    \<Rightarrow> host_cursor option \<Rightarrow> bool" where
  "accounts L evs ds v v' \<longleftrightarrow>
     chain dp_start dp_end (captured_to v) ds (captured_to v')
     \<and> chain dp_start_record dp_end_record (captured_records v) ds (captured_records v')
     \<and> list_all dp_valid ds
     \<and> excluded_scopes v' = excluded_scopes v @ exclusions_of ds
     \<and> captured_checkpoint v' = captured_checkpoint v + length (proposals_of ds)
     \<and> list_all (host_submitted L evs) (proposals_of ds)"

lemma host_submitted_more: "host_submitted L evs p \<Longrightarrow> set evs \<subseteq> set evs' \<Longrightarrow> host_submitted L evs' p"
  unfolding host_submitted_def by blast

lemma all_submitted_more:
  "list_all (host_submitted L evs) ps \<Longrightarrow> set evs \<subseteq> set evs' \<Longrightarrow> list_all (host_submitted L evs') ps"
  by (auto simp: list_all_iff intro: host_submitted_more)

lemma host_submitted_snoc:
  "host_bound L p e k c r \<Longrightarrow> host_submitted L (evs @ [HSubmitted e k c t r, ev]) p"
  unfolding host_submitted_def by fastforce

lemma host_at_accounts:
  "host_at L s0 evs ds s \<Longrightarrow>
   accounts L evs ds (Some s0) (Some s) \<and> last_host_stored evs (Some s0) = Some s"
proof (induction rule: host_at.induct)
  case at_start
  show ?case by (simp add: accounts_def)
next
  case (at_wait evs ds s s')
  moreover have "set evs \<subseteq> set (evs @ [HStored (hc_revision s) s'])" by auto
  ultimately show ?case
    by (auto elim!: all_submitted_more simp: accounts_def host_waits_def captured_to_def captured_records_def excluded_scopes_def
        captured_checkpoint_def last_host_stored_append)
next
  case (at_exclude evs ds s e s')
  moreover have "set evs \<subseteq> set (evs @ [HStored (hc_revision s) s'])" by auto
  ultimately show ?case
    by (auto elim!: all_submitted_more simp: accounts_def host_excludes_def captured_to_def captured_records_def excluded_scopes_def
        captured_checkpoint_def last_host_stored_append chain_snoc)
next
  case (at_acknowledge evs ds s e p k c r s' t)
  moreover have "set evs \<subseteq> set (evs @ [HSubmitted e k c t r, HStored (hc_revision s) s'])" by auto
  ultimately show ?case
    by (auto elim!: all_submitted_more intro: host_submitted_snoc simp: accounts_def host_acknowledges_def captured_to_def captured_records_def
        excluded_scopes_def captured_checkpoint_def last_host_stored_append chain_snoc)
qed

lemma accounts_more_events:
  "accounts L evs ds v v' \<Longrightarrow> set evs \<subseteq> set evs' \<Longrightarrow> accounts L evs' ds v v'"
  by (auto simp: accounts_def elim: all_submitted_more)

lemma accounts_append:
  assumes "accounts L evs ds v v1" "accounts L evs' ds' v1 v2"
  shows "accounts L (evs @ evs') (ds @ ds') v v2"
  using assms by (auto simp: accounts_def chain_append elim!: all_submitted_more)

text \<open>Every submission of a history was preceded by a store that pins its capture time.\<close>

definition pinned_submissions ::
  "('w, 'x, 'e) host_loop \<Rightarrow> host_cursor option \<Rightarrow> 'e host_event list \<Rightarrow> bool" where
  "pinned_submissions L v evs \<longleftrightarrow>
     (\<forall>pre e k c t r post. evs = pre @ HSubmitted e k c t r # post \<longrightarrow>
        (\<exists>s. last_host_stored pre v = Some s \<and> host_pinned L s e))"

lemma pinned_store:
  "pinned_submissions L v evs \<Longrightarrow> pinned_submissions L v (evs @ [HStored n s])"
  unfolding pinned_submissions_def
  by (auto simp: append_eq_append_conv2 append_eq_Cons_conv Cons_eq_append_conv; blast)

lemma pinned_submit:
  assumes "pinned_submissions L v evs" "last_host_stored evs v = Some s" "host_pinned L s e"
  shows "pinned_submissions L v (evs @ [HSubmitted e k c t r])"
  using assms unfolding pinned_submissions_def
  by (auto simp: append_eq_append_conv2 append_eq_Cons_conv Cons_eq_append_conv; blast)

lemma host_at_pinned: "host_at L s0 evs ds s \<Longrightarrow> pinned_submissions L (Some s0) evs"
proof (induction rule: host_at.induct)
  case at_start
  show ?case by (simp add: pinned_submissions_def)
next
  case (at_wait evs ds s s')
  then show ?case by (simp add: pinned_store)
next
  case (at_exclude evs ds s e s')
  then show ?case by (simp add: pinned_store)
next
  case (at_acknowledge evs ds s e p k c r s' t)
  have "last_host_stored evs (Some s0) = Some s"
    using host_at_accounts [OF at_acknowledge(1)] by simp
  from pinned_store [OF pinned_submit [OF at_acknowledge.IH this at_acknowledge(2)]]
  show ?case by simp
qed

lemma left_at_accounts:
  assumes "left_at L s0 (w, evs)"
  shows "\<exists>ds. accounts L evs ds (Some s0) (last_host_stored evs (Some s0))"
    and "pinned_submissions L (Some s0) evs"
proof -
  from assms obtain evs1 ds s where at: "host_at L s0 evs1 ds s"
    and e: "evs = evs1 \<or> (\<exists>e k c t r. evs = evs1 @ [HSubmitted e k c t r] \<and> host_pinned L s e)"
    unfolding left_at_def by auto
  note a = host_at_accounts [OF at]
  from e have "last_host_stored evs (Some s0) = Some s \<and> set evs1 \<subseteq> set evs"
    using a by (auto simp: last_host_stored_append)
  with a accounts_more_events show "\<exists>ds. accounts L evs ds (Some s0) (last_host_stored evs (Some s0))"
    by metis
  from e show "pinned_submissions L (Some s0) evs"
  proof
    assume "evs = evs1"
    with host_at_pinned [OF at] show ?thesis by simp
  next
    assume "\<exists>e k c t r. evs = evs1 @ [HSubmitted e k c t r] \<and> host_pinned L s e"
    with pinned_submit [OF host_at_pinned [OF at] conjunct2 [OF a]] show ?thesis by auto
  qed
qed

section \<open>Runs\<close>

definition valid_store :: "hash \<Rightarrow> host_cursor option \<Rightarrow> bool" where
  "valid_store H v \<longleftrightarrow> (\<forall>s. v = Some s \<longrightarrow> host_valid H s)"



text \<open>A store without a cursor is at the same position as one with the initial cursor.\<close>

definition same_position :: "host_cursor option \<Rightarrow> host_cursor option \<Rightarrow> bool" where
  "same_position v v' \<longleftrightarrow>
     captured_to v = captured_to v' \<and> captured_records v = captured_records v'
     \<and> excluded_scopes v = excluded_scopes v' \<and> captured_checkpoint v = captured_checkpoint v'"

lemma same_position_accounts:
  "same_position v u \<Longrightarrow> same_position v' u' \<Longrightarrow> accounts L evs ds v v' = accounts L evs ds u u'"
  by (simp add: same_position_def accounts_def)

lemma last_host_stored_start:
  "last_host_stored evs v = last_host_stored evs u \<or> last_host_stored evs v = v \<and> last_host_stored evs u = u"
  by (induction evs v arbitrary: u rule: last_host_stored.induct) auto

lemma same_position_stored:
  "same_position v u \<Longrightarrow> same_position (last_host_stored evs v) (last_host_stored evs u)"
  using last_host_stored_start [of evs v u] by (auto simp: same_position_def)

lemma initial_position: "same_position (Some (initial_host_cursor H c)) None"
  by (simp add: same_position_def captured_to_def captured_records_def excluded_scopes_def
      captured_checkpoint_def initial_host_cursor_def)

lemma initial_pinned:
  assumes "pinned_submissions L (Some s) evs" "hc_pending_capture_recorded_at s = None"
  shows "pinned_submissions L None evs"
  unfolding pinned_submissions_def
proof (intro allI impI)
  fix pre e k c t r post assume "evs = pre @ HSubmitted e k c t r # post"
  with assms(1) obtain s1 where s1: "last_host_stored pre (Some s) = Some s1" "host_pinned L s1 e"
    unfolding pinned_submissions_def by blast
  from assms(2) have "\<not> host_pinned L s e" by (simp add: host_pinned_def)
  with s1 last_host_stored_start [of pre "Some s" None]
  have "last_host_stored pre None = Some s1" by auto
  with s1(2) show "\<exists>s. last_host_stored pre None = Some s \<and> host_pinned L s e" by blast
qed

text \<open>What a run accounts for, from the store it finds.\<close>

definition run_accounts ::
  "('w, 'x, 'e) host_loop \<Rightarrow> 'e host_event list \<Rightarrow> host_cursor option \<Rightarrow> host_cursor option \<Rightarrow> bool" where
  "run_accounts L evs v v' \<longleftrightarrow>
     (\<exists>ds. accounts L evs ds v v') \<and> pinned_submissions L v evs \<and> valid_store (hl_hash L) v'"

lemma run_accounts_nothing: "valid_store (hl_hash L) v \<Longrightarrow> run_accounts L [] v v"
  by (auto simp: run_accounts_def accounts_def pinned_submissions_def intro: exI [of _ "[]"])

lemma left_at_run:
  assumes "left_at L s (w, evs)"
    and "v = Some s \<or> v = None \<and> s = initial_host_cursor H c"
  shows "run_accounts L evs v (last_host_stored evs v)"
proof -
  from assms(2) have same: "same_position (Some s) v"
    using initial_position by (auto simp: same_position_def)
  note acc = left_at_accounts [OF assms(1)]
  from acc(1) obtain ds where "accounts L evs ds (Some s) (last_host_stored evs (Some s))" ..
  then have "\<exists>ds. accounts L evs ds v (last_host_stored evs v)"
    using same_position_accounts [OF same same_position_stored [OF same]] by blast
  moreover from acc(2) assms(2) have "pinned_submissions L v evs"
    by (auto intro: initial_pinned simp: initial_host_cursor_def)
  moreover have "valid_store (hl_hash L) (last_host_stored evs v)"
  proof -
    from assms(1) obtain evs1 ds s1 where at: "host_at L s evs1 ds s1" "host_valid (hl_hash L) s1"
      and e: "evs = evs1 \<or> (\<exists>e k c t r. evs = evs1 @ [HSubmitted e k c t r] \<and> host_pinned L s1 e)"
      unfolding left_at_def by auto
    from e host_at_accounts [OF at(1)] have "last_host_stored evs (Some s) = Some s1"
      by (auto simp: last_host_stored_append)
    with at(2) last_host_stored_start [of evs "Some s" v] assms(2) show ?thesis
      by (auto simp: valid_store_def)
  qed
  ultimately show ?thesis by (simp add: run_accounts_def)
qed

lemma host_run_once_accounts:
  assumes contract: "host_store_contract L view" and valid: "valid_store (hl_hash L) (view w)"
    and run: "host_run_once (host_traced L) t (w, []) = (r, (w', evs))"
  shows "run_accounts L evs (view w) (view w')"
proof (cases "tz_missing t")
  case True
  with run valid show ?thesis
    by (auto simp: host_run_once_def checkIO_def bindIO_def intro: run_accounts_nothing)
next
  case False
  with run have run: "bindIO (load_host_state (host_traced L)) (host_verified (host_traced L) t) (w, []) = (r, (w', evs))"
    by (simp add: host_run_once_def checkIO_def bindIO_def)
  obtain lr w1 where load: "hl_load L (hl_capability_id L) w = (lr, w1)"
    by (cases "hl_load L (hl_capability_id L) w")
  from contract have "(\<forall>x. r = Inr x \<longrightarrow> x = view w) \<and> view w' = view w"
    if "hl_load L (hl_capability_id L) w = (r, w')" for r w w'
    using that conjunct1 [OF contract [unfolded host_store_contract_def]] by blast
  from this [OF load] have v: "view w1 = view w" "\<And>x. lr = Inr x \<Longrightarrow> x = view w" by blast+
  have tload: "hl_load (host_traced L) (hl_capability_id L) (w, []) = (lr, (w1, []))"
    using load by (cases lr) (simp_all add: host_traced_def with_history_def)
  obtain st where st: "load_host_state (host_traced L) (w, []) = (st, (w1, []))"
    using tload by (cases lr) (simp_all add: load_host_state_def)
  show ?thesis
  proof (cases st)
    case (Inl e)
    with run st have "evs = [] \<and> w' = w1" by simp
    with v(1) valid show ?thesis by (simp add: run_accounts_nothing)
  next
    case (Inr s)
    from st tload Inr v(2) have s: "view w = Some s
        \<or> view w = None \<and> make_host_cursor (hl_hash L) (initial_host_cursor (hl_hash L) (hl_capability_id L)) = Inr s"
      by (cases lr) (auto simp: load_host_state_def split: option.splits)
    then have start: "view w = Some s \<or> view w = None \<and> s = initial_host_cursor (hl_hash L) (hl_capability_id L)"
      by (auto dest: make_host_cursor_id)
    from s valid have sv: "host_valid (hl_hash L) s"
      by (auto simp: valid_store_def host_valid_def dest: make_host_cursor_id)
    from run st Inr have go: "host_verified (host_traced L) t s (w1, []) = (r, (w', evs))" by simp
    from host_verified_history [OF sv go] obtain w2 where "left_at L s (w2, evs)" ..
    from left_at_run [OF this start] have "run_accounts L evs (view w) (last_host_stored evs (view w))" .
    moreover from follows_verified [OF contract] go have "view w' = last_host_stored evs (view w)"
      unfolding follows_def using v(1) by fastforce
    ultimately show ?thesis by simp
  qed
qed

text \<open>Successive runs, with the history of each; a run that raises is followed by the next one.\<close>

fun host_runs ::
  "('w, 'x, 'e) host_loop \<Rightarrow> datetime list \<Rightarrow> 'w \<Rightarrow> 'e host_event list \<times> 'w" where
  "host_runs L [] w = ([], w)"
| "host_runs L (t # ts) w =
     (let (w', evs) = snd (host_run_once (host_traced L) t (w, []));
          (later, w'') = host_runs L ts w'
      in (evs @ later, w''))"

lemma host_runs_account:
  assumes "host_store_contract L view" "valid_store (hl_hash L) (view w)" "host_runs L ts w = (evs, w')"
  shows "(\<exists>ds. accounts L evs ds (view w) (view w')) \<and> valid_store (hl_hash L) (view w')"
  using assms
proof (induction ts arbitrary: w evs)
  case Nil
  then show ?case by (auto simp: accounts_def intro: exI [of _ "[]"])
next
  case (Cons t ts)
  obtain r w1 evs1 where one: "host_run_once (host_traced L) t (w, []) = (r, (w1, evs1))"
    by (metis surj_pair)
  obtain later where rest: "host_runs L ts w1 = (later, w')" "evs = evs1 @ later"
    using Cons.prems(3) one by (auto split: prod.splits)
  from host_run_once_accounts [OF Cons.prems(1,2) one] obtain ds where
    ds: "accounts L evs1 ds (view w) (view w1)" and v: "valid_store (hl_hash L) (view w1)"
    by (auto simp: run_accounts_def)
  from Cons.IH [OF Cons.prems(1) v rest(1)] obtain ds' where
    "accounts L later ds' (view w1) (view w')" "valid_store (hl_hash L) (view w')" by blast
  with accounts_append [OF ds] rest(2) show ?case by auto
qed

end
