(* ===== verification/HostFacts.thy ===== *)
theory HostFacts
  imports HostRuns
begin

text \<open>
  The smaller contracts of the host capture loop: what a verified re-read returns, how the
  quarantine counts, and that the health of a valid cursor can always be reported.
\<close>

section \<open>Re-reads\<close>

lemma reread_length:
  assumes "reread L f stop n w = (Inr data, w')" "n \<le> stop"
  shows "length data = stop - n"
  using assms
proof (induction L f stop n w arbitrary: data w' rule: reread.induct)
  case (1 L f stop n w)
  show ?case
  proof (cases "n < stop")
    case False
    with "1.prems" show ?thesis by (simp add: reread.simps)
  next
    case True
    with "1.prems"(1) obtain c w1 rest where c: "reread_chunk L f stop n w = (Inr c, w1)"
      and rest: "reread L f stop (n + length c) w1 = (Inr rest, w')" "data = c @ rest"
      by (auto simp: reread.simps [of _ _ _ n] split: prod.splits sum.splits)
    note b = reread_chunk_bound [OF c]
    with True have "n + length c \<le> stop" by linarith
    from "1.IH" [OF True c [symmetric] refl rest(1) this] rest(2) b True show ?thesis by simp
  qed
qed

text \<open>The bytes behind verified ranges: one part per range, of its size and with its digest.\<close>

definition parts_of :: "hash \<Rightarrow> pending_assembly_range list \<Rightarrow> bytes list \<Rightarrow> bool" where
  "parts_of H ranges parts \<longleftrightarrow>
     map H parts = map pa_source_bytes_sha256 ranges
     \<and> map length parts = map (\<lambda>r. pa_end_offset r - pa_start_offset r) ranges"

lemma reread_ranges_parts:
  assumes "reread_ranges L f n i rs w = (Inr data, w')"
    and "\<forall>r \<in> set rs. pa_start_offset r \<le> pa_end_offset r"
  shows "\<exists>parts m j. data = concat parts \<and> parts_of (hl_hash L) rs parts
    \<and> chain pa_start_offset pa_end_offset n rs m \<and> chain pa_start_record_index pa_end_record_index i rs j
    \<and> (\<forall>r \<in> set rs. pa_file_identity r = f)"
  using assms
proof (induction rs arbitrary: n i w data)
  case Nil
  then show ?case by (auto simp: parts_of_def intro: exI [of _ "[]"])
next
  case (Cons r rs)
  from Cons.prems(1) obtain d w1 rest where
    d: "reread L f (pa_end_offset r) (pa_start_offset r) w = (Inr d, w1)"
    and rest: "reread_ranges L f (pa_end_offset r) (pa_end_record_index r) rs w1 = (Inr rest, w')"
    and r: "pa_file_identity r = f" "pa_start_offset r = n" "pa_start_record_index r = i"
      "hl_hash L d = pa_source_bytes_sha256 r" "data = d @ rest"
    by (fastforce elim!: bindIO_returns bind_checkE)
  from Cons.IH [OF rest] Cons.prems(2) obtain parts m j where
    "rest = concat parts" "parts_of (hl_hash L) rs parts"
    "chain pa_start_offset pa_end_offset (pa_end_offset r) rs m"
    "chain pa_start_record_index pa_end_record_index (pa_end_record_index r) rs j"
    "\<forall>r \<in> set rs. pa_file_identity r = f" by auto
  with r reread_length [OF d] Cons.prems(2) show ?case
    by (intro exI [of _ "d # parts"]) (auto simp: parts_of_def)
qed

lemma source_ranges_parts:
  assumes "source_ranges_sha256 L ranges w = (Inr digest, w')"
    and "\<forall>r \<in> set ranges. pa_start_offset r \<le> pa_end_offset r"
  shows "\<exists>parts m j. digest = hl_hash L (concat parts) \<and> parts_of (hl_hash L) ranges parts
    \<and> chain pa_start_offset pa_end_offset (pa_start_offset (hd ranges)) ranges m
    \<and> chain pa_start_record_index pa_end_record_index (pa_start_record_index (hd ranges)) ranges j
    \<and> (\<forall>r \<in> set ranges. pa_file_identity r = pa_file_identity (hd ranges))"
proof -
  from assms(1) obtain data where
    d: "reread_ranges L (pa_file_identity (hd ranges)) (pa_start_offset (hd ranges))
      (pa_start_record_index (hd ranges)) ranges w = (Inr data, w')" "digest = hl_hash L data"
    by (auto simp: source_ranges_sha256_def elim!: bindIO_returns split: if_splits)
  from reread_ranges_parts [OF d(1) assms(2)] d(2) show ?thesis by blast
qed

section \<open>Dispositions own their bytes\<close>

interpretation dispositions: interval_store dp_start dp_end dp_valid
proof (unfold_locales, goal_cases)
  case (1 d)
  then show ?case
    by (cases d) (auto simp: make_proposed_source_cursor_def make_scope_exclusion_entry_def)
qed

section \<open>Drift of the pending ranges\<close>

lemma drift_stored:
  assumes "hc_cursor_version s = 2" "hc_pending_assembly_ranges s \<noteq> []" "streaming L"
    and "source_ranges_sha256 L (hc_pending_assembly_ranges s) w = (Inl (ReceiptBindingError m), w1)"
  shows "host_verified L t s w
    = report (host_commit L s (drift_update s (hc_observed_size s) ''host.pending-range-drift'')) None w1"
  using assms by (simp add: host_verified_def upgrade_streaming_cursor_def pending_range_drift_def report_drift_def)

lemma drift_updated:
  assumes "host_updated H s (drift_update s n code) = Inr s'"
  shows "hc_source_state s' = HC_IDENTITY_CHANGED" "hc_diagnostic_code s' = Some code"
    "hc_retry_attempts s' = retry_next s"
    "hc_acknowledged_offset s' = hc_acknowledged_offset s"
    "hc_checkpoint_sequence s' = hc_checkpoint_sequence s"
    "hc_pending_assembly_ranges s' = hc_pending_assembly_ranges s"
    "hc_extractor_state_base64 s' = hc_extractor_state_base64 s"
    "hc_pending_capture_recorded_at s' = hc_pending_capture_recorded_at s"
  unfolding host_updated_Inr(1) [OF assms]
  by (simp_all add: apply_update_def drift_update_def no_update_def put_bytes_def
      put_pending_assembly_def put_pending_records_def put_pending_ranges_def)

section \<open>Quarantine\<close>

definition quarantine_key :: "quarantine_entry \<Rightarrow> quarantine_entry" where
  "quarantine_key q = q\<lparr>qe_occurrences := 0\<rparr>"

definition occurrences :: "quarantine_entry list \<Rightarrow> nat" where
  "occurrences qs = sum_list (map qe_occurrences qs)"

lemma same_quarantine_key: "same_quarantine a b \<longleftrightarrow> quarantine_key a = quarantine_key b"
  by (cases a; cases b) (auto simp: same_quarantine_def quarantine_key_def)

lemma count_quarantine_None:
  "count_quarantine e qs = None \<longleftrightarrow> quarantine_key e \<notin> quarantine_key ` set qs"
  by (induction qs) (auto simp: same_quarantine_key)

lemma count_quarantine_Some:
  assumes "count_quarantine e qs = Some qs'"
  shows "map quarantine_key qs' = map quarantine_key qs" and "length qs' = length qs"
    and "occurrences qs' \<le> occurrences qs + 1"
    and "\<forall>q \<in> set qs. qe_occurrences q < 1000000 \<Longrightarrow> occurrences qs' = occurrences qs + 1"
    and "quarantine_key e \<in> quarantine_key ` set qs"
proof -
  have "map quarantine_key qs' = map quarantine_key qs \<and> length qs' = length qs
      \<and> occurrences qs' \<le> occurrences qs + 1
      \<and> ((\<forall>q \<in> set qs. qe_occurrences q < 1000000) \<longrightarrow> occurrences qs' = occurrences qs + 1)"
    using assms
  proof (induction qs arbitrary: qs')
    case (Cons q qs)
    show ?case
    proof (cases "same_quarantine q e")
      case True
      with Cons.prems show ?thesis by (auto simp: quarantine_key_def occurrences_def)
    next
      case False
      with Cons.prems obtain t where "count_quarantine e qs = Some t" "qs' = q # t" by auto
      with Cons.IH [of t] show ?thesis by (auto simp: occurrences_def)
    qed
  qed simp
  then show "map quarantine_key qs' = map quarantine_key qs" "length qs' = length qs"
    "occurrences qs' \<le> occurrences qs + 1"
    "\<forall>q \<in> set qs. qe_occurrences q < 1000000 \<Longrightarrow> occurrences qs' = occurrences qs + 1"
    by blast+
  show "quarantine_key e \<in> quarantine_key ` set qs"
    using assms count_quarantine_None [of e qs] by (auto simp: image_iff)
qed

lemma quarantined_counts:
  assumes run: "quarantined e qs n = Inr (qs', n')" and "qe_occurrences e = 1"
    and "distinct (map quarantine_key qs)" "length qs \<le> HOST_CAPTURE_MAX_QUARANTINE"
  shows "distinct (map quarantine_key qs') \<and> length qs' \<le> HOST_CAPTURE_MAX_QUARANTINE
    \<and> occurrences qs' + n' \<le> occurrences qs + n + 1
    \<and> ((\<forall>q \<in> set qs. qe_occurrences q < 1000000) \<and> n < 1000000
       \<longrightarrow> occurrences qs' + n' = occurrences qs + n + 1)
    \<and> (quarantine_key e \<in> quarantine_key ` set qs' \<or> length qs' = HOST_CAPTURE_MAX_QUARANTINE)"
proof (cases "count_quarantine e qs")
  case (Some t)
  with run have t: "qs' = t" "n' = n" by (auto simp: quarantined_def)
  from count_quarantine_Some(1) [OF Some] have "quarantine_key ` set t = quarantine_key ` set qs"
    by (metis list.set_map)
  with count_quarantine_Some [OF Some] assms(3,4) t show ?thesis by simp
next
  case None
  show ?thesis
  proof (cases "length qs < HOST_CAPTURE_MAX_QUARANTINE")
    case True
    with run None have "qs' = qs @ [e]" "n' = n"
      by (auto simp: quarantined_def make_quarantine_entry_def bindE_Inr_iff)
    with True assms(2,3) count_quarantine_None [of e qs] None show ?thesis
      by (auto simp: occurrences_def)
  next
    case False
    with run None have "qs' = qs" "n' = min (n + 1) 1000000" by (auto simp: quarantined_def)
    with False assms(3,4) show ?thesis by (auto simp: occurrences_def)
  qed
qed

section \<open>Health\<close>

lemma count_reason_facts:
  assumes "distinct (map fst cs)" "\<forall>c \<in> set cs. 1 \<le> snd c"
  shows "distinct (map fst (count_reason r cs))" and "\<forall>c \<in> set (count_reason r cs). 1 \<le> snd c"
    and "sum_list (map snd (count_reason r cs)) = sum_list (map snd cs) + 1"
    and "fst ` set (count_reason r cs) = insert r (fst ` set cs)"
proof -
  have keys: "fst ` set (count_reason r cs) = insert r (fst ` set cs)" for r cs
    by (induction r cs rule: count_reason.induct) auto
  then show "fst ` set (count_reason r cs) = insert r (fst ` set cs)" .
  show "distinct (map fst (count_reason r cs))"
    using assms(1)
  proof (induction r cs rule: count_reason.induct)
    case (2 r q n cs)
    then show ?case by (cases "q = r") (simp_all add: keys)
  qed simp
  show "\<forall>c \<in> set (count_reason r cs). 1 \<le> snd c"
    using assms(2) by (induction r cs rule: count_reason.induct) simp_all
  show "sum_list (map snd (count_reason r cs)) = sum_list (map snd cs) + 1"
    by (induction r cs rule: count_reason.induct) simp_all
qed

lemma reason_counts:
  assumes "distinct (map fst cs)" "\<forall>c \<in> set cs. 1 \<le> snd c"
  shows "distinct (map fst (foldl (\<lambda>cs e. count_reason (se_reason e) cs) cs es))"
    and "\<forall>c \<in> set (foldl (\<lambda>cs e. count_reason (se_reason e) cs) cs es). 1 \<le> snd c"
    and "sum_list (map snd (foldl (\<lambda>cs e. count_reason (se_reason e) cs) cs es))
      = sum_list (map snd cs) + length es"
proof -
  let ?f = "foldl (\<lambda>cs e. count_reason (se_reason e) cs)"
  have "distinct (map fst (?f cs es)) \<and> (\<forall>c \<in> set (?f cs es). 1 \<le> snd c)
    \<and> sum_list (map snd (?f cs es)) = sum_list (map snd cs) + length es"
    using assms
  proof (induction es arbitrary: cs)
    case (Cons e es)
    from Cons.IH [OF count_reason_facts(1,2) [OF Cons.prems]] count_reason_facts(3) [OF Cons.prems]
    show ?case by simp
  qed simp
  then show "distinct (map fst (?f cs es))" "\<forall>c \<in> set (?f cs es). 1 \<le> snd c"
    "sum_list (map snd (?f cs es)) = sum_list (map snd cs) + length es" by blast+
qed

lemma reasons_at_most_three: "distinct (rs :: scope_exclusion_reason list) \<Longrightarrow> length rs \<le> 3"
proof -
  assume "distinct rs"
  have "set rs \<subseteq> {OFF_DATE, MISSING_SOURCE_TIME, CROSS_MIDNIGHT}"
  proof
    fix r show "r \<in> {OFF_DATE, MISSING_SOURCE_TIME, CROSS_MIDNIGHT}" by (cases r) simp_all
  qed
  then have "card (set rs) \<le> card {OFF_DATE, MISSING_SOURCE_TIME, CROSS_MIDNIGHT}"
    by (intro card_mono) auto
  with \<open>distinct rs\<close> show ?thesis by (simp add: distinct_card)
qed

lemma capture_health_total:
  assumes "host_valid H s" "\<forall>k. capsule = Some k \<longrightarrow> is_ok (make_failure_capsule k)"
  shows "\<exists>h. capture_health_of s capsule = Inr h \<and> hv_acknowledged_offset h = hc_acknowledged_offset s
    \<and> hv_lag_bytes h + hc_acknowledged_offset s = hc_observed_size s
    \<and> sum_list (map snd (hv_scope_exclusion_reason_counts h)) = length (hc_scope_exclusions s)
    \<and> hv_failure_capsule h = capsule"
proof -
  let ?counts = "foldl (\<lambda>cs e. count_reason (se_reason e) cs) [] (hc_scope_exclusions s)"
  have c: "distinct (map fst ?counts)" "\<forall>c \<in> set ?counts. 1 \<le> snd c"
    "sum_list (map snd ?counts) = length (hc_scope_exclusions s)"
    using reason_counts [of "[]" "hc_scope_exclusions s"] by simp_all
  have "snd x \<le> sum_list (map snd ?counts)" if "x \<in> set ?counts" for x
    using that by (intro member_le_sum_list) auto
  moreover have "length (hc_scope_exclusions s) \<le> HOST_CAPTURE_MAX_SCOPE_EXCLUSIONS"
    using assms(1) by (simp add: host_valid_def make_host_cursor_def)
  ultimately have counts: "\<forall>x \<in> set ?counts. is_ok (make_reason_count x)"
    using c by (fastforce simp: make_reason_count_def)
  have three: "length ?counts \<le> 3"
    using reasons_at_most_three [OF c(1)] by simp
  from assms(1) obtain tail st where t: "\<forall>c \<in> set (host_cursor_tail_checks H s tail st). c = None"
    "b64decode (hc_partial_tail_base64 s) = Some tail" by (rule host_valid_tail)
  then have obs: "hc_acknowledged_offset s \<le> hc_observed_size s"
    by (simp add: host_cursor_tail_checks_def)
  have tail: "length (hc_partial_tail s) \<le> HOST_CAPTURE_MAX_STORED_PARTIAL_TAIL_BYTES"
    using assms(1) t(2)
    by (auto simp: host_valid_def make_host_cursor_def host_cursor_checks_def hc_partial_tail_def
        split: option.splits)
  have fields: "identifier_field 128 (hc_capability_id s)"
    "\<forall>f. hc_file_identity s = Some f \<longrightarrow> is_ok (make_file_identity f)"
    "hc_pending_assembly_bytes s \<le> HOST_CAPTURE_MAX_STREAMING_ASSEMBLY_BYTES"
    "hc_retry_attempts s \<le> HOST_CAPTURE_MAX_RETRY_ATTEMPTS"
    "length (hc_quarantine s) \<le> HOST_CAPTURE_MAX_QUARANTINE"
    "\<forall>a. hc_last_acknowledgement s = Some a \<longrightarrow> is_ok (make_cursor_acknowledgement a)"
    using assms(1) by (auto simp: host_valid_def make_host_cursor_def)
  have "is_ok (capture_health_of s capsule)"
    using fields tail counts three c assms(2)
      \<open>length (hc_scope_exclusions s) \<le> HOST_CAPTURE_MAX_SCOPE_EXCLUSIONS\<close>
    by (simp add: capture_health_of_def make_capture_health_def)
  then obtain h where h: "capture_health_of s capsule = Inr h" by (auto simp: is_ok_def)
  then show ?thesis
    using obs c(3) by (auto simp: capture_health_of_def make_capture_health_def)
qed

end
