(* ===== verification/HostClaims.thy ===== *)
theory HostClaims
  imports HostFacts Scenario
begin

text \<open>
  The properties of the host capture loop, each with its evaluation on a loop that assembles
  two lines of the demonstration source into a turn.
\<close>

section \<open>The demonstration loop\<close>

definition demo_receipt :: "string \<Rightarrow> connector_cursor \<Rightarrow> submission_receipt" where
  "demo_receipt k c =
     \<lparr>sr_delivery_id = 6, sr_event_id = Some 5, sr_idempotency_receipt_id = 8, sr_operation_id = k,
      sr_request_hash = demo_hash [], sr_checkpoint_sequence = Some (cc_next_sequence c),
      sr_ingress_status = CI_ACCEPTED, sr_authority_principal_id = 9, sr_replayed = False\<rparr>"

definition demo_host :: "(host_cursor option, unit, datetime) host_loop" where
  "demo_host =
     \<lparr>hl_hash = demo_hash, hl_read = (\<lambda>q w. (Inr (demo_host_read q), w)),
      hl_uuid4 = (\<lambda>w. (Inr 5, w)), hl_extract = None, hl_build = None,
      hl_advance = Some (\<lambda>r st. Inr (if st = [] then ([1], None) else ([], Some ()))),
      hl_begin_after_scope_start = None,
      hl_assembled_build = Some (\<lambda>x rs f t. Inr t), hl_span_build = Some (\<lambda>x span t. Inr t),
      hl_submit = (\<lambda>e k c t w. (Inr (demo_receipt k c), w)),
      hl_load = (\<lambda>_ w. (Inr w, w)), hl_commit = (\<lambda>_ s w. (Inr (), Some s)),
      hl_envelope_hash = (\<lambda>_. demo_hash []), hl_event_id = (\<lambda>_. 5),
      hl_capability_id = ''capability'', hl_capability_credential = replicate 64 CHR ''c'',
      hl_checkpoint_key = ''checkpoint'', hl_read_size = 4096,
      hl_framer = \<lparr>nf_max_record_bytes = 1024, nf_max_partial_tail_bytes = 1024, nf_max_batch_records = 64\<rparr>,
      hl_exclusion = None, hl_seek = None, hl_max_streaming = Some 4096\<rparr>"

lemma demo_host_contract: "host_store_contract demo_host (\<lambda>w. w)"
  by (simp add: host_store_contract_def demo_host_def)

lemma demo_store_valid: "valid_store (hl_hash demo_host) None"
  by (simp add: valid_store_def)

definition demo_host_runs :: "datetime host_event list \<times> host_cursor option" where
  "demo_host_runs = host_runs demo_host [Aware 0, Aware 1] None"


lemma demo_host_summary:
  "(case demo_host_runs of (evs, v) \<Rightarrow>
      captured_to v = 4 \<and> captured_records v = 2 \<and> captured_checkpoint v = 1 \<and> length evs = 4)"
  by code_simp

lemma demo_host_facts:
  "host_runs demo_host [Aware 0, Aware 1] None = (fst demo_host_runs, snd demo_host_runs)"
  "captured_to (snd demo_host_runs) = 4" "captured_checkpoint (snd demo_host_runs) = 1"
  using demo_host_summary by (simp_all add: demo_host_runs_def case_prod_beta)

section \<open>Runs of the loop\<close>

text \<open>
  C3: whatever number of runs is made over an empty cursor store, at whatever times, and
  whichever of them raise, every byte below the stored position is owned by exactly one
  disposition, in order: an acknowledged proposal that belongs to a submission of the history
  whose receipt is bound to it, or an exclusion recorded in the stored cursor; and the
  checkpoint counts the acknowledged proposals.
\<close>

theorem host_captures_once:
  assumes "host_store_contract L view" "view w = None" "host_runs L ts w = (evs, w')"
    and "n < captured_to (view w')"
  shows "\<exists>ds. (\<exists>!i. i < length ds \<and> dp_start (ds ! i) \<le> n \<and> n < dp_end (ds ! i))
    \<and> chain dp_start dp_end 0 ds (captured_to (view w'))
    \<and> chain dp_start_record dp_end_record 0 ds (captured_records (view w'))
    \<and> exclusions_of ds = excluded_scopes (view w')
    \<and> captured_checkpoint (view w') = length (proposals_of ds)
    \<and> list_all (host_submitted L evs) (proposals_of ds)"
proof -
  have "valid_store (hl_hash L) (view w)" using assms(2) by (simp add: valid_store_def)
  from host_runs_account [OF assms(1) this assms(3)] assms(2) obtain ds where
    ds: "accounts L evs ds None (view w')" by auto
  then have c: "list_all dp_valid ds" "chain dp_start dp_end 0 ds (captured_to (view w'))"
    by (simp_all add: accounts_def captured_to_def)
  from dispositions.chain_unique_owner [OF c _ assms(4)] c(2) ds show ?thesis
    by (intro exI [of _ ds])
      (simp add: accounts_def captured_records_def excluded_scopes_def captured_checkpoint_def)
qed

theorem host_captures_once_witness:
  "\<exists>ds. (\<exists>!i. i < length ds \<and> dp_start (ds ! i) \<le> 3 \<and> 3 < dp_end (ds ! i)) \<and> length (proposals_of ds) = 1"
  using host_captures_once [OF demo_host_contract refl demo_host_facts(1), of 3] demo_host_facts by auto

text \<open>
  C4: no envelope is submitted unpinned: before every submission of a run the store holds a
  cursor with a capture time, and the envelope is the one the builder makes with that time, so
  that a run repeated after a failure builds it again.
\<close>

theorem host_submissions_pinned:
  assumes "host_store_contract L view" "valid_store (hl_hash L) (view w)"
    and "host_run_once (host_traced L) t (w, []) = (r, (w', evs))"
    and "evs = pre @ HSubmitted e k c u receipt # post"
  shows "\<exists>s. last_host_stored pre (view w) = Some s \<and> host_pinned L s e"
  using host_run_once_accounts [OF assms(1-3)] assms(4)
  by (auto simp: run_accounts_def pinned_submissions_def)

definition demo_host_run :: "(capture_health result \<times> host_cursor option \<times> datetime host_event list)" where
  "demo_host_run = host_run_once (host_traced demo_host) (Aware 0) (None, [])"

fun first_submission :: "'e host_event list \<Rightarrow> (nat \<times> 'e) option" where
  "first_submission [] = None"
| "first_submission (HSubmitted e k c u r # evs) = Some (0, e)"
| "first_submission (HStored n s # evs) = map_option (map_prod Suc id) (first_submission evs)"

lemma first_submission_split:
  "first_submission evs = Some (n, e) \<Longrightarrow> \<exists>k c u r post. evs = take n evs @ HSubmitted e k c u r # post"
  by (induction evs arbitrary: n rule: first_submission.induct) (auto simp: map_prod_def split: prod.splits)

theorem host_submissions_pinned_witness:
  "\<exists>s. last_host_stored (take 1 (snd (snd demo_host_run))) None = Some s \<and> host_pinned demo_host s (Aware 0)"
proof -
  have "first_submission (snd (snd demo_host_run)) = Some (1, Aware 0)" by code_simp
  from first_submission_split [OF this] obtain k c u receipt post where
    evs: "snd (snd demo_host_run) = take 1 (snd (snd demo_host_run)) @ HSubmitted (Aware 0) k c u receipt # post"
    by blast
  have "host_run_once (host_traced demo_host) (Aware 0) (None, [])
      = (fst demo_host_run, (fst (snd demo_host_run), snd (snd demo_host_run)))"
    by (simp add: demo_host_run_def)
  from host_submissions_pinned [OF demo_host_contract demo_store_valid this evs] show ?thesis .
qed

text \<open>
  C39: a pending range that no longer reads as it was recorded stops the run: when the re-read of
  the pending ranges of a version 2 cursor reports drift, the run submits nothing, and a run that
  returns stores one cursor, which reports the changed identity and keeps the position, the
  checkpoint, the pending ranges, the assembly state and the pinned capture time.
\<close>

theorem host_drift_stops:
  assumes "streaming L" "hl_load L (hl_capability_id L) w = (Inr (Some s), w0)"
    and "hc_cursor_version s = 2" "hc_pending_assembly_ranges s \<noteq> []" "t = Aware i"
    and "source_ranges_sha256 L (hc_pending_assembly_ranges s) w0 = (Inl (ReceiptBindingError m), w1)"
    and "host_run_once L t w = (r, w')"
  shows "case host_updated (hl_hash L) s (drift_update s (hc_observed_size s) ''host.pending-range-drift'') of
      Inl e \<Rightarrow> r = Inl e \<and> w' = w1
    | Inr s' \<Rightarrow>
        w' = snd (hl_commit L (hc_revision s) s' w1)
        \<and> r = bindE (fst (hl_commit L (hc_revision s) s' w1)) (\<lambda>_. capture_health_of s' None)
        \<and> hc_source_state s' = HC_IDENTITY_CHANGED
        \<and> hc_acknowledged_offset s' = hc_acknowledged_offset s
        \<and> hc_checkpoint_sequence s' = hc_checkpoint_sequence s
        \<and> hc_pending_assembly_ranges s' = hc_pending_assembly_ranges s
        \<and> hc_extractor_state_base64 s' = hc_extractor_state_base64 s
        \<and> hc_pending_capture_recorded_at s' = hc_pending_capture_recorded_at s"
proof -
  let ?u = "drift_update s (hc_observed_size s) ''host.pending-range-drift''"
  from assms(2,5,7) have "host_verified L t s w0 = (r, w')"
    by (simp add: host_run_once_def load_host_state_def bindIO_def checkIO_def)
  with drift_stored [OF assms(3,4,1,6)] have run: "report (host_commit L s ?u) None w1 = (r, w')" by simp
  show ?thesis
  proof (cases "host_updated (hl_hash L) s ?u")
    case (Inl e)
    with run show ?thesis by (simp add: report_def host_commit_def bindIO_def)
  next
    case (Inr s')
    with run drift_updated [OF Inr] show ?thesis
      by (cases "hl_commit L (hc_revision s) s' w1"; cases "fst (hl_commit L (hc_revision s) s' w1)")
        (auto simp: report_def host_commit_def bindIO_def)
  qed
qed

text \<open>A cursor with a pending range, and the loop when the file behind it was replaced.\<close>

definition demo_host_cursor :: host_cursor where
  "demo_host_cursor =
     (initial_host_cursor demo_hash ''capability'')
       \<lparr>hc_cursor_version := 2, hc_revision := 3, hc_file_identity := Some demo_file,
        hc_acknowledged_offset := 4, hc_acknowledged_record_index := 2, hc_checkpoint_sequence := 1,
        hc_pending_assembly_bytes := 2,
        hc_pending_assembly_ranges :=
          [\<lparr>pa_file_identity = demo_file, pa_start_offset = 4, pa_end_offset = 6,
            pa_start_record_index = 2, pa_end_record_index = 3, pa_byte_count = 2,
            pa_source_bytes_sha256 = demo_hash []\<rparr>],
        hc_extractor_state_base64 := ''AQ=='', hc_source_state := HC_WAITING_FOR_COMPLETE_RECORD,
        hc_observed_size := 7\<rparr>"

definition demo_host_drift :: "(host_cursor option, unit, datetime) host_loop" where
  "demo_host_drift =
     demo_host\<lparr>hl_read := (\<lambda>q w. (Inr ((demo_host_read q)\<lparr>rs_file_identity := None\<rparr>), w))\<rparr>"

theorem host_drift_stops_witness:
  "\<exists>s'. snd (host_run_once demo_host_drift (Aware 2) (Some demo_host_cursor)) = Some s'
    \<and> hc_source_state s' = HC_IDENTITY_CHANGED \<and> hc_acknowledged_offset s' = 4"
proof -
  have facts: "streaming demo_host_drift \<and> hc_cursor_version demo_host_cursor = 2
      \<and> hc_pending_assembly_ranges demo_host_cursor \<noteq> [] \<and> hc_acknowledged_offset demo_host_cursor = 4"
    by code_simp
  have load: "hl_load demo_host_drift (hl_capability_id demo_host_drift) (Some demo_host_cursor)
      = (Inr (Some demo_host_cursor), Some demo_host_cursor)"
    by (simp add: demo_host_drift_def demo_host_def)
  have reread: "source_ranges_sha256 demo_host_drift (hc_pending_assembly_ranges demo_host_cursor)
      (Some demo_host_cursor)
      = (Inl (ReceiptBindingError ''source range file identity mismatch''), Some demo_host_cursor)"
    by code_simp
  have ok: "is_ok (host_updated demo_hash demo_host_cursor
      (drift_update demo_host_cursor (hc_observed_size demo_host_cursor) ''host.pending-range-drift''))"
    by code_simp
  then obtain s' where s': "host_updated (hl_hash demo_host_drift) demo_host_cursor
      (drift_update demo_host_cursor (hc_observed_size demo_host_cursor) ''host.pending-range-drift'') = Inr s'"
    by (auto simp: is_ok_def demo_host_drift_def demo_host_def)
  obtain r w' where run: "host_run_once demo_host_drift (Aware 2) (Some demo_host_cursor) = (r, w')"
    by (metis surj_pair)
  have commit: "snd (hl_commit demo_host_drift n s w) = Some s" for n s w
    by (simp add: demo_host_drift_def demo_host_def)
  have v: "hc_cursor_version demo_host_cursor = 2" "hc_pending_assembly_ranges demo_host_cursor \<noteq> []"
    "hc_acknowledged_offset demo_host_cursor = 4" using facts by blast+
  note stop = host_drift_stops [OF conjunct1 [OF facts] load v(1,2) refl reread run, unfolded s' sum.case commit]
  from stop v(3) run show ?thesis by (intro exI [of _ s']) simp
qed

section \<open>Verified ranges\<close>

text \<open>
  a digest computed over ranges is the digest of the file: if the re-read of non-empty valid
  ranges returns, the bytes it hashed are one part per range, each of the size of its range and
  with the digest recorded in it, the ranges follow each other without a gap in bytes and in
  records, and all lie in one file.
\<close>

theorem verified_ranges_contiguous:
  assumes "source_ranges_sha256 L ranges w = (Inr digest, w')"
    and "list_all (\<lambda>r. is_ok (make_pending_assembly_range r)) ranges"
  shows "\<exists>parts m j. digest = hl_hash L (concat parts) \<and> parts_of (hl_hash L) ranges parts
    \<and> chain pa_start_offset pa_end_offset (pa_start_offset (hd ranges)) ranges m
    \<and> chain pa_start_record_index pa_end_record_index (pa_start_record_index (hd ranges)) ranges j
    \<and> (\<forall>r \<in> set ranges. pa_file_identity r = pa_file_identity (hd ranges))"
proof -
  have "\<forall>r \<in> set ranges. pa_start_offset r \<le> pa_end_offset r"
    using assms(2) assembly_ranges.good_nonempty by (fastforce simp: list_all_iff)
  from source_ranges_parts [OF assms(1) this] show ?thesis .
qed

definition demo_ranges :: "pending_assembly_range list" where
  "demo_ranges =
     [\<lparr>pa_file_identity = demo_file, pa_start_offset = 0, pa_end_offset = 4, pa_start_record_index = 0,
       pa_end_record_index = 2, pa_byte_count = 4, pa_source_bytes_sha256 = demo_hash []\<rparr>,
      \<lparr>pa_file_identity = demo_file, pa_start_offset = 4, pa_end_offset = 6, pa_start_record_index = 2,
       pa_end_record_index = 3, pa_byte_count = 2, pa_source_bytes_sha256 = demo_hash []\<rparr>]"

theorem verified_ranges_contiguous_witness:
  "\<exists>parts. map length parts = [4, 2] \<and> demo_hash (concat parts) = demo_hash []"
proof -
  have "source_ranges_sha256 demo_host demo_ranges None = (Inr (demo_hash []), None)
      \<and> list_all (\<lambda>r. is_ok (make_pending_assembly_range r)) demo_ranges" by code_simp
  then have run: "source_ranges_sha256 demo_host demo_ranges None = (Inr (demo_hash []), None)"
    and ok: "list_all (\<lambda>r. is_ok (make_pending_assembly_range r)) demo_ranges" by simp_all
  from verified_ranges_contiguous [OF run ok] obtain parts where
    "demo_hash [] = demo_hash (concat parts)" "parts_of demo_hash demo_ranges parts"
    by (auto simp: demo_host_def)
  then show ?thesis by (intro exI [of _ parts]) (simp add: parts_of_def demo_ranges_def)
qed

section \<open>Quarantine and health\<close>

text \<open>
  the quarantine counts every occurrence and stays bounded: adding an entry keeps the entries
  distinct and at most the limit, raises the occurrences together with the overflow counter by
  one unless a counter is saturated, never by more, and the entry is then listed or the list is full.
\<close>

theorem quarantine_counts:
  assumes "quarantined e qs n = Inr (qs', n')" and "qe_occurrences e = 1"
    and "distinct (map quarantine_key qs)" "length qs \<le> HOST_CAPTURE_MAX_QUARANTINE"
  shows "distinct (map quarantine_key qs') \<and> length qs' \<le> HOST_CAPTURE_MAX_QUARANTINE
    \<and> occurrences qs' + n' \<le> occurrences qs + n + 1
    \<and> ((\<forall>q \<in> set qs. qe_occurrences q < 1000000) \<and> n < 1000000
       \<longrightarrow> occurrences qs' + n' = occurrences qs + n + 1)
    \<and> (quarantine_key e \<in> quarantine_key ` set qs' \<or> length qs' = HOST_CAPTURE_MAX_QUARANTINE)"
  using quarantined_counts [OF assms] .

definition demo_quarantine :: quarantine_entry where
  "demo_quarantine =
     \<lparr>qe_file_identity = demo_file, qe_start_offset = 0, qe_end_offset = 4,
      qe_source_bytes_sha256 = demo_hash [], qe_diagnostic_code = ''framing.record-size-limit'',
      qe_occurrences = 1\<rparr>"

theorem quarantine_counts_witness:
  "\<exists>qs'. quarantined demo_quarantine [demo_quarantine\<lparr>qe_occurrences := 4\<rparr>] 0 = Inr (qs', 0) \<and> occurrences qs' = 5"
proof -
  have run: "quarantined demo_quarantine [demo_quarantine\<lparr>qe_occurrences := 4\<rparr>] 0
      = Inr ([demo_quarantine\<lparr>qe_occurrences := 5\<rparr>], 0)" by code_simp
  have "qe_occurrences demo_quarantine = 1" by (simp add: demo_quarantine_def)
  from quarantine_counts [OF run this] run show ?thesis
    by (simp add: occurrences_def HOST_CAPTURE_MAX_QUARANTINE_def)
qed

text \<open>
  C40: the health of a valid cursor can always be reported: no bound of the report is stricter than
  those of the cursor, the lag and the acknowledged bytes add up to the observed size, and the
  counts by reason add up to the recorded exclusions.
\<close>

theorem host_health_total:
  assumes "host_valid H s" "capsule = None \<or> (\<exists>k. capsule = Some k \<and> is_ok (make_failure_capsule k))"
  shows "\<exists>h. capture_health_of s capsule = Inr h \<and> hv_acknowledged_offset h = hc_acknowledged_offset s
    \<and> hv_lag_bytes h + hc_acknowledged_offset s = hc_observed_size s
    \<and> sum_list (map snd (hv_scope_exclusion_reason_counts h)) = length (hc_scope_exclusions s)
    \<and> hv_failure_capsule h = capsule"
  using capture_health_total [OF assms(1), of capsule] assms(2) by auto

theorem host_health_total_witness:
  "\<exists>h. capture_health_of demo_host_cursor None = Inr h
    \<and> hv_lag_bytes h + hc_acknowledged_offset demo_host_cursor = hc_observed_size demo_host_cursor"
proof -
  have "is_ok (make_host_cursor demo_hash demo_host_cursor)" by code_simp
  then have "host_valid demo_hash demo_host_cursor"
    by (auto simp: is_ok_def host_valid_def dest: make_host_cursor_id)
  from host_health_total [OF this, of None] show ?thesis by auto
qed

section \<open>A legacy cursor outside streaming mode\<close>

text \<open>A version 1 cursor with one pending record, loaded by a loop that does not stream.\<close>

definition demo_window_host :: "(host_cursor option, unit, datetime) host_loop" where
  "demo_window_host = demo_host\<lparr>hl_max_streaming := None, hl_span_build := None\<rparr>"

definition demo_legacy_cursor :: host_cursor where
  "demo_legacy_cursor =
     (initial_host_cursor demo_hash ''capability'')
       \<lparr>hc_cursor_version := 1, hc_file_identity := Some demo_file,
        hc_pending_assembly_bytes := 2,
        hc_pending_assembly_records :=
          [\<lparr>pr_start_offset = 0, pr_end_offset = 2, pr_record_index = 0,
            pr_source_bytes_sha256 = demo_hash []\<rparr>],
        hc_pending_assembly_sha256 := demo_hash [], hc_extractor_state_base64 := ''AQ=='',
        hc_observed_size := 7\<rparr>"

text \<open>Every update writes version 2, whose validator refuses the records an update keeps.\<close>

lemma legacy_commit_fails:
  assumes "hc_pending_assembly_records s \<noteq> []" "up_pending_assembly u = None"
    "up_pending_assembly_records u = None" "up_pending_assembly_ranges u = None"
  shows "\<exists>e. host_commit L s u w = (Inl e, w)"
proof -
  have "hc_cursor_version (apply_update (hl_hash L) s u) = 2"
    "hc_pending_assembly_records (apply_update (hl_hash L) s u) \<noteq> []"
    using assms
    by (auto simp: apply_update_def put_bytes_def put_pending_ranges_def put_pending_records_def
        put_pending_assembly_def Let_def split: option.splits)
  then have "\<not> is_ok (host_updated (hl_hash L) s u)"
    by (auto simp: host_updated_def make_host_cursor_def host_cursor_checks_def
        host_cursor_tail_checks_def split: option.splits)
  then show ?thesis
    by (cases "host_updated (hl_hash L) s u") (simp_all add: host_commit_def bindIO_def liftIO_def)
qed

text \<open>
  A cursor that still holds the pending records of version 1 cannot be stored again with them:
  the update writes version 2, which may not hold such records. Whatever the loop and its host, a
  run over such a cursor raises, with the store as it was, when it records a failed read, a drift of
  the source, a record to quarantine, or the capture time of a finished turn.
\<close>

theorem legacy_records_stall:
  assumes "hc_pending_assembly_records s \<noteq> []" "hc_pending_capture_recorded_at s = None"
  shows "(\<exists>e. commit_host_failure L s response w = (Inl e, w))
    \<and> (\<exists>e. report_drift L s observed code w = (Inl e, w))
    \<and> (\<exists>e. quarantine L s f start stop digest code observed w = (Inl e, w))
    \<and> (\<exists>e. pin_recorded_at L s f t observed w = (Inl e, w))"
proof (intro conjI)
  show "\<exists>e. commit_host_failure L s response w = (Inl e, w)"
    unfolding commit_host_failure_def by (rule legacy_commit_fails [OF assms(1)]) (simp_all add: no_update_def)
  show "\<exists>e. pin_recorded_at L s f t observed w = (Inl e, w)"
    unfolding pin_recorded_at_def if_P [OF assms(2)] by (rule legacy_commit_fails [OF assms(1)]) (simp_all add: no_update_def)
  have "\<exists>e. host_commit L s (drift_update s observed code) w = (Inl e, w)"
    by (rule legacy_commit_fails [OF assms(1)]) (simp_all add: drift_update_def no_update_def)
  then show "\<exists>e. report_drift L s observed code w = (Inl e, w)"
    by (auto simp: report_drift_def report_def bindIO_def)
  let ?q = "quarantined \<lparr>qe_file_identity = f, qe_start_offset = start, qe_end_offset = stop,
    qe_source_bytes_sha256 = digest, qe_diagnostic_code = code, qe_occurrences = 1\<rparr>
    (hc_quarantine s) (hc_quarantine_overflow_count s)"
  show "\<exists>e. quarantine L s f start stop digest code observed w = (Inl e, w)"
  proof (cases ?q)
    case (Inr q)
    have "\<exists>e. host_commit L s (no_update
          \<lparr>up_file_identity := Some f, up_source_state := Some HC_QUARANTINED,
           up_observed_size := Some (max observed (hc_acknowledged_offset s)),
           up_diagnostic_code := Some code, up_quarantine := Some (fst q),
           up_quarantine_overflow_count := Some (snd q)\<rparr>) w = (Inl e, w)"
      by (rule legacy_commit_fails [OF assms(1)]) (simp_all add: no_update_def)
    then show ?thesis unfolding quarantine_def Inr by (cases q) (simp add: bindIO_def liftIO_def)
  qed (simp add: quarantine_def bindIO_def liftIO_def)
qed

text \<open>The loop and the cursor are valid, the host has the next records, and the run raises.\<close>

theorem legacy_records_stall_witness:
  "make_host_cursor demo_hash demo_legacy_cursor = Inr demo_legacy_cursor
   \<and> (\<exists>e. pin_recorded_at demo_window_host demo_legacy_cursor demo_file (Aware 0) 7 (Some demo_legacy_cursor)
          = (Inl e, Some demo_legacy_cursor))
   \<and> host_run_once demo_window_host (Aware 0) (Some demo_legacy_cursor)
     = (Inl (ValueError ''cursor v2 cannot contain legacy pending records''), Some demo_legacy_cursor)"
proof -
  have "hc_pending_assembly_records demo_legacy_cursor \<noteq> []" "hc_pending_capture_recorded_at demo_legacy_cursor = None"
    by (simp_all add: demo_legacy_cursor_def initial_host_cursor_def)
  note raises = legacy_records_stall [OF this]
  have valid: "is_ok (make_host_cursor demo_hash demo_legacy_cursor)" by code_simp
  have run: "host_run_once demo_window_host (Aware 0) (Some demo_legacy_cursor)
     = (Inl (ValueError ''cursor v2 cannot contain legacy pending records''), Some demo_legacy_cursor)"
    by code_simp
  from valid have "make_host_cursor demo_hash demo_legacy_cursor = Inr demo_legacy_cursor"
    by (auto simp: is_ok_def dest: make_host_cursor_id)
  with raises [of demo_window_host _ "Some demo_legacy_cursor"] run show ?thesis by blast
qed

end
