(* ===== verification/FoldMigration.thy ===== *)
theory FoldMigration
  imports FoldRuns
begin

text \<open>
  The migration of an adapter cursor (\<open>_migrate_legacy_cursor\<close>): a migration that returns has
  submitted policy dispositions that tile the acknowledged prefix of the older cursor, in
  checkpoint order, and stored the fold cursor that continues it.
\<close>

lemma quiet_migration_read [quiet_intros]: "quiet (migration_read (traced L) legacy n)"
  unfolding migration_read_def Let_def by (intro quiet_intros)

text \<open>The command of one migration step and its receipt.\<close>

definition migrates ::
  "'e fold_env \<Rightarrow> legacy_cursor_binding \<Rightarrow> nat \<Rightarrow> nat \<Rightarrow> nat \<Rightarrow> fold_command \<Rightarrow> fold_receipt \<Rightarrow> bool" where
  "migrates E b n r q c receipt \<longleftrightarrow>
     make_fold_command E c = Inr c \<and> \<not> fold_receipt_unbound c receipt
     \<and> cf_byte_start c = n \<and> cf_start_record_index c = r
     \<and> fc_expected_sequence (cf_checkpoint c) = q \<and> fc_next_sequence (cf_checkpoint c) = q + 1
     \<and> (\<exists>x. cf_outcomes c = [x] \<and> fo_outcome_kind x = POLICY_DISPOSITION)
     \<and> cf_legacy_cursor c = (if n = 0 then Some b else None)"

lemma migration_step_traced:
  assumes "migration_step (traced L) legacy b t n r q s = (Inr (receipt, read), s')"
  obtains c where "snd s' = snd s @ [Submitted c receipt]" "migrates (lp_env L) b n r q c receipt"
proof -
  from assms obtain ce s1 f where rd: "migration_read (traced L) legacy n s = (Inr (read, ce), s1)"
    and sub: "migration_submit (traced L) b t n ce r (r + count_newlines (dr_payload read)) q read f s1
      = (Inr (receipt, read), s')"
    by (rule migration_step_submits)
  from quietD [OF quiet_migration_read rd] have s1: "snd s1 = snd s" .
  from sub obtain x c receipt' where
    x: "policy_outcome (lp_env L) n ce r (r + count_newlines (dr_payload read)) read
          ''fold.legacy-cursor-receipt-migration'' None = Inr x"
    and c: "build_transcript_fold_command (lp_env L) (lp_config L)
       (map_option ad_profile_version (lp_adapter L)) (dr_observed_source_format_version read)
       f [x] (dr_payload read) q (if n = 0 then Some b else None) = Inr c"
    and run: "submit_command (traced L) c t s1 = (Inr receipt', s')" "(receipt, read) = (receipt', read)"
    by (rule migration_submit_trace) (simp only: traced_fields)
  from run(2) have r: "receipt' = receipt" by simp
  note b = submit_command_binds [OF run(1), unfolded r]
  from traced_submit [OF b(1)] s1 have "snd s' = snd s @ [Submitted c receipt]" by simp
  moreover have "migrates (lp_env L) b n r q c receipt"
    using built_fold_command(1,2) [OF c] b(2) policy_outcome_shape [OF x] by (simp add: migrates_def)
  ultimately show thesis by (rule that)
qed

lemma migrates_bytes:
  assumes "migrates E b n r q c receipt"
  shows "ft_byte_end_exclusive receipt = cf_byte_end_exclusive c"
    and "ft_end_record_index receipt = cf_end_record_index c"
    and "ft_checkpoint_sequence receipt = q + 1" and "cf_byte_start c = n"
    and "cf_start_record_index c = r" and "n < cf_byte_end_exclusive c"
  using assms fold_command_binds(5) [of E c c] by (auto simp: migrates_def fold_receipt_unbound_def)

text \<open>A submitted sequence of migration commands, from offset, record and checkpoint on.\<close>

fun migration_chain ::
  "'e fold_env \<Rightarrow> legacy_cursor_binding \<Rightarrow> nat \<Rightarrow> nat \<Rightarrow> nat \<Rightarrow> (fold_command \<times> fold_receipt) list \<Rightarrow> bool" where
  "migration_chain E b n r q [] = True"
| "migration_chain E b n r q ((c, receipt) # xs) \<longleftrightarrow>
     migrates E b n r q c receipt
     \<and> migration_chain E b (cf_byte_end_exclusive c) (cf_end_record_index c) (q + 1) xs"

definition submitted_events :: "(fold_command \<times> fold_receipt) list \<Rightarrow> fold_event list" where
  "submitted_events xs = map (\<lambda>(c, r). Submitted c r) xs"

lemma migrate_chunks_traced:
  assumes "migrate_chunks (traced L) legacy b t n r q latest s = (Inr (n', r', latest'), s')"
  shows "\<exists>xs. snd s' = snd s @ submitted_events xs \<and> migration_chain (lp_env L) b n r q xs
    \<and> chain cf_byte_start cf_byte_end_exclusive n (map fst xs) n'
    \<and> chain cf_start_record_index cf_end_record_index r (map fst xs) r'
    \<and> map_option fst latest' = (if xs = [] then map_option fst latest else Some (snd (last xs)))"
  using assms
proof (induction "traced L" legacy b t n r q latest s arbitrary: s' rule: migrate_chunks.induct)
  case (1 legacy b t n r q latest s)
  show ?case
  proof (cases "n < hc_acknowledged_offset legacy")
    case False
    with "1.prems" have "n' = n \<and> r' = r \<and> latest' = latest \<and> s' = s"
      by (simp add: migrate_chunks.simps [of "traced L"])
    then show ?thesis by (intro exI [of _ "[]"]) (simp add: submitted_events_def)
  next
    case True
    with "1.prems" obtain receipt read s1 where
      step: "migration_step (traced L) legacy b t n r q s = (Inr (receipt, read), s1)"
      and rest: "migrate_chunks (traced L) legacy b t (ft_byte_end_exclusive receipt)
        (ft_end_record_index receipt) (ft_checkpoint_sequence receipt) (Some (receipt, read)) s1
        = (Inr (n', r', latest'), s')"
      by (subst (asm) migrate_chunks.simps) (auto split: prod.splits sum.splits)
    obtain c where c: "snd s1 = snd s @ [Submitted c receipt]" "migrates (lp_env L) b n r q c receipt"
      using step by (rule migration_step_traced)
    note m = migrates_bytes [OF c(2)]
    from "1.hyps" [OF True step [symmetric] refl refl rest] obtain xs where
      "snd s' = snd s1 @ submitted_events xs"
      "migration_chain (lp_env L) b (cf_byte_end_exclusive c) (cf_end_record_index c) (q + 1) xs"
      "chain cf_byte_start cf_byte_end_exclusive (cf_byte_end_exclusive c) (map fst xs) n'"
      "chain cf_start_record_index cf_end_record_index (cf_end_record_index c) (map fst xs) r'"
      "map_option fst latest' = (if xs = [] then Some receipt else Some (snd (last xs)))"
      by (auto simp: m)
    with c m show ?thesis
      by (intro exI [of _ "(c, receipt) # xs"]) (auto simp: submitted_events_def)
  qed
qed


lemma migration_chain_last:
  "migration_chain E b n r q xs \<Longrightarrow> xs \<noteq> [] \<Longrightarrow>
     ft_checkpoint_sequence (snd (last xs)) = q + length xs
     \<and> ft_byte_end_exclusive (snd (last xs)) = cf_byte_end_exclusive (last (map fst xs))
     \<and> ft_end_record_index (snd (last xs)) = cf_end_record_index (last (map fst xs))"
proof (induction E b n r q xs rule: migration_chain.induct)
  case (2 E b n r q c receipt xs)
  from "2.prems" migrates_bytes [of E b n r q c receipt] "2.IH" show ?case by (cases xs) auto
qed simp

lemma migration_chain_valid:
  "migration_chain E b n r q xs \<Longrightarrow> c \<in> set (map fst xs) \<Longrightarrow>
     make_fold_command E c = Inr c
     \<and> (\<exists>x. cf_outcomes c = [x] \<and> fo_outcome_kind x = POLICY_DISPOSITION)"
  by (induction E b n r q xs rule: migration_chain.induct) (auto simp: migrates_def)

lemma migrated_state_Inr:
  assumes "migrated_state H legacy receipt read = Inr m"
  shows "cs_acknowledged_offset m = ft_byte_end_exclusive receipt
    \<and> cs_acknowledged_record_index m = ft_end_record_index receipt
    \<and> cs_checkpoint_sequence m = ft_checkpoint_sequence receipt
    \<and> cs_revision m = hc_revision legacy + 1 \<and> cs_capability_id m = hc_capability_id legacy
    \<and> make_fold_cursor H m = Inr m"
proof -
  from assms obtain ack where m: "make_fold_cursor H
       ((default_fold_cursor H (hc_capability_id legacy))
          \<lparr>cs_revision := hc_revision legacy + 1, cs_file_identity := dr_file_identity read,
           cs_acknowledged_offset := ft_byte_end_exclusive receipt,
           cs_acknowledged_record_index := ft_end_record_index receipt,
           cs_checkpoint_sequence := ft_checkpoint_sequence receipt,
           cs_extractor_state_base64 :=
             (if plain_legacy_assembly legacy then hc_extractor_state_base64 legacy else ''''),
           cs_extractor_state_sha256 :=
             (if plain_legacy_assembly legacy then hc_extractor_state_sha256 legacy else H []),
           cs_durable_end_offset := dr_durable_end_offset read,
           cs_last_acknowledgement := Some ack\<rparr>) = Inr m"
    by (auto simp: migrated_state_def bindE_Inr_iff)
  from make_fold_cursor_id [OF m] m show ?thesis by (simp add: default_fold_cursor_def)
qed

lemma traced_commit_run:
  "lp_commit (traced L) n x s = (Inr u, s') \<Longrightarrow> snd s' = snd s @ [Stored n x]"
  by (rule traced_commit)

definition migration_complete ::
  "'e fold_env \<Rightarrow> host_cursor \<Rightarrow> (fold_command \<times> fold_receipt) list \<Rightarrow> fold_cursor \<Rightarrow> bool" where
  "migration_complete E legacy xs m \<longleftrightarrow>
     chain cf_byte_start cf_byte_end_exclusive 0 (map fst xs) (hc_acknowledged_offset legacy)
     \<and> chain cf_start_record_index cf_end_record_index 0 (map fst xs) (hc_acknowledged_record_index legacy)
     \<and> (\<forall>c \<in> set (map fst xs). make_fold_command E c = Inr c
          \<and> (\<exists>x. cf_outcomes c = [x] \<and> fo_outcome_kind x = POLICY_DISPOSITION))
     \<and> cs_acknowledged_offset m = hc_acknowledged_offset legacy
     \<and> cs_acknowledged_record_index m = hc_acknowledged_record_index legacy
     \<and> cs_checkpoint_sequence m = hc_checkpoint_sequence legacy + length xs
     \<and> cs_revision m = hc_revision legacy + 1"

lemma migrate_legacy_traced:
  assumes run: "migrate_legacy_cursor (traced L) legacy t s = (Inr m, s')"
    and acked: "hc_acknowledged_offset legacy \<noteq> 0"
  shows "\<exists>xs. snd s' = snd s @ submitted_events xs @ [Stored (hc_revision legacy) m]
    \<and> migration_complete (lp_env L) legacy xs m"
proof -
  let ?o = "hc_acknowledged_offset legacy" and ?i = "hc_acknowledged_record_index legacy"
  from run acked obtain b n r latest s1 where
    chunks: "migrate_chunks (traced L) legacy b t 0 0 (hc_checkpoint_sequence legacy) None s
      = (Inr (n, r, latest), s1)"
    and rest: "(case latest of
         None \<Rightarrow> raiseIO (ValueError ''legacy adapter cursor migration coverage mismatch'')
       | Some (receipt, read) \<Rightarrow>
           bindIO (checkIO (n = ?o \<longrightarrow> r \<noteq> ?i)
                     (ValueError ''legacy adapter cursor migration coverage mismatch'')) (\<lambda>_.
           bindIO (liftIO (migrated_state (lp_hash L) legacy receipt read)) (\<lambda>migrated.
           bindIO (lp_commit (traced L) (hc_revision legacy) migrated) (\<lambda>_. returnIO migrated)))) s1
      = (Inr m, s')"
    unfolding migrate_legacy_cursor_def
    by (elim bind_checkE) (auto elim!: bindIO_returns bind_liftE split: prod.splits)
  obtain xs where xs: "snd s1 = snd s @ submitted_events xs"
    "migration_chain (lp_env L) b 0 0 (hc_checkpoint_sequence legacy) xs"
    "chain cf_byte_start cf_byte_end_exclusive 0 (map fst xs) n"
    "chain cf_start_record_index cf_end_record_index 0 (map fst xs) r"
    "map_option fst latest = (if xs = [] then None else Some (snd (last xs)))"
    using migrate_chunks_traced [OF chunks] by auto
  from rest obtain receipt read where lat: "latest = Some (receipt, read)"
    by (cases latest) auto
  with rest have "n = ?o" "r = ?i"
    and st: "migrated_state (lp_hash L) legacy receipt read = Inr m"
    and com: "lp_commit (traced L) (hc_revision legacy) m s1 = (Inr (), s')"
    by (auto elim!: bindIO_returns bind_liftE bind_checkE)
  from lat xs(5) have ne: "xs \<noteq> []" and last: "receipt = snd (last xs)" by (auto split: if_splits)
  note l = migration_chain_last [OF xs(2) ne]
  have "cf_byte_end_exclusive (last (map fst xs)) = n" "cf_end_record_index (last (map fst xs)) = r"
    using xs(3,4) ne by (auto dest!: chain_last)
  with l last \<open>n = ?o\<close> \<open>r = ?i\<close> migrated_state_Inr [OF st] xs(3,4) migration_chain_valid [OF xs(2)]
  have "migration_complete (lp_env L) legacy xs m"
    by (simp add: migration_complete_def)
  with traced_commit_run [OF com] xs(1) show ?thesis by (intro exI [of _ xs]) simp
qed

end
