(* ===== verification/FoldReads.thy ===== *)
theory FoldReads
  imports FoldLoop
begin

text \<open>
  Exact reads of the fold loop: cutting a durable read to \<open>[start, end)\<close> keeps the lineage
  contiguous and covering, so \<open>_read_exact\<close> returns exactly the requested bytes whenever the
  reader delivers a valid read that covers them.
\<close>

section \<open>The lineage of a cut read\<close>

lemma slice_lineage_outside:
  assumes "list_all lineage_ok rs" "chain fs_byte_start fs_byte_end_exclusive s rs e" "b \<le> s"
  shows "slice_lineage H p base a b rs = []"
  using assms
proof (induction rs arbitrary: s)
  case (Cons r rs)
  then have r: "fs_byte_start r = s" "s < fs_byte_end_exclusive r"
    and rest: "list_all lineage_ok rs" "chain fs_byte_start fs_byte_end_exclusive (fs_byte_end_exclusive r) rs e"
    using lineage_facts(1) [of r] by auto
  from Cons.IH [OF rest] r Cons.prems(3) show ?case by (simp add: Let_def)
qed simp

lemma sliced_ok:
  assumes "lineage_ok r" "sha256_documented H" "fs_byte_start r \<le> start" "start < stop"
    "stop \<le> fs_byte_end_exclusive r"
  shows "lineage_ok (r\<lparr>fs_byte_start := start, fs_byte_end_exclusive := stop, fs_source_bytes_sha256 := H x\<rparr>)"
  using assms by (auto simp: make_fold_source_range_def)

lemma sliced_ok_end:
  "lineage_ok r \<Longrightarrow> sha256_documented H \<Longrightarrow> fs_byte_start r \<le> start \<Longrightarrow>
   start < fs_byte_end_exclusive r \<Longrightarrow>
     lineage_ok (r\<lparr>fs_byte_start := start, fs_source_bytes_sha256 := H x\<rparr>)"
  using sliced_ok [of r H start "fs_byte_end_exclusive r" x] by simp

lemma slice_lineage_covers:
  assumes "sha256_documented H" "list_all lineage_ok rs"
    "chain fs_byte_start fs_byte_end_exclusive s rs e" "max s a < b" "b \<le> e"
  shows "chain fs_byte_start fs_byte_end_exclusive (max s a) (slice_lineage H p base a b rs) b
    \<and> list_all lineage_ok (slice_lineage H p base a b rs)
    \<and> length (slice_lineage H p base a b rs) \<le> length rs"
  using assms(2-)
proof (induction rs arbitrary: s)
  case (Cons r rs)
  let ?e = "fs_byte_end_exclusive r" and ?rest = "slice_lineage H p base a b rs"
  from Cons.prems have r: "fs_byte_start r = s" "s < ?e" "lineage_ok r"
    and rest: "list_all lineage_ok rs" "chain fs_byte_start fs_byte_end_exclusive ?e rs e"
    using lineage_facts(1) [of r] by auto
  show ?case
  proof (cases "?e \<le> a")
    case True
    with Cons.prems(3) r have "max ?e a < b" "max s a = max ?e a" by auto
    with Cons.IH [OF rest] Cons.prems(4) True r(1) show ?thesis by (simp add: max_def)
  next
    case a: False
    show ?thesis
    proof (cases "b \<le> ?e")
      case True
      from slice_lineage_outside [OF rest True] have "?rest = []" .
      with True r Cons.prems(3) sliced_ok [OF r(3) assms(1)] show ?thesis
        by (auto simp: Let_def max_def min_def)
    next
      case False
      then have "max ?e a < b" using Cons.prems(3) by auto
      from Cons.IH [OF rest this Cons.prems(4)] a have
        "chain fs_byte_start fs_byte_end_exclusive ?e ?rest b" "list_all lineage_ok ?rest"
        "length ?rest \<le> length rs" by (simp_all add: max_def)
      with False a r sliced_ok_end [OF r(3) assms(1)] show ?thesis
        by (auto simp: Let_def max_def min_def)
    qed
  qed
qed simp

section \<open>Exact reads\<close>

lemma truncated_read_exact:
  assumes H: "sha256_documented H" and v: "make_durable_read H r = Inr r" and d: "dr_status r = DATA"
    and se: "dr_byte_start r = a" "a < b" "b \<le> dr_byte_end_exclusive r"
  shows "\<exists>x. truncated_read H r a b = Inr x \<and> dr_status x = DATA \<and> dr_byte_start x = a
    \<and> dr_byte_end_exclusive x = b \<and> dr_payload x = take (b - a) (dr_payload r)"
proof -
  note binds = durable_read_binds [OF v]
  let ?p = "take (b - a) (dr_payload r)"
  let ?rs = "slice_lineage H (dr_payload r) a a b (dr_ranges r)"
  let ?x = "r\<lparr>dr_status := DATA, dr_byte_start := a, dr_byte_end_exclusive := b,
     dr_payload_hex := hex ?p, dr_payload_sha256 := H ?p, dr_ranges := ?rs\<rparr>"
  from binds(7) [OF d] se have "chain fs_byte_start fs_byte_end_exclusive a (dr_ranges r) (dr_byte_end_exclusive r)"
    by simp
  from slice_lineage_covers [OF H binds(6) this, of a b "dr_payload r" a] se
  have rs: "chain fs_byte_start fs_byte_end_exclusive a ?rs b" "list_all lineage_ok ?rs"
    "length ?rs \<le> length (dr_ranges r)" by simp_all
  have p: "length ?p = b - a" "dr_payload ?x = ?p" using binds(3) se by (simp_all add: dr_payload_def)
  from rs(1) se have ne: "?rs \<noteq> []" by auto
  have lists: "nested_list make_fold_source_range ?rs = None" using rs(2) by (simp add: list_all_iff)
  have b: "b \<le> dr_durable_end_offset r" "\<not> b < a" using binds(4) se by simp_all
  have pne: "?p \<noteq> []" using p se by auto
  have "truncated_read H r a b = make_durable_read H ?x"
    using se by (simp add: truncated_read_def Let_def)
  also have "make_durable_read H ?x = Inr ?x"
    using v d H rs p ne lists b pne
    by (auto simp: make_durable_read_def durable_read_checks_def ball_Un)
  finally show ?thesis using p by (intro exI [of _ ?x]) simp
qed

lemma read_exact_covers:
  assumes H: "sha256_documented (lp_hash L)"
    and q: "is_ok (make_durable_read_request (durable_request (lp_config L) a (b - a)))"
    and port: "lp_read L (durable_request (lp_config L) a (b - a)) w = (Inr r, w')"
    and v: "make_durable_read (lp_hash L) r = Inr r" and d: "dr_status r = DATA"
    and se: "dr_byte_start r = a" "a < b" "b \<le> dr_byte_end_exclusive r"
  shows "\<exists>x. read_exact L a b w = (Inr x, w') \<and> make_durable_read (lp_hash L) x = Inr x
    \<and> dr_byte_start x = a \<and> dr_byte_end_exclusive x = b
    \<and> dr_payload x = take (b - a) (dr_payload r)
    \<and> chain fs_byte_start fs_byte_end_exclusive a (dr_ranges x) b"
proof -
  from q have q': "make_durable_read_request (durable_request (lp_config L) a (b - a))
      = Inr (durable_request (lp_config L) a (b - a))"
    by (auto simp: is_ok_def make_durable_read_request_def)
  have fetched: "durable_read_from L a (b - a) w = (Inr r, w')"
    by (simp add: durable_read_from_def q' port bindIO_def)
  show ?thesis
  proof (cases "dr_byte_end_exclusive r = b")
    case True
    with durable_read_binds(3,7) [OF v] d se have
      "dr_payload r = take (b - a) (dr_payload r)"
      "chain fs_byte_start fs_byte_end_exclusive a (dr_ranges r) b" by auto
    with fetched True d se v show ?thesis
      by (intro exI [of _ r]) (simp add: read_exact_def checkIO_def bindIO_def returnIO_def)
  next
    case False
    from truncated_read_exact [OF H v d se] obtain x where x:
      "truncated_read (lp_hash L) r a b = Inr x" "dr_status x = DATA" "dr_byte_start x = a"
      "dr_byte_end_exclusive x = b" "dr_payload x = take (b - a) (dr_payload r)" by blast
    from x(1) have vx: "make_durable_read (lp_hash L) x = Inr x"
      by (auto simp: truncated_read_def Let_def make_durable_read_def)
    with durable_read_binds(7) [OF vx x(2)] x have
      "chain fs_byte_start fs_byte_end_exclusive a (dr_ranges x) b" by simp
    with fetched False d se x vx show ?thesis
      by (intro exI [of _ x]) (simp add: read_exact_def checkIO_def bindIO_def liftIO_def)
  qed
qed

end
