(* ===== verification/FoldClaims.thy ===== *)
theory FoldClaims
  imports Scenario FoldMigration FoldReads
begin

text \<open>The properties of the transcript fold loop, each with its evaluation on the scenario.\<close>

section \<open>The scenario evaluated\<close>

definition demo_runs :: "fold_event list list \<times> loaded_cursor option" where
  "demo_runs = fold_runs demo_loop [Aware 0] None"

text \<open>The command of the run and the cursor it leaves, with one complete record pending.\<close>

definition run_summary ::
  "fold_event list list \<times> loaded_cursor option \<Rightarrow> (nat \<times> nat) list \<times> nat \<times> nat \<times> nat" where
  "run_summary x =
     (map (\<lambda>c. (cf_byte_start c, cf_byte_end_exclusive c)) (committed (fst x)),
      folded_to (snd x), folded_records (snd x),
      case snd x of Some (Fold s) \<Rightarrow> length (cs_pending_ranges s) | _ \<Rightarrow> 0)"

lemma demo_runs_summary: "run_summary demo_runs = ([(0, 4)], 4, 2, 1)"
  by code_simp

lemma demo_runs_run: "fold_runs demo_loop [Aware 0] None = (fst demo_runs, snd demo_runs)"
  by (simp add: demo_runs_def)

lemma demo_runs_facts:
  "folded_to (snd demo_runs) = 4" "folded_records (snd demo_runs) = 2"
  "map (\<lambda>c. (cf_byte_start c, cf_byte_end_exclusive c)) (committed (fst demo_runs)) = [(0, 4)]"
  "(case snd demo_runs of Some (Fold s) \<Rightarrow> length (cs_pending_ranges s) | _ \<Rightarrow> 0) = 1"
  using demo_runs_summary by (simp_all add: run_summary_def)

section \<open>Runs of the loop\<close>

text \<open>
  C1: whatever number of runs is made, at whatever times, and whichever of them raise, every
  byte below the stored position is owned by exactly one of the commands whose run stored its
  cursor: the loop folds every byte once.
\<close>

theorem fold_exactly_once:
  assumes "fold_store_contract L view" "view w = None" "fold_runs L ts w = (runs, w')"
    and "n < folded_to (view w')"
  shows "\<exists>!i. i < length (committed runs)
    \<and> cf_byte_start (committed runs ! i) \<le> n \<and> n < cf_byte_end_exclusive (committed runs ! i)"
proof -
  have "not_legacy (view w)" "folded_to (view w) = 0" using assms(2) by (simp_all add: not_legacy_def folded_to_def)
  with fold_runs_tile [OF assms(1) _ assms(3)] have
    "chain cf_byte_start cf_byte_end_exclusive 0 (committed runs) (folded_to (view w'))"
    "list_all (command_ok (lp_env L)) (committed runs)" by simp_all
  then show ?thesis using assms(4) by (intro commands.chain_unique_owner) auto
qed

theorem fold_exactly_once_witness:
  "\<exists>!i. i < length (committed (fst demo_runs))
    \<and> cf_byte_start (committed (fst demo_runs) ! i) \<le> 3
    \<and> 3 < cf_byte_end_exclusive (committed (fst demo_runs) ! i)"
  using fold_exactly_once [OF demo_loop_contract refl demo_runs_run, of 3] by (simp add: demo_runs_facts)

text \<open>
  The records are tiled like the bytes: the commands whose runs stored their cursor carry
  consecutive record ranges that start at record zero and end at the stored record index.
\<close>

theorem fold_records_tile:
  assumes "fold_store_contract L view" "view w = None" "fold_runs L ts w = (runs, w')"
  shows "chain cf_start_record_index cf_end_record_index 0 (committed runs) (folded_records (view w'))"
proof -
  have "not_legacy (view w)" "folded_records (view w) = 0"
    using assms(2) by (simp_all add: not_legacy_def folded_records_def)
  with fold_runs_tile [OF assms(1) _ assms(3)] show ?thesis by simp
qed

theorem fold_records_tile_witness:
  "chain cf_start_record_index cf_end_record_index 0
     (committed (fst demo_runs))
     (folded_records (snd demo_runs))
   \<and> folded_records (snd demo_runs) = 2"
  using fold_records_tile [OF demo_loop_contract refl demo_runs_run] by (simp add: demo_runs_facts)

text \<open>
  C2: one run over a fold cursor submits at most one command and stores at most one cursor, the
  command first. The command is valid and starts at the acknowledged position; a stored cursor
  carries the next revision and either keeps the position (nothing was submitted) or moves it
  to the end of the command, one checkpoint later, with the receipt as its acknowledgement; the
  run reports a receipt only when it stored such a cursor.
\<close>

theorem fold_run_effect:
  assumes "fold_from_state (traced L) t s (w, []) = (r, (w', evs))"
  shows "fold_effect (lp_env L) s r evs"
  using emits_fold_from_state [of L t s] assms unfolding emits_def by fastforce

theorem fold_run_effect_witness:
  "fold_effect demo_env (default_fold_cursor demo_hash ''capability'')
     (fst (fold_from_state (traced demo_loop) (Aware 0) (default_fold_cursor demo_hash ''capability'') (None, [])))
     (snd (snd (fold_from_state (traced demo_loop) (Aware 0) (default_fold_cursor demo_hash ''capability'') (None, []))))
   \<and> length (snd (snd (fold_from_state (traced demo_loop) (Aware 0)
        (default_fold_cursor demo_hash ''capability'') (None, [])))) = 2"
proof
  let ?run = "fold_from_state (traced demo_loop) (Aware 0) (default_fold_cursor demo_hash ''capability'') (None, [])"
  have "?run = (fst ?run, (fst (snd ?run), snd (snd ?run)))" by simp
  from fold_run_effect [OF this]
  show "fold_effect demo_env (default_fold_cursor demo_hash ''capability'') (fst ?run) (snd (snd ?run))"
    by (simp add: demo_loop_def)
  show "length (snd (snd ?run)) = 2" by code_simp
qed

section \<open>Commands, cursors and reads\<close>

text \<open>
  C22: in a fold command that validates, every byte of its range belongs to exactly one outcome,
  and within that outcome to exactly one lineage range of a retained receipt.
\<close>

theorem fold_command_owners:
  assumes "make_fold_command E c = Inr c'"
    and "cf_byte_start c \<le> n" "n < cf_byte_end_exclusive c"
  shows "(\<exists>!i. i < length (cf_outcomes c) \<and> fo_byte_start (cf_outcomes c ! i) \<le> n
           \<and> n < fo_byte_end_exclusive (cf_outcomes c ! i))
    \<and> (\<forall>x \<in> set (cf_outcomes c). fo_byte_start x \<le> n \<and> n < fo_byte_end_exclusive x \<longrightarrow>
         (\<exists>!j. j < length (fo_lineage x) \<and> fs_byte_start (fo_lineage x ! j) \<le> n
            \<and> n < fs_byte_end_exclusive (fo_lineage x ! j)))"
proof (intro conjI ballI impI)
  note b = fold_command_binds [OF assms(1)]
  show "\<exists>!i. i < length (cf_outcomes c) \<and> fo_byte_start (cf_outcomes c ! i) \<le> n
      \<and> n < fo_byte_end_exclusive (cf_outcomes c ! i)"
    by (rule outcomes.chain_unique_owner [OF b(2,3) assms(2,3)])
  fix x assume "x \<in> set (cf_outcomes c)" and n: "fo_byte_start x \<le> n \<and> n < fo_byte_end_exclusive x"
  with b(2) have "outcome_ok E x" by (simp add: list_all_iff)
  from outcome_facts(4,5) [OF this] n
  show "\<exists>!j. j < length (fo_lineage x) \<and> fs_byte_start (fo_lineage x ! j) \<le> n
      \<and> n < fs_byte_end_exclusive (fo_lineage x ! j)"
    by (intro lineage.chain_unique_owner) auto
qed

definition demo_command :: fold_command where
  "demo_command = hd (committed (fst demo_runs))"

theorem fold_command_owners_witness:
  "(\<exists>!i. i < length (cf_outcomes demo_command) \<and> fo_byte_start (cf_outcomes demo_command ! i) \<le> 1
      \<and> 1 < fo_byte_end_exclusive (cf_outcomes demo_command ! i))"
proof -
  let ?cs = "committed (fst demo_runs)"
  have c: "?cs \<noteq> []" "cf_byte_start demo_command \<le> 1" "1 < cf_byte_end_exclusive demo_command"
    using demo_runs_facts(3) by (cases ?cs; simp add: demo_command_def)+
  have "not_legacy None" by (simp add: not_legacy_def)
  from fold_runs_tile [OF demo_loop_contract this demo_runs_run]
  have "list_all (command_ok (lp_env demo_loop)) ?cs" by (elim conjE)
  with c(1) obtain c' where "make_fold_command demo_env demo_command = Inr c'"
    by (cases ?cs) (auto simp: demo_command_def command_ok_def is_ok_def demo_loop_def)
  note fold_command_owners [OF this c(2,3)]
  then show ?thesis by (rule conjunct1)
qed

text \<open>
  a fold cursor that validates describes one contiguous stretch: its pending ranges tile the
  bytes and the records from the acknowledged position to the pending end, and its extractor
  state is the decoding of what it stores.
\<close>

theorem fold_cursor_contiguous:
  assumes "make_fold_cursor H s = Inr s'"
  shows "chain fp_byte_start fp_byte_end_exclusive (cs_acknowledged_offset s) (cs_pending_ranges s)
          (cs_pending_end_offset s)
    \<and> chain fp_start_record_index fp_end_record_index (cs_acknowledged_record_index s)
          (cs_pending_ranges s) (cs_pending_end_record_index s)
    \<and> (\<Sum>p \<leftarrow> cs_pending_ranges s. fp_byte_end_exclusive p - fp_byte_start p)
        = cs_pending_end_offset s - cs_acknowledged_offset s
    \<and> b64decode (cs_extractor_state_base64 s) = Some (cs_extractor_state s)"
proof -
  note b = fold_cursor_binds [OF assms]
  show ?thesis using b(3,4,7) pendings.chain_total [OF b(2,3)] by simp
qed

theorem fold_cursor_contiguous_witness:
  "\<exists>s. snd demo_runs = Some (Fold s) \<and> length (cs_pending_ranges s) = 1
    \<and> chain fp_byte_start fp_byte_end_exclusive (cs_acknowledged_offset s) (cs_pending_ranges s)
        (cs_pending_end_offset s)"
proof -
  from demo_runs_facts(4) obtain s where s: "snd demo_runs = Some (Fold s)" "length (cs_pending_ranges s) = 1"
    by (auto split: option.splits loaded_cursor.splits)
  have "case snd demo_runs of Some (Fold s) \<Rightarrow> is_ok (make_fold_cursor demo_hash s) | _ \<Rightarrow> False"
    by code_simp
  with s(1) obtain s' where "make_fold_cursor demo_hash s = Inr s'" by (auto simp: is_ok_def)
  from conjunct1 [OF fold_cursor_contiguous [OF this]] s show ?thesis by simp
qed

text \<open>
  C23: an exact read is total: when the reader delivers a valid read that starts at the requested
  byte and reaches the requested end, \<open>_read_exact\<close> returns a valid read of exactly those
  bytes, cut to the prefix, with a lineage that covers them without gap or overlap.
\<close>

theorem exact_read_total:
  assumes "sha256_documented (lp_hash L)"
    and "is_ok (make_durable_read_request (durable_request (lp_config L) a (b - a)))"
    and "lp_read L (durable_request (lp_config L) a (b - a)) w = (Inr r, w')"
    and "make_durable_read (lp_hash L) r = Inr r" "dr_status r = DATA"
    and "dr_byte_start r = a" "a < b" "b \<le> dr_byte_end_exclusive r"
  shows "\<exists>x. read_exact L a b w = (Inr x, w') \<and> make_durable_read (lp_hash L) x = Inr x
    \<and> dr_byte_start x = a \<and> dr_byte_end_exclusive x = b
    \<and> dr_payload x = take (b - a) (dr_payload r)
    \<and> chain fs_byte_start fs_byte_end_exclusive a (dr_ranges x) b"
  using assms by (rule read_exact_covers)

definition demo_over_read :: durable_read where
  "demo_over_read = demo_durable_read (durable_request demo_fold_config 2 100)"

text \<open>The scenario's reader, but one that returns more bytes than asked for.\<close>

definition demo_generous :: "(loaded_cursor option, unit, unit) fold_loop" where
  "demo_generous = demo_loop\<lparr>lp_read := (\<lambda>q w. (Inr demo_over_read, w))\<rparr>"

theorem exact_read_total_witness:
  "\<exists>x. read_exact demo_generous 2 4 None = (Inr x, None) \<and> make_durable_read (lp_hash demo_generous) x = Inr x
    \<and> dr_byte_start x = 2 \<and> dr_byte_end_exclusive x = 4
    \<and> dr_payload x = take (4 - 2) (dr_payload demo_over_read)
    \<and> chain fs_byte_start fs_byte_end_exclusive 2 (dr_ranges x) 4"
proof (rule exact_read_total)
  show "sha256_documented (lp_hash demo_generous)"
    using demo_hash_documented by (simp add: demo_generous_def demo_loop_def demo_env_def)
  show "lp_read demo_generous (durable_request (lp_config demo_generous) 2 (4 - 2)) None = (Inr demo_over_read, None)"
    by (simp add: demo_generous_def)
qed (code_simp+)

section \<open>Migration of an adapter cursor\<close>

text \<open>
  C11: a migration of an adapter cursor that has acknowledged bytes, when it returns, has
  submitted valid policy-disposition commands that tile exactly the acknowledged bytes and
  records from zero on, and then stored one fold cursor at that position, one revision later
  and one checkpoint later per command.
\<close>

theorem migration_covers_cursor:
  assumes "migrate_legacy_cursor (traced L) legacy t (w, []) = (Inr m, (w', evs))"
    and "hc_acknowledged_offset legacy \<noteq> 0"
  shows "\<exists>xs. evs = submitted_events xs @ [Stored (hc_revision legacy) m]
    \<and> migration_complete (lp_env L) legacy xs m"
  using migrate_legacy_traced [OF assms] by simp

text \<open>An adapter cursor that acknowledged the three lines of the scenario.\<close>

definition demo_legacy :: host_cursor where
  "demo_legacy =
     (initial_host_cursor demo_hash ''capability'')
       \<lparr>hc_revision := 3, hc_file_identity := Some demo_file, hc_acknowledged_offset := 6,
        hc_acknowledged_record_index := 3, hc_checkpoint_sequence := 5\<rparr>"

theorem migration_covers_cursor_witness:
  "\<exists>m xs. snd (snd (migrate_legacy_cursor (traced demo_loop) demo_legacy (Aware 0) (None, [])))
      = submitted_events xs @ [Stored 3 m]
    \<and> migration_complete demo_env demo_legacy xs m"
proof -
  let ?run = "migrate_legacy_cursor (traced demo_loop) demo_legacy (Aware 0) (None, [])"
  have "is_ok (fst ?run)" by code_simp
  then obtain m where run: "?run = (Inr m, (fst (snd ?run), snd (snd ?run)))"
    by (auto simp: is_ok_def prod_eq_iff)
  have "hc_acknowledged_offset demo_legacy \<noteq> 0" "hc_revision demo_legacy = 3"
    by (simp_all add: demo_legacy_def)
  with migration_covers_cursor [OF run] show ?thesis by (auto simp: demo_loop_def)
qed

section \<open>Where the loop stops short\<close>

text \<open>
  A read without a newline moves nothing, unless it is the sealed read and ranges are pending:
  when such a run returns, it has stored a cursor with the same acknowledged and pending positions
  and no diagnostic, and no command was submitted. The size limit of the adapters is not applied to
  the bytes of such a read.
\<close>

theorem no_newline_stalls:
  assumes "fold_data L t s read f w = (Inr h, w')" "10 \<notin> set (dr_payload read)"
    and "cs_pending_ranges s = [] \<or> \<not> is_sealed_read (lp_config L) read"
  shows "\<exists>s'. lp_commit L (cs_revision s) s' w = (Inr (), w') \<and> fold_waits s s'
    \<and> cs_pending_end_offset s' = cs_pending_end_offset s \<and> cs_diagnostic_code s' = None
    \<and> he_status h = FR_WAITING_FOR_COMPLETE_RECORD"
proof -
  let ?mx = "case qualified_adapter L read of None \<Rightarrow> 262144 | Some a \<Rightarrow> ad_max_record_bytes a"
  have "frame_complete_records ?mx (dr_byte_start read) (cs_pending_end_record_index s) (dr_payload read)
      = ([], dr_payload read)"
    using assms(2) by (intro frame_complete_None) (simp add: next_line_None)
  with assms(1) have "fold_without_records L (qualified_adapter L read) read f t (dr_payload read) s w = (Inr h, w')"
    by (simp add: fold_data_def Let_def)
  then obtain s' where s': "updated_state (lp_hash L) s (Some f) (cs_pending_ranges s)
      (cs_extractor_state s) (dr_payload read) HC_WAITING_FOR_COMPLETE_RECORD
      (dr_durable_end_offset read) None True = Inr s'"
    and com: "lp_commit L (cs_revision s) s' w = (Inr (), w')"
    and h: "fold_health s' FR_WAITING_FOR_COMPLETE_RECORD None = Inr h"
    using assms(3) unfolding fold_without_records_def
    by (auto elim!: bindIO_returns bind_liftE split: if_splits)
  note u = updated_state_Inr [OF s']
  then have "cs_pending_end_offset s' = cs_pending_end_offset s"
    by (simp add: cs_pending_end_offset_def fold_waits_def)
  with u com fold_health_Inr [OF h] show ?thesis by (intro exI [of _ s']) simp
qed

definition demo_short_read :: durable_read where
  "demo_short_read = demo_durable_read (durable_request demo_fold_config 0 1)"

theorem no_newline_stalls_witness:
  "\<exists>s'. snd (fold_data demo_loop (Aware 0) (default_fold_cursor demo_hash ''capability'') demo_short_read
              demo_file None) = Some (Fold s') \<and> cs_pending_end_offset s' = 0"
proof -
  let ?s = "default_fold_cursor demo_hash ''capability''"
  let ?run = "fold_data demo_loop (Aware 0) ?s demo_short_read demo_file None"
  have "is_ok (fst ?run)" by code_simp
  then obtain h where h: "?run = (Inr h, snd ?run)" by (auto simp: is_ok_def prod_eq_iff)
  have "10 \<notin> set (dr_payload demo_short_read)" by code_simp
  from no_newline_stalls [OF h this] obtain s' where
    "lp_commit demo_loop (cs_revision ?s) s' None = (Inr (), snd ?run)"
    "cs_pending_end_offset s' = cs_pending_end_offset ?s"
    by (auto simp: default_fold_cursor_def)
  then show ?thesis
    by (intro exI [of _ s'])
      (simp add: demo_loop_def default_fold_cursor_def cs_pending_end_offset_def)
qed

text \<open>
  C35: a finished turn whose bytes were received in more than 128 source ranges cannot be folded:
  its assembly span refuses the range count, although a durable read may carry 1,024 ranges, and
  the run raises, again on every later run.
\<close>

theorem many_ranges_raise:
  assumes "read_exact L (ac_start_offset acc) (fr_end_offset record) w = (Inr exact, w1)"
    and "128 < length (dr_ranges exact)"
  shows "\<exists>e. finalize_turn L a f t record x acc w = (Inl e, w1)"
proof -
  let ?span = "\<lparr>va_file_identity = f, va_start_offset = ac_start_offset acc, va_end_offset = fr_end_offset record,
    va_start_record_index = ac_start_record acc, va_end_record_index = fr_record_index record + 1,
    va_byte_count = fr_end_offset record - ac_start_offset acc,
    va_record_count = fr_record_index record + 1 - ac_start_record acc,
    va_range_count = length (dr_ranges exact), va_source_bytes_sha256 = dr_payload_sha256 exact\<rparr>"
  have "\<not> is_ok (make_verified_assembly_span ?span)"
    using assms(2) by (simp add: make_verified_assembly_span_def HOST_CAPTURE_MAX_PENDING_RANGES_def)
  then obtain e where "make_verified_assembly_span ?span = Inl e"
    by (cases "make_verified_assembly_span ?span") simp_all
  with assms(1) show ?thesis
    by (simp add: finalize_turn_def Let_def bindIO_def liftIO_def)
qed

text \<open>A valid durable read of one line that came in 129 ranges of one byte.\<close>

definition demo_many_read :: durable_read where
  "demo_many_read =
     (demo_durable_read (durable_request demo_fold_config 0 1))
       \<lparr>dr_byte_end_exclusive := 129, dr_durable_end_offset := 129,
        dr_payload_hex := hex (replicate 128 97 @ [10]),
        dr_ranges := map (\<lambda>i.
          \<lparr>fs_source_range_receipt_id = 7, fs_receipt_byte_start = i,
           fs_receipt_byte_end_exclusive = i + 1, fs_receipt_payload_sha256 = demo_hash [],
           fs_byte_start = i, fs_byte_end_exclusive = i + 1,
           fs_source_bytes_sha256 = demo_hash []\<rparr>) [0..<129]\<rparr>"

definition demo_many_loop :: "(loaded_cursor option, unit, unit) fold_loop" where
  "demo_many_loop = demo_loop\<lparr>lp_read := (\<lambda>q w. (Inr demo_many_read, w))\<rparr>"

definition demo_acc :: fold_acc where
  "demo_acc =
     \<lparr>ac_outcomes = [], ac_assembly_state = [], ac_start_offset = 0, ac_start_record = 0,
      ac_pending_start = 1, ac_consumed = 1, ac_fallback = None, ac_limit_reached = False\<rparr>"

theorem many_ranges_raise_witness:
  "\<exists>e. finalize_turn demo_many_loop demo_adapter demo_file (Aware 0)
            (frame_line 1024 0 0 (replicate 128 97 @ [10])) () demo_acc None = (Inl e, None)"
proof -
  have q: "is_ok (make_durable_read_request (durable_request demo_fold_config 0 129))" by code_simp
  have d: "dr_status demo_many_read = DATA \<and> dr_byte_start demo_many_read = 0
      \<and> dr_byte_end_exclusive demo_many_read = 129 \<and> length (dr_ranges demo_many_read) = 129"
    by (simp add: demo_many_read_def demo_durable_read_def durable_request_def Let_def
        demo_bytes_def demo_source_def)
  have f: "fr_end_offset (frame_line 1024 0 0 (replicate 128 97 @ [10])) = 129" "ac_start_offset demo_acc = 0"
    by (simp_all add: frame_line_def demo_acc_def)
  from q have "make_durable_read_request (durable_request demo_fold_config 0 129)
      = Inr (durable_request demo_fold_config 0 129)"
    by (auto simp: is_ok_def make_durable_read_request_def)
  with d have "read_exact demo_many_loop 0 129 None = (Inr demo_many_read, None)"
    by (simp add: read_exact_def durable_read_from_def demo_many_loop_def demo_loop_def checkIO_def
        bindIO_def liftIO_def returnIO_def)
  then have r: "read_exact demo_many_loop (ac_start_offset demo_acc)
      (fr_end_offset (frame_line 1024 0 0 (replicate 128 97 @ [10]))) None = (Inr demo_many_read, None)"
    by (simp only: f)
  from d have "128 < length (dr_ranges demo_many_read)" by linarith
  with r show ?thesis by (rule many_ranges_raise)
qed

text \<open>A run over records that finishes no turn and does not fall back has consumed them all.\<close>

lemma fold_records_grows:
  "fold_records L a f t i rs acc w = (Inr acc', w') \<Longrightarrow> \<exists>outs. ac_outcomes acc' = ac_outcomes acc @ outs"
proof (induction rs arbitrary: i acc w)
  case (Cons r rs)
  from Cons.prems show ?case
    by (cases rule: fold_records_step) (fastforce simp: fall_back_def dest: Cons.IH)+
qed simp

lemma fold_records_unfinished:
  assumes "fold_records L a f t i rs acc w = (Inr acc', w')" "ac_fallback acc' = None" "ac_outcomes acc' = []"
    and "ac_consumed acc = i"
  shows "ac_consumed acc' = i + length rs \<and> w' = w"
  using assms
proof (induction rs arbitrary: i acc w)
  case (Cons r rs)
  from Cons.prems(1) show ?case
  proof (cases rule: fold_records_step)
    case (consumed st)
    from Cons.IH [OF consumed(2)] Cons.prems(2,3) show ?thesis by simp
  next
    case (finalized st x out w1)
    from fold_records_grows [OF finalized(3)] Cons.prems(3) show ?thesis by simp
  qed (use Cons.prems in \<open>simp_all add: fall_back_def TRANSCRIPT_FOLD_MAX_OUTCOMES_def\<close>)
qed simp

text \<open>
  C36: a qualified read that finishes no turn adds one pending range to the 128 the cursor may hold,
  so with 128 pending ranges the run does not wait for the rest of the turn: when the records of a
  qualified read are assembled without a finished turn and without a fallback, the run raises, and
  neither a command nor a cursor has been stored.
\<close>

theorem pending_limit_raises:
  assumes "frame_complete_records (ad_max_record_bytes a) (dr_byte_start read) (cs_pending_end_record_index s)
      (dr_payload read) = (records, tail)" "records \<noteq> []"
    and "qualified_adapter L read = Some a"
    and "assemble_records L (Some a) read f t records s w = (Inr acc, w1)"
    and "ac_outcomes acc = []" "ac_fallback acc = None"
    and "length (cs_pending_ranges s) = 128"
  shows "\<exists>e. fold_data L t s read f (w :: 'a) = (Inl e, w)"
proof -
  obtain acc0 where "fold_records L a f t 0 records acc0 w = (Inr acc, w1)" "ac_consumed acc0 = 0"
    using assms(4,6) by (auto simp: assemble_records_def Let_def bindIO_Inr_iff split: if_splits)
  from fold_records_unfinished [OF this(1) assms(6,5) this(2)]
  have acc: "ac_consumed acc = length records" "w1 = w" by simp_all
  have "\<exists>e. commit_fold L (Some a) read f records tail s acc None s w = (Inl e, w)"
  proof (cases "next_pending_ranges (lp_hash L) True records s acc")
    case (Inr pending)
    then have "length pending = 129"
      using acc assms(2,5,7) by (auto simp: next_pending_ranges_def Let_def bindE_Inr_iff)
    then have failed: "\<not> is_ok (updated_state (lp_hash L) s (Some f) pending x y st d g k)" for x y st d g k
      by (auto simp: updated_state_def make_fold_cursor_def HOST_CAPTURE_MAX_PENDING_RANGES_def)
    have "\<exists>e. bindIO (liftIO r) h w = (Inl e, w)"
      if "\<not> is_ok r" for r :: "fold_cursor result" and h :: "fold_cursor \<Rightarrow> ('a, fold_health) io"
      using that by (cases r) (simp_all add: bindIO_def liftIO_def)
    note this [OF failed]
    moreover have "bindIO (liftIO (Inr pending)) h w = h pending w" for h :: "fold_pending list \<Rightarrow> ('a, fold_health) io"
      by (simp add: bindIO_def liftIO_def)
    ultimately show ?thesis using Inr by (simp add: commit_fold_def Let_def split del: if_split)
  qed (simp add: commit_fold_def Let_def bindIO_def liftIO_def)
  then show ?thesis
    using assms(1-6) acc
    by (simp add: fold_data_def Let_def apply_fallback_def submit_outcomes_def bindIO_def returnIO_def)
qed

definition demo_pending_cursor :: fold_cursor where
  "demo_pending_cursor =
     (default_fold_cursor demo_hash ''capability'')
       \<lparr>cs_file_identity := Some demo_file, cs_durable_end_offset := 128,
        cs_pending_ranges := map (\<lambda>i.
          \<lparr>fp_byte_start = i, fp_byte_end_exclusive = i + 1, fp_start_record_index = i,
           fp_end_record_index = i + 1, fp_source_bytes_sha256 = demo_hash []\<rparr>) [0..<128]\<rparr>"

lemma demo_pending_valid: "make_fold_cursor demo_hash demo_pending_cursor = Inr demo_pending_cursor"
proof -
  have "is_ok (make_fold_cursor demo_hash demo_pending_cursor)" by code_simp
  then show ?thesis by (auto simp: is_ok_def make_fold_cursor_def)
qed

text \<open>An adapter for long turns, and a read of the next line, in one receipt.\<close>

definition demo_long_adapter :: "(unit, unit) fold_adapter" where
  "demo_long_adapter = demo_adapter\<lparr>ad_max_turn_records := 1024\<rparr>"

definition demo_long_loop :: "(loaded_cursor option, unit, unit) fold_loop" where
  "demo_long_loop = demo_loop\<lparr>lp_adapter := Some demo_long_adapter\<rparr>"

definition demo_next_read :: durable_read where
  "demo_next_read =
     (demo_durable_read (durable_request demo_fold_config 0 1))
       \<lparr>dr_byte_start := 128, dr_byte_end_exclusive := 130, dr_durable_end_offset := 130,
        dr_payload_hex := hex [97, 10], dr_payload_sha256 := demo_hash [97, 10],
        dr_ranges := [\<lparr>fs_source_range_receipt_id = 7, fs_receipt_byte_start = 128,
          fs_receipt_byte_end_exclusive = 130, fs_receipt_payload_sha256 = demo_hash [97, 10],
          fs_byte_start = 128, fs_byte_end_exclusive = 130,
          fs_source_bytes_sha256 = demo_hash [97, 10]\<rparr>]\<rparr>"

theorem pending_limit_raises_witness:
  "\<exists>e. fold_data demo_long_loop (Aware 0) demo_pending_cursor demo_next_read demo_file None = (Inl e, None)"
proof -
  let ?frames = "frame_complete_records 1024 128 128 [97, 10]"
  let ?run = "assemble_records demo_long_loop (Some demo_long_adapter) demo_next_read demo_file (Aware 0)
    (fst ?frames) demo_pending_cursor (None :: loaded_cursor option)"
  have "case fst ?run of Inr acc \<Rightarrow> ac_outcomes acc = [] \<and> ac_fallback acc = None | Inl e \<Rightarrow> False"
    by code_simp
  then obtain acc where acc: "?run = (Inr acc, snd ?run)" "ac_outcomes acc = []" "ac_fallback acc = None"
    by (cases ?run) (auto split: sum.splits)
  have frames: "frame_complete_records (ad_max_record_bytes demo_long_adapter) (dr_byte_start demo_next_read)
      (cs_pending_end_record_index demo_pending_cursor) (dr_payload demo_next_read)
    = (fst ?frames, snd ?frames)" by code_simp
  have "fst ?frames \<noteq> []" by code_simp
  have "qualified_adapter demo_long_loop demo_next_read = Some demo_long_adapter"
    by (simp add: qualified_adapter_def demo_long_loop_def demo_long_adapter_def demo_loop_def demo_adapter_def
        demo_next_read_def demo_durable_read_def demo_fold_config_def Let_def)
  from pending_limit_raises [OF frames \<open>fst ?frames \<noteq> []\<close> this acc] show ?thesis by (simp add: demo_pending_cursor_def)
qed

end
