(* ===== verification/RegistryClaims.thy ===== *)
theory RegistryClaims
  imports Scenario
begin

text \<open>The properties of the module manifests and of the module registry.\<close>

section \<open>Identifiers, versions and ranges\<close>

text \<open>
  the identifier scanner accepts exactly the language of the pattern: a lower-case letter
  and runs of letters and digits that are joined by single separators.
\<close>

theorem identifier_pattern: "is_identifier s \<longleftrightarrow> ident_lang s"
  by (rule identifier_language)

text \<open>
  Versions round trip: a version that the constructor accepts prints to a string that the
  parser reads back as that version.
\<close>

theorem version_round_trip:
  assumes "make_version a b c = Inr v"
  shows "parse_version (version_str v) = Inr v"
  using assms by (intro parse_version_str) (auto simp: make_version_Inr)

theorem version_round_trip_witness: "parse_version (version_str (SemVer 1 20 3)) = Inr (SemVer 1 20 3)"
  by (rule version_round_trip [of 1 20 3]) code_simp

text \<open>
  what the range parser accepts it accepts again in canonical spelling, as the same range,
  and such a range can be tested against every version without an error.
\<close>

theorem range_round_trip:
  assumes "parse_range s = Inr cs"
  shows "parse_range (range_str cs) = Inr cs \<and> is_ok (range_allows cs v)"
  using parse_range_str [OF parse_range_ok [OF assms]] parse_range_ok [OF assms]
  by (auto simp: range_ok_def intro: range_allows_ok)

theorem range_round_trip_witness:
  "parse_range (range_str [VC ''>='' (SemVer 1 2 0), VC ''<'' (SemVer 2 0 0)])
     = Inr [VC ''>='' (SemVer 1 2 0), VC ''<'' (SemVer 2 0 0)]"
proof -
  have "parse_range ''>=1.2.0, <2.0.0'' = Inr [VC ''>='' (SemVer 1 2 0), VC ''<'' (SemVer 2 0 0)]" by code_simp
  from conjunct1 [OF range_round_trip [OF this]] show ?thesis .
qed

section \<open>The registry\<close>

text \<open>
  C27: a registry is built exactly when it is well formed: module ids are unique, every module has
  a grant that covers its placements, permissions, requirements and contributions are in order,
  no contribution has two owners, the dependency graph is acyclic, and every profile is known,
  unique and closed under requirements. No other registry passes inspection.
\<close>

theorem registry_accepts_iff:
  "is_ok (from_source_controlled H ms ps grants) \<longleftrightarrow> registry_wf ms ps grants"
  by (auto simp: is_ok_def from_source_controlled_ok)

text \<open>
  C31: the depth-first search reports some module exactly when the dependency graph has a cycle,
  and every module it reports is on one.
\<close>

theorem cycle_search_correct:
  "(cycle_nodes ms = {} \<longleftrightarrow> acyclic (edges (dependency_graph ms)))
   \<and> cycle_nodes ms \<subseteq> {x. (x, x) \<in> (edges (dependency_graph ms))\<^sup>+}"
  using cycle_nodes_empty_acyclic cycle_nodes_on_cycle by (auto simp: acyclic_def)

text \<open>
  C37: the search does not report every module of a cycle: \<open>c\<close> requires \<open>b\<close>, which requires
  \<open>a\<close>, which requires \<open>c\<close>, and only \<open>a\<close> and \<open>b\<close> are flagged as participants.
\<close>

theorem cycle_search_misses:
  "\<exists>ms. cycle_nodes ms = {''a'', ''b''} \<and> (''c'', ''c'') \<in> (edges (dependency_graph ms))\<^sup>+"
proof (intro exI conjI)
  let ?ms = "[demo_manifest ''a'' [''b'', ''c''], demo_manifest ''b'' [''a''], demo_manifest ''c'' [''b'']]"
  show "cycle_nodes ?ms = {''a'', ''b''}" by code_simp
  have s: "successors (dependency_graph ?ms) ''c'' = [''b'']"
    "successors (dependency_graph ?ms) ''b'' = [''a'']"
    "successors (dependency_graph ?ms) ''a'' = [''b'', ''c'']" by code_simp+
  have "(''c'', ''b'') \<in> edges (dependency_graph ?ms)" "(''b'', ''a'') \<in> edges (dependency_graph ?ms)"
    "(''a'', ''c'') \<in> edges (dependency_graph ?ms)"
    by (simp_all add: edges_def s)
  then show "(''c'', ''c'') \<in> (edges (dependency_graph ?ms))\<^sup>+"
    by (meson trancl.r_into_trancl trancl_into_trancl2)
qed

text \<open>
  C30: a composition that succeeds reports a module ENABLED exactly when the module belongs to a
  set of modules that are selected by the profiles, not disabled and not degraded by the caller,
  and closed under requirements: the loop computes the greatest such set.
\<close>

theorem composition_greatest:
  assumes "compose H g ps dis deg = Inr r" "h \<in> set (cr_modules r)"
  shows "mh_state h = ENABLED \<longleftrightarrow>
     (\<exists>S. mh_module_id h \<in> S \<and> S \<subseteq> admitted g ps dis deg \<and> closed_under (rg_manifest g) S)"
  using assms by (rule compose_enabled_greatest)

definition demo_report :: "compose_error + composition_report" where
  "demo_report = compose demo_hash demo_registry [''core''] [''b''] []"

theorem composition_greatest_witness:
  "\<exists>r h. demo_report = Inr r \<and> h \<in> set (cr_modules r) \<and> mh_module_id h = ''a'' \<and> mh_state h = DEGRADED
    \<and> \<not> (\<exists>S. ''a'' \<in> S \<and> S \<subseteq> admitted demo_registry [''core''] [''b''] []
             \<and> closed_under (rg_manifest demo_registry) S)"
proof -
  have "case demo_report of
      Inr r \<Rightarrow> map (\<lambda>h. (mh_module_id h, mh_state h)) (cr_modules r)
        = [(''a'', DEGRADED), (''b'', DISABLED), (''c'', ENABLED)]
    | Inl e \<Rightarrow> False" by code_simp
  then obtain r where r: "demo_report = Inr r"
    "map (\<lambda>h. (mh_module_id h, mh_state h)) (cr_modules r)
        = [(''a'', DEGRADED), (''b'', DISABLED), (''c'', ENABLED)]" by (auto split: sum.splits)
  from r(2) have "(''a'', DEGRADED) \<in> (\<lambda>h. (mh_module_id h, mh_state h)) ` set (cr_modules r)"
    unfolding set_map [symmetric] by simp
  then obtain h where h: "h \<in> set (cr_modules r)" "mh_module_id h = ''a''" "mh_state h = DEGRADED" by auto
  from composition_greatest [OF r(1) [unfolded demo_report_def] h(1)] h r(1) show ?thesis by auto
qed

text \<open>
  For a registry that passed inspection, a composition whose request passes its checks
  always returns a report: no selected module is without a manifest, and the loop ends.
\<close>

theorem composition_total:
  assumes "from_source_controlled H ms prs grants = Inr g"
    and "is_ok (compose_checks g ps dis deg)"
  shows "is_ok (compose K g ps dis deg)"
proof -
  from assms(2) obtain ordered selected where "compose_checks g ps dis deg = Inr (ordered, selected)"
    by (auto simp: is_ok_def)
  from compose_total [OF assms(1) this] show ?thesis by (auto simp: is_ok_def)
qed

definition demo_accepted :: "registry_error + module_registry" where
  "demo_accepted =
     from_source_controlled demo_hash [demo_manifest ''b'' [], demo_manifest ''a'' [''b'']]
       [\<lparr>pf_profile_id = ''core'', pf_module_ids = [''a'', ''b'']\<rparr>]
       [(''a'', [API_CONTAINER]), (''b'', [API_CONTAINER])]"

theorem composition_total_witness:
  "\<exists>g. demo_accepted = Inr g \<and> is_ok (compose demo_hash g [''core''] [''b''] [])"
proof -
  have "case demo_accepted of Inr g \<Rightarrow> is_ok (compose_checks g [''core''] [''b''] []) | Inl e \<Rightarrow> False"
    by code_simp
  then obtain g where g: "demo_accepted = Inr g" "is_ok (compose_checks g [''core''] [''b''] [])"
    by (auto split: sum.splits)
  from composition_total [OF g(1) [unfolded demo_accepted_def] g(2)] g(1) show ?thesis by blast
qed

end
