(* ===== verification/SemanticContracts.thy ===== *)
theory SemanticContracts
  imports Composition "HOL-Library.Transitive_Closure_Table"
begin

text \<open>
  \<open>application/semantic_task_contracts.py\<close>, first part: the boundary that a contract model must
  keep (\<open>contract_model_issue\<close>) over a table of model classes, the budgets, evidence manifests
  and task inputs, and the task definitions with their canonical payloads.
\<close>

section \<open>Contract models\<close>

text \<open>
  A field annotation, by what \<open>get_origin\<close> and \<open>get_args\<close> tell of it. A class is an index into
  the table of the classes in use; \<open>AOther\<close> is any other annotation, by its \<open>repr\<close>.
\<close>

type_synonym class_id = nat

datatype annotation =
    AUnion "annotation list"
  | ATuple "annotation list"
  | AEllipsis
  | ALiteral
  | AMutable string
  | AScalar
  | AStrEnum
  | AModel class_id
  | AOther string

record model_class =
  mc_name :: string
  mc_contract :: bool
  mc_frozen :: bool
  mc_extra_forbid :: bool
  mc_revalidate_always :: bool
  mc_use_enum_values :: bool
  mc_fields :: "(string \<times> annotation) list"

type_synonym class_table = "model_class list"

text \<open>An index outside the table stands for pydantic's own \<open>BaseModel\<close>.\<close>

definition base_model :: model_class where
  "base_model =
     \<lparr>mc_name = ''BaseModel'', mc_contract = False, mc_frozen = False, mc_extra_forbid = False,
      mc_revalidate_always = False, mc_use_enum_values = False, mc_fields = []\<rparr>"

definition class_of :: "class_table \<Rightarrow> class_id \<Rightarrow> model_class" where
  "class_of T c = (if c < length T then T ! c else base_model)"

definition config_issue :: "model_class \<Rightarrow> string option" where
  "config_issue k =
     (if \<not> mc_contract k then Some (mc_name k @ '' must inherit FrozenContractModel'')
      else if \<not> mc_frozen k then Some (mc_name k @ '' must keep frozen=True'')
      else if \<not> mc_extra_forbid k then Some (mc_name k @ '' must keep extra='' @ py_repr ''forbid'')
      else if \<not> mc_revalidate_always k then Some (mc_name k @ '' must revalidate model instances'')
      else if \<not> mc_use_enum_values k
      then Some (mc_name k @ '' must normalize enum members to values'')
      else None)"

lemma config_issue_None:
  "config_issue k = None \<longleftrightarrow> mc_contract k \<and> mc_frozen k \<and> mc_extra_forbid k
     \<and> mc_revalidate_always k \<and> mc_use_enum_values k"
  by (simp add: config_issue_def)

lemma class_in_table: "config_issue (class_of T c) = None \<Longrightarrow> c < length T"
  by (auto simp: class_of_def base_model_def config_issue_def split: if_splits)

function (sequential) model_issue :: "class_table \<Rightarrow> class_id list \<Rightarrow> class_id \<Rightarrow> string option"
and fields_issue :: "class_table \<Rightarrow> class_id list \<Rightarrow> (string \<times> annotation) list \<Rightarrow> string option"
and annotation_issue :: "class_table \<Rightarrow> class_id list \<Rightarrow> annotation \<Rightarrow> string option"
and annotations_issue :: "class_table \<Rightarrow> class_id list \<Rightarrow> annotation list \<Rightarrow> string option"
and elements_issue :: "class_table \<Rightarrow> class_id list \<Rightarrow> annotation list \<Rightarrow> string option"
where
  "model_issue T seen c =
     (case config_issue (class_of T c) of
        Some i \<Rightarrow> Some i
      | None \<Rightarrow>
          if c \<in> set seen then None
          else map_option (\<lambda>i. mc_name (class_of T c) @ ''.'' @ i)
                 (fields_issue T (c # seen) (mc_fields (class_of T c))))"
| "fields_issue T seen [] = None"
| "fields_issue T seen ((f, a) # fs) =
     (case annotation_issue T seen a of
        Some i \<Rightarrow> Some (f @ '': '' @ i)
      | None \<Rightarrow> fields_issue T seen fs)"
| "annotation_issue T seen (AUnion as) = annotations_issue T seen as"
| "annotation_issue T seen (ATuple as) = elements_issue T seen as"
| "annotation_issue T seen AEllipsis = Some ''unsupported contract field type Ellipsis''"
| "annotation_issue T seen ALiteral = None"
| "annotation_issue T seen (AMutable name) = Some (''mutable container '' @ name @ '' is not allowed'')"
| "annotation_issue T seen AScalar = None"
| "annotation_issue T seen AStrEnum = None"
| "annotation_issue T seen (AModel c) = model_issue T seen c"
| "annotation_issue T seen (AOther repr) = Some (''unsupported contract field type '' @ repr)"
| "annotations_issue T seen [] = None"
| "annotations_issue T seen (a # as) =
     (case annotation_issue T seen a of Some i \<Rightarrow> Some i | None \<Rightarrow> annotations_issue T seen as)"
| "elements_issue T seen [] = None"
| "elements_issue T seen (a # as) =
     (case (if a = AEllipsis then None else annotation_issue T seen a) of
        Some i \<Rightarrow> Some i
      | None \<Rightarrow> elements_issue T seen as)"
  by pat_completeness auto

text \<open>A class is only entered outside \<open>seen\<close>, which then contains one more class of the table.\<close>

definition unseen :: "class_table \<Rightarrow> class_id list \<Rightarrow> nat" where
  "unseen T seen = card ({..<length T} - set seen)"

lemma unseen_less:
  assumes "config_issue (class_of T c) = None" "c \<notin> set seen"
  shows "unseen T (c # seen) < unseen T seen"
  unfolding unseen_def
  using class_in_table [OF assms(1)] assms(2) by (intro psubset_card_mono) auto

termination model_issue
proof (relation "inv_image (less_than <*lex*> less_than <*lex*> less_than)
    (\<lambda>x. case x of
       Inl (Inl (T, seen, c)) \<Rightarrow> (unseen T seen, 0, 0)
     | Inl (Inr (T, seen, fs)) \<Rightarrow> (unseen T seen, size_list (size_prod (\<lambda>_. 0) size) fs, 2)
     | Inr (Inl (T, seen, a)) \<Rightarrow> (unseen T seen, size a, 1)
     | Inr (Inr (Inl (T, seen, as))) \<Rightarrow> (unseen T seen, size_list size as, 2)
     | Inr (Inr (Inr (T, seen, as))) \<Rightarrow> (unseen T seen, size_list size as, 2))", goal_cases)
  case 1
  show ?case by (intro wf_inv_image wf_lex_prod wf_less_than)
qed (auto simp: unseen_less)

section \<open>What an accepted contract model is\<close>

fun supported :: "annotation \<Rightarrow> bool" where
  "supported (AUnion as) \<longleftrightarrow> list_all supported as"
| "supported (ATuple as) \<longleftrightarrow> list_all (\<lambda>a. a = AEllipsis \<or> supported a) as"
| "supported ALiteral \<longleftrightarrow> True"
| "supported AScalar \<longleftrightarrow> True"
| "supported AStrEnum \<longleftrightarrow> True"
| "supported (AModel c) \<longleftrightarrow> True"
| "supported a \<longleftrightarrow> False"

fun models_in :: "annotation \<Rightarrow> class_id set" where
  "models_in (AUnion as) = (\<Union>a \<in> set as. models_in a)"
| "models_in (ATuple as) = (\<Union>a \<in> set as. models_in a)"
| "models_in (AModel c) = {c}"
| "models_in a = {}"

definition nests :: "class_table \<Rightarrow> class_id \<Rightarrow> class_id \<Rightarrow> bool" where
  "nests T c d \<longleftrightarrow> (\<exists>(f, a) \<in> set (mc_fields (class_of T c)). d \<in> models_in a)"

text \<open>The class is closed, frozen and revalidated, and the types of its fields are immutable values.\<close>

definition locally_sealed :: "class_table \<Rightarrow> class_id \<Rightarrow> bool" where
  "locally_sealed T c \<longleftrightarrow>
     c < length T \<and> mc_contract (T ! c) \<and> mc_frozen (T ! c) \<and> mc_extra_forbid (T ! c)
     \<and> mc_revalidate_always (T ! c) \<and> mc_use_enum_values (T ! c)
     \<and> (\<forall>(f, a) \<in> set (mc_fields (T ! c)). supported a)"

definition sealed :: "class_table \<Rightarrow> class_id \<Rightarrow> bool" where
  "sealed T c \<longleftrightarrow> (\<forall>d. (nests T)\<^sup>*\<^sup>* c d \<longrightarrow> locally_sealed T d)"

lemma locally_sealed_config:
  "locally_sealed T c \<longleftrightarrow>
     config_issue (class_of T c) = None \<and> (\<forall>(f, a) \<in> set (mc_fields (class_of T c)). supported a)"
  using class_in_table [of T c] by (auto simp: locally_sealed_def config_issue_None class_of_def)

declare model_issue.simps [simp del]

text \<open>Models refused by the search under a path are the ones its annotations lead to.\<close>

lemma annotation_issue_None:
  shows "model_issue T seen c = model_issue T seen c"
    and "fields_issue T seen fs = None \<longleftrightarrow>
      (\<forall>(f, a) \<in> set fs. supported a \<and> (\<forall>d \<in> models_in a. model_issue T seen d = None))"
    and "annotation_issue T seen a = None \<longleftrightarrow>
      supported a \<and> (\<forall>d \<in> models_in a. model_issue T seen d = None)"
    and "annotations_issue T seen as = None \<longleftrightarrow>
      list_all supported as \<and> (\<forall>a \<in> set as. \<forall>d \<in> models_in a. model_issue T seen d = None)"
    and "elements_issue T seen as = None \<longleftrightarrow>
      list_all (\<lambda>a. a = AEllipsis \<or> supported a) as
      \<and> (\<forall>a \<in> set as. \<forall>d \<in> models_in a. model_issue T seen d = None)"
proof (induction T seen c and T seen fs and T seen a and T seen as and T seen as
    rule: model_issue_fields_issue_annotation_issue_annotations_issue_elements_issue.induct)
qed (auto split: option.splits if_splits)

lemma model_issue_None:
  "model_issue T seen c = None \<longleftrightarrow>
     config_issue (class_of T c) = None
     \<and> (c \<in> set seen \<or> (\<forall>(f, a) \<in> set (mc_fields (class_of T c)). supported a)
          \<and> (\<forall>d. nests T c d \<longrightarrow> model_issue T (c # seen) d = None))"
  by (subst model_issue.simps) (auto simp: annotation_issue_None(2) nests_def split: option.splits)

lemma sealed_nests: "sealed T c \<Longrightarrow> nests T c d \<Longrightarrow> sealed T d"
  unfolding sealed_def by (meson converse_rtranclp_into_rtranclp)

lemma sealed_no_issue: "sealed T c \<Longrightarrow> model_issue T seen c = None"
proof (induction "unseen T seen" arbitrary: seen c rule: less_induct)
  case less
  from less.prems have c: "locally_sealed T c" unfolding sealed_def by blast
  show ?case
  proof (cases "c \<in> set seen")
    case True
    with c show ?thesis by (subst model_issue_None) (simp add: locally_sealed_config)
  next
    case False
    with c have "unseen T (c # seen) < unseen T seen"
      by (intro unseen_less) (simp_all add: locally_sealed_config)
    from less.hyps [OF this] sealed_nests [OF less.prems] c show ?thesis
      by (subst model_issue_None) (simp add: locally_sealed_config)
  qed
qed

lemma no_issue_on_path:
  assumes "rtrancl_path (nests T) c xs d" "distinct (c # xs)" "set (c # xs) \<inter> set seen = {}"
    and "model_issue T seen c = None"
  shows "locally_sealed T d"
  using assms
proof (induction arbitrary: seen rule: rtrancl_path.induct)
  case (base c)
  then show ?case using model_issue_None [of T seen c] by (auto simp: locally_sealed_config)
next
  case (step c x xs d)
  then have "model_issue T (c # seen) x = None" using model_issue_None [of T seen c] by auto
  with step.IH [of "c # seen"] step.prems show ?case by auto
qed

theorem model_issue_sealed: "model_issue T [] c = None \<longleftrightarrow> sealed T c"
proof
  assume ok: "model_issue T [] c = None"
  show "sealed T c" unfolding sealed_def
  proof (intro allI impI)
    fix d assume "(nests T)\<^sup>*\<^sup>* c d"
    then obtain ys where "rtrancl_path (nests T) c ys d" by (auto simp: rtranclp_eq_rtrancl_path)
    then obtain xs where "rtrancl_path (nests T) c xs d" "distinct (c # xs)"
      by (rule rtrancl_path_distinct)
    with no_issue_on_path [of T c xs d "[]"] ok show "locally_sealed T d" by simp
  qed
qed (rule sealed_no_issue)

end
