(* ===== verification/SemanticTasks.thy ===== *)
theory SemanticTasks
  imports SemanticContracts
begin

text \<open>
  \<open>application/semantic_task_contracts.py\<close>, second part: effort, budgets, evidence, task inputs,
  task definitions with their canonical payloads, results with their retry policy, and the
  acceptance of an executor's result.
\<close>

section \<open>Effort, budgets and evidence\<close>

record effort_profile =
  ef_key :: string
  ef_rank :: nat

definition make_effort_profile :: "effort_profile \<Rightarrow> effort_profile result" where
  "make_effort_profile e = validated [raise_if (\<not> is_identifier (ef_key e)) (FieldError ''key'')] e"

definition effort_json :: "effort_profile \<Rightarrow> json" where
  "effort_json e = JObj [(''key'', JStr (ef_key e)), (''rank'', j_nat (ef_rank e))]"

record model_profile =
  mp_profile_key :: string
  mp_revision :: nat
  mp_effort_key :: string

definition make_model_profile :: "model_profile \<Rightarrow> model_profile result" where
  "make_model_profile p =
     validated
       [raise_if (\<not> is_identifier (mp_profile_key p)) (FieldError ''profile_key''),
        raise_if (mp_revision p < 1) (FieldError ''revision''),
        raise_if (\<not> is_identifier (mp_effort_key p)) (FieldError ''effort_key'')] p"

definition model_profile_json :: "model_profile \<Rightarrow> json" where
  "model_profile_json p =
     JObj [(''profile_key'', JStr (mp_profile_key p)), (''revision'', j_nat (mp_revision p)),
           (''effort_key'', JStr (mp_effort_key p))]"

record run_budget =
  rb_wall_clock_seconds :: nat
  rb_request_limit :: nat
  rb_input_token_limit :: nat
  rb_output_token_limit :: nat
  rb_total_token_limit :: nat
  rb_tool_call_limit :: nat
  rb_cost_safety_limit_microusd :: "nat option"
  rb_max_delegate_calls :: nat
  rb_max_parallel_delegates :: nat
  rb_evidence_item_limit :: nat
  rb_hydrated_character_limit :: nat
  rb_output_retries :: nat
  rb_tool_retries :: nat

definition make_run_budget :: "run_budget \<Rightarrow> run_budget result" where
  "make_run_budget b =
     validated
       [raise_if (rb_wall_clock_seconds b < 1) (FieldError ''wall_clock_seconds''),
        raise_if (rb_request_limit b < 1) (FieldError ''request_limit''),
        raise_if (rb_input_token_limit b < 1) (FieldError ''input_token_limit''),
        raise_if (rb_output_token_limit b < 1) (FieldError ''output_token_limit''),
        raise_if (rb_total_token_limit b < 1) (FieldError ''total_token_limit''),
        raise_if (rb_evidence_item_limit b < 1) (FieldError ''evidence_item_limit''),
        raise_if (rb_hydrated_character_limit b < 1) (FieldError ''hydrated_character_limit''),
        raise_if (rb_total_token_limit b < max (rb_input_token_limit b) (rb_output_token_limit b))
          (ValueError ''total_token_limit must cover each directional token limit''),
        raise_if (rb_max_parallel_delegates b > rb_max_delegate_calls b)
          (ValueError ''max_parallel_delegates cannot exceed max_delegate_calls'')]
       b"

text \<open>The numeric fields in the order of the source.\<close>

definition budget_numbers :: "run_budget \<Rightarrow> nat list" where
  "budget_numbers b =
     [rb_wall_clock_seconds b, rb_request_limit b, rb_input_token_limit b, rb_output_token_limit b,
      rb_total_token_limit b, rb_tool_call_limit b, rb_max_delegate_calls b,
      rb_max_parallel_delegates b, rb_evidence_item_limit b, rb_hydrated_character_limit b,
      rb_output_retries b, rb_tool_retries b]"

definition is_not_wider_than :: "run_budget \<Rightarrow> run_budget \<Rightarrow> bool" where
  "is_not_wider_than b ceiling =
     (if list_ex (\<lambda>(x, y). x > y) (zip (budget_numbers b) (budget_numbers ceiling)) then False
      else case rb_cost_safety_limit_microusd ceiling of
             None \<Rightarrow> True
           | Some c \<Rightarrow>
               (case rb_cost_safety_limit_microusd b of None \<Rightarrow> False | Some x \<Rightarrow> x \<le> c))"

definition run_budget_json :: "run_budget \<Rightarrow> json" where
  "run_budget_json b =
     JObj [(''wall_clock_seconds'', j_nat (rb_wall_clock_seconds b)),
           (''request_limit'', j_nat (rb_request_limit b)),
           (''input_token_limit'', j_nat (rb_input_token_limit b)),
           (''output_token_limit'', j_nat (rb_output_token_limit b)),
           (''total_token_limit'', j_nat (rb_total_token_limit b)),
           (''tool_call_limit'', j_nat (rb_tool_call_limit b)),
           (''cost_safety_limit_microusd'', j_opt j_nat (rb_cost_safety_limit_microusd b)),
           (''max_delegate_calls'', j_nat (rb_max_delegate_calls b)),
           (''max_parallel_delegates'', j_nat (rb_max_parallel_delegates b)),
           (''evidence_item_limit'', j_nat (rb_evidence_item_limit b)),
           (''hydrated_character_limit'', j_nat (rb_hydrated_character_limit b)),
           (''output_retries'', j_nat (rb_output_retries b)),
           (''tool_retries'', j_nat (rb_tool_retries b))]"

record evidence_reference =
  er_reference_id :: string
  er_content_hash :: string
  er_declared_characters :: nat

definition make_evidence_reference :: "evidence_reference \<Rightarrow> evidence_reference result" where
  "make_evidence_reference r =
     validated
       [raise_if (er_reference_id r = []) (FieldError ''reference_id''),
        raise_if (\<not> is_sha256 (er_content_hash r)) (FieldError ''content_hash'')] r"

record evidence_manifest =
  em_manifest_id :: string
  em_revision :: nat
  em_references :: "evidence_reference list"

definition make_evidence_manifest :: "evidence_manifest \<Rightarrow> evidence_manifest result" where
  "make_evidence_manifest m =
     validated
       [raise_if (em_manifest_id m = []) (FieldError ''manifest_id''),
        raise_if (em_revision m < 1) (FieldError ''revision''),
        nested_list make_evidence_reference (em_references m),
        raise_if (\<not> distinct (map er_reference_id (em_references m)))
          (ValueError ''evidence reference identifiers must be unique'')]
       m"

text \<open>A dictionary built from a sequence keeps the last entry of a key.\<close>

definition dict_get :: "('a \<Rightarrow> 'k) \<Rightarrow> 'a list \<Rightarrow> 'k \<Rightarrow> 'a option" where
  "dict_get key xs k = find (\<lambda>x. key x = k) (rev xs)"

section \<open>Contracts and task definitions\<close>

record contract_reference =
  cf_contract_id :: string
  cf_revision :: nat
  cf_schema_hash :: string

definition make_contract_reference :: "contract_reference \<Rightarrow> contract_reference result" where
  "make_contract_reference r =
     validated
       [raise_if (\<not> is_identifier (cf_contract_id r)) (FieldError ''contract_id''),
        raise_if (cf_revision r < 1) (FieldError ''revision''),
        raise_if (\<not> is_sha256 (cf_schema_hash r)) (FieldError ''schema_hash'')] r"

definition contract_reference_json :: "contract_reference \<Rightarrow> json" where
  "contract_reference_json r =
     JObj [(''contract_id'', JStr (cf_contract_id r)), (''revision'', j_nat (cf_revision r)),
           (''schema_hash'', JStr (cf_schema_hash r))]"

record typed_contract =
  tc_contract_id :: string
  tc_revision :: nat
  tc_model_type :: class_id

definition make_typed_contract :: "typed_contract \<Rightarrow> typed_contract result" where
  "make_typed_contract c =
     validated
       [raise_if (\<not> is_identifier (tc_contract_id c))
          (ValueError (''invalid contract identifier '' @ py_repr (tc_contract_id c))),
        raise_if (tc_revision c < 1) (ValueError ''contract revision must be positive'')] c"

text \<open>
  What the code uses of pydantic and of the models a deployment registers: \<open>model_json_schema\<close>,
  the type of an output, its dump, and whether a payload or an output passes revalidation.
\<close>

record ('p, 'o) contract_env =
  ce_hash :: hash
  ce_schema :: "class_id \<Rightarrow> json"
  ce_payload_ok :: "class_id \<Rightarrow> 'p \<Rightarrow> bool"
  ce_output_type :: "'o \<Rightarrow> class_id"
  ce_output_json :: "'o \<Rightarrow> json"
  ce_output_ok :: "'o \<Rightarrow> bool"

definition schema_hash :: "('p, 'o) contract_env \<Rightarrow> typed_contract \<Rightarrow> string" where
  "schema_hash E c = canonical_sha256 (ce_hash E) (ce_schema E (tc_model_type c))"

definition contract_reference_of :: "('p, 'o) contract_env \<Rightarrow> typed_contract \<Rightarrow> contract_reference" where
  "contract_reference_of E c =
     \<lparr>cf_contract_id = tc_contract_id c, cf_revision = tc_revision c, cf_schema_hash = schema_hash E c\<rparr>"

definition typed_contract_json :: "('p, 'o) contract_env \<Rightarrow> typed_contract \<Rightarrow> json" where
  "typed_contract_json E c =
     JObj [(''contract_id'', JStr (tc_contract_id c)), (''revision'', j_nat (tc_revision c)),
           (''schema_hash'', JStr (schema_hash E c)), (''json_schema'', ce_schema E (tc_model_type c))]"

record agent_contract =
  ac_agent_key :: string
  ac_input_contract :: contract_reference
  ac_output_contract :: contract_reference
  ac_maximum_effort_key :: string
  ac_may_delegate :: bool

datatype dispatch_mode = DIRECT_LEAF | CONDUCTOR

fun dispatch_mode_value :: "dispatch_mode \<Rightarrow> string" where
  "dispatch_mode_value DIRECT_LEAF = ''direct_leaf''"
| "dispatch_mode_value CONDUCTOR = ''conductor''"

record task_definition =
  td_task_kind :: string
  td_contract_revision :: int
  td_owning_module :: string
  td_input_contract :: typed_contract
  td_output_contract :: typed_contract
  td_dispatch_mode :: dispatch_mode
  td_default_effort_key :: string
  td_maximum_effort_key :: string
  td_model_profile :: model_profile
  td_evidence_policy_key :: string
  td_run_budget :: run_budget
  td_leaf_agent_key :: "string option"
  td_allowed_delegate_keys :: "string list"
  td_allowed_tool_keys :: "string list"

definition definition_payload :: "('p, 'o) contract_env \<Rightarrow> task_definition \<Rightarrow> json" where
  "definition_payload E d =
     JObj [(''task_kind'', JStr (td_task_kind d)), (''contract_revision'', JInt (td_contract_revision d)),
           (''owning_module'', JStr (td_owning_module d)),
           (''input_contract'', typed_contract_json E (td_input_contract d)),
           (''output_contract'', typed_contract_json E (td_output_contract d)),
           (''dispatch_mode'', JStr (dispatch_mode_value (td_dispatch_mode d))),
           (''default_effort_key'', JStr (td_default_effort_key d)),
           (''maximum_effort_key'', JStr (td_maximum_effort_key d)),
           (''model_profile'', model_profile_json (td_model_profile d)),
           (''evidence_policy_key'', JStr (td_evidence_policy_key d)),
           (''run_budget'', run_budget_json (td_run_budget d)),
           (''leaf_agent_key'', j_opt JStr (td_leaf_agent_key d)),
           (''allowed_delegate_keys'', JList (map JStr (sort (td_allowed_delegate_keys d)))),
           (''allowed_tool_keys'', JList (map JStr (sort (td_allowed_tool_keys d))))]"

definition contract_hash :: "('p, 'o) contract_env \<Rightarrow> task_definition \<Rightarrow> string" where
  "contract_hash E d = canonical_sha256 (ce_hash E) (definition_payload E d)"

record 'p task_input =
  ti_model :: class_id
  ti_task_id :: string
  ti_task_kind :: string
  ti_contract_revision :: int
  ti_target_reference :: string
  ti_expected_target_revision :: nat
  ti_evidence_manifest :: evidence_manifest
  ti_requested_effort_key :: "string option"
  ti_requested_budget :: "run_budget option"
  ti_payload :: 'p

text \<open>
  \<open>input_model_type.model_validate\<close>: the fields of \<open>SemanticTaskInput\<close>, then the payload of the
  registered class.
\<close>

definition make_task_input :: "('p, 'o) contract_env \<Rightarrow> 'p task_input \<Rightarrow> 'p task_input result" where
  "make_task_input E i =
     validated
       [raise_if (ti_task_id i = []) (FieldError ''task_id''),
        raise_if (\<not> is_identifier (ti_task_kind i)) (FieldError ''task_kind''),
        raise_if (ti_contract_revision i < 1) (FieldError ''contract_revision''),
        raise_if (ti_target_reference i = []) (FieldError ''target_reference''),
        nested (make_evidence_manifest (ti_evidence_manifest i)),
        raise_if (\<not> opt_field is_identifier (ti_requested_effort_key i)) (FieldError ''requested_effort_key''),
        nested_opt make_run_budget (ti_requested_budget i),
        raise_if (\<not> ce_payload_ok E (ti_model i) (ti_payload i)) (FieldError ''payload'')]
       i"

end
