(* ===== verification/SemanticResults.thy ===== *)
theory SemanticResults
  imports SemanticTasks
begin

text \<open>
  \<open>application/semantic_task_contracts.py\<close>, third part: results and their retry policy,
  \<open>accept_semantic_task_result\<close> and \<open>execute_semantic_task\<close>.
\<close>

section \<open>Results\<close>

datatype result_status =
    RS_SUCCEEDED | RS_UNAVAILABLE | RS_BUDGET_EXHAUSTED | RS_CANCELLED | RS_INVALID_OUTPUT
  | RS_STALE_INPUT | RS_POLICY_PAUSED | RS_FAILED

fun result_status_value :: "result_status \<Rightarrow> string" where
  "result_status_value RS_SUCCEEDED = ''succeeded''"
| "result_status_value RS_UNAVAILABLE = ''unavailable''"
| "result_status_value RS_BUDGET_EXHAUSTED = ''budget_exhausted''"
| "result_status_value RS_CANCELLED = ''cancelled''"
| "result_status_value RS_INVALID_OUTPUT = ''invalid_output''"
| "result_status_value RS_STALE_INPUT = ''stale_input''"
| "result_status_value RS_POLICY_PAUSED = ''policy_paused''"
| "result_status_value RS_FAILED = ''failed''"

datatype retry_class = RETRY_NEVER | RETRY_TRANSIENT | RETRY_POLICY | RETRY_STALE

fun retry_class_value :: "retry_class \<Rightarrow> string" where
  "retry_class_value RETRY_NEVER = ''never''"
| "retry_class_value RETRY_TRANSIENT = ''transient''"
| "retry_class_value RETRY_POLICY = ''policy''"
| "retry_class_value RETRY_STALE = ''stale''"

fun retry_class_for_status :: "result_status \<Rightarrow> retry_class option" where
  "retry_class_for_status RS_SUCCEEDED = None"
| "retry_class_for_status RS_UNAVAILABLE = Some RETRY_TRANSIENT"
| "retry_class_for_status RS_BUDGET_EXHAUSTED = Some RETRY_NEVER"
| "retry_class_for_status RS_CANCELLED = Some RETRY_NEVER"
| "retry_class_for_status RS_INVALID_OUTPUT = Some RETRY_NEVER"
| "retry_class_for_status RS_STALE_INPUT = Some RETRY_STALE"
| "retry_class_for_status RS_POLICY_PAUSED = Some RETRY_POLICY"
| "retry_class_for_status RS_FAILED = Some RETRY_NEVER"

record usage_summary =
  us_requests :: nat
  us_input_tokens :: nat
  us_output_tokens :: nat
  us_tool_calls :: nat

record validation_result =
  vr_validator_key :: string
  vr_passed :: bool
  vr_code :: string

definition make_validation_result :: "validation_result \<Rightarrow> validation_result result" where
  "make_validation_result v =
     validated
       [raise_if (\<not> is_identifier (vr_validator_key v)) (FieldError ''validator_key''),
        raise_if (\<not> is_identifier (vr_code v)) (FieldError ''code'')] v"

definition WITHHELD_REASON_CODES :: "string list" where
  "WITHHELD_REASON_CODES =
     [''withheld.not_authored'', ''withheld.duplicated'', ''withheld.pin_mismatch'',
      ''withheld.evidence_outside_manifest'', ''withheld.evidence_not_declared_as_used'',
      ''withheld.context_without_evidence'']"

text \<open>The kind of a withheld item is always \<open>bead\<close>.\<close>

record withheld_item =
  wi_item_id :: string
  wi_reason_code :: string

definition make_withheld_item :: "withheld_item \<Rightarrow> withheld_item result" where
  "make_withheld_item w =
     validated
       [raise_if (wi_item_id w = []) (FieldError ''item_id''),
        raise_if (wi_reason_code w \<notin> set WITHHELD_REASON_CODES)
          (ValueError (''unregistered withheld reason: '' @ wi_reason_code w))] w"

record 'o task_result =
  tr_status :: result_status
  tr_task_id :: string
  tr_attempt_id :: string
  tr_task_kind :: string
  tr_contract_revision :: int
  tr_output_contract_hash :: string
  tr_typed_output :: "'o option"
  tr_output_hash :: "string option"
  tr_used_evidence_refs :: "string list"
  tr_model_run_refs :: "string list"
  tr_validation_results :: "validation_result list"
  tr_usage :: usage_summary
  tr_error_code :: "string option"
  tr_retry_class :: "retry_class option"
  tr_withheld_items :: "withheld_item list"

definition succeeded_checks :: "('p, 'o) contract_env \<Rightarrow> 'o task_result \<Rightarrow> py_error option list" where
  "succeeded_checks E r =
     [raise_if (tr_typed_output r = None \<or> tr_output_hash r = None)
        (ValueError ''succeeded results require typed output and output hash''),
      raise_if (tr_error_code r \<noteq> None \<or> tr_retry_class r \<noteq> None)
        (ValueError ''succeeded results cannot carry failure metadata''),
      raise_if
        (map_option (\<lambda>out. canonical_sha256 (ce_hash E) (ce_output_json E out)) (tr_typed_output r)
          \<noteq> tr_output_hash r)
        (ValueError ''succeeded output_hash must match typed_output'')]"

definition unsuccessful_checks :: "'o task_result \<Rightarrow> py_error option list" where
  "unsuccessful_checks r =
     [raise_if (tr_typed_output r \<noteq> None \<or> tr_output_hash r \<noteq> None)
        (ValueError ''non-success results cannot carry authored output''),
      raise_if (tr_error_code r = None) (ValueError ''non-success results require error_code''),
      raise_if (tr_retry_class r \<noteq> retry_class_for_status (tr_status r))
        (ValueError (result_status_value (tr_status r) @ '' results require retry_class=''
          @ (case retry_class_for_status (tr_status r) of
               None \<Rightarrow> ''None'' | Some c \<Rightarrow> retry_class_value c)))]"

definition make_task_result :: "('p, 'o) contract_env \<Rightarrow> 'o task_result \<Rightarrow> 'o task_result result" where
  "make_task_result E r =
     validated
       ([raise_if (tr_task_id r = []) (FieldError ''task_id''),
         raise_if (tr_attempt_id r = []) (FieldError ''attempt_id''),
         raise_if (\<not> is_identifier (tr_task_kind r)) (FieldError ''task_kind''),
         raise_if (tr_contract_revision r < 1) (FieldError ''contract_revision''),
         raise_if (\<not> is_sha256 (tr_output_contract_hash r)) (FieldError ''output_contract_hash''),
         raise_if (\<not> opt_field (ce_output_ok E) (tr_typed_output r)) (FieldError ''typed_output''),
         raise_if (\<not> opt_field is_sha256 (tr_output_hash r)) (FieldError ''output_hash''),
         nested_list make_validation_result (tr_validation_results r),
         raise_if (\<not> opt_field is_identifier (tr_error_code r)) (FieldError ''error_code''),
         nested_list make_withheld_item (tr_withheld_items r)]
        @ (if tr_status r = RS_SUCCEEDED then succeeded_checks E r else unsuccessful_checks r)
        @ [raise_if (\<not> distinct (tr_used_evidence_refs r))
             (ValueError ''used evidence references must be unique''),
           raise_if (tr_withheld_items r \<noteq> [] \<and> tr_status r \<noteq> RS_SUCCEEDED)
             (ValueError ''only succeeded results withhold items''),
           raise_if (\<not> distinct (map wi_item_id (tr_withheld_items r)))
             (ValueError ''withheld items must be unique'')])
       r"

section \<open>Runs and their dependencies\<close>

text \<open>The dependencies of a run, without the ports that reading and accepting do not use.\<close>

record semantic_run_deps =
  sd_task_id :: string
  sd_task_kind :: string
  sd_contract_revision :: int
  sd_task_contract_hash :: string
  sd_semantic_registry_hash :: string
  sd_attempt_id :: string
  sd_lease_generation :: nat
  sd_authorized_evidence_manifest :: evidence_manifest

record 'p resolved_task =
  rt_definition :: task_definition
  rt_task_input :: "'p task_input"
  rt_effective_effort :: effort_profile
  rt_effective_budget :: run_budget
  rt_semantic_registry_hash :: string

datatype acceptance_code =
    AC_INVALID_ENVELOPE | AC_DEPENDENCY_TASK_MISMATCH | AC_DEPENDENCY_CONTRACT_MISMATCH
  | AC_DEPENDENCY_REGISTRY_MISMATCH | AC_DEPENDENCY_EVIDENCE_MISMATCH | AC_TASK_ID_MISMATCH
  | AC_ATTEMPT_ID_MISMATCH | AC_TASK_KIND_MISMATCH | AC_CONTRACT_REVISION_MISMATCH
  | AC_OUTPUT_CONTRACT_MISMATCH | AC_OUTPUT_TYPE_MISMATCH | AC_EVIDENCE_SCOPE_WIDENED
  | AC_USAGE_MISMATCH | AC_BUDGET_EXCEEDED

text \<open>\<open>SemanticTaskResultAcceptanceError\<close>: its code and detail.\<close>

type_synonym acceptance_error = "acceptance_code \<times> string"

definition mismatched_evidence :: "evidence_manifest \<Rightarrow> evidence_manifest \<Rightarrow> string list" where
  "mismatched_evidence authorized requested =
     sort (map er_reference_id
       (filter (\<lambda>r. dict_get er_reference_id (em_references authorized) (er_reference_id r) \<noteq> Some r)
          (em_references requested)))"

definition validate_dependencies ::
  "('p, 'o) contract_env \<Rightarrow> 'p resolved_task \<Rightarrow> semantic_run_deps \<Rightarrow> acceptance_error + unit" where
  "validate_dependencies E task deps =
     (let d = rt_definition task;
          requested = ti_evidence_manifest (rt_task_input task);
          authorized = sd_authorized_evidence_manifest deps
      in validated
           [raise_if (sd_task_id deps \<noteq> ti_task_id (rt_task_input task)
                \<or> sd_task_kind deps \<noteq> td_task_kind d \<or> sd_contract_revision deps \<noteq> td_contract_revision d)
              (AC_DEPENDENCY_TASK_MISMATCH, ''dependency task identity differs from the resolved task''),
            raise_if (sd_task_contract_hash deps \<noteq> contract_hash E d)
              (AC_DEPENDENCY_CONTRACT_MISMATCH,
               ''dependency task contract hash differs from the resolved definition''),
            raise_if (sd_semantic_registry_hash deps \<noteq> rt_semantic_registry_hash task)
              (AC_DEPENDENCY_REGISTRY_MISMATCH,
               ''dependency semantic registry hash differs from resolution''),
            raise_if (em_manifest_id requested \<noteq> em_manifest_id authorized
                \<or> em_revision requested \<noteq> em_revision authorized)
              (AC_DEPENDENCY_EVIDENCE_MISMATCH,
               ''dependency evidence manifest identity or revision differs''),
            raise_if (mismatched_evidence authorized requested \<noteq> [])
              (AC_DEPENDENCY_EVIDENCE_MISMATCH,
               ''dependency evidence differs for: ''
               @ join '', '' (mismatched_evidence authorized requested))]
           ())"

definition differs :: "string \<Rightarrow> string \<Rightarrow> string" where
  "differs expected actual = ''expected '' @ expected @ ''; received '' @ actual"

definition identity_checks ::
  "('p, 'o) contract_env \<Rightarrow> 'p resolved_task \<Rightarrow> semantic_run_deps \<Rightarrow> 'o task_result
    \<Rightarrow> acceptance_error option list" where
  "identity_checks E task deps r =
     (let d = rt_definition task; i = rt_task_input task; h = schema_hash E (td_output_contract d)
      in [raise_if (tr_task_id r \<noteq> ti_task_id i)
            (AC_TASK_ID_MISMATCH, differs (py_repr (ti_task_id i)) (py_repr (tr_task_id r))),
          raise_if (tr_attempt_id r \<noteq> sd_attempt_id deps)
            (AC_ATTEMPT_ID_MISMATCH, differs (py_repr (sd_attempt_id deps)) (py_repr (tr_attempt_id r))),
          raise_if (tr_task_kind r \<noteq> td_task_kind d)
            (AC_TASK_KIND_MISMATCH, differs (py_repr (td_task_kind d)) (py_repr (tr_task_kind r))),
          raise_if (tr_contract_revision r \<noteq> td_contract_revision d)
            (AC_CONTRACT_REVISION_MISMATCH,
             differs (str_int (td_contract_revision d)) (str_int (tr_contract_revision r))),
          raise_if (tr_output_contract_hash r \<noteq> h)
            (AC_OUTPUT_CONTRACT_MISMATCH, differs (py_repr h) (py_repr (tr_output_contract_hash r)))])"

definition output_type_differs ::
  "('p, 'o) contract_env \<Rightarrow> 'p resolved_task \<Rightarrow> 'o task_result \<Rightarrow> bool" where
  "output_type_differs E task r \<longleftrightarrow>
     (case tr_typed_output r of
        None \<Rightarrow> False
      | Some out \<Rightarrow> ce_output_type E out \<noteq> tc_model_type (td_output_contract (rt_definition task)))"

definition widened_evidence :: "'p resolved_task \<Rightarrow> 'o task_result \<Rightarrow> string list" where
  "widened_evidence task r =
     sort (remdups (filter
       (\<lambda>x. x \<notin> er_reference_id ` set (em_references (ti_evidence_manifest (rt_task_input task))))
       (tr_used_evidence_refs r)))"

definition budget_exceeded :: "usage_summary \<Rightarrow> run_budget \<Rightarrow> bool" where
  "budget_exceeded u b \<longleftrightarrow>
     us_requests u > rb_request_limit b \<or> us_input_tokens u > rb_input_token_limit b
     \<or> us_output_tokens u > rb_output_token_limit b
     \<or> us_input_tokens u + us_output_tokens u > rb_total_token_limit b
     \<or> us_tool_calls u > rb_tool_call_limit b"

text \<open>\<open>trusted\<close> is the snapshot of the trusted usage counter.\<close>

definition accept_semantic_task_result ::
  "('p, 'o) contract_env \<Rightarrow> 'p resolved_task \<Rightarrow> semantic_run_deps \<Rightarrow> usage_summary \<Rightarrow> 'o task_result
    \<Rightarrow> acceptance_error + 'o task_result" where
  "accept_semantic_task_result E task deps trusted r =
     (let contract = td_output_contract (rt_definition task)
      in bindE (validate_dependencies E task deps) (\<lambda>_.
         if output_type_differs E task r then Inl (AC_OUTPUT_TYPE_MISMATCH, tc_contract_id contract)
         else
           case make_task_result E r of
             Inl e \<Rightarrow>
               Inl (AC_INVALID_ENVELOPE, ''executor result failed complete envelope revalidation'')
           | Inr r \<Rightarrow>
               validated
                 (identity_checks E task deps r
                  @ [raise_if (output_type_differs E task r)
                       (AC_OUTPUT_TYPE_MISMATCH, tc_contract_id contract),
                     raise_if (widened_evidence task r \<noteq> [])
                       (AC_EVIDENCE_SCOPE_WIDENED, join '', '' (widened_evidence task r)),
                     raise_if (tr_usage r \<noteq> trusted)
                       (AC_USAGE_MISMATCH, ''executor usage summary differs from the trusted counter''),
                     raise_if (budget_exceeded trusted (rt_effective_budget task)
                         \<and> tr_status r \<noteq> RS_BUDGET_EXHAUSTED)
                       (AC_BUDGET_EXCEEDED, ''executor usage exceeds the resolved task budget'')])
                 r))"

text \<open>
  \<open>execute_semantic_task\<close>: the executor and the usage counter act on a world; what the executor
  raises passes through.
\<close>

datatype 'x execution_error = Refused acceptance_error | ExecutorRaised 'x

definition execute_semantic_task ::
  "('p, 'o) contract_env
    \<Rightarrow> ('p resolved_task \<Rightarrow> semantic_run_deps \<Rightarrow> 'w \<Rightarrow> ('x + 'o task_result) \<times> 'w)
    \<Rightarrow> ('w \<Rightarrow> usage_summary) \<Rightarrow> 'p resolved_task \<Rightarrow> semantic_run_deps \<Rightarrow> 'w
    \<Rightarrow> ('x execution_error + 'o task_result) \<times> 'w" where
  "execute_semantic_task E executor usage task deps w =
     (case validate_dependencies E task deps of
        Inl e \<Rightarrow> (Inl (Refused e), w)
      | Inr _ \<Rightarrow>
          (case executor task deps w of
             (Inl x, w') \<Rightarrow> (Inl (ExecutorRaised x), w')
           | (Inr r, w') \<Rightarrow>
               (case accept_semantic_task_result E task deps (usage w') r of
                  Inl e \<Rightarrow> (Inl (Refused e), w')
                | Inr r' \<Rightarrow> (Inr r', w'))))"

end
