(* ===== verification/SemanticRegistry.thy ===== *)
theory SemanticRegistry
  imports SemanticResults
begin

text \<open>
  \<open>application/semantic_task_registry.py\<close>: \<open>inspect_semantic_task_registry\<close>, one definition per
  group of checks, the registry built from an accepted inspection, and \<open>resolve\<close>.
\<close>

definition KERNEL_SEMANTIC_TASK_OWNER :: string where
  "KERNEL_SEMANTIC_TASK_OWNER = ''memoriesql.kernel''"

section \<open>Issues\<close>

text \<open>An issue is the \<open>validation_issue\<close> of the module registry, with the codes of this one.\<close>

record semantic_inspection =
  si_registry_hash :: string
  si_issues :: "validation_issue list"

definition si_compatible :: "semantic_inspection \<Rightarrow> bool" where
  "si_compatible i \<longleftrightarrow> si_issues i = []"

record semantic_catalogs =
  sc_definitions :: "task_definition list"
  sc_agents :: "agent_contract list"
  sc_tools :: "string list"
  sc_effort_profiles :: "effort_profile list"
  sc_model_profiles :: "model_profile list"
  sc_evidence_policies :: "string list"

definition duplicate_keys :: "string list \<Rightarrow> string list" where
  "duplicate_keys vs = sort (remdups (filter (\<lambda>v. 1 < count_list vs v) vs))"

definition profile_label :: "model_profile \<Rightarrow> string" where
  "profile_label p = mp_profile_key p @ ''@'' @ str_nat (mp_revision p)"

definition catalog_issues :: "string \<Rightarrow> string list \<Rightarrow> validation_issue list" where
  "catalog_issues code keys =
     map (\<lambda>k. issue code k ''catalog key is registered more than once'') (duplicate_keys keys)"

definition duplicate_catalog_issues :: "semantic_catalogs \<Rightarrow> validation_issue list" where
  "duplicate_catalog_issues c =
     catalog_issues ''duplicate_agent'' (map ac_agent_key (sc_agents c))
     @ catalog_issues ''duplicate_tool'' (sc_tools c)
     @ catalog_issues ''duplicate_effort'' (map ef_key (sc_effort_profiles c))
     @ catalog_issues ''duplicate_profile'' (map profile_label (sc_model_profiles c))
     @ catalog_issues ''duplicate_evidence_policy'' (sc_evidence_policies c)
     @ map (\<lambda>k. issue ''duplicate_effort_rank'' k ''effort ranks must define one total order'')
         (duplicate_keys (map (str_nat \<circ> ef_rank) (sc_effort_profiles c)))"

definition task_key :: "task_definition \<Rightarrow> string \<times> int" where
  "task_key d = (td_task_kind d, td_contract_revision d)"

definition task_label :: "task_definition \<Rightarrow> string" where
  "task_label d = td_task_kind d @ ''@'' @ str_int (td_contract_revision d)"

text \<open>The typed contracts seen so far, the first of each id and revision first.\<close>

definition contract_key :: "typed_contract \<Rightarrow> string \<times> nat" where
  "contract_key c = (tc_contract_id c, tc_revision c)"

definition known_contract :: "typed_contract list \<Rightarrow> string \<times> nat \<Rightarrow> typed_contract option" where
  "known_contract cs k = find (\<lambda>c. contract_key c = k) cs"

definition note_contract :: "typed_contract \<Rightarrow> typed_contract list \<Rightarrow> typed_contract list" where
  "note_contract c cs = (if known_contract cs (contract_key c) = None then cs @ [c] else cs)"

definition collision_issues ::
  "('p, 'o) contract_env \<Rightarrow> typed_contract list \<Rightarrow> typed_contract \<Rightarrow> validation_issue list" where
  "collision_issues E cs c =
     (case known_contract cs (contract_key c) of
        None \<Rightarrow> []
      | Some prior \<Rightarrow>
          issue_if (schema_hash E prior \<noteq> schema_hash E c \<or> tc_model_type prior \<noteq> tc_model_type c)
            (issue ''contract_collision'' (tc_contract_id c @ ''@'' @ str_nat (tc_revision c))
               ''one contract revision has multiple schemas or model classes''))"

definition unsupported_issues ::
  "class_table \<Rightarrow> string \<Rightarrow> string \<Rightarrow> typed_contract \<Rightarrow> validation_issue list" where
  "unsupported_issues T subject boundary c =
     (case model_issue T [] (tc_model_type c) of
        None \<Rightarrow> []
      | Some i \<Rightarrow> [issue ''incompatible_contract'' subject
                    (boundary @ '' contract is unsupported: '' @ i)])"

text \<open>The first loop over the definitions: \<open>seen\<close> are the keys of \<open>definitions_by_key\<close>.\<close>

fun contract_issues ::
  "('p, 'o) contract_env \<Rightarrow> class_table \<Rightarrow> (string \<times> int) list \<Rightarrow> typed_contract list
    \<Rightarrow> task_definition list \<Rightarrow> validation_issue list \<times> typed_contract list" where
  "contract_issues E T seen cs [] = ([], cs)"
| "contract_issues E T seen cs (d # ds) =
     (let input = td_input_contract d; output = td_output_contract d;
          cs1 = note_contract input cs; cs2 = note_contract output cs1;
          (rest, cs') = contract_issues E T (task_key d # seen) cs2 ds
      in (issue_if (task_key d \<in> set seen)
            (issue ''duplicate_task_revision'' (task_label d)
               ''task revision is registered more than once'')
          @ collision_issues E cs input @ collision_issues E cs1 output
          @ unsupported_issues T (task_label d) ''input'' input
          @ unsupported_issues T (task_label d) ''output'' output @ rest, cs'))"

section \<open>Module contributions\<close>

definition contributed_tasks :: "module_manifest \<Rightarrow> string list" where
  "contributed_tasks m =
     map co_identifier (filter (\<lambda>c. co_kind c = SEMANTIC_TASK) (mm_contributions m))"

definition orphan_issues :: "module_registry \<Rightarrow> task_definition list \<Rightarrow> validation_issue list" where
  "orphan_issues g ds =
     concat (map (\<lambda>m. concat (map (\<lambda>t. issue_if (t \<notin> td_task_kind ` set ds)
         (issue ''orphan_module_contribution'' t
            (''declared by '' @ mm_module_id m @ '' without a task definition'')))
       (contributed_tasks m))) (rg_manifests g))"

definition owner_issues :: "module_registry \<Rightarrow> task_definition \<Rightarrow> validation_issue list" where
  "owner_issues g d =
     (if td_owning_module d = KERNEL_SEMANTIC_TASK_OWNER then []
      else case dict_get mm_module_id (rg_manifests g) (td_owning_module d) of
             None \<Rightarrow> [issue ''unknown_module'' (task_label d) (td_owning_module d)]
           | Some m \<Rightarrow>
               issue_if (\<not> (\<exists>m' \<in> set (rg_manifests g). mm_module_id m' = mm_module_id m
                            \<and> td_task_kind d \<in> set (contributed_tasks m')))
                 (issue ''missing_module_contribution'' (task_label d)
                    (mm_module_id m @ '' does not declare this semantic task'')))"

section \<open>Checks on one definition\<close>

definition incompatible :: "task_definition \<Rightarrow> string \<Rightarrow> validation_issue" where
  "incompatible d detail = issue ''incompatible_contract'' (task_label d) detail"

definition identity_issues_of :: "task_definition \<Rightarrow> validation_issue list" where
  "identity_issues_of d =
     issue_if (\<not> is_identifier (td_task_kind d))
       (incompatible d ''task kind is not a canonical identifier'')
     @ issue_if (td_contract_revision d < 1) (incompatible d ''contract revision must be positive'')"

definition duplicates_issues :: "task_definition \<Rightarrow> validation_issue list" where
  "duplicates_issues d =
     issue_if (\<not> distinct (td_allowed_delegate_keys d))
       (incompatible d ''allowed_delegate_keys contains duplicates'')
     @ issue_if (\<not> distinct (td_allowed_tool_keys d))
       (incompatible d ''allowed_tool_keys contains duplicates'')"

definition effort_by_key :: "semantic_catalogs \<Rightarrow> string \<Rightarrow> effort_profile option" where
  "effort_by_key c = dict_get ef_key (sc_effort_profiles c)"

definition agent_by_key :: "semantic_catalogs \<Rightarrow> string \<Rightarrow> agent_contract option" where
  "agent_by_key c = dict_get ac_agent_key (sc_agents c)"

definition exceeds :: "effort_profile option \<Rightarrow> effort_profile option \<Rightarrow> bool" where
  "exceeds a b \<longleftrightarrow> (case (a, b) of (Some x, Some y) \<Rightarrow> ef_rank x > ef_rank y | _ \<Rightarrow> False)"

definition effort_issues :: "semantic_catalogs \<Rightarrow> task_definition \<Rightarrow> validation_issue list" where
  "effort_issues c d =
     concat (map (\<lambda>k. issue_if (effort_by_key c k = None) (issue ''unknown_effort'' (task_label d) k))
       [td_default_effort_key d, td_maximum_effort_key d])
     @ issue_if (exceeds (effort_by_key c (td_default_effort_key d))
                   (effort_by_key c (td_maximum_effort_key d)))
         (incompatible d ''default effort exceeds maximum effort'')"

definition profile_issues :: "semantic_catalogs \<Rightarrow> task_definition \<Rightarrow> validation_issue list" where
  "profile_issues c d =
     (let p = td_model_profile d
      in issue_if
           (dict_get (\<lambda>q. (mp_profile_key q, mp_revision q)) (sc_model_profiles c)
              (mp_profile_key p, mp_revision p) \<noteq> Some p)
           (issue ''unknown_profile'' (task_label d) (profile_label p))
         @ issue_if (mp_effort_key p \<noteq> td_maximum_effort_key d)
             (incompatible d ''model profile must match the task maximum effort''))"

definition policy_and_tool_issues :: "semantic_catalogs \<Rightarrow> task_definition \<Rightarrow> validation_issue list" where
  "policy_and_tool_issues c d =
     issue_if (td_evidence_policy_key d \<notin> set (sc_evidence_policies c))
       (issue ''unknown_evidence_policy'' (task_label d) (td_evidence_policy_key d))
     @ concat (map (\<lambda>t. issue_if (t \<notin> set (sc_tools c)) (issue ''unknown_tool'' (task_label d) t))
         (td_allowed_tool_keys d))"

definition RUNTIME_SPECIALISTS :: "((string \<times> int) \<times> string) list" where
  "RUNTIME_SPECIALISTS =
     [((''memory.semantic.author-complete-unit'', 5), ''memory.semantic.bead-type-classifier''),
      ((''memory.semantic.assess-relations'', 1), ''memory.semantic.relation-specialist''),
      ((''memory.semantic.assess-relations'', 2), ''memory.semantic.relation-specialist'')]"

definition classified :: "semantic_catalogs \<Rightarrow> task_definition \<Rightarrow> bool" where
  "classified c d \<longleftrightarrow>
     (case map_of RUNTIME_SPECIALISTS (task_key d) of
        None \<Rightarrow> False
      | Some s \<Rightarrow> td_allowed_delegate_keys d = [s] \<and> rb_max_delegate_calls (td_run_budget d) = 1
          \<and> rb_max_parallel_delegates (td_run_budget d) = 1 \<and> agent_by_key c s \<noteq> None)"

text \<open>The effort ceiling of an agent: \<open>None\<close> is an unknown key.\<close>

definition ceiling_issues ::
  "semantic_catalogs \<Rightarrow> task_definition \<Rightarrow> agent_contract \<Rightarrow> string \<Rightarrow> string \<Rightarrow> validation_issue list" where
  "ceiling_issues c d a unknown exceeded =
     (case effort_by_key c (ac_maximum_effort_key a) of
        None \<Rightarrow> [issue ''unknown_effort'' (task_label d) unknown]
      | Some e \<Rightarrow>
          issue_if (exceeds (effort_by_key c (td_maximum_effort_key d)) (Some e))
            (incompatible d exceeded))"

definition leaf_issues ::
  "('p, 'o) contract_env \<Rightarrow> semantic_catalogs \<Rightarrow> task_definition \<Rightarrow> agent_contract \<Rightarrow> validation_issue list" where
  "leaf_issues E c d leaf =
     issue_if (ac_may_delegate leaf) (incompatible d ''a direct leaf cannot delegate'')
     @ issue_if (ac_input_contract leaf \<noteq> contract_reference_of E (td_input_contract d))
         (incompatible d ''leaf input contract differs from the task input contract'')
     @ issue_if (ac_output_contract leaf \<noteq> contract_reference_of E (td_output_contract d))
         (incompatible d ''leaf output contract differs from the task output contract'')
     @ ceiling_issues c d leaf (ac_maximum_effort_key leaf)
         ''task effort exceeds the leaf agent ceiling''"

definition direct_leaf_issues ::
  "('p, 'o) contract_env \<Rightarrow> semantic_catalogs \<Rightarrow> task_definition \<Rightarrow> validation_issue list" where
  "direct_leaf_issues E c d =
     issue_if (td_leaf_agent_key d = None
         \<or> td_allowed_delegate_keys d \<noteq> [] \<and> \<not> classified c d
         \<or> td_allowed_tool_keys d \<noteq> []
         \<or> rb_max_delegate_calls (td_run_budget d) \<noteq> 0 \<and> \<not> classified c d
         \<or> rb_max_parallel_delegates (td_run_budget d) \<noteq> 0 \<and> \<not> classified c d)
       (incompatible d ''direct_leaf requires one leaf and no tools or delegation'')
     @ (case td_leaf_agent_key d of
          None \<Rightarrow> []
        | Some k \<Rightarrow>
            (case agent_by_key c k of
               None \<Rightarrow> [issue ''unknown_agent'' (task_label d) k]
             | Some leaf \<Rightarrow> leaf_issues E c d leaf))"

definition delegate_contract_issues ::
  "('p, 'o) contract_env \<Rightarrow> typed_contract list \<Rightarrow> task_definition \<Rightarrow> string \<Rightarrow> string \<times> contract_reference
    \<Rightarrow> validation_issue list" where
  "delegate_contract_issues E cs d k x =
     (case x of (boundary, r) \<Rightarrow>
        issue_if
          (case known_contract cs (cf_contract_id r, cf_revision r) of
             None \<Rightarrow> True
           | Some c \<Rightarrow> schema_hash E c \<noteq> cf_schema_hash r)
          (issue ''unknown_contract'' (task_label d)
             (''delegate '' @ k @ '' '' @ boundary @ '' contract '' @ cf_contract_id r @ ''@''
              @ str_nat (cf_revision r) @ '' is not in the typed contract catalog'')))"

definition delegate_issues ::
  "('p, 'o) contract_env \<Rightarrow> semantic_catalogs \<Rightarrow> typed_contract list \<Rightarrow> task_definition \<Rightarrow> string
    \<Rightarrow> validation_issue list" where
  "delegate_issues E c cs d k =
     (case agent_by_key c k of
        None \<Rightarrow> [issue ''unknown_agent'' (task_label d) k]
      | Some a \<Rightarrow>
          issue_if (ac_may_delegate a)
            (incompatible d (''delegate '' @ k @ '' cannot recursively delegate''))
          @ concat (map (delegate_contract_issues E cs d k)
              [(''input'', ac_input_contract a), (''output'', ac_output_contract a)])
          @ ceiling_issues c d a (k @ '': '' @ ac_maximum_effort_key a)
              (''task effort exceeds delegate '' @ k @ '' ceiling''))"

definition conductor_issues ::
  "('p, 'o) contract_env \<Rightarrow> semantic_catalogs \<Rightarrow> typed_contract list \<Rightarrow> task_definition
    \<Rightarrow> validation_issue list" where
  "conductor_issues E c cs d =
     issue_if (td_leaf_agent_key d \<noteq> None)
       (incompatible d ''conductor tasks cannot also name a direct leaf'')
     @ issue_if (rb_max_delegate_calls (td_run_budget d) < 1
           \<or> rb_max_parallel_delegates (td_run_budget d) < 1)
         (incompatible d ''conductor tasks require bounded non-zero delegation limits'')
     @ concat (map (delegate_issues E c cs d) (td_allowed_delegate_keys d))"

definition definition_issues ::
  "('p, 'o) contract_env \<Rightarrow> module_registry \<Rightarrow> semantic_catalogs \<Rightarrow> typed_contract list \<Rightarrow> task_definition
    \<Rightarrow> validation_issue list" where
  "definition_issues E g c cs d =
     identity_issues_of d @ owner_issues g d @ duplicates_issues d @ effort_issues c d
     @ profile_issues c d @ policy_and_tool_issues c d
     @ (if td_dispatch_mode d = DIRECT_LEAF then direct_leaf_issues E c d
        else conductor_issues E c cs d)"

section \<open>The inspection\<close>

definition agent_json :: "agent_contract \<Rightarrow> json" where
  "agent_json a =
     JObj [(''key'', JStr (ac_agent_key a)),
           (''input_contract'', contract_reference_json (ac_input_contract a)),
           (''output_contract'', contract_reference_json (ac_output_contract a)),
           (''maximum_effort_key'', JStr (ac_maximum_effort_key a)),
           (''may_delegate'', JBool (ac_may_delegate a))]"

definition semantic_registry_payload ::
  "('p, 'o) contract_env \<Rightarrow> module_registry \<Rightarrow> semantic_catalogs \<Rightarrow> json" where
  "semantic_registry_payload E g c =
     JObj [(''registry_version'', JInt 1),
           (''module_registry_hash'', JStr (rg_combined_module_version g)),
           (''definitions'', JList (map (definition_payload E) (sort_key task_key (sc_definitions c)))),
           (''agents'', JList (map agent_json (sort_key ac_agent_key (sc_agents c)))),
           (''tools'', JList (map JStr (sort (sc_tools c)))),
           (''effort_profiles'', JList (map effort_json (sort_key ef_key (sc_effort_profiles c)))),
           (''model_profiles'',
              JList (map model_profile_json
                (sort_key (\<lambda>p. (mp_profile_key p, mp_revision p)) (sc_model_profiles c)))),
           (''evidence_policies'', JList (map JStr (sort (sc_evidence_policies c))))]"

definition registry_issues ::
  "('p, 'o) contract_env \<Rightarrow> class_table \<Rightarrow> module_registry \<Rightarrow> semantic_catalogs \<Rightarrow> validation_issue list" where
  "registry_issues E T g c =
     (let (found, contracts) = contract_issues E T [] [] (sc_definitions c)
      in duplicate_catalog_issues c @ found @ orphan_issues g (sc_definitions c)
         @ concat (map (definition_issues E g c contracts) (sc_definitions c)))"

definition inspect_semantic_task_registry ::
  "('p, 'o) contract_env \<Rightarrow> class_table \<Rightarrow> module_registry \<Rightarrow> semantic_catalogs \<Rightarrow> semantic_inspection" where
  "inspect_semantic_task_registry E T g c =
     \<lparr>si_registry_hash =
        ''semantic-tasks-v1:'' @ canonical_sha256 (ce_hash E) (semantic_registry_payload E g c),
      si_issues = sort_key issue_sort_key (registry_issues E T g c)\<rparr>"

lemma si_issues_Nil: "si_issues (inspect_semantic_task_registry E T g c) = [] \<longleftrightarrow> registry_issues E T g c = []"
  by (metis inspect_semantic_task_registry_def semantic_inspection.select_convs(2) set_empty set_sort)

section \<open>The registry\<close>

datatype resolution_code =
    RE_UNKNOWN_TASK | RE_STALE_REVISION | RE_MODULE_DISABLED | RE_MODULE_DEGRADED
  | RE_INPUT_CONTRACT_MISMATCH | RE_UNKNOWN_EFFORT | RE_EFFORT_RAISED | RE_BUDGET_RAISED
  | RE_EVIDENCE_SCOPE_WIDENED | RE_EVIDENCE_BUDGET_EXHAUSTED | RE_EVIDENCE_MANIFEST_MISMATCH
  | RE_EVIDENCE_REFERENCE_MISMATCH | RE_DEPENDENCY_TASK_MISMATCH | RE_MODULE_REGISTRY_MISMATCH
  | RE_SEMANTIC_REGISTRY_MISMATCH

text \<open>The exceptions of the module; \<open>LookupError\<close> is a \<open>KeyError\<close>.\<close>

datatype semantic_error =
    SemanticRegistryRejected semantic_inspection
  | ResolutionError resolution_code string string
  | RegistryValueError string
  | LookupError string

type_synonym contract_models = "((string \<times> nat \<times> string) \<times> class_id) list"

record semantic_registry =
  sr_definitions :: "task_definition list"
  sr_effort_profiles :: "effort_profile list"
  sr_module_registry_version :: string
  sr_registry_hash :: string
  sr_contract_models :: contract_models

definition model_key :: "('p, 'o) contract_env \<Rightarrow> typed_contract \<Rightarrow> string \<times> nat \<times> string" where
  "model_key E c = (tc_contract_id c, tc_revision c, schema_hash E c)"

text \<open>The dictionary of contract models: the head of the list is the last assignment.\<close>

fun definition_models :: "('p, 'o) contract_env \<Rightarrow> task_definition list \<Rightarrow> contract_models \<Rightarrow> contract_models" where
  "definition_models E [] m = m"
| "definition_models E (d # ds) m =
     definition_models E ds
       ((model_key E (td_output_contract d), tc_model_type (td_output_contract d))
        # (model_key E (td_input_contract d), tc_model_type (td_input_contract d)) # m)"

fun leaf_models ::
  "('p, 'o) contract_env \<Rightarrow> typed_contract list \<Rightarrow> contract_models \<Rightarrow> semantic_error + contract_models" where
  "leaf_models E [] m = Inr m"
| "leaf_models E (c # cs) m =
     (if (case map_of m (model_key E c) of None \<Rightarrow> False | Some t \<Rightarrow> t \<noteq> tc_model_type c)
      then Inl (RegistryValueError ''conflicting typed leaf contract'')
      else leaf_models E cs ((model_key E c, tc_model_type c) # m))"

definition make_semantic_registry ::
  "('p, 'o) contract_env \<Rightarrow> task_definition list \<Rightarrow> effort_profile list \<Rightarrow> string \<Rightarrow> string
    \<Rightarrow> typed_contract list \<Rightarrow> semantic_error + semantic_registry" where
  "make_semantic_registry E ds efforts version h leaves =
     bindE (leaf_models E leaves (definition_models E ds [])) (\<lambda>models.
     Inr \<lparr>sr_definitions = ds, sr_effort_profiles = efforts, sr_module_registry_version = version,
          sr_registry_hash = h, sr_contract_models = models\<rparr>)"

definition semantic_registry_from ::
  "('p, 'o) contract_env \<Rightarrow> class_table \<Rightarrow> module_registry \<Rightarrow> semantic_catalogs \<Rightarrow> typed_contract list
    \<Rightarrow> semantic_error + semantic_registry" where
  "semantic_registry_from E T g c leaves =
     (let i = inspect_semantic_task_registry E T g c
      in if si_issues i \<noteq> [] then Inl (SemanticRegistryRejected i)
         else if list_ex (\<lambda>l. \<not> list_ex (\<lambda>a. contract_reference_of E l = ac_input_contract a
                 \<or> contract_reference_of E l = ac_output_contract a) (sc_agents c)) leaves
         then Inl (RegistryValueError ''typed leaf contract lacks a registered agent reference'')
         else make_semantic_registry E (sort_key task_key (sc_definitions c)) (sc_effort_profiles c)
                (rg_combined_module_version g) (si_registry_hash i) leaves)"

definition contract_model_type :: "semantic_registry \<Rightarrow> contract_reference \<Rightarrow> semantic_error + class_id" where
  "contract_model_type R r =
     (case map_of (sr_contract_models R) (cf_contract_id r, cf_revision r, cf_schema_hash r) of
        None \<Rightarrow> Inl (LookupError (''typed contract is not registered: '' @ cf_contract_id r @ ''@''
                  @ str_nat (cf_revision r) @ '' ('' @ cf_schema_hash r @ '')''))
      | Some t \<Rightarrow> Inr t)"

section \<open>Resolution\<close>

definition sr_definition :: "semantic_registry \<Rightarrow> string \<times> int \<Rightarrow> task_definition option" where
  "sr_definition R k = dict_get task_key (sr_definitions R) k"

definition sr_revisions :: "semantic_registry \<Rightarrow> string \<Rightarrow> int list" where
  "sr_revisions R kind =
     sort (map td_contract_revision (filter (\<lambda>d. td_task_kind d = kind) (sr_definitions R)))"

definition sr_effort :: "semantic_registry \<Rightarrow> string \<Rightarrow> effort_profile option" where
  "sr_effort R k = dict_get ef_key (sr_effort_profiles R) k"

text \<open>\<open>repr\<close> of a tuple of integers.\<close>

definition tuple_repr :: "int list \<Rightarrow> string" where
  "tuple_repr xs =
     (case xs of [x] \<Rightarrow> ''('' @ str_int x @ '',)'' | _ \<Rightarrow> ''('' @ join '', '' (map str_int xs) @ '')'')"

definition refuse_if :: "bool \<Rightarrow> resolution_code \<Rightarrow> string \<Rightarrow> string \<Rightarrow> semantic_error option" where
  "refuse_if b code subject detail = raise_if b (ResolutionError code subject detail)"

definition pinned_dependencies ::
  "semantic_registry \<Rightarrow> 'p task_input \<Rightarrow> semantic_run_deps \<Rightarrow> semantic_error + unit" where
  "pinned_dependencies R i deps =
     validated
       [refuse_if (sd_task_id deps \<noteq> ti_task_id i) RE_DEPENDENCY_TASK_MISMATCH (ti_task_id i)
          ''trusted dependencies belong to a different task'',
        refuse_if (sd_semantic_registry_hash deps \<noteq> sr_registry_hash R) RE_SEMANTIC_REGISTRY_MISMATCH
          (ti_task_id i) ''trusted dependencies pin a different semantic registry revision'',
        refuse_if (sd_task_kind deps \<noteq> ti_task_kind i \<or> sd_contract_revision deps \<noteq> ti_contract_revision i)
          RE_DEPENDENCY_TASK_MISMATCH (ti_task_id i)
          ''trusted dependencies pin a different task kind or revision'']
       ()"

definition find_definition ::
  "semantic_registry \<Rightarrow> 'p task_input \<Rightarrow> semantic_error + task_definition" where
  "find_definition R i =
     (case sr_definition R (ti_task_kind i, ti_contract_revision i) of
        Some d \<Rightarrow> Inr d
      | None \<Rightarrow>
          (if sr_revisions R (ti_task_kind i) = []
           then Inl (ResolutionError RE_UNKNOWN_TASK (ti_task_kind i) ''task kind is not code-registered'')
           else Inl (ResolutionError RE_STALE_REVISION (ti_task_kind i)
                  (''requested '' @ str_int (ti_contract_revision i) @ ''; registered ''
                   @ tuple_repr (sr_revisions R (ti_task_kind i))))))"

definition checked_input ::
  "('p, 'o) contract_env \<Rightarrow> task_definition \<Rightarrow> semantic_run_deps \<Rightarrow> 'p task_input
    \<Rightarrow> semantic_error + 'p task_input" where
  "checked_input E d deps i =
     (if sd_task_contract_hash deps \<noteq> contract_hash E d
      then Inl (ResolutionError RE_DEPENDENCY_TASK_MISMATCH (ti_task_id i)
             ''trusted dependencies pin a different task contract hash'')
      else if ti_model i \<noteq> tc_model_type (td_input_contract d)
      then Inl (ResolutionError RE_INPUT_CONTRACT_MISMATCH (ti_task_kind i)
             (tc_contract_id (td_input_contract d)))
      else case make_task_input E i of
             Inl e \<Rightarrow> Inl (ResolutionError RE_INPUT_CONTRACT_MISMATCH (ti_task_kind i)
                       ''task input failed complete contract revalidation'')
           | Inr i' \<Rightarrow> Inr i')"

text \<open>The version that a composition of the pinned module registry has.\<close>

definition expected_composition_version ::
  "('p, 'o) contract_env \<Rightarrow> semantic_registry \<Rightarrow> composition_report \<Rightarrow> string" where
  "expected_composition_version E R r =
     ''modules-v1:''
     @ canonical_sha256 (ce_hash E)
         (JObj [(''registry'', JStr (sr_module_registry_version R)),
                (''profiles'', JList (map JStr (cr_profile_ids r))),
                (''modules'',
                   JList (map (\<lambda>m. JObj [(''id'', JStr (mh_module_id m)), (''version'', JStr (mh_version m)),
                                          (''state'', JStr (module_state_value (mh_state m)))])
                            (cr_modules r)))])"

definition module_state_of :: "composition_report \<Rightarrow> string \<Rightarrow> module_state" where
  "module_state_of r m =
     (case dict_get mh_module_id (cr_modules r) m of None \<Rightarrow> DISABLED | Some h \<Rightarrow> mh_state h)"

definition owner_enabled ::
  "('p, 'o) contract_env \<Rightarrow> semantic_registry \<Rightarrow> task_definition \<Rightarrow> composition_report \<Rightarrow> 'p task_input
    \<Rightarrow> semantic_error + unit" where
  "owner_enabled E R d r i =
     (let owner = td_owning_module d; state = module_state_of r owner
      in validated
           [refuse_if (cr_combined_module_version r \<noteq> expected_composition_version E R r)
              RE_MODULE_REGISTRY_MISMATCH (ti_task_kind i)
              ''composition was produced by a different module registry revision'',
            refuse_if (owner \<noteq> KERNEL_SEMANTIC_TASK_OWNER \<and> state = DISABLED) RE_MODULE_DISABLED owner
              ''owning module is not enabled in this composition'',
            refuse_if (owner \<noteq> KERNEL_SEMANTIC_TASK_OWNER \<and> state \<noteq> ENABLED) RE_MODULE_DEGRADED owner
              (''owning module state is '' @ module_state_value state)]
           ())"

text \<open>\<open>requested_effort_key or default_effort_key\<close>: an empty key counts as absent.\<close>

definition effective_effort ::
  "semantic_registry \<Rightarrow> task_definition \<Rightarrow> 'p task_input \<Rightarrow> semantic_error + effort_profile" where
  "effective_effort R d i =
     (let key = (case ti_requested_effort_key i of
                   None \<Rightarrow> td_default_effort_key d
                 | Some k \<Rightarrow> if k = [] then td_default_effort_key d else k)
      in case sr_effort R key of
           None \<Rightarrow> Inl (ResolutionError RE_UNKNOWN_EFFORT (ti_task_kind i) key)
         | Some e \<Rightarrow>
             (case sr_effort R (td_maximum_effort_key d) of
                None \<Rightarrow> Inl (LookupError (td_maximum_effort_key d))
              | Some m \<Rightarrow>
                  if ef_rank e > ef_rank m
                  then Inl (ResolutionError RE_EFFORT_RAISED (ti_task_kind i)
                         (''requested '' @ ef_key e @ ''; maximum '' @ ef_key m))
                  else Inr e))"

definition effective_budget :: "task_definition \<Rightarrow> 'p task_input \<Rightarrow> semantic_error + run_budget" where
  "effective_budget d i =
     (case ti_requested_budget i of
        None \<Rightarrow> Inr (td_run_budget d)
      | Some b \<Rightarrow>
          if is_not_wider_than b (td_run_budget d) then Inr b
          else Inl (ResolutionError RE_BUDGET_RAISED (ti_task_kind i)
                 ''requested budget exceeds the registered ceiling''))"

text \<open>
  The evidence of the input against the authorized manifest. The dictionaries are keyed by
  reference id; the declared characters are those of the authorized references.
\<close>

definition reference_ids :: "evidence_manifest \<Rightarrow> string list" where
  "reference_ids m = remdups (map er_reference_id (em_references m))"

definition evidence_by_id :: "evidence_manifest \<Rightarrow> string \<Rightarrow> evidence_reference option" where
  "evidence_by_id m = dict_get er_reference_id (em_references m)"

definition declared_characters :: "evidence_manifest \<Rightarrow> evidence_manifest \<Rightarrow> nat" where
  "declared_characters authorized requested =
     sum_list (map (\<lambda>k. case evidence_by_id authorized k of None \<Rightarrow> 0 | Some r \<Rightarrow> er_declared_characters r)
       (reference_ids requested))"

definition evidence_authorized ::
  "run_budget \<Rightarrow> semantic_run_deps \<Rightarrow> 'p task_input \<Rightarrow> semantic_error + unit" where
  "evidence_authorized b deps i =
     (let authorized = sd_authorized_evidence_manifest deps;
          requested = ti_evidence_manifest i;
          ids = reference_ids requested;
          widened = sort (filter (\<lambda>k. k \<notin> set (reference_ids authorized)) ids);
          mismatched = sort (filter (\<lambda>k. evidence_by_id requested k \<noteq> evidence_by_id authorized k) ids)
      in validated
           [refuse_if (em_manifest_id requested \<noteq> em_manifest_id authorized
                \<or> em_revision requested \<noteq> em_revision authorized)
              RE_EVIDENCE_MANIFEST_MISMATCH (ti_task_kind i)
              ''evidence manifest identity or revision differs from authorization'',
            refuse_if (widened \<noteq> []) RE_EVIDENCE_SCOPE_WIDENED (ti_task_kind i) (join '', '' widened),
            refuse_if (mismatched \<noteq> []) RE_EVIDENCE_REFERENCE_MISMATCH (ti_task_kind i)
              (''authorized evidence metadata differs for: '' @ join '', '' mismatched),
            refuse_if (length ids > rb_evidence_item_limit b
                \<or> declared_characters authorized requested > rb_hydrated_character_limit b)
              RE_EVIDENCE_BUDGET_EXHAUSTED (ti_task_kind i)
              ''evidence manifest exceeds the effective registered budget'']
           ())"

definition resolve ::
  "('p, 'o) contract_env \<Rightarrow> semantic_registry \<Rightarrow> 'p task_input \<Rightarrow> composition_report \<Rightarrow> semantic_run_deps
    \<Rightarrow> semantic_error + 'p resolved_task" where
  "resolve E R i r deps =
     bindE (pinned_dependencies R i deps) (\<lambda>_.
     bindE (find_definition R i) (\<lambda>d.
     bindE (checked_input E d deps i) (\<lambda>i.
     bindE (owner_enabled E R d r i) (\<lambda>_.
     bindE (effective_effort R d i) (\<lambda>effort.
     bindE (effective_budget d i) (\<lambda>budget.
     bindE (evidence_authorized budget deps i) (\<lambda>_.
     Inr \<lparr>rt_definition = d, rt_task_input = i, rt_effective_effort = effort,
          rt_effective_budget = budget, rt_semantic_registry_hash = sr_registry_hash R\<rparr>)))))))"

text \<open>\<open>task_definitions_by_hash\<close>.\<close>

definition task_definitions_by_hash ::
  "('p, 'o) contract_env \<Rightarrow> semantic_registry \<Rightarrow> (string \<times> string) list" where
  "task_definitions_by_hash E R = map (\<lambda>d. (task_label d, contract_hash E d)) (sr_definitions R)"

end
