(* ===== verification/SemanticFacts.thy ===== *)
theory SemanticFacts
  imports SemanticRegistry
begin

text \<open>
  What the semantic task registry guarantees: an accepted catalog has one definition per key and
  knows the efforts its definitions name; resolution stays within the registration and within the
  authorized evidence; an accepted result stays within the resolved task.
\<close>

section \<open>Dictionaries\<close>

lemma find_SomeD: "find P xs = Some x \<Longrightarrow> x \<in> set xs \<and> P x"
  by (induction xs) (auto split: if_splits)

lemma dict_get_Some: "dict_get key xs k = Some x \<Longrightarrow> x \<in> set xs \<and> key x = k"
  unfolding dict_get_def by (drule find_SomeD) simp

lemma dict_get_None: "dict_get key xs k = None \<longleftrightarrow> k \<notin> key ` set xs"
  by (auto simp: dict_get_def find_None_iff)

lemma dict_get_distinct:
  assumes "distinct (map key xs)" "x \<in> set xs"
  shows "dict_get key xs (key x) = Some x"
proof (cases "dict_get key xs (key x)")
  case None
  with assms(2) show ?thesis by (auto simp: dict_get_None)
next
  case (Some y)
  from dict_get_Some [OF this] assms have "y = x" by (auto simp: distinct_map inj_on_def)
  with Some show ?thesis by simp
qed

section \<open>Budgets\<close>

lemma not_wider_refl: "is_not_wider_than b b"
  by (cases "rb_cost_safety_limit_microusd b") (simp_all add: is_not_wider_than_def budget_numbers_def)

lemma not_widerD:
  assumes "is_not_wider_than b c"
  shows "rb_request_limit b \<le> rb_request_limit c" "rb_input_token_limit b \<le> rb_input_token_limit c"
    "rb_output_token_limit b \<le> rb_output_token_limit c"
    "rb_total_token_limit b \<le> rb_total_token_limit c" "rb_tool_call_limit b \<le> rb_tool_call_limit c"
  using assms by (simp_all add: is_not_wider_than_def budget_numbers_def not_less split: if_splits)

lemma not_wider_exceeded:
  assumes "is_not_wider_than b c" "budget_exceeded u c"
  shows "budget_exceeded u b"
  using not_widerD [OF assms(1)] assms(2) by (auto simp: budget_exceeded_def)

section \<open>Evidence\<close>

lemma manifest_ids:
  assumes "is_ok (make_evidence_manifest m)"
  shows "distinct (map er_reference_id (em_references m))"
    and "reference_ids m = map er_reference_id (em_references m)"
    and "r \<in> set (em_references m) \<Longrightarrow> evidence_by_id m (er_reference_id r) = Some r"
  using assms by (auto simp: make_evidence_manifest_def reference_ids_def evidence_by_id_def
      distinct_remdups_id intro: dict_get_distinct)

lemma evidence_authorized_facts:
  assumes "evidence_authorized b deps i = Inr u" "is_ok (make_evidence_manifest (ti_evidence_manifest i))"
  shows "set (em_references (ti_evidence_manifest i))
      \<subseteq> set (em_references (sd_authorized_evidence_manifest deps))"
    and "length (em_references (ti_evidence_manifest i)) \<le> rb_evidence_item_limit b"
    and "sum_list (map er_declared_characters (em_references (ti_evidence_manifest i)))
      \<le> rb_hydrated_character_limit b"
proof -
  let ?q = "ti_evidence_manifest i" and ?a = "sd_authorized_evidence_manifest deps"
  note m = manifest_ids [OF assms(2)]
  have eq: "evidence_by_id ?a (er_reference_id r) = Some r" if "r \<in> set (em_references ?q)" for r
    using assms(1) that m(2) m(3) [OF that]
    by (auto simp: evidence_authorized_def refuse_if_def Let_def filter_empty_conv)
  then show "set (em_references ?q) \<subseteq> set (em_references ?a)"
    by (auto simp: evidence_by_id_def dest: dict_get_Some)
  have "declared_characters ?a ?q = sum_list (map er_declared_characters (em_references ?q))"
    unfolding declared_characters_def m(2) map_map
    by (rule arg_cong [where f = sum_list], rule map_cong) (simp_all add: eq)
  with assms(1) m(2) show "length (em_references ?q) \<le> rb_evidence_item_limit b"
    "sum_list (map er_declared_characters (em_references ?q)) \<le> rb_hydrated_character_limit b"
    by (simp_all add: evidence_authorized_def refuse_if_def Let_def not_less)
qed

lemma evidence_within:
  assumes "is_ok (make_evidence_manifest (ti_evidence_manifest i))"
    and "sd_authorized_evidence_manifest deps = ti_evidence_manifest i"
    and "length (em_references (ti_evidence_manifest i)) \<le> rb_evidence_item_limit b"
    and "sum_list (map er_declared_characters (em_references (ti_evidence_manifest i)))
      \<le> rb_hydrated_character_limit b"
  shows "evidence_authorized b deps i = Inr ()"
proof -
  let ?q = "ti_evidence_manifest i"
  note m = manifest_ids [OF assms(1)]
  have "declared_characters ?q ?q = sum_list (map er_declared_characters (em_references ?q))"
    unfolding declared_characters_def m(2) map_map
    by (rule arg_cong [where f = sum_list], rule map_cong) (simp_all add: m(3))
  with assms m(2) show ?thesis
    by (simp add: evidence_authorized_def refuse_if_def Let_def filter_empty_conv)
qed

section \<open>Resolution\<close>

lemma checked_input_Inr:
  assumes "checked_input E d deps i = Inr i'"
  shows "i' = i" "is_ok (make_task_input E i)" "sd_task_contract_hash deps = contract_hash E d"
    "ti_model i = tc_model_type (td_input_contract d)"
  using assms by (auto simp: checked_input_def make_task_input_def split: if_splits sum.splits)

lemma effective_effort_Inr:
  assumes "effective_effort R d i = Inr e"
  shows "\<exists>m. sr_effort R (td_maximum_effort_key d) = Some m \<and> ef_rank e \<le> ef_rank m"
    and "e \<in> set (sr_effort_profiles R)"
  using assms by (auto simp: effective_effort_def Let_def sr_effort_def not_less dest: dict_get_Some
      split: option.splits if_splits)

lemma effective_budget_Inr: "effective_budget d i = Inr b \<Longrightarrow> is_not_wider_than b (td_run_budget d)"
  by (auto simp: effective_budget_def not_wider_refl split: option.splits if_splits)

lemma resolve_Inr:
  assumes "resolve E R i r deps = Inr t"
  obtains d effort budget u1 u2 u3 where
    "pinned_dependencies R i deps = Inr u1" "find_definition R i = Inr d"
    "checked_input E d deps i = Inr i" "owner_enabled E R d r i = Inr u2"
    "effective_effort R d i = Inr effort" "effective_budget d i = Inr budget"
    "evidence_authorized budget deps i = Inr u3"
    "t = \<lparr>rt_definition = d, rt_task_input = i, rt_effective_effort = effort,
          rt_effective_budget = budget, rt_semantic_registry_hash = sr_registry_hash R\<rparr>"
  using assms by (auto simp: resolve_def bindE_Inr_iff dest: checked_input_Inr(1))

lemma resolve_bounds:
  assumes "resolve E R i r deps = Inr t"
  shows "rt_definition t \<in> set (sr_definitions R)"
    and "task_key (rt_definition t) = (ti_task_kind i, ti_contract_revision i)"
    and "rt_task_input t = i" and "rt_semantic_registry_hash t = sr_registry_hash R"
    and "sd_task_contract_hash deps = contract_hash E (rt_definition t)"
    and "sd_semantic_registry_hash deps = sr_registry_hash R"
    and "td_owning_module (rt_definition t) = KERNEL_SEMANTIC_TASK_OWNER
      \<or> module_state_of r (td_owning_module (rt_definition t)) = ENABLED"
    and "\<exists>m. sr_effort R (td_maximum_effort_key (rt_definition t)) = Some m
      \<and> ef_rank (rt_effective_effort t) \<le> ef_rank m"
    and "is_not_wider_than (rt_effective_budget t) (td_run_budget (rt_definition t))"
    and "set (em_references (ti_evidence_manifest i))
      \<subseteq> set (em_references (sd_authorized_evidence_manifest deps))"
    and "length (em_references (ti_evidence_manifest i)) \<le> rb_evidence_item_limit (rt_effective_budget t)"
    and "sum_list (map er_declared_characters (em_references (ti_evidence_manifest i)))
      \<le> rb_hydrated_character_limit (rt_effective_budget t)"
proof -
  from assms obtain d effort budget u1 u2 u3 where
    u1: "pinned_dependencies R i deps = Inr u1" and d: "find_definition R i = Inr d"
    and i: "checked_input E d deps i = Inr i" and u2: "owner_enabled E R d r i = Inr u2"
    and e: "effective_effort R d i = Inr effort" and b: "effective_budget d i = Inr budget"
    and u3: "evidence_authorized budget deps i = Inr u3"
    and t: "t = \<lparr>rt_definition = d, rt_task_input = i, rt_effective_effort = effort,
          rt_effective_budget = budget, rt_semantic_registry_hash = sr_registry_hash R\<rparr>"
    by (rule resolve_Inr)
  from d have "dict_get task_key (sr_definitions R) (ti_task_kind i, ti_contract_revision i) = Some d"
    by (auto simp: find_definition_def sr_definition_def split: option.splits if_splits)
  from dict_get_Some [OF this] t show "rt_definition t \<in> set (sr_definitions R)"
    "task_key (rt_definition t) = (ti_task_kind i, ti_contract_revision i)" by simp_all
  from checked_input_Inr(2) [OF i] have m: "is_ok (make_evidence_manifest (ti_evidence_manifest i))"
    by (simp add: make_task_input_def)
  show "rt_task_input t = i" "rt_semantic_registry_hash t = sr_registry_hash R" by (simp_all add: t)
  show "sd_task_contract_hash deps = contract_hash E (rt_definition t)"
    using checked_input_Inr(3) [OF i] by (simp add: t)
  show "sd_semantic_registry_hash deps = sr_registry_hash R"
    using u1 by (simp add: pinned_dependencies_def refuse_if_def)
  show "td_owning_module (rt_definition t) = KERNEL_SEMANTIC_TASK_OWNER
      \<or> module_state_of r (td_owning_module (rt_definition t)) = ENABLED"
    using u2 by (auto simp: t owner_enabled_def refuse_if_def Let_def)
  show "\<exists>m. sr_effort R (td_maximum_effort_key (rt_definition t)) = Some m
      \<and> ef_rank (rt_effective_effort t) \<le> ef_rank m"
    using effective_effort_Inr(1) [OF e] by (simp add: t)
  show "is_not_wider_than (rt_effective_budget t) (td_run_budget (rt_definition t))"
    using effective_budget_Inr [OF b] by (simp add: t)
  from evidence_authorized_facts [OF u3 m] show
    "set (em_references (ti_evidence_manifest i))
      \<subseteq> set (em_references (sd_authorized_evidence_manifest deps))"
    "length (em_references (ti_evidence_manifest i)) \<le> rb_evidence_item_limit (rt_effective_budget t)"
    "sum_list (map er_declared_characters (em_references (ti_evidence_manifest i)))
      \<le> rb_hydrated_character_limit (rt_effective_budget t)"
    by (simp_all add: t)
qed

section \<open>Accepted results\<close>

lemma accepted_result:
  assumes "accept_semantic_task_result E task deps u r = Inr r'"
  shows "r' = r" "is_ok (make_task_result E r)" "tr_task_id r = ti_task_id (rt_task_input task)"
    "tr_attempt_id r = sd_attempt_id deps" "tr_task_kind r = td_task_kind (rt_definition task)"
    "tr_contract_revision r = td_contract_revision (rt_definition task)"
    "tr_output_contract_hash r = schema_hash E (td_output_contract (rt_definition task))"
    "\<not> output_type_differs E task r" "tr_usage r = u"
    "set (tr_used_evidence_refs r)
      \<subseteq> er_reference_id ` set (em_references (ti_evidence_manifest (rt_task_input task)))"
    "budget_exceeded u (rt_effective_budget task) \<Longrightarrow> tr_status r = RS_BUDGET_EXHAUSTED"
proof -
  from assms obtain q where q: "make_task_result E r = Inr q" and out: "\<not> output_type_differs E task r"
    and r': "validated
                 (identity_checks E task deps q
                  @ [raise_if (output_type_differs E task q)
                       (AC_OUTPUT_TYPE_MISMATCH, tc_contract_id (td_output_contract (rt_definition task))),
                     raise_if (widened_evidence task q \<noteq> [])
                       (AC_EVIDENCE_SCOPE_WIDENED, join '', '' (widened_evidence task q)),
                     raise_if (tr_usage q \<noteq> u)
                       (AC_USAGE_MISMATCH, ''executor usage summary differs from the trusted counter''),
                     raise_if (budget_exceeded u (rt_effective_budget task)
                         \<and> tr_status q \<noteq> RS_BUDGET_EXHAUSTED)
                       (AC_BUDGET_EXCEEDED, ''executor usage exceeds the resolved task budget'')]) q = Inr r'"
    by (auto simp: accept_semantic_task_result_def Let_def bindE_Inr_iff split: if_splits sum.splits)
  from q have "q = r" by (simp add: make_task_result_def)
  with r' q out show "r' = r" "is_ok (make_task_result E r)" "\<not> output_type_differs E task r"
    "tr_task_id r = ti_task_id (rt_task_input task)"
    "tr_attempt_id r = sd_attempt_id deps" "tr_task_kind r = td_task_kind (rt_definition task)"
    "tr_contract_revision r = td_contract_revision (rt_definition task)"
    "tr_output_contract_hash r = schema_hash E (td_output_contract (rt_definition task))"
    "tr_usage r = u"
    "budget_exceeded u (rt_effective_budget task) \<Longrightarrow> tr_status r = RS_BUDGET_EXHAUSTED"
    by (auto simp: identity_checks_def Let_def)
  from r' \<open>q = r\<close> have "widened_evidence task r = []" by simp
  then have "\<forall>x \<in> set (tr_used_evidence_refs r).
      x \<in> er_reference_id ` set (em_references (ti_evidence_manifest (rt_task_input task)))"
    unfolding widened_evidence_def
    by (metis (mono_tags, lifting) filter_empty_conv remdups_eq_nil_iff set_empty set_sort)
  then show "set (tr_used_evidence_refs r)
      \<subseteq> er_reference_id ` set (em_references (ti_evidence_manifest (rt_task_input task)))" by blast
qed

lemma valid_result_shape:
  assumes "is_ok (make_task_result E r)"
  shows "tr_status r = RS_SUCCEEDED \<longleftrightarrow> tr_typed_output r \<noteq> None"
    and "tr_retry_class r = retry_class_for_status (tr_status r)"
    and "tr_status r = RS_SUCCEEDED \<Longrightarrow>
      map_option (\<lambda>out. canonical_sha256 (ce_hash E) (ce_output_json E out)) (tr_typed_output r)
        = tr_output_hash r"
  using assms by (auto simp: make_task_result_def succeeded_checks_def unsuccessful_checks_def
      split: if_splits)

lemma executed_result:
  assumes "execute_semantic_task E ex usage task deps w = (Inr r, w')"
  shows "accept_semantic_task_result E task deps (usage w') r = Inr r"
proof -
  from assms obtain q where "accept_semantic_task_result E task deps (usage w') q = Inr r"
    by (auto simp: execute_semantic_task_def split: sum.splits prod.splits)
  with accepted_result(1) [OF this] show ?thesis by simp
qed

section \<open>What an accepted catalog promises\<close>

lemma contract_issues_distinct:
  "fst (contract_issues E T seen cs ds) = [] \<Longrightarrow>
     distinct (map task_key ds) \<and> set (map task_key ds) \<inter> set seen = {}"
proof (induction ds arbitrary: seen cs)
  case (Cons d ds)
  from Cons.prems have "task_key d \<notin> set seen"
    "fst (contract_issues E T (task_key d # seen)
       (note_contract (td_output_contract d) (note_contract (td_input_contract d) cs)) ds) = []"
    by (auto simp: Let_def split: prod.splits)
  with Cons.IH [OF this(2)] show ?case by auto
qed simp

lemma accepted_catalog:
  assumes "registry_issues E T g c = []"
  shows "distinct (map task_key (sc_definitions c))"
    and "d \<in> set (sc_definitions c) \<Longrightarrow> \<exists>m e. effort_by_key c (td_maximum_effort_key d) = Some m
      \<and> effort_by_key c (td_default_effort_key d) = Some e \<and> ef_rank e \<le> ef_rank m"
    and "d \<in> set (sc_definitions c) \<Longrightarrow> td_owning_module d = KERNEL_SEMANTIC_TASK_OWNER
      \<or> td_owning_module d \<in> mm_module_id ` set (rg_manifests g)"
proof -
  from assms have "fst (contract_issues E T [] [] (sc_definitions c)) = []"
    and defs: "\<forall>d \<in> set (sc_definitions c). definition_issues E g c
      (snd (contract_issues E T [] [] (sc_definitions c))) d = []"
    by (auto simp: registry_issues_def Let_def split: prod.splits)
  with contract_issues_distinct show "distinct (map task_key (sc_definitions c))" by blast
  assume d: "d \<in> set (sc_definitions c)"
  with defs have "effort_issues c d = []" and o: "owner_issues g d = []"
    by (auto simp: definition_issues_def)
  then show "\<exists>m e. effort_by_key c (td_maximum_effort_key d) = Some m
      \<and> effort_by_key c (td_default_effort_key d) = Some e \<and> ef_rank e \<le> ef_rank m"
    by (auto simp: effort_issues_def exceeds_def)
  from o show "td_owning_module d = KERNEL_SEMANTIC_TASK_OWNER
      \<or> td_owning_module d \<in> mm_module_id ` set (rg_manifests g)"
    by (auto simp: owner_issues_def split: if_splits option.splits dest!: dict_get_Some)
      (metis imageI)
qed

lemma semantic_registry_from_Inr:
  assumes "semantic_registry_from E T g c leaves = Inr R"
  shows "registry_issues E T g c = []" "set (sr_definitions R) = set (sc_definitions c)"
    "distinct (map task_key (sr_definitions R))" "sr_effort R = effort_by_key c"
    "sr_module_registry_version R = rg_combined_module_version g"
proof -
  from assms show i: "registry_issues E T g c = []"
    by (auto simp: semantic_registry_from_def si_issues_Nil Let_def split: if_splits)
  from assms show "set (sr_definitions R) = set (sc_definitions c)" "sr_effort R = effort_by_key c"
    "sr_module_registry_version R = rg_combined_module_version g"
    by (auto simp: semantic_registry_from_def make_semantic_registry_def bindE_Inr_iff Let_def
        sr_effort_def effort_by_key_def fun_eq_iff split: if_splits)
  from assms have "sr_definitions R = sort_key task_key (sc_definitions c)"
    by (auto simp: semantic_registry_from_def make_semantic_registry_def bindE_Inr_iff Let_def
        split: if_splits)
  with accepted_catalog(1) [OF i] show "distinct (map task_key (sr_definitions R))"
    by (simp add: distinct_map)
qed

lemma registered_efforts:
  assumes "semantic_registry_from E T g c leaves = Inr R" "d \<in> set (sr_definitions R)"
  shows "\<exists>m e. sr_effort R (td_maximum_effort_key d) = Some m
      \<and> sr_effort R (td_default_effort_key d) = Some e \<and> ef_rank e \<le> ef_rank m"
  using accepted_catalog(2) [OF semantic_registry_from_Inr(1) [OF assms(1)], of d] assms(2)
  by (simp add: semantic_registry_from_Inr(2,4) [OF assms(1)])

text \<open>A report of \<open>compose\<close> has the version that \<open>resolve\<close> expects of the same module registry.\<close>

lemma composed_version:
  assumes "compose (ce_hash E) g ps dis deg = Inr r"
    and "sr_module_registry_version R = rg_combined_module_version g"
  shows "cr_combined_module_version r = expected_composition_version E R r"
proof -
  from assms(1) obtain ordered selected c where "r = composed_report (ce_hash E) g ordered selected c"
    unfolding compose_def bindE_Inr_iff by (fastforce split: sum.splits)
  with assms(2) show ?thesis
    by (simp only: composed_report_def Let_def composition_report.select_convs composition_payload_def
        combined_version_def expected_composition_version_def canonical_sha256_def canonical_json_bytes_def)
qed

lemma registered_resolves:
  assumes reg: "semantic_registry_from E T g c leaves = Inr R"
    and comp: "compose (ce_hash E) g ps dis deg = Inr r"
    and d: "d \<in> set (sc_definitions c)"
    and i: "is_ok (make_task_input E i)" "task_key d = (ti_task_kind i, ti_contract_revision i)"
      "ti_model i = tc_model_type (td_input_contract d)" "ti_requested_effort_key i = None"
      "ti_requested_budget i = None"
    and deps: "sd_task_id deps = ti_task_id i" "sd_task_kind deps = ti_task_kind i"
      "sd_contract_revision deps = ti_contract_revision i" "sd_task_contract_hash deps = contract_hash E d"
      "sd_semantic_registry_hash deps = sr_registry_hash R"
      "sd_authorized_evidence_manifest deps = ti_evidence_manifest i"
    and owner: "td_owning_module d = KERNEL_SEMANTIC_TASK_OWNER \<or> module_state_of r (td_owning_module d) = ENABLED"
    and limits: "length (em_references (ti_evidence_manifest i)) \<le> rb_evidence_item_limit (td_run_budget d)"
      "sum_list (map er_declared_characters (em_references (ti_evidence_manifest i)))
        \<le> rb_hydrated_character_limit (td_run_budget d)"
  shows "\<exists>e. sr_effort R (td_default_effort_key d) = Some e
    \<and> resolve E R i r deps
      = Inr \<lparr>rt_definition = d, rt_task_input = i, rt_effective_effort = e,
             rt_effective_budget = td_run_budget d, rt_semantic_registry_hash = sr_registry_hash R\<rparr>"
proof -
  note R = semantic_registry_from_Inr [OF reg]
  from d R(2) have dR: "d \<in> set (sr_definitions R)" by simp
  from registered_efforts [OF reg dR] obtain m e where
    e: "sr_effort R (td_maximum_effort_key d) = Some m" "sr_effort R (td_default_effort_key d) = Some e"
      "ef_rank e \<le> ef_rank m" by blast
  have 1: "pinned_dependencies R i deps = Inr ()" using deps by (simp add: pinned_dependencies_def refuse_if_def)
  have 2: "find_definition R i = Inr d"
    using dict_get_distinct [OF R(3) dR] i(2) by (simp add: find_definition_def sr_definition_def)
  from i(1) have "make_task_input E i = Inr i" by (auto simp: is_ok_def make_task_input_def)
  with i(3) deps(4) have 3: "checked_input E d deps i = Inr i" by (simp add: checked_input_def)
  have 4: "owner_enabled E R d r i = Inr ()"
    using owner composed_version [OF comp R(5)] by (auto simp: owner_enabled_def refuse_if_def Let_def)
  have 5: "effective_effort R d i = Inr e" using e i(4) by (simp add: effective_effort_def)
  have 6: "effective_budget d i = Inr (td_run_budget d)" using i(5) by (simp add: effective_budget_def)
  have 7: "evidence_authorized (td_run_budget d) deps i = Inr ()"
    using evidence_within [OF _ deps(6) limits] i(1) by (simp add: make_task_input_def)
  show ?thesis using e(2) by (simp add: resolve_def 1 2 3 4 5 6 7)
qed

end
