(* ===== verification/SemanticClaims.thy ===== *)
theory SemanticClaims
  imports SemanticFacts Scenario
begin

text \<open>
  The properties of the semantic task registry and of its results, each with its evaluation on a
  catalog with one task, one agent and two efforts.
\<close>

section \<open>A catalog\<close>

definition demo_classes :: class_table where
  "demo_classes =
     [\<lparr>mc_name = ''Input'', mc_contract = True, mc_frozen = True, mc_extra_forbid = True,
       mc_revalidate_always = True, mc_use_enum_values = True,
       mc_fields = [(''task_id'', AScalar), (''parent'', AUnion [AModel 0, AScalar])]\<rparr>,
      \<lparr>mc_name = ''Output'', mc_contract = True, mc_frozen = True, mc_extra_forbid = True,
       mc_revalidate_always = True, mc_use_enum_values = True,
       mc_fields = [(''items'', ATuple [AScalar, AEllipsis])]\<rparr>]"

definition demo_contracts :: "(unit, unit) contract_env" where
  "demo_contracts =
     \<lparr>ce_hash = demo_hash, ce_schema = (\<lambda>_. JObj []), ce_payload_ok = (\<lambda>_ _. True),
      ce_output_type = (\<lambda>_. 1), ce_output_json = (\<lambda>_. JNull), ce_output_ok = (\<lambda>_. True)\<rparr>"

definition demo_budget :: run_budget where
  "demo_budget =
     \<lparr>rb_wall_clock_seconds = 60, rb_request_limit = 2, rb_input_token_limit = 100,
      rb_output_token_limit = 50, rb_total_token_limit = 120, rb_tool_call_limit = 0,
      rb_cost_safety_limit_microusd = None, rb_max_delegate_calls = 0, rb_max_parallel_delegates = 0,
      rb_evidence_item_limit = 2, rb_hydrated_character_limit = 40, rb_output_retries = 1,
      rb_tool_retries = 0\<rparr>"

definition demo_task :: task_definition where
  "demo_task =
     \<lparr>td_task_kind = ''task.one'', td_contract_revision = 1, td_owning_module = KERNEL_SEMANTIC_TASK_OWNER,
      td_input_contract = \<lparr>tc_contract_id = ''input.one'', tc_revision = 1, tc_model_type = 0\<rparr>,
      td_output_contract = \<lparr>tc_contract_id = ''output.one'', tc_revision = 1, tc_model_type = 1\<rparr>,
      td_dispatch_mode = DIRECT_LEAF, td_default_effort_key = ''low'', td_maximum_effort_key = ''high'',
      td_model_profile = \<lparr>mp_profile_key = ''fast'', mp_revision = 1, mp_effort_key = ''high''\<rparr>,
      td_evidence_policy_key = ''exact'', td_run_budget = demo_budget, td_leaf_agent_key = Some ''leaf'',
      td_allowed_delegate_keys = [], td_allowed_tool_keys = []\<rparr>"

definition demo_catalogs :: semantic_catalogs where
  "demo_catalogs =
     \<lparr>sc_definitions = [demo_task],
      sc_agents =
        [\<lparr>ac_agent_key = ''leaf'',
          ac_input_contract = contract_reference_of demo_contracts (td_input_contract demo_task),
          ac_output_contract = contract_reference_of demo_contracts (td_output_contract demo_task),
          ac_maximum_effort_key = ''high'', ac_may_delegate = False\<rparr>],
      sc_tools = [], sc_effort_profiles = [\<lparr>ef_key = ''low'', ef_rank = 0\<rparr>, \<lparr>ef_key = ''high'', ef_rank = 1\<rparr>],
      sc_model_profiles = [td_model_profile demo_task], sc_evidence_policies = [''exact'']\<rparr>"

definition demo_manifest_of :: "string list \<Rightarrow> evidence_manifest" where
  "demo_manifest_of ids =
     \<lparr>em_manifest_id = ''manifest'', em_revision = 1,
      em_references = map (\<lambda>k. \<lparr>er_reference_id = k, er_content_hash = demo_hash [],
                                er_declared_characters = 10\<rparr>) ids\<rparr>"

definition demo_task_input :: "string list \<Rightarrow> run_budget option \<Rightarrow> unit task_input" where
  "demo_task_input ids b =
     \<lparr>ti_model = 0, ti_task_id = ''task-1'', ti_task_kind = ''task.one'', ti_contract_revision = 1,
      ti_target_reference = ''target'', ti_expected_target_revision = 0,
      ti_evidence_manifest = demo_manifest_of ids, ti_requested_effort_key = None,
      ti_requested_budget = b, ti_payload = ()\<rparr>"

definition demo_semantic_registry :: "semantic_error + semantic_registry" where
  "demo_semantic_registry =
     semantic_registry_from demo_contracts demo_classes demo_registry demo_catalogs []"

definition demo_deps :: "string list \<Rightarrow> semantic_run_deps" where
  "demo_deps ids =
     \<lparr>sd_task_id = ''task-1'', sd_task_kind = ''task.one'', sd_contract_revision = 1,
      sd_task_contract_hash = contract_hash demo_contracts demo_task,
      sd_semantic_registry_hash = (case demo_semantic_registry of Inr R \<Rightarrow> sr_registry_hash R | Inl _ \<Rightarrow> ''''),
      sd_attempt_id = ''attempt-1'', sd_lease_generation = 1,
      sd_authorized_evidence_manifest = demo_manifest_of ids\<rparr>"

definition demo_report :: "compose_error + composition_report" where
  "demo_report = compose demo_hash demo_registry [''core''] [] []"

definition demo_usage :: usage_summary where
  "demo_usage = \<lparr>us_requests = 1, us_input_tokens = 80, us_output_tokens = 30, us_tool_calls = 0\<rparr>"

definition demo_result :: "unit task_result" where
  "demo_result =
     \<lparr>tr_status = RS_SUCCEEDED, tr_task_id = ''task-1'', tr_attempt_id = ''attempt-1'',
      tr_task_kind = ''task.one'', tr_contract_revision = 1,
      tr_output_contract_hash = schema_hash demo_contracts (td_output_contract demo_task),
      tr_typed_output = Some (), tr_output_hash = Some (demo_hash []),
      tr_used_evidence_refs = [''e1''], tr_model_run_refs = [], tr_validation_results = [],
      tr_usage = demo_usage, tr_error_code = None, tr_retry_class = None, tr_withheld_items = []\<rparr>"

definition demo_executor ::
  "unit resolved_task \<Rightarrow> semantic_run_deps \<Rightarrow> unit \<Rightarrow> (string + unit task_result) \<times> unit" where
  "demo_executor task deps w = (Inr demo_result, w)"

text \<open>The task resolves, and its execution is accepted.\<close>

lemma demo_catalog_accepted: "registry_issues demo_contracts demo_classes demo_registry demo_catalogs = []"
  by code_simp

lemma demo_registry_ok:
  obtains R where "semantic_registry_from demo_contracts demo_classes demo_registry demo_catalogs [] = Inr R"
    "demo_semantic_registry = Inr R"
  using demo_catalog_accepted
  by (simp add: demo_semantic_registry_def semantic_registry_from_def si_issues_Nil
      make_semantic_registry_def)

lemma demo_report_ok: obtains r where "compose (ce_hash demo_contracts) demo_registry [''core''] [] [] = Inr r"
proof -
  have "is_ok (compose demo_hash demo_registry [''core''] [] [])" by code_simp
  with that show ?thesis by (auto simp: is_ok_def demo_contracts_def)
qed

definition demo_resolved :: "semantic_registry \<Rightarrow> effort_profile \<Rightarrow> unit resolved_task" where
  "demo_resolved R e =
     \<lparr>rt_definition = demo_task, rt_task_input = demo_task_input [''e1''] None, rt_effective_effort = e,
      rt_effective_budget = demo_budget, rt_semantic_registry_hash = sr_registry_hash R\<rparr>"

lemma demo_task_registered: "demo_task \<in> set (sc_definitions demo_catalogs)"
  by (simp add: demo_catalogs_def)

lemma demo_input_ok: "is_ok (make_task_input demo_contracts (demo_task_input [''e1''] None))"
  by code_simp

lemma demo_task_budget: "td_run_budget demo_task = demo_budget"
  by (simp add: demo_task_def)

lemma demo_resolution:
  obtains R r e where "demo_semantic_registry = Inr R"
    "semantic_registry_from demo_contracts demo_classes demo_registry demo_catalogs [] = Inr R"
    "compose (ce_hash demo_contracts) demo_registry [''core''] [] [] = Inr r"
    "resolve demo_contracts R (demo_task_input [''e1''] None) r (demo_deps [''e1'']) = Inr (demo_resolved R e)"
proof -
  obtain R where R: "semantic_registry_from demo_contracts demo_classes demo_registry demo_catalogs [] = Inr R"
    "demo_semantic_registry = Inr R" by (rule demo_registry_ok)
  obtain r where r: "compose (ce_hash demo_contracts) demo_registry [''core''] [] [] = Inr r"
    by (rule demo_report_ok)
  have "\<exists>e. sr_effort R (td_default_effort_key demo_task) = Some e
      \<and> resolve demo_contracts R (demo_task_input [''e1''] None) r (demo_deps [''e1'']) = Inr (demo_resolved R e)"
    unfolding demo_resolved_def demo_task_budget [symmetric]
  proof (rule registered_resolves [OF R(1) r demo_task_registered demo_input_ok])
    show "sd_semantic_registry_hash (demo_deps [''e1'']) = sr_registry_hash R"
      by (simp add: demo_deps_def R(2))
  qed (simp_all add: demo_task_input_def demo_deps_def task_key_def demo_task_def demo_manifest_of_def
      demo_budget_def)
  with R r that show ?thesis by blast
qed

lemma demo_execution:
  assumes "demo_semantic_registry = Inr R"
  shows "execute_semantic_task demo_contracts demo_executor (\<lambda>_. demo_usage) (demo_resolved R e)
    (demo_deps [''e1'']) () = (Inr demo_result, ())"
proof -
  have r: "make_task_result demo_contracts demo_result = Inr demo_result" by code_simp
  have dep: "validate_dependencies demo_contracts (demo_resolved R e) (demo_deps [''e1'']) = Inr ()"
    by (simp add: validate_dependencies_def mismatched_evidence_def demo_deps_def demo_resolved_def
        demo_task_input_def demo_manifest_of_def demo_task_def assms dict_get_def)
  have same: "\<forall>c \<in> set (identity_checks demo_contracts (demo_resolved R e) (demo_deps [''e1'']) demo_result).
      c = None"
    by (simp add: identity_checks_def Let_def demo_result_def demo_resolved_def demo_deps_def
        demo_task_input_def demo_task_def)
  have within: "\<not> output_type_differs demo_contracts (demo_resolved R e) demo_result"
    "widened_evidence (demo_resolved R e) demo_result = []"
    "\<not> budget_exceeded demo_usage (rt_effective_budget (demo_resolved R e))"
    by (simp_all add: output_type_differs_def widened_evidence_def budget_exceeded_def demo_result_def
        demo_resolved_def demo_task_def demo_contracts_def demo_task_input_def demo_manifest_of_def
        demo_usage_def demo_budget_def)
  have usage: "tr_usage demo_result = demo_usage" by (simp add: demo_result_def)
  have ok: "validated (identity_checks demo_contracts (demo_resolved R e) (demo_deps [''e1'']) demo_result
      @ [None, None, None, None]) demo_result = Inr demo_result"
    using same by (simp add: validated_Inr)
  have "accept_semantic_task_result demo_contracts (demo_resolved R e) (demo_deps [''e1'']) demo_usage
      demo_result = Inr demo_result"
    by (simp add: accept_semantic_task_result_def dep r within usage ok)
  with dep show ?thesis by (simp add: execute_semantic_task_def demo_executor_def)
qed

section \<open>Resolution\<close>

text \<open>
  C8: resolution never widens what was registered and authorized: a resolved task is the
  registered definition of the requested kind and revision, pinned by the hashes of the trusted
  dependencies; its owner is the kernel or an enabled module; its effort is at most the registered
  maximum and its budget at most the registered one; and every evidence reference of the input is
  an authorized one, their number and their characters being within the budget.
\<close>

theorem resolve_never_widens:
  assumes "resolve E R i r deps = Inr t"
  shows "rt_definition t \<in> set (sr_definitions R)
    \<and> task_key (rt_definition t) = (ti_task_kind i, ti_contract_revision i) \<and> rt_task_input t = i
    \<and> sd_task_contract_hash deps = contract_hash E (rt_definition t)
    \<and> sd_semantic_registry_hash deps = rt_semantic_registry_hash t
    \<and> (td_owning_module (rt_definition t) = KERNEL_SEMANTIC_TASK_OWNER
       \<or> module_state_of r (td_owning_module (rt_definition t)) = ENABLED)
    \<and> (\<exists>m. sr_effort R (td_maximum_effort_key (rt_definition t)) = Some m
         \<and> ef_rank (rt_effective_effort t) \<le> ef_rank m)
    \<and> is_not_wider_than (rt_effective_budget t) (td_run_budget (rt_definition t))
    \<and> set (em_references (ti_evidence_manifest i)) \<subseteq> set (em_references (sd_authorized_evidence_manifest deps))
    \<and> length (em_references (ti_evidence_manifest i)) \<le> rb_evidence_item_limit (rt_effective_budget t)
    \<and> sum_list (map er_declared_characters (em_references (ti_evidence_manifest i)))
        \<le> rb_hydrated_character_limit (rt_effective_budget t)"
  using resolve_bounds [OF assms] by (intro conjI) simp_all

theorem resolve_never_widens_witness:
  "\<exists>R r t. resolve demo_contracts R (demo_task_input [''e1''] None) r (demo_deps [''e1'']) = Inr t
     \<and> is_not_wider_than (rt_effective_budget t) (td_run_budget (rt_definition t))
     \<and> rt_definition t \<in> set (sr_definitions R)"
proof -
  obtain R r e where "resolve demo_contracts R (demo_task_input [''e1''] None) r (demo_deps [''e1''])
      = Inr (demo_resolved R e)" by (rule demo_resolution)
  with resolve_never_widens [OF this] show ?thesis by blast
qed

text \<open>
  C28: a registered task resolves: in a registry built from an accepted catalog, for a composition
  of the same module registry in which the owner is enabled, an input of the registered kind,
  revision and model that asks for no effort and no budget of its own, with its evidence authorized
  and within the registered limits, resolves to its definition with the default effort and the
  registered budget.
\<close>

theorem registered_task_resolves:
  assumes reg: "semantic_registry_from E T g c leaves = Inr R"
    and comp: "compose (ce_hash E) g ps dis deg = Inr r"
    and d: "d \<in> set (sc_definitions c)"
    and i: "is_ok (make_task_input E i)" "task_key d = (ti_task_kind i, ti_contract_revision i)"
      "ti_model i = tc_model_type (td_input_contract d)" "ti_requested_effort_key i = None"
      "ti_requested_budget i = None"
    and deps: "sd_task_id deps = ti_task_id i" "sd_task_kind deps = ti_task_kind i"
      "sd_contract_revision deps = ti_contract_revision i" "sd_task_contract_hash deps = contract_hash E d"
      "sd_semantic_registry_hash deps = sr_registry_hash R"
      "sd_authorized_evidence_manifest deps = ti_evidence_manifest i"
    and owner: "td_owning_module d = KERNEL_SEMANTIC_TASK_OWNER \<or> module_state_of r (td_owning_module d) = ENABLED"
    and limits: "length (em_references (ti_evidence_manifest i)) \<le> rb_evidence_item_limit (td_run_budget d)"
      "sum_list (map er_declared_characters (em_references (ti_evidence_manifest i)))
        \<le> rb_hydrated_character_limit (td_run_budget d)"
  shows "\<exists>e. sr_effort R (td_default_effort_key d) = Some e
    \<and> resolve E R i r deps
      = Inr \<lparr>rt_definition = d, rt_task_input = i, rt_effective_effort = e,
             rt_effective_budget = td_run_budget d, rt_semantic_registry_hash = sr_registry_hash R\<rparr>"
  by (rule registered_resolves [OF assms])

theorem registered_task_resolves_witness:
  "\<exists>R r t. resolve demo_contracts R (demo_task_input [''e1''] None) r (demo_deps [''e1'']) = Inr t
     \<and> rt_definition t = demo_task"
proof -
  obtain R r where R: "demo_semantic_registry = Inr R"
    "semantic_registry_from demo_contracts demo_classes demo_registry demo_catalogs [] = Inr R"
    and r: "compose (ce_hash demo_contracts) demo_registry [''core''] [] [] = Inr r"
    by (rule demo_resolution)
  have "\<exists>e. sr_effort R (td_default_effort_key demo_task) = Some e
      \<and> resolve demo_contracts R (demo_task_input [''e1''] None) r (demo_deps [''e1''])
        = Inr \<lparr>rt_definition = demo_task, rt_task_input = demo_task_input [''e1''] None,
               rt_effective_effort = e, rt_effective_budget = td_run_budget demo_task,
               rt_semantic_registry_hash = sr_registry_hash R\<rparr>"
  proof (rule registered_task_resolves [OF R(2) r demo_task_registered demo_input_ok])
    show "sd_semantic_registry_hash (demo_deps [''e1'']) = sr_registry_hash R"
      by (simp add: demo_deps_def R(1))
  qed (simp_all add: demo_task_input_def demo_deps_def task_key_def demo_task_def demo_manifest_of_def
      demo_budget_def)
  then obtain t where "resolve demo_contracts R (demo_task_input [''e1''] None) r (demo_deps [''e1'']) = Inr t"
    "rt_definition t = demo_task" by fastforce
  then show ?thesis by blast
qed

text \<open>
  C10: an executed result is bound to the resolution: a result that \<open>execute_semantic_task\<close> returns
  for a resolved task names that task, its attempt, kind, revision and output contract; it used only
  authorized evidence; its usage is the trusted count, and when that count exceeds the registered
  budget the status of the result is that the budget is exhausted, so that it carries no output; it has an output exactly when it succeeded, with
  the hash of that output; and its retry class is the one of its status.
\<close>

theorem executed_result_bounded:
  assumes "resolve E R i rep deps = Inr t"
    and "execute_semantic_task E ex usage t deps w = (Inr r, w')"
  shows "tr_task_id r = ti_task_id i \<and> tr_attempt_id r = sd_attempt_id deps
    \<and> (tr_task_kind r, tr_contract_revision r) = (ti_task_kind i, ti_contract_revision i)
    \<and> tr_output_contract_hash r = schema_hash E (td_output_contract (rt_definition t))
    \<and> set (tr_used_evidence_refs r)
        \<subseteq> er_reference_id ` set (em_references (sd_authorized_evidence_manifest deps))
    \<and> tr_usage r = usage w'
    \<and> (budget_exceeded (usage w') (td_run_budget (rt_definition t)) \<longrightarrow> tr_status r = RS_BUDGET_EXHAUSTED)
    \<and> (tr_status r = RS_SUCCEEDED \<longleftrightarrow> tr_typed_output r \<noteq> None)
    \<and> (tr_status r = RS_SUCCEEDED \<longrightarrow>
        map_option (\<lambda>out. canonical_sha256 (ce_hash E) (ce_output_json E out)) (tr_typed_output r)
          = tr_output_hash r)
    \<and> tr_retry_class r = retry_class_for_status (tr_status r)"
proof -
  note t = resolve_bounds [OF assms(1)]
  note a = accepted_result [OF executed_result [OF assms(2)]]
  have "set (tr_used_evidence_refs r)
      \<subseteq> er_reference_id ` set (em_references (sd_authorized_evidence_manifest deps))"
    using a(10) t(10) unfolding t(3) by blast
  moreover have "(tr_task_kind r, tr_contract_revision r) = (ti_task_kind i, ti_contract_revision i)"
    using a(5,6) t(2) by (simp add: task_key_def)
  moreover have "budget_exceeded (usage w') (td_run_budget (rt_definition t)) \<longrightarrow> tr_status r = RS_BUDGET_EXHAUSTED"
    using not_wider_exceeded [OF t(9)] a(11) by blast
  moreover note valid_result_shape [OF a(2)]
  ultimately show ?thesis using a(3,4,7,9) t(3) by simp
qed

theorem executed_result_bounded_witness:
  "tr_usage demo_result = demo_usage \<and> tr_task_id demo_result = ''task-1''
     \<and> (tr_status demo_result = RS_SUCCEEDED \<longleftrightarrow> tr_typed_output demo_result \<noteq> None)"
proof -
  obtain R r e where R: "demo_semantic_registry = Inr R"
    and res: "resolve demo_contracts R (demo_task_input [''e1''] None) r (demo_deps [''e1''])
      = Inr (demo_resolved R e)" by (rule demo_resolution)
  from executed_result_bounded [OF res demo_execution [OF R]] show ?thesis
    by (simp add: demo_task_input_def)
qed

section \<open>Contract models\<close>

text \<open>
  C29: the search for an issue of a contract model accepts exactly the sealed models: those from
  which every reachable model class is a class of the table that inherits the frozen base, is
  frozen, forbids extra fields, always revalidates and normalizes enum members, and has only fields
  of supported immutable types. The search ends although models may nest each other.
\<close>

theorem contract_model_sealed: "model_issue T [] c = None \<longleftrightarrow> sealed T c"
  by (rule model_issue_sealed)

end
