(* ===== verification/CanonicalEvents.thy ===== *)
theory CanonicalEvents
  imports HostLoop
begin

text \<open>
  \<open>application/canonical_transactions.py\<close>, first part: source events, source units with their
  details, checkpoints and \<open>AcceptSourceEventCommand\<close>. Python's rendering of a datetime and of a
  float, and SHA-256, are the fields of \<open>codec\<close>. A float is the rank of its value in the order of
  the doubles, zero being 0, so that comparisons are those of the ranks; the field checks refuse
  negative values, and not-a-number with them.
\<close>

section \<open>Values\<close>

type_synonym py_float = int

record codec =
  cd_hash :: hash
  cd_iso_datetime :: "datetime \<Rightarrow> string"
  cd_float :: "py_float \<Rightarrow> json"

definition j_datetime :: "codec \<Rightarrow> datetime option \<Rightarrow> json" where
  "j_datetime K = j_opt (\<lambda>t. JStr (cd_iso_datetime K t))"

text \<open>Comparing a naive datetime with an aware one raises \<open>TypeError\<close>.\<close>

fun check_ordered :: "datetime option \<Rightarrow> datetime option \<Rightarrow> string \<Rightarrow> py_error option" where
  "check_ordered (Some (Aware a)) (Some (Aware b)) e = raise_if (b < a) (ValueError e)"
| "check_ordered (Some (Naive a)) (Some (Naive b)) e = raise_if (b < a) (ValueError e)"
| "check_ordered (Some a) (Some b) e =
     Some (TypeError ''can't compare offset-naive and offset-aware datetimes'')"
| "check_ordered _ _ e = None"

definition CANONICAL_AUTHORING_MAX_OBSERVATIONS :: nat where
  "CANONICAL_AUTHORING_MAX_OBSERVATIONS = 8"
definition CANONICAL_AUTHORING_HYDRATED_CHARACTER_LIMIT :: nat where
  "CANONICAL_AUTHORING_HYDRATED_CHARACTER_LIMIT = 4096"
definition CANONICAL_AUTHORING_EVIDENCE_JSON_BYTE_LIMIT :: nat where
  "CANONICAL_AUTHORING_EVIDENCE_JSON_BYTE_LIMIT = 4096"
definition CANONICAL_AUTHORING_OUTPUT_JSON_BYTE_LIMIT :: nat where
  "CANONICAL_AUTHORING_OUTPUT_JSON_BYTE_LIMIT = 12000"
definition CANONICAL_CAPTURE_COMMAND_JSON_BYTE_LIMIT :: nat where
  "CANONICAL_CAPTURE_COMMAND_JSON_BYTE_LIMIT = 1048576"

datatype source_type = ST_TRANSCRIPT | ST_DOCUMENT | ST_MEDIA | ST_RELATIONAL | ST_OPERATIONAL

fun source_type_value :: "source_type \<Rightarrow> string" where
  "source_type_value ST_TRANSCRIPT = ''transcript''"
| "source_type_value ST_DOCUMENT = ''document''"
| "source_type_value ST_MEDIA = ''media''"
| "source_type_value ST_RELATIONAL = ''relational''"
| "source_type_value ST_OPERATIONAL = ''operational''"

datatype time_precision =
    TP_INSTANT | TP_SECOND | TP_MINUTE | TP_HOUR | TP_DAY | TP_MONTH | TP_YEAR | TP_INTERVAL
  | TP_UNKNOWN

fun time_precision_value :: "time_precision \<Rightarrow> string" where
  "time_precision_value TP_INSTANT = ''instant''"
| "time_precision_value TP_SECOND = ''second''"
| "time_precision_value TP_MINUTE = ''minute''"
| "time_precision_value TP_HOUR = ''hour''"
| "time_precision_value TP_DAY = ''day''"
| "time_precision_value TP_MONTH = ''month''"
| "time_precision_value TP_YEAR = ''year''"
| "time_precision_value TP_INTERVAL = ''interval''"
| "time_precision_value TP_UNKNOWN = ''unknown''"

record canonical_attribute =
  at_key :: string
  at_value :: string

text \<open>The pattern \<open>^[a-z][a-z0-9_]{0,63}$\<close>.\<close>

fun attribute_key :: "string \<Rightarrow> bool" where
  "attribute_key [] \<longleftrightarrow> False"
| "attribute_key (c # cs) \<longleftrightarrow>
     is_lower c \<and> list_all (\<lambda>d. is_alnum d \<or> d = CHR ''_'') cs \<and> length cs \<le> 63"

definition make_attribute :: "canonical_attribute \<Rightarrow> canonical_attribute result" where
  "make_attribute a =
     validated
       [raise_if (\<not> attribute_key (at_key a)) (FieldError ''key''),
        raise_if (length (at_value a) > 512) (FieldError ''value'')] a"

definition attribute_json :: "canonical_attribute \<Rightarrow> json" where
  "attribute_json a = JObj [(''key'', JStr (at_key a)), (''value'', JStr (at_value a))]"

definition reject_duplicate_attributes :: "canonical_attribute list \<Rightarrow> py_error option" where
  "reject_duplicate_attributes as =
     raise_if (\<not> distinct (map at_key as)) (ValueError ''attribute keys must be unique'')"

section \<open>Details of a unit\<close>

record turn_detail =
  tt_conversation_id :: string
  tt_session_id :: string
  tt_branch_id :: "string option"
  tt_turn_id :: string
  tt_participant_id :: "string option"
  tt_participant_role :: string

definition make_turn_detail :: "turn_detail \<Rightarrow> turn_detail result" where
  "make_turn_detail d =
     validated
       [raise_if (\<not> text_field 1 512 (tt_conversation_id d)) (FieldError ''conversation_id''),
        raise_if (\<not> text_field 1 512 (tt_session_id d)) (FieldError ''session_id''),
        raise_if (\<not> opt_field (text_field 0 512) (tt_branch_id d)) (FieldError ''branch_id''),
        raise_if (\<not> text_field 1 512 (tt_turn_id d)) (FieldError ''turn_id''),
        raise_if (\<not> opt_field (text_field 0 512) (tt_participant_id d)) (FieldError ''participant_id''),
        raise_if (\<not> text_field 1 128 (tt_participant_role d)) (FieldError ''participant_role'')] d"

record segment_detail =
  ds_page_number :: "nat option"
  ds_char_start :: "nat option"
  ds_char_end :: "nat option"
  ds_section_path :: "string list"

definition make_segment_detail :: "segment_detail \<Rightarrow> segment_detail result" where
  "make_segment_detail d =
     validated
       [raise_if (\<not> opt_field (\<lambda>n. 1 \<le> n) (ds_page_number d)) (FieldError ''page_number''),
        raise_if (ds_char_end d \<noteq> None \<and> ds_char_start d = None)
          (ValueError ''char_end requires char_start''),
        raise_if (case (ds_char_start d, ds_char_end d) of (Some a, Some b) \<Rightarrow> b < a | _ \<Rightarrow> False)
          (ValueError ''char_end cannot precede char_start'')] d"

record media_detail =
  md_track_id :: "string option"
  md_speaker_ref :: "string option"
  md_transcript_language :: "string option"

definition make_media_detail :: "media_detail \<Rightarrow> media_detail result" where
  "make_media_detail d =
     validated
       [raise_if (\<not> opt_field (text_field 0 512) (md_track_id d)) (FieldError ''track_id''),
        raise_if (\<not> opt_field (text_field 0 512) (md_speaker_ref d)) (FieldError ''speaker_ref''),
        raise_if (\<not> opt_field (text_field 0 64) (md_transcript_language d))
          (FieldError ''transcript_language'')] d"

record record_detail =
  rd_record_system :: string
  rd_record_object_type :: string
  rd_record_object_key :: string
  rd_record_action :: string
  rd_effective_at :: "datetime option"
  rd_changed_fields :: "canonical_attribute list"

definition make_record_detail :: "record_detail \<Rightarrow> record_detail result" where
  "make_record_detail d =
     validated
       [raise_if (\<not> text_field 1 128 (rd_record_system d)) (FieldError ''record_system''),
        raise_if (\<not> text_field 1 128 (rd_record_object_type d)) (FieldError ''record_object_type''),
        raise_if (\<not> text_field 1 512 (rd_record_object_key d)) (FieldError ''record_object_key''),
        raise_if (\<not> text_field 1 128 (rd_record_action d)) (FieldError ''record_action''),
        nested_list make_attribute (rd_changed_fields d)] d"

datatype unit_detail =
    ConversationTurn turn_detail
  | DocumentSegment segment_detail
  | MediaSegment media_detail
  | RecordEvent record_detail

fun unit_detail_check :: "unit_detail \<Rightarrow> py_error option" where
  "unit_detail_check (ConversationTurn d) = nested (make_turn_detail d)"
| "unit_detail_check (DocumentSegment d) = nested (make_segment_detail d)"
| "unit_detail_check (MediaSegment d) = nested (make_media_detail d)"
| "unit_detail_check (RecordEvent d) = nested (make_record_detail d)"

fun unit_detail_json :: "codec \<Rightarrow> unit_detail \<Rightarrow> json" where
  "unit_detail_json K (ConversationTurn d) =
     JObj [(''detail_kind'', JStr ''conversation_turn''), (''conversation_id'', JStr (tt_conversation_id d)),
           (''session_id'', JStr (tt_session_id d)), (''branch_id'', j_opt JStr (tt_branch_id d)),
           (''turn_id'', JStr (tt_turn_id d)), (''participant_id'', j_opt JStr (tt_participant_id d)),
           (''participant_role'', JStr (tt_participant_role d))]"
| "unit_detail_json K (DocumentSegment d) =
     JObj [(''detail_kind'', JStr ''document_segment''), (''page_number'', j_opt j_nat (ds_page_number d)),
           (''char_start'', j_opt j_nat (ds_char_start d)), (''char_end'', j_opt j_nat (ds_char_end d)),
           (''section_path'', JList (map JStr (ds_section_path d)))]"
| "unit_detail_json K (MediaSegment d) =
     JObj [(''detail_kind'', JStr ''media_segment''), (''track_id'', j_opt JStr (md_track_id d)),
           (''speaker_ref'', j_opt JStr (md_speaker_ref d)),
           (''transcript_language'', j_opt JStr (md_transcript_language d))]"
| "unit_detail_json K (RecordEvent d) =
     JObj [(''detail_kind'', JStr ''record_event''), (''record_system'', JStr (rd_record_system d)),
           (''record_object_type'', JStr (rd_record_object_type d)),
           (''record_object_key'', JStr (rd_record_object_key d)),
           (''record_action'', JStr (rd_record_action d)),
           (''effective_at'', j_datetime K (rd_effective_at d)),
           (''changed_fields'', JList (map attribute_json (rd_changed_fields d)))]"

section \<open>Events\<close>

record document_revision =
  dr_document_version :: string
  dr_mime_type :: string
  dr_source_title :: "string option"

definition make_document_revision :: "document_revision \<Rightarrow> document_revision result" where
  "make_document_revision r =
     validated
       [raise_if (\<not> text_field 1 512 (dr_document_version r)) (FieldError ''document_version''),
        raise_if (\<not> text_field 1 255 (dr_mime_type r)) (FieldError ''mime_type''),
        raise_if (\<not> opt_field (text_field 0 1024) (dr_source_title r)) (FieldError ''source_title'')] r"

definition document_revision_json :: "document_revision \<Rightarrow> json" where
  "document_revision_json r =
     JObj [(''document_version'', JStr (dr_document_version r)), (''mime_type'', JStr (dr_mime_type r)),
           (''source_title'', j_opt JStr (dr_source_title r))]"

record source_event =
  en_event_id :: uuid
  en_source_type :: source_type
  en_source_system :: string
  en_installation_id :: "string option"
  en_external_event_id :: "string option"
  en_external_id_scope :: string
  en_source_identity_key :: string
  en_session_id :: "string option"
  en_actor_id :: string
  en_actor_kind :: string
  en_source_occurred_at :: "datetime option"
  en_source_occurred_end_at :: "datetime option"
  en_source_occurred_at_raw :: "string option"
  en_source_timezone :: "string option"
  en_source_time_precision :: "time_precision option"
  en_source_sequence :: "nat option"
  en_source_revision_key :: "string option"
  en_parser_contract_version :: string
  en_observation_unit_policy_version :: string
  en_captured_at :: datetime
  en_source_ref :: string
  en_content_hash :: string
  en_attributes :: "canonical_attribute list"
  en_document_revision :: "document_revision option"

definition make_source_event :: "source_event \<Rightarrow> source_event result" where
  "make_source_event e =
     validated
       [raise_if (\<not> text_field 1 128 (en_source_system e)) (FieldError ''source_system''),
        raise_if (\<not> opt_field (text_field 0 512) (en_installation_id e)) (FieldError ''installation_id''),
        raise_if (\<not> opt_field (text_field 0 512) (en_external_event_id e)) (FieldError ''external_event_id''),
        raise_if (\<not> text_field 1 512 (en_external_id_scope e)) (FieldError ''external_id_scope''),
        raise_if (\<not> text_field 1 512 (en_source_identity_key e)) (FieldError ''source_identity_key''),
        raise_if (\<not> opt_field (text_field 0 512) (en_session_id e)) (FieldError ''session_id''),
        raise_if (\<not> text_field 1 512 (en_actor_id e)) (FieldError ''actor_id''),
        raise_if (\<not> text_field 1 128 (en_actor_kind e)) (FieldError ''actor_kind''),
        raise_if (\<not> opt_field (text_field 0 512) (en_source_occurred_at_raw e))
          (FieldError ''source_occurred_at_raw''),
        raise_if (\<not> opt_field (text_field 0 128) (en_source_timezone e)) (FieldError ''source_timezone''),
        raise_if (\<not> opt_field (text_field 0 512) (en_source_revision_key e))
          (FieldError ''source_revision_key''),
        raise_if (\<not> text_field 1 128 (en_parser_contract_version e))
          (FieldError ''parser_contract_version''),
        raise_if (\<not> text_field 1 128 (en_observation_unit_policy_version e))
          (FieldError ''observation_unit_policy_version''),
        raise_if (\<not> text_field 1 1024 (en_source_ref e)) (FieldError ''source_ref''),
        raise_if (\<not> is_sha256 (en_content_hash e)) (FieldError ''content_hash''),
        nested_list make_attribute (en_attributes e),
        nested_opt make_document_revision (en_document_revision e),
        check_ordered (en_source_occurred_at e) (en_source_occurred_end_at e)
          ''source occurrence end cannot precede its start'',
        raise_if ((en_source_type e = ST_DOCUMENT) \<noteq> (en_document_revision e \<noteq> None))
          (ValueError ''document_revision is required only for document events''),
        reject_duplicate_attributes (en_attributes e)] e"

definition source_event_json :: "codec \<Rightarrow> source_event \<Rightarrow> json" where
  "source_event_json K e =
     JObj [(''event_id'', j_uuid (en_event_id e)),
           (''source_type'', JStr (source_type_value (en_source_type e))),
           (''source_system'', JStr (en_source_system e)),
           (''installation_id'', j_opt JStr (en_installation_id e)),
           (''external_event_id'', j_opt JStr (en_external_event_id e)),
           (''external_id_scope'', JStr (en_external_id_scope e)),
           (''source_identity_key'', JStr (en_source_identity_key e)),
           (''session_id'', j_opt JStr (en_session_id e)), (''actor_id'', JStr (en_actor_id e)),
           (''actor_kind'', JStr (en_actor_kind e)),
           (''source_occurred_at'', j_datetime K (en_source_occurred_at e)),
           (''source_occurred_end_at'', j_datetime K (en_source_occurred_end_at e)),
           (''source_occurred_at_raw'', j_opt JStr (en_source_occurred_at_raw e)),
           (''source_timezone'', j_opt JStr (en_source_timezone e)),
           (''source_time_precision'',
              j_opt (\<lambda>p. JStr (time_precision_value p)) (en_source_time_precision e)),
           (''source_sequence'', j_opt j_nat (en_source_sequence e)),
           (''source_revision_key'', j_opt JStr (en_source_revision_key e)),
           (''parser_contract_version'', JStr (en_parser_contract_version e)),
           (''observation_unit_policy_version'', JStr (en_observation_unit_policy_version e)),
           (''captured_at'', j_datetime K (Some (en_captured_at e))),
           (''source_ref'', JStr (en_source_ref e)), (''content_hash'', JStr (en_content_hash e)),
           (''attributes'', JList (map attribute_json (en_attributes e))),
           (''document_revision'', j_opt document_revision_json (en_document_revision e))]"

section \<open>Units\<close>

datatype unit_kind = UK_TURN | UK_SECTION | UK_CHUNK | UK_ELEMENT | UK_MEDIA_WINDOW | UK_RECORD_CHANGE

fun unit_kind_value :: "unit_kind \<Rightarrow> string" where
  "unit_kind_value UK_TURN = ''turn''"
| "unit_kind_value UK_SECTION = ''section''"
| "unit_kind_value UK_CHUNK = ''chunk''"
| "unit_kind_value UK_ELEMENT = ''element''"
| "unit_kind_value UK_MEDIA_WINDOW = ''media_window''"
| "unit_kind_value UK_RECORD_CHANGE = ''record_change''"

record source_unit =
  su_source_unit_id :: uuid
  su_parent_unit_id :: "uuid option"
  su_unit_kind :: unit_kind
  su_is_observation :: bool
  su_external_unit_id :: string
  su_unit_ordinal :: nat
  su_unit_source_occurred_at :: "datetime option"
  su_unit_source_occurred_end_at :: "datetime option"
  su_unit_time_precision :: "time_precision option"
  su_time_start_seconds :: "py_float option"
  su_time_end_seconds :: "py_float option"
  su_content_text :: "string option"
  su_content_hash :: string
  su_hydration_ref :: "string option"
  su_schema_version :: nat
  su_structure :: "canonical_attribute list"
  su_detail :: unit_detail

text \<open>An optional text counts as absent when it is empty.\<close>

definition falsy :: "string option \<Rightarrow> bool" where
  "falsy t \<longleftrightarrow> t = None \<or> t = Some []"

definition make_source_unit :: "codec \<Rightarrow> source_unit \<Rightarrow> source_unit result" where
  "make_source_unit K u =
     validated
       [raise_if (\<not> text_field 1 512 (su_external_unit_id u)) (FieldError ''external_unit_id''),
        raise_if (\<not> opt_field (\<lambda>x. 0 \<le> x) (su_time_start_seconds u)) (FieldError ''time_start_seconds''),
        raise_if (\<not> opt_field (\<lambda>x. 0 \<le> x) (su_time_end_seconds u)) (FieldError ''time_end_seconds''),
        raise_if (\<not> is_sha256 (su_content_hash u)) (FieldError ''content_hash''),
        raise_if (\<not> opt_field (text_field 0 1024) (su_hydration_ref u)) (FieldError ''hydration_ref''),
        raise_if (su_schema_version u < 1) (FieldError ''schema_version''),
        nested_list make_attribute (su_structure u),
        unit_detail_check (su_detail u),
        raise_if (su_parent_unit_id u = Some (su_source_unit_id u))
          (ValueError ''a source unit cannot parent itself''),
        raise_if (su_is_observation u \<and> su_unit_kind u = UK_ELEMENT)
          (ValueError ''element units cannot be observations''),
        check_ordered (su_unit_source_occurred_at u) (su_unit_source_occurred_end_at u)
          ''unit occurrence end cannot precede its start'',
        raise_if (su_time_end_seconds u \<noteq> None \<and> su_time_start_seconds u = None)
          (ValueError ''time_end_seconds requires time_start_seconds''),
        raise_if (case (su_time_start_seconds u, su_time_end_seconds u) of
                    (Some a, Some b) \<Rightarrow> b < a | _ \<Rightarrow> False)
          (ValueError ''time_end_seconds cannot precede time_start_seconds''),
        raise_if (falsy (su_content_text u) \<and> falsy (su_hydration_ref u))
          (ValueError ''non-empty content_text or hydration_ref is required''),
        raise_if (su_is_observation u \<and> falsy (su_content_text u))
          (ValueError ''observation units require non-empty content_text''),
        raise_if (\<not> opt_field (\<lambda>t. cd_hash K (utf8 t) = su_content_hash u) (su_content_text u))
          (ValueError ''content_hash must match content_text''),
        reject_duplicate_attributes (su_structure u)] u"

definition source_unit_json :: "codec \<Rightarrow> source_unit \<Rightarrow> json" where
  "source_unit_json K u =
     JObj [(''source_unit_id'', j_uuid (su_source_unit_id u)),
           (''parent_unit_id'', j_opt (\<lambda>x. j_uuid x) (su_parent_unit_id u)),
           (''unit_kind'', JStr (unit_kind_value (su_unit_kind u))),
           (''is_observation'', JBool (su_is_observation u)),
           (''external_unit_id'', JStr (su_external_unit_id u)),
           (''unit_ordinal'', j_nat (su_unit_ordinal u)),
           (''unit_source_occurred_at'', j_datetime K (su_unit_source_occurred_at u)),
           (''unit_source_occurred_end_at'', j_datetime K (su_unit_source_occurred_end_at u)),
           (''unit_time_precision'',
              j_opt (\<lambda>p. JStr (time_precision_value p)) (su_unit_time_precision u)),
           (''time_start_seconds'', j_opt (cd_float K) (su_time_start_seconds u)),
           (''time_end_seconds'', j_opt (cd_float K) (su_time_end_seconds u)),
           (''content_text'', j_opt JStr (su_content_text u)),
           (''content_hash'', JStr (su_content_hash u)),
           (''hydration_ref'', j_opt JStr (su_hydration_ref u)),
           (''schema_version'', j_nat (su_schema_version u)),
           (''structure'', JList (map attribute_json (su_structure u))),
           (''detail'', unit_detail_json K (su_detail u))]"

section \<open>The accept command\<close>

record capture_checkpoint =
  ck_checkpoint_key :: string
  ck_expected_sequence :: "nat option"
  ck_next_sequence :: nat
  ck_checkpoint_hash :: string

definition make_capture_checkpoint :: "capture_checkpoint \<Rightarrow> capture_checkpoint result" where
  "make_capture_checkpoint c =
     validated
       [raise_if (\<not> identifier_field 128 (ck_checkpoint_key c)) (FieldError ''checkpoint_key''),
        raise_if (ck_next_sequence c < 1) (FieldError ''next_sequence''),
        raise_if (\<not> is_sha256 (ck_checkpoint_hash c)) (FieldError ''checkpoint_hash''),
        raise_if (\<not> opt_field (\<lambda>n. n < ck_next_sequence c) (ck_expected_sequence c))
          (ValueError ''checkpoint next_sequence must advance'')] c"

definition capture_checkpoint_json :: "capture_checkpoint \<Rightarrow> json" where
  "capture_checkpoint_json c =
     JObj [(''checkpoint_key'', JStr (ck_checkpoint_key c)),
           (''expected_sequence'', j_opt j_nat (ck_expected_sequence c)),
           (''next_sequence'', j_nat (ck_next_sequence c)),
           (''checkpoint_hash'', JStr (ck_checkpoint_hash c))]"

record semantic_request =
  sq_task_id :: uuid
  sq_idempotency_key :: string

definition make_semantic_request :: "semantic_request \<Rightarrow> semantic_request result" where
  "make_semantic_request r =
     validated [raise_if (\<not> text_field 1 512 (sq_idempotency_key r)) (FieldError ''idempotency_key'')] r"

definition semantic_request_json :: "semantic_request \<Rightarrow> json" where
  "semantic_request_json r =
     JObj [(''task_id'', j_uuid (sq_task_id r)), (''idempotency_key'', JStr (sq_idempotency_key r))]"

record accept_command =
  ae_tenant_id :: uuid
  ae_workspace_id :: uuid
  ae_access_scope_id :: uuid
  ae_source_object_id :: uuid
  ae_expected_source_object_schema_version :: nat
  ae_idempotency_key :: string
  ae_event :: source_event
  ae_units :: "source_unit list"
  ae_checkpoint :: "capture_checkpoint option"
  ae_semantic_task :: semantic_request

definition detail_matches :: "source_type \<Rightarrow> source_unit \<Rightarrow> bool" where
  "detail_matches t u \<longleftrightarrow>
     (case t of
        ST_TRANSCRIPT \<Rightarrow>
          su_unit_kind u = UK_TURN \<and> (case su_detail u of ConversationTurn _ \<Rightarrow> True | _ \<Rightarrow> False)
      | ST_DOCUMENT \<Rightarrow>
          su_unit_kind u \<in> {UK_SECTION, UK_CHUNK, UK_ELEMENT}
          \<and> (case su_detail u of DocumentSegment _ \<Rightarrow> True | _ \<Rightarrow> False)
      | ST_MEDIA \<Rightarrow>
          su_unit_kind u \<in> {UK_MEDIA_WINDOW, UK_ELEMENT}
          \<and> (case su_detail u of MediaSegment _ \<Rightarrow> True | _ \<Rightarrow> False)
          \<and> su_time_start_seconds u \<noteq> None \<and> su_time_end_seconds u \<noteq> None
      | _ \<Rightarrow>
          su_unit_kind u = UK_RECORD_CHANGE
          \<and> (case su_detail u of RecordEvent _ \<Rightarrow> True | _ \<Rightarrow> False))"

definition unit_check :: "uuid list \<Rightarrow> source_type \<Rightarrow> source_unit \<Rightarrow> py_error option" where
  "unit_check known t u =
     first_error
       [raise_if (\<not> opt_field (\<lambda>p. p \<in> set known) (su_parent_unit_id u))
          (ValueError ''parent_unit_id must belong to the same event''),
        raise_if (\<not> detail_matches t u)
          (ValueError ''source unit detail does not match the event source type'')]"

definition content_of :: "source_unit \<Rightarrow> string" where
  "content_of u = (case su_content_text u of None \<Rightarrow> '''' | Some t \<Rightarrow> t)"

definition hydrated_characters :: "source_unit list \<Rightarrow> nat" where
  "hydrated_characters us = sum_list (map (\<lambda>u. length (content_of u)) us)"

definition evidence_json_bytes :: "source_unit list \<Rightarrow> nat" where
  "evidence_json_bytes us =
     sum_list (map (\<lambda>u. length (canonical_json_bytes (JStr (content_of u))) - 2) us)"

definition accept_command_json :: "codec \<Rightarrow> accept_command \<Rightarrow> json" where
  "accept_command_json K c =
     JObj [(''contract_version'', JInt 1), (''expected_schema_version'', JInt 11),
           (''tenant_id'', j_uuid (ae_tenant_id c)), (''workspace_id'', j_uuid (ae_workspace_id c)),
           (''access_scope_id'', j_uuid (ae_access_scope_id c)),
           (''source_object_id'', j_uuid (ae_source_object_id c)),
           (''expected_source_object_schema_version'',
              j_nat (ae_expected_source_object_schema_version c)),
           (''idempotency_key'', JStr (ae_idempotency_key c)),
           (''event'', source_event_json K (ae_event c)),
           (''units'', JList (map (source_unit_json K) (ae_units c))),
           (''checkpoint'', j_opt capture_checkpoint_json (ae_checkpoint c)),
           (''semantic_task'', semantic_request_json (ae_semantic_task c))]"

definition event_units_checks :: "codec \<Rightarrow> accept_command \<Rightarrow> py_error option list" where
  "event_units_checks K c =
     (let ids = map su_source_unit_id (ae_units c);
          observations = filter su_is_observation (ae_units c)
      in [raise_if (\<not> distinct ids) (ValueError ''source_unit_id values must be unique''),
          raise_if (\<not> distinct (map su_external_unit_id (ae_units c)))
            (ValueError ''external_unit_id values must be unique''),
          first_failure (unit_check ids (en_source_type (ae_event c))) (ae_units c),
          raise_if (observations = []) (ValueError ''at least one observation unit is required''),
          raise_if (length observations > CANONICAL_AUTHORING_MAX_OBSERVATIONS)
            (ValueError ''observation units exceed the canonical authoring output capacity''),
          raise_if (hydrated_characters observations > CANONICAL_AUTHORING_HYDRATED_CHARACTER_LIMIT)
            (ValueError (''aggregate observation content exceeds the canonical authoring ''
              @ ''hydration limit'')),
          raise_if (evidence_json_bytes observations > CANONICAL_AUTHORING_EVIDENCE_JSON_BYTE_LIMIT)
            (ValueError (''escaped observation content exceeds the canonical authoring ''
              @ ''token envelope'')),
          raise_if (length (canonical_json_bytes (accept_command_json K c))
              > CANONICAL_CAPTURE_COMMAND_JSON_BYTE_LIMIT)
            (ValueError ''capture command exceeds its canonical JSON byte limit'')])"

definition make_accept_command :: "codec \<Rightarrow> accept_command \<Rightarrow> accept_command result" where
  "make_accept_command K c =
     validated
       ([raise_if (ae_expected_source_object_schema_version c < 1)
           (FieldError ''expected_source_object_schema_version''),
         raise_if (\<not> text_field 1 512 (ae_idempotency_key c)) (FieldError ''idempotency_key''),
         nested (make_source_event (ae_event c)),
         raise_if (ae_units c = [] \<or> length (ae_units c) > 256) (FieldError ''units''),
         nested_list (make_source_unit K) (ae_units c),
         nested_opt make_capture_checkpoint (ae_checkpoint c),
         nested (make_semantic_request (ae_semantic_task c))]
        @ event_units_checks K c) c"

end
