(* ===== verification/CaptureEnvelope.thy ===== *)
theory CaptureEnvelope
  imports CanonicalEvents FoldData
begin

text \<open>
  \<open>application/capture/contracts.py\<close>: parser receipts, identities, the source-event and the
  conversation-event envelope, \<open>CaptureSubmissionCommand\<close> and \<open>compile_capture_submission\<close>. The
  two envelope classes are one record whose \<open>cv_conversation\<close> is present exactly for a
  \<open>ConversationEventEnvelope\<close>.
\<close>

section \<open>Enumerations\<close>

definition CAPTURE_DIAGNOSTIC_LIMIT :: nat where "CAPTURE_DIAGNOSTIC_LIMIT = 32"
definition CAPTURE_OMISSION_LIMIT :: nat where "CAPTURE_OMISSION_LIMIT = 32"

datatype event_kind =
    EK_SOURCE_OBSERVED | EK_SOURCE_AMENDED | EK_SOURCE_DELETED | EK_TURN_FINALIZED | EK_TURN_AMENDED

fun event_kind_value :: "event_kind \<Rightarrow> string" where
  "event_kind_value EK_SOURCE_OBSERVED = ''source_observed''"
| "event_kind_value EK_SOURCE_AMENDED = ''source_amended''"
| "event_kind_value EK_SOURCE_DELETED = ''source_deleted''"
| "event_kind_value EK_TURN_FINALIZED = ''turn_finalized''"
| "event_kind_value EK_TURN_AMENDED = ''turn_amended''"

datatype completion_status = CS_COMPLETED | CS_FAILED | CS_CANCELLED | CS_INTERRUPTED

fun completion_status_value :: "completion_status \<Rightarrow> string" where
  "completion_status_value CS_COMPLETED = ''completed''"
| "completion_status_value CS_FAILED = ''failed''"
| "completion_status_value CS_CANCELLED = ''cancelled''"
| "completion_status_value CS_INTERRUPTED = ''interrupted''"

datatype coverage_status = CV_COMPLETE | CV_PARTIAL | CV_ERROR

fun coverage_status_value :: "coverage_status \<Rightarrow> string" where
  "coverage_status_value CV_COMPLETE = ''complete''"
| "coverage_status_value CV_PARTIAL = ''partial''"
| "coverage_status_value CV_ERROR = ''error''"

datatype diagnostic_severity = DS_INFO | DS_WARNING | DS_ERROR

fun diagnostic_severity_value :: "diagnostic_severity \<Rightarrow> string" where
  "diagnostic_severity_value DS_INFO = ''info''"
| "diagnostic_severity_value DS_WARNING = ''warning''"
| "diagnostic_severity_value DS_ERROR = ''error''"

datatype participant_kind = PK_HUMAN | PK_AGENT | PK_SERVICE

fun participant_kind_value :: "participant_kind \<Rightarrow> string" where
  "participant_kind_value PK_HUMAN = ''human''"
| "participant_kind_value PK_AGENT = ''agent''"
| "participant_kind_value PK_SERVICE = ''service''"

section \<open>Parser receipts\<close>

record source_position =
  po_byte_offset :: "nat option"
  po_record_index :: "nat option"
  po_line :: "nat option"
  po_column :: "nat option"
  po_json_pointer :: "string option"

definition make_source_position :: "source_position \<Rightarrow> source_position result" where
  "make_source_position p =
     validated
       [raise_if (\<not> opt_field (\<lambda>n. 1 \<le> n) (po_line p)) (FieldError ''line''),
        raise_if (\<not> opt_field (\<lambda>n. 1 \<le> n) (po_column p)) (FieldError ''column''),
        raise_if (\<not> opt_field (text_field 1 512) (po_json_pointer p)) (FieldError ''json_pointer''),
        raise_if (po_byte_offset p = None \<and> po_record_index p = None \<and> po_line p = None
            \<and> po_column p = None \<and> po_json_pointer p = None)
          (ValueError ''a source position requires at least one coordinate'')] p"

definition source_position_json :: "source_position \<Rightarrow> json" where
  "source_position_json p =
     JObj [(''byte_offset'', j_opt j_nat (po_byte_offset p)),
           (''record_index'', j_opt j_nat (po_record_index p)), (''line'', j_opt j_nat (po_line p)),
           (''column'', j_opt j_nat (po_column p)), (''json_pointer'', j_opt JStr (po_json_pointer p))]"

record parser_diagnostic =
  pd_code :: string
  pd_severity :: diagnostic_severity
  pd_position :: "source_position option"
  pd_affected_items :: nat

definition make_parser_diagnostic :: "parser_diagnostic \<Rightarrow> parser_diagnostic result" where
  "make_parser_diagnostic d =
     validated
       [raise_if (\<not> identifier_field 128 (pd_code d)) (FieldError ''code''),
        nested_opt make_source_position (pd_position d),
        raise_if (pd_affected_items d < 1 \<or> pd_affected_items d > 1000000) (FieldError ''affected_items'')] d"

definition parser_diagnostic_json :: "parser_diagnostic \<Rightarrow> json" where
  "parser_diagnostic_json d =
     JObj [(''code'', JStr (pd_code d)), (''severity'', JStr (diagnostic_severity_value (pd_severity d))),
           (''position'', j_opt source_position_json (pd_position d)),
           (''affected_items'', j_nat (pd_affected_items d))]"

record parser_omission =
  pm_code :: string
  pm_affected_items :: nat

definition make_parser_omission :: "parser_omission \<Rightarrow> parser_omission result" where
  "make_parser_omission m =
     validated
       [raise_if (\<not> identifier_field 128 (pm_code m)) (FieldError ''code''),
        raise_if (pm_affected_items m < 1 \<or> pm_affected_items m > 1000000) (FieldError ''affected_items'')] m"

definition parser_omission_json :: "parser_omission \<Rightarrow> json" where
  "parser_omission_json m =
     JObj [(''code'', JStr (pm_code m)), (''affected_items'', j_nat (pm_affected_items m))]"

record coverage_receipt =
  cx_parser_id :: string
  cx_parser_version :: string
  cx_status :: coverage_status
  cx_outcome_code :: "string option"
  cx_source_items_seen :: nat
  cx_source_items_emitted :: nat
  cx_source_items_quarantined :: nat
  cx_diagnostics_count :: nat
  cx_diagnostics :: "parser_diagnostic list"
  cx_first_source_position :: "source_position option"
  cx_last_source_position :: "source_position option"
  cx_known_omissions :: "parser_omission list"

definition coverage_checks :: "coverage_receipt \<Rightarrow> py_error option list" where
  "coverage_checks r =
     [raise_if (cx_diagnostics_count r \<noteq> length (cx_diagnostics r))
        (ValueError ''diagnostics_count must equal bounded diagnostics''),
      raise_if (cx_source_items_emitted r + cx_source_items_quarantined r > cx_source_items_seen r)
        (ValueError ''parser output counts cannot exceed source_items_seen''),
      raise_if (cx_status r = CV_COMPLETE
          \<and> (cx_source_items_emitted r \<noteq> cx_source_items_seen r \<or> cx_source_items_quarantined r \<noteq> 0
             \<or> cx_known_omissions r \<noteq> []))
        (ValueError ''complete parser coverage cannot omit or quarantine items''),
      raise_if (cx_status r = CV_COMPLETE \<and> list_ex (\<lambda>d. pd_severity d = DS_ERROR) (cx_diagnostics r))
        (ValueError ''complete parser coverage cannot contain errors''),
      raise_if (cx_status r = CV_ERROR \<and> cx_outcome_code r = None)
        (ValueError ''error parser coverage requires outcome_code'')]"

definition make_coverage_receipt :: "coverage_receipt \<Rightarrow> coverage_receipt result" where
  "make_coverage_receipt r =
     validated
       ([raise_if (\<not> identifier_field 128 (cx_parser_id r)) (FieldError ''parser_id''),
         raise_if (\<not> text_field 1 128 (cx_parser_version r)) (FieldError ''parser_version''),
         raise_if (\<not> opt_field (identifier_field 128) (cx_outcome_code r)) (FieldError ''outcome_code''),
         raise_if (cx_source_items_seen r > 1000000) (FieldError ''source_items_seen''),
         raise_if (cx_source_items_emitted r > 1000000) (FieldError ''source_items_emitted''),
         raise_if (cx_source_items_quarantined r > 1000000) (FieldError ''source_items_quarantined''),
         raise_if (cx_diagnostics_count r > CAPTURE_DIAGNOSTIC_LIMIT) (FieldError ''diagnostics_count''),
         nested_list make_parser_diagnostic (cx_diagnostics r),
         raise_if (length (cx_diagnostics r) > CAPTURE_DIAGNOSTIC_LIMIT) (FieldError ''diagnostics''),
         nested_opt make_source_position (cx_first_source_position r),
         nested_opt make_source_position (cx_last_source_position r),
         nested_list make_parser_omission (cx_known_omissions r),
         raise_if (length (cx_known_omissions r) > CAPTURE_OMISSION_LIMIT) (FieldError ''known_omissions'')]
        @ coverage_checks r) r"

definition coverage_receipt_json :: "coverage_receipt \<Rightarrow> json" where
  "coverage_receipt_json r =
     JObj [(''parser_id'', JStr (cx_parser_id r)), (''parser_version'', JStr (cx_parser_version r)),
           (''status'', JStr (coverage_status_value (cx_status r))),
           (''outcome_code'', j_opt JStr (cx_outcome_code r)),
           (''source_items_seen'', j_nat (cx_source_items_seen r)),
           (''source_items_emitted'', j_nat (cx_source_items_emitted r)),
           (''source_items_quarantined'', j_nat (cx_source_items_quarantined r)),
           (''diagnostics_count'', j_nat (cx_diagnostics_count r)),
           (''diagnostics'', JList (map parser_diagnostic_json (cx_diagnostics r))),
           (''first_source_position'', j_opt source_position_json (cx_first_source_position r)),
           (''last_source_position'', j_opt source_position_json (cx_last_source_position r)),
           (''known_omissions'', JList (map parser_omission_json (cx_known_omissions r)))]"

section \<open>Identities\<close>

record source_identity =
  si_source_product :: string
  si_source_format_version :: string
  si_installation_id :: "string option"
  si_device_id :: "string option"
  si_source_account_ref :: "string option"
  si_external_id_scope :: string
  si_source_identity_key :: string
  si_source_object_kind :: string
  si_source_object_stable_id :: string

definition make_source_identity :: "source_identity \<Rightarrow> source_identity result" where
  "make_source_identity s =
     validated
       [raise_if (\<not> identifier_field 128 (si_source_product s)) (FieldError ''source_product''),
        raise_if (\<not> text_field 1 128 (si_source_format_version s)) (FieldError ''source_format_version''),
        raise_if (\<not> opt_field (text_field 1 512) (si_installation_id s)) (FieldError ''installation_id''),
        raise_if (\<not> opt_field (text_field 1 512) (si_device_id s)) (FieldError ''device_id''),
        raise_if (\<not> opt_field (text_field 1 512) (si_source_account_ref s))
          (FieldError ''source_account_ref''),
        raise_if (\<not> text_field 1 512 (si_external_id_scope s)) (FieldError ''external_id_scope''),
        raise_if (\<not> text_field 1 512 (si_source_identity_key s)) (FieldError ''source_identity_key''),
        raise_if (\<not> identifier_field 128 (si_source_object_kind s)) (FieldError ''source_object_kind''),
        raise_if (\<not> text_field 1 512 (si_source_object_stable_id s))
          (FieldError ''source_object_stable_id'')] s"

definition source_identity_json :: "source_identity \<Rightarrow> json" where
  "source_identity_json s =
     JObj [(''source_product'', JStr (si_source_product s)),
           (''source_format_version'', JStr (si_source_format_version s)),
           (''installation_id'', j_opt JStr (si_installation_id s)),
           (''device_id'', j_opt JStr (si_device_id s)),
           (''source_account_ref'', j_opt JStr (si_source_account_ref s)),
           (''external_id_scope'', JStr (si_external_id_scope s)),
           (''source_identity_key'', JStr (si_source_identity_key s)),
           (''source_object_kind'', JStr (si_source_object_kind s)),
           (''source_object_stable_id'', JStr (si_source_object_stable_id s))]"

record conversation_identity =
  ci_conversation_id :: string
  ci_session_id :: string
  ci_branch_id :: "string option"
  ci_turn_id :: string
  ci_parent_turn_id :: "string option"

definition make_conversation_identity :: "conversation_identity \<Rightarrow> conversation_identity result" where
  "make_conversation_identity c =
     validated
       [raise_if (\<not> text_field 1 512 (ci_conversation_id c)) (FieldError ''conversation_id''),
        raise_if (\<not> text_field 1 512 (ci_session_id c)) (FieldError ''session_id''),
        raise_if (\<not> opt_field (text_field 1 512) (ci_branch_id c)) (FieldError ''branch_id''),
        raise_if (\<not> text_field 1 512 (ci_turn_id c)) (FieldError ''turn_id''),
        raise_if (\<not> opt_field (text_field 1 512) (ci_parent_turn_id c)) (FieldError ''parent_turn_id'')] c"

definition conversation_identity_json :: "conversation_identity \<Rightarrow> json" where
  "conversation_identity_json c =
     JObj [(''conversation_id'', JStr (ci_conversation_id c)), (''session_id'', JStr (ci_session_id c)),
           (''branch_id'', j_opt JStr (ci_branch_id c)), (''turn_id'', JStr (ci_turn_id c)),
           (''parent_turn_id'', j_opt JStr (ci_parent_turn_id c))]"

record participant_identity =
  pi_participant_id :: string
  pi_kind :: participant_kind
  pi_role :: string
  pi_display_name :: "string option"

definition make_participant_identity :: "participant_identity \<Rightarrow> participant_identity result" where
  "make_participant_identity p =
     validated
       [raise_if (\<not> text_field 1 512 (pi_participant_id p)) (FieldError ''participant_id''),
        raise_if (\<not> text_field 1 128 (pi_role p)) (FieldError ''role''),
        raise_if (\<not> opt_field (text_field 1 256) (pi_display_name p)) (FieldError ''display_name'')] p"

definition participant_identity_json :: "participant_identity \<Rightarrow> json" where
  "participant_identity_json p =
     JObj [(''participant_id'', JStr (pi_participant_id p)),
           (''kind'', JStr (participant_kind_value (pi_kind p))), (''role'', JStr (pi_role p)),
           (''display_name'', j_opt JStr (pi_display_name p))]"

record client_identity =
  cl_client_id :: string
  cl_client_version :: string
  cl_agent_name :: "string option"
  cl_model_name :: "string option"
  cl_provider_name :: "string option"

definition make_client_identity :: "client_identity \<Rightarrow> client_identity result" where
  "make_client_identity c =
     validated
       [raise_if (\<not> identifier_field 128 (cl_client_id c)) (FieldError ''client_id''),
        raise_if (\<not> text_field 1 128 (cl_client_version c)) (FieldError ''client_version''),
        raise_if (\<not> opt_field (text_field 1 256) (cl_agent_name c)) (FieldError ''agent_name''),
        raise_if (\<not> opt_field (text_field 1 256) (cl_model_name c)) (FieldError ''model_name''),
        raise_if (\<not> opt_field (text_field 1 256) (cl_provider_name c)) (FieldError ''provider_name'')] c"

definition client_identity_json :: "client_identity \<Rightarrow> json" where
  "client_identity_json c =
     JObj [(''client_id'', JStr (cl_client_id c)), (''client_version'', JStr (cl_client_version c)),
           (''agent_name'', j_opt JStr (cl_agent_name c)), (''model_name'', j_opt JStr (cl_model_name c)),
           (''provider_name'', j_opt JStr (cl_provider_name c))]"

record project_hint =
  ph_source_project_id :: "string option"
  ph_repository_id :: "string option"
  ph_worktree_id :: "string option"

definition make_project_hint :: "project_hint \<Rightarrow> project_hint result" where
  "make_project_hint p =
     validated
       [raise_if (\<not> opt_field (text_field 1 512) (ph_source_project_id p)) (FieldError ''source_project_id''),
        raise_if (\<not> opt_field (text_field 1 512) (ph_repository_id p)) (FieldError ''repository_id''),
        raise_if (\<not> opt_field (text_field 1 512) (ph_worktree_id p)) (FieldError ''worktree_id'')] p"

definition project_hint_json :: "project_hint \<Rightarrow> json" where
  "project_hint_json p =
     JObj [(''source_project_id'', j_opt JStr (ph_source_project_id p)),
           (''repository_id'', j_opt JStr (ph_repository_id p)),
           (''worktree_id'', j_opt JStr (ph_worktree_id p))]"

record source_locator =
  sl_artifact_type :: string
  sl_native_ref :: "string option"
  sl_byte_offset :: "nat option"
  sl_record_index :: "nat option"
  sl_line :: "nat option"
  sl_row_id :: "string option"
  sl_json_pointer :: "string option"

definition make_source_locator :: "source_locator \<Rightarrow> source_locator result" where
  "make_source_locator l =
     validated
       [raise_if (\<not> identifier_field 128 (sl_artifact_type l)) (FieldError ''artifact_type''),
        raise_if (\<not> opt_field (text_field 1 1024) (sl_native_ref l)) (FieldError ''native_ref''),
        raise_if (\<not> opt_field (\<lambda>n. 1 \<le> n) (sl_line l)) (FieldError ''line''),
        raise_if (\<not> opt_field (text_field 1 512) (sl_row_id l)) (FieldError ''row_id''),
        raise_if (\<not> opt_field (text_field 1 512) (sl_json_pointer l)) (FieldError ''json_pointer'')] l"

definition source_locator_json :: "source_locator \<Rightarrow> json" where
  "source_locator_json l =
     JObj [(''artifact_type'', JStr (sl_artifact_type l)), (''native_ref'', j_opt JStr (sl_native_ref l)),
           (''byte_offset'', j_opt j_nat (sl_byte_offset l)),
           (''record_index'', j_opt j_nat (sl_record_index l)), (''line'', j_opt j_nat (sl_line l)),
           (''row_id'', j_opt JStr (sl_row_id l)), (''json_pointer'', j_opt JStr (sl_json_pointer l))]"

record capture_policies =
  pr_capture_policy_id :: string
  pr_access_policy_ref :: string
  pr_retention_policy_ref :: string
  pr_observation_unit_policy_version :: string

definition make_capture_policies :: "capture_policies \<Rightarrow> capture_policies result" where
  "make_capture_policies p =
     validated
       [raise_if (\<not> identifier_field 128 (pr_capture_policy_id p)) (FieldError ''capture_policy_id''),
        raise_if (\<not> text_field 1 256 (pr_access_policy_ref p)) (FieldError ''access_policy_ref''),
        raise_if (\<not> text_field 1 256 (pr_retention_policy_ref p)) (FieldError ''retention_policy_ref''),
        raise_if (\<not> text_field 1 128 (pr_observation_unit_policy_version p))
          (FieldError ''observation_unit_policy_version'')] p"

definition capture_policies_json :: "capture_policies \<Rightarrow> json" where
  "capture_policies_json p =
     JObj [(''capture_policy_id'', JStr (pr_capture_policy_id p)),
           (''access_policy_ref'', JStr (pr_access_policy_ref p)),
           (''retention_policy_ref'', JStr (pr_retention_policy_ref p)),
           (''observation_unit_policy_version'', JStr (pr_observation_unit_policy_version p))]"

section \<open>Envelopes\<close>

text \<open>The fields that \<open>ConversationEventEnvelope\<close> adds.\<close>

record conversation_part =
  cp_completion_status :: completion_status
  cp_conversation :: conversation_identity
  cp_participants :: "participant_identity list"
  cp_client :: client_identity

datatype envelope_kind = KIND_SOURCE_EVENT | KIND_CONVERSATION_EVENT

fun envelope_kind_value :: "envelope_kind \<Rightarrow> string" where
  "envelope_kind_value KIND_SOURCE_EVENT = ''source_event''"
| "envelope_kind_value KIND_CONVERSATION_EVENT = ''conversation_event''"

record capture_envelope =
  cv_envelope_kind :: envelope_kind
  cv_connector_id :: string
  cv_connector_version :: string
  cv_capture_surface :: capture_surface
  cv_source_identity :: source_identity
  cv_project_hint :: "project_hint option"
  cv_event_id :: uuid
  cv_external_event_id :: "string option"
  cv_event_kind :: event_kind
  cv_supersedes_source_identity_key :: "string option"
  cv_source_occurred_at :: "datetime option"
  cv_source_occurred_end_at :: "datetime option"
  cv_source_occurred_at_raw :: "string option"
  cv_source_timezone :: "string option"
  cv_source_time_precision :: "time_precision option"
  cv_source_sequence :: "nat option"
  cv_source_revision_key :: "string option"
  cv_captured_at :: datetime
  cv_source_type :: source_type
  cv_content_hash :: string
  cv_source_locator :: "source_locator option"
  cv_parser_receipt :: coverage_receipt
  cv_policies :: capture_policies
  cv_units :: "source_unit list"
  cv_conversation :: "conversation_part option"

definition conversation_entries :: "conversation_part option \<Rightarrow> (string \<times> json) list" where
  "conversation_entries p =
     (case p of
        None \<Rightarrow> []
      | Some c \<Rightarrow>
          [(''completion_status'', JStr (completion_status_value (cp_completion_status c))),
           (''conversation'', conversation_identity_json (cp_conversation c)),
           (''participants'', JList (map participant_identity_json (cp_participants c))),
           (''client'', client_identity_json (cp_client c))])"

definition envelope_json :: "codec \<Rightarrow> capture_envelope \<Rightarrow> json" where
  "envelope_json K e =
     JObj
       ([(''envelope_kind'', JStr (envelope_kind_value (cv_envelope_kind e))),
         (''schema_version'', JInt 1), (''connector_id'', JStr (cv_connector_id e)),
         (''connector_version'', JStr (cv_connector_version e)),
         (''capture_surface'', JStr (capture_surface_value (cv_capture_surface e))),
         (''source_identity'', source_identity_json (cv_source_identity e)),
         (''project_hint'', j_opt project_hint_json (cv_project_hint e)),
         (''event_id'', j_uuid (cv_event_id e)),
         (''external_event_id'', j_opt JStr (cv_external_event_id e)),
         (''event_kind'', JStr (event_kind_value (cv_event_kind e))),
         (''supersedes_source_identity_key'', j_opt JStr (cv_supersedes_source_identity_key e)),
         (''source_occurred_at'', j_datetime K (cv_source_occurred_at e)),
         (''source_occurred_end_at'', j_datetime K (cv_source_occurred_end_at e)),
         (''source_occurred_at_raw'', j_opt JStr (cv_source_occurred_at_raw e)),
         (''source_timezone'', j_opt JStr (cv_source_timezone e)),
         (''source_time_precision'',
            j_opt (\<lambda>p. JStr (time_precision_value p)) (cv_source_time_precision e)),
         (''source_sequence'', j_opt j_nat (cv_source_sequence e)),
         (''source_revision_key'', j_opt JStr (cv_source_revision_key e)),
         (''captured_at'', j_datetime K (Some (cv_captured_at e))),
         (''source_type'', JStr (source_type_value (cv_source_type e))),
         (''content_hash'', JStr (cv_content_hash e)),
         (''source_locator'', j_opt source_locator_json (cv_source_locator e)),
         (''parser_receipt'', coverage_receipt_json (cv_parser_receipt e)),
         (''policies'', capture_policies_json (cv_policies e)),
         (''units'', JList (map (source_unit_json K) (cv_units e)))]
        @ conversation_entries (cv_conversation e))"

definition envelope_canonical_bytes :: "codec \<Rightarrow> capture_envelope \<Rightarrow> bytes" where
  "envelope_canonical_bytes K e = canonical_json_bytes (envelope_json K e)"

definition envelope_canonical_hash :: "codec \<Rightarrow> capture_envelope \<Rightarrow> string" where
  "envelope_canonical_hash K e = canonical_sha256 (cd_hash K) (envelope_json K e)"

definition is_conversation :: "capture_envelope \<Rightarrow> bool" where
  "is_conversation e \<longleftrightarrow> cv_conversation e \<noteq> None"

definition envelope_field_checks :: "codec \<Rightarrow> capture_envelope \<Rightarrow> py_error option list" where
  "envelope_field_checks K e =
     [raise_if (is_conversation e \<and> cv_envelope_kind e \<noteq> KIND_CONVERSATION_EVENT)
        (FieldError ''envelope_kind''),
      raise_if (\<not> identifier_field 128 (cv_connector_id e)) (FieldError ''connector_id''),
      raise_if (\<not> text_field 1 128 (cv_connector_version e)) (FieldError ''connector_version''),
      nested (make_source_identity (cv_source_identity e)),
      nested_opt make_project_hint (cv_project_hint e),
      raise_if (\<not> opt_field (text_field 1 512) (cv_external_event_id e)) (FieldError ''external_event_id''),
      raise_if (is_conversation e \<and> cv_event_kind e \<notin> {EK_TURN_FINALIZED, EK_TURN_AMENDED})
        (FieldError ''event_kind''),
      raise_if (\<not> opt_field (text_field 1 512) (cv_supersedes_source_identity_key e))
        (FieldError ''supersedes_source_identity_key''),
      raise_if (\<not> opt_field (text_field 1 512) (cv_source_occurred_at_raw e))
        (FieldError ''source_occurred_at_raw''),
      raise_if (\<not> opt_field (text_field 1 128) (cv_source_timezone e)) (FieldError ''source_timezone''),
      raise_if (\<not> opt_field (text_field 1 512) (cv_source_revision_key e))
        (FieldError ''source_revision_key''),
      raise_if (is_conversation e \<and> cv_source_type e \<noteq> ST_TRANSCRIPT) (FieldError ''source_type''),
      raise_if (\<not> is_sha256 (cv_content_hash e)) (FieldError ''content_hash''),
      nested_opt make_source_locator (cv_source_locator e),
      nested (make_coverage_receipt (cv_parser_receipt e)),
      nested (make_capture_policies (cv_policies e)),
      nested_list (make_source_unit K) (cv_units e),
      raise_if (length (cv_units e) > 256) (FieldError ''units'')]"

definition conversation_field_checks :: "conversation_part \<Rightarrow> py_error option list" where
  "conversation_field_checks c =
     [nested (make_conversation_identity (cp_conversation c)),
      nested_list make_participant_identity (cp_participants c),
      raise_if (cp_participants c = [] \<or> length (cp_participants c) > 64) (FieldError ''participants''),
      nested (make_client_identity (cp_client c))]"

text \<open>A control envelope reports a deletion or a parser error; it has no units.\<close>

definition is_control :: "capture_envelope \<Rightarrow> bool" where
  "is_control e \<longleftrightarrow>
     cx_status (cv_parser_receipt e) = CV_ERROR \<or> cv_event_kind e = EK_SOURCE_DELETED"

definition is_amendment :: "event_kind \<Rightarrow> bool" where
  "is_amendment k \<longleftrightarrow> k \<in> {EK_SOURCE_AMENDED, EK_TURN_AMENDED, EK_SOURCE_DELETED}"

definition source_event_checks :: "codec \<Rightarrow> capture_envelope \<Rightarrow> py_error option list" where
  "source_event_checks K e =
     [raise_if (uuid_version (cv_event_id e) \<noteq> 7) (ValueError ''capture event_id must be UUIDv7''),
      raise_if (\<not> is_conversation e \<and> cv_envelope_kind e \<noteq> KIND_SOURCE_EVENT)
        (ValueError ''source-event envelope kind is invalid''),
      check_ordered (cv_source_occurred_at e) (cv_source_occurred_end_at e)
        ''source occurrence end cannot precede start'',
      (if is_control e
       then raise_if (cv_units e \<noteq> [])
              (ValueError ''deleted or parser-error envelopes cannot contain units'')
       else raise_if (\<not> list_ex su_is_observation (cv_units e))
              (ValueError ''accepted envelopes require an observation unit'')),
      raise_if (is_amendment (cv_event_kind e) \<and> cv_supersedes_source_identity_key e = None)
        (ValueError ''amendment and deletion require a superseded identity''),
      raise_if (\<not> is_amendment (cv_event_kind e) \<and> cv_supersedes_source_identity_key e \<noteq> None)
        (ValueError ''only amendment or deletion may supersede source identity''),
      raise_if (length (envelope_canonical_bytes K e) > CAPTURE_ENVELOPE_MAX_BYTES)
        (ValueError ''capture envelope exceeds its canonical byte limit'')]"

definition turn_of :: "source_unit \<Rightarrow> turn_detail option" where
  "turn_of u = (case su_detail u of ConversationTurn d \<Rightarrow> Some d | _ \<Rightarrow> None)"

definition conversation_unit_check ::
  "conversation_part \<Rightarrow> source_unit \<Rightarrow> source_unit \<Rightarrow> py_error option" where
  "conversation_unit_check c observation u =
     (case turn_of u of
        None \<Rightarrow> Some (ValueError ''conversation envelopes require conversation-turn units'')
      | Some d \<Rightarrow>
          first_error
            [raise_if (tt_conversation_id d \<noteq> ci_conversation_id (cp_conversation c)
                 \<or> tt_session_id d \<noteq> ci_session_id (cp_conversation c)
                 \<or> tt_branch_id d \<noteq> ci_branch_id (cp_conversation c))
               (ValueError ''conversation unit identity must match its envelope''),
             raise_if (su_is_observation u \<and> tt_turn_id d \<noteq> ci_turn_id (cp_conversation c))
               (ValueError ''conversation observation must match its envelope turn''),
             raise_if (\<not> su_is_observation u
                 \<and> (su_unit_kind u \<noteq> UK_TURN \<or> su_parent_unit_id u \<noteq> Some (su_source_unit_id observation)
                    \<or> tt_turn_id d = ci_turn_id (cp_conversation c)))
               (ValueError ''conversation evidence must be a distinct subordinate turn unit''),
             raise_if (tt_participant_id d \<notin> Some ` pi_participant_id ` set (cp_participants c))
               (ValueError ''conversation unit participant must be declared'')])"

definition conversation_checks :: "conversation_part \<Rightarrow> source_unit list \<Rightarrow> py_error option list" where
  "conversation_checks c units =
     (let observations = filter su_is_observation units
      in [raise_if (\<not> distinct (map pi_participant_id (cp_participants c)))
            (ValueError ''conversation participant identities must be unique''),
          raise_if (length observations \<noteq> 1)
            (ValueError ''conversation envelopes require exactly one observation unit''),
          (case observations of
             [observation] \<Rightarrow> first_failure (conversation_unit_check c observation) units
           | _ \<Rightarrow> None)])"

definition make_envelope :: "codec \<Rightarrow> capture_envelope \<Rightarrow> capture_envelope result" where
  "make_envelope K e =
     validated
       (envelope_field_checks K e
        @ (case cv_conversation e of None \<Rightarrow> [] | Some c \<Rightarrow> conversation_field_checks c)
        @ source_event_checks K e
        @ (case cv_conversation e of None \<Rightarrow> [] | Some c \<Rightarrow> conversation_checks c (cv_units e))) e"

section \<open>Submission commands\<close>

record submission_command =
  sm_idempotency_key :: string
  sm_envelope :: capture_envelope
  sm_envelope_canonical_json :: string
  sm_envelope_hash :: string
  sm_cursor :: "connector_cursor option"
  sm_canonical_accept_command :: "accept_command option"
  sm_binding :: kernel_capture_binding

text \<open>\<open>canonical_bytes.decode("utf-8")\<close>: the canonical JSON is ASCII text.\<close>

definition envelope_text :: "codec \<Rightarrow> capture_envelope \<Rightarrow> string" where
  "envelope_text K e = json_render (envelope_json K e)"

definition submission_checks :: "codec \<Rightarrow> submission_command \<Rightarrow> py_error option list" where
  "submission_checks K c =
     [raise_if (sm_envelope_canonical_json c \<noteq> envelope_text K (sm_envelope c))
        (ValueError ''envelope_canonical_json must be canonical''),
      raise_if (sm_envelope_hash c \<noteq> envelope_canonical_hash K (sm_envelope c))
        (ValueError ''envelope_hash must match the canonical envelope''),
      (if is_control (sm_envelope c)
       then raise_if (sm_canonical_accept_command c \<noteq> None \<or> sm_cursor c \<noteq> None)
              (ValueError ''quarantine and deletion cannot advance a connector cursor'')
       else raise_if (sm_canonical_accept_command c = None)
              (ValueError ''accepted capture requires the canonical transaction command''))]"

definition make_submission_command :: "codec \<Rightarrow> submission_command \<Rightarrow> submission_command result" where
  "make_submission_command K c =
     validated
       ([raise_if (\<not> text_field 1 512 (sm_idempotency_key c)) (FieldError ''idempotency_key''),
         nested (make_envelope K (sm_envelope c)),
         raise_if (\<not> text_field 2 CAPTURE_ENVELOPE_MAX_BYTES (sm_envelope_canonical_json c))
           (FieldError ''envelope_canonical_json''),
         raise_if (\<not> is_sha256 (sm_envelope_hash c)) (FieldError ''envelope_hash''),
         nested_opt make_connector_cursor (sm_cursor c),
         nested_opt (make_accept_command K) (sm_canonical_accept_command c),
         nested (make_kernel_capture_binding (sm_binding c))]
        @ submission_checks K c) c"

section \<open>\<open>compile_capture_submission\<close>\<close>

text \<open>
  The participant of the observation unit. In a valid conversation envelope there is exactly one
  observation, a turn of a declared participant; a generator that finds nothing raises.
\<close>

definition observation_actor :: "capture_envelope \<Rightarrow> participant_identity option result" where
  "observation_actor e =
     (case cv_conversation e of
        None \<Rightarrow> Inr None
      | Some c \<Rightarrow>
          (case find su_is_observation (cv_units e) of
             None \<Rightarrow> Inl (RuntimeError ''StopIteration'')
           | Some u \<Rightarrow>
               (case turn_of u of
                  None \<Rightarrow> Inl (ValueError ''conversation observation detail is unavailable'')
                | Some d \<Rightarrow>
                    (case find (\<lambda>p. Some (pi_participant_id p) = tt_participant_id d) (cp_participants c) of
                       None \<Rightarrow> Inl (RuntimeError ''StopIteration'')
                     | Some p \<Rightarrow> Inr (Some p)))))"

definition checkpoint_of :: "connector_cursor \<Rightarrow> capture_checkpoint" where
  "checkpoint_of c =
     \<lparr>ck_checkpoint_key = cc_checkpoint_key c, ck_expected_sequence = Some (cc_expected_sequence c),
      ck_next_sequence = cc_next_sequence c, ck_checkpoint_hash = cc_checkpoint_hash c\<rparr>"

definition event_of :: "capture_envelope \<Rightarrow> participant_identity option \<Rightarrow> source_event" where
  "event_of e actor =
     \<lparr>en_event_id = cv_event_id e, en_source_type = cv_source_type e,
      en_source_system = si_source_product (cv_source_identity e),
      en_installation_id = si_installation_id (cv_source_identity e),
      en_external_event_id = cv_external_event_id e,
      en_external_id_scope = si_external_id_scope (cv_source_identity e),
      en_source_identity_key = si_source_identity_key (cv_source_identity e),
      en_session_id = map_option (\<lambda>c. ci_session_id (cp_conversation c)) (cv_conversation e),
      en_actor_id = (case actor of None \<Rightarrow> ''unknown'' | Some p \<Rightarrow> pi_participant_id p),
      en_actor_kind = (case actor of None \<Rightarrow> ''unknown'' | Some p \<Rightarrow> participant_kind_value (pi_kind p)),
      en_source_occurred_at = cv_source_occurred_at e,
      en_source_occurred_end_at = cv_source_occurred_end_at e,
      en_source_occurred_at_raw = cv_source_occurred_at_raw e,
      en_source_timezone = cv_source_timezone e,
      en_source_time_precision = cv_source_time_precision e,
      en_source_sequence = cv_source_sequence e,
      en_source_revision_key = cv_source_revision_key e,
      en_parser_contract_version =
        cx_parser_id (cv_parser_receipt e) @ ''.'' @ cx_parser_version (cv_parser_receipt e),
      en_observation_unit_policy_version = pr_observation_unit_policy_version (cv_policies e),
      en_captured_at = cv_captured_at e,
      en_source_ref =
        ''source:'' @ si_source_product (cv_source_identity e) @ '':''
        @ si_source_object_stable_id (cv_source_identity e),
      en_content_hash = cv_content_hash e, en_attributes = [], en_document_revision = None\<rparr>"

definition accept_command_of ::
  "capture_envelope \<Rightarrow> kernel_capture_binding \<Rightarrow> string \<Rightarrow> uuid \<Rightarrow> connector_cursor option
    \<Rightarrow> participant_identity option \<Rightarrow> accept_command" where
  "accept_command_of e b key task cursor actor =
     \<lparr>ae_tenant_id = kb_tenant_id b, ae_workspace_id = kb_workspace_id b,
      ae_access_scope_id = kb_access_scope_id b, ae_source_object_id = kb_source_object_id b,
      ae_expected_source_object_schema_version = kb_expected_source_object_schema_version b,
      ae_idempotency_key = key, ae_event = event_of e actor, ae_units = cv_units e,
      ae_checkpoint = map_option checkpoint_of cursor,
      ae_semantic_task =
        \<lparr>sq_task_id = task, sq_idempotency_key = ''capture.semantic:'' @ key\<rparr>\<rparr>"

definition canonical_accept ::
  "codec \<Rightarrow> capture_envelope \<Rightarrow> kernel_capture_binding \<Rightarrow> string \<Rightarrow> uuid option \<Rightarrow> connector_cursor option
    \<Rightarrow> accept_command option result" where
  "canonical_accept K e b key task cursor =
     (if is_control e then Inr None
      else case task of
             None \<Rightarrow> Inl (ValueError ''accepted capture requires a kernel semantic task ID'')
           | Some t \<Rightarrow>
               if uuid_version t \<noteq> 7 then Inl (ValueError ''kernel semantic task ID must be UUIDv7'')
               else bindE (observation_actor e) (\<lambda>actor.
                    bindE (case cursor of None \<Rightarrow> Inr () | Some c \<Rightarrow>
                             bindE (make_capture_checkpoint (checkpoint_of c)) (\<lambda>_. Inr ())) (\<lambda>_.
                    bindE (make_source_event (event_of e actor)) (\<lambda>_.
                    bindE (make_semantic_request
                             \<lparr>sq_task_id = t, sq_idempotency_key = ''capture.semantic:'' @ key\<rparr>) (\<lambda>_.
                    bindE (make_accept_command K (accept_command_of e b key t cursor actor))
                      (\<lambda>a. Inr (Some a)))))))"

definition compile_capture_submission ::
  "codec \<Rightarrow> capture_envelope \<Rightarrow> kernel_capture_binding \<Rightarrow> string \<Rightarrow> uuid option \<Rightarrow> connector_cursor option
    \<Rightarrow> submission_command result" where
  "compile_capture_submission K e b key task cursor =
     bindE (make_envelope K e) (\<lambda>e.
     bindE (canonical_accept K e b key task cursor) (\<lambda>canonical_command.
     make_submission_command K
       \<lparr>sm_idempotency_key = key, sm_envelope = e, sm_envelope_canonical_json = envelope_text K e,
        sm_envelope_hash = envelope_canonical_hash K e, sm_cursor = cursor,
        sm_canonical_accept_command = canonical_command, sm_binding = b\<rparr>))"

section \<open>What the kernel reports of a delivery\<close>

datatype materialization_status = MS_NONE | MS_THIN_BEAD | MS_READY

datatype enrichment_status = ES_NOT_APPLICABLE | ES_PENDING | ES_FAILED | ES_READY

record capture_inbox_item =
  ib_delivery_id :: uuid
  ib_event_id :: "uuid option"
  ib_source_object_id :: uuid
  ib_envelope_kind :: envelope_kind
  ib_source_product :: string
  ib_source_identity_key :: string
  ib_ingress_status :: capture_ingress_status
  ib_materialization_status :: materialization_status
  ib_enrichment_status :: enrichment_status
  ib_checkpoint_sequence :: "int option"
  ib_delivered_at :: datetime

record capture_status_event =
  ct_delivery_id :: uuid
  ct_status_sequence :: nat
  ct_ingress_status :: capture_ingress_status
  ct_occurred_at :: datetime

definition make_capture_status_event :: "capture_status_event \<Rightarrow> capture_status_event result" where
  "make_capture_status_event s =
     validated [raise_if (ct_status_sequence s < 1) (FieldError ''status_sequence'')] s"

record capture_delivery_detail =
  dd_delivery_id :: uuid
  dd_event_kind :: event_kind
  dd_supersedes_event_id :: "uuid option"
  dd_source_locator :: "source_locator option"
  dd_parser_receipt :: coverage_receipt
  dd_source_identity :: source_identity
  dd_conversation :: "conversation_identity option"
  dd_participants :: "participant_identity list"
  dd_client :: "client_identity option"
  dd_project_hint :: "project_hint option"
  dd_policies :: capture_policies

definition make_capture_delivery_detail :: "capture_delivery_detail \<Rightarrow> capture_delivery_detail result" where
  "make_capture_delivery_detail d =
     validated
       [nested_opt make_source_locator (dd_source_locator d),
        nested (make_coverage_receipt (dd_parser_receipt d)),
        nested (make_source_identity (dd_source_identity d)),
        nested_opt make_conversation_identity (dd_conversation d),
        nested_list make_participant_identity (dd_participants d),
        nested_opt make_client_identity (dd_client d), nested_opt make_project_hint (dd_project_hint d),
        nested (make_capture_policies (dd_policies d))] d"

end
