(* ===== verification/CanonicalStatements.thy ===== *)
theory CanonicalStatements
  imports CanonicalEvents
begin

text \<open>
  \<open>application/canonical_transactions.py\<close>, second part: authored statements, their render, the
  annotation of a bead, and \<open>ApplySemanticAnnotationsCommand\<close> with the receipts of both commands.
\<close>

section \<open>Statements\<close>

datatype statement_kind = SK_OBSERVATION | SK_CONTEXT | SK_QUALIFICATION | SK_CORRECTION

fun statement_kind_value :: "statement_kind \<Rightarrow> string" where
  "statement_kind_value SK_OBSERVATION = ''observation''"
| "statement_kind_value SK_CONTEXT = ''context''"
| "statement_kind_value SK_QUALIFICATION = ''qualification''"
| "statement_kind_value SK_CORRECTION = ''correction''"

record statement_evidence =
  ev_source_unit_id :: uuid
  ev_content_hash :: string

definition make_statement_evidence :: "statement_evidence \<Rightarrow> statement_evidence result" where
  "make_statement_evidence e =
     validated [raise_if (\<not> is_sha256 (ev_content_hash e)) (FieldError ''content_hash'')] e"

definition statement_evidence_json :: "statement_evidence \<Rightarrow> json" where
  "statement_evidence_json e =
     JObj [(''source_unit_id'', j_uuid (ev_source_unit_id e)), (''content_hash'', JStr (ev_content_hash e))]"

record statement_draft =
  sd_statement_id :: uuid
  sd_statement_kind :: statement_kind
  sd_statement_text :: string
  sd_evidence :: "statement_evidence list"
  sd_context_source_ids :: "uuid list"
  sd_model_run_ref :: string
  sd_supersedes_statement_id :: "uuid option"
  sd_correction_reason :: "string option"

definition make_statement_draft :: "statement_draft \<Rightarrow> statement_draft result" where
  "make_statement_draft s =
     validated
       [raise_if (\<not> text_field 1 8192 (sd_statement_text s)) (FieldError ''statement_text''),
        nested_list make_statement_evidence (sd_evidence s),
        raise_if (sd_evidence s = [] \<or> length (sd_evidence s) > 64) (FieldError ''evidence''),
        raise_if (\<not> identifier_field 128 (sd_model_run_ref s)) (FieldError ''model_run_ref''),
        raise_if (\<not> opt_field (text_field 1 1024) (sd_correction_reason s))
          (FieldError ''correction_reason''),
        raise_if (\<not> distinct (map ev_source_unit_id (sd_evidence s)))
          (ValueError ''statement evidence references must be unique''),
        raise_if (\<not> distinct (sd_context_source_ids s))
          (ValueError ''context source references must be unique''),
        (if sd_statement_kind s = SK_CORRECTION
         then raise_if (sd_supersedes_statement_id s = None \<or> sd_correction_reason s = None)
                (ValueError ''correction requires supersession target and reason'')
         else raise_if (sd_supersedes_statement_id s \<noteq> None \<or> sd_correction_reason s \<noteq> None)
                (ValueError ''only correction may carry supersession metadata''))] s"

definition statement_json :: "statement_draft \<Rightarrow> json" where
  "statement_json s =
     JObj [(''statement_id'', j_uuid (sd_statement_id s)),
           (''statement_kind'', JStr (statement_kind_value (sd_statement_kind s))),
           (''statement_text'', JStr (sd_statement_text s)),
           (''evidence'', JList (map statement_evidence_json (sd_evidence s))),
           (''context_source_ids'', JList (map (\<lambda>u. j_uuid u) (sd_context_source_ids s))),
           (''model_run_ref'', JStr (sd_model_run_ref s)),
           (''supersedes_statement_id'', j_opt (\<lambda>u. j_uuid u) (sd_supersedes_statement_id s)),
           (''correction_reason'', j_opt JStr (sd_correction_reason s))]"

section \<open>Render\<close>

record render_clause =
  cl_text :: string
  cl_statement_ids :: "uuid list"

definition make_render_clause :: "render_clause \<Rightarrow> render_clause result" where
  "make_render_clause c =
     validated
       [raise_if (\<not> text_field 1 2048 (cl_text c)) (FieldError ''text''),
        raise_if (cl_statement_ids c = [] \<or> length (cl_statement_ids c) > 64) (FieldError ''statement_ids''),
        raise_if (strip (cl_text c) = [])
          (ValueError ''render clause text must contain non-whitespace text''),
        raise_if (\<not> distinct (cl_statement_ids c))
          (ValueError ''render clause statement IDs must be unique'')] c"

definition render_clause_json :: "render_clause \<Rightarrow> json" where
  "render_clause_json c =
     JObj [(''text'', JStr (cl_text c)),
           (''statement_ids'', JList (map (\<lambda>u. j_uuid u) (cl_statement_ids c)))]"

record render_omission =
  om_statement_id :: uuid
  om_reason :: string

definition make_render_omission :: "render_omission \<Rightarrow> render_omission result" where
  "make_render_omission m =
     validated
       [raise_if (\<not> text_field 1 512 (om_reason m)) (FieldError ''reason''),
        raise_if (strip (om_reason m) = [])
          (ValueError ''render omission reason must contain non-whitespace text'')] m"

definition render_omission_json :: "render_omission \<Rightarrow> json" where
  "render_omission_json m =
     JObj [(''statement_id'', j_uuid (om_statement_id m)), (''reason'', JStr (om_reason m))]"

record bead_render =
  br_title :: render_clause
  br_summary :: "render_clause list"
  br_detail :: "render_clause list"
  br_omissions :: "render_omission list"

definition title_text :: "bead_render \<Rightarrow> string" where
  "title_text r = cl_text (br_title r)"

definition summary_text :: "bead_render \<Rightarrow> string" where
  "summary_text r = join '' '' (map cl_text (br_summary r))"

definition detail_text :: "bead_render \<Rightarrow> string option" where
  "detail_text r =
     (if br_detail r = [] then None
      else Some (join [CHR 0x0A, CHR 0x0A] (map cl_text (br_detail r))))"

definition included_statement_ids :: "bead_render \<Rightarrow> uuid set" where
  "included_statement_ids r =
     (\<Union>c \<in> set (br_title r # br_summary r @ br_detail r). set (cl_statement_ids c))"

definition classified_statement_ids :: "bead_render \<Rightarrow> uuid set" where
  "classified_statement_ids r = included_statement_ids r \<union> set (map om_statement_id (br_omissions r))"

definition make_bead_render :: "bead_render \<Rightarrow> bead_render result" where
  "make_bead_render r =
     validated
       [nested (make_render_clause (br_title r)),
        nested_list make_render_clause (br_summary r),
        raise_if (br_summary r = [] \<or> length (br_summary r) > 3) (FieldError ''summary''),
        nested_list make_render_clause (br_detail r),
        raise_if (length (br_detail r) > 8) (FieldError ''detail''),
        nested_list make_render_omission (br_omissions r),
        raise_if (length (br_omissions r) > 64) (FieldError ''omissions''),
        raise_if (length (title_text r) > 240) (ValueError ''render title exceeds 240 characters''),
        raise_if (length (summary_text r) > 2048) (ValueError ''render summary exceeds 2048 characters''),
        raise_if (\<not> opt_field (\<lambda>t. length t \<le> 8192) (detail_text r))
          (ValueError ''render detail exceeds 8192 characters''),
        raise_if (\<not> distinct (map om_statement_id (br_omissions r)))
          (ValueError ''render omission statement IDs must be unique''),
        raise_if (set (map om_statement_id (br_omissions r)) \<inter> included_statement_ids r \<noteq> {})
          (ValueError ''render statements cannot be included and omitted'')] r"

definition bead_render_json :: "bead_render \<Rightarrow> json" where
  "bead_render_json r =
     JObj [(''title'', render_clause_json (br_title r)),
           (''summary'', JList (map render_clause_json (br_summary r))),
           (''detail'', JList (map render_clause_json (br_detail r))),
           (''omissions'', JList (map render_omission_json (br_omissions r)))]"

section \<open>Annotations\<close>

record bead_annotation =
  ba_bead_id :: uuid
  ba_event_id :: uuid
  ba_source_unit_id :: uuid
  ba_bead_version_id :: uuid
  ba_expected_bead_version :: nat
  ba_bead_type_key :: string
  ba_bead_type_revision :: nat
  ba_statements :: "statement_draft list"
  ba_render :: bead_render

text \<open>The pattern \<open>^[a-z][a-z0-9_]*$\<close>.\<close>

fun bead_type_key :: "string \<Rightarrow> bool" where
  "bead_type_key [] \<longleftrightarrow> False"
| "bead_type_key (c # cs) \<longleftrightarrow> is_lower c \<and> list_all (\<lambda>d. is_alnum d \<or> d = CHR ''_'') cs"

definition observations_of :: "statement_draft list \<Rightarrow> statement_draft list" where
  "observations_of ss = filter (\<lambda>s. sd_statement_kind s = SK_OBSERVATION) ss"

definition initial_semantics_checks :: "bead_annotation \<Rightarrow> py_error option list" where
  "initial_semantics_checks b =
     (let ids = map sd_statement_id (ba_statements b);
          initial = ba_expected_bead_version b = 0;
          observations = observations_of (ba_statements b)
      in [raise_if (\<not> distinct ids) (ValueError ''statement IDs must be unique within a bead bundle''),
          raise_if (\<not> set ids \<subseteq> classified_statement_ids (ba_render b))
            (ValueError ''every authored statement must be rendered or omitted''),
          raise_if (initial \<and> classified_statement_ids (ba_render b) \<noteq> set ids)
            (ValueError ''initial render may reference only its authored statements''),
          raise_if (initial \<and> observations = [])
            (ValueError ''initial bead semantics require an observation''),
          raise_if (initial \<and> (\<exists>s \<in> set observations.
              ba_source_unit_id b \<notin> ev_source_unit_id ` set (sd_evidence s)))
            (ValueError ''initial observations require evidence from their own source unit'')])"

definition make_bead_annotation :: "bead_annotation \<Rightarrow> bead_annotation result" where
  "make_bead_annotation b =
     validated
       ([raise_if (\<not> bead_type_key (ba_bead_type_key b)) (FieldError ''bead_type_key''),
         raise_if (ba_bead_type_revision b < 1) (FieldError ''bead_type_revision''),
         nested_list make_statement_draft (ba_statements b),
         raise_if (ba_statements b = [] \<or> length (ba_statements b) > 64) (FieldError ''statements''),
         nested (make_bead_render (ba_render b))]
        @ initial_semantics_checks b) b"

definition bead_annotation_json :: "bead_annotation \<Rightarrow> json" where
  "bead_annotation_json b =
     JObj [(''bead_id'', j_uuid (ba_bead_id b)), (''event_id'', j_uuid (ba_event_id b)),
           (''source_unit_id'', j_uuid (ba_source_unit_id b)),
           (''bead_version_id'', j_uuid (ba_bead_version_id b)),
           (''expected_bead_version'', j_nat (ba_expected_bead_version b)),
           (''bead_type_key'', JStr (ba_bead_type_key b)),
           (''bead_type_revision'', j_nat (ba_bead_type_revision b)),
           (''statements'', JList (map statement_json (ba_statements b))),
           (''render'', bead_render_json (ba_render b))]"

record authoring_payload =
  ap_event_id :: uuid
  ap_bead_ids :: "uuid list"
  ap_source_unit_ids :: "uuid list"

definition authoring_count :: "'a list \<Rightarrow> bool" where
  "authoring_count xs \<longleftrightarrow> 1 \<le> length xs \<and> length xs \<le> CANONICAL_AUTHORING_MAX_OBSERVATIONS"

definition make_authoring_payload :: "authoring_payload \<Rightarrow> authoring_payload result" where
  "make_authoring_payload p =
     validated
       [raise_if (\<not> authoring_count (ap_bead_ids p)) (FieldError ''bead_ids''),
        raise_if (\<not> authoring_count (ap_source_unit_ids p)) (FieldError ''source_unit_ids''),
        raise_if (length (ap_bead_ids p) \<noteq> length (ap_source_unit_ids p))
          (ValueError ''each observation unit requires one bead''),
        raise_if (\<not> distinct (ap_bead_ids p)) (ValueError ''bead IDs must be unique''),
        raise_if (\<not> distinct (ap_source_unit_ids p)) (ValueError ''source unit IDs must be unique'')] p"

type_synonym annotations_payload = "bead_annotation list"

definition annotations_json :: "annotations_payload \<Rightarrow> json" where
  "annotations_json as = JObj [(''annotations'', JList (map bead_annotation_json as))]"

definition make_annotations_payload :: "annotations_payload \<Rightarrow> annotations_payload result" where
  "make_annotations_payload as =
     validated
       [nested_list make_bead_annotation as,
        raise_if (\<not> authoring_count as) (FieldError ''annotations''),
        raise_if (\<not> distinct (map ba_bead_id as))
          (ValueError ''each bead may appear once per semantic result''),
        raise_if (\<not> distinct (map sd_statement_id (concat (map ba_statements as))))
          (ValueError ''statement IDs must be unique''),
        raise_if (length (canonical_json_bytes (annotations_json as))
            > CANONICAL_AUTHORING_OUTPUT_JSON_BYTE_LIMIT)
          (ValueError ''semantic annotations exceed the canonical authoring output envelope'')] as"

section \<open>The apply command and the receipts\<close>

record apply_command =
  ay_idempotency_key :: string
  ay_tenant_id :: uuid
  ay_workspace_id :: uuid
  ay_access_scope_id :: uuid
  ay_task_id :: uuid
  ay_attempt_id :: uuid
  ay_lease_generation :: nat
  ay_task_kind :: string
  ay_contract_revision :: nat
  ay_output_contract_hash :: string
  ay_semantic_result_hash :: string
  ay_semantic_payload_canonical_json :: string
  ay_used_evidence_refs :: "string list"
  ay_model_run_refs :: "string list"
  ay_payload :: annotations_payload

definition statement_reference_check :: "apply_command \<Rightarrow> statement_draft \<Rightarrow> py_error option" where
  "statement_reference_check c s =
     first_error
       [raise_if (sd_model_run_ref s \<notin> set (ay_model_run_refs c))
          (ValueError ''statement run is outside the result run set''),
        raise_if (\<not> list_all (\<lambda>e. uuid_str (ev_source_unit_id e) \<in> set (ay_used_evidence_refs c)) (sd_evidence s))
          (ValueError ''statement evidence is outside the used evidence set'')]"

definition result_reference_checks :: "hash \<Rightarrow> apply_command \<Rightarrow> py_error option list" where
  "result_reference_checks H c =
     (let canonical_payload = canonical_json_bytes (annotations_json (ay_payload c))
      in [raise_if (utf8 (ay_semantic_payload_canonical_json c) \<noteq> canonical_payload)
            (ValueError ''semantic_payload_canonical_json must be the canonical payload''),
          raise_if (H canonical_payload \<noteq> ay_semantic_result_hash c)
            (ValueError ''semantic_result_hash must match the canonical payload''),
          raise_if (\<not> distinct (ay_used_evidence_refs c))
            (ValueError ''used evidence references must be unique''),
          raise_if (\<not> distinct (ay_model_run_refs c))
            (ValueError ''model run references must be unique''),
          first_failure (statement_reference_check c) (concat (map ba_statements (ay_payload c)))])"

definition make_apply_command :: "hash \<Rightarrow> apply_command \<Rightarrow> apply_command result" where
  "make_apply_command H c =
     validated
       ([raise_if (\<not> text_field 1 512 (ay_idempotency_key c)) (FieldError ''idempotency_key''),
         raise_if (ay_lease_generation c < 1) (FieldError ''lease_generation''),
         raise_if (\<not> is_identifier (ay_task_kind c)) (FieldError ''task_kind''),
         raise_if (ay_contract_revision c < 1) (FieldError ''contract_revision''),
         raise_if (\<not> is_sha256 (ay_output_contract_hash c)) (FieldError ''output_contract_hash''),
         raise_if (\<not> is_sha256 (ay_semantic_result_hash c)) (FieldError ''semantic_result_hash''),
         raise_if (\<not> text_field 2 CANONICAL_AUTHORING_OUTPUT_JSON_BYTE_LIMIT
             (ay_semantic_payload_canonical_json c)) (FieldError ''semantic_payload_canonical_json''),
         raise_if (ay_used_evidence_refs c = [] \<or> length (ay_used_evidence_refs c) > 256)
           (FieldError ''used_evidence_refs''),
         raise_if (ay_model_run_refs c = [] \<or> length (ay_model_run_refs c) > 64)
           (FieldError ''model_run_refs''),
         nested (make_annotations_payload (ay_payload c))]
        @ result_reference_checks H c) c"

record accept_receipt =
  rx_event_id :: uuid
  rx_source_unit_ids :: "uuid list"
  rx_bead_ids :: "uuid list"
  rx_semantic_task_id :: uuid
  rx_idempotency_receipt_id :: uuid
  rx_checkpoint_sequence :: "int option"
  rx_already_exists :: bool
  rx_replayed :: bool

record apply_receipt =
  ry_task_id :: uuid
  ry_attempt_id :: uuid
  ry_idempotency_receipt_id :: uuid
  ry_statement_ids :: "uuid list"
  ry_bead_version_ids :: "uuid list"
  ry_replayed :: bool

end
