(* ===== verification/JsonFacts.thy ===== *)
theory JsonFacts
  imports Codec
begin

text \<open>
  Facts on the canonical JSON writer that the size checks of the commands need: its text is ASCII,
  so that bytes and characters count the same, and a bound on its length that is computed without
  rendering.
\<close>

definition ascii :: "string \<Rightarrow> bool" where
  "ascii s \<longleftrightarrow> (\<forall>c \<in> set s. (of_char c :: nat) < 128)"

lemma ascii_simps [simp]:
  "ascii []" "ascii (c # s) \<longleftrightarrow> (of_char c :: nat) < 128 \<and> ascii s" "ascii (s @ t) \<longleftrightarrow> ascii s \<and> ascii t"
  by (auto simp: ascii_def)

lemma length_utf8_ascii: "ascii s \<Longrightarrow> length (utf8 s) = length s"
proof (induction s)
  case (Cons c s)
  from Cons.prems have "(of_char c :: nat) < 128" "ascii s" by (auto simp: ascii_def)
  from this(1) have "length (utf8_char c) = 1" by (simp only: utf8_char_def Let_def if_True) simp
  moreover have "utf8 (c # s) = utf8_char c @ utf8 s" by (simp add: utf8_def)
  ultimately show ?case using Cons.IH [OF \<open>ascii s\<close>] by (simp only: length_append list.size)
qed (simp add: utf8_def)

lemma ascii_nth: "ascii s \<Longrightarrow> n < length s \<Longrightarrow> (of_char (s ! n) :: nat) < 128"
  by (simp add: ascii_def)

lemma ascii_hexdigit: "n < 16 \<Longrightarrow> (of_char (hexdigit n) :: nat) < 128"
  unfolding hexdigit_def by (rule ascii_nth) simp_all

lemma ascii_hexn [simp]: "ascii (hexn k n)"
  by (induction k arbitrary: n) (simp_all add: ascii_hexdigit)

lemma length_hexn [simp]: "length (hexn k n) = k"
  by (induction k arbitrary: n) simp_all

lemma ascii_digit: "n < 10 \<Longrightarrow> (of_char (digit n) :: nat) < 128"
  unfolding digit_def by (rule ascii_nth) simp_all

lemma ascii_str_nat [simp]: "ascii (str_nat n)"
proof (induction n rule: str_nat.induct)
  case (1 n)
  then show ?case by (subst str_nat.simps) (simp add: ascii_digit)
qed

lemma ascii_str_int [simp]: "ascii (str_int i)"
  by (simp add: str_int_def)

lemma ascii_json_char [simp]: "ascii (json_char c)"
  by (simp add: json_char_def Let_def)

lemma ascii_concat [simp]: "ascii (concat xs) \<longleftrightarrow> (\<forall>x \<in> set xs. ascii x)"
  by (induction xs) simp_all

lemma ascii_json_string [simp]: "ascii (json_string s)"
  by (simp add: json_string_def)

lemma ascii_join [simp]: "ascii sep \<Longrightarrow> \<forall>x \<in> set xs. ascii x \<Longrightarrow> ascii (join sep xs)"
  by (induction sep xs rule: join.induct) simp_all

lemma ascii_json_render [simp]: "ascii (json_render j)"
proof (induction j rule: json_render.induct)
  case (5 xs)
  then show ?case by simp
next
  case (6 kvs)
  have "ascii v" if "(k, v) \<in> (\<lambda>(k, v). (k, json_render v)) ` set kvs" for k v
    using that 6 by fastforce
  then show ?case by (fastforce simp: Let_def intro!: ascii_join)
qed simp_all

lemma length_canonical_json: "length (canonical_json_bytes j) = length (json_render j)"
  by (simp add: canonical_json_bytes_def length_utf8_ascii)

section \<open>A bound on the length\<close>

fun json_bound :: "json \<Rightarrow> nat" where
  "json_bound JNull = 4"
| "json_bound (JBool b) = 5"
| "json_bound (JInt i) = nat \<bar>i\<bar> + 2"
| "json_bound (JStr s) = 6 * length s + 2"
| "json_bound (JList xs) = sum_list (map json_bound xs) + length xs + 2"
| "json_bound (JObj kvs) =
     sum_list (map (\<lambda>(k, v). 6 * length k + 4 + json_bound v) kvs) + 2"

lemma length_str_nat: "length (str_nat n) \<le> n + 1"
proof (induction n rule: str_nat.induct)
  case (1 n)
  then show ?case by (subst str_nat.simps) (cases "n < 10"; simp; linarith)
qed

lemma length_str_int: "length (str_int i) \<le> nat \<bar>i\<bar> + 2"
proof (cases "i < 0")
  case True
  then have "nat \<bar>i\<bar> = nat (- i)" by simp
  with True length_str_nat [of "nat (- i)"] show ?thesis by (simp add: str_int_def)
next
  case False
  then have "nat \<bar>i\<bar> = nat i" by simp
  with False length_str_nat [of "nat i"] show ?thesis by (simp add: str_int_def)
qed

lemma length_json_char: "length (json_char c) \<le> 6"
  by (simp add: json_char_def Let_def)

lemma length_json_string: "length (json_string s) \<le> 6 * length s + 2"
proof -
  have "length (concat (map json_char s)) \<le> 6 * length s"
  proof (induction s)
    case (Cons c s)
    then show ?case using length_json_char [of c] by simp
  qed simp
  then show ?thesis by (simp add: json_string_def)
qed

lemma length_join: "length (join sep xs) \<le> sum_list (map length xs) + length sep * length xs"
  by (induction sep xs rule: join.induct) simp_all

lemma sum_list_insort: "sum_list (map f (insort_key g x xs)) = f x + (sum_list (map f xs) :: nat)"
  by (induction xs) simp_all

lemma sum_list_sort: "sum_list (map f (sort_key g xs)) = (sum_list (map f xs) :: nat)"
  by (induction xs) (simp_all add: sum_list_insort)

lemma sum_list_bound: "(\<And>x. x \<in> set xs \<Longrightarrow> f x \<le> g x) \<Longrightarrow> sum_list (map f xs) \<le> (sum_list (map g xs) :: nat)"
  by (induction xs) (auto simp: add_mono)

lemma length_json_render: "length (json_render j) \<le> json_bound j"
proof (induction j rule: json_render.induct)
  case (3 i)
  show ?case using length_str_int [of i] by (simp only: json_render.simps json_bound.simps)
next
  case (4 s)
  show ?case using length_json_string [of s] by (simp only: json_render.simps json_bound.simps)
next
  case (5 xs)
  have "sum_list (map length (map json_render xs)) \<le> sum_list (map json_bound xs)"
    unfolding map_map using 5 by (intro sum_list_bound) simp
  with length_join [of "'',''" "map json_render xs"] show ?case by simp
next
  case (6 kvs)
  let ?e = "map (\<lambda>(k, v). (k, json_render v)) kvs"
  let ?f = "\<lambda>(k, v). json_string k @ '':'' @ v"
  have "sum_list (map (length \<circ> ?f) (sort_key fst ?e)) = sum_list (map (length \<circ> ?f) ?e)"
    by (rule sum_list_sort)
  also have "\<dots> = sum_list (map (\<lambda>(k, v). length (json_string k) + 1 + length (json_render v)) kvs)"
    unfolding map_map by (rule arg_cong [where f = sum_list]) (auto intro: map_cong)
  finally have s: "sum_list (map (length \<circ> ?f) (sort_key fst ?e))
      = sum_list (map (\<lambda>(k, v). length (json_string k) + 1 + length (json_render v)) kvs)" .
  have "sum_list (map (\<lambda>(k, v). length (json_string k) + 1 + length (json_render v)) kvs) + length kvs
      = sum_list (map (\<lambda>(k, v). length (json_string k) + 2 + length (json_render v)) kvs)"
    by (induction kvs) auto
  also have "\<dots> \<le> sum_list (map (\<lambda>(k, v). 6 * length k + 4 + json_bound v) kvs)"
  proof (rule sum_list_bound)
    fix x assume "x \<in> set kvs"
    with 6 have "length (json_render (snd x)) \<le> json_bound (snd x)" by (cases x) auto
    with length_json_string [of "fst x"] show "(case x of (k, v) \<Rightarrow> length (json_string k) + 2 + length (json_render v))
        \<le> (case x of (k, v) \<Rightarrow> 6 * length k + 4 + json_bound v)" by (simp add: case_prod_beta)
  qed
  finally have "length (join '','' (map ?f (sort_key fst ?e)))
      \<le> sum_list (map (\<lambda>(k, v). 6 * length k + 4 + json_bound v) kvs)"
    using length_join [of "'',''" "map ?f (sort_key fst ?e)"] s by (simp add: map_map)
  then show ?case by (simp add: Let_def)
qed simp_all

lemma length_canonical_bound: "length (canonical_json_bytes j) \<le> json_bound j"
  by (simp add: length_canonical_json length_json_render)

lemma length_uuid_str [simp]: "length (uuid_str u) = 36"
  by (simp add: uuid_str_def Let_def)

end
