(* ===== verification/EnvelopeFacts.thy ===== *)
theory EnvelopeFacts
  imports CaptureEnvelope CanonicalStatements JsonFacts
begin

text \<open>
  What a valid envelope promises to the code that compiles it, and the inversion of
  \<open>compile_capture_submission\<close> into the steps it takes.
\<close>

section \<open>Constructors return their argument\<close>

lemma made_envelope: "make_envelope K e = Inr e' \<Longrightarrow> e' = e"
  by (simp add: make_envelope_def)

lemma made_accept: "make_accept_command K a = Inr a' \<Longrightarrow> a' = a"
  by (simp add: make_accept_command_def)

lemma made_submission: "make_submission_command K c = Inr c' \<Longrightarrow> c' = c"
  by (simp add: make_submission_command_def)

section \<open>Valid envelopes\<close>

lemma envelope_size:
  assumes "make_envelope K e = Inr e"
  shows "length (envelope_text K e) \<le> CAPTURE_ENVELOPE_MAX_BYTES"
  using assms
  by (simp add: make_envelope_def source_event_checks_def envelope_canonical_bytes_def
      length_canonical_json envelope_text_def)

lemma envelope_text_start: "2 \<le> length (envelope_text K e)"
  by (simp add: envelope_text_def envelope_json_def Let_def)

lemma single_filter:
  assumes "length (filter P xs) = Suc 0"
  obtains x where "filter P xs = [x]" "find P xs = Some x" "x \<in> set xs" "P x"
proof -
  from assms obtain x where x: "filter P xs = [x]" by (auto simp: length_Suc_conv)
  then have "x \<in> set (filter P xs)" by simp
  moreover from x have "find P xs = Some x" by (induction xs) (auto split: if_splits)
  ultimately show ?thesis using that [OF x] by simp
qed

text \<open>A valid conversation envelope has one observation, the turn of a declared participant.\<close>

lemma conversation_observation:
  assumes valid: "make_envelope K e = Inr e" and c: "cv_conversation e = Some c"
  obtains u d p where "filter su_is_observation (cv_units e) = [u]" "find su_is_observation (cv_units e) = Some u"
    "turn_of u = Some d" "tt_turn_id d = ci_turn_id (cp_conversation c)"
    "find (\<lambda>p. Some (pi_participant_id p) = tt_participant_id d) (cp_participants c) = Some p"
    "p \<in> set (cp_participants c)" "Some (pi_participant_id p) = tt_participant_id d"
proof -
  from valid c have checks: "\<forall>x \<in> set (conversation_checks c (cv_units e)). x = None"
    by (simp add: make_envelope_def)
  then have "length (filter su_is_observation (cv_units e)) = Suc 0"
    by (simp add: conversation_checks_def Let_def)
  then obtain u where u: "filter su_is_observation (cv_units e) = [u]"
    "find su_is_observation (cv_units e) = Some u" "u \<in> set (cv_units e)" "su_is_observation u"
    by (rule single_filter)
  from checks u(1,3) have uc: "conversation_unit_check c u u = None"
    by (simp add: conversation_checks_def Let_def)
  then obtain d where d: "turn_of u = Some d" "tt_turn_id d = ci_turn_id (cp_conversation c)"
    "tt_participant_id d \<in> Some ` pi_participant_id ` set (cp_participants c)"
    using u(4) by (auto simp: conversation_unit_check_def split: option.splits)
  then obtain q where q: "q \<in> set (cp_participants c)" "Some (pi_participant_id q) = tt_participant_id d"
    by auto
  show ?thesis
  proof (cases "find (\<lambda>p. Some (pi_participant_id p) = tt_participant_id d) (cp_participants c)")
    case None
    with q show ?thesis by (auto simp: find_None_iff)
  next
    case (Some p)
    then have "p \<in> set (cp_participants c)" "Some (pi_participant_id p) = tt_participant_id d"
      by (auto simp: find_Some_iff)
    with that u d Some show ?thesis by blast
  qed
qed

lemma conversation_not_control:
  assumes valid: "make_envelope K e = Inr e" and c: "cv_conversation e = Some c"
  shows "\<not> is_control e"
proof -
  from valid c obtain u where "filter su_is_observation (cv_units e) = [u]"
    by (rule conversation_observation)
  then have "cv_units e \<noteq> []" by auto
  with valid show ?thesis by (auto simp: make_envelope_def source_event_checks_def split: if_splits)
qed

text \<open>The actor is that participant, and nobody for a plain source event; no lookup fails.\<close>

definition actor_of_observation :: "capture_envelope \<Rightarrow> participant_identity option \<Rightarrow> bool" where
  "actor_of_observation e actor \<longleftrightarrow>
     (case cv_conversation e of
        None \<Rightarrow> actor = None
      | Some c \<Rightarrow> (\<exists>u d p. actor = Some p \<and> p \<in> set (cp_participants c)
          \<and> filter su_is_observation (cv_units e) = [u] \<and> turn_of u = Some d
          \<and> tt_participant_id d = Some (pi_participant_id p)))"

lemma observation_actor_total:
  assumes "make_envelope K e = Inr e"
  obtains actor where "observation_actor e = Inr actor" "actor_of_observation e actor"
proof (cases "cv_conversation e")
  case None
  with that show ?thesis by (simp add: observation_actor_def actor_of_observation_def)
next
  case (Some c)
  with assms obtain u d p where "filter su_is_observation (cv_units e) = [u]"
    "find su_is_observation (cv_units e) = Some u" "turn_of u = Some d"
    "find (\<lambda>p. Some (pi_participant_id p) = tt_participant_id d) (cp_participants c) = Some p"
    "p \<in> set (cp_participants c)" "Some (pi_participant_id p) = tt_participant_id d"
    by (rule conversation_observation)
  with Some that [of "Some p"] show ?thesis
    by (force simp: observation_actor_def actor_of_observation_def)
qed

section \<open>Compilation\<close>

lemma canonical_accept_control [simp]: "is_control e \<Longrightarrow> canonical_accept K e b key task cursor = Inr None"
  by (simp add: canonical_accept_def)

lemma canonical_accept_Inr:
  assumes "canonical_accept K e b key task cursor = Inr x" "\<not> is_control e"
  obtains t actor where "task = Some t" "uuid_version t = 7" "observation_actor e = Inr actor"
    "is_ok (make_source_event (event_of e actor))"
    "make_accept_command K (accept_command_of e b key t cursor actor)
       = Inr (accept_command_of e b key t cursor actor)"
    "x = Some (accept_command_of e b key t cursor actor)"
proof -
  from assms obtain t where t: "task = Some t" "uuid_version t = 7"
    by (auto simp: canonical_accept_def split: option.splits if_splits)
  with assms obtain actor where actor: "observation_actor e = Inr actor"
    and event: "is_ok (make_source_event (event_of e actor))"
    and rest: "bindE (make_accept_command K (accept_command_of e b key t cursor actor)) (\<lambda>a. Inr (Some a)) = Inr x"
    unfolding canonical_accept_def is_ok_def bindE_Inr_iff by (auto simp: bindE_Inr_iff)
  from rest obtain a where "make_accept_command K (accept_command_of e b key t cursor actor) = Inr a" "x = Some a"
    by (auto simp: bindE_Inr_iff)
  with made_accept [OF this(1)] t actor event that show ?thesis by blast
qed

lemma compiled:
  assumes "compile_capture_submission K e b key task cursor = Inr c"
  obtains a where "make_envelope K e = Inr e" "canonical_accept K e b key task cursor = Inr a"
    "make_submission_command K c = Inr c"
    "c = \<lparr>sm_idempotency_key = key, sm_envelope = e, sm_envelope_canonical_json = envelope_text K e,
          sm_envelope_hash = envelope_canonical_hash K e, sm_cursor = cursor,
          sm_canonical_accept_command = a, sm_binding = b\<rparr>"
proof -
  from assms obtain e' a where e: "make_envelope K e = Inr e'"
    and a: "canonical_accept K e' b key task cursor = Inr a"
    and m: "make_submission_command K
       \<lparr>sm_idempotency_key = key, sm_envelope = e', sm_envelope_canonical_json = envelope_text K e',
        sm_envelope_hash = envelope_canonical_hash K e', sm_cursor = cursor,
        sm_canonical_accept_command = a, sm_binding = b\<rparr> = Inr c"
    unfolding compile_capture_submission_def bindE_Inr_iff by blast
  from made_envelope [OF e] e a m made_submission [OF m] that show ?thesis by metis
qed

text \<open>The event of a valid envelope passes its own checks, a few of which are narrower.\<close>

definition within_event_limits :: "capture_envelope \<Rightarrow> bool" where
  "within_event_limits e \<longleftrightarrow>
     cv_source_type e \<noteq> ST_DOCUMENT
     \<and> length (cx_parser_id (cv_parser_receipt e)) + length (cx_parser_version (cv_parser_receipt e)) \<le> 127"

lemma opt_text_relax: "opt_field (text_field (Suc 0) n) x \<Longrightarrow> opt_field (text_field 0 n) x"
  by (cases x) (simp_all add: text_field_def)

lemma check_ordered_any: "check_ordered a b s = None \<Longrightarrow> check_ordered a b t = None"
  by (cases "(a, b, s)" rule: check_ordered.cases) simp_all

lemma identifier_text: "identifier_field n s \<Longrightarrow> text_field 1 n s"
  by (cases s) (simp_all add: identifier_field_def text_field_def)

lemma valid_identity:
  assumes "make_envelope K e = Inr e"
  shows "text_field 1 128 (si_source_product (cv_source_identity e))"
    "opt_field (text_field 0 512) (si_installation_id (cv_source_identity e))"
    "text_field 1 512 (si_external_id_scope (cv_source_identity e))"
    "text_field 1 512 (si_source_identity_key (cv_source_identity e))"
    "text_field 1 512 (si_source_object_stable_id (cv_source_identity e))"
proof -
  from assms have "is_ok (make_source_identity (cv_source_identity e))"
    by (simp add: make_envelope_def envelope_field_checks_def)
  then show "text_field 1 128 (si_source_product (cv_source_identity e))"
    "opt_field (text_field 0 512) (si_installation_id (cv_source_identity e))"
    "text_field 1 512 (si_external_id_scope (cv_source_identity e))"
    "text_field 1 512 (si_source_identity_key (cv_source_identity e))"
    "text_field 1 512 (si_source_object_stable_id (cv_source_identity e))"
    by (simp_all add: make_source_identity_def identifier_text [simplified] opt_text_relax)
qed

lemma valid_event_fields:
  assumes "make_envelope K e = Inr e"
  shows "opt_field (text_field 0 512) (cv_external_event_id e)"
    "opt_field (text_field 0 512) (cv_source_occurred_at_raw e)"
    "opt_field (text_field 0 128) (cv_source_timezone e)"
    "opt_field (text_field 0 512) (cv_source_revision_key e)" "is_sha256 (cv_content_hash e)"
    "text_field 1 128 (pr_observation_unit_policy_version (cv_policies e))"
    "cx_parser_id (cv_parser_receipt e) \<noteq> []" "cx_parser_version (cv_parser_receipt e) \<noteq> []"
    "check_ordered (cv_source_occurred_at e) (cv_source_occurred_end_at e) s = None"
proof -
  from assms have f: "\<forall>x \<in> set (envelope_field_checks K e). x = None"
    and s: "\<forall>x \<in> set (source_event_checks K e). x = None" by (simp_all add: make_envelope_def)
  from s show "check_ordered (cv_source_occurred_at e) (cv_source_occurred_end_at e) s = None"
    by (simp add: source_event_checks_def) (blast intro: check_ordered_any)
  from f have "is_ok (make_capture_policies (cv_policies e))" "is_ok (make_coverage_receipt (cv_parser_receipt e))"
    by (simp_all add: envelope_field_checks_def)
  then show "text_field 1 128 (pr_observation_unit_policy_version (cv_policies e))"
    "cx_parser_id (cv_parser_receipt e) \<noteq> []" "cx_parser_version (cv_parser_receipt e) \<noteq> []"
    by (auto simp: make_capture_policies_def make_coverage_receipt_def identifier_field_def text_field_def)
  from f show "opt_field (text_field 0 512) (cv_external_event_id e)"
    "opt_field (text_field 0 512) (cv_source_occurred_at_raw e)"
    "opt_field (text_field 0 128) (cv_source_timezone e)"
    "opt_field (text_field 0 512) (cv_source_revision_key e)" "is_sha256 (cv_content_hash e)"
    by (simp_all add: envelope_field_checks_def opt_text_relax)
qed

lemma valid_actor_fields:
  assumes valid: "make_envelope K e = Inr e" and actor: "actor_of_observation e actor"
  shows "text_field 1 512 (en_actor_id (event_of e actor))"
    "text_field 1 128 (en_actor_kind (event_of e actor))"
    "opt_field (text_field 0 512) (en_session_id (event_of e actor))"
proof -
  have "text_field 1 512 (en_actor_id (event_of e actor))
      \<and> text_field 1 128 (en_actor_kind (event_of e actor))
      \<and> opt_field (text_field 0 512) (en_session_id (event_of e actor))"
  proof (cases "cv_conversation e")
    case None
    with actor show ?thesis by (simp add: actor_of_observation_def event_of_def text_field_def)
  next
    case (Some c)
    with actor obtain p where p: "actor = Some p" "p \<in> set (cp_participants c)"
      by (auto simp: actor_of_observation_def)
    from valid Some have "\<forall>x \<in> set (conversation_field_checks c). x = None" by (simp add: make_envelope_def)
    with p(2) have "is_ok (make_participant_identity p)" "is_ok (make_conversation_identity (cp_conversation c))"
      by (simp_all add: conversation_field_checks_def)
    with p(1) Some show ?thesis
      by (cases "pi_kind p") (auto simp: event_of_def make_participant_identity_def
          make_conversation_identity_def text_field_def)
  qed
  then show "text_field 1 512 (en_actor_id (event_of e actor))"
    "text_field 1 128 (en_actor_kind (event_of e actor))"
    "opt_field (text_field 0 512) (en_session_id (event_of e actor))" by simp_all
qed

lemma event_made:
  assumes valid: "make_envelope K e = Inr e" and actor: "actor_of_observation e actor"
  shows "is_ok (make_source_event (event_of e actor)) \<longleftrightarrow> within_event_limits e"
proof -
  note valid_identity [OF valid] valid_event_fields [OF valid] valid_actor_fields [OF valid actor]
  moreover have "text_field 1 1024 (en_source_ref (event_of e actor))"
    using valid_identity(1,5) [OF valid] by (simp add: event_of_def text_field_def)
  moreover have "text_field 1 128 (en_parser_contract_version (event_of e actor))
      \<longleftrightarrow> length (cx_parser_id (cv_parser_receipt e)) + length (cx_parser_version (cv_parser_receipt e)) \<le> 127"
    by (simp add: event_of_def text_field_def)
  ultimately show ?thesis
    unfolding make_source_event_def validated_ok within_event_limits_def
    by (auto simp: reject_duplicate_attributes_def event_of_def)
qed

text \<open>When every limit is kept, the compiled command is the one the sources build.\<close>

definition submission_of ::
  "codec \<Rightarrow> capture_envelope \<Rightarrow> kernel_capture_binding \<Rightarrow> string \<Rightarrow> connector_cursor option
    \<Rightarrow> accept_command option \<Rightarrow> submission_command" where
  "submission_of K e b key cursor a =
     \<lparr>sm_idempotency_key = key, sm_envelope = e, sm_envelope_canonical_json = envelope_text K e,
      sm_envelope_hash = envelope_canonical_hash K e, sm_cursor = cursor,
      sm_canonical_accept_command = a, sm_binding = b\<rparr>"

lemma checkpoint_made: "is_ok (make_connector_cursor k) \<Longrightarrow> is_ok (make_capture_checkpoint (checkpoint_of k))"
  by (simp add: make_connector_cursor_def make_capture_checkpoint_def checkpoint_of_def)

lemma submission_made:
  assumes "make_envelope K e = Inr e" "sha256_documented (cd_hash K)" "text_field 1 512 key"
    and "is_ok (make_kernel_capture_binding b)" "nested_opt make_connector_cursor cursor = None"
    and "nested_opt (make_accept_command K) a = None"
    and "if is_control e then a = None \<and> cursor = None else a \<noteq> None"
  shows "make_submission_command K (submission_of K e b key cursor a) = Inr (submission_of K e b key cursor a)"
  using assms envelope_size [OF assms(1)] envelope_text_start [of K e]
  by (auto simp: make_submission_command_def submission_checks_def submission_of_def text_field_def
      envelope_canonical_hash_def canonical_sha256_def split: if_splits)

lemma accept_made:
  assumes valid: "make_envelope K e = Inr e" and "\<not> is_control e" and "within_event_limits e"
    and actor: "observation_actor e = Inr actor" "actor_of_observation e actor"
    and key: "text_field 1 495 key" and "is_ok (make_kernel_capture_binding b)"
    and "nested_opt make_connector_cursor cursor = None"
    and "\<forall>x \<in> set (event_units_checks K (accept_command_of e b key t cursor actor)). x = None"
  shows "make_accept_command K (accept_command_of e b key t cursor actor)
    = Inr (accept_command_of e b key t cursor actor)"
proof -
  have "\<forall>u \<in> set (cv_units e). is_ok (make_source_unit K u)" "length (cv_units e) \<le> 256" "cv_units e \<noteq> []"
    using valid assms(2) by (auto simp: make_envelope_def envelope_field_checks_def source_event_checks_def)
  moreover have "is_ok (make_source_event (event_of e actor))"
    using event_made [OF valid actor(2)] assms(3) by simp
  moreover have "nested_opt make_capture_checkpoint (map_option checkpoint_of cursor) = None"
    using assms(8) by (cases cursor) (simp_all add: checkpoint_made)
  moreover have "is_ok (make_semantic_request \<lparr>sq_task_id = t, sq_idempotency_key = ''capture.semantic:'' @ key\<rparr>)"
    using key by (simp add: make_semantic_request_def text_field_def)
  moreover have "1 \<le> kb_expected_source_object_schema_version b" "text_field 1 512 key"
    using assms(7) key by (simp_all add: make_kernel_capture_binding_def text_field_def)
  ultimately show ?thesis using assms(9)
    by (auto simp: make_accept_command_def accept_command_of_def)
qed

lemma compile_accepts:
  assumes valid: "make_envelope K e = Inr e" and H: "sha256_documented (cd_hash K)"
    and c: "\<not> is_control e" and limits: "within_event_limits e" and t: "uuid_version t = 7"
    and actor: "observation_actor e = Inr actor" and key: "text_field 1 495 key"
    and b: "is_ok (make_kernel_capture_binding b)" and k: "nested_opt make_connector_cursor cursor = None"
    and units: "\<forall>x \<in> set (event_units_checks K (accept_command_of e b key t cursor actor)). x = None"
  shows "compile_capture_submission K e b key (Some t) cursor
    = Inr (submission_of K e b key cursor (Some (accept_command_of e b key t cursor actor)))"
proof -
  from valid obtain x where "observation_actor e = Inr x" "actor_of_observation e x"
    by (rule observation_actor_total)
  with actor have who: "actor_of_observation e actor" by simp
  note a = accept_made [OF valid c limits actor who key b k units]
  have check: "\<exists>u. (case cursor of None \<Rightarrow> Inr () | Some k \<Rightarrow>
      bindE (make_capture_checkpoint (checkpoint_of k)) (\<lambda>_. Inr ())) = Inr u"
    using k checkpoint_made by (cases cursor) (fastforce simp: is_ok_def)+
  have event: "\<exists>v. make_source_event (event_of e actor) = Inr v"
    using event_made [OF valid who] limits by (simp add: is_ok_def)
  have sem: "\<exists>v. make_semantic_request \<lparr>sq_task_id = t, sq_idempotency_key = ''capture.semantic:'' @ key\<rparr> = Inr v"
    using key by (simp add: make_semantic_request_def text_field_def)
  have "canonical_accept K e b key (Some t) cursor = Inr (Some (accept_command_of e b key t cursor actor))"
    using c t check event sem a by (auto simp: canonical_accept_def actor)
  moreover have "make_submission_command K
      (submission_of K e b key cursor (Some (accept_command_of e b key t cursor actor)))
    = Inr (submission_of K e b key cursor (Some (accept_command_of e b key t cursor actor)))"
    using c key k a by (intro submission_made valid H b) (simp_all add: text_field_def)
  ultimately show ?thesis
    by (simp add: compile_capture_submission_def valid submission_of_def)
qed

end
