(* ===== verification/EnvelopeClaims.thy ===== *)
theory EnvelopeClaims
  imports EnvelopeFacts Scenario
begin

text \<open>
  The properties of capture envelopes, of their compilation into kernel commands, and of the
  authored annotations that a semantic task sends back.
\<close>

section \<open>A demonstration envelope\<close>

definition demo_codec :: codec where
  "demo_codec = \<lparr>cd_hash = demo_hash, cd_iso_datetime = (\<lambda>_. ''2026-01-01T00:00:00Z''), cd_float = JInt\<rparr>"

definition demo_uuid7 :: uuid where
  "demo_uuid7 = 528905046081400263933952"

definition demo_identity :: source_identity where
  "demo_identity =
     \<lparr>si_source_product = ''assistant'', si_source_format_version = ''1'', si_installation_id = None,
      si_device_id = None, si_source_account_ref = None, si_external_id_scope = ''local'',
      si_source_identity_key = ''s1'', si_source_object_kind = ''transcript'',
      si_source_object_stable_id = ''object-1''\<rparr>"

definition demo_coverage :: coverage_receipt where
  "demo_coverage =
     \<lparr>cx_parser_id = ''lines'', cx_parser_version = ''1'', cx_status = CV_COMPLETE, cx_outcome_code = None,
      cx_source_items_seen = 1, cx_source_items_emitted = 1, cx_source_items_quarantined = 0,
      cx_diagnostics_count = 0, cx_diagnostics = [], cx_first_source_position = None,
      cx_last_source_position = None, cx_known_omissions = []\<rparr>"

definition demo_policies :: capture_policies where
  "demo_policies =
     \<lparr>pr_capture_policy_id = ''p'', pr_access_policy_ref = ''a'', pr_retention_policy_ref = ''r'',
      pr_observation_unit_policy_version = ''1''\<rparr>"

definition demo_unit :: "unit_kind \<Rightarrow> unit_detail \<Rightarrow> source_unit" where
  "demo_unit kind detail =
     \<lparr>su_source_unit_id = 1, su_parent_unit_id = None, su_unit_kind = kind, su_is_observation = True,
      su_external_unit_id = ''u1'', su_unit_ordinal = 0, su_unit_source_occurred_at = None,
      su_unit_source_occurred_end_at = None, su_unit_time_precision = None,
      su_time_start_seconds = None, su_time_end_seconds = None, su_content_text = Some ''hi'',
      su_content_hash = demo_hash [], su_hydration_ref = None, su_schema_version = 1,
      su_structure = [], su_detail = detail\<rparr>"

definition demo_turn :: turn_detail where
  "demo_turn =
     \<lparr>tt_conversation_id = ''c1'', tt_session_id = ''s1'', tt_branch_id = None, tt_turn_id = ''t1'',
      tt_participant_id = Some ''me'', tt_participant_role = ''user''\<rparr>"

definition demo_part :: conversation_part where
  "demo_part =
     \<lparr>cp_completion_status = CS_COMPLETED,
      cp_conversation =
        \<lparr>ci_conversation_id = ''c1'', ci_session_id = ''s1'', ci_branch_id = None, ci_turn_id = ''t1'',
         ci_parent_turn_id = None\<rparr>,
      cp_participants = [\<lparr>pi_participant_id = ''me'', pi_kind = PK_HUMAN, pi_role = ''user'', pi_display_name = None\<rparr>],
      cp_client =
        \<lparr>cl_client_id = ''client'', cl_client_version = ''1'', cl_agent_name = None, cl_model_name = None,
         cl_provider_name = None\<rparr>\<rparr>"

definition demo_envelope ::
  "envelope_kind \<Rightarrow> event_kind \<Rightarrow> source_type \<Rightarrow> source_unit \<Rightarrow> conversation_part option \<Rightarrow> capture_envelope" where
  "demo_envelope kind event type unit part =
     \<lparr>cv_envelope_kind = kind, cv_connector_id = ''connector'', cv_connector_version = ''1'',
      cv_capture_surface = SURFACE_ARTIFACT, cv_source_identity = demo_identity, cv_project_hint = None,
      cv_event_id = demo_uuid7, cv_external_event_id = None, cv_event_kind = event,
      cv_supersedes_source_identity_key = None, cv_source_occurred_at = None,
      cv_source_occurred_end_at = None, cv_source_occurred_at_raw = None, cv_source_timezone = None,
      cv_source_time_precision = None, cv_source_sequence = None, cv_source_revision_key = None,
      cv_captured_at = Aware 0, cv_source_type = type, cv_content_hash = demo_hash [],
      cv_source_locator = None, cv_parser_receipt = demo_coverage, cv_policies = demo_policies,
      cv_units = [unit], cv_conversation = part\<rparr>"

definition demo_conversation_event :: capture_envelope where
  "demo_conversation_event =
     demo_envelope KIND_CONVERSATION_EVENT EK_TURN_FINALIZED ST_TRANSCRIPT
       (demo_unit UK_TURN (ConversationTurn demo_turn)) (Some demo_part)"

definition demo_document_event :: capture_envelope where
  "demo_document_event =
     demo_envelope KIND_SOURCE_EVENT EK_SOURCE_OBSERVED ST_DOCUMENT
       (demo_unit UK_SECTION (DocumentSegment
          \<lparr>ds_page_number = Some 1, ds_char_start = None, ds_char_end = None, ds_section_path = []\<rparr>)) None"

definition demo_connector_cursor :: connector_cursor where
  "demo_connector_cursor =
     \<lparr>cc_checkpoint_key = ''cursor'', cc_expected_sequence = 4, cc_next_sequence = 5,
      cc_checkpoint_hash = demo_hash []\<rparr>"

lemmas demo_envelope_defs =
  demo_conversation_event_def demo_document_event_def demo_envelope_def demo_unit_def demo_turn_def
  demo_part_def demo_identity_def demo_coverage_def demo_policies_def demo_codec_def

lemmas envelope_json_defs =
  envelope_json_def conversation_entries_def source_identity_json_def coverage_receipt_json_def
  capture_policies_json_def source_unit_json_def attribute_json_def conversation_identity_json_def
  participant_identity_json_def client_identity_json_def j_datetime_def

lemma demo_sizes:
  "length (envelope_canonical_bytes demo_codec demo_conversation_event) \<le> CAPTURE_ENVELOPE_MAX_BYTES"
  "length (envelope_canonical_bytes demo_codec demo_document_event) \<le> CAPTURE_ENVELOPE_MAX_BYTES"
proof -
  have hash: "length (demo_hash []) = 64" using demo_hash_documented
    by (simp add: sha256_documented_def is_sha256_def)
  have "json_bound (envelope_json demo_codec demo_conversation_event) \<le> 1048576"
    by (simp add: demo_envelope_defs envelope_json_defs hash)
  moreover have "json_bound (envelope_json demo_codec demo_document_event) \<le> 1048576"
    by (simp add: demo_envelope_defs envelope_json_defs hash)
  ultimately show
    "length (envelope_canonical_bytes demo_codec demo_conversation_event) \<le> CAPTURE_ENVELOPE_MAX_BYTES"
    "length (envelope_canonical_bytes demo_codec demo_document_event) \<le> CAPTURE_ENVELOPE_MAX_BYTES"
    using length_canonical_bound order_trans
    unfolding envelope_canonical_bytes_def CAPTURE_ENVELOPE_MAX_BYTES_def by blast+
qed

lemma demo_fields:
  "list_all (\<lambda>x. x = None) (envelope_field_checks demo_codec demo_conversation_event)"
  "list_all (\<lambda>x. x = None) (envelope_field_checks demo_codec demo_document_event)"
  "list_all (\<lambda>x. x = None) (conversation_field_checks demo_part)"
  "list_all (\<lambda>x. x = None) (conversation_checks demo_part (cv_units demo_conversation_event))"
  by code_simp+

lemma demo_valid:
  "make_envelope demo_codec demo_conversation_event = Inr demo_conversation_event"
  "make_envelope demo_codec demo_document_event = Inr demo_document_event"
proof -
  have "uuid_version demo_uuid7 = 7" by code_simp
  with demo_sizes have "\<forall>x \<in> set (source_event_checks demo_codec demo_conversation_event). x = None"
    "\<forall>x \<in> set (source_event_checks demo_codec demo_document_event). x = None"
    by (simp_all add: source_event_checks_def is_control_def is_conversation_def is_amendment_def
        demo_conversation_event_def demo_document_event_def demo_envelope_def demo_coverage_def demo_unit_def)
  moreover have "cv_conversation demo_conversation_event = Some demo_part"
    "cv_conversation demo_document_event = None"
    by (simp_all add: demo_conversation_event_def demo_document_event_def demo_envelope_def)
  ultimately show "make_envelope demo_codec demo_conversation_event = Inr demo_conversation_event"
    "make_envelope demo_codec demo_document_event = Inr demo_document_event"
    using demo_fields by (auto simp: make_envelope_def list_all_iff)
qed

lemma demo_units:
  assumes "observation_actor demo_conversation_event = Inr actor"
  shows "\<forall>x \<in> set (event_units_checks demo_codec
      (accept_command_of demo_conversation_event demo_binding ''k'' demo_uuid7 (Some demo_connector_cursor) actor)).
    x = None"
proof -
  let ?a = "accept_command_of demo_conversation_event demo_binding ''k'' demo_uuid7 (Some demo_connector_cursor) actor"
  have hash: "length (demo_hash []) = 64" using demo_hash_documented
    by (simp add: sha256_documented_def is_sha256_def)
  have "observation_actor demo_conversation_event = Inr (Some (hd (cp_participants demo_part)))" by code_simp
  with assms have actor: "actor = Some (hd (cp_participants demo_part))" by simp
  have "json_bound (accept_command_json demo_codec ?a) \<le> 1048576"
    by (simp add: actor demo_envelope_defs envelope_json_defs hash accept_command_of_def accept_command_json_def
        source_event_json_def event_of_def capture_checkpoint_json_def checkpoint_of_def semantic_request_json_def
        demo_binding_def demo_connector_cursor_def)
  with length_canonical_bound [of "accept_command_json demo_codec ?a"]
  have "length (canonical_json_bytes (accept_command_json demo_codec ?a)) \<le> 1048576" by simp
  moreover have "evidence_json_bytes [demo_unit UK_TURN (ConversationTurn demo_turn)] \<le> 4096"
    using length_canonical_bound [of "JStr ''hi''"]
    by (simp add: evidence_json_bytes_def content_of_def demo_unit_def)
  moreover have "ae_units ?a = [demo_unit UK_TURN (ConversationTurn demo_turn)]"
    "en_source_type (ae_event ?a) = ST_TRANSCRIPT"
    by (simp_all add: accept_command_of_def event_of_def demo_conversation_event_def demo_envelope_def)
  ultimately show ?thesis
    by (simp add: event_units_checks_def Let_def CANONICAL_CAPTURE_COMMAND_JSON_BYTE_LIMIT_def
        CANONICAL_AUTHORING_EVIDENCE_JSON_BYTE_LIMIT_def CANONICAL_AUTHORING_MAX_OBSERVATIONS_def
        CANONICAL_AUTHORING_HYDRATED_CHARACTER_LIMIT_def hydrated_characters_def content_of_def
        unit_check_def detail_matches_def) (simp add: demo_unit_def)
qed

lemma demo_compiles:
  obtains c a where "compile_capture_submission demo_codec demo_conversation_event demo_binding ''k''
      (Some demo_uuid7) (Some demo_connector_cursor) = Inr c" "sm_canonical_accept_command c = Some a"
proof -
  from demo_valid(1) obtain actor where actor: "observation_actor demo_conversation_event = Inr actor"
    by (rule observation_actor_total)
  have "sha256_documented (cd_hash demo_codec)" using demo_hash_documented by (simp add: demo_codec_def)
  moreover have "\<not> is_control demo_conversation_event"
    using conversation_not_control [OF demo_valid(1)]
    by (simp add: demo_conversation_event_def demo_envelope_def)
  moreover have "within_event_limits demo_conversation_event"
    by (simp add: within_event_limits_def demo_conversation_event_def demo_envelope_def demo_coverage_def)
  moreover have "uuid_version demo_uuid7 = 7" "text_field 1 495 ''k''"
    "is_ok (make_kernel_capture_binding demo_binding)"
    "nested_opt make_connector_cursor (Some demo_connector_cursor) = None" by code_simp+
  ultimately show ?thesis
    using compile_accepts [OF demo_valid(1) _ _ _ _ actor _ _ _ demo_units [OF actor]] that
    by (simp add: submission_of_def)
qed

section \<open>Compilation\<close>

text \<open>
  C12: a compiled submission takes its authority from the kernel and its content from the envelope.
  The command is valid and carries the envelope, the cursor and the binding it was compiled with.
  A control envelope (a deletion or a parser error) gets no canonical command and no cursor. Any
  other gets one, valid, for the kernel's UUIDv7 task, whose tenant, workspace, scope and object are
  those of the binding, whose units, event id and content hash are those of the envelope, whose
  checkpoint advances the cursor by one, and whose actor is the participant of the observation.
\<close>

theorem compile_binds_authority:
  assumes "compile_capture_submission K e b key task cursor = Inr c"
  shows "make_envelope K e = Inr e \<and> make_submission_command K c = Inr c
    \<and> sm_envelope c = e \<and> sm_binding c = b \<and> sm_cursor c = cursor \<and> sm_idempotency_key c = key
    \<and> (is_control e \<longrightarrow> sm_canonical_accept_command c = None \<and> cursor = None)
    \<and> (\<not> is_control e \<longrightarrow>
        (\<exists>a t actor. sm_canonical_accept_command c = Some a \<and> make_accept_command K a = Inr a
          \<and> task = Some t \<and> uuid_version t = 7 \<and> sq_task_id (ae_semantic_task a) = t
          \<and> (ae_tenant_id a, ae_workspace_id a, ae_access_scope_id a, ae_source_object_id a)
            = (kb_tenant_id b, kb_workspace_id b, kb_access_scope_id b, kb_source_object_id b)
          \<and> ae_units a = cv_units e \<and> en_event_id (ae_event a) = cv_event_id e
          \<and> en_content_hash (ae_event a) = cv_content_hash e
          \<and> (\<forall>k. cursor = Some k \<longrightarrow> (\<exists>p. ae_checkpoint a = Some p
               \<and> ck_expected_sequence p = Some (cc_expected_sequence k)
               \<and> ck_next_sequence p = cc_expected_sequence k + 1))
          \<and> actor_of_observation e actor
          \<and> en_actor_id (ae_event a) = (case actor of None \<Rightarrow> ''unknown'' | Some p \<Rightarrow> pi_participant_id p)))"
proof -
  from assms obtain x where e: "make_envelope K e = Inr e" and x: "canonical_accept K e b key task cursor = Inr x"
    and c: "make_submission_command K c = Inr c"
    "c = \<lparr>sm_idempotency_key = key, sm_envelope = e, sm_envelope_canonical_json = envelope_text K e,
          sm_envelope_hash = envelope_canonical_hash K e, sm_cursor = cursor,
          sm_canonical_accept_command = x, sm_binding = b\<rparr>" by (rule compiled)
  have "cursor = None" if "is_control e"
    using c that by (simp add: make_submission_command_def submission_checks_def)
  moreover have "cc_next_sequence k = cc_expected_sequence k + 1" if "cursor = Some k" for k
    using c that by (simp add: make_submission_command_def make_connector_cursor_def)
  moreover have "actor_of_observation e actor" if "observation_actor e = Inr actor" for actor
    using observation_actor_total [OF e] that by fastforce
  ultimately show ?thesis
  proof (cases "is_control e")
    case False
    from x False obtain t actor where "task = Some t" "uuid_version t = 7" "observation_actor e = Inr actor"
      "make_accept_command K (accept_command_of e b key t cursor actor)
         = Inr (accept_command_of e b key t cursor actor)"
      "x = Some (accept_command_of e b key t cursor actor)" by (rule canonical_accept_Inr)
    with e c \<open>\<And>actor. observation_actor e = Inr actor \<Longrightarrow> actor_of_observation e actor\<close>
      \<open>\<And>k. cursor = Some k \<Longrightarrow> cc_next_sequence k = cc_expected_sequence k + 1\<close> False
    show ?thesis by (auto simp: accept_command_of_def checkpoint_of_def event_of_def)
  qed (use e c x in auto)
qed

theorem compile_binds_authority_witness:
  "\<exists>c a. compile_capture_submission demo_codec demo_conversation_event demo_binding ''k''
      (Some demo_uuid7) (Some demo_connector_cursor) = Inr c
    \<and> sm_canonical_accept_command c = Some a \<and> ae_tenant_id a = kb_tenant_id demo_binding
    \<and> en_actor_id (ae_event a) = ''me''"
proof -
  obtain c a where c: "compile_capture_submission demo_codec demo_conversation_event demo_binding ''k''
      (Some demo_uuid7) (Some demo_connector_cursor) = Inr c" "sm_canonical_accept_command c = Some a"
    by (rule demo_compiles)
  have "\<not> is_control demo_conversation_event"
    using conversation_not_control [OF demo_valid(1)]
    by (simp add: demo_conversation_event_def demo_envelope_def)
  with compile_binds_authority [OF c(1)] c(2) obtain actor where
    "ae_tenant_id a = kb_tenant_id demo_binding" "actor_of_observation demo_conversation_event actor"
    "en_actor_id (ae_event a) = (case actor of None \<Rightarrow> ''unknown'' | Some p \<Rightarrow> pi_participant_id p)" by auto
  moreover from this(2) have "actor = Some (hd (cp_participants demo_part))"
    by (auto simp: actor_of_observation_def demo_conversation_event_def demo_envelope_def demo_part_def)
  ultimately show ?thesis using c by (auto simp: demo_part_def)
qed

text \<open>The limits that the command sets to the units of an envelope, beyond those of the envelope.\<close>

definition within_unit_limits :: "capture_envelope \<Rightarrow> bool" where
  "within_unit_limits e \<longleftrightarrow>
     distinct (map su_source_unit_id (cv_units e)) \<and> distinct (map su_external_unit_id (cv_units e))
     \<and> (\<forall>u \<in> set (cv_units e). detail_matches (cv_source_type e) u
          \<and> (\<forall>p. su_parent_unit_id u = Some p \<longrightarrow> p \<in> su_source_unit_id ` set (cv_units e)))
     \<and> length (filter su_is_observation (cv_units e)) \<le> 8
     \<and> hydrated_characters (filter su_is_observation (cv_units e)) \<le> 4096
     \<and> evidence_json_bytes (filter su_is_observation (cv_units e)) \<le> 4096"

lemma unit_check_None:
  "unit_check ids t u = None \<longleftrightarrow>
     detail_matches t u \<and> (\<forall>p. su_parent_unit_id u = Some p \<longrightarrow> p \<in> set ids)"
  unfolding unit_check_def first_error_None by (cases "su_parent_unit_id u") auto

lemma event_units_checks_None:
  assumes "make_envelope K e = Inr e" "\<not> is_control e"
  shows "(\<forall>x \<in> set (event_units_checks K (accept_command_of e b key t cursor actor)). x = None) \<longleftrightarrow>
    within_unit_limits e
    \<and> length (canonical_json_bytes (accept_command_json K (accept_command_of e b key t cursor actor))) \<le> 1048576"
proof -
  let ?a = "accept_command_of e b key t cursor actor"
  have a: "ae_units ?a = cv_units e" "en_source_type (ae_event ?a) = cv_source_type e"
    by (simp_all add: accept_command_of_def event_of_def)
  have "filter su_is_observation (cv_units e) \<noteq> []"
    using assms by (auto simp: make_envelope_def source_event_checks_def list_ex_iff filter_empty_conv)
  then show ?thesis
    by (auto simp: event_units_checks_def within_unit_limits_def unit_check_None a
        Let_def CANONICAL_AUTHORING_MAX_OBSERVATIONS_def CANONICAL_AUTHORING_HYDRATED_CHARACTER_LIMIT_def
        CANONICAL_AUTHORING_EVIDENCE_JSON_BYTE_LIMIT_def CANONICAL_CAPTURE_COMMAND_JSON_BYTE_LIMIT_def)
qed

text \<open>
  C16: exactly when compilation succeeds: for a valid envelope that is not a control envelope, a
  valid binding and cursor and a UUIDv7 task, \<open>compile_capture_submission\<close> returns a command if and
  only if the idempotency key has 1 to 495 characters, the source is not a document, the parser's id
  and version have at most 127 characters together, the units have distinct ids, parents among the
  units, details of the source type, and at most 8 observations with at most 4,096 characters and
  4,096 escaped bytes, and the command takes at most 1 MiB of canonical JSON.
\<close>

theorem compile_succeeds_iff:
  assumes valid: "make_envelope K e = Inr e" and H: "sha256_documented (cd_hash K)"
    and c: "\<not> is_control e" and t: "uuid_version t = 7"
    and b: "is_ok (make_kernel_capture_binding b)" and k: "nested_opt make_connector_cursor cursor = None"
  shows "is_ok (compile_capture_submission K e b key (Some t) cursor) \<longleftrightarrow>
    within_event_limits e \<and> within_unit_limits e \<and> 1 \<le> length key \<and> length key \<le> 495
    \<and> (\<exists>actor. observation_actor e = Inr actor
        \<and> length (canonical_json_bytes (accept_command_json K (accept_command_of e b key t cursor actor)))
            \<le> 1048576)"
proof
  assume "is_ok (compile_capture_submission K e b key (Some t) cursor)"
  then obtain s where "compile_capture_submission K e b key (Some t) cursor = Inr s" by (auto simp: is_ok_def)
  then obtain x where "canonical_accept K e b key (Some t) cursor = Inr x" by (rule compiled)
  from canonical_accept_Inr [OF this c] obtain actor where actor: "observation_actor e = Inr actor"
    and event: "is_ok (make_source_event (event_of e actor))"
    and a: "is_ok (make_accept_command K (accept_command_of e b key t cursor actor))"
    by (metis is_ok_simps(1) option.inject)
  from observation_actor_total [OF valid] actor have "actor_of_observation e actor" by fastforce
  with event event_made [OF valid] have "within_event_limits e" by simp
  moreover from a have "text_field 1 512 key" "text_field 1 512 (''capture.semantic:'' @ key)"
    "\<forall>x \<in> set (event_units_checks K (accept_command_of e b key t cursor actor)). x = None"
    by (simp_all add: make_accept_command_def accept_command_of_def make_semantic_request_def)
  note this(1,2) this(3) [unfolded event_units_checks_None [OF valid c]]
  ultimately show "within_event_limits e \<and> within_unit_limits e \<and> 1 \<le> length key \<and> length key \<le> 495
    \<and> (\<exists>actor. observation_actor e = Inr actor
        \<and> length (canonical_json_bytes (accept_command_json K (accept_command_of e b key t cursor actor)))
            \<le> 1048576)"
    using actor by (simp add: text_field_def)
next
  assume "within_event_limits e \<and> within_unit_limits e \<and> 1 \<le> length key \<and> length key \<le> 495
    \<and> (\<exists>actor. observation_actor e = Inr actor
        \<and> length (canonical_json_bytes (accept_command_json K (accept_command_of e b key t cursor actor)))
            \<le> 1048576)"
  then show "is_ok (compile_capture_submission K e b key (Some t) cursor)"
    using compile_accepts [OF valid H c _ t _ _ b k, of _ key] event_units_checks_None [OF valid c]
    by (auto simp: text_field_def)
qed

theorem compile_succeeds_iff_witness:
  "\<not> is_ok (compile_capture_submission demo_codec demo_conversation_event demo_binding
      (replicate 496 CHR ''k'') (Some demo_uuid7) None)
   \<and> make_envelope demo_codec demo_conversation_event = Inr demo_conversation_event"
proof -
  have "sha256_documented (cd_hash demo_codec)" using demo_hash_documented by (simp add: demo_codec_def)
  moreover have "\<not> is_control demo_conversation_event"
    using conversation_not_control [OF demo_valid(1)]
    by (simp add: demo_conversation_event_def demo_envelope_def)
  moreover have "uuid_version demo_uuid7 = 7" "is_ok (make_kernel_capture_binding demo_binding)"
    "nested_opt make_connector_cursor None = None" by code_simp+
  ultimately show ?thesis
    using compile_succeeds_iff [OF demo_valid(1), of demo_uuid7 demo_binding None "replicate 496 CHR ''k''"]
      demo_valid(1) by simp
qed

text \<open>
  C38: a document is never submitted: the envelope admits the source type \<open>document\<close>, but the event
  that the compiler builds has no document revision, which documents require, so that every valid
  envelope of a document that is not a control envelope is refused.
\<close>

theorem document_never_compiles:
  assumes "make_envelope K e = Inr e" "\<not> is_control e" "cv_source_type e = ST_DOCUMENT"
  shows "\<exists>err. compile_capture_submission K e b key task cursor = Inl err"
proof (cases "compile_capture_submission K e b key task cursor")
  case (Inr c)
  then obtain x where "canonical_accept K e b key task cursor = Inr x" by (rule compiled)
  from canonical_accept_Inr [OF this assms(2)] obtain actor where
    "observation_actor e = Inr actor" "is_ok (make_source_event (event_of e actor))" by blast
  moreover from this(1) have "actor_of_observation e actor"
    using observation_actor_total [OF assms(1)] by fastforce
  ultimately show ?thesis
    using event_made [OF assms(1)] assms(3) by (simp add: within_event_limits_def)
qed simp

theorem document_never_compiles_witness:
  "make_envelope demo_codec demo_document_event = Inr demo_document_event
   \<and> (\<exists>err. compile_capture_submission demo_codec demo_document_event demo_binding ''k''
         (Some demo_uuid7) None = Inl err)"
proof -
  have "\<not> is_control demo_document_event" "cv_source_type demo_document_event = ST_DOCUMENT"
    by (simp_all add: is_control_def demo_document_event_def demo_envelope_def demo_coverage_def)
  with demo_valid(2) document_never_compiles [OF demo_valid(2)] show ?thesis by blast
qed

section \<open>Authored annotations\<close>

text \<open>
  C17: accepted annotations are grounded: in a valid apply command every statement was written by a
  model run of the result, rests on evidence, all of it used evidence of the result, and is either
  rendered or omitted, never both; a correction names what it supersedes and nothing else does; an
  observation of a new bead has evidence from the bead's own source unit; no two statements of the
  command share an id; and the result hash is the hash of the payload.
\<close>

theorem annotations_grounded:
  assumes "make_apply_command H c = Inr c" "b \<in> set (ay_payload c)" "s \<in> set (ba_statements b)"
  shows "sd_model_run_ref s \<in> set (ay_model_run_refs c) \<and> sd_evidence s \<noteq> []
    \<and> (\<forall>v \<in> set (sd_evidence s). uuid_str (ev_source_unit_id v) \<in> set (ay_used_evidence_refs c))
    \<and> (sd_statement_id s \<in> included_statement_ids (ba_render b)
       \<longleftrightarrow> sd_statement_id s \<notin> om_statement_id ` set (br_omissions (ba_render b)))
    \<and> (sd_statement_kind s = SK_CORRECTION \<longleftrightarrow> sd_supersedes_statement_id s \<noteq> None)
    \<and> (ba_expected_bead_version b = 0 \<and> sd_statement_kind s = SK_OBSERVATION
       \<longrightarrow> ba_source_unit_id b \<in> ev_source_unit_id ` set (sd_evidence s))
    \<and> distinct (map sd_statement_id (concat (map ba_statements (ay_payload c))))
    \<and> H (canonical_json_bytes (annotations_json (ay_payload c))) = ay_semantic_result_hash c"
proof -
  have payload: "is_ok (make_annotations_payload (ay_payload c))"
    and refs: "\<forall>x \<in> set (result_reference_checks H c). x = None"
    using assms(1) by (simp_all add: make_apply_command_def)
  from payload assms(2) have b: "is_ok (make_bead_annotation b)"
    and ids: "distinct (map sd_statement_id (concat (map ba_statements (ay_payload c))))"
    by (simp_all add: make_annotations_payload_def)
  from b assms(3) have d: "is_ok (make_statement_draft s)" and r: "is_ok (make_bead_render (ba_render b))"
    and init: "\<forall>x \<in> set (initial_semantics_checks b). x = None"
    by (simp_all add: make_bead_annotation_def)
  from refs assms(2,3) have "statement_reference_check c s = None"
    and hash: "H (canonical_json_bytes (annotations_json (ay_payload c))) = ay_semantic_result_hash c"
    by (auto simp: result_reference_checks_def Let_def)
  from this(1) have ref: "sd_model_run_ref s \<in> set (ay_model_run_refs c)"
    "\<forall>v \<in> set (sd_evidence s). uuid_str (ev_source_unit_id v) \<in> set (ay_used_evidence_refs c)"
    by (simp_all add: statement_reference_check_def list_all_iff del: first_error.simps)
  have draft: "sd_evidence s \<noteq> []" "sd_statement_kind s = SK_CORRECTION \<longleftrightarrow> sd_supersedes_statement_id s \<noteq> None"
    using d by (auto simp: make_statement_draft_def split: if_splits)
  have classified: "sd_statement_id s \<in> classified_statement_ids (ba_render b)"
    using init assms(3) by (auto simp: initial_semantics_checks_def Let_def)
  have own: "ba_source_unit_id b \<in> ev_source_unit_id ` set (sd_evidence s)"
    if "ba_expected_bead_version b = 0" "sd_statement_kind s = SK_OBSERVATION"
    using init assms(3) that by (auto simp: initial_semantics_checks_def Let_def observations_of_def)
  have apart: "om_statement_id ` set (br_omissions (ba_render b)) \<inter> included_statement_ids (ba_render b) = {}"
    using r by (simp add: make_bead_render_def)
  show ?thesis
    using ref draft classified own apart ids hash by (auto simp: classified_statement_ids_def)
qed

definition demo_statement :: statement_draft where
  "demo_statement =
     \<lparr>sd_statement_id = 7, sd_statement_kind = SK_OBSERVATION, sd_statement_text = ''hi'',
      sd_evidence = [\<lparr>ev_source_unit_id = 1, ev_content_hash = demo_hash []\<rparr>], sd_context_source_ids = [],
      sd_model_run_ref = ''run-1'', sd_supersedes_statement_id = None, sd_correction_reason = None\<rparr>"

definition demo_clause :: render_clause where
  "demo_clause = \<lparr>cl_text = ''hi'', cl_statement_ids = [7]\<rparr>"

definition demo_annotation :: bead_annotation where
  "demo_annotation =
     \<lparr>ba_bead_id = 2, ba_event_id = 3, ba_source_unit_id = 1, ba_bead_version_id = 4,
      ba_expected_bead_version = 0, ba_bead_type_key = ''note'', ba_bead_type_revision = 1,
      ba_statements = [demo_statement],
      ba_render = \<lparr>br_title = demo_clause, br_summary = [demo_clause], br_detail = [], br_omissions = []\<rparr>\<rparr>"

definition demo_apply :: apply_command where
  "demo_apply =
     \<lparr>ay_idempotency_key = ''k'', ay_tenant_id = 1, ay_workspace_id = 1, ay_access_scope_id = 1,
      ay_task_id = 1, ay_attempt_id = 1, ay_lease_generation = 1, ay_task_kind = ''author'',
      ay_contract_revision = 1, ay_output_contract_hash = demo_hash [],
      ay_semantic_result_hash = demo_hash [],
      ay_semantic_payload_canonical_json = json_render (annotations_json [demo_annotation]),
      ay_used_evidence_refs = [uuid_str 1], ay_model_run_refs = [''run-1''],
      ay_payload = [demo_annotation]\<rparr>"

lemma demo_apply_valid: "make_apply_command demo_hash demo_apply = Inr demo_apply"
proof -
  have hash: "length (demo_hash []) = 64" "is_sha256 (demo_hash [])"
    using demo_hash_documented by (simp_all add: sha256_documented_def is_sha256_def)
  have "json_bound (annotations_json [demo_annotation]) \<le> 12000"
    by (simp add: annotations_json_def bead_annotation_json_def statement_json_def statement_evidence_json_def
        bead_render_json_def render_clause_json_def demo_annotation_def demo_statement_def demo_clause_def hash(1))
  with length_json_render [of "annotations_json [demo_annotation]"]
  have size: "length (json_render (annotations_json [demo_annotation])) \<le> 12000" by linarith
  have start: "2 \<le> length (json_render (annotations_json [demo_annotation]))"
    by (simp add: annotations_json_def Let_def)
  have "is_ok (make_bead_annotation demo_annotation)"
    by code_simp
  with size have "is_ok (make_annotations_payload [demo_annotation])"
    by (simp add: make_annotations_payload_def length_canonical_json authoring_count_def
        CANONICAL_AUTHORING_OUTPUT_JSON_BYTE_LIMIT_def CANONICAL_AUTHORING_MAX_OBSERVATIONS_def
        demo_annotation_def)
  moreover have "is_identifier ''author''" by code_simp
  moreover have "list_all (\<lambda>x. x = None) (result_reference_checks demo_hash demo_apply)"
    by (simp add: demo_hash_def result_reference_checks_def Let_def demo_apply_def canonical_json_bytes_def
        statement_reference_check_def demo_annotation_def demo_statement_def)
  ultimately show ?thesis using size start hash
    by (simp add: make_apply_command_def demo_apply_def text_field_def list_all_iff
        CANONICAL_AUTHORING_OUTPUT_JSON_BYTE_LIMIT_def del: is_identifier.simps)
qed

theorem annotations_grounded_witness:
  "demo_statement \<in> set (ba_statements demo_annotation) \<and> demo_annotation \<in> set (ay_payload demo_apply)
   \<and> sd_model_run_ref demo_statement \<in> set (ay_model_run_refs demo_apply)
   \<and> ba_source_unit_id demo_annotation \<in> ev_source_unit_id ` set (sd_evidence demo_statement)"
proof -
  have "demo_annotation \<in> set (ay_payload demo_apply)" "demo_statement \<in> set (ba_statements demo_annotation)"
    "ba_expected_bead_version demo_annotation = 0" "sd_statement_kind demo_statement = SK_OBSERVATION"
    by (simp_all add: demo_apply_def demo_annotation_def demo_statement_def)
  with annotations_grounded [OF demo_apply_valid this(1,2)] show ?thesis by simp
qed

end
