(* ===== verification/JsonRead.thy ===== *)
theory JsonRead
  imports JsonFacts
begin

text \<open>
  Parsed JSON, the writer of \<open>json.dumps\<close> with its separators as parameters, and a reader for what
  that writer produces, with the round trip. The components take the reader of the standard library
  as a parameter; the reader here shows that what they assume of it can hold.
\<close>

section \<open>Values and writer\<close>

text \<open>
  A parsed value with the pairs of its objects in order and duplicates kept, as
  \<open>object_pairs_hook\<close> sees them; \<open>VConstant\<close> is \<open>NaN\<close> or an infinity, \<open>VFloat\<close> any other float, with
  whether it is zero.
\<close>

datatype json_value =
    VNull | VBool bool | VInt int | VFloat bool | VConstant | VStr string | VList "json_value list"
  | VObj "(string \<times> json_value) list"

fun json_text :: "string \<Rightarrow> string \<Rightarrow> json \<Rightarrow> string" where
  "json_text isep ksep JNull = ''null''"
| "json_text isep ksep (JBool b) = (if b then ''true'' else ''false'')"
| "json_text isep ksep (JInt i) = str_int i"
| "json_text isep ksep (JStr s) = json_string s"
| "json_text isep ksep (JList xs) = ''['' @ join isep (map (json_text isep ksep) xs) @ '']''"
| "json_text isep ksep (JObj kvs) =
     CHR 0x7B # join isep (map (\<lambda>(k, v). json_string k @ ksep @ v)
       (sort_key fst (map (\<lambda>(k, v). (k, json_text isep ksep v)) kvs))) @ [CHR 0x7D]"

fun value_of :: "json \<Rightarrow> json_value" where
  "value_of JNull = VNull"
| "value_of (JBool b) = VBool b"
| "value_of (JInt i) = VInt i"
| "value_of (JStr s) = VStr s"
| "value_of (JList xs) = VList (map value_of xs)"
| "value_of (JObj kvs) = VObj (sort_key fst (map (\<lambda>(k, v). (k, value_of v)) kvs))"

lemma json_render_text: "json_render j = json_text '','' '':'' j"
proof (induction j)
  case (JObj kvs)
  then have "map (\<lambda>(k, v). (k, json_render v)) kvs = map (\<lambda>(k, v). (k, json_text '','' '':'' v)) kvs"
    by (auto intro!: map_cong)
  then show ?case unfolding json_render.simps json_text.simps Let_def by (simp only: append_Cons append_Nil)
next
  case (JList xs)
  then have "map json_render xs = map (json_text '','' '':'') xs" by (auto intro!: map_cong)
  then show ?case unfolding json_render.simps json_text.simps by (simp only:)
qed simp_all

section \<open>Reader\<close>

definition unescaped :: "char \<Rightarrow> char option" where
  "unescaped c =
     map_of [(CHR 0x22, CHR 0x22), (CHR 0x5C, CHR 0x5C), (CHR ''/'', CHR ''/''), (CHR ''n'', CHR 0x0A),
             (CHR ''r'', CHR 0x0D), (CHR ''t'', CHR 0x09), (CHR ''b'', CHR 0x08), (CHR ''f'', CHR 0x0C)] c"

fun hex_code :: "nat \<Rightarrow> string \<Rightarrow> nat option" where
  "hex_code acc [] = Some acc"
| "hex_code acc (c # cs) = (case hexval c of None \<Rightarrow> None | Some d \<Rightarrow> hex_code (16 * acc + d) cs)"

fun read_chars :: "string \<Rightarrow> (string \<times> string) option" where
  "read_chars [] = None"
| "read_chars (c # cs) =
     (if c = CHR 0x22 then Some ([], cs)
      else if c = CHR 0x5C then
        (case cs of
           [] \<Rightarrow> None
         | d # ds \<Rightarrow>
             if d = CHR ''u'' then
               (case ds of
                  h1 # h2 # h3 # h4 # rest \<Rightarrow>
                    (case hex_code 0 [h1, h2, h3, h4] of
                       None \<Rightarrow> None
                     | Some n \<Rightarrow> map_option (\<lambda>(s, r). (char_of n # s, r)) (read_chars rest))
                | _ \<Rightarrow> None)
             else (case unescaped d of
                     None \<Rightarrow> None
                   | Some e \<Rightarrow> map_option (\<lambda>(s, r). (e # s, r)) (read_chars ds)))
      else map_option (\<lambda>(s, r). (c # s, r)) (read_chars cs))"

definition skip_spaces :: "string \<Rightarrow> string" where
  "skip_spaces s = dropWhile (\<lambda>c. c \<in> {CHR '' '', CHR 0x0A, CHR 0x0D, CHR 0x09}) s"

definition is_digit_char :: "char \<Rightarrow> bool" where
  "is_digit_char c \<longleftrightarrow> digit_val c \<noteq> None"

definition read_word :: "string \<Rightarrow> 'a \<Rightarrow> string \<Rightarrow> ('a \<times> string) option" where
  "read_word w v s = (if take (length w) s = w then Some (v, drop (length w) s) else None)"

definition read_number :: "string \<Rightarrow> (json_value \<times> string) option" where
  "read_number s =
     (let neg = s \<noteq> [] \<and> hd s = CHR ''-''; t = (if neg then tl s else s); ds = takeWhile is_digit_char t
      in if ds = [] then None
         else map_option (\<lambda>n. (VInt (if neg then - int n else int n), dropWhile is_digit_char t))
                (read_digits 0 ds))"

fun read_value :: "nat \<Rightarrow> string \<Rightarrow> (json_value \<times> string) option"
  and read_items :: "nat \<Rightarrow> string \<Rightarrow> (json_value list \<times> string) option"
  and read_members :: "nat \<Rightarrow> string \<Rightarrow> ((string \<times> json_value) list \<times> string) option" where
  "read_value 0 s = None"
| "read_value (Suc n) s =
     (case skip_spaces s of
        [] \<Rightarrow> None
      | c # cs \<Rightarrow>
          if c = CHR 0x22 then map_option (\<lambda>(t, r). (VStr t, r)) (read_chars cs)
          else if c = CHR ''['' then
            (case skip_spaces cs of
               d # ds \<Rightarrow> if d = CHR '']'' then Some (VList [], ds)
                  else map_option (\<lambda>(xs, r). (VList xs, r)) (read_items n cs)
             | [] \<Rightarrow> None)
          else if c = CHR 0x7B then
            (case skip_spaces cs of
               d # ds \<Rightarrow> if d = CHR 0x7D then Some (VObj [], ds)
                  else map_option (\<lambda>(xs, r). (VObj xs, r)) (read_members n cs)
             | [] \<Rightarrow> None)
          else if c = CHR ''n'' then read_word ''null'' VNull (c # cs)
          else if c = CHR ''t'' then read_word ''true'' (VBool True) (c # cs)
          else if c = CHR ''f'' then read_word ''false'' (VBool False) (c # cs)
          else read_number (c # cs))"
| "read_items 0 s = None"
| "read_items (Suc n) s =
     (case read_value n s of
        None \<Rightarrow> None
      | Some (v, r) \<Rightarrow>
          (case skip_spaces r of
             d # ds \<Rightarrow> if d = CHR '','' then map_option (\<lambda>(vs, r). (v # vs, r)) (read_items n ds)
                else if d = CHR '']'' then Some ([v], ds) else None
           | [] \<Rightarrow> None))"
| "read_members 0 s = None"
| "read_members (Suc n) s =
     (case skip_spaces s of
        [] \<Rightarrow> None
      | c # cs \<Rightarrow>
          if c \<noteq> CHR 0x22 then None
          else case read_chars cs of
                 None \<Rightarrow> None
               | Some (k, r) \<Rightarrow>
                   (case skip_spaces r of
                      d # ds \<Rightarrow>
                        if d \<noteq> CHR '':'' then None
                        else case read_value n ds of
                               None \<Rightarrow> None
                             | Some (v, r) \<Rightarrow>
                                 (case skip_spaces r of
                                    e # es \<Rightarrow>
                                      if e = CHR '','' then map_option (\<lambda>(kvs, r). ((k, v) # kvs, r)) (read_members n es)
                                      else if e = CHR 0x7D then Some ([(k, v)], es) else None
                                  | [] \<Rightarrow> None)
                    | [] \<Rightarrow> None))"

definition json_reader :: "bytes \<Rightarrow> json_value option" where
  "json_reader bs =
     (let s = map (\<lambda>b. char_of (unat b)) bs
      in case read_value (Suc (length s)) s of
           Some (v, r) \<Rightarrow> if skip_spaces r = [] then Some v else None
         | None \<Rightarrow> None)"

section \<open>Round trip\<close>

lemma hexn_4: "hexn 4 n = [hexdigit (n div 4096 mod 16), hexdigit (n div 256 mod 16),
    hexdigit (n div 16 mod 16), hexdigit (n mod 16)]"
proof -
  have "hexn 4 n = hexn (Suc (Suc (Suc (Suc 0)))) n" by (rule arg_cong [of _ _ "\<lambda>k. hexn k n"]) simp
  then show ?thesis by (simp only: hexn.simps append_Nil append_Cons div_mult2_eq [symmetric]) simp
qed

lemma hex_code_hexn: "n < 256 \<Longrightarrow> hex_code 0 (hexn 4 n) = Some n"
  unfolding hexn_4 by simp

lemma char_codes:
  "of_char c = (34 :: nat) \<longleftrightarrow> c = CHR 0x22" "of_char c = (92 :: nat) \<longleftrightarrow> c = CHR 0x5C"
  "of_char c = (10 :: nat) \<longleftrightarrow> c = CHR 0x0A" "of_char c = (13 :: nat) \<longleftrightarrow> c = CHR 0x0D"
  "of_char c = (9 :: nat) \<longleftrightarrow> c = CHR 0x09" "of_char c = (8 :: nat) \<longleftrightarrow> c = CHR 0x08"
  "of_char c = (12 :: nat) \<longleftrightarrow> c = CHR 0x0C"
  using of_char_eq_iff [of c "CHR 0x22", where ?'a = nat] of_char_eq_iff [of c "CHR 0x5C", where ?'a = nat]
    of_char_eq_iff [of c "CHR 0x0A", where ?'a = nat] of_char_eq_iff [of c "CHR 0x0D", where ?'a = nat]
    of_char_eq_iff [of c "CHR 0x09", where ?'a = nat] of_char_eq_iff [of c "CHR 0x08", where ?'a = nat]
    of_char_eq_iff [of c "CHR 0x0C", where ?'a = nat]
  by simp_all

lemma read_chars_hex:
  assumes "n < 256"
  shows "read_chars (CHR 0x5C # CHR ''u'' # hexn 4 n @ r) = map_option (\<lambda>(s, r). (char_of n # s, r)) (read_chars r)"
proof -
  obtain h1 h2 h3 h4 where h: "hexn 4 n = [h1, h2, h3, h4]" by (simp add: hexn_4)
  with hex_code_hexn [OF assms] show ?thesis by (simp del: hex_code.simps)
qed

lemma read_chars_char: "read_chars (json_char c @ r) = map_option (\<lambda>(s, r). (c # s, r)) (read_chars r)"
proof -
  consider "c = CHR 0x22" | "c = CHR 0x5C" | "c = CHR 0x0A" | "c = CHR 0x0D" | "c = CHR 0x09"
    | "c = CHR 0x08" | "c = CHR 0x0C"
    | "c \<notin> {CHR 0x22, CHR 0x5C, CHR 0x0A, CHR 0x0D, CHR 0x09, CHR 0x08, CHR 0x0C}" by blast
  then show ?thesis
  proof cases
    case 8
    then have "json_char c = [c] \<or> json_char c = CHR 0x5C # CHR ''u'' # hexn 4 (of_char c)"
      by (simp add: json_char_def char_codes Let_def)
    with 8 read_chars_hex [of "of_char c" r] show ?thesis by auto
  qed (simp_all add: json_char_def unescaped_def)
qed

lemma read_chars_string: "read_chars (concat (map json_char s) @ CHR 0x22 # r) = Some (s, r)"
  by (induction s) (simp_all add: read_chars_char)

lemma json_string_cons: "json_string s @ r = CHR 0x22 # concat (map json_char s) @ CHR 0x22 # r"
  by (simp add: json_string_def)


subsection \<open>Numbers, words and spaces\<close>

definition number_ends :: "string \<Rightarrow> bool" where
  "number_ends r \<longleftrightarrow> r = [] \<or> \<not> is_digit_char (hd r)"

lemma number_ends_simps [simp]:
  "number_ends []" "number_ends (CHR '','' # r)" "number_ends (CHR '']'' # r)" "number_ends (CHR 0x7D # r)"
  by (simp_all add: number_ends_def is_digit_char_def digit_val_def)

lemma take_digits:
  assumes "list_all is_digit_char ds" "number_ends r"
  shows "takeWhile is_digit_char (ds @ r) = ds" "dropWhile is_digit_char (ds @ r) = r"
proof -
  have d: "\<And>d. d \<in> set ds \<Longrightarrow> is_digit_char d" using assms(1) by (simp add: list_all_iff)
  then show "takeWhile is_digit_char (ds @ r) = ds" using assms(2)
    by (cases r) (simp_all add: takeWhile_append2 number_ends_def)
  show "dropWhile is_digit_char (ds @ r) = r" using d assms(2)
    by (cases r) (simp_all add: dropWhile_append2 number_ends_def)
qed

lemma digits_start:
  obtains c cs where "str_nat n = c # cs" "is_digit_char c"
  using str_nat_digits [of n] str_nat_nonempty [of n]
  by (cases "str_nat n") (auto simp: is_digit_char_def)

lemma digit_char_cases: "is_digit_char c \<Longrightarrow> c \<in> set ''0123456789''"
  by (auto simp: is_digit_char_def digit_val_def split: if_splits)

lemma read_number_str_int:
  assumes "number_ends r"
  shows "read_number (str_int i @ r) = Some (VInt i, r)"
proof -
  have ds: "list_all is_digit_char (str_nat n)" for n
    using str_nat_digits [of n] by (simp add: is_digit_char_def [abs_def])
  obtain c cs where c: "str_nat (nat i) = c # cs" "is_digit_char c" by (rule digits_start)
  then have "c \<noteq> CHR ''-''" using digit_char_cases by force
  then have neg: "hd (str_nat (nat i) @ r) \<noteq> CHR ''-''" using c by simp
  show ?thesis
  proof (cases "i < 0")
    case True
    then show ?thesis using take_digits [OF ds assms] by (simp add: read_number_def str_int_def Let_def)
  next
    case False
    then show ?thesis using take_digits [OF ds assms] neg by (simp add: read_number_def str_int_def Let_def)
  qed
qed

definition is_space_char :: "char \<Rightarrow> bool" where
  "is_space_char c \<longleftrightarrow> c \<in> {CHR '' '', CHR 0x0A, CHR 0x0D, CHR 0x09}"

lemma skip_spaces_append: "list_all is_space_char sp \<Longrightarrow> skip_spaces (sp @ s) = skip_spaces s"
  by (induction sp) (auto simp: skip_spaces_def is_space_char_def)

lemma skip_spaces_id: "\<not> is_space_char c \<Longrightarrow> skip_spaces (c # s) = c # s"
  by (simp add: skip_spaces_def is_space_char_def)

lemma read_value_spaces: "list_all is_space_char sp \<Longrightarrow> read_value n (sp @ s) = read_value n s"
  by (cases n) (simp_all add: skip_spaces_append)

lemma read_members_spaces: "list_all is_space_char sp \<Longrightarrow> read_members n (sp @ s) = read_members n s"
  by (cases n) (simp_all add: skip_spaces_append)

lemma read_items_spaces: "list_all is_space_char sp \<Longrightarrow> read_items n (sp @ s) = read_items n s"
  by (cases n) (simp_all add: read_value_spaces)

lemma json_text_start:
  obtains c cs where "json_text i k j = c # cs" "\<not> is_space_char c" "c \<noteq> CHR '']''" "c \<noteq> CHR 0x7D"
proof (cases j)
  case (JInt x)
  obtain c cs where c: "str_nat (nat x) = c # cs" "is_digit_char c" by (rule digits_start)
  from digit_char_cases [OF this(2)] have "\<not> is_space_char c" "c \<noteq> CHR '']''" "c \<noteq> CHR 0x7D"
    by (auto simp: is_space_char_def)
  with c JInt that show ?thesis
    by (cases "x < 0") (auto simp: str_int_def is_space_char_def)
next
  case (JBool b)
  then show ?thesis using that by (cases b) (auto simp: is_space_char_def)
qed (use that in \<open>auto simp: json_string_def is_space_char_def\<close>)

lemma sort_key_map_snd:
  "sort_key fst (map (\<lambda>(k, v). (k, f v)) kvs) = map (\<lambda>(k, v). (k, f v)) (sort_key fst kvs)"
proof -
  have insort: "insort_key fst (k, f v) (map (\<lambda>(k, v). (k, f v)) xs)
    = map (\<lambda>(k, v). (k, f v)) (insort_key fst (k, v) xs)" for k v xs
    by (induction xs) auto
  show ?thesis by (induction kvs) (auto simp: insort)
qed


subsection \<open>What is written is read back\<close>

lemma join_step:
  "xs \<noteq> [] \<Longrightarrow> join sep (x # xs) = x @ sep @ join sep xs"
  by (cases xs) simp_all

lemma read_items_text:
  assumes sp: "list_all is_space_char sp"
    and reads: "\<And>x n r. \<lbrakk>x \<in> set xs; length (f x) < n; number_ends r\<rbrakk> \<Longrightarrow> read_value n (f x @ r) = Some (g x, r)"
    and start: "\<And>x. x \<in> set xs \<Longrightarrow> 0 < length (f x)"
    and "xs \<noteq> []" "length (join (CHR '','' # sp) (map f xs)) + 1 < n"
  shows "read_items n (join (CHR '','' # sp) (map f xs) @ CHR '']'' # r) = Some (map g xs, r)"
  using assms(2-)
proof (induction xs arbitrary: n)
  case (Cons x xs)
  obtain m where n: "n = Suc m" using Cons.prems(4) by (cases n) auto
  show ?case
  proof (cases "xs = []")
    case True
    with Cons.prems n show ?thesis by (simp add: skip_spaces_id is_space_char_def)
  next
    case False
    then have "read_items m (join (CHR '','' # sp) (map f xs) @ CHR '']'' # r) = Some (map g xs, r)"
      using Cons.prems n by (intro Cons.IH) (auto simp: join_step)
    with False Cons.prems n sp show ?thesis
      by (simp add: join_step skip_spaces_id is_space_char_def read_items_spaces)
  qed
qed simp

lemma read_members_text:
  fixes f :: "'a \<Rightarrow> string" and g :: "'a \<Rightarrow> json_value"
  defines "member ksp \<equiv> \<lambda>(k, v). json_string k @ (CHR '':'' # ksp) @ f v"
  assumes sp: "list_all is_space_char sp" "list_all is_space_char ksp"
    and reads: "\<And>k v n r. \<lbrakk>(k, v) \<in> set xs; length (f v) < n; number_ends r\<rbrakk> \<Longrightarrow> read_value n (f v @ r) = Some (g v, r)"
    and "xs \<noteq> []" "length (join (CHR '','' # sp) (map (member ksp) xs)) + 1 < n"
  shows "read_members n (join (CHR '','' # sp) (map (member ksp) xs) @ CHR 0x7D # r)
    = Some (map (\<lambda>(k, v). (k, g v)) xs, r)"
  using assms(4-)
proof (induction xs arbitrary: n)
  case (Cons x xs)
  obtain k v where x: "x = (k, v)" by (cases x)
  obtain m where n: "n = Suc m" using Cons.prems(3) by (cases n) auto
  have quote: "\<not> is_space_char (CHR 0x22)" "\<not> is_space_char (CHR '':'')" "\<not> is_space_char (CHR '','')"
    "\<not> is_space_char (CHR 0x7D)" by (simp_all add: is_space_char_def)
  have mem: "member ksp (k, v) @ t = CHR 0x22 # concat (map json_char k) @ CHR 0x22 # CHR '':'' # ksp @ f v @ t" for t
    by (simp add: member_def json_string_def)
  show ?case
  proof (cases "xs = []")
    case True
    have "length (f v) < m" using Cons.prems(3) True n by (simp add: member_def x)
    then have "read_value m (f v @ CHR 0x7D # r) = Some (g v, CHR 0x7D # r)"
      using Cons.prems(1) [of k v] x by simp
    with True n sp show ?thesis
      by (simp add: mem quote skip_spaces_id read_chars_string read_value_spaces x)
  next
    case False
    then have rest: "read_members m (join (CHR '','' # sp) (map (member ksp) xs) @ CHR 0x7D # r)
        = Some (map (\<lambda>(k, v). (k, g v)) xs, r)"
      using Cons.prems n by (intro Cons.IH) (auto simp: join_step member_def x)
    let ?t = "CHR '','' # sp @ join (CHR '','' # sp) (map (member ksp) xs) @ CHR 0x7D # r"
    have "length (f v) < m" using Cons.prems(3) False n by (simp add: member_def x join_step)
    then have "read_value m (f v @ ?t) = Some (g v, ?t)"
      using Cons.prems(1) [of k v] x by simp
    with False n sp rest show ?thesis
      by (simp add: join_step mem quote skip_spaces_id read_chars_string read_value_spaces
          read_members_spaces x)
  qed
qed simp

theorem read_value_text:
  assumes "list_all is_space_char sp" "list_all is_space_char ksp"
    and "length (json_text (CHR '','' # sp) (CHR '':'' # ksp) j) < n" "number_ends r"
  shows "read_value n (json_text (CHR '','' # sp) (CHR '':'' # ksp) j @ r) = Some (value_of j, r)"
  using assms(3,4)
proof (induction j arbitrary: n r)
  case JNull
  then obtain m where "n = Suc m" by (cases n) auto
  then show ?case by (simp add: skip_spaces_id is_space_char_def read_word_def)
next
  case (JBool b)
  then obtain m where "n = Suc m" by (cases n) auto
  then show ?case by (cases b) (simp_all add: skip_spaces_id is_space_char_def read_word_def)
next
  case (JInt i)
  obtain c cs where c: "str_int i = c # cs" "\<not> is_space_char c" "c = CHR ''-'' \<or> is_digit_char c"
  proof -
    obtain d ds where d: "str_nat (nat i) = d # ds" "is_digit_char d" by (rule digits_start)
    from digit_char_cases [OF d(2)] have "\<not> is_space_char d" by (auto simp: is_space_char_def)
    then show ?thesis using d that by (cases "i < 0") (simp_all add: str_int_def is_space_char_def)
  qed
  have "c \<in> set ''-0123456789''"
    using c(3) digit_char_cases [of c] by (elim disjE) (simp_all del: set_ConsD)
  then have "c \<noteq> CHR 0x22" "c \<noteq> CHR ''[''" "c \<noteq> CHR 0x7B" "c \<noteq> CHR ''n''" "c \<noteq> CHR ''t''" "c \<noteq> CHR ''f''"
    by auto
  moreover obtain m where "n = Suc m" using JInt by (cases n) auto
  moreover have "read_number (c # cs @ r) = Some (VInt i, r)"
    using read_number_str_int [OF JInt(2), of i] c by simp
  ultimately show ?case using c by (simp add: skip_spaces_id)
next
  case (JStr s)
  then obtain m where "n = Suc m" by (cases n) auto
  then show ?case
    by (simp add: json_string_cons skip_spaces_id is_space_char_def read_chars_string)
next
  case (JList xs)
  then obtain m where n: "n = Suc m" by (cases n) auto
  show ?case
  proof (cases "xs = []")
    case True
    with n show ?thesis by (simp add: skip_spaces_id is_space_char_def)
  next
    case False
    let ?f = "json_text (CHR '','' # sp) (CHR '':'' # ksp)"
    obtain c cs where c: "join (CHR '','' # sp) (map ?f xs) = c # cs" "\<not> is_space_char c" "c \<noteq> CHR '']''"
    proof -
      obtain y ys where xs: "xs = y # ys" using False by (cases xs) auto
      obtain d ds where "?f y = d # ds" "\<not> is_space_char d" "d \<noteq> CHR '']''" "d \<noteq> CHR 0x7D"
        by (rule json_text_start)
      with that show ?thesis by (cases ys) (simp_all add: xs)
    qed
    have start: "0 < length (?f x)" for x
      by (rule json_text_start [of "CHR '','' # sp" "CHR '':'' # ksp" x]) simp
    have "read_items m (join (CHR '','' # sp) (map ?f xs) @ CHR '']'' # r) = Some (map value_of xs, r)"
      using JList n False start by (intro read_items_text [OF assms(1)]) auto
    with n c show ?thesis by (simp add: skip_spaces_id is_space_char_def)
  qed
next
  case (JObj kvs)
  then obtain m where n: "n = Suc m" by (cases n) auto
  let ?f = "json_text (CHR '','' # sp) (CHR '':'' # ksp)"
  let ?es = "sort_key fst kvs"
  show ?case
  proof (cases "kvs = []")
    case True
    with n show ?thesis by (simp add: skip_spaces_id is_space_char_def)
  next
    case False
    then have ne: "?es \<noteq> []" by (metis length_0_conv length_sort)
    let ?t = "join (CHR '','' # sp) (map (\<lambda>(k, v). json_string k @ (CHR '':'' # ksp) @ ?f v) ?es)"
    have written: "?f (JObj kvs) = CHR 0x7B # ?t @ [CHR 0x7D]"
      unfolding json_text.simps sort_key_map_snd by (simp add: comp_def case_prod_unfold)
    obtain cs where c: "?t = CHR 0x22 # cs"
    proof -
      obtain k v es where "?es = (k, v) # es" using ne by (cases ?es) auto
      with that show ?thesis by (cases es) (simp_all add: json_string_def)
    qed
    have "read_members m (?t @ CHR 0x7D # r) = Some (map (\<lambda>(k, v). (k, value_of v)) ?es, r)"
    proof (rule read_members_text [OF assms(1,2) _ ne])
      fix k v n' r'
      assume "(k, v) \<in> set ?es" "length (?f v) < n'" "number_ends r'"
      then show "read_value n' (?f v @ r') = Some (value_of v, r')"
        using JObj.IH [of "(k, v)" v n' r'] by simp
    qed (use JObj.prems n written in simp)
    then show ?thesis unfolding written value_of.simps sort_key_map_snd using n c
      by (simp add: skip_spaces_id is_space_char_def)
  qed
qed



section \<open>Bytes\<close>

text \<open>\<open>json.dumps\<close> with sorted keys and its default separators.\<close>

definition json_dumps_bytes :: "json \<Rightarrow> bytes" where
  "json_dumps_bytes j = utf8 (json_text '', '' '': '' j)"

lemma ascii_json_text [simp]: "ascii i \<Longrightarrow> ascii k \<Longrightarrow> ascii (json_text i k j)"
proof (induction i k j rule: json_text.induct)
  case (6 i k kvs)
  have "ascii v" if "(x, v) \<in> (\<lambda>(x, v). (x, json_text i k v)) ` set kvs" for x v
    using that 6 by fastforce
  with 6 show ?case by (fastforce intro!: ascii_join)
qed simp_all

lemma utf8_ascii_chars: "ascii s \<Longrightarrow> map (\<lambda>b. char_of (unat b)) (utf8 s) = s"
proof (induction s)
  case (Cons c s)
  from Cons.prems have c: "(of_char c :: nat) < 128" "ascii s" by auto
  then have "utf8_char c = [of_nat (of_char c)]" by (simp only: utf8_char_def Let_def if_True)
  with Cons.IH c show ?case by (simp add: utf8_def unat_of_nat)
qed (simp add: utf8_def)

theorem json_reader_text:
  assumes "list_all is_space_char sp" "list_all is_space_char ksp" "ascii sp" "ascii ksp"
  shows "json_reader (utf8 (json_text (CHR '','' # sp) (CHR '':'' # ksp) j)) = Some (value_of j)"
proof -
  let ?s = "json_text (CHR '','' # sp) (CHR '':'' # ksp) j"
  have "ascii ?s" using assms by simp
  moreover have "read_value (Suc (length ?s)) ?s = Some (value_of j, [])"
    using read_value_text [OF assms(1,2), of j "Suc (length ?s)" "[]"] by simp
  ultimately show ?thesis by (simp add: json_reader_def utf8_ascii_chars skip_spaces_def)
qed

corollary json_reader_canonical: "json_reader (canonical_json_bytes j) = Some (value_of j)"
  using json_reader_text [of "[]" "[]" j] by (simp add: canonical_json_bytes_def json_render_text)

corollary json_reader_dumps: "json_reader (json_dumps_bytes j) = Some (value_of j)"
  using json_reader_text [of "'' ''" "'' ''" j] by (simp add: json_dumps_bytes_def is_space_char_def)


text \<open>A bound on the length with separators of at most two characters.\<close>

lemma length_json_text:
  "\<lbrakk>length i \<le> 2; length c \<le> 2\<rbrakk> \<Longrightarrow> length (json_text i c j) \<le> 2 * json_bound j"
proof (induction i c j rule: json_text.induct)
  case (3 i c n)
  then show ?case using length_str_int [of n] by simp
next
  case (4 i c s)
  then show ?case using length_json_string [of s] by simp
next
  case (5 i c xs)
  have "sum_list (map length (map (json_text i c) xs)) \<le> sum_list (map (\<lambda>x. 2 * json_bound x) xs)"
    unfolding map_map using 5 by (intro sum_list_bound) simp
  then have "sum_list (map length (map (json_text i c) xs)) \<le> 2 * sum_list (map json_bound xs)"
    by (simp only: sum_list_const_mult)
  moreover have "length i * length xs \<le> 2 * length xs" using 5 by (intro mult_le_mono) simp_all
  moreover have "length (json_text i c (JList xs)) = length (join i (map (json_text i c) xs)) + 2" by simp
  moreover have "json_bound (JList xs) = sum_list (map json_bound xs) + length xs + 2" by simp
  moreover have "length (join i (map (json_text i c) xs))
      \<le> sum_list (map length (map (json_text i c) xs)) + length i * length xs"
    using length_join [of i "map (json_text i c) xs"] by (simp only: length_map)
  moreover have "x \<le> 2 * y" if "a \<le> 2 * b" "m \<le> 2 * l" "x = n + 2" "y = b + l + 2" "n \<le> a + m"
    for a b m l n x y :: nat using that by simp
  ultimately show ?case by blast
next
  case (6 i c kvs)
  let ?f = "\<lambda>(k, v). json_string k @ c @ v"
  let ?es = "sort_key fst (map (\<lambda>(k, v). (k, json_text i c v)) kvs)"
  let ?g = "\<lambda>(k, v). length (json_string k) + length c + length (json_text i c v)"
  have "sum_list (map length (map ?f ?es)) = sum_list (map (length \<circ> ?f) ?es)" by simp
  also have "\<dots> = sum_list (map (length \<circ> ?f) (map (\<lambda>(k, v). (k, json_text i c v)) kvs))"
    by (rule sum_list_sort)
  also have "\<dots> = sum_list (map ?g kvs)"
    unfolding map_map by (rule arg_cong [where f = sum_list]) (auto intro: map_cong)
  finally have s: "sum_list (map length (map ?f ?es)) = sum_list (map ?g kvs)" .
  have "length i * length kvs \<le> 2 * length kvs" using 6 by (intro mult_le_mono) simp_all
  moreover have "sum_list (map ?g kvs) + 2 * length kvs = sum_list (map (\<lambda>x. ?g x + 2) kvs)"
    by (induction kvs) auto
  moreover have "sum_list (map (\<lambda>x. ?g x + 2) kvs) \<le> sum_list (map (\<lambda>(k, v). 2 * (6 * length k + 4 + json_bound v)) kvs)"
  proof (rule sum_list_bound)
    fix x assume "x \<in> set kvs"
    with 6 have "length (json_text i c (snd x)) \<le> 2 * json_bound (snd x)" by (cases x) auto
    with length_json_string [of "fst x"] 6 show "?g x + 2 \<le> (case x of (k, v) \<Rightarrow> 2 * (6 * length k + 4 + json_bound v))"
      by (simp add: case_prod_beta)
  qed
  moreover have "sum_list (map (\<lambda>(k, v). 2 * (6 * length k + 4 + json_bound v)) kvs)
      = 2 * sum_list (map (\<lambda>(k, v). 6 * length k + 4 + json_bound v) kvs)"
    by (induction kvs) auto
  moreover have "length (join i (map ?f ?es)) \<le> sum_list (map ?g kvs) + length i * length kvs"
    using length_join [of i "map ?f ?es"] unfolding s by simp
  moreover have "n \<le> x" if "m \<le> 2 * l" "g + 2 * l = h" "h \<le> q" "q = x" "n \<le> g + m"
    for g h l m n q x :: nat using that by simp
  ultimately have "length (join i (map ?f ?es)) \<le> 2 * sum_list (map (\<lambda>(k, v). 6 * length k + 4 + json_bound v) kvs)"
    by blast
  then show ?case unfolding json_text.simps by (simp add: json_bound.simps(6))
qed simp_all

lemma length_json_dumps: "length (json_dumps_bytes j) \<le> 2 * json_bound j"
  using length_json_text [of "'', ''" "'': ''" j]
  by (simp add: json_dumps_bytes_def length_utf8_ascii del: json_text.simps)

end
