(* ===== verification/BrokerWire.thy ===== *)
theory BrokerWire
  imports Manifest JsonRead
begin

text \<open>
  \<open>infrastructure/results_broker/wire.py\<close>: frames over a stream socket and the request header.
  A socket is the sequence of what its peer does, each at a time: bytes that arrive in pieces of
  any size, the end of the stream, or a reset; \<open>recv\<close> returns at most one piece, so that every way
  of splitting a stream is a sequence of pieces. The clock moves while \<open>recv\<close> waits.
\<close>

section \<open>Sockets\<close>

datatype arrival = Arrives bytes | Closes | Resets

record peer_socket =
  ps_now :: int
  ps_timeout :: "int option"
  ps_incoming :: "(int \<times> arrival) list"
  ps_writable :: bool
  ps_sent :: bytes
  ps_closed :: bool

datatype received = Chunk bytes | EndOfStream | TimedOut | SocketError | Blocked

text \<open>Whether a wait until \<open>t\<close> is longer than the timeout of the socket.\<close>

definition too_late :: "peer_socket \<Rightarrow> int \<Rightarrow> bool" where
  "too_late s t \<longleftrightarrow> (case ps_timeout s of None \<Rightarrow> False | Some d \<Rightarrow> t > ps_now s + d)"

definition waited :: "peer_socket \<Rightarrow> peer_socket" where
  "waited s = (case ps_timeout s of None \<Rightarrow> s | Some d \<Rightarrow> s\<lparr>ps_now := ps_now s + max 0 d\<rparr>)"

fun recv_from :: "nat \<Rightarrow> peer_socket \<Rightarrow> (int \<times> arrival) list \<Rightarrow> received \<times> peer_socket" where
  "recv_from n s [] = (if ps_timeout s = None then (Blocked, s) else (TimedOut, waited s))"
| "recv_from n s ((t, a) # as) =
     (if too_late s t then (TimedOut, waited s)
      else
        let s' = s\<lparr>ps_now := max (ps_now s) t\<rparr>
        in case a of
             Closes \<Rightarrow> (EndOfStream, s')
           | Resets \<Rightarrow> (SocketError, s')
           | Arrives bs \<Rightarrow>
               (if bs = [] then recv_from n s as
                else (Chunk (take n bs),
                      s'\<lparr>ps_incoming := (if length bs \<le> n then as else (t, Arrives (drop n bs)) # as)\<rparr>)))"

definition recv :: "nat \<Rightarrow> peer_socket \<Rightarrow> received \<times> peer_socket" where
  "recv n s = recv_from n s (ps_incoming s)"

lemma recv_from_Chunk:
  "recv_from n s as = (Chunk bs, s') \<Longrightarrow> n > 0 \<Longrightarrow> 0 < length bs \<and> length bs \<le> n"
  by (induction n s as rule: recv_from.induct)
    (auto simp: Let_def split: if_splits arrival.splits)

lemma recv_Chunk: "recv n s = (Chunk bs, s') \<Longrightarrow> n > 0 \<Longrightarrow> 0 < length bs \<and> length bs \<le> n"
  unfolding recv_def by (rule recv_from_Chunk)

section \<open>Frames\<close>

definition MAX_FRAME_BYTES :: nat where "MAX_FRAME_BYTES = 1048576"
definition MAX_HEADER_BYTES :: nat where "MAX_HEADER_BYTES = 4096"
definition MIN_CREDENTIAL_CHARACTERS :: nat where "MIN_CREDENTIAL_CHARACTERS = 32"
definition MAX_CREDENTIAL_CHARACTERS :: nat where "MAX_CREDENTIAL_CHARACTERS = 512"
definition READ_OPERATIONS :: "string list" where
  "READ_OPERATIONS = [''inspect'', ''source'', ''relations'']"
definition OPERATIONS :: "string list" where
  "OPERATIONS = [''start_run'', ''handle''] @ READ_OPERATIONS"
definition PROTOCOL_VERSION :: int where "PROTOCOL_VERSION = 1"
definition CONTRACT_VERSION :: int where "CONTRACT_VERSION = 1"

definition UNAVAILABLE_REPLY :: bytes where
  "UNAVAILABLE_REPLY =
     canonical_json_bytes
       (JObj [(''contract_version'', JInt CONTRACT_VERSION), (''outcome'', JStr ''unavailable''),
              (''error'', JObj [(''code'', JStr ''unavailable'')])])"

definition read_reply :: "(string \<times> string) list \<Rightarrow> bytes" where
  "read_reply payload = canonical_json_bytes (JObj (map (\<lambda>(k, v). (k, JStr v)) payload))"

definition READ_UNAVAILABLE_REPLY :: bytes where
  "READ_UNAVAILABLE_REPLY = read_reply [(''outcome'', ''unavailable''), (''reason'', ''resource_unavailable'')]"

definition READ_FAILED_REPLY :: bytes where
  "READ_FAILED_REPLY = read_reply [(''outcome'', ''failed''), (''reason'', ''core_read_failed'')]"

text \<open>\<open>OSError\<close> is what a broken socket raises; \<open>Stuck\<close> stands for a call that never returns.\<close>

datatype wire_error = FrameError string | OSError | Stuck

definition be32 :: "nat \<Rightarrow> bytes" where
  "be32 n = [of_nat (n div 16777216), of_nat (n div 65536), of_nat (n div 256), of_nat n]"

fun from_be :: "nat \<Rightarrow> bytes \<Rightarrow> nat" where
  "from_be acc [] = acc"
| "from_be acc (b # bs) = from_be (256 * acc + unat b) bs"

definition send_frame :: "bytes \<Rightarrow> peer_socket \<Rightarrow> (wire_error + unit) \<times> peer_socket" where
  "send_frame data s =
     (if length data > MAX_FRAME_BYTES then (Inl (FrameError ''frame exceeds its bound''), s)
      else if \<not> ps_writable s then (Inl OSError, s)
      else (Inr (), s\<lparr>ps_sent := ps_sent s @ be32 (length data) @ data\<rparr>))"

text \<open>The check of the deadline and the socket timeout it sets, before each \<open>recv\<close>.\<close>

definition armed :: "int option \<Rightarrow> peer_socket \<Rightarrow> wire_error + peer_socket" where
  "armed deadline s =
     (case deadline of
        None \<Rightarrow> Inr s
      | Some d \<Rightarrow>
          if d - ps_now s \<le> 0 then Inl (FrameError ''frame deadline elapsed'')
          else Inr (s\<lparr>ps_timeout := Some (d - ps_now s)\<rparr>))"

function receive_exact ::
  "int option \<Rightarrow> nat \<Rightarrow> peer_socket \<Rightarrow> (wire_error + bytes) \<times> peer_socket" where
  "receive_exact deadline remaining s =
     (if remaining = 0 then (Inr [], s)
      else case armed deadline s of
             Inl e \<Rightarrow> (Inl e, s)
           | Inr s1 \<Rightarrow>
               (case recv (min remaining 65536) s1 of
                  (TimedOut, s2) \<Rightarrow> (Inl (FrameError ''frame deadline elapsed''), s2)
                | (SocketError, s2) \<Rightarrow> (Inl OSError, s2)
                | (Blocked, s2) \<Rightarrow> (Inl Stuck, s2)
                | (EndOfStream, s2) \<Rightarrow> (Inl (FrameError ''connection closed inside a frame''), s2)
                | (Chunk bs, s2) \<Rightarrow>
                    (case receive_exact deadline (remaining - length bs) s2 of
                       (Inl e, s3) \<Rightarrow> (Inl e, s3)
                     | (Inr rest, s3) \<Rightarrow> (Inr (bs @ rest), s3))))"
  by pat_completeness auto

termination receive_exact
proof (relation "measure (\<lambda>(d, n, s). n)", goal_cases)
  case 1
  show ?case by simp
next
  case 2
  then show ?case by (auto dest!: recv_Chunk [OF sym])
qed

declare receive_exact.simps [simp del]

definition receive_frame ::
  "nat \<Rightarrow> int option \<Rightarrow> peer_socket \<Rightarrow> (wire_error + bytes) \<times> peer_socket" where
  "receive_frame limit deadline s =
     (case receive_exact deadline 4 s of
        (Inl e, s1) \<Rightarrow> (Inl e, s1)
      | (Inr prefix, s1) \<Rightarrow>
          if from_be 0 prefix > limit then (Inl (FrameError ''frame exceeds its bound''), s1)
          else receive_exact deadline (from_be 0 prefix) s1)"

section \<open>The request header\<close>

fun json_refused :: "json_value \<Rightarrow> bool" where
  "json_refused VConstant \<longleftrightarrow> True"
| "json_refused (VList vs) \<longleftrightarrow> list_ex json_refused vs"
| "json_refused (VObj kvs) \<longleftrightarrow>
     \<not> distinct (map fst kvs) \<or> list_ex (\<lambda>(k, v). json_refused v) kvs"
| "json_refused _ \<longleftrightarrow> False"

record request_header =
  rh_operation :: string
  rh_credential :: string
  rh_workspace_id :: uuid

text \<open>What the code uses of \<open>json\<close> and \<open>uuid\<close>: reading UTF-8 bytes as JSON, and reading a UUID.\<close>

record wire_codec =
  wc_loads :: "bytes \<Rightarrow> json_value option"
  wc_uuid :: "string \<Rightarrow> uuid option"

definition validate_header :: "request_header \<Rightarrow> wire_error + request_header" where
  "validate_header h =
     validated
       [raise_if (rh_operation h \<notin> set OPERATIONS) (FrameError ''unknown operation''),
        raise_if (\<not> (MIN_CREDENTIAL_CHARACTERS \<le> length (rh_credential h)
             \<and> length (rh_credential h) \<le> MAX_CREDENTIAL_CHARACTERS
             \<and> list_all (\<lambda>c. CHR ''!'' \<le> c \<and> c \<le> CHR ''~'') (rh_credential h)))
          (FrameError ''malformed credential'')] h"

definition header_json :: "request_header \<Rightarrow> json" where
  "header_json h =
     JObj [(''credential'', JStr (rh_credential h)), (''op'', JStr (rh_operation h)),
           (''v'', JInt PROTOCOL_VERSION), (''workspace_id'', j_uuid (rh_workspace_id h))]"

definition encode_header :: "request_header \<Rightarrow> wire_error + bytes" where
  "encode_header h = bindE (validate_header h) (\<lambda>h. Inr (canonical_json_bytes (header_json h)))"

definition decode_header :: "wire_codec \<Rightarrow> bytes \<Rightarrow> wire_error + request_header" where
  "decode_header C data =
     (case wc_loads C data of
        None \<Rightarrow> Inl (FrameError ''malformed header'')
      | Some v \<Rightarrow>
          if json_refused v then Inl (FrameError ''malformed header'')
          else case v of
                 VObj kvs \<Rightarrow>
                   (if set (map fst kvs) \<noteq> {''credential'', ''op'', ''v'', ''workspace_id''}
                    then Inl (FrameError ''malformed header'')
                    else if map_of kvs ''v'' \<noteq> Some (VInt PROTOCOL_VERSION)
                    then Inl (FrameError ''unsupported protocol version'')
                    else case (map_of kvs ''op'', map_of kvs ''credential'', map_of kvs ''workspace_id'') of
                           (Some (VStr operation), Some (VStr credential), Some (VStr workspace)) \<Rightarrow>
                             (case wc_uuid C workspace of
                                None \<Rightarrow> Inl (FrameError ''malformed header'')
                              | Some u \<Rightarrow>
                                  validate_header
                                    \<lparr>rh_operation = operation, rh_credential = credential,
                                     rh_workspace_id = u\<rparr>)
                         | _ \<Rightarrow> Inl (FrameError ''malformed header''))
               | _ \<Rightarrow> Inl (FrameError ''malformed header''))"

end
