(* ===== verification/BrokerRegistry.thy ===== *)
theory BrokerRegistry
  imports JsonRead "HOL-Library.AList"
begin

text \<open>
  \<open>infrastructure/results_broker/registry.py\<close>: the host-private file of the runs it started. Every
  operation holds the lock of the directory, so that operations are functions on the content of the
  file (\<open>None\<close> where it does not exist). The file is written by this module only: an entry that
  lacks a field or holds something else than strings counts as an invalid registry. Reading JSON,
  instants and UUIDs is the record \<open>run_codec\<close>; an instant that is not a string with a time zone
  has no value, as the comparison with the clock raises for it.
\<close>

section \<open>Data\<close>

record run_entry =
  re_credential_sha256 :: string
  re_workspace_id :: string
  re_started_at :: string
  re_expires_at :: string
  re_closed_at :: "string option"

type_synonym runs = "(string \<times> run_entry) list"
type_synonym run_file = "bytes option"

datatype run_error = RegistryBound | InvalidRegistry | MissingField | BadInstant | BadReference

record run_codec =
  rg_loads :: "bytes \<Rightarrow> json_value option"
  rg_instant :: "string \<Rightarrow> int option"
  rg_uuid :: "string \<Rightarrow> uuid option"
  rg_repr :: "json_value \<Rightarrow> string"

text \<open>Microseconds of one day.\<close>

definition RETAIN_AFTER_EXPIRY :: int where "RETAIN_AFTER_EXPIRY = 86400000000"
definition MAX_REGISTRY_BYTES :: nat where "MAX_REGISTRY_BYTES = 4194304"

section \<open>Dictionaries\<close>

text \<open>A Python dictionary built from pairs keeps the first position and the last value of a key.\<close>

definition py_dict :: "(string \<times> 'a) list \<Rightarrow> (string \<times> 'a) list" where
  "py_dict kvs = fold (\<lambda>(k, v). AList.update k v) kvs []"

fun py_str :: "run_codec \<Rightarrow> json_value \<Rightarrow> string" where
  "py_str C (VStr s) = s"
| "py_str C VNull = ''None''"
| "py_str C (VBool b) = (if b then ''True'' else ''False'')"
| "py_str C (VInt i) = str_int i"
| "py_str C v = rg_repr C v"

section \<open>Loading and storing\<close>

fun string_field :: "(string \<times> json_value) list \<Rightarrow> string \<Rightarrow> string option" where
  "string_field kvs k = (case map_of kvs k of Some (VStr s) \<Rightarrow> Some s | _ \<Rightarrow> None)"

definition entry_of_value :: "json_value \<Rightarrow> run_entry option" where
  "entry_of_value v =
     (case v of
        VObj kvs \<Rightarrow>
          (case (string_field kvs ''credential_sha256'', string_field kvs ''workspace_id'',
                 string_field kvs ''started_at'', string_field kvs ''expires_at'') of
             (Some c, Some w, Some s, Some e) \<Rightarrow>
               Some \<lparr>re_credential_sha256 = c, re_workspace_id = w, re_started_at = s,
                     re_expires_at = e, re_closed_at = string_field kvs ''closed_at''\<rparr>
           | _ \<Rightarrow> None)
      | _ \<Rightarrow> None)"

fun entries_of :: "(string \<times> json_value) list \<Rightarrow> runs option" where
  "entries_of [] = Some []"
| "entries_of ((k, v) # kvs) =
     (case (entry_of_value v, entries_of kvs) of
        (Some e, Some es) \<Rightarrow> Some ((k, e) # es)
      | _ \<Rightarrow> None)"

definition load_runs :: "run_codec \<Rightarrow> run_file \<Rightarrow> run_error + runs" where
  "load_runs C file =
     (case file of
        None \<Rightarrow> Inr []
      | Some data \<Rightarrow>
          if length data > MAX_REGISTRY_BYTES then Inl RegistryBound
          else case rg_loads C data of
                 Some (VObj kvs) \<Rightarrow>
                   (case entries_of (py_dict kvs) of None \<Rightarrow> Inl InvalidRegistry | Some runs \<Rightarrow> Inr runs)
               | _ \<Rightarrow> Inl InvalidRegistry)"

definition entry_json :: "run_entry \<Rightarrow> json" where
  "entry_json e =
     JObj ([(''credential_sha256'', JStr (re_credential_sha256 e)),
            (''workspace_id'', JStr (re_workspace_id e)), (''started_at'', JStr (re_started_at e)),
            (''expires_at'', JStr (re_expires_at e))]
           @ (case re_closed_at e of None \<Rightarrow> [] | Some t \<Rightarrow> [(''closed_at'', JStr t)]))"

definition registry_bytes :: "runs \<Rightarrow> bytes" where
  "registry_bytes runs = json_dumps_bytes (JObj (map (\<lambda>(r, e). (r, entry_json e)) runs))"

definition store_runs :: "runs \<Rightarrow> run_file" where
  "store_runs runs = Some (registry_bytes runs)"

section \<open>Operations\<close>

fun live_runs :: "run_codec \<Rightarrow> int \<Rightarrow> runs \<Rightarrow> run_error + runs" where
  "live_runs C now [] = Inr []"
| "live_runs C now ((r, e) # runs) =
     (case rg_instant C (re_expires_at e) of
        None \<Rightarrow> Inl BadInstant
      | Some t \<Rightarrow>
          bindE (live_runs C now runs)
            (\<lambda>rest. Inr (if t + RETAIN_AFTER_EXPIRY > now then (r, e) # rest else rest)))"

definition run_field :: "run_codec \<Rightarrow> (string \<times> json_value) list \<Rightarrow> string \<Rightarrow> run_error + string" where
  "run_field C run k =
     (case map_of run k of None \<Rightarrow> Inl MissingField | Some v \<Rightarrow> Inr (py_str C v))"

definition record_run ::
  "run_codec \<Rightarrow> (string \<times> json_value) list \<Rightarrow> string \<Rightarrow> uuid \<Rightarrow> int \<Rightarrow> run_file
     \<Rightarrow> (run_error + unit) \<times> run_file" where
  "record_run C run credential workspace now file =
     (case bindE (load_runs C file) (\<lambda>loaded.
           bindE (live_runs C now loaded) (\<lambda>runs.
           bindE (run_field C run ''started_at'') (\<lambda>started.
           bindE (run_field C run ''expires_at'') (\<lambda>expires.
           bindE (run_field C run ''run_ref'') (\<lambda>ref.
             case rg_uuid C ref of
               None \<Rightarrow> Inl BadReference
             | Some u \<Rightarrow>
                 Inr (AList.update (uuid_str u)
                        \<lparr>re_credential_sha256 = credential, re_workspace_id = uuid_str workspace,
                         re_started_at = started, re_expires_at = expires, re_closed_at = None\<rparr>
                        runs)))))) of
        Inl e \<Rightarrow> (Inl e, file)
      | Inr runs \<Rightarrow> (Inr (), store_runs runs))"

definition run_owner :: "run_codec \<Rightarrow> uuid \<Rightarrow> run_file \<Rightarrow> run_error + (string \<times> uuid) option" where
  "run_owner C ref file =
     bindE (load_runs C file) (\<lambda>runs.
       case map_of runs (uuid_str ref) of
         None \<Rightarrow> Inr None
       | Some e \<Rightarrow>
           (case rg_uuid C (re_workspace_id e) of
              None \<Rightarrow> Inl BadReference
            | Some w \<Rightarrow> Inr (Some (re_credential_sha256 e, w))))"

definition mark_closed ::
  "run_codec \<Rightarrow> uuid \<Rightarrow> string \<Rightarrow> run_file \<Rightarrow> (run_error + unit) \<times> run_file" where
  "mark_closed C ref closed_at file =
     (case load_runs C file of
        Inl e \<Rightarrow> (Inl e, file)
      | Inr runs \<Rightarrow>
          (case map_of runs (uuid_str ref) of
             None \<Rightarrow> (Inr (), file)
           | Some e \<Rightarrow>
               (Inr (), store_runs (AList.update (uuid_str ref) (e\<lparr>re_closed_at := Some closed_at\<rparr>) runs))))"

record run_listing =
  rl_run_ref :: string
  rl_workspace_id :: string
  rl_started_at :: string
  rl_expires_at :: string
  rl_closed_at :: "string option"
  rl_active :: bool

text \<open>A closed run is listed without reading its expiry.\<close>

fun listing_of :: "run_codec \<Rightarrow> int \<Rightarrow> runs \<Rightarrow> run_error + run_listing list" where
  "listing_of C now [] = Inr []"
| "listing_of C now ((r, e) # runs) =
     bindE (if re_closed_at e \<noteq> None then Inr False
            else case rg_instant C (re_expires_at e) of None \<Rightarrow> Inl BadInstant | Some t \<Rightarrow> Inr (t > now))
       (\<lambda>active.
          bindE (listing_of C now runs) (\<lambda>rest.
            Inr (\<lparr>rl_run_ref = r, rl_workspace_id = re_workspace_id e, rl_started_at = re_started_at e,
                  rl_expires_at = re_expires_at e, rl_closed_at = re_closed_at e, rl_active = active\<rparr>
                 # rest)))"

definition recorded_runs :: "run_codec \<Rightarrow> int \<Rightarrow> run_file \<Rightarrow> run_error + run_listing list" where
  "recorded_runs C now file =
     bindE (load_runs C file) (\<lambda>runs. listing_of C now (sort_key (\<lambda>(r, e). re_started_at e) runs))"

definition latest_principal :: "run_codec \<Rightarrow> uuid \<Rightarrow> run_file \<Rightarrow> run_error + string option" where
  "latest_principal C workspace file =
     bindE (load_runs C file) (\<lambda>runs.
       let entries = sort_key re_started_at
             (filter (\<lambda>e. re_workspace_id e = uuid_str workspace) (map snd runs))
       in Inr (if entries = [] then None else Some (re_credential_sha256 (last entries))))"

section \<open>What is stored is loaded\<close>

lemma update_snoc: "k \<notin> fst ` set xs \<Longrightarrow> AList.update k v xs = xs @ [(k, v)]"
  by (induction xs) auto

lemma py_dict_distinct: "distinct (map fst kvs) \<Longrightarrow> py_dict kvs = kvs"
proof -
  have "fold (\<lambda>(k, v). AList.update k v) kvs acc = acc @ kvs" if "distinct (map fst (acc @ kvs))" for acc
    using that
  proof (induction kvs arbitrary: acc)
    case (Cons x kvs)
    then show ?case by (cases x) (simp add: update_snoc image_Un)
  qed simp
  from this [of "[]"] show "distinct (map fst kvs) \<Longrightarrow> py_dict kvs = kvs" by (simp add: py_dict_def)
qed

lemma entry_of_entry_json: "entry_of_value (value_of (entry_json e)) = Some e"
  by (cases e) (auto simp: entry_json_def entry_of_value_def split: option.splits)

lemma entries_of_map: "entries_of (map (\<lambda>(r, e). (r, value_of (entry_json e))) runs) = Some runs"
  by (induction runs) (auto simp: entry_of_entry_json)

definition reads_back :: "run_codec \<Rightarrow> bool" where
  "reads_back C \<longleftrightarrow> (\<forall>j. rg_loads C (json_dumps_bytes j) = Some (value_of j))"

lemma distinct_sort_fst: "distinct (map fst xs) \<Longrightarrow> distinct (map fst (sort_key fst xs))"
  by (simp add: distinct_map)

lemma load_store:
  assumes "reads_back C" "distinct (map fst runs)" "length (registry_bytes runs) \<le> MAX_REGISTRY_BYTES"
  shows "load_runs C (store_runs runs) = Inr (sort_key fst runs)"
proof -
  have keys: "map fst (map (\<lambda>(r, e). (r, f e)) xs) = map fst xs" for f :: "run_entry \<Rightarrow> json_value" and xs
    by (simp add: case_prod_unfold comp_def)
  have "rg_loads C (registry_bytes runs)
      = Some (VObj (map (\<lambda>(r, e). (r, value_of (entry_json e))) (sort_key fst runs)))"
    using assms(1) unfolding registry_bytes_def reads_back_def
    using sort_key_map_snd [of "\<lambda>e. value_of (entry_json e)" runs]
    by (simp add: case_prod_unfold comp_def)
  then show ?thesis using assms(2,3)
    by (simp add: load_runs_def store_runs_def py_dict_distinct keys distinct_sort_fst entries_of_map
        del: map_map)
qed

end
