(* ===== verification/Authorization.thy ===== *)
theory Authorization
  imports Codec
begin

unbundle bit_operations_syntax

text \<open>
  \<open>domain/authorization.py\<close> and \<open>application/authorization.py\<close>: principals, resources and the policy
  of each operation, local credentials, the authorization of a local request over the port to the
  database, and the UUIDs of version 7 the application generates. The database is a function on
  the world, which may raise one of the exceptions the callers tell apart.
\<close>

section \<open>Data\<close>

datatype principal_kind = HUMAN | AGENT | SERVICE | DEVICE

datatype scope_permission = PERM_READ | PERM_WRITE | PERM_SHARE | PERM_EXPORT | PERM_DELETE

datatype resource_kind = RES_SOURCE | RES_MODEL | RES_FILE | RES_RENDER

datatype authorization_operation =
    SOURCE_READ | SOURCE_MANAGE | SOURCE_SHARE | MODEL_READ | MODEL_PROPOSE | MODEL_REVIEW
  | MODEL_EXPORT | MODEL_DELETE | FILE_READ | FILE_EXPORT | FILE_DELETE | RENDER_READ
  | RENDER_EXPORT | RENDER_DELETE

record resource_reference =
  rr_kind :: resource_kind
  rr_resource_id :: uuid

record authorization_context =
  ax_tenant_id :: uuid
  ax_workspace_id :: uuid
  ax_principal_id :: uuid
  ax_principal_kind :: principal_kind
  ax_user_id :: "uuid option"
  ax_on_behalf_of_user_id :: "uuid option"
  ax_pairing_grant_id :: "uuid option"
  ax_membership_revision :: int
  ax_pairing_grant_revision :: "int option"

record authorization_decision =
  ad_allowed :: bool
  ad_context :: authorization_context
  ad_resource :: resource_reference
  ad_capability :: string
  ad_permission :: scope_permission

text \<open>
  \<open>RefusedByDatabase\<close> stands for \<open>InsufficientPrivilege\<close>, \<open>InvalidAuthorizationSpecification\<close> and
  \<open>NoDataFound\<close>, \<open>DatabaseError\<close> for the other classes under \<open>psycopg.Error\<close>.
\<close>

datatype access_error =
    AuthenticationRequired
  | AuthorizationDenied
  | PermissionRefused
  | RefusedByDatabase
  | DatabaseError
  | BadValue
  | OtherError

type_synonym ('w, 'a) access = "'w \<Rightarrow> (access_error + 'a) \<times> 'w"

section \<open>Operation policies\<close>

fun operation_policy :: "authorization_operation \<Rightarrow> resource_kind \<times> string \<times> scope_permission" where
  "operation_policy SOURCE_READ = (RES_SOURCE, ''source.read'', PERM_READ)"
| "operation_policy SOURCE_MANAGE = (RES_SOURCE, ''source.manage'', PERM_WRITE)"
| "operation_policy SOURCE_SHARE = (RES_SOURCE, ''source.share'', PERM_SHARE)"
| "operation_policy MODEL_READ = (RES_MODEL, ''subject_model.read'', PERM_READ)"
| "operation_policy MODEL_PROPOSE = (RES_MODEL, ''subject_model.propose'', PERM_WRITE)"
| "operation_policy MODEL_REVIEW = (RES_MODEL, ''subject_model.review'', PERM_WRITE)"
| "operation_policy MODEL_EXPORT = (RES_MODEL, ''subject_model.export'', PERM_EXPORT)"
| "operation_policy MODEL_DELETE = (RES_MODEL, ''subject_model.delete'', PERM_DELETE)"
| "operation_policy FILE_READ = (RES_FILE, ''file.read'', PERM_READ)"
| "operation_policy FILE_EXPORT = (RES_FILE, ''file.export'', PERM_EXPORT)"
| "operation_policy FILE_DELETE = (RES_FILE, ''file.delete'', PERM_DELETE)"
| "operation_policy RENDER_READ = (RES_RENDER, ''file.read'', PERM_READ)"
| "operation_policy RENDER_EXPORT = (RES_RENDER, ''file.export'', PERM_EXPORT)"
| "operation_policy RENDER_DELETE = (RES_RENDER, ''file.delete'', PERM_DELETE)"

record authorization_request =
  aq_resource :: resource_reference
  aq_operation :: authorization_operation

definition make_authorization_request ::
  "resource_reference \<Rightarrow> authorization_operation \<Rightarrow> access_error + authorization_request" where
  "make_authorization_request resource op =
     (if rr_kind resource \<noteq> fst (operation_policy op) then Inl BadValue
      else Inr \<lparr>aq_resource = resource, aq_operation = op\<rparr>)"

section \<open>Credentials and the port\<close>

text \<open>\<open>LocalCredential\<close>: the digest exists only for secrets of at least 32 characters.\<close>

definition local_credential_sha256 :: "hash \<Rightarrow> string \<Rightarrow> access_error + string" where
  "local_credential_sha256 H secret = (if length secret < 32 then Inl BadValue else Inr (H (utf8 secret)))"

record context_row =
  cr_tenant_id :: uuid
  cr_workspace_id :: uuid
  cr_principal_id :: uuid
  cr_principal_kind :: string
  cr_user_id :: "uuid option"
  cr_on_behalf_of_user_id :: "uuid option"
  cr_pairing_grant_id :: "uuid option"
  cr_membership_revision :: int
  cr_pairing_grant_revision :: "int option"

record 'w authorization_port =
  ap_context_row :: "string \<Rightarrow> uuid \<Rightarrow> ('w, context_row option) access"
  ap_authorize :: "resource_kind \<Rightarrow> uuid \<Rightarrow> string \<Rightarrow> scope_permission \<Rightarrow> uuid \<Rightarrow> ('w, bool) access"

definition principal_kind_of :: "string \<Rightarrow> principal_kind option" where
  "principal_kind_of s =
     map_of [(''human'', HUMAN), (''agent'', AGENT), (''service'', SERVICE), (''device'', DEVICE)] s"

definition context_of_row :: "context_row \<Rightarrow> access_error + authorization_context" where
  "context_of_row r =
     (case principal_kind_of (cr_principal_kind r) of
        None \<Rightarrow> Inl BadValue
      | Some kind \<Rightarrow>
          Inr \<lparr>ax_tenant_id = cr_tenant_id r, ax_workspace_id = cr_workspace_id r,
               ax_principal_id = cr_principal_id r, ax_principal_kind = kind,
               ax_user_id = cr_user_id r, ax_on_behalf_of_user_id = cr_on_behalf_of_user_id r,
               ax_pairing_grant_id = cr_pairing_grant_id r,
               ax_membership_revision = cr_membership_revision r,
               ax_pairing_grant_revision = cr_pairing_grant_revision r\<rparr>)"

definition begin_context ::
  "'w authorization_port \<Rightarrow> string \<Rightarrow> uuid \<Rightarrow> ('w, authorization_context) access" where
  "begin_context P credential workspace w =
     (case ap_context_row P credential workspace w of
        (Inl e, w1) \<Rightarrow> (Inl e, w1)
      | (Inr None, w1) \<Rightarrow> (Inl PermissionRefused, w1)
      | (Inr (Some row), w1) \<Rightarrow> (context_of_row row, w1))"

definition authorize_resource ::
  "'w authorization_port \<Rightarrow> authorization_context \<Rightarrow> resource_reference \<Rightarrow> string \<Rightarrow> scope_permission
     \<Rightarrow> uuid \<Rightarrow> ('w, authorization_decision) access" where
  "authorize_resource P context resource capability permission request_id w =
     (case ap_authorize P (rr_kind resource) (rr_resource_id resource) capability permission request_id w of
        (Inl e, w1) \<Rightarrow> (Inl e, w1)
      | (Inr allowed, w1) \<Rightarrow>
          (Inr \<lparr>ad_allowed = allowed, ad_context = context, ad_resource = resource,
                ad_capability = capability, ad_permission = permission\<rparr>, w1))"

definition authorize_local_request ::
  "hash \<Rightarrow> 'w authorization_port \<Rightarrow> string option \<Rightarrow> uuid \<Rightarrow> authorization_request \<Rightarrow> uuid
     \<Rightarrow> ('w, authorization_decision) access" where
  "authorize_local_request H P credential workspace request request_id w =
     (case credential of
        None \<Rightarrow> (Inl AuthenticationRequired, w)
      | Some secret \<Rightarrow>
          (case local_credential_sha256 H secret of
             Inl e \<Rightarrow> (Inl e, w)
           | Inr digest \<Rightarrow>
               (case begin_context P digest workspace w of
                  (Inl e, w1) \<Rightarrow> (Inl e, w1)
                | (Inr context, w1) \<Rightarrow>
                    (case operation_policy (aq_operation request) of
                       (_, capability, permission) \<Rightarrow>
                         authorize_resource P context (aq_resource request) capability permission request_id w1))))"

definition require_allowed :: "authorization_decision \<Rightarrow> access_error + authorization_decision" where
  "require_allowed d = (if \<not> ad_allowed d then Inl AuthorizationDenied else Inr d)"

section \<open>UUIDs of version 7\<close>

text \<open>\<open>UUID(int=value)\<close> refuses a value of more than 128 bits.\<close>

definition uuid_of_int :: "nat \<Rightarrow> access_error + uuid" where
  "uuid_of_int value = (if value \<ge> 2 ^ 128 then Inl BadValue else Inr (of_nat value))"

definition uuid7_value :: "nat \<Rightarrow> nat \<Rightarrow> nat" where
  "uuid7_value milliseconds random_tail =
     push_bit 80 milliseconds OR push_bit 76 7
       OR push_bit 64 (drop_bit 62 random_tail AND 0xFFF)
       OR push_bit 62 2
       OR (random_tail AND (2 ^ 62 - 1))"

definition uuid7 :: "nat \<Rightarrow> nat \<Rightarrow> access_error + uuid" where
  "uuid7 time_ns random_tail =
     (let milliseconds = time_ns div 1000000
      in if milliseconds \<ge> 2 ^ 48 then Inl OtherError
         else uuid_of_int (uuid7_value milliseconds random_tail))"

lemma push_or_low:
  assumes "b < (2 :: nat) ^ n"
  shows "push_bit n a OR b = 2 ^ n * a + b"
proof -
  have "push_bit n a AND b = 0"
  proof (rule bit_eqI)
    fix i
    have "\<not> bit b i" if "i \<ge> n"
      using assms that by (simp add: bit_iff_odd order.strict_trans2 [OF assms power_increasing [OF that]])
    then show "bit (push_bit n a AND b) i \<longleftrightarrow> bit (0 :: nat) i"
      by (auto simp: bit_simps)
  qed
  then show ?thesis
    by (simp add: disjunctive_add_eq_or [symmetric] push_bit_eq_mult mult.commute)
qed

lemma uuid7_value_sum:
  assumes "tail < 2 ^ 74"
  shows "uuid7_value ms tail =
    2 ^ 80 * ms + (2 ^ 76 * 7 + (2 ^ 64 * (tail div 2 ^ 62) + (2 ^ 62 * 2 + tail mod 2 ^ 62)))"
proof -
  have hi: "drop_bit 62 tail AND 0xFFF = tail div 2 ^ 62"
  proof -
    have "tail div 2 ^ 62 < 2 ^ 12" using assms by (simp add: less_mult_imp_div_less)
    then have "take_bit 12 (tail div 2 ^ 62) = tail div 2 ^ 62" by (simp add: take_bit_nat_eq_self)
    moreover have "(0xFFF :: nat) = mask 12" by (simp add: mask_eq_exp_minus_1)
    ultimately show ?thesis by (simp only: drop_bit_eq_div take_bit_eq_mask [symmetric])
  qed
  have "tail AND (2 ^ 62 - 1) = take_bit 62 tail"
    by (simp only: take_bit_eq_mask mask_eq_exp_minus_1)
  then have lo: "tail AND (2 ^ 62 - 1) = tail mod 2 ^ 62" by (simp only: take_bit_eq_mod)
  have hib: "tail div 2 ^ 62 < 2 ^ 12" using assms by (simp add: less_mult_imp_div_less)
  have lob: "tail mod 2 ^ 62 < (2 :: nat) ^ 62" by simp
  have b1: "2 ^ 62 * 2 + tail mod 2 ^ 62 < (2 :: nat) ^ 64" using lob by simp
  have b2: "2 ^ 64 * (tail div 2 ^ 62) + (2 ^ 62 * 2 + tail mod 2 ^ 62) < (2 :: nat) ^ 76"
    using hib b1 by simp
  have b3: "2 ^ 76 * 7 + (2 ^ 64 * (tail div 2 ^ 62) + (2 ^ 62 * 2 + tail mod 2 ^ 62)) < (2 :: nat) ^ 80"
    using b2 by simp
  show ?thesis
    unfolding uuid7_value_def hi lo or.assoc
    by (simp only: push_or_low [OF lob] push_or_low [OF b1] push_or_low [OF b2] push_or_low [OF b3])
qed

lemma div_of_sum: "x = b * q + r \<Longrightarrow> r < (b :: nat) \<Longrightarrow> x div b = q"
  by simp

text \<open>The time, the version, the variant and the random tail can be read back.\<close>

lemma uuid7_fields:
  assumes "uuid7 time_ns tail = Inr u" "tail < 2 ^ 74"
  shows "unat u div 2 ^ 80 = time_ns div 1000000" "uuid_version u = 7"
    "unat u div 2 ^ 62 mod 4 = 2" "unat u div 2 ^ 64 mod 2 ^ 12 = tail div 2 ^ 62"
    "unat u mod 2 ^ 62 = tail mod 2 ^ 62"
proof -
  let ?v = "uuid7_value (time_ns div 1000000) tail"
  have ms: "time_ns div 1000000 < 2 ^ 48" and v: "?v < 2 ^ 128" and u: "u = of_nat ?v"
    using assms(1) by (auto simp: uuid7_def uuid_of_int_def Let_def split: if_splits)
  have un: "unat u = ?v" unfolding u using v by (simp add: unat_of_nat)
  define hi lo where "hi = tail div 2 ^ 62" and "lo = tail mod 2 ^ 62"
  have hib: "hi < 2 ^ 12" unfolding hi_def using assms(2) by (simp add: less_mult_imp_div_less)
  have lob: "lo < 2 ^ 62" unfolding lo_def by simp
  note s = uuid7_value_sum [OF assms(2), folded hi_def lo_def]
  show "unat u div 2 ^ 80 = time_ns div 1000000" unfolding un s using hib lob by simp
  have "?v div 2 ^ 76 = 16 * (time_ns div 1000000) + 7"
    by (rule div_of_sum [where r = "2 ^ 64 * hi + (2 ^ 62 * 2 + lo)"]) (use s hib lob in simp_all)
  then show "uuid_version u = 7" unfolding uuid_version_def un by simp
  have "?v div 2 ^ 62 = 4 * (2 ^ 16 * (time_ns div 1000000) + 2 ^ 12 * 7 + hi) + 2"
    by (rule div_of_sum [where r = lo]) (use s lob in simp_all)
  then show "unat u div 2 ^ 62 mod 4 = 2" unfolding un by (simp only: mod_mult_self4 mod_less)
  have "?v div 2 ^ 64 = 2 ^ 12 * (16 * (time_ns div 1000000) + 7) + hi"
    by (rule div_of_sum [where r = "2 ^ 62 * 2 + lo"]) (use s lob in simp_all)
  then show "unat u div 2 ^ 64 mod 2 ^ 12 = tail div 2 ^ 62"
    unfolding un hi_def [symmetric] using hib by (simp only: mod_mult_self4 mod_less)
  have "?v = 2 ^ 62 * (4 * (2 ^ 16 * (time_ns div 1000000) + 2 ^ 12 * 7 + hi) + 2) + lo"
    unfolding s by simp
  then show "unat u mod 2 ^ 62 = tail mod 2 ^ 62"
    unfolding un lo_def [symmetric] using lob by (simp only: mod_mult_self4 mod_less)
qed

lemma uuid7_total:
  assumes "time_ns div 1000000 < 2 ^ 48" "tail < 2 ^ 74"
  shows "\<exists>u. uuid7 time_ns tail = Inr u"
proof -
  have "tail div 2 ^ 62 < 2 ^ 12" using assms(2) by (simp add: less_mult_imp_div_less)
  moreover have "tail mod 2 ^ 62 < 2 ^ 62" by simp
  ultimately have "uuid7_value (time_ns div 1000000) tail < 2 ^ 128"
    unfolding uuid7_value_sum [OF assms(2)] using assms(1) by simp
  then show ?thesis using assms(1) by (simp add: uuid7_def uuid_of_int_def Let_def)
qed

end
