(* ===== verification/BrokerServer.thy ===== *)
theory BrokerServer
  imports BrokerWire BrokerRegistry Authorization
begin

text \<open>
  \<open>infrastructure/results_broker/server.py\<close> and \<open>readers.py\<close>: the trusted host. \<open>serve_connection\<close> is the
  worker of one connection, \<open>dispatch\<close> what it does with a request, \<open>server_step\<close> the accept loop
  with its slots. The executor and the readers work on the database and are fields of
  \<open>broker_host\<close>, functions on the world; so is the port of \<open>Authorization\<close>. Times are milliseconds.
  Preflight, the listener and the cleanup thread are not modelled.
\<close>

section \<open>The host\<close>

record ('w, 'r) broker_host =
  bh_client_uid :: int
  bh_workspace_id :: uuid
  bh_hash :: hash
  bh_wire :: wire_codec
  bh_codec :: run_codec
  bh_utc_now :: "'w \<Rightarrow> int"
  bh_port :: "'w authorization_port"
  bh_recover :: "string \<Rightarrow> ('w, nat) access"
  bh_start_run :: "string \<Rightarrow> ('w, bytes) access"
  bh_handle :: "string \<Rightarrow> bytes \<Rightarrow> ('w, bytes) access"
  bh_parse_request :: "string \<Rightarrow> bytes \<Rightarrow> 'r option"
  bh_reader :: "string \<Rightarrow> 'r \<Rightarrow> ('w, json) access"
  bh_admission_refusal :: "'w \<Rightarrow> string option"

datatype log_line =
    LogRefused string "int option"
  | LogRecovered nat
  | LogRecoveryFailed
  | LogRegistryFailed
  | LogRequest string "string option" "(string \<times> string) list" "string option"

record 'w broker_state =
  bs_world :: 'w
  bs_runs :: run_file
  bs_log :: "log_line list"

definition logged :: "log_line \<Rightarrow> 'w broker_state \<Rightarrow> 'w broker_state" where
  "logged l st = st\<lparr>bs_log := bs_log st @ [l]\<rparr>"

definition REQUEST_DEADLINE :: int where "REQUEST_DEADLINE = 10000"
definition REPLY_DEADLINE :: int where "REPLY_DEADLINE = 30000"
definition MAX_CONNECTIONS :: nat where "MAX_CONNECTIONS = 8"

definition refusal_reply :: "string \<Rightarrow> bytes" where
  "refusal_reply op = (if op \<in> set READ_OPERATIONS then READ_UNAVAILABLE_REPLY else UNAVAILABLE_REPLY)"

section \<open>Readers\<close>

definition read_core ::
  "('w, 'r) broker_host \<Rightarrow> string \<Rightarrow> bytes \<Rightarrow> string \<Rightarrow> 'w \<Rightarrow> bytes \<times> 'w" where
  "read_core H command request credential w =
     (if command \<notin> set READ_OPERATIONS then (READ_FAILED_REPLY, w)
      else case bh_parse_request H command request of
             None \<Rightarrow> (READ_FAILED_REPLY, w)
           | Some parsed \<Rightarrow>
               (case bh_reader H credential parsed w of
                  (Inl e, w1) \<Rightarrow>
                    (if e \<in> {PermissionRefused, AuthenticationRequired, AuthorizationDenied, RefusedByDatabase}
                     then READ_UNAVAILABLE_REPLY else READ_FAILED_REPLY, w1)
                | (Inr payload, w1) \<Rightarrow> (canonical_json_bytes payload, w1)))"

section \<open>Authentication\<close>

definition paired_agent :: "('w, 'r) broker_host \<Rightarrow> string \<Rightarrow> ('w, bool) access" where
  "paired_agent H credential w =
     (case begin_context (bh_port H) credential (bh_workspace_id H) w of
        (Inl OtherError, w1) \<Rightarrow> (Inl OtherError, w1)
      | (Inl _, w1) \<Rightarrow> (Inr False, w1)
      | (Inr c, w1) \<Rightarrow>
          (Inr (ax_principal_kind c = AGENT \<and> ax_pairing_grant_id c \<noteq> None
                \<and> ax_workspace_id c = bh_workspace_id H), w1))"

section \<open>One request\<close>

definition recover :: "('w, 'r) broker_host \<Rightarrow> string \<Rightarrow> 'w broker_state \<Rightarrow> 'w broker_state" where
  "recover H credential st =
     (case bh_recover H credential (bs_world st) of
        (Inl e, w) \<Rightarrow> logged LogRecoveryFailed (st\<lparr>bs_world := w\<rparr>)
      | (Inr settled, w) \<Rightarrow>
          if settled = 0 then st\<lparr>bs_world := w\<rparr> else logged (LogRecovered settled) (st\<lparr>bs_world := w\<rparr>))"

text \<open>
  \<open>data.get\<close> raises when the reply is JSON but no object; a registry that fails is only logged.
\<close>

definition record_reply ::
  "('w, 'r) broker_host \<Rightarrow> bytes \<Rightarrow> string \<Rightarrow> 'w broker_state \<Rightarrow> (access_error + unit) \<times> 'w broker_state" where
  "record_reply H reply credential st =
     (case wc_loads (bh_wire H) reply of
        None \<Rightarrow> (Inr (), st)
      | Some (VObj kvs) \<Rightarrow>
          (case (map_of (py_dict kvs) ''outcome'', map_of (py_dict kvs) ''run'') of
             (Some (VStr outcome), Some (VObj run)) \<Rightarrow>
               (if outcome \<noteq> ''available'' then (Inr (), st)
                else case record_run (bh_codec H) (py_dict run) credential (bh_workspace_id H)
                            (bh_utc_now H (bs_world st)) (bs_runs st) of
                       (Inl e, file) \<Rightarrow> (Inr (), logged LogRegistryFailed (st\<lparr>bs_runs := file\<rparr>))
                     | (Inr _, file) \<Rightarrow> (Inr (), st\<lparr>bs_runs := file\<rparr>))
           | _ \<Rightarrow> (Inr (), st))
      | Some _ \<Rightarrow> (Inl OtherError, st))"

definition perform ::
  "('w, 'r) broker_host \<Rightarrow> string \<Rightarrow> bytes \<Rightarrow> string \<Rightarrow> 'w broker_state
     \<Rightarrow> (access_error + bytes) \<times> 'w broker_state" where
  "perform H op body credential st =
     (let st = (if op = ''start_run'' \<or> op = ''handle'' then recover H credential st else st)
      in if op = ''start_run'' then
           (if body \<noteq> [] then (Inr (refusal_reply op), st)
            else case bh_start_run H credential (bs_world st) of
                   (Inl e, w) \<Rightarrow> (Inl e, st\<lparr>bs_world := w\<rparr>)
                 | (Inr reply, w) \<Rightarrow>
                     (case record_reply H reply credential (st\<lparr>bs_world := w\<rparr>) of
                        (Inl e, st1) \<Rightarrow> (Inl e, st1)
                      | (Inr _, st1) \<Rightarrow> (Inr reply, st1)))
         else if op = ''handle'' then
           (case bh_handle H credential body (bs_world st) of (r, w) \<Rightarrow> (r, st\<lparr>bs_world := w\<rparr>))
         else (case read_core H op body credential (bs_world st) of
                 (reply, w) \<Rightarrow> (Inr reply, st\<lparr>bs_world := w\<rparr>)))"

definition dispatch ::
  "('w, 'r) broker_host \<Rightarrow> request_header \<Rightarrow> bytes \<Rightarrow> 'w broker_state
     \<Rightarrow> (access_error + bytes) \<times> 'w broker_state" where
  "dispatch H h body st =
     (let refusal = refusal_reply (rh_operation h)
      in if rh_workspace_id h \<noteq> bh_workspace_id H then (Inr refusal, st)
         else case local_credential_sha256 (bh_hash H) (rh_credential h) of
                Inl _ \<Rightarrow> (Inr refusal, st)
              | Inr credential \<Rightarrow>
                  (case paired_agent H credential (bs_world st) of
                     (Inl e, w) \<Rightarrow> (Inl e, st\<lparr>bs_world := w\<rparr>)
                   | (Inr paired, w) \<Rightarrow>
                       if \<not> paired then (Inr refusal, st\<lparr>bs_world := w\<rparr>)
                       else perform H (rh_operation h) body credential (st\<lparr>bs_world := w\<rparr>)))"

section \<open>What is logged of a reply\<close>

fun truthy :: "json_value \<Rightarrow> bool" where
  "truthy VNull \<longleftrightarrow> False"
| "truthy (VBool b) \<longleftrightarrow> b"
| "truthy (VInt i) \<longleftrightarrow> i \<noteq> 0"
| "truthy (VFloat zero) \<longleftrightarrow> \<not> zero"
| "truthy VConstant \<longleftrightarrow> True"
| "truthy (VStr s) \<longleftrightarrow> s \<noteq> []"
| "truthy (VList vs) \<longleftrightarrow> vs \<noteq> []"
| "truthy (VObj kvs) \<longleftrightarrow> kvs \<noteq> []"

definition identifier_ref :: "wire_codec \<Rightarrow> json_value option \<Rightarrow> string option" where
  "identifier_ref C v =
     (case v of
        Some (VStr s) \<Rightarrow>
          (case wc_uuid C s of Some u \<Rightarrow> if uuid_str u = s then Some s else None | None \<Rightarrow> None)
      | _ \<Rightarrow> None)"

definition reply_outcome :: "wire_codec \<Rightarrow> bytes \<Rightarrow> string option \<times> (string \<times> string) list" where
  "reply_outcome C reply =
     (case wc_loads C reply of
        Some (VObj kvs) \<Rightarrow>
          (let value = map_of (py_dict kvs);
               run_ref =
                 (case value ''run_ref'' of
                    Some v \<Rightarrow>
                      if truthy v then Some v
                      else (case value ''run'' of Some (VObj r) \<Rightarrow> map_of (py_dict r) ''run_ref'' | _ \<Rightarrow> None)
                  | None \<Rightarrow> (case value ''run'' of Some (VObj r) \<Rightarrow> map_of (py_dict r) ''run_ref'' | _ \<Rightarrow> None));
               ref = (\<lambda>k v. case identifier_ref C v of None \<Rightarrow> [] | Some s \<Rightarrow> [(k, s)])
           in (case value ''outcome'' of Some (VStr s) \<Rightarrow> Some s | _ \<Rightarrow> None,
               ref ''run_ref'' run_ref @ ref ''access_receipt_ref'' (value ''access_receipt_ref'')))
      | _ \<Rightarrow> (None, []))"

section \<open>One connection\<close>

record peer_connection =
  pc_socket :: peer_socket
  pc_peer_uid :: "int option"

definition send_reply :: "bytes \<Rightarrow> peer_socket \<Rightarrow> peer_socket" where
  "send_reply data s = snd (send_frame data (s\<lparr>ps_timeout := Some REPLY_DEADLINE\<rparr>))"

definition closed :: "peer_socket \<Rightarrow> peer_socket" where
  "closed s = s\<lparr>ps_closed := True\<rparr>"

text \<open>The two frames of a request, each before the deadline.\<close>

definition receive_request ::
  "wire_codec \<Rightarrow> int \<Rightarrow> peer_socket \<Rightarrow> (wire_error + request_header \<times> bytes) \<times> peer_socket" where
  "receive_request C deadline s =
     (case receive_frame MAX_HEADER_BYTES (Some deadline) s of
        (Inl e, s1) \<Rightarrow> (Inl e, s1)
      | (Inr data, s1) \<Rightarrow>
          (case decode_header C data of
             Inl e \<Rightarrow> (Inl e, s1)
           | Inr h \<Rightarrow>
               (case receive_frame MAX_FRAME_BYTES (Some deadline) s1 of
                  (Inl e, s2) \<Rightarrow> (Inl e, s2)
                | (Inr body, s2) \<Rightarrow> (Inr (h, body), s2))))"

definition serve_connection ::
  "('w, 'r) broker_host \<Rightarrow> peer_connection \<Rightarrow> 'w broker_state \<Rightarrow> peer_socket \<times> 'w broker_state" where
  "serve_connection H c st =
     (let s = pc_socket c
      in case pc_peer_uid c of
           None \<Rightarrow> (closed s, logged (LogRefused ''peer_identity'' None) st)
         | Some uid \<Rightarrow>
             if uid \<noteq> bh_client_uid H then (closed s, logged (LogRefused ''peer_uid'' (Some uid)) st)
             else
               (case receive_request (bh_wire H) (ps_now s + REQUEST_DEADLINE) s of
                  (Inl e, s1) \<Rightarrow>
                    (closed (send_reply UNAVAILABLE_REPLY s1), logged (LogRefused ''frame'' None) st)
                | (Inr (h, body), s1) \<Rightarrow>
                    (case dispatch H h body st of
                       (Inl e, st1) \<Rightarrow>
                         (closed (send_reply (refusal_reply (rh_operation h)) s1),
                          logged (LogRequest (rh_operation h) (Some ''host_error'') [] None) st1)
                     | (Inr reply, st1) \<Rightarrow>
                         (closed (send_reply reply s1),
                          logged (LogRequest (rh_operation h) (fst (reply_outcome (bh_wire H) reply))
                                    (snd (reply_outcome (bh_wire H) reply))
                                    (bh_admission_refusal H (bs_world st1))) st1))))"

section \<open>The accept loop\<close>

text \<open>
  A worker serves its connection at some time between its start and its end; the steps of the loop
  are atomic, and the database and the registry may change between them. \<open>acquire\<close> and \<open>release\<close> are those of a bounded semaphore, whose release raises above
  its initial value.
\<close>

record 'w server =
  sv_state :: "'w broker_state"
  sv_free :: nat
  sv_workers :: "(nat \<times> peer_connection) list"
  sv_next :: nat
  sv_done :: "(nat \<times> peer_socket) list"
  sv_stopping :: bool

definition acquire :: "nat \<Rightarrow> nat option" where
  "acquire free = (if free = 0 then None else Some (free - 1))"

definition release :: "nat \<Rightarrow> nat option" where
  "release free = (if free \<ge> MAX_CONNECTIONS then None else Some (free + 1))"

definition server_start :: "'w broker_state \<Rightarrow> 'w server" where
  "server_start st =
     \<lparr>sv_state = st, sv_free = MAX_CONNECTIONS, sv_workers = [], sv_next = 0, sv_done = [],
      sv_stopping = False\<rparr>"

definition accept :: "peer_connection \<Rightarrow> 'w server \<Rightarrow> 'w server" where
  "accept c v =
     (case acquire (sv_free v) of
        None \<Rightarrow>
          v\<lparr>sv_state := logged (LogRefused ''busy'' None) (sv_state v), sv_next := sv_next v + 1,
            sv_done := sv_done v @ [(sv_next v, closed (pc_socket c))]\<rparr>
      | Some free \<Rightarrow>
          v\<lparr>sv_free := free, sv_workers := sv_workers v @ [(sv_next v, c)], sv_next := sv_next v + 1\<rparr>)"

definition finish :: "('w, 'r) broker_host \<Rightarrow> nat \<Rightarrow> 'w server \<Rightarrow> 'w server option" where
  "finish H i v =
     (case map_of (sv_workers v) i of
        None \<Rightarrow> None
      | Some c \<Rightarrow>
          (case serve_connection H c (sv_state v) of
             (s, st) \<Rightarrow>
               map_option
                 (\<lambda>free. v\<lparr>sv_state := st, sv_free := free,
                    sv_workers := filter (\<lambda>(j, _). j \<noteq> i) (sv_workers v),
                    sv_done := sv_done v @ [(i, s)]\<rparr>)
                 (release (sv_free v))))"

inductive server_step :: "('w, 'r) broker_host \<Rightarrow> 'w server \<Rightarrow> 'w server \<Rightarrow> bool" for H where
  step_accept: "\<not> sv_stopping v \<Longrightarrow> server_step H v (accept c v)"
| step_finish: "finish H i v = Some v' \<Longrightarrow> server_step H v v'"
| step_stop: "server_step H v (v\<lparr>sv_stopping := True\<rparr>)"
| step_outside: "server_step H v (v\<lparr>sv_state := (sv_state v)\<lparr>bs_world := w, bs_runs := file\<rparr>\<rparr>)"

inductive_cases server_stepE [elim!]: "server_step H v v'"

end
