(* ===== verification/BrokerClient.thy ===== *)
theory BrokerClient
  imports BrokerServer
begin

unbundle bit_operations_syntax

text \<open>
  \<open>infrastructure/results_broker/client.py\<close>: the transport of an agent to the trusted host. What the
  client sees of the file system, its own uid and the connection it gets are the fields of
  \<open>client_env\<close>; \<open>None\<close> stands for an operating-system error.
\<close>

record directory_stat =
  dt_is_directory :: bool
  dt_mode :: nat
  dt_uid :: int

record socket_stat =
  st_is_socket :: bool
  st_uid :: int

record client_env =
  ce_directory :: "directory_stat option"
  ce_entry :: "socket_stat option"
  ce_euid :: int
  ce_connection :: "peer_connection option"

record broker_client =
  bl_credential :: string
  bl_workspace :: uuid
  bl_pinned :: "int option"
  bl_timeout :: int

datatype client_error = UntrustedHost string | DirectoryError

definition expected_peer :: "broker_client \<Rightarrow> client_env \<Rightarrow> client_error + int" where
  "expected_peer cl env =
     (case bl_pinned cl of
        Some uid \<Rightarrow> Inr uid
      | None \<Rightarrow>
          (case ce_directory env of
             None \<Rightarrow> Inl DirectoryError
           | Some d \<Rightarrow>
               if \<not> dt_is_directory d \<or> dt_mode d AND 0x12 \<noteq> 0
               then Inl (UntrustedHost ''socket directory is writable by others'')
               else if dt_uid d = ce_euid env
               then Inl (UntrustedHost ''socket directory belongs to the caller'')
               else Inr (dt_uid d)))"

definition is_json_object :: "wire_codec \<Rightarrow> bytes \<Rightarrow> bool" where
  "is_json_object C data = (case wc_loads C data of Some (VObj _) \<Rightarrow> True | _ \<Rightarrow> False)"

text \<open>The reply, and the socket afterwards where a connection was made.\<close>

definition exchange ::
  "wire_codec \<Rightarrow> broker_client \<Rightarrow> client_env \<Rightarrow> string \<Rightarrow> bytes \<Rightarrow> bytes \<Rightarrow> bytes \<times> peer_socket option" where
  "exchange C cl env op body fallback =
     (case encode_header \<lparr>rh_operation = op, rh_credential = bl_credential cl, rh_workspace_id = bl_workspace cl\<rparr> of
        Inl _ \<Rightarrow> (fallback, None)
      | Inr header \<Rightarrow>
          if length body > MAX_FRAME_BYTES then (fallback, None)
          else case (expected_peer cl env, ce_entry env) of
                 (Inr expected, Some entry) \<Rightarrow>
                   (if \<not> st_is_socket entry \<or> st_uid entry \<noteq> expected then (fallback, None)
                    else case ce_connection env of
                           None \<Rightarrow> (fallback, None)
                         | Some c \<Rightarrow>
                             (let s = (pc_socket c)\<lparr>ps_timeout := Some (bl_timeout cl)\<rparr>
                              in if pc_peer_uid c \<noteq> Some expected then (fallback, Some (closed s))
                                 else case send_frame header s of
                                        (Inl _, s1) \<Rightarrow> (fallback, Some (closed s1))
                                      | (Inr _, s1) \<Rightarrow>
                                          (case send_frame body s1 of
                                             (Inl _, s2) \<Rightarrow> (fallback, Some (closed s2))
                                           | (Inr _, s2) \<Rightarrow>
                                               (case receive_frame MAX_FRAME_BYTES
                                                       (Some (ps_now s + bl_timeout cl)) s2 of
                                                  (Inl _, s3) \<Rightarrow> (fallback, Some (closed s3))
                                                | (Inr reply, s3) \<Rightarrow>
                                                    (if is_json_object C reply then reply else fallback,
                                                     Some (closed s3))))))
               | _ \<Rightarrow> (fallback, None))"

definition client_start_run :: "wire_codec \<Rightarrow> broker_client \<Rightarrow> client_env \<Rightarrow> bytes \<times> peer_socket option" where
  "client_start_run C cl env = exchange C cl env ''start_run'' [] UNAVAILABLE_REPLY"

definition client_handle ::
  "wire_codec \<Rightarrow> broker_client \<Rightarrow> client_env \<Rightarrow> bytes \<Rightarrow> bytes \<times> peer_socket option" where
  "client_handle C cl env request = exchange C cl env ''handle'' request UNAVAILABLE_REPLY"

definition client_read ::
  "wire_codec \<Rightarrow> broker_client \<Rightarrow> client_env \<Rightarrow> string \<Rightarrow> bytes \<Rightarrow> bytes \<times> peer_socket option" where
  "client_read C cl env command request =
     (if command \<notin> set READ_OPERATIONS then (READ_UNAVAILABLE_REPLY, None)
      else exchange C cl env command request READ_UNAVAILABLE_REPLY)"

text \<open>One operation of the transport, whichever it is.\<close>

definition client_call ::
  "wire_codec \<Rightarrow> broker_client \<Rightarrow> client_env \<Rightarrow> string \<Rightarrow> bytes \<Rightarrow> bytes \<times> peer_socket option" where
  "client_call C cl env op body =
     (if op = ''start_run'' then client_start_run C cl env
      else if op = ''handle'' then client_handle C cl env body
      else client_read C cl env op body)"

end
