(* ===== verification/BrokerFrames.thy ===== *)
theory BrokerFrames
  imports BrokerWire
begin

text \<open>
  The library for frames: what a socket delivers before a deadline, that \<open>receive_exact\<close> takes
  exactly the bytes asked for however they are split, and the round trips of frames and headers.
\<close>

section \<open>Big-endian lengths\<close>

lemma length_be32 [simp]: "length (be32 n) = 4"
  by (simp add: be32_def)

lemma from_be32 [simp]:
  assumes "n < 4294967296"
  shows "from_be 0 (be32 n) = n"
proof -
  have byte: "unat (of_nat k :: 8 word) = k mod 256" for k by (simp add: unat_of_nat)
  have top: "n div 16777216 mod 256 = n div 16777216"
    using assms by (simp add: div_less_iff_less_mult)
  then have "256 * (256 * (256 * (n div 16777216 mod 256) + n div 65536 mod 256) + n div 256 mod 256) + n mod 256 = n"
    by (simp add: div_mult2_eq [of n 256 256, simplified] div_mult2_eq [of n 65536 256, simplified])
  then show ?thesis by (simp add: be32_def byte top)
qed

lemma receive_exact_0 [simp]: "receive_exact deadline 0 s = (Inr [], s)"
  by (simp add: receive_exact.simps [of deadline 0])

section \<open>What a socket delivers\<close>

text \<open>All bytes before the end of the stream, and those that arrive in time before anything else.\<close>

fun stream :: "(int \<times> arrival) list \<Rightarrow> bytes" where
  "stream [] = []"
| "stream ((t, a) # as) = (case a of Arrives bs \<Rightarrow> bs @ stream as | _ \<Rightarrow> [])"

fun pending :: "int \<Rightarrow> (int \<times> arrival) list \<Rightarrow> bytes" where
  "pending d [] = []"
| "pending d ((t, a) # as) =
     (case a of Arrives bs \<Rightarrow> (if t < d then bs @ pending d as else []) | _ \<Rightarrow> [])"

lemma pending_prefix: "\<exists>rest. stream as = pending d as @ rest"
  by (induction as) (auto split: arrival.splits)

text \<open>Receiving changes nothing but the clock, the timeout and what is still to come.\<close>

definition same_side :: "peer_socket \<Rightarrow> peer_socket \<Rightarrow> bool" where
  "same_side s s' \<longleftrightarrow> ps_writable s' = ps_writable s \<and> ps_sent s' = ps_sent s \<and> ps_closed s' = ps_closed s"

lemma same_side_refl [simp]: "same_side s s"
  by (simp add: same_side_def)

lemma same_side_trans: "same_side s t \<Longrightarrow> same_side t u \<Longrightarrow> same_side s u"
  by (simp add: same_side_def)

lemma recv_from_side: "recv_from n s as = (r, s') \<Longrightarrow> same_side s s'"
  by (induction n s as rule: recv_from.induct)
    (auto simp: Let_def same_side_def waited_def split: if_splits arrival.splits option.splits)

lemma recv_from_stream:
  "recv_from n s as = (Chunk bs, s') \<Longrightarrow> bs @ stream (ps_incoming s') = stream as"
  by (induction n s as rule: recv_from.induct)
    (auto simp: Let_def split: if_splits arrival.splits)

lemma armed_side: "armed deadline s = Inr s1 \<Longrightarrow> same_side s s1 \<and> ps_incoming s1 = ps_incoming s"
  by (auto simp: armed_def same_side_def split: option.splits if_splits)

lemma receive_exact_side: "receive_exact deadline n s = (r, s') \<Longrightarrow> same_side s s'"
proof (induction deadline n s arbitrary: r s' rule: receive_exact.induct)
  case (1 deadline n s)
  show ?case
  proof (cases "n = 0")
    case True
    with "1.prems" show ?thesis by (simp add: receive_exact.simps [of deadline n])
  next
    case False
    show ?thesis
    proof (cases "armed deadline s")
      case (Inl e)
      with False "1.prems" show ?thesis by (simp add: receive_exact.simps [of deadline n])
    next
      case (Inr s1)
      obtain x s2 where x: "recv (min n 65536) s1 = (x, s2)" by (cases "recv (min n 65536) s1")
      from armed_side [OF Inr] recv_from_side [OF x [unfolded recv_def]]
      have s2: "same_side s s2" by (blast intro: same_side_trans)
      show ?thesis
      proof (cases x)
        case (Chunk bs)
        obtain q s3 where q: "receive_exact deadline (n - length bs) s2 = (q, s3)" by fastforce
        have "same_side s2 s3" using "1.IH" [OF False Inr x [symmetric] Chunk q] .
        moreover have "s' = s3" using "1.prems" False Inr x Chunk q
          by (simp add: receive_exact.simps [of deadline n] split: sum.splits)
        ultimately show ?thesis using s2 by (blast intro: same_side_trans)
      qed (use "1.prems" False Inr x s2 in \<open>simp_all add: receive_exact.simps [of deadline n]\<close>)
    qed
  qed
qed

text \<open>What is received is what was next in the stream: nothing is lost, added or reordered.\<close>

lemma receive_exact_stream:
  "receive_exact deadline n s = (Inr bs, s') \<Longrightarrow>
     length bs = n \<and> bs @ stream (ps_incoming s') = stream (ps_incoming s)"
proof (induction deadline n s arbitrary: bs s' rule: receive_exact.induct)
  case (1 deadline n s)
  show ?case
  proof (cases "n = 0")
    case True
    with "1.prems" show ?thesis by (simp add: receive_exact.simps [of deadline n])
  next
    case False
    with "1.prems" obtain s1 c s2 where s1: "armed deadline s = Inr s1"
      and c: "recv (min n 65536) s1 = (Chunk c, s2)"
      by (auto simp: receive_exact.simps [of deadline n] split: sum.splits received.splits prod.splits)
    with "1.prems" False obtain rest where rest: "receive_exact deadline (n - length c) s2 = (Inr rest, s')"
      and bs: "bs = c @ rest"
      by (auto simp: receive_exact.simps [of deadline n] split: sum.splits prod.splits)
    have "length rest = n - length c \<and> rest @ stream (ps_incoming s') = stream (ps_incoming s2)"
      using "1.IH" [OF False s1 c [symmetric] refl rest] .
    moreover have "c @ stream (ps_incoming s2) = stream (ps_incoming s)"
      using recv_from_stream [OF c [unfolded recv_def]] armed_side [OF s1] by simp
    moreover have "length c \<le> n" using recv_Chunk [OF c] False by simp
    ultimately show ?thesis using bs by auto
  qed
qed

text \<open>Bytes that arrive before the deadline are received, however they are split.\<close>

lemma recv_from_pending:
  assumes "ps_now s < d" "ps_timeout s = Some (d - ps_now s)" "n > 0" "pending d as \<noteq> []"
  shows "\<exists>bs s'. recv_from n s as = (Chunk bs, s') \<and> bs @ pending d (ps_incoming s') = pending d as
    \<and> ps_now s' < d"
  using assms
proof (induction n s as rule: recv_from.induct)
  case (2 n s t a as)
  then obtain bs where a: "a = Arrives bs" "t < d" by (auto split: arrival.splits if_splits)
  with 2 have late: "\<not> too_late s t" by (simp add: too_late_def)
  show ?case
  proof (cases "bs = []")
    case True
    with 2 a late show ?thesis by simp
  next
    case False
    with 2 a late show ?thesis by (auto simp: Let_def)
  qed
qed simp

lemma receive_exact_pending:
  "\<lbrakk>ps_now s < d; n \<le> length (pending d (ps_incoming s))\<rbrakk> \<Longrightarrow>
     \<exists>s'. receive_exact (Some d) n s = (Inr (take n (pending d (ps_incoming s))), s')
       \<and> pending d (ps_incoming s') = drop n (pending d (ps_incoming s)) \<and> ps_now s' < d"
proof (induction "Some d" n s rule: receive_exact.induct)
  case (1 n s)
  show ?case
  proof (cases "n = 0")
    case True
    with "1.prems" show ?thesis by (simp add: receive_exact.simps [of "Some d" n])
  next
    case False
    let ?s1 = "s\<lparr>ps_timeout := Some (d - ps_now s)\<rparr>"
    have s1: "armed (Some d) s = Inr ?s1" using "1.prems" by (simp add: armed_def)
    have "pending d (ps_incoming s) \<noteq> []" using "1.prems" False by auto
    then obtain c s2 where c: "recv (min n 65536) ?s1 = (Chunk c, s2)"
      and p: "c @ pending d (ps_incoming s2) = pending d (ps_incoming s)" and now: "ps_now s2 < d"
      using recv_from_pending [of ?s1 d "min n 65536" "ps_incoming s"] "1.prems" False
      by (auto simp: recv_def)
    have len: "length c \<le> n" using recv_Chunk [OF c] False by simp
    have "n - length c \<le> length (pending d (ps_incoming s2))"
      using "1.prems"(2) unfolding p [symmetric] by simp
    from "1.hyps" [OF False s1 c [symmetric] refl now this] obtain s' where
      "receive_exact (Some d) (n - length c) s2 = (Inr (take (n - length c) (pending d (ps_incoming s2))), s')"
      "pending d (ps_incoming s') = drop (n - length c) (pending d (ps_incoming s2))" "ps_now s' < d"
      by blast
    moreover have "take n (pending d (ps_incoming s)) = c @ take (n - length c) (pending d (ps_incoming s2))"
      "drop n (pending d (ps_incoming s)) = drop (n - length c) (pending d (ps_incoming s2))"
      using len by (simp_all flip: p)
    ultimately show ?thesis using False s1 c by (simp add: receive_exact.simps [of "Some d" n])
  qed
qed

section \<open>Frames\<close>

lemma receive_frame_side: "receive_frame limit deadline s = (r, s') \<Longrightarrow> same_side s s'"
  unfolding receive_frame_def
  by (auto split: prod.splits sum.splits if_splits dest!: receive_exact_side intro: same_side_trans)

lemma receive_frame_stream:
  assumes "receive_frame limit deadline s = (Inr data, s')"
  shows "length data \<le> limit \<and> (\<exists>prefix. length prefix = 4 \<and> from_be 0 prefix = length data
    \<and> stream (ps_incoming s) = prefix @ data @ stream (ps_incoming s'))"
proof -
  from assms obtain prefix s1 where p: "receive_exact deadline 4 s = (Inr prefix, s1)"
    and le: "from_be 0 prefix \<le> limit" and d: "receive_exact deadline (from_be 0 prefix) s1 = (Inr data, s')"
    by (auto simp: receive_frame_def split: prod.splits sum.splits if_splits)
  from receive_exact_stream [OF p] receive_exact_stream [OF d] le show ?thesis
    by (intro conjI exI [of _ prefix]) auto
qed

lemma receive_frame_pending:
  assumes "ps_now s < d" "pending d (ps_incoming s) = be32 (length data) @ data @ rest"
    and "length data \<le> limit" "length data < 4294967296"
  shows "\<exists>s'. receive_frame limit (Some d) s = (Inr data, s') \<and> pending d (ps_incoming s') = rest
    \<and> ps_now s' < d"
proof -
  have "4 \<le> length (pending d (ps_incoming s))" unfolding assms(2) by simp
  from receive_exact_pending [OF assms(1) this] obtain s1 where
    s1: "receive_exact (Some d) 4 s = (Inr (be32 (length data)), s1)"
    "pending d (ps_incoming s1) = data @ rest" "ps_now s1 < d"
    unfolding assms(2) by auto
  have "length data \<le> length (pending d (ps_incoming s1))" unfolding s1(2) by simp
  from receive_exact_pending [OF s1(3) this] obtain s2 where
    "receive_exact (Some d) (length data) s1 = (Inr data, s2)"
    "pending d (ps_incoming s2) = rest" "ps_now s2 < d"
    unfolding s1(2) by auto
  with s1 assms(3,4) show ?thesis by (simp add: receive_frame_def)
qed

end
