(* ===== verification/BrokerFacts.thy ===== *)
theory BrokerFacts
  imports BrokerClient BrokerFrames
begin

text \<open>
  The library for the broker: the header round trip, what a request the server refuses may change,
  the in-process call that a remote call refines, the invariant of the slots, and the registry as a
  map.
\<close>

section \<open>Codecs\<close>

text \<open>
  What is assumed of \<open>json.loads\<close> and \<open>UUID\<close>: they read what \<open>json.dumps\<close> and \<open>str\<close> write.
\<close>

definition wire_documented :: "wire_codec \<Rightarrow> bool" where
  "wire_documented C \<longleftrightarrow>
     (\<forall>j. wc_loads C (canonical_json_bytes j) = Some (value_of j)) \<and> (\<forall>u. wc_uuid C (uuid_str u) = Some u)"

text \<open>A reader of UUIDs that shows the assumption can hold.\<close>

definition uuid_reader :: "string \<Rightarrow> uuid option" where
  "uuid_reader s = map_option of_nat (hex_code 0 (filter (\<lambda>c. c \<noteq> CHR ''-'') s))"

lemma hex_code_append: "hex_code acc (xs @ ys) = Option.bind (hex_code acc xs) (\<lambda>a. hex_code a ys)"
  by (induction acc xs rule: hex_code.induct) (auto split: option.splits)

lemma hex_code_hexn_mod: "hex_code acc (hexn k n) = Some (acc * 16 ^ k + n mod 16 ^ k)"
proof (induction k arbitrary: n)
  case (Suc k)
  have "16 * (n div 16 mod 16 ^ k) + n mod 16 = n mod (16 * 16 ^ k)" by (metis add.commute mod_mult2_eq)
  with Suc show ?case by (simp add: hex_code_append algebra_simps)
qed simp

lemma hexdigit_dash: "n < 16 \<Longrightarrow> hexdigit n \<noteq> CHR ''-''"
  by (auto simp: hexdigit_def less_Suc_eq numeral_eq_Suc)

lemma hexn_no_dash: "c \<in> set (hexn k n) \<Longrightarrow> c \<noteq> CHR ''-''"
proof (induction k arbitrary: n)
  case (Suc k)
  have "hexdigit (n mod 16) \<noteq> CHR ''-''" by (rule hexdigit_dash) simp
  with Suc show ?case by auto
qed simp

lemma uuid_reader_str [simp]: "uuid_reader (uuid_str u) = Some u"
proof -
  let ?h = "hexn 32 (unat u)"
  have keep: "filter (\<lambda>c. c \<noteq> CHR ''-'') xs = xs" if "set xs \<subseteq> set ?h" for xs
    using that hexn_no_dash by (auto intro!: filter_True)
  have sub: "set (take m (drop n ?h)) \<subseteq> set ?h" "set (take m ?h) \<subseteq> set ?h" "set (drop n ?h) \<subseteq> set ?h" for m n
    by (auto dest: in_set_takeD in_set_dropD)
  have "take 8 ?h @ take 4 (drop 8 ?h) @ take 4 (drop 12 ?h) @ take 4 (drop 16 ?h) @ drop 20 ?h = ?h"
    using append_take_drop_id [of 4 "drop 16 ?h"] append_take_drop_id [of 4 "drop 12 ?h"]
      append_take_drop_id [of 4 "drop 8 ?h"] append_take_drop_id [of 8 ?h] by simp
  then have "filter (\<lambda>c. c \<noteq> CHR ''-'') (uuid_str u) = ?h"
    unfolding uuid_str_def Let_def filter_append by (simp add: keep [OF sub(1)] keep [OF sub(2)] keep [OF sub(3)])
  moreover have "unat u mod 16 ^ 32 = unat u"
    using unsigned_less [of u] by (intro mod_less) simp
  ultimately show ?thesis by (simp add: uuid_reader_def hex_code_hexn_mod del: hexn.simps)
qed

section \<open>Headers\<close>

lemma value_of_header:
  "value_of (header_json h) =
     VObj [(''credential'', VStr (rh_credential h)), (''op'', VStr (rh_operation h)),
           (''v'', VInt PROTOCOL_VERSION), (''workspace_id'', VStr (uuid_str (rh_workspace_id h)))]"
  by (simp add: header_json_def)

lemma decode_encode_header:
  assumes "wire_documented C" "encode_header h = Inr data"
  shows "decode_header C data = Inr h"
proof -
  from assms(2) have v: "validate_header h = Inr h" and d: "data = canonical_json_bytes (header_json h)"
    by (auto simp: encode_header_def bindE_Inr_iff validate_header_def)
  from assms(1) have "wc_loads C data = Some (value_of (header_json h))"
    "wc_uuid C (uuid_str (rh_workspace_id h)) = Some (rh_workspace_id h)"
    by (auto simp: wire_documented_def d)
  moreover have "validate_header \<lparr>rh_operation = rh_operation h, rh_credential = rh_credential h,
      rh_workspace_id = rh_workspace_id h\<rparr> = Inr h" using v by (cases h) simp
  ultimately show ?thesis unfolding decode_header_def value_of_header by auto
qed

lemma encoded_header_fits:
  assumes "encode_header h = Inr data"
  shows "length data \<le> MAX_HEADER_BYTES"
proof -
  from assms have d: "data = canonical_json_bytes (header_json h)"
    and op: "rh_operation h \<in> set OPERATIONS" and c: "length (rh_credential h) \<le> 512"
    by (auto simp: encode_header_def bindE_Inr_iff validate_header_def MAX_CREDENTIAL_CHARACTERS_def)
  from op have "length (rh_operation h) \<le> 9" by (auto simp: OPERATIONS_def READ_OPERATIONS_def)
  then have "json_bound (header_json h) \<le> 4096"
    using c by (simp add: header_json_def PROTOCOL_VERSION_def)
  then show ?thesis using length_canonical_bound [of "header_json h"] by (simp add: d MAX_HEADER_BYTES_def)
qed


section \<open>What is linked\<close>

text \<open>
  The bytes \<open>data\<close> arrive at a socket before the deadline, in pieces of any size, and nothing after
  them.
\<close>

definition delivers :: "int \<Rightarrow> bytes \<Rightarrow> peer_socket \<Rightarrow> bool" where
  "delivers deadline data s \<longleftrightarrow>
     pending deadline (ps_incoming s) = data \<and> stream (ps_incoming s) = data"

definition frame :: "bytes \<Rightarrow> bytes" where
  "frame data = be32 (length data) @ data"

lemma frame_bound [simp]: "length data \<le> MAX_FRAME_BYTES \<Longrightarrow> length data < 4294967296"
  by (simp add: MAX_FRAME_BYTES_def)

lemma send_frame_ok:
  "send_frame data s = (Inr u, s') \<longleftrightarrow>
     length data \<le> MAX_FRAME_BYTES \<and> ps_writable s \<and> s' = s\<lparr>ps_sent := ps_sent s @ frame data\<rparr>"
  by (auto simp: send_frame_def frame_def)

lemma send_frame_error: "send_frame data s = (Inl e, s') \<Longrightarrow> s' = s"
  by (auto simp: send_frame_def split: if_splits)

lemma receive_frame_delivered:
  assumes "ps_now s < d" "delivers d (frame data @ rest) s" "length data \<le> limit" "limit \<le> MAX_FRAME_BYTES"
  shows "\<exists>s'. receive_frame limit (Some d) s = (Inr data, s') \<and> delivers d rest s' \<and> ps_now s' < d"
proof -
  have len: "length data < 4294967296" using assms(3,4) by simp
  obtain s' where s': "receive_frame limit (Some d) s = (Inr data, s')" "pending d (ps_incoming s') = rest"
    "ps_now s' < d"
    using receive_frame_pending [of s d data rest limit] assms len by (auto simp: delivers_def frame_def)
  from receive_frame_stream [OF s'(1)] obtain prefix where
    "length prefix = 4" "stream (ps_incoming s) = prefix @ data @ stream (ps_incoming s')" by blast
  then have "stream (ps_incoming s') = rest" using assms(2) by (auto simp: delivers_def frame_def)
  with s' show ?thesis by (auto simp: delivers_def)
qed

lemma receive_frame_nothing:
  assumes "stream (ps_incoming s) = []"
  shows "\<exists>e s'. receive_frame limit d s = (Inl e, s')"
proof (cases "receive_frame limit d s")
  case (Pair r s')
  with receive_frame_stream [of limit d s] assms show ?thesis by (cases r) fastforce+
qed

lemma receive_request_delivered:
  assumes "wire_documented C" "ps_now s < d" "encode_header h = Inr header" "length body \<le> MAX_FRAME_BYTES"
    and "delivers d (frame header @ frame body) s"
  shows "\<exists>s'. receive_request C d s = (Inr (h, body), s') \<and> same_side s s'"
proof -
  have limits: "length header \<le> MAX_HEADER_BYTES" "MAX_HEADER_BYTES \<le> MAX_FRAME_BYTES"
    using encoded_header_fits [OF assms(3)] by (simp_all add: MAX_HEADER_BYTES_def MAX_FRAME_BYTES_def)
  obtain s1 where s1: "receive_frame MAX_HEADER_BYTES (Some d) s = (Inr header, s1)"
    "delivers d (frame body) s1" "ps_now s1 < d"
    using receive_frame_delivered [OF assms(2,5) limits] by blast
  obtain s2 where s2: "receive_frame MAX_FRAME_BYTES (Some d) s1 = (Inr body, s2)"
    using receive_frame_delivered [OF s1(3), of body "[]" MAX_FRAME_BYTES] s1(2) assms(4) by auto
  have "same_side s s2"
    using receive_frame_side [OF s1(1)] receive_frame_side [OF s2] by (rule same_side_trans)
  with s1 s2 decode_encode_header [OF assms(1,3)] show ?thesis by (simp add: receive_request_def)
qed

section \<open>The call that a remote call refines\<close>

text \<open>The operation run in the process of the host, with the refusals that stand for every failure.\<close>

definition local_call ::
  "('w, 'r) broker_host \<Rightarrow> broker_client \<Rightarrow> string \<Rightarrow> bytes \<Rightarrow> 'w broker_state \<Rightarrow> bytes \<times> 'w broker_state" where
  "local_call H cl op body st =
     (if bl_workspace cl \<noteq> bh_workspace_id H then (refusal_reply op, st)
      else
        let digest = bh_hash H (utf8 (bl_credential cl))
        in case paired_agent H digest (bs_world st) of
             (Inr True, w) \<Rightarrow>
               (case perform H op body digest (st\<lparr>bs_world := w\<rparr>) of
                  (Inr reply, st1) \<Rightarrow>
                    (if length reply \<le> MAX_FRAME_BYTES \<and> is_json_object (bh_wire H) reply then reply
                     else refusal_reply op, st1)
                | (Inl _, st1) \<Rightarrow> (refusal_reply op, st1))
           | (_, w) \<Rightarrow> (refusal_reply op, st\<lparr>bs_world := w\<rparr>))"

text \<open>The state of the host up to its log.\<close>

definition same_state :: "'w broker_state \<Rightarrow> 'w broker_state \<Rightarrow> bool" where
  "same_state st st' \<longleftrightarrow> bs_world st' = bs_world st \<and> bs_runs st' = bs_runs st"

lemma same_state_logged [simp]: "same_state st (logged l st)"
  by (simp add: same_state_def logged_def)

lemma local_call_dispatch:
  assumes "encode_header \<lparr>rh_operation = op, rh_credential = bl_credential cl, rh_workspace_id = bl_workspace cl\<rparr> = Inr data"
    and "dispatch H \<lparr>rh_operation = op, rh_credential = bl_credential cl, rh_workspace_id = bl_workspace cl\<rparr> body st = (r, st1)"
  shows "local_call H cl op body st =
    (case r of
       Inr reply \<Rightarrow> if length reply \<le> MAX_FRAME_BYTES \<and> is_json_object (bh_wire H) reply then reply else refusal_reply op
     | Inl _ \<Rightarrow> refusal_reply op, st1)"
proof -
  have "length (bl_credential cl) \<ge> 32"
    using assms(1) by (auto simp: encode_header_def bindE_Inr_iff validate_header_def MIN_CREDENTIAL_CHARACTERS_def)
  then have "local_credential_sha256 (bh_hash H) (bl_credential cl) = Inr (bh_hash H (utf8 (bl_credential cl)))"
    by (simp add: local_credential_sha256_def)
  with assms(2) show ?thesis
    by (auto simp: dispatch_def local_call_def Let_def split: if_splits prod.splits sum.splits bool.splits)
qed


lemma reply_bounds:
  "length UNAVAILABLE_REPLY \<le> MAX_FRAME_BYTES" "length READ_UNAVAILABLE_REPLY \<le> MAX_FRAME_BYTES"
proof -
  have "json_bound (JObj [(''contract_version'', JInt CONTRACT_VERSION), (''outcome'', JStr ''unavailable''),
      (''error'', JObj [(''code'', JStr ''unavailable'')])]) \<le> MAX_FRAME_BYTES"
    by (simp add: CONTRACT_VERSION_def MAX_FRAME_BYTES_def)
  then show "length UNAVAILABLE_REPLY \<le> MAX_FRAME_BYTES"
    unfolding UNAVAILABLE_REPLY_def using length_canonical_bound order_trans by blast
  have "json_bound (JObj [(''outcome'', JStr ''unavailable''), (''reason'', JStr ''resource_unavailable'')])
      \<le> MAX_FRAME_BYTES"
    by (simp add: MAX_FRAME_BYTES_def)
  then show "length READ_UNAVAILABLE_REPLY \<le> MAX_FRAME_BYTES"
    unfolding READ_UNAVAILABLE_REPLY_def read_reply_def list.map prod.case
    using length_canonical_bound order_trans by blast
qed

lemma refusal_bound [simp]: "length (refusal_reply op) \<le> MAX_FRAME_BYTES"
  by (simp add: refusal_reply_def reply_bounds)

lemma send_reply_sent:
  "ps_sent (send_reply data s) =
     ps_sent s @ (if ps_writable s \<and> length data \<le> MAX_FRAME_BYTES then frame data else [])"
  by (auto simp: send_reply_def send_frame_def frame_def)

lemma closed_simps [simp]: "ps_closed (closed s)" "ps_sent (closed s) = ps_sent s"
  by (simp_all add: closed_def)

text \<open>What the server sends for a request that arrives in time, and the state it leaves.\<close>

lemma serve_delivered:
  assumes "wire_documented (bh_wire H)" "encode_header h = Inr header" "length body \<le> MAX_FRAME_BYTES"
    and "pc_peer_uid d = Some (bh_client_uid H)" "ps_writable (pc_socket d)" "ps_sent (pc_socket d) = []"
    and "delivers (ps_now (pc_socket d) + REQUEST_DEADLINE) (frame header @ frame body) (pc_socket d)"
    and "dispatch H h body st = (r, st1)" "serve_connection H d st = (s', st')"
  shows "same_state st1 st'"
    "ps_sent s' =
       (case r of
          Inr reply \<Rightarrow> if length reply \<le> MAX_FRAME_BYTES then frame reply else []
        | Inl _ \<Rightarrow> frame (refusal_reply (rh_operation h)))"
proof -
  have "ps_now (pc_socket d) < ps_now (pc_socket d) + REQUEST_DEADLINE" by (simp add: REQUEST_DEADLINE_def)
  from receive_request_delivered [OF assms(1) this assms(2,3,7)] obtain s1 where
    s1: "receive_request (bh_wire H) (ps_now (pc_socket d) + REQUEST_DEADLINE) (pc_socket d) = (Inr (h, body), s1)"
    "ps_writable s1" "ps_sent s1 = []"
    using assms(5,6) by (auto simp: same_side_def)
  show "same_state st1 st'" using s1(1) assms(4,8,9)
    by (cases r) (auto simp: serve_connection_def Let_def)
  show "ps_sent s' = (case r of
          Inr reply \<Rightarrow> if length reply \<le> MAX_FRAME_BYTES then frame reply else []
        | Inl _ \<Rightarrow> frame (refusal_reply (rh_operation h)))"
    using s1 assms(4,8,9) by (cases r) (auto simp: serve_connection_def Let_def send_reply_sent)
qed

text \<open>What the client returns for the reply that arrives in time.\<close>

definition client_at :: "broker_client \<Rightarrow> client_env \<Rightarrow> peer_connection \<Rightarrow> bool" where
  "client_at cl env c \<longleftrightarrow>
     (\<exists>uid. expected_peer cl env = Inr uid \<and> ce_entry env = Some \<lparr>st_is_socket = True, st_uid = uid\<rparr>
        \<and> pc_peer_uid c = Some uid) \<and> ce_connection env = Some c \<and> 0 < bl_timeout cl
     \<and> ps_writable (pc_socket c) \<and> ps_sent (pc_socket c) = []"

lemma exchange_sends:
  assumes "client_at cl env c" "encode_header \<lparr>rh_operation = op, rh_credential = bl_credential cl,
      rh_workspace_id = bl_workspace cl\<rparr> = Inr header" "length body \<le> MAX_FRAME_BYTES"
    and "exchange C cl env op body fallback = (reply, socket)"
  shows "\<exists>s3 r. socket = Some (closed s3) \<and> ps_sent s3 = frame header @ frame body
    \<and> receive_frame MAX_FRAME_BYTES (Some (ps_now (pc_socket c) + bl_timeout cl))
        ((pc_socket c)\<lparr>ps_timeout := Some (bl_timeout cl), ps_sent := frame header @ frame body\<rparr>) = (r, s3)
    \<and> reply = (case r of Inr x \<Rightarrow> if is_json_object C x then x else fallback | Inl _ \<Rightarrow> fallback)"
proof -
  have header: "length header \<le> MAX_FRAME_BYTES"
    using encoded_header_fits [OF assms(2)] by (simp add: MAX_HEADER_BYTES_def MAX_FRAME_BYTES_def)
  let ?s = "(pc_socket c)\<lparr>ps_timeout := Some (bl_timeout cl), ps_sent := frame header @ frame body\<rparr>"
  obtain r s3 where r: "receive_frame MAX_FRAME_BYTES (Some (ps_now (pc_socket c) + bl_timeout cl)) ?s = (r, s3)"
    by (cases "receive_frame MAX_FRAME_BYTES (Some (ps_now (pc_socket c) + bl_timeout cl)) ?s")
  have "ps_sent s3 = frame header @ frame body" using receive_frame_side [OF r] by (simp add: same_side_def)
  moreover have "reply = (case r of Inr x \<Rightarrow> if is_json_object C x then x else fallback | Inl _ \<Rightarrow> fallback)
      \<and> socket = Some (closed s3)"
    using assms header r
    by (cases r) (auto simp: exchange_def client_at_def send_frame_def frame_def Let_def)
  ultimately show ?thesis using r by blast
qed


lemma remote_refines_local:
  assumes "wire_documented (bh_wire H)" "length body \<le> MAX_FRAME_BYTES"
    and h: "encode_header \<lparr>rh_operation = op, rh_credential = bl_credential cl,
      rh_workspace_id = bl_workspace cl\<rparr> = Inr header"
    and "client_at cl env c"
    and "pc_peer_uid d = Some (bh_client_uid H)" "ps_writable (pc_socket d)" "ps_sent (pc_socket d) = []"
    and "exchange (bh_wire H) cl env op body (refusal_reply op) = (reply, Some s)"
    and "serve_connection H d st = (s', st')"
    and "delivers (ps_now (pc_socket d) + REQUEST_DEADLINE) (ps_sent s) (pc_socket d)"
    and "delivers (ps_now (pc_socket c) + bl_timeout cl) (ps_sent s') (pc_socket c)"
  shows "reply = fst (local_call H cl op body st) \<and> same_state (snd (local_call H cl op body st)) st'"
proof -
  let ?h = "\<lparr>rh_operation = op, rh_credential = bl_credential cl, rh_workspace_id = bl_workspace cl\<rparr>"
  let ?d = "ps_now (pc_socket c) + bl_timeout cl"
  obtain s3 r where s3: "s = closed s3" "ps_sent s3 = frame header @ frame body"
    "receive_frame MAX_FRAME_BYTES (Some ?d)
        ((pc_socket c)\<lparr>ps_timeout := Some (bl_timeout cl), ps_sent := frame header @ frame body\<rparr>) = (r, s3)"
    "reply = (case r of Inr x \<Rightarrow> if is_json_object (bh_wire H) x then x else refusal_reply op | Inl _ \<Rightarrow> refusal_reply op)"
    using exchange_sends [OF assms(4) h assms(2,8)] by blast
  obtain q st1 where q: "dispatch H ?h body st = (q, st1)" by fastforce
  have link: "delivers (ps_now (pc_socket d) + REQUEST_DEADLINE) (frame header @ frame body) (pc_socket d)"
    using assms(10) s3 by simp
  note served = serve_delivered [OF assms(1) h assms(2,5-7) link q assms(9)]
  have "ps_now (pc_socket c) < ?d" using assms(4) by (simp add: client_at_def)
  note now = this
  have reply: "reply = (if length x \<le> MAX_FRAME_BYTES \<and> is_json_object (bh_wire H) x then x else refusal_reply op)"
    if "ps_sent s' = (if length x \<le> MAX_FRAME_BYTES then frame x else [])" for x
  proof (cases "length x \<le> MAX_FRAME_BYTES")
    case True
    then have "\<exists>s4. receive_frame MAX_FRAME_BYTES (Some ?d)
        ((pc_socket c)\<lparr>ps_timeout := Some (bl_timeout cl), ps_sent := frame header @ frame body\<rparr>) = (Inr x, s4)"
      using receive_frame_delivered [of "(pc_socket c)\<lparr>ps_timeout := Some (bl_timeout cl), ps_sent := frame header @ frame body\<rparr>"
          ?d x "[]" MAX_FRAME_BYTES] now assms(11) that
      by (auto simp: delivers_def)
    with True s3 show ?thesis by auto
  next
    case False
    then have "stream (ps_incoming (pc_socket c)) = []" using assms(11) that by (simp add: delivers_def)
    then obtain e s4 where "receive_frame MAX_FRAME_BYTES (Some ?d)
        ((pc_socket c)\<lparr>ps_timeout := Some (bl_timeout cl), ps_sent := frame header @ frame body\<rparr>) = (Inl e, s4)"
      using receive_frame_nothing by fastforce
    with False s3 show ?thesis by auto
  qed
  show ?thesis
  proof (cases q)
    case (Inl e)
    with served have "ps_sent s' = (if length (refusal_reply op) \<le> MAX_FRAME_BYTES then frame (refusal_reply op) else [])"
      by simp
    from reply [OF this] have "reply = refusal_reply op" by simp
    with Inl served local_call_dispatch [OF h q] show ?thesis by simp
  next
    case (Inr x)
    with served reply [of x] local_call_dispatch [OF h q] show ?thesis by simp
  qed
qed

lemma exchange_after_guards:
  assumes "exchange C cl env op body fallback = (reply, socket)" "ce_connection env = Some c"
    and header: "encode_header \<lparr>rh_operation = op, rh_credential = bl_credential cl,
      rh_workspace_id = bl_workspace cl\<rparr> = Inr header"
    and body: "length body \<le> MAX_FRAME_BYTES"
    and peer: "expected_peer cl env = Inr uid" "ce_entry env = Some entry"
    and guards: "st_is_socket entry \<and> st_uid entry = uid" "pc_peer_uid c = Some uid"
    and quiet: "\<not> (reply = fallback \<and> socket = Some (closed ((pc_socket c)\<lparr>ps_timeout := Some (bl_timeout cl)\<rparr>)))"
  shows "\<exists>s. socket = Some s \<and> ps_closed s \<and> ps_sent s \<in> {ps_sent (pc_socket c) @ frame header,
          ps_sent (pc_socket c) @ frame header @ frame body}
      \<and> (reply \<noteq> fallback \<longrightarrow> is_json_object C reply \<and> length reply \<le> MAX_FRAME_BYTES)"
proof -
  let ?s = "(pc_socket c)\<lparr>ps_timeout := Some (bl_timeout cl)\<rparr>"
  note facts = header body peer guards assms(2)
  obtain r1 s1 where r1: "send_frame header ?s = (r1, s1)" by fastforce
  show ?thesis
  proof (cases r1)
    case (Inl e)
    then have "s1 = ?s" using r1 send_frame_error by blast
    with Inl r1 assms(1) facts quiet show ?thesis by (simp add: exchange_def Let_def)
  next
    case (Inr u)
    then have s1: "ps_sent s1 = ps_sent (pc_socket c) @ frame header" using r1 send_frame_ok [of header ?s u s1] by simp
    obtain r2 s2 where r2: "send_frame body s1 = (r2, s2)" by fastforce
    show ?thesis
    proof (cases r2)
      case (Inl e)
      then have "s2 = s1" using r2 send_frame_error by blast
      with Inl Inr r1 r2 s1 assms(1) facts show ?thesis by (auto simp: exchange_def Let_def)
    next
      case (Inr v)
      then have s2: "ps_sent s2 = ps_sent (pc_socket c) @ frame header @ frame body"
        using r2 send_frame_ok [of body s1 v s2] s1 by simp
      obtain r3 s3 where r3: "receive_frame MAX_FRAME_BYTES (Some (ps_now (pc_socket c) + bl_timeout cl)) s2 = (r3, s3)"
        by fastforce
      have s3: "ps_sent s3 = ps_sent s2" using receive_frame_side [OF r3] by (simp add: same_side_def)
      show ?thesis
        using assms(1) facts r1 \<open>r1 = Inr u\<close> r2 Inr r3 s2 s3 receive_frame_stream
        by (cases r3) (auto simp: exchange_def Let_def split: if_splits)
    qed
  qed
qed

section \<open>What an unauthorized connection may do\<close>

definition authorized :: "('w, 'r) broker_host \<Rightarrow> peer_connection \<Rightarrow> 'w broker_state \<Rightarrow> bool" where
  "authorized H c st \<longleftrightarrow>
     (\<exists>h body s1 context w1.
        pc_peer_uid c = Some (bh_client_uid H)
        \<and> receive_request (bh_wire H) (ps_now (pc_socket c) + REQUEST_DEADLINE) (pc_socket c) = (Inr (h, body), s1)
        \<and> rh_workspace_id h = bh_workspace_id H
        \<and> begin_context (bh_port H) (bh_hash H (utf8 (rh_credential h))) (bh_workspace_id H) (bs_world st)
            = (Inr context, w1)
        \<and> ax_principal_kind context = AGENT \<and> ax_pairing_grant_id context \<noteq> None
        \<and> ax_workspace_id context = bh_workspace_id H)"

lemma paired_agent_cases:
  assumes "paired_agent H credential w = (r, w1)"
  shows "w1 = snd (begin_context (bh_port H) credential (bh_workspace_id H) w)"
    "r = Inr True \<Longrightarrow> \<exists>c. begin_context (bh_port H) credential (bh_workspace_id H) w = (Inr c, w1)
       \<and> ax_principal_kind c = AGENT \<and> ax_pairing_grant_id c \<noteq> None \<and> ax_workspace_id c = bh_workspace_id H"
  using assms by (auto simp: paired_agent_def split: prod.splits sum.splits access_error.splits)

lemma dispatch_confined:
  assumes "dispatch H h body st = (r, st1)"
    and "rh_workspace_id h = bh_workspace_id H \<Longrightarrow> \<forall>c w1.
      begin_context (bh_port H) (bh_hash H (utf8 (rh_credential h))) (bh_workspace_id H) (bs_world st) = (Inr c, w1)
      \<longrightarrow> \<not> (ax_principal_kind c = AGENT \<and> ax_pairing_grant_id c \<noteq> None \<and> ax_workspace_id c = bh_workspace_id H)"
  shows "bs_runs st1 = bs_runs st \<and> (\<forall>x. r = Inr x \<longrightarrow> x = refusal_reply (rh_operation h))
    \<and> (bs_world st1 = bs_world st \<or>
        (\<exists>digest. bs_world st1 = snd (begin_context (bh_port H) digest (bh_workspace_id H) (bs_world st))))"
proof (cases "rh_workspace_id h = bh_workspace_id H \<and> 32 \<le> length (rh_credential h)")
  case False
  with assms(1) show ?thesis
    by (cases "rh_workspace_id h = bh_workspace_id H") (auto simp: dispatch_def local_credential_sha256_def Let_def)
next
  case True
  obtain q w1 where q: "paired_agent H (bh_hash H (utf8 (rh_credential h))) (bs_world st) = (q, w1)" by fastforce
  have "q \<noteq> Inr True" using paired_agent_cases(2) [OF q] assms(2) True by blast
  with True q assms(1) paired_agent_cases(1) [OF q] show ?thesis
    by (cases q) (auto simp: dispatch_def local_credential_sha256_def Let_def)
qed

section \<open>Slots\<close>

definition slots_ok :: "'w server \<Rightarrow> bool" where
  "slots_ok v \<longleftrightarrow>
     sv_free v + length (sv_workers v) = MAX_CONNECTIONS
     \<and> distinct (map fst (sv_workers v) @ map fst (sv_done v))
     \<and> set (map fst (sv_workers v)) \<union> set (map fst (sv_done v)) = {..<sv_next v}
     \<and> (\<forall>(i, s) \<in> set (sv_done v). ps_closed s)"


lemma slots_ok_start: "slots_ok (server_start st)"
  by (simp add: slots_ok_def server_start_def)

lemma slots_ok_accept: "slots_ok v \<Longrightarrow> slots_ok (accept c v)"
  unfolding slots_ok_def accept_def acquire_def
  by (auto simp: lessThan_Suc split: if_splits)

lemma serve_connection_closed: "serve_connection H c st = (s, st') \<Longrightarrow> ps_closed s"
  by (auto simp: serve_connection_def Let_def split: option.splits if_splits sum.splits prod.splits)

lemma filter_key_length:
  "distinct (map fst xs) \<Longrightarrow> map_of xs i = Some c \<Longrightarrow> Suc (length (filter (\<lambda>(j, _). j \<noteq> i) xs)) = length xs"
proof (induction xs)
  case (Cons x xs)
  show ?case
  proof (cases "fst x = i")
    case True
    with Cons.prems have "filter (\<lambda>(j, _). j \<noteq> i) xs = xs"
      by (intro filter_True) (auto intro: rev_image_eqI)
    with True show ?thesis by (cases x) simp
  next
    case False
    with Cons show ?thesis by (cases x) auto
  qed
qed simp

lemma slots_release:
  assumes "slots_ok v" "map_of (sv_workers v) i = Some c"
  shows "release (sv_free v) = Some (sv_free v + 1)"
proof -
  have "sv_workers v \<noteq> []" using assms(2) by auto
  then show ?thesis using assms(1) by (cases "sv_workers v") (auto simp: slots_ok_def release_def)
qed

lemma slots_ok_finish:
  assumes "slots_ok v" "finish H i v = Some v'"
  shows "slots_ok v'"
proof -
  from assms(2) obtain c where c: "map_of (sv_workers v) i = Some c" by (auto simp: finish_def split: option.splits)
  obtain s st where s: "serve_connection H c (sv_state v) = (s, st)" by fastforce
  from assms(2) c s slots_release [OF assms(1) c] have
    v': "v' = v\<lparr>sv_state := st, sv_free := sv_free v + 1,
        sv_workers := filter (\<lambda>(j, _). j \<noteq> i) (sv_workers v), sv_done := sv_done v @ [(i, s)]\<rparr>"
    by (simp add: finish_def)
  have d: "distinct (map fst (sv_workers v))" using assms(1) by (simp add: slots_ok_def)
  have keys: "map fst (filter (\<lambda>(j, _). j \<noteq> i) xs) = filter (\<lambda>j. j \<noteq> i) (map fst xs)" for xs :: "(nat \<times> peer_connection) list"
    by (induction xs) auto
  have i: "i \<in> fst ` set (sv_workers v)" using c by (force dest: map_of_SomeD)
  show ?thesis
    using assms(1) filter_key_length [OF d c] serve_connection_closed [OF s] i
    unfolding slots_ok_def v' by (auto simp: keys)
qed

theorem slots_ok_reachable: "(server_step H)\<^sup>*\<^sup>* (server_start st) v \<Longrightarrow> slots_ok v"
proof (induction rule: rtranclp_induct)
  case (step v w)
  from step.hyps(2) step.IH show ?case
    by (auto intro: slots_ok_accept slots_ok_finish) (auto simp: slots_ok_def)
qed (rule slots_ok_start)

section \<open>The registry as a map\<close>

lemma live_runs_map:
  assumes "live_runs C now runs = Inr live" "distinct (map fst runs)"
  shows "distinct (map fst live) \<and> set live \<subseteq> set runs
    \<and> (\<forall>r e t. map_of runs r = Some e \<longrightarrow> rg_instant C (re_expires_at e) = Some t \<longrightarrow> now < t + RETAIN_AFTER_EXPIRY
        \<longrightarrow> map_of live r = Some e)"
  using assms
proof (induction runs arbitrary: live)
  case (Cons x runs)
  obtain k e where x: "x = (k, e)" by (cases x)
  from Cons.prems(1) obtain t rest where t: "rg_instant C (re_expires_at e) = Some t"
    and rest: "live_runs C now runs = Inr rest"
    and live: "live = (if t + RETAIN_AFTER_EXPIRY > now then (k, e) # rest else rest)"
    by (auto simp: x bindE_Inr_iff split: option.splits)
  from Cons.IH [OF rest] Cons.prems(2) have
    ih: "distinct (map fst rest)" "set rest \<subseteq> set runs"
    "\<forall>r e t. map_of runs r = Some e \<longrightarrow> rg_instant C (re_expires_at e) = Some t \<longrightarrow> now < t + RETAIN_AFTER_EXPIRY
      \<longrightarrow> map_of rest r = Some e" by auto
  have "k \<notin> fst ` set rest" using Cons.prems(2) ih(2) by (auto simp: x)
  with ih Cons.prems(2) t show ?case by (auto simp: live x)
qed simp

lemma map_of_sort: "distinct (map fst xs) \<Longrightarrow> map_of (sort_key fst xs) = map_of xs"
  by (rule map_of_inject_set [THEN iffD2]) (simp_all add: distinct_map)

lemma distinct_py_dict: "distinct (map fst (py_dict kvs))"
proof -
  have "distinct (map fst (fold (\<lambda>(k, v). AList.update k v) kvs acc))" if "distinct (map fst acc)" for acc
    using that by (induction kvs arbitrary: acc) (auto simp: distinct_update)
  then show ?thesis by (simp add: py_dict_def)
qed

lemma entries_of_keys: "entries_of kvs = Some runs \<Longrightarrow> map fst runs = map fst kvs"
  by (induction kvs arbitrary: runs) (auto split: option.splits)

lemma load_runs_distinct: "load_runs C file = Inr runs \<Longrightarrow> distinct (map fst runs)"
  by (auto simp: load_runs_def distinct_py_dict dest!: entries_of_keys
      split: option.splits if_splits json_value.splits)

definition file_fits :: "run_file \<Rightarrow> bool" where
  "file_fits file \<longleftrightarrow> (\<forall>data. file = Some data \<longrightarrow> length data \<le> MAX_REGISTRY_BYTES)"

lemma load_stored:
  assumes "reads_back C" "distinct (map fst runs)" "file_fits (store_runs runs)"
  shows "\<exists>loaded. load_runs C (store_runs runs) = Inr loaded \<and> map_of loaded = map_of runs"
  using load_store [OF assms(1,2)] assms(2,3) by (auto simp: file_fits_def store_runs_def map_of_sort)

text \<open>The entry of a run survives in the file.\<close>

definition recorded :: "run_codec \<Rightarrow> uuid \<Rightarrow> string \<Rightarrow> uuid \<Rightarrow> string \<Rightarrow> run_file \<Rightarrow> bool" where
  "recorded C u credential workspace expires file \<longleftrightarrow>
     (\<exists>runs e. load_runs C file = Inr runs \<and> map_of runs (uuid_str u) = Some e
        \<and> re_credential_sha256 e = credential \<and> re_workspace_id e = uuid_str workspace
        \<and> re_expires_at e = expires)"

lemma recorded_store:
  assumes "reads_back C" "distinct (map fst runs)" "file_fits (store_runs runs)"
    and "map_of runs (uuid_str u) = Some e" "re_credential_sha256 e = credential"
      "re_workspace_id e = uuid_str workspace" "re_expires_at e = expires"
  shows "recorded C u credential workspace expires (store_runs runs)"
  using load_stored [OF assms(1-3)] assms(4-) by (auto simp: recorded_def)

lemma record_run_stores:
  assumes "record_run C run credential workspace now file = (Inr (), file')"
  shows "\<exists>loaded live started expires ref u. load_runs C file = Inr loaded \<and> live_runs C now loaded = Inr live
    \<and> run_field C run ''started_at'' = Inr started \<and> run_field C run ''expires_at'' = Inr expires
    \<and> run_field C run ''run_ref'' = Inr ref \<and> rg_uuid C ref = Some u
    \<and> file' = store_runs (AList.update (uuid_str u)
        \<lparr>re_credential_sha256 = credential, re_workspace_id = uuid_str workspace,
         re_started_at = started, re_expires_at = expires, re_closed_at = None\<rparr> live)"
  using assms by (auto simp: record_run_def bindE_def split: sum.splits option.splits)

lemma record_run_fails: "record_run C run credential workspace now file = (Inl e, file') \<Longrightarrow> file' = file"
  by (auto simp: record_run_def split: sum.splits)

lemma uuid_str_inject [simp]: "uuid_str u = uuid_str v \<longleftrightarrow> u = v"
  by (metis option.inject uuid_reader_str)

lemma record_run_keeps:
  assumes "reads_back C" "recorded C u credential workspace expires file"
    and "rg_instant C expires = Some t" "now < t + RETAIN_AFTER_EXPIRY"
    and "\<And>ref. run_field C run ''run_ref'' = Inr ref \<Longrightarrow> rg_uuid C ref \<noteq> Some u"
    and "record_run C run c w now file = (r, file')" "file_fits file'"
  shows "recorded C u credential workspace expires file'"
proof (cases r)
  case (Inl e)
  with record_run_fails assms(2,6) show ?thesis by blast
next
  case (Inr x)
  with record_run_stores assms(6) obtain loaded live started exp' ref v where
    l: "load_runs C file = Inr loaded" "live_runs C now loaded = Inr live"
    and v: "run_field C run ''run_ref'' = Inr ref" "rg_uuid C ref = Some v"
    and file': "file' = store_runs (AList.update (uuid_str v)
        \<lparr>re_credential_sha256 = c, re_workspace_id = uuid_str w,
         re_started_at = started, re_expires_at = exp', re_closed_at = None\<rparr> live)"
    by fastforce
  note d = live_runs_map [OF l(2) load_runs_distinct [OF l(1)]]
  from assms(2) l(1) obtain e where e: "map_of loaded (uuid_str u) = Some e" "re_credential_sha256 e = credential"
    "re_workspace_id e = uuid_str workspace" "re_expires_at e = expires" by (auto simp: recorded_def)
  have "v \<noteq> u" using assms(5) [OF v(1)] v(2) by auto
  then have "map_of (AList.update (uuid_str v) x live) (uuid_str u) = Some e" for x
    using d e assms(3,4) by (auto simp: update_conv)
  then show ?thesis unfolding file' using d e assms(7) file'
    by (intro recorded_store [OF assms(1)]) (auto simp: distinct_update)
qed

lemma mark_closed_keeps:
  assumes "reads_back C" "recorded C u credential workspace expires file"
    and "mark_closed C v closed_at file = (r, file')" "file_fits file'"
  shows "recorded C u credential workspace expires file'"
proof -
  from assms(2) obtain runs e where e: "load_runs C file = Inr runs" "map_of runs (uuid_str u) = Some e"
    "re_credential_sha256 e = credential" "re_workspace_id e = uuid_str workspace" "re_expires_at e = expires"
    by (auto simp: recorded_def)
  show ?thesis
  proof (cases "map_of runs (uuid_str v)")
    case None
    with assms(2,3) e show ?thesis by (simp add: mark_closed_def)
  next
    case (Some f)
    with assms(3) e have file': "file' = store_runs (AList.update (uuid_str v) (f\<lparr>re_closed_at := Some closed_at\<rparr>) runs)"
      by (simp add: mark_closed_def)
    show ?thesis
    proof (cases "v = u")
      case True
      with Some e show ?thesis unfolding file' using assms(4) file' load_runs_distinct [OF e(1)]
        by (intro recorded_store [OF assms(1), where e = "e\<lparr>re_closed_at := Some closed_at\<rparr>"])
          (auto simp: distinct_update update_conv)
    next
      case False
      with e show ?thesis unfolding file' using assms(4) file' load_runs_distinct [OF e(1)]
        by (intro recorded_store [OF assms(1)]) (auto simp: distinct_update update_conv)
    qed
  qed
qed

datatype registry_op = RecordOp "(string \<times> json_value) list" string uuid int | CloseOp uuid string

fun apply_registry :: "run_codec \<Rightarrow> registry_op \<Rightarrow> run_file \<Rightarrow> run_file" where
  "apply_registry C (RecordOp run c w now) file = snd (record_run C run c w now file)"
| "apply_registry C (CloseOp ref t) file = snd (mark_closed C ref t file)"

definition spares :: "run_codec \<Rightarrow> uuid \<Rightarrow> int \<Rightarrow> registry_op \<Rightarrow> bool" where
  "spares C u t op \<longleftrightarrow>
     (case op of
        RecordOp run c w now \<Rightarrow>
          now < t + RETAIN_AFTER_EXPIRY \<and> (\<forall>ref. run_field C run ''run_ref'' = Inr ref \<longrightarrow> rg_uuid C ref \<noteq> Some u)
      | CloseOp _ _ \<Rightarrow> True)"

lemma recorded_survives:
  assumes "reads_back C" "rg_instant C expires = Some t"
  shows "\<lbrakk>recorded C u credential workspace expires file; \<forall>op \<in> set ops. spares C u t op;
      \<forall>n \<le> length ops. file_fits (fold (apply_registry C) (take n ops) file)\<rbrakk>
    \<Longrightarrow> recorded C u credential workspace expires (fold (apply_registry C) ops file)"
proof (induction ops arbitrary: "file")
  case (Cons op ops)
  let ?file = "apply_registry C op file"
  have fits: "file_fits (fold (apply_registry C) (take n ops) ?file)" if "n \<le> length ops" for n
    using Cons.prems(3) [rule_format, of "Suc n"] that by simp
  have "recorded C u credential workspace expires ?file"
  proof (cases op)
    case (RecordOp run c w now)
    have spared: "now < t + RETAIN_AFTER_EXPIRY"
      "\<And>ref. run_field C run ''run_ref'' = Inr ref \<Longrightarrow> rg_uuid C ref \<noteq> Some u"
      using Cons.prems(2) by (auto simp: RecordOp spares_def)
    have "file_fits (snd (record_run C run c w now file))" using fits [of 0] by (simp add: RecordOp)
    from record_run_keeps [OF assms(1) Cons.prems(1) assms(2) spared(1) spared(2) surjective_pairing this]
    show ?thesis by (simp add: RecordOp)
  next
    case (CloseOp ref closed_at)
    have "file_fits (snd (mark_closed C ref closed_at file))" using fits [of 0] by (simp add: CloseOp)
    from mark_closed_keeps [OF assms(1) Cons.prems(1) surjective_pairing this]
    show ?thesis by (simp add: CloseOp)
  qed
  with Cons.IH Cons.prems fits show ?case by simp
qed simp

lemma recorded_owner:
  assumes "recorded C u credential workspace expires file" "rg_uuid C (uuid_str workspace) = Some workspace"
  shows "run_owner C u file = Inr (Some (credential, workspace))"
  using assms by (auto simp: recorded_def run_owner_def)

lemma record_run_recorded:
  assumes "reads_back C" "record_run C run credential workspace now file = (Inr (), file')" "file_fits file'"
    and "run_field C run ''run_ref'' = Inr ref" "rg_uuid C ref = Some u" "run_field C run ''expires_at'' = Inr expires"
  shows "recorded C u credential workspace expires file'"
proof -
  from record_run_stores [OF assms(2)] assms(4-) obtain loaded live started where
    l: "load_runs C file = Inr loaded" "live_runs C now loaded = Inr live"
    and file': "file' = store_runs (AList.update (uuid_str u)
        \<lparr>re_credential_sha256 = credential, re_workspace_id = uuid_str workspace,
         re_started_at = started, re_expires_at = expires, re_closed_at = None\<rparr> live)" by auto
  note d = live_runs_map [OF l(2) load_runs_distinct [OF l(1)]]
  show ?thesis unfolding file' using d assms(3) file'
    by (intro recorded_store [OF assms(1)]) (auto simp: distinct_update update_conv)
qed

section \<open>A registry beyond its bound\<close>

lemma join_member: "x \<in> set xs \<Longrightarrow> length x \<le> length (join sep xs)"
  by (induction sep xs rule: join.induct) auto

lemma json_string_long: "length s \<le> length (json_string s)"
proof -
  have one: "1 \<le> length (json_char c)" for c by (simp add: json_char_def Let_def)
  have "length s \<le> length (concat (map json_char s))"
  proof (induction s)
    case (Cons c s)
    then show ?case unfolding list.map concat.simps length_append list.size
      using one [of c] by linarith
  qed simp
  then show ?thesis by (simp add: json_string_def)
qed

lemma json_text_member:
  assumes "(k, v) \<in> set kvs"
  shows "length (json_text i c v) \<le> length (json_text i c (JObj kvs))"
proof -
  have "json_string k @ c @ json_text i c v
      \<in> set (map (\<lambda>(k, v). json_string k @ c @ v) (sort_key fst (map (\<lambda>(k, v). (k, json_text i c v)) kvs)))"
    using assms by force
  from join_member [OF this, of i] show ?thesis by simp
qed

lemma registry_bytes_long:
  assumes "(r, e) \<in> set runs"
  shows "length (re_started_at e) \<le> length (registry_bytes runs)"
proof -
  let ?t = "json_text '', '' '': ''"
  have "length (re_started_at e) \<le> length (?t (JStr (re_started_at e)))" by (simp add: json_string_long)
  also have "\<dots> \<le> length (?t (entry_json e))" unfolding entry_json_def by (rule json_text_member [of "''started_at''"]) simp
  also have "\<dots> \<le> length (?t (JObj (map (\<lambda>(r, e). (r, entry_json e)) runs)))"
    using assms by (intro json_text_member [of r]) force
  also have "\<dots> = length (registry_bytes runs)"
    by (simp add: registry_bytes_def json_dumps_bytes_def length_utf8_ascii del: json_text.simps)
  finally show ?thesis .
qed

lemma record_run_beyond_bound:
  assumes "record_run C run credential workspace now file0 = (Inr (), file1)"
    and "run_field C run ''started_at'' = Inr started" "length started > MAX_REGISTRY_BYTES"
  shows "\<not> file_fits file1"
proof -
  from record_run_stores [OF assms(1)] assms(2) obtain u live expires where
    file1: "file1 = store_runs (AList.update (uuid_str u)
        \<lparr>re_credential_sha256 = credential, re_workspace_id = uuid_str workspace,
         re_started_at = started, re_expires_at = expires, re_closed_at = None\<rparr> live)"
      (is "_ = store_runs (AList.update _ ?e live)") by auto
  have "(uuid_str u, ?e) \<in> set (AList.update (uuid_str u) ?e live)"
    by (rule map_of_SomeD) (simp add: update_conv)
  from registry_bytes_long [OF this] assms(3) show ?thesis by (simp add: file1 file_fits_def store_runs_def)
qed

end
