(* ===== verification/BrokerClaims.thy ===== *)
theory BrokerClaims
  imports BrokerFacts Scenario
begin

text \<open>
  The properties of the trusted query host, its client, its registry of runs and the identifiers
  the application generates.
\<close>

section \<open>A demonstration host\<close>

definition demo_wire :: wire_codec where
  "demo_wire = \<lparr>wc_loads = json_reader, wc_uuid = uuid_reader\<rparr>"

definition demo_run_codec :: run_codec where
  "demo_run_codec = \<lparr>rg_loads = json_reader, rg_instant = (\<lambda>s. if s = ''late'' then Some 1000 else None),
     rg_uuid = uuid_reader, rg_repr = (\<lambda>_. '''')\<rparr>"

definition demo_secret :: string where
  "demo_secret = ''abcdefghijklmnopqrstuvwxyz0123456789''"

definition demo_row :: context_row where
  "demo_row = \<lparr>cr_tenant_id = 1, cr_workspace_id = 7, cr_principal_id = 2, cr_principal_kind = ''agent'',
     cr_user_id = None, cr_on_behalf_of_user_id = None, cr_pairing_grant_id = Some 3,
     cr_membership_revision = 1, cr_pairing_grant_revision = Some 1\<rparr>"

definition demo_answer :: bytes where
  "demo_answer = canonical_json_bytes (JObj [(''outcome'', JStr ''ok'')])"

text \<open>The world counts the calls of the executor; the row is there for the paired host only.\<close>

definition demo_broker :: "bool \<Rightarrow> (nat, unit) broker_host" where
  "demo_broker paired =
     \<lparr>bh_client_uid = 501, bh_workspace_id = 7, bh_hash = demo_hash, bh_wire = demo_wire,
      bh_codec = demo_run_codec, bh_utc_now = (\<lambda>_. 0),
      bh_port = \<lparr>ap_context_row = (\<lambda>_ _ w. (Inr (if paired then Some demo_row else None), w)),
                 ap_authorize = (\<lambda>_ _ _ _ _ w. (Inr True, w))\<rparr>,
      bh_recover = (\<lambda>_ w. (Inr 0, w)), bh_start_run = (\<lambda>_ w. (Inr demo_answer, w + 1)),
      bh_handle = (\<lambda>_ _ w. (Inr demo_answer, w + 1)), bh_parse_request = (\<lambda>_ _. None),
      bh_reader = (\<lambda>_ _ w. (Inl OtherError, w)), bh_admission_refusal = (\<lambda>_. None)\<rparr>"

definition demo_header :: request_header where
  "demo_header = \<lparr>rh_operation = ''handle'', rh_credential = demo_secret, rh_workspace_id = 7\<rparr>"

definition demo_socket :: "bytes list \<Rightarrow> peer_socket" where
  "demo_socket pieces =
     \<lparr>ps_now = 0, ps_timeout = None, ps_incoming = map (\<lambda>bs. (1, Arrives bs)) pieces, ps_writable = True,
      ps_sent = [], ps_closed = False\<rparr>"

definition demo_request :: "bytes list" where
  "demo_request = [frame (canonical_json_bytes (header_json demo_header)), frame []]"

definition demo_transport :: broker_client where
  "demo_transport = \<lparr>bl_credential = demo_secret, bl_workspace = 7, bl_pinned = None, bl_timeout = 1000\<rparr>"

definition demo_client_env :: client_env where
  "demo_client_env =
     \<lparr>ce_directory = Some \<lparr>dt_is_directory = True, dt_mode = 0x1E8, dt_uid = 900\<rparr>,
      ce_entry = Some \<lparr>st_is_socket = True, st_uid = 900\<rparr>, ce_euid = 501,
      ce_connection = Some \<lparr>pc_socket = demo_socket [frame demo_answer], pc_peer_uid = Some 900\<rparr>\<rparr>"

definition demo_state :: "nat broker_state" where
  "demo_state = \<lparr>bs_world = 0, bs_runs = None, bs_log = []\<rparr>"

definition demo_peer :: "int \<Rightarrow> peer_connection" where
  "demo_peer uid = \<lparr>pc_socket = demo_socket demo_request, pc_peer_uid = Some uid\<rparr>"

lemma demo_wire_documented: "wire_documented demo_wire"
  by (simp add: wire_documented_def demo_wire_def json_reader_canonical)

lemma demo_codec_reads_back: "reads_back demo_run_codec"
  by (simp add: reads_back_def demo_run_codec_def json_reader_dumps)

lemma demo_header_encodes: "encode_header demo_header = Inr (canonical_json_bytes (header_json demo_header))"
  by (simp add: encode_header_def validate_header_def demo_header_def demo_secret_def OPERATIONS_def
      READ_OPERATIONS_def MIN_CREDENTIAL_CHARACTERS_def MAX_CREDENTIAL_CHARACTERS_def less_eq_char_simp validated_def)

lemma demo_delivers: "1 < d \<Longrightarrow> delivers d (concat pieces) (demo_socket pieces)"
proof -
  assume "1 < d"
  then have "pending d (map (\<lambda>bs. (1, Arrives bs)) pieces) = concat pieces"
    "stream (map (\<lambda>bs. (1, Arrives bs)) pieces) = concat pieces"
    by (induction pieces) simp_all
  then show ?thesis by (simp add: delivers_def demo_socket_def)
qed

lemma demo_answer_facts:
  "length demo_answer \<le> MAX_FRAME_BYTES" "is_json_object demo_wire demo_answer"
proof -
  have "json_bound (JObj [(''outcome'', JStr ''ok'')]) \<le> MAX_FRAME_BYTES" by (simp add: MAX_FRAME_BYTES_def)
  then show "length demo_answer \<le> MAX_FRAME_BYTES"
    unfolding demo_answer_def using length_canonical_bound order_trans by blast
  show "is_json_object demo_wire demo_answer"
    by (simp add: is_json_object_def demo_wire_def demo_answer_def json_reader_canonical)
qed

lemma demo_handle:
  "local_call (demo_broker True) demo_transport ''handle'' [] demo_state = (demo_answer, demo_state\<lparr>bs_world := 1\<rparr>)"
  by (simp add: local_call_def demo_broker_def demo_transport_def demo_state_def paired_agent_def begin_context_def
      demo_row_def context_of_row_def principal_kind_of_def perform_def recover_def demo_answer_facts)


section \<open>The broker\<close>

text \<open>
  C5: A remote call is the local call. The client of a paired agent, connected to a host whose
  socket it trusts, returns for every operation the bytes that the executor or the reader returns
  inside the host, and leaves the state of the host as the local operation does, however the bytes
  are split on the way; every failure, an oversized reply and a reply that is no JSON object become
  the refusal of the operation.
\<close>

theorem remote_call_refines_local:
  assumes "wire_documented (bh_wire H)" "op \<in> set OPERATIONS" "op = ''start_run'' \<Longrightarrow> body = []"
    and "length body \<le> MAX_FRAME_BYTES"
    and "encode_header \<lparr>rh_operation = op, rh_credential = bl_credential cl,
      rh_workspace_id = bl_workspace cl\<rparr> = Inr header"
    and "client_at cl env c"
    and "pc_peer_uid d = Some (bh_client_uid H)" "ps_writable (pc_socket d)" "ps_sent (pc_socket d) = []"
    and "client_call (bh_wire H) cl env op body = (reply, Some s)"
    and "serve_connection H d st = (s', st')"
    and "delivers (ps_now (pc_socket d) + REQUEST_DEADLINE) (ps_sent s) (pc_socket d)"
    and "delivers (ps_now (pc_socket c) + bl_timeout cl) (ps_sent s') (pc_socket c)"
  shows "reply = fst (local_call H cl op body st) \<and> same_state (snd (local_call H cl op body st)) st'"
proof -
  have "client_call (bh_wire H) cl env op body = exchange (bh_wire H) cl env op body (refusal_reply op)"
    using assms(2,3)
    by (auto simp: OPERATIONS_def READ_OPERATIONS_def client_call_def client_start_run_def client_handle_def
        client_read_def refusal_reply_def)
  with assms(10) have x: "exchange (bh_wire H) cl env op body (refusal_reply op) = (reply, Some s)" by simp
  show ?thesis by (rule remote_refines_local [OF assms(1,4-9) x assms(11-13)])
qed

lemma demo_exchange:
  obtains s where "client_call demo_wire demo_transport demo_client_env ''handle'' [] = (demo_answer, Some s)"
    "ps_sent s = concat demo_request"
proof -
  obtain reply socket where x: "exchange demo_wire demo_transport demo_client_env ''handle'' [] UNAVAILABLE_REPLY = (reply, socket)"
    by fastforce
  let ?c = "\<lparr>pc_socket = demo_socket [frame demo_answer], pc_peer_uid = Some 900\<rparr>"
  have c: "client_at demo_transport demo_client_env ?c"
    by (simp add: client_at_def demo_transport_def demo_client_env_def expected_peer_def demo_socket_def)
  have h: "encode_header \<lparr>rh_operation = ''handle'', rh_credential = bl_credential demo_transport,
      rh_workspace_id = bl_workspace demo_transport\<rparr> = Inr (canonical_json_bytes (header_json demo_header))"
    using demo_header_encodes by (simp add: demo_header_def demo_transport_def)
  from exchange_sends [OF c h _ x] obtain s3 r where s3: "socket = Some (closed s3)" "ps_sent s3 = concat demo_request"
    "receive_frame MAX_FRAME_BYTES (Some (0 + 1000)) ((demo_socket [frame demo_answer])
        \<lparr>ps_timeout := Some 1000, ps_sent := concat demo_request\<rparr>) = (r, s3)"
    "reply = (case r of Inr x \<Rightarrow> if is_json_object demo_wire x then x else UNAVAILABLE_REPLY | Inl _ \<Rightarrow> UNAVAILABLE_REPLY)"
    by (auto simp: demo_request_def demo_transport_def demo_socket_def)
  have "delivers 1000 (frame demo_answer @ []) ((demo_socket [frame demo_answer])
        \<lparr>ps_timeout := Some 1000, ps_sent := concat demo_request\<rparr>)"
    using demo_delivers [of 1000 "[frame demo_answer]"] by (simp add: delivers_def)
  from receive_frame_delivered [OF _ this demo_answer_facts(1)] s3(3) have "r = Inr demo_answer"
    by (auto simp: demo_socket_def)
  with s3 x demo_answer_facts(2) that show ?thesis
    by (simp add: client_call_def client_handle_def)
qed


lemma demo_dispatch:
  "dispatch (demo_broker True) demo_header [] demo_state = (Inr demo_answer, demo_state\<lparr>bs_world := 1\<rparr>)"
  by (simp add: dispatch_def Let_def demo_broker_def demo_header_def demo_secret_def local_credential_sha256_def demo_state_def
      paired_agent_def begin_context_def demo_row_def context_of_row_def principal_kind_of_def perform_def recover_def)

lemma demo_peer_facts:
  "pc_peer_uid (demo_peer 501) = Some (bh_client_uid (demo_broker p))" "ps_writable (pc_socket (demo_peer u))"
  "ps_sent (pc_socket (demo_peer u)) = []" "ps_now (pc_socket (demo_peer u)) = 0"
  "bh_wire (demo_broker p) = demo_wire"
  "delivers (0 + REQUEST_DEADLINE) (concat demo_request) (pc_socket (demo_peer u))"
  using demo_delivers [of REQUEST_DEADLINE demo_request]
  by (simp_all add: demo_peer_def demo_broker_def demo_socket_def REQUEST_DEADLINE_def)

theorem remote_call_refines_local_witness:
  "\<exists>reply s s' st'. client_call demo_wire demo_transport demo_client_env ''handle'' [] = (reply, Some s)
     \<and> serve_connection (demo_broker True) (demo_peer 501) demo_state = (s', st')
     \<and> reply = demo_answer \<and> bs_world st' = 1"
proof -
  obtain s where s: "client_call demo_wire demo_transport demo_client_env ''handle'' [] = (demo_answer, Some s)"
    "ps_sent s = concat demo_request" by (rule demo_exchange)
  obtain s' st' where s': "serve_connection (demo_broker True) (demo_peer 501) demo_state = (s', st')" by fastforce
  note peer = demo_peer_facts
  have wire: "wire_documented (bh_wire (demo_broker True))" by (simp add: peer demo_wire_documented)
  have h: "encode_header \<lparr>rh_operation = ''handle'', rh_credential = bl_credential demo_transport,
      rh_workspace_id = bl_workspace demo_transport\<rparr> = Inr (canonical_json_bytes (header_json demo_header))"
    using demo_header_encodes by (simp add: demo_header_def demo_transport_def)
  let ?c = "\<lparr>pc_socket = demo_socket [frame demo_answer], pc_peer_uid = Some 900\<rparr>"
  have c: "client_at demo_transport demo_client_env ?c"
    by (simp add: client_at_def demo_transport_def demo_client_env_def expected_peer_def demo_socket_def)
  have "ps_sent s' = frame demo_answer"
    using serve_delivered(2) [OF wire demo_header_encodes _ peer(1-3) _ demo_dispatch s'] peer(6) demo_answer_facts(1)
    by (simp add: demo_request_def peer(4))
  moreover have "delivers 1000 (frame demo_answer) (demo_socket [frame demo_answer])"
    using demo_delivers [of 1000 "[frame demo_answer]"] by simp
  ultimately have reply: "delivers (ps_now (pc_socket ?c) + bl_timeout demo_transport) (ps_sent s') (pc_socket ?c)"
    by (simp add: demo_socket_def demo_transport_def)
  have "demo_answer = fst (local_call (demo_broker True) demo_transport ''handle'' [] demo_state)
      \<and> same_state (snd (local_call (demo_broker True) demo_transport ''handle'' [] demo_state)) st'"
    by (rule remote_call_refines_local [OF wire _ _ _ h c peer(1-3) _ s' _ reply, where s = s])
      (use s peer in \<open>simp_all add: OPERATIONS_def\<close>)
  then have "bs_world st' = 1" by (simp add: demo_handle same_state_def)
  with s s' show ?thesis by blast
qed

text \<open>
  C6: A connection that does not come from the configured uid, whose request does not arrive well
  formed before the deadline, or whose credential is not that of a paired agent of the configured
  workspace never reaches the executor, the readers or the registry: the world changes by at most
  one authentication, and the peer gets nothing or one of the two fixed refusals. The connection is
  closed in every case.
\<close>

theorem unauthorized_confined:
  assumes "serve_connection H c st = (s', st')" "\<not> authorized H c st"
  shows "bs_runs st' = bs_runs st
    \<and> (bs_world st' = bs_world st \<or>
        (\<exists>digest. bs_world st' = snd (begin_context (bh_port H) digest (bh_workspace_id H) (bs_world st))))
    \<and> (\<exists>r \<in> {[], frame UNAVAILABLE_REPLY, frame READ_UNAVAILABLE_REPLY}.
        ps_sent s' = ps_sent (pc_socket c) @ r)
    \<and> ps_closed s'"
proof -
  let ?deadline = "ps_now (pc_socket c) + REQUEST_DEADLINE"
  obtain q s1 where q: "receive_request (bh_wire H) ?deadline (pc_socket c) = (q, s1)" by fastforce
  have sent: "ps_sent s1 = ps_sent (pc_socket c)"
    using q by (auto simp: receive_request_def same_side_def
        dest!: receive_frame_side split: prod.splits sum.splits)
  show ?thesis
  proof (cases "pc_peer_uid c = Some (bh_client_uid H) \<and> (\<exists>h body. q = Inr (h, body))")
    case False
    with assms(1) q sent show ?thesis
      by (cases "pc_peer_uid c"; cases q)
        (auto simp: serve_connection_def Let_def send_reply_sent logged_def split: if_splits)
  next
    case True
    then obtain h body where h: "pc_peer_uid c = Some (bh_client_uid H)" "q = Inr (h, body)" by blast
    obtain r st1 where r: "dispatch H h body st = (r, st1)" by fastforce
    have "rh_workspace_id h = bh_workspace_id H \<Longrightarrow> \<forall>c w1.
        begin_context (bh_port H) (bh_hash H (utf8 (rh_credential h))) (bh_workspace_id H) (bs_world st) = (Inr c, w1)
        \<longrightarrow> \<not> (ax_principal_kind c = AGENT \<and> ax_pairing_grant_id c \<noteq> None \<and> ax_workspace_id c = bh_workspace_id H)"
      using assms(2) h q unfolding authorized_def by blast
    note confined = dispatch_confined [OF r this]
    have reply: "\<exists>l. s' = closed (send_reply (refusal_reply (rh_operation h)) s1) \<and> st' = logged l st1"
      using assms(1) h q r confined by (cases r) (auto simp: serve_connection_def Let_def)
    then show ?thesis using confined sent
      by (auto simp: send_reply_sent logged_def refusal_reply_def)
  qed
qed

theorem unauthorized_confined_witness:
  "\<exists>s' st'. serve_connection (demo_broker False) (demo_peer 501) demo_state = (s', st')
     \<and> bs_runs st' = None \<and> bs_world st' = 0 \<and> ps_closed s'"
proof -
  obtain s' st' where s': "serve_connection (demo_broker False) (demo_peer 501) demo_state = (s', st')" by fastforce
  have "\<not> authorized (demo_broker False) (demo_peer 501) demo_state"
    by (simp add: authorized_def demo_broker_def begin_context_def)
  from unauthorized_confined [OF s' this] s' show ?thesis
    by (auto simp: demo_broker_def begin_context_def demo_state_def)
qed

text \<open>
  C13: Over all steps of the accept loop at most eight connections are served at a time, free slots
  and workers add up to eight, each accepted connection is exactly once a worker or done, every done
  connection is closed, and the release of a slot by a worker never exceeds the bound.
\<close>

theorem connection_slots:
  assumes "(server_step H)\<^sup>*\<^sup>* (server_start st) v"
  shows "length (sv_workers v) \<le> MAX_CONNECTIONS
    \<and> sv_free v + length (sv_workers v) = MAX_CONNECTIONS
    \<and> distinct (map fst (sv_workers v) @ map fst (sv_done v))
    \<and> set (map fst (sv_workers v)) \<union> set (map fst (sv_done v)) = {..<sv_next v}
    \<and> (\<forall>(i, s) \<in> set (sv_done v). ps_closed s)
    \<and> (\<forall>(i, c) \<in> set (sv_workers v). finish H i v \<noteq> None)"
proof -
  have ok: "slots_ok v" using assms by (rule slots_ok_reachable)
  have "finish H i v \<noteq> None" if "(i, c) \<in> set (sv_workers v)" for i c
  proof -
    have c: "map_of (sv_workers v) i = Some c" using ok that by (simp add: slots_ok_def)
    then show ?thesis using slots_release [OF ok c] by (simp add: finish_def split: prod.splits)
  qed
  with ok show ?thesis by (auto simp: slots_ok_def)
qed

theorem connection_slots_witness:
  "sv_free (accept (demo_peer 1) (server_start demo_state)) + 1 = MAX_CONNECTIONS"
proof -
  have "(server_step (demo_broker True))\<^sup>*\<^sup>* (server_start demo_state) (accept (demo_peer 1) (server_start demo_state))"
    by (rule r_into_rtranclp) (rule step_accept, simp add: server_start_def)
  from connection_slots [OF this] show ?thesis by (simp add: accept_def server_start_def acquire_def MAX_CONNECTIONS_def)
qed


text \<open>
  C14: The client sends nothing before the peer is proven. If any byte left through the connection
  or the reply is not the refusal, then the kernel named the expected uid for the peer, the socket
  file belongs to it, and, unless pinned, it owns a directory that others cannot write and is not the
  caller; what left is a prefix of the two frames of a valid request, and a reply other than the
  refusal is a JSON object received as one frame within the bound.
\<close>

theorem client_proves_peer:
  assumes "exchange C cl env op body fallback = (reply, socket)"
    and "ce_connection env = Some c"
    and "reply \<noteq> fallback \<or> (\<exists>s. socket = Some s \<and> ps_sent s \<noteq> ps_sent (pc_socket c))"
  shows "\<exists>uid header. expected_peer cl env = Inr uid \<and> pc_peer_uid c = Some uid
    \<and> (\<exists>entry. ce_entry env = Some entry \<and> st_is_socket entry \<and> st_uid entry = uid)
    \<and> (bl_pinned cl = None \<longrightarrow> (\<exists>d. ce_directory env = Some d \<and> dt_uid d = uid \<and> uid \<noteq> ce_euid env
          \<and> dt_mode d AND 0x12 = 0))
    \<and> encode_header \<lparr>rh_operation = op, rh_credential = bl_credential cl, rh_workspace_id = bl_workspace cl\<rparr> = Inr header
    \<and> (\<exists>s. socket = Some s \<and> ps_closed s \<and> ps_sent s \<in> {ps_sent (pc_socket c) @ frame header,
          ps_sent (pc_socket c) @ frame header @ frame body})
    \<and> (reply \<noteq> fallback \<longrightarrow> is_json_object C reply \<and> length reply \<le> MAX_FRAME_BYTES)"
proof -
  let ?h = "\<lparr>rh_operation = op, rh_credential = bl_credential cl, rh_workspace_id = bl_workspace cl\<rparr>"
  let ?s = "(pc_socket c)\<lparr>ps_timeout := Some (bl_timeout cl)\<rparr>"
  have quiet: False if "reply = fallback" "socket = None \<or> socket = Some (closed ?s)"
    using assms(3) that by auto
  from assms(1) quiet obtain header where header: "encode_header ?h = Inr header"
    by (cases "encode_header ?h") (auto simp: exchange_def)
  from assms(1) quiet header have body: "length body \<le> MAX_FRAME_BYTES"
    by (cases "length body \<le> MAX_FRAME_BYTES") (auto simp: exchange_def)
  from assms(1) quiet header body obtain uid entry where peer: "expected_peer cl env = Inr uid" "ce_entry env = Some entry"
    by (cases "expected_peer cl env"; cases "ce_entry env") (auto simp: exchange_def)
  have guards: "st_is_socket entry \<and> st_uid entry = uid" "pc_peer_uid c = Some uid"
  proof -
    show g: "st_is_socket entry \<and> st_uid entry = uid"
      using assms(1) quiet header body peer by (cases "st_is_socket entry \<and> st_uid entry = uid") (auto simp: exchange_def)
    show "pc_peer_uid c = Some uid"
      using assms(1,2) quiet header body peer g by (cases "pc_peer_uid c = Some uid") (auto simp: exchange_def Let_def)
  qed
  have owner: "\<exists>d. ce_directory env = Some d \<and> dt_uid d = uid \<and> uid \<noteq> ce_euid env \<and> dt_mode d AND 0x12 = 0"
    if "bl_pinned cl = None"
    using peer(1) that by (auto simp: expected_peer_def split: option.splits if_splits)
  have "\<not> (reply = fallback \<and> socket = Some (closed ?s))" using quiet by blast
  from exchange_after_guards [OF assms(1,2) header body peer guards this]
  have "\<exists>s. socket = Some s \<and> ps_closed s \<and> ps_sent s \<in> {ps_sent (pc_socket c) @ frame header,
          ps_sent (pc_socket c) @ frame header @ frame body}
      \<and> (reply \<noteq> fallback \<longrightarrow> is_json_object C reply \<and> length reply \<le> MAX_FRAME_BYTES)" .
  with header peer guards owner show ?thesis by (intro exI [of _ uid] exI [of _ header]) auto
qed

theorem client_proves_peer_witness:
  "\<exists>reply socket uid. exchange demo_wire demo_transport demo_client_env ''handle'' [] UNAVAILABLE_REPLY = (reply, socket)
     \<and> expected_peer demo_transport demo_client_env = Inr uid \<and> uid \<noteq> ce_euid demo_client_env"
proof -
  obtain s where s: "exchange demo_wire demo_transport demo_client_env ''handle'' [] UNAVAILABLE_REPLY = (demo_answer, Some s)"
    "ps_sent s = concat demo_request"
    by (rule demo_exchange) (simp add: client_call_def client_handle_def)
  have "ce_connection demo_client_env = Some \<lparr>pc_socket = demo_socket [frame demo_answer], pc_peer_uid = Some 900\<rparr>"
    by (simp add: demo_client_env_def)
  moreover have "ps_sent s \<noteq> ps_sent (demo_socket [frame demo_answer])"
    using s(2) by (simp add: demo_request_def demo_socket_def frame_def be32_def)
  ultimately obtain uid where "expected_peer demo_transport demo_client_env = Inr uid" "uid \<noteq> ce_euid demo_client_env"
    using client_proves_peer [OF s(1)] by (fastforce simp: demo_transport_def)
  with s(1) show ?thesis by blast
qed

text \<open>
  C32: A frame that one side sends is what the other side receives: however the bytes are split into
  pieces, if they arrive before the deadline within the limit, the frame comes back whole and what
  follows it is left for the next frame; and whatever a receiver returns is the next frame of its
  stream, whole, with nothing lost, added or reordered.
\<close>

theorem frame_round_trip:
  assumes "send_frame data s = (Inr (), s')" "ps_sent s = []"
    and "ps_now r < d" "pending d (ps_incoming r) = ps_sent s' @ rest" "length data \<le> limit"
  shows "\<exists>r'. receive_frame limit (Some d) r = (Inr data, r') \<and> pending d (ps_incoming r') = rest
    \<and> stream (ps_incoming r) = frame data @ stream (ps_incoming r')"
proof -
  have data: "length data \<le> MAX_FRAME_BYTES" "ps_sent s' = frame data"
    using assms(1,2) by (simp_all add: send_frame_ok)
  then obtain r' where r': "receive_frame limit (Some d) r = (Inr data, r')" "pending d (ps_incoming r') = rest"
    using receive_frame_pending [of r d data rest limit] assms(3-5) by (auto simp: frame_def)
  from receive_frame_stream [OF r'(1)] obtain prefix where
    p: "length prefix = 4" "stream (ps_incoming r) = prefix @ data @ stream (ps_incoming r')" by blast
  have "take 4 (pending d (ps_incoming r)) = take 4 (stream (ps_incoming r))"
    if "4 \<le> length (pending d (ps_incoming r))"
    using that pending_prefix [of "ps_incoming r" d] by auto
  then have "prefix = be32 (length data)" using p assms(4) data by (simp add: frame_def)
  with r' p show ?thesis by (auto simp: frame_def)
qed

theorem frame_round_trip_witness:
  "\<exists>r'. receive_frame 10 (Some 5) (demo_socket [[0, 0], [0], [2, 65], [66, 67]]) = (Inr [65, 66], r')
     \<and> pending 5 (ps_incoming r') = [67]"
proof -
  have "send_frame [65, 66] (demo_socket []) = (Inr (), (demo_socket [])\<lparr>ps_sent := [0, 0, 0, 2, 65, 66]\<rparr>)"
    by (simp add: send_frame_def demo_socket_def MAX_FRAME_BYTES_def be32_def)
  from frame_round_trip [OF this, of "demo_socket [[0, 0], [0], [2, 65], [66, 67]]" 5 "[67]" 10]
  show ?thesis by (auto simp: demo_socket_def)
qed


section \<open>The registry of runs\<close>

text \<open>
  C15: The operator can close a run as the principal that started it until a day after its expiry.
  For a codec that reads back what it writes: after a run is recorded, whatever other runs are
  recorded and whatever runs are closed, by operations that succeed or fail, the registry names the
  credential and the workspace it was recorded with, as long as the recordings happen less than a day
  past its expiry and the stored file stays within its bound after every operation.
\<close>

theorem run_owner_recorded:
  assumes "reads_back C" "rg_uuid C (uuid_str workspace) = Some workspace"
    and "record_run C run credential workspace now file0 = (Inr (), file1)"
    and "run_field C run ''run_ref'' = Inr ref" "rg_uuid C ref = Some u"
    and "run_field C run ''expires_at'' = Inr expires" "rg_instant C expires = Some t"
    and "\<forall>op \<in> set ops. spares C u t op"
    and "\<forall>n \<le> length ops. file_fits (fold (apply_registry C) (take n ops) file1)"
  shows "run_owner C u (fold (apply_registry C) ops file1) = Inr (Some (credential, workspace))"
proof -
  have "file_fits file1" using assms(9) [rule_format, of 0] by simp
  from record_run_recorded [OF assms(1,3) this assms(4-6)]
  have "recorded C u credential workspace expires (fold (apply_registry C) ops file1)"
    by (rule recorded_survives [OF assms(1,7) _ assms(8,9)])
  then show ?thesis using assms(2) by (rule recorded_owner)
qed

definition demo_run :: "uuid \<Rightarrow> (string \<times> json_value) list" where
  "demo_run u = [(''run_ref'', VStr (uuid_str u)), (''started_at'', VStr ''now''), (''expires_at'', VStr ''late'')]"

lemma demo_record:
  "record_run demo_run_codec (demo_run 5) ''digest'' 7 0 None
     = (Inr (), store_runs [(uuid_str 5, \<lparr>re_credential_sha256 = ''digest'', re_workspace_id = uuid_str 7,
         re_started_at = ''now'', re_expires_at = ''late'', re_closed_at = None\<rparr>)])"
  by (simp add: record_run_def load_runs_def run_field_def demo_run_def demo_run_codec_def)

lemma demo_file_fits: "file_fits (snd (record_run demo_run_codec (demo_run 5) ''digest'' 7 0 None))"
proof -
  have "json_bound (JObj [(uuid_str 5, entry_json \<lparr>re_credential_sha256 = ''digest'', re_workspace_id = uuid_str 7,
         re_started_at = ''now'', re_expires_at = ''late'', re_closed_at = None\<rparr>)]) \<le> 2000000"
    by (simp add: entry_json_def)
  then show ?thesis
    using length_json_dumps [of "JObj [(uuid_str 5, entry_json \<lparr>re_credential_sha256 = ''digest'',
         re_workspace_id = uuid_str 7, re_started_at = ''now'', re_expires_at = ''late'', re_closed_at = None\<rparr>)]"]
    by (simp add: demo_record file_fits_def store_runs_def registry_bytes_def MAX_REGISTRY_BYTES_def
        del: json_bound.simps)
qed

theorem run_owner_recorded_witness:
  "run_owner demo_run_codec 5 (snd (record_run demo_run_codec (demo_run 5) ''digest'' 7 0 None))
     = Inr (Some (''digest'', 7))"
proof -
  let ?file = "snd (record_run demo_run_codec (demo_run 5) ''digest'' 7 0 None)"
  have recorded: "record_run demo_run_codec (demo_run 5) ''digest'' 7 0 None = (Inr (), ?file)"
    by (simp add: demo_record)
  have "run_owner demo_run_codec 5 (fold (apply_registry demo_run_codec) [] ?file) = Inr (Some (''digest'', 7))"
    by (rule run_owner_recorded [OF demo_codec_reads_back _ recorded, where t = 1000 and ref = "uuid_str 5"
          and expires = "''late''"])
      (use demo_file_fits in \<open>simp_all add: demo_run_codec_def demo_run_def run_field_def\<close>)
  then show ?thesis by simp
qed

text \<open>
  C34: The bound of the registry is checked when it is read, never when it is written. Recording a
  run may store a registry beyond the bound, and from then on recording, closing, listing and every
  lookup fail and leave the file as it is: nothing prunes it again.
\<close>

theorem registry_overflow_sticks:
  assumes "record_run C run credential workspace now file0 = (Inr (), file1)" "\<not> file_fits file1"
  shows "(\<forall>run' c w t. record_run C run' c w t file1 = (Inl RegistryBound, file1))
    \<and> (\<forall>ref t. mark_closed C ref t file1 = (Inl RegistryBound, file1))
    \<and> (\<forall>ref. run_owner C ref file1 = Inl RegistryBound)
    \<and> (\<forall>t. recorded_runs C t file1 = Inl RegistryBound)
    \<and> (\<forall>w. latest_principal C w file1 = Inl RegistryBound)"
proof -
  from assms(2) have "load_runs C file1 = Inl RegistryBound" by (auto simp: file_fits_def load_runs_def)
  then show ?thesis
    by (simp add: record_run_def mark_closed_def run_owner_def recorded_runs_def latest_principal_def)
qed

theorem registry_overflow_sticks_witness:
  "\<exists>s file1. record_run demo_run_codec ((''started_at'', VStr s) # demo_run 5) ''digest'' 7 0 None
       = (Inr (), file1) \<and> run_owner demo_run_codec 5 file1 = Inl RegistryBound"
proof -
  obtain s :: string where s: "length s = 4194305" by (rule Ex_list_of_length [THEN exE])
  let ?run = "(''started_at'', VStr s) # demo_run 5"
  have started: "run_field demo_run_codec ?run ''started_at'' = Inr s" by (simp add: run_field_def)
  obtain file1 where file1: "record_run demo_run_codec ?run ''digest'' 7 0 None = (Inr (), file1)"
    by (simp add: record_run_def load_runs_def run_field_def demo_run_def demo_run_codec_def)
  have "\<not> file_fits file1" using record_run_beyond_bound [OF file1 started] s by (simp add: MAX_REGISTRY_BYTES_def)
  from registry_overflow_sticks [OF file1 this] file1 show ?thesis by blast
qed

section \<open>Generated identifiers\<close>

text \<open>
  C33: A UUID of version 7 is generated for every time within 48 bits of milliseconds and every tail
  of 74 random bits. It carries the time, the version, the variant and the tail, and a later
  millisecond gives a greater UUID.
\<close>

theorem uuid7_layout:
  assumes "time_ns div 1000000 < 2 ^ 48" "tail < 2 ^ 74"
  shows "\<exists>u. uuid7 time_ns tail = Inr u \<and> unat u div 2 ^ 80 = time_ns div 1000000
    \<and> uuid_version u = 7 \<and> unat u div 2 ^ 62 mod 4 = 2
    \<and> unat u div 2 ^ 64 mod 2 ^ 12 = tail div 2 ^ 62 \<and> unat u mod 2 ^ 62 = tail mod 2 ^ 62
    \<and> (\<forall>later tail' v. uuid7 later tail' = Inr v \<longrightarrow> tail' < 2 ^ 74
        \<longrightarrow> time_ns div 1000000 < later div 1000000 \<longrightarrow> u < v)"
proof -
  obtain u where u: "uuid7 time_ns tail = Inr u" using uuid7_total [OF assms] by blast
  have "u < v" if "uuid7 later tail' = Inr v" "tail' < 2 ^ 74" "time_ns div 1000000 < later div 1000000" for later tail' v
  proof -
    have "unat u div 2 ^ 80 < unat v div 2 ^ 80"
      using uuid7_fields(1) [OF u assms(2)] uuid7_fields(1) [OF that(1,2)] that(3) by simp
    then have "unat u < unat v" by (metis div_le_mono not_less)
    then show ?thesis by (simp add: word_less_nat_alt)
  qed
  with u uuid7_fields [OF u assms(2)] show ?thesis by blast
qed

theorem uuid7_layout_witness:
  "\<exists>u. uuid7 1700000000123456789 42 = Inr u \<and> uuid_version u = 7 \<and> unat u mod 2 ^ 62 = 42"
  using uuid7_layout [of 1700000000123456789 42] by auto

end
