(* ===== verification/AuthoredChecks.thy ===== *)
theory AuthoredChecks
  imports Codec
begin

text \<open>
  \<open>application/authored_output_checks.py\<close>: the issues of an annotation payload against its own task, and
  the part of it that can be accepted. Identifiers are the strings that \<open>str\<close> gives of the fields of the
  dumped input and payload.
\<close>

section \<open>Input and payload\<close>

record authored_evidence =
  cited_source_unit_id :: string
  cited_content_hash :: string

record authored_statement =
  as_statement_id :: string
  as_evidence :: "authored_evidence list"
  as_context_source_ids :: "string list"

record authored_annotation =
  aa_bead_id :: string
  aa_event_id :: string
  aa_source_unit_id :: string
  aa_statements :: "authored_statement list"

record authoring_task =
  at_bead_ids :: "string list"
  at_event_id :: string
  at_source_unit_ids :: "string list"
  at_references :: "(string \<times> string) list"

text \<open>A payload that is no annotation output has no list of annotations; the rest of it is opaque.\<close>

record authored_payload =
  ap_annotations :: "authored_annotation list option"
  ap_rest :: json

section \<open>Issues\<close>

datatype issue_code =
    BEAD_MISSING | BEAD_DUPLICATED | BEAD_OUTSIDE_TASK | EVENT_MISMATCH | SOURCE_UNIT_MISMATCH
  | EVIDENCE_OUTSIDE_MANIFEST | EVIDENCE_NOT_DECLARED | CONTEXT_WITHOUT_EVIDENCE

fun issue_code_value :: "issue_code \<Rightarrow> string" where
  "issue_code_value BEAD_MISSING = ''annotation.bead_missing''"
| "issue_code_value BEAD_DUPLICATED = ''annotation.bead_duplicated''"
| "issue_code_value BEAD_OUTSIDE_TASK = ''annotation.bead_outside_task''"
| "issue_code_value EVENT_MISMATCH = ''annotation.event_mismatch''"
| "issue_code_value SOURCE_UNIT_MISMATCH = ''annotation.source_unit_mismatch''"
| "issue_code_value EVIDENCE_OUTSIDE_MANIFEST = ''evidence.outside_manifest''"
| "issue_code_value EVIDENCE_NOT_DECLARED = ''evidence.not_declared_as_used''"
| "issue_code_value CONTEXT_WITHOUT_EVIDENCE = ''statement.context_without_evidence''"

record authored_issue =
  ai_code :: issue_code
  ai_subject :: string
  ai_expected :: "string option"
  ai_bead :: "string option"

definition issue_feedback :: "authored_issue \<Rightarrow> string" where
  "issue_feedback i =
     (let detail = issue_code_value (ai_code i) @ '': '' @ ai_subject i
      in case ai_expected i of None \<Rightarrow> detail | Some e \<Rightarrow> detail @ '' (expected '' @ e @ '')'')"

definition plain_issue :: "issue_code \<Rightarrow> string \<Rightarrow> string option \<Rightarrow> authored_issue" where
  "plain_issue code subject bead = \<lparr>ai_code = code, ai_subject = subject, ai_expected = None, ai_bead = bead\<rparr>"

definition mismatch :: "issue_code \<Rightarrow> string \<Rightarrow> string \<Rightarrow> string option \<Rightarrow> authored_issue" where
  "mismatch code subject expected bead =
     \<lparr>ai_code = code, ai_subject = subject, ai_expected = Some expected, ai_bead = bead\<rparr>"

definition COMPLETE_KIND :: string where
  "COMPLETE_KIND = ''memory.semantic.author-complete-unit''"

definition PINNED :: "(string \<times> int) list" where
  "PINNED =
     [(''memory.semantic.author-observations'', 2), (''memory.semantic.correct-observation'', 2)]
     @ map (\<lambda>r. (COMPLETE_KIND, r)) [2, 3, 4, 5, 6, 7, 8]"

definition PARTIAL_ACCEPTANCE :: "(string \<times> int) list" where
  "PARTIAL_ACCEPTANCE =
     [(''memory.semantic.author-observations'', 1), (''memory.semantic.author-observations'', 2)]"

fun withheld_reason :: "issue_code \<Rightarrow> string option" where
  "withheld_reason BEAD_MISSING = Some ''withheld.not_authored''"
| "withheld_reason BEAD_DUPLICATED = Some ''withheld.duplicated''"
| "withheld_reason BEAD_OUTSIDE_TASK = None"
| "withheld_reason EVENT_MISMATCH = Some ''withheld.pin_mismatch''"
| "withheld_reason SOURCE_UNIT_MISMATCH = Some ''withheld.pin_mismatch''"
| "withheld_reason EVIDENCE_OUTSIDE_MANIFEST = Some ''withheld.evidence_outside_manifest''"
| "withheld_reason EVIDENCE_NOT_DECLARED = Some ''withheld.evidence_not_declared_as_used''"
| "withheld_reason CONTEXT_WITHOUT_EVIDENCE = Some ''withheld.context_without_evidence''"

text \<open>The manifest as a dictionary: the last hash of a reference counts.\<close>

definition manifest_of :: "authoring_task \<Rightarrow> string \<rightharpoonup> string" where
  "manifest_of t = map_of (rev (at_references t))"

definition in_manifest :: "authoring_task \<Rightarrow> string \<Rightarrow> bool" where
  "in_manifest t ref \<longleftrightarrow> manifest_of t ref \<noteq> None"

definition written :: "authored_annotation list \<Rightarrow> string \<Rightarrow> nat" where
  "written annotations bead = count_list (map aa_bead_id annotations) bead"

definition bead_issues :: "authoring_task \<Rightarrow> authored_annotation list \<Rightarrow> authored_issue list" where
  "bead_issues t annotations =
     concat (map (\<lambda>b. if written annotations b = 0 then [plain_issue BEAD_MISSING b (Some b)] else []) (at_bead_ids t))
     @ concat (map (\<lambda>b.
         if b \<notin> set (at_bead_ids t) then [plain_issue BEAD_OUTSIDE_TASK b None]
         else if written annotations b > 1 then [plain_issue BEAD_DUPLICATED b (Some b)] else [])
         (sort (remdups (map aa_bead_id annotations))))"

definition used_issues :: "authoring_task \<Rightarrow> string list \<Rightarrow> authored_issue list" where
  "used_issues t used =
     map (\<lambda>ref. plain_issue EVIDENCE_OUTSIDE_MANIFEST ref None)
       (sort (remdups (filter (\<lambda>ref. \<not> in_manifest t ref) used)))"

definition owner_of :: "authoring_task \<Rightarrow> authored_annotation \<Rightarrow> string option" where
  "owner_of t a = (if aa_bead_id a \<in> set (at_bead_ids t) then Some (aa_bead_id a) else None)"

definition pin_issues :: "authoring_task \<Rightarrow> string \<Rightarrow> int \<Rightarrow> authored_annotation \<Rightarrow> authored_issue list" where
  "pin_issues t kind revision a =
     (let pinned = (kind, revision) \<in> set PINNED;
          units = at_source_unit_ids t;
          allowed = (if kind = COMPLETE_KIND then take 1 units else units)
      in (if pinned \<and> aa_event_id a \<noteq> at_event_id t
          then [mismatch EVENT_MISMATCH (aa_bead_id a) (at_event_id t) (owner_of t a)] else [])
         @ (if pinned \<and> aa_source_unit_id a \<notin> set allowed
            then [mismatch SOURCE_UNIT_MISMATCH (aa_bead_id a) (join '', '' units) (owner_of t a)] else []))"

definition evidence_issue ::
  "authoring_task \<Rightarrow> string list \<Rightarrow> string option \<Rightarrow> string \<Rightarrow> authored_evidence \<Rightarrow> authored_issue list" where
  "evidence_issue t used owner subject e =
     (let unit = cited_source_unit_id e
      in if manifest_of t unit \<noteq> Some (cited_content_hash e)
         then [plain_issue EVIDENCE_OUTSIDE_MANIFEST (subject @ '' cites '' @ unit) owner]
         else if unit \<notin> set used
         then [plain_issue EVIDENCE_NOT_DECLARED (subject @ '' cites '' @ unit) owner]
         else [])"

definition statement_issues ::
  "authoring_task \<Rightarrow> string list \<Rightarrow> string option \<Rightarrow> authored_statement \<Rightarrow> authored_issue list" where
  "statement_issues t used owner s =
     concat (map (evidence_issue t used owner (as_statement_id s)) (as_evidence s))
     @ concat (map (\<lambda>c.
         if c \<notin> set (map cited_source_unit_id (as_evidence s))
         then [plain_issue CONTEXT_WITHOUT_EVIDENCE (as_statement_id s @ '' names '' @ c) owner] else [])
         (as_context_source_ids s))"

definition annotation_issues ::
  "authoring_task \<Rightarrow> string list \<Rightarrow> string \<Rightarrow> int \<Rightarrow> authored_annotation \<Rightarrow> authored_issue list" where
  "annotation_issues t used kind revision a =
     pin_issues t kind revision a
     @ concat (map (statement_issues t used (owner_of t a)) (aa_statements a))"

definition authored_annotation_issues ::
  "authoring_task \<Rightarrow> authored_payload \<Rightarrow> string list \<Rightarrow> string \<Rightarrow> int \<Rightarrow> authored_issue list" where
  "authored_annotation_issues t payload used kind revision =
     (case ap_annotations payload of
        None \<Rightarrow> []
      | Some annotations \<Rightarrow>
          bead_issues t annotations @ used_issues t used
          @ concat (map (annotation_issues t used kind revision) annotations))"

section \<open>Partial acceptance\<close>

record partial_result =
  pa_payload :: authored_payload
  pa_used_evidence_refs :: "string list"
  pa_withheld :: "(string \<times> string) list"

datatype key_error = KeyError issue_code

text \<open>
  The reasons by bead, the first of a bead counts: \<open>None\<close> when an issue names a bead outside the task;
  the reason of every issue is looked up, also of a bead that has one.
\<close>

fun withheld_reasons ::
  "string list \<Rightarrow> authored_issue list \<Rightarrow> (string \<times> string) list \<Rightarrow> key_error + (string \<times> string) list option" where
  "withheld_reasons beads [] reasons = Inr (Some reasons)"
| "withheld_reasons beads (i # is) reasons =
     (case ai_bead i of
        None \<Rightarrow> withheld_reasons beads is reasons
      | Some b \<Rightarrow>
          if b \<notin> set beads then Inr None
          else case withheld_reason (ai_code i) of
                 None \<Rightarrow> Inl (KeyError (ai_code i))
               | Some r \<Rightarrow>
                   withheld_reasons beads is
                     (if map_of reasons b = None then reasons @ [(b, r)] else reasons))"

definition partial_annotations ::
  "authoring_task \<Rightarrow> authored_payload \<Rightarrow> string list \<Rightarrow> authored_issue list \<Rightarrow> string \<Rightarrow> int
     \<Rightarrow> key_error + partial_result option" where
  "partial_annotations t payload used_refs issues kind revision =
     (case ap_annotations payload of
        None \<Rightarrow> Inr None
      | Some annotations \<Rightarrow>
          if (kind, revision) \<notin> set PARTIAL_ACCEPTANCE \<or> issues = [] then Inr None
          else case withheld_reasons (at_bead_ids t) issues [] of
                 Inl e \<Rightarrow> Inl e
               | Inr None \<Rightarrow> Inr None
               | Inr (Some reasons) \<Rightarrow>
                   (let kept = filter (\<lambda>a. aa_bead_id a \<in> set (at_bead_ids t)
                          \<and> map_of reasons (aa_bead_id a) = None) annotations;
                        used = filter (in_manifest t) used_refs;
                        partial = payload\<lparr>ap_annotations := Some kept\<rparr>
                    in if kept = [] then Inr None
                       else if list_ex (\<lambda>i. ai_code i \<noteq> BEAD_MISSING
                            \<or> (case ai_bead i of None \<Rightarrow> True | Some b \<Rightarrow> map_of reasons b = None))
                          (authored_annotation_issues t partial used kind revision)
                       then Inr None
                       else Inr (Some \<lparr>pa_payload = partial, pa_used_evidence_refs = used,
                              pa_withheld = concat (map (\<lambda>b. case map_of reasons b of
                                  None \<Rightarrow> [] | Some r \<Rightarrow> [(b, r)]) (at_bead_ids t))\<rparr>)))"

end
