(* ===== verification/AuthoredFacts.thy ===== *)
theory AuthoredFacts
  imports AuthoredChecks
begin

text \<open>
  What the checks of authored output mean: no issue exactly for a payload that covers its task and is
  grounded, and the part that partial acceptance keeps.
\<close>

definition grounded :: "authoring_task \<Rightarrow> string list \<Rightarrow> authored_statement \<Rightarrow> bool" where
  "grounded t used s \<longleftrightarrow>
     (\<forall>e \<in> set (as_evidence s). manifest_of t (cited_source_unit_id e) = Some (cited_content_hash e)
        \<and> cited_source_unit_id e \<in> set used)
     \<and> set (as_context_source_ids s) \<subseteq> cited_source_unit_id ` set (as_evidence s)"

definition pins_ok :: "authoring_task \<Rightarrow> string \<Rightarrow> int \<Rightarrow> authored_annotation \<Rightarrow> bool" where
  "pins_ok t kind revision a \<longleftrightarrow>
     ((kind, revision) \<in> set PINNED \<longrightarrow>
        aa_event_id a = at_event_id t
        \<and> aa_source_unit_id a \<in> set (if kind = COMPLETE_KIND then take 1 (at_source_unit_ids t) else at_source_unit_ids t))"

definition acceptable :: "authoring_task \<Rightarrow> string list \<Rightarrow> string \<Rightarrow> int \<Rightarrow> authored_annotation \<Rightarrow> bool" where
  "acceptable t used kind revision a \<longleftrightarrow>
     pins_ok t kind revision a \<and> (\<forall>s \<in> set (aa_statements a). grounded t used s)"

lemma concat_if_Nil: "concat (map (\<lambda>x. if P x then [f x] else []) xs) = [] \<longleftrightarrow> (\<forall>x \<in> set xs. \<not> P x)"
  by (induction xs) auto

lemma in_concat_if: "y \<in> set (concat (map (\<lambda>x. if P x then [f x] else []) xs)) \<longleftrightarrow> (\<exists>x \<in> set xs. P x \<and> y = f x)"
  by (induction xs) auto

lemma evidence_issue_Nil:
  "evidence_issue t used owner subject e = [] \<longleftrightarrow>
     manifest_of t (cited_source_unit_id e) = Some (cited_content_hash e) \<and> cited_source_unit_id e \<in> set used"
  by (simp add: evidence_issue_def Let_def)

lemma statement_issues_Nil: "statement_issues t used owner s = [] \<longleftrightarrow> grounded t used s"
  unfolding statement_issues_def append_is_Nil_conv concat_if_Nil grounded_def
  by (auto simp: evidence_issue_Nil)

lemma annotation_issues_Nil: "annotation_issues t used kind revision a = [] \<longleftrightarrow> acceptable t used kind revision a"
  by (auto simp: annotation_issues_def acceptable_def statement_issues_Nil pin_issues_def pins_ok_def Let_def)

lemma written_pos: "0 < written annotations b \<longleftrightarrow> b \<in> aa_bead_id ` set annotations"
  by (induction annotations) (auto simp: written_def)

lemma bead_issues_Nil:
  "bead_issues t annotations = [] \<longleftrightarrow>
     (\<forall>b \<in> set (at_bead_ids t). written annotations b = 1) \<and> (\<forall>a \<in> set annotations. aa_bead_id a \<in> set (at_bead_ids t))"
  (is "_ \<longleftrightarrow> ?once \<and> ?inside")
proof -
  have "bead_issues t annotations = [] \<longleftrightarrow>
      (\<forall>b \<in> set (at_bead_ids t). 0 < written annotations b)
      \<and> (\<forall>b \<in> aa_bead_id ` set annotations. b \<in> set (at_bead_ids t) \<and> written annotations b \<le> 1)"
    unfolding bead_issues_def append_is_Nil_conv concat_eq_Nil_conv set_map set_sort set_remdups ball_simps image_iff
    by (auto simp: not_less)
  also have "\<dots> \<longleftrightarrow> ?once \<and> ?inside"
  proof (intro iffI conjI ballI)
    fix b assume "(\<forall>b \<in> set (at_bead_ids t). 0 < written annotations b)
      \<and> (\<forall>b \<in> aa_bead_id ` set annotations. b \<in> set (at_bead_ids t) \<and> written annotations b \<le> 1)"
      and b: "b \<in> set (at_bead_ids t)"
    then have pos: "0 < written annotations b" by blast
    then have "b \<in> aa_bead_id ` set annotations" by (simp only: written_pos)
    with \<open>_ \<and> _\<close> have "written annotations b \<le> 1" by blast
    with pos show "written annotations b = 1" by simp
  qed auto
  finally show ?thesis .
qed

lemma used_issues_Nil: "used_issues t used = [] \<longleftrightarrow> (\<forall>r \<in> set used. in_manifest t r)"
  by (auto simp: used_issues_def filter_empty_conv remdups_eq_nil_iff simp flip: set_empty)

lemma issues_Nil:
  assumes "ap_annotations payload = Some annotations"
  shows "authored_annotation_issues t payload used kind revision = [] \<longleftrightarrow>
    (\<forall>b \<in> set (at_bead_ids t). written annotations b = 1)
    \<and> (\<forall>a \<in> set annotations. aa_bead_id a \<in> set (at_bead_ids t) \<and> acceptable t used kind revision a)
    \<and> (\<forall>r \<in> set used. in_manifest t r)"
  using assms by (auto simp: authored_annotation_issues_def bead_issues_Nil used_issues_Nil annotation_issues_Nil)

section \<open>Owners of issues\<close>

lemma statement_issue_owner: "i \<in> set (statement_issues t used owner s) \<Longrightarrow> ai_bead i = owner \<and> ai_code i \<noteq> BEAD_OUTSIDE_TASK"
  by (auto simp: statement_issues_def evidence_issue_def plain_issue_def Let_def split: if_splits)

lemma annotation_issue_owner:
  "i \<in> set (annotation_issues t used kind revision a) \<Longrightarrow> ai_bead i = owner_of t a \<and> ai_code i \<noteq> BEAD_OUTSIDE_TASK"
  by (auto simp: annotation_issues_def pin_issues_def mismatch_def Let_def dest: statement_issue_owner split: if_splits)

lemma withheld_reason_None: "withheld_reason code = None \<longleftrightarrow> code = BEAD_OUTSIDE_TASK"
  by (cases code) simp_all

lemma issue_beads:
  assumes "i \<in> set (authored_annotation_issues t payload used kind revision)" "ai_bead i = Some b"
  shows "b \<in> set (at_bead_ids t) \<and> withheld_reason (ai_code i) \<noteq> None"
proof -
  from assms show ?thesis
    by (auto simp: authored_annotation_issues_def bead_issues_def used_issues_def plain_issue_def owner_of_def withheld_reason_None
        dest!: annotation_issue_owner split: option.splits if_splits)
qed

definition has_issue :: "authored_issue list \<Rightarrow> string \<Rightarrow> bool" where
  "has_issue issues b \<longleftrightarrow> (\<exists>i \<in> set issues. ai_bead i = Some b)"

definition first_reason :: "authored_issue list \<Rightarrow> string \<Rightarrow> string option" where
  "first_reason issues b =
     (case List.find (\<lambda>i. ai_bead i = Some b) issues of None \<Rightarrow> None | Some i \<Rightarrow> withheld_reason (ai_code i))"

lemma withheld_reasons_total:
  assumes "\<forall>i \<in> set issues. \<forall>b. ai_bead i = Some b \<longrightarrow> b \<in> set beads \<and> withheld_reason (ai_code i) \<noteq> None"
  shows "\<exists>rs'. withheld_reasons beads issues rs = Inr (Some rs')
    \<and> (\<forall>b. map_of rs' b = (case map_of rs b of Some r \<Rightarrow> Some r | None \<Rightarrow> first_reason issues b))"
  using assms
proof (induction issues arbitrary: rs)
  case Nil
  then show ?case by (auto simp: first_reason_def split: option.splits)
next
  case (Cons i "is")
  show ?case
  proof (cases "ai_bead i")
    case None
    then have "first_reason (i # is) b = first_reason is b" for b by (simp add: first_reason_def)
    then have first: "first_reason (i # is) = first_reason is" by (rule ext)
    have "\<forall>i \<in> set is. \<forall>b. ai_bead i = Some b \<longrightarrow> b \<in> set beads \<and> withheld_reason (ai_code i) \<noteq> None"
      using Cons.prems by simp
    from Cons.IH [OF this, of rs] None show ?thesis by (simp add: first cong: option.case_cong)
  next
    case (Some b)
    with Cons.prems obtain r where r: "b \<in> set beads" "withheld_reason (ai_code i) = Some r" by auto
    let ?rs = "if map_of rs b = None then rs @ [(b, r)] else rs"
    from Cons.IH [of ?rs] Cons.prems obtain rs' where
      rs': "withheld_reasons beads is ?rs = Inr (Some rs')"
      "\<forall>c. map_of rs' c = (case map_of ?rs c of Some r \<Rightarrow> Some r | None \<Rightarrow> first_reason is c)" by auto
    have "map_of rs' c = (case map_of rs c of Some r \<Rightarrow> Some r | None \<Rightarrow> first_reason (i # is) c)" for c
      using rs'(2) [rule_format, of c] Some r
      by (cases "b = c") (auto simp: first_reason_def map_add_def split: option.splits)
    with rs'(1) Some r show ?thesis by auto
  qed
qed

lemma first_reason_None:
  assumes "\<forall>i \<in> set issues. \<forall>b. ai_bead i = Some b \<longrightarrow> withheld_reason (ai_code i) \<noteq> None"
  shows "first_reason issues b = None \<longleftrightarrow> \<not> has_issue issues b"
proof (cases "List.find (\<lambda>i. ai_bead i = Some b) issues")
  case None
  then have "\<not> has_issue issues b" by (auto simp: has_issue_def find_None_iff)
  with None show ?thesis by (simp add: first_reason_def)
next
  case (Some i)
  then have "i \<in> set issues" "ai_bead i = Some b" by (auto simp: find_Some_iff)
  with Some assms show ?thesis by (auto simp: first_reason_def has_issue_def)
qed

section \<open>What is kept\<close>

definition kept_annotations :: "authoring_task \<Rightarrow> authored_issue list \<Rightarrow> authored_annotation list \<Rightarrow> authored_annotation list" where
  "kept_annotations t issues annotations =
     filter (\<lambda>a. aa_bead_id a \<in> set (at_bead_ids t) \<and> \<not> has_issue issues (aa_bead_id a)) annotations"

lemma grounded_in_manifest:
  "grounded t used s \<Longrightarrow> grounded t (filter (in_manifest t) used) s"
  by (auto simp: grounded_def in_manifest_def)

lemma written_filter:
  "written (filter (\<lambda>a. P (aa_bead_id a)) annotations) b = (if P b then written annotations b else 0)"
  by (induction annotations) (auto simp: written_def)

lemma written_kept:
  "written (kept_annotations t issues annotations) b =
     (if b \<in> set (at_bead_ids t) \<and> \<not> has_issue issues b then written annotations b else 0)"
  unfolding kept_annotations_def by (rule written_filter)

lemma clean_bead:
  assumes "ap_annotations payload = Some annotations"
    and "issues = authored_annotation_issues t payload used kind revision"
    and "b \<in> set (at_bead_ids t)" "\<not> has_issue issues b"
  shows "written annotations b = 1"
proof (rule ccontr)
  assume n: "written annotations b \<noteq> 1"
  consider "written annotations b = 0" | "written annotations b > 1" using n by linarith
  then have "\<exists>i \<in> set (bead_issues t annotations). ai_bead i = Some b"
  proof cases
    case 1
    with assms(3) have "plain_issue BEAD_MISSING b (Some b) \<in> set (bead_issues t annotations)"
      unfolding bead_issues_def set_append Un_iff in_concat_if by blast
    then show ?thesis by (rule bexI [rotated]) (simp add: plain_issue_def)
  next
    case 2
    then have "b \<in> set (map aa_bead_id annotations)"
      unfolding written_def by (metis count_notin not_less_zero)
    with 2 assms(3) have "plain_issue BEAD_DUPLICATED b (Some b) \<in> set (bead_issues t annotations)"
      by (auto simp: bead_issues_def)
    then show ?thesis by (rule bexI [rotated]) (simp add: plain_issue_def)
  qed
  with assms show False by (auto simp: has_issue_def authored_annotation_issues_def)
qed

lemma kept_clean:
  assumes "ap_annotations payload = Some annotations"
    and "issues = authored_annotation_issues t payload used kind revision"
    and "a \<in> set (kept_annotations t issues annotations)"
  shows "acceptable t (filter (in_manifest t) used) kind revision a"
    "written (kept_annotations t issues annotations) (aa_bead_id a) = 1"
proof -
  from assms(3) have a: "a \<in> set annotations" "aa_bead_id a \<in> set (at_bead_ids t)" "\<not> has_issue issues (aa_bead_id a)"
    by (auto simp: kept_annotations_def)
  have "annotation_issues t used kind revision a = []"
  proof (rule ccontr)
    assume "annotation_issues t used kind revision a \<noteq> []"
    then obtain i where i: "i \<in> set (annotation_issues t used kind revision a)" by (meson list.set_sel(1))
    then have "ai_bead i = Some (aa_bead_id a)" using annotation_issue_owner a(2) by (auto simp: owner_of_def)
    with i a(1,3) assms(1,2) show False by (auto simp: has_issue_def authored_annotation_issues_def)
  qed
  then show "acceptable t (filter (in_manifest t) used) kind revision a"
    by (auto simp: annotation_issues_Nil acceptable_def grounded_in_manifest)
  show "written (kept_annotations t issues annotations) (aa_bead_id a) = 1"
    using clean_bead [OF assms(1,2) a(2,3)] a by (simp add: written_kept)
qed

text \<open>The second run of the checks finds only that the withheld beads are missing.\<close>

lemma kept_issues:
  assumes "ap_annotations payload = Some annotations"
    and "issues = authored_annotation_issues t payload used kind revision"
    and "i \<in> set (authored_annotation_issues t
      (payload\<lparr>ap_annotations := Some (kept_annotations t issues annotations)\<rparr>) (filter (in_manifest t) used) kind revision)"
  shows "ai_code i = BEAD_MISSING \<and> (\<exists>b. ai_bead i = Some b \<and> has_issue issues b)"
proof -
  let ?kept = "kept_annotations t issues annotations"
  have used: "used_issues t (filter (in_manifest t) used) = []" by (simp add: used_issues_Nil)
  have rest: "concat (map (annotation_issues t (filter (in_manifest t) used) kind revision) ?kept) = []"
    using kept_clean(1) [OF assms(1,2)] by (simp add: annotation_issues_Nil)
  from assms(3) have i: "i \<in> set (bead_issues t ?kept)"
    by (simp add: authored_annotation_issues_def used rest del: concat_eq_Nil_conv)
  have kept: "aa_bead_id a \<in> set (at_bead_ids t) \<and> written ?kept (aa_bead_id a) = 1" if "a \<in> set ?kept" for a
    using that kept_clean(2) [OF assms(1,2) that] by (auto simp: kept_annotations_def)
  from i kept have "\<exists>b \<in> set (at_bead_ids t). written ?kept b = 0 \<and> i = plain_issue BEAD_MISSING b (Some b)"
    by (auto simp: bead_issues_def split: if_splits)
  then obtain b where b: "b \<in> set (at_bead_ids t)" "written ?kept b = 0" "i = plain_issue BEAD_MISSING b (Some b)" by blast
  have "has_issue issues b"
    using clean_bead [OF assms(1,2) b(1)] b(2) b(1) by (auto simp: written_kept split: if_splits)
  with b(3) show ?thesis by (simp add: plain_issue_def)
qed

end
