(* ===== verification/AuthoredClaims.thy ===== *)
theory AuthoredClaims
  imports AuthoredFacts
begin

text \<open>The properties of the checks of authored output.\<close>

text \<open>
  C18: The checks report nothing exactly for an annotation output that covers its task and is
  grounded: every bead of the task is annotated once and no other bead is, the pins match where the
  task kind pins them, every used reference is in the manifest, every cited unit is in the manifest
  with its hash and declared as used, and every context source is cited.
\<close>

theorem authored_issues_none_iff:
  "authored_annotation_issues t (payload\<lparr>ap_annotations := Some annotations\<rparr>) used kind revision = [] \<longleftrightarrow>
     (\<forall>b \<in> set (at_bead_ids t). count_list (map aa_bead_id annotations) b = 1)
     \<and> (\<forall>a \<in> set annotations. aa_bead_id a \<in> set (at_bead_ids t) \<and> pins_ok t kind revision a
          \<and> (\<forall>s \<in> set (aa_statements a). grounded t used s))
     \<and> (\<forall>r \<in> set used. manifest_of t r \<noteq> None)"
  by (auto simp: issues_Nil [of "payload\<lparr>ap_annotations := Some annotations\<rparr>" annotations] acceptable_def
      in_manifest_def written_def)

definition demo_authoring_task :: authoring_task where
  "demo_authoring_task = \<lparr>at_bead_ids = [''b1'', ''b2''], at_event_id = ''e'', at_source_unit_ids = [''u''],
     at_references = [(''u'', ''h'')]\<rparr>"

definition demo_authored :: "string \<Rightarrow> string \<Rightarrow> authored_annotation" where
  "demo_authored b h = \<lparr>aa_bead_id = b, aa_event_id = ''e'', aa_source_unit_id = ''u'',
     aa_statements = [\<lparr>as_statement_id = ''s'', as_evidence = [\<lparr>cited_source_unit_id = ''u'', cited_content_hash = h\<rparr>],
       as_context_source_ids = [''u'']\<rparr>]\<rparr>"

definition demo_payload :: "authored_annotation list \<Rightarrow> authored_payload" where
  "demo_payload annotations = \<lparr>ap_annotations = Some annotations, ap_rest = JNull\<rparr>"

theorem authored_issues_none_iff_witness:
  "authored_annotation_issues demo_authoring_task (demo_payload [demo_authored ''b1'' ''h'', demo_authored ''b2'' ''h''])
     [''u''] ''memory.semantic.author-observations'' 2 = []
   \<and> authored_annotation_issues demo_authoring_task (demo_payload [demo_authored ''b1'' ''h'', demo_authored ''b2'' ''x''])
     [''u''] ''memory.semantic.author-observations'' 2 \<noteq> []"
  using authored_issues_none_iff [where t = demo_authoring_task and payload = "demo_payload []" and used = "[''u'']" and revision = 2
      and annotations = "[demo_authored ''b1'' ''h'', demo_authored ''b2'' ''h'']"
      and kind = "''memory.semantic.author-observations''"]
    authored_issues_none_iff [where t = demo_authoring_task and payload = "demo_payload []" and used = "[''u'']" and revision = 2
      and annotations = "[demo_authored ''b1'' ''h'', demo_authored ''b2'' ''x'']"
      and kind = "''memory.semantic.author-observations''"]
  by (simp add: demo_payload_def demo_authoring_task_def demo_authored_def pins_ok_def grounded_def manifest_of_def COMPLETE_KIND_def)

text \<open>
  C19: Partial acceptance is total and exact. Given the issues the checks found, it never raises; it
  withholds nothing for a task kind that is all or nothing, and otherwise keeps, unchanged and in
  order, exactly the annotations of task beads that no issue names, if there are any. Its second
  check never refuses: each kept annotation is the only one of its bead and passes every check
  against the references that are left, and each bead of the task is either kept or withheld with
  the reason of its first issue.
\<close>

theorem partial_acceptance_exact:
  assumes "ap_annotations payload = Some annotations"
    and "issues = authored_annotation_issues t payload used kind revision"
    and "kept = filter (\<lambda>a. aa_bead_id a \<in> set (at_bead_ids t) \<and> \<not> has_issue issues (aa_bead_id a)) annotations"
    and "left = filter (\<lambda>r. manifest_of t r \<noteq> None) used"
  shows "partial_annotations t payload used issues kind revision =
      Inr (if (kind, revision) \<in> set PARTIAL_ACCEPTANCE \<and> issues \<noteq> [] \<and> kept \<noteq> []
        then Some \<lparr>pa_payload = payload\<lparr>ap_annotations := Some kept\<rparr>, pa_used_evidence_refs = left,
          pa_withheld = concat (map (\<lambda>b. case first_reason issues b of None \<Rightarrow> [] | Some r \<Rightarrow> [(b, r)]) (at_bead_ids t))\<rparr>
        else None)
    \<and> (\<forall>a \<in> set kept. acceptable t left kind revision a \<and> count_list (map aa_bead_id kept) (aa_bead_id a) = 1)
    \<and> (\<forall>b \<in> set (at_bead_ids t). (b \<in> aa_bead_id ` set kept) \<noteq> (first_reason issues b \<noteq> None))"
proof -
  have kept: "kept = kept_annotations t issues annotations" using assms(3) by (simp add: kept_annotations_def)
  have left: "left = filter (in_manifest t) used" unfolding assms(4) by (rule filter_cong) (simp_all add: in_manifest_def)
  have beads: "\<forall>i \<in> set issues. \<forall>b. ai_bead i = Some b \<longrightarrow> b \<in> set (at_bead_ids t) \<and> withheld_reason (ai_code i) \<noteq> None"
    using issue_beads assms(2) by blast
  then have first: "first_reason issues b = None \<longleftrightarrow> \<not> has_issue issues b" for b by (intro first_reason_None) blast
  from withheld_reasons_total [OF beads, of "[]"] obtain rs where
    rs: "withheld_reasons (at_bead_ids t) issues [] = Inr (Some rs)" "map_of rs = first_reason issues" by auto
  have "\<not> list_ex (\<lambda>i. ai_code i \<noteq> BEAD_MISSING
        \<or> (case ai_bead i of None \<Rightarrow> True | Some b \<Rightarrow> map_of rs b = None))
      (authored_annotation_issues t (payload\<lparr>ap_annotations := Some kept\<rparr>) left kind revision)"
    unfolding kept left by (auto simp: list_ex_iff rs(2) first dest!: kept_issues [OF assms(1,2)])
  then have result: "partial_annotations t payload used issues kind revision =
      Inr (if (kind, revision) \<in> set PARTIAL_ACCEPTANCE \<and> issues \<noteq> [] \<and> kept \<noteq> []
        then Some \<lparr>pa_payload = payload\<lparr>ap_annotations := Some kept\<rparr>, pa_used_evidence_refs = left,
          pa_withheld = concat (map (\<lambda>b. case first_reason issues b of None \<Rightarrow> [] | Some r \<Rightarrow> [(b, r)]) (at_bead_ids t))\<rparr>
        else None)"
    using assms(1) rs(1) by (auto simp: partial_annotations_def rs(2) first Let_def left simp flip: assms(3))
  have "(b \<in> aa_bead_id ` set kept) \<noteq> (first_reason issues b \<noteq> None)" if "b \<in> set (at_bead_ids t)" for b
    using clean_bead [OF assms(1,2) that] that written_pos [of kept b] unfolding kept first by (auto simp: written_kept)
  with result kept_clean [OF assms(1,2)] show ?thesis unfolding kept left by (simp add: written_def)
qed

theorem partial_acceptance_exact_witness:
  "\<exists>p. partial_annotations demo_authoring_task (demo_payload [demo_authored ''b1'' ''h'', demo_authored ''b2'' ''x'']) [''u'']
     (authored_annotation_issues demo_authoring_task (demo_payload [demo_authored ''b1'' ''h'', demo_authored ''b2'' ''x''])
        [''u''] ''memory.semantic.author-observations'' 2) ''memory.semantic.author-observations'' 2 = Inr (Some p)
     \<and> pa_withheld p = [(''b2'', ''withheld.evidence_outside_manifest'')]"
  using partial_acceptance_exact [OF _ refl refl refl, of "demo_payload [demo_authored ''b1'' ''h'', demo_authored ''b2'' ''x'']"
      "[demo_authored ''b1'' ''h'', demo_authored ''b2'' ''x'']" demo_authoring_task "[''u'']"
      "''memory.semantic.author-observations''" 2]
  by (auto simp: demo_payload_def demo_authoring_task_def demo_authored_def authored_annotation_issues_def bead_issues_def used_issues_def
      written_def annotation_issues_def pin_issues_def statement_issues_def evidence_issue_def manifest_of_def in_manifest_def
      plain_issue_def owner_of_def has_issue_def first_reason_def PARTIAL_ACCEPTANCE_def COMPLETE_KIND_def Let_def)

end
