(* ===== verification/MigrationRunner.thy ===== *)
theory MigrationRunner
  imports Manifest
begin

text \<open>
  \<open>infrastructure/postgres/migration_runner.py\<close>: the stream of migrations, the validation of the
  recorded history and the run, which is one transaction. The database is a schema of any type with
  the rows of \<open>memoriesql.schema_migrations\<close>, if that table exists; a migration script is any
  change of both, the field \<open>me_script\<close>, and may fail. The path of a migration, which only locates its
  file, is left out.
\<close>

section \<open>Data\<close>

record migration =
  mi_version :: nat
  mi_name :: string
  mi_sql :: string
  mi_sha256 :: string

record applied_migration =
  am_version :: nat
  am_name :: string
  am_sha256 :: string

definition applied_of :: "migration \<Rightarrow> applied_migration" where
  "applied_of m = \<lparr>am_version = mi_version m, am_name = mi_name m, am_sha256 = mi_sha256 m\<rparr>"

record migration_receipt =
  mt_runner_contract_version :: int
  mt_database_name :: string
  mt_server_version_num :: int
  mt_from_version :: nat
  mt_to_version :: nat
  mt_target_version :: nat
  mt_applied_migrations :: "applied_migration list"
  mt_schema_snapshot_sha256 :: string

definition RUNNER_CONTRACT_VERSION :: int where "RUNNER_CONTRACT_VERSION = 1"

datatype migration_error = MigrationError string | UnicodeError | SqlError

section \<open>The stream\<close>

text \<open>An entry of the directory; \<open>re_file\<close> is false for anything that is no regular file.\<close>

record stream_entry =
  se_name :: string
  se_symlink :: bool
  se_file :: bool
  se_data :: bytes

datatype stream_directory = Symlinked | Unavailable | Listing "stream_entry list"

text \<open>The inventory of the package: whether it could be read as its shape, and its rows.\<close>

record inventory =
  iv_contract_version :: int
  iv_default_policy :: string
  iv_rows :: "(string \<times> string) list"

definition is_name_char :: "char \<Rightarrow> bool" where
  "is_name_char c \<longleftrightarrow> is_alnum c \<or> c = CHR ''_''"

text \<open>\<open>MIGRATION_FILE\<close>: four digits, an underscore, the name and the suffix \<open>.sql\<close>.\<close>

definition parse_file_name :: "string \<Rightarrow> (nat \<times> string) option" where
  "parse_file_name s =
     (let digits = take 4 s; rest = drop 5 s; name = take (length rest - 4) rest
      in if length s \<ge> 10 \<and> list_all is_digit digits \<and> s ! 4 = CHR ''_'' \<and> name \<noteq> []
            \<and> list_all is_name_char name \<and> drop (length rest - 4) rest = ''.sql''
         then map_option (\<lambda>v. (v, name)) (read_digits 0 digits)
         else None)"

definition inventory_resources :: "inventory option \<Rightarrow> migration_error + (string \<times> string) list" where
  "inventory_resources stock =
     (case stock of
        None \<Rightarrow> Inl (MigrationError ''packaged migration inventory is unavailable'')
      | Some i \<Rightarrow>
          if iv_contract_version i \<noteq> 1 \<or> iv_default_policy i \<noteq> ''deny'' \<or> length (iv_rows i) \<noteq> 59
             \<or> length (remdups (map fst (iv_rows i))) \<noteq> 59
             \<or> list_ex (\<lambda>(name, digest). parse_file_name name = None \<or> \<not> is_sha256 digest) (iv_rows i)
          then Inl (MigrationError ''packaged migration inventory is unavailable'')
          else Inr (iv_rows i))"

fun entries_to_migrations ::
  "hash \<Rightarrow> (bytes \<Rightarrow> string option) \<Rightarrow> (string \<times> string) list option \<Rightarrow> stream_entry list
     \<Rightarrow> migration_error + migration list" where
  "entries_to_migrations H decode packaged [] = Inr []"
| "entries_to_migrations H decode packaged (e # es) =
     (if se_symlink e then Inl (MigrationError ''symlink in migration stream'')
      else if \<not> se_file e then Inl (MigrationError ''unsupported entry in migration stream'')
      else case parse_file_name (se_name e) of
             None \<Rightarrow> Inl (MigrationError ''unsupported file in migration stream'')
           | Some (version, name) \<Rightarrow>
               (case decode (se_data e) of
                  None \<Rightarrow> Inl UnicodeError
                | Some sql \<Rightarrow>
                    if (case packaged of None \<Rightarrow> False | Some rs \<Rightarrow> map_of rs (se_name e) \<noteq> Some (H (se_data e)))
                    then Inl (MigrationError ''packaged migration checksum mismatch'')
                    else if strip sql = [] then Inl (MigrationError ''empty migration'')
                    else bindE (entries_to_migrations H decode packaged es)
                           (\<lambda>ms. Inr (\<lparr>mi_version = version, mi_name = name, mi_sql = sql,
                              mi_sha256 = H (utf8 sql)\<rparr> # ms))))"

definition discover_migrations ::
  "hash \<Rightarrow> (bytes \<Rightarrow> string option) \<Rightarrow> inventory option \<Rightarrow> bool \<Rightarrow> stream_directory
     \<Rightarrow> migration_error + migration list" where
  "discover_migrations H decode stock packaged directory =
     bindE (if packaged then bindE (inventory_resources stock) (\<lambda>rs. Inr (Some rs)) else Inr None) (\<lambda>expected.
       case directory of
         Symlinked \<Rightarrow> Inl (MigrationError ''symlink in migration stream'')
       | Unavailable \<Rightarrow> Inl (MigrationError ''migration resources are unavailable'')
       | Listing listing \<Rightarrow>
           (let entries = sort_key se_name listing
            in if (case expected of None \<Rightarrow> False | Some rs \<Rightarrow> set (map se_name entries) \<noteq> set (map fst rs))
               then Inl (MigrationError ''packaged migration inventory mismatch'')
               else bindE (entries_to_migrations H decode expected entries) (\<lambda>ms.
                      if ms = [] then Inl (MigrationError ''migration stream is empty'')
                      else if map mi_version ms \<noteq> [1..<Suc (length ms)]
                      then Inl (MigrationError ''migration versions must be contiguous from 1'')
                      else Inr ms)))"

section \<open>History\<close>

fun history_check :: "migration list \<Rightarrow> applied_migration list \<Rightarrow> migration_error option" where
  "history_check (e # es) (r # rs) =
     (if am_version r \<noteq> mi_version e
      then Some (MigrationError ''database migration history is not a contiguous package prefix'')
      else if am_name r \<noteq> mi_name e then Some (MigrationError ''migration name drift'')
      else if am_sha256 r \<noteq> mi_sha256 e then Some (MigrationError ''migration checksum drift'')
      else history_check es rs)"
| "history_check _ _ = None"

definition validate_migration_history ::
  "migration list \<Rightarrow> applied_migration list \<Rightarrow> migration_error + unit" where
  "validate_migration_history migrations applied =
     (if length applied > length migrations
      then Inl (MigrationError ''database migration history is ahead of this package'')
      else case history_check migrations applied of None \<Rightarrow> Inr () | Some e \<Rightarrow> Inl e)"

section \<open>The run\<close>

record 'd database =
  db_schema :: 'd
  db_rows :: "applied_migration list option"

record 'd migration_env =
  me_stream :: "migration_error + migration list"
  me_idle :: bool
  me_script :: "string \<Rightarrow> 'd database \<Rightarrow> 'd database option"
  me_inspect :: "'d database \<Rightarrow> json option"
  me_snapshot_sha256 :: "json \<Rightarrow> string"
  me_identity :: "'d database \<Rightarrow> (string \<times> int) option"

text \<open>\<open>SELECT \<dots> ORDER BY version\<close>, and an \<open>INSERT\<close> into a table whose primary key is the version.\<close>

definition load_applied_migrations :: "'d database \<Rightarrow> applied_migration list" where
  "load_applied_migrations db =
     (case db_rows db of None \<Rightarrow> [] | Some rows \<Rightarrow> sort_key am_version rows)"

definition insert_row :: "applied_migration \<Rightarrow> 'd database \<Rightarrow> 'd database option" where
  "insert_row r db =
     (case db_rows db of
        None \<Rightarrow> None
      | Some rows \<Rightarrow>
          if am_version r \<in> set (map am_version rows) then None
          else Some (db\<lparr>db_rows := Some (rows @ [r])\<rparr>))"

fun apply_migrations :: "'d migration_env \<Rightarrow> migration list \<Rightarrow> 'd database \<Rightarrow> migration_error + 'd database" where
  "apply_migrations E [] db = Inr db"
| "apply_migrations E (m # ms) db =
     (case me_script E (mi_sql m) db of
        None \<Rightarrow> Inl SqlError
      | Some db1 \<Rightarrow>
          (case insert_row (applied_of m) db1 of
             None \<Rightarrow> Inl SqlError
           | Some db2 \<Rightarrow> apply_migrations E ms db2))"

definition current_version :: "applied_migration list \<Rightarrow> nat" where
  "current_version applied = (if applied = [] then 0 else am_version (last applied))"

definition planned :: "migration list \<Rightarrow> nat \<Rightarrow> nat \<Rightarrow> migration list" where
  "planned stream current target = filter (\<lambda>m. current < mi_version m \<and> mi_version m \<le> target) stream"

definition transaction_body ::
  "'d migration_env \<Rightarrow> migration list \<Rightarrow> int \<Rightarrow> nat \<Rightarrow> 'd database
     \<Rightarrow> migration_error + (nat \<times> json \<times> string \<times> int) \<times> 'd database" where
  "transaction_body E stream expected target db =
     (let before = load_applied_migrations db; current = current_version before
      in bindE (validate_migration_history stream before) (\<lambda>_.
         if int current \<noteq> expected
         then Inl (MigrationError ''database version did not match the caller's bound'')
         else if target < current then Inl (MigrationError ''downgrades are unsupported'')
         else bindE (apply_migrations E (planned stream current target) db) (\<lambda>db1.
              let after = load_applied_migrations db1
              in bindE (validate_migration_history stream after) (\<lambda>_.
                 if current_version after \<noteq> target
                 then Inl (MigrationError ''migration ended at another version'')
                 else case me_inspect E db1 of
                        None \<Rightarrow> Inl SqlError
                      | Some snapshot \<Rightarrow>
                          (case me_identity E db1 of
                             None \<Rightarrow> Inl (MigrationError ''Postgres did not return database identity metadata'')
                           | Some (name, server) \<Rightarrow> Inr ((current, snapshot, name, server), db1))))))"

text \<open>The receipt is made after the commit.\<close>

definition receipt_of ::
  "'d migration_env \<Rightarrow> migration list \<Rightarrow> nat \<Rightarrow> nat \<times> json \<times> string \<times> int \<Rightarrow> migration_receipt" where
  "receipt_of E stream target found =
     (case found of (current, snapshot, name, server) \<Rightarrow>
        \<lparr>mt_runner_contract_version = RUNNER_CONTRACT_VERSION,
         mt_database_name = name, mt_server_version_num = server,
         mt_from_version = current, mt_to_version = target, mt_target_version = target,
         mt_applied_migrations = map applied_of (planned stream current target),
         mt_schema_snapshot_sha256 = me_snapshot_sha256 E snapshot\<rparr>)"

text \<open>The transaction: an error leaves the database as it was.\<close>

definition migrate ::
  "'d migration_env \<Rightarrow> int \<Rightarrow> int \<Rightarrow> 'd database \<Rightarrow> (migration_error + migration_receipt) \<times> 'd database" where
  "migrate E expected target db =
     (if \<not> me_idle E then (Inl (MigrationError ''migration runner requires an idle top-level connection''), db)
      else case me_stream E of
             Inl e \<Rightarrow> (Inl e, db)
           | Inr stream \<Rightarrow>
               if stream = [] then (Inl (MigrationError ''migration stream is empty''), db)
               else if target < 0 \<or> target > int (mi_version (last stream))
               then (Inl (MigrationError ''target version out of range''), db)
               else case transaction_body E stream expected (nat target) db of
                      Inl e \<Rightarrow> (Inl e, db)
                    | Inr (found, db1) \<Rightarrow> (Inr (receipt_of E stream (nat target) found), db1))"

end
