(* ===== verification/MigrationFacts.thy ===== *)
theory MigrationFacts
  imports MigrationRunner
begin

text \<open>
  The history as a prefix of the stream, and what a run of migrations does to it.
\<close>

lemma history_check_None:
  "length applied \<le> length ms \<Longrightarrow> history_check ms applied = None \<longleftrightarrow> applied = map applied_of (take (length applied) ms)"
proof (induction ms applied rule: history_check.induct)
  case (1 e es r rs)
  then show ?case by (cases r) (auto simp: applied_of_def)
qed simp_all

lemma validated_prefix:
  "validate_migration_history ms applied = Inr u \<longleftrightarrow> applied = map applied_of (take (length applied) ms)"
proof (cases "length applied \<le> length ms")
  case True
  then show ?thesis using history_check_None [OF True]
    by (auto simp: validate_migration_history_def split: option.splits)
next
  case False
  then have "length (map applied_of (take (length applied) ms)) < length applied" by simp
  then have "applied \<noteq> map applied_of (take (length applied) ms)" by (metis less_irrefl)
  with False show ?thesis by (simp add: validate_migration_history_def)
qed

definition ordered_stream :: "migration list \<Rightarrow> bool" where
  "ordered_stream ms \<longleftrightarrow> ms \<noteq> [] \<and> map mi_version ms = [1..<Suc (length ms)]"

lemma discovered_ordered: "discover_migrations H decode stock packaged directory = Inr ms \<Longrightarrow> ordered_stream ms"
  unfolding discover_migrations_def ordered_stream_def bindE_Inr_iff Let_def
  by (cases directory) (auto simp: bindE_Inr_iff split: if_splits option.splits simp del: upt_Suc)

lemma version_nth: "ordered_stream ms \<Longrightarrow> i < length ms \<Longrightarrow> mi_version (ms ! i) = Suc i"
  unfolding ordered_stream_def using nth_map [of i ms mi_version] nth_upt [of 1 i "Suc (length ms)"]
  by (metis Suc_eq_plus1 less_Suc_eq_0_disj nth_upt plus_1_eq_Suc add.commute Suc_less_eq)

lemma last_version: "ordered_stream ms \<Longrightarrow> mi_version (last ms) = length ms"
  using version_nth [of ms "length ms - 1"] by (simp add: ordered_stream_def last_conv_nth)

lemma map_upt_Cons:
  "map f (m # ms) = [a..<b] \<Longrightarrow> a < b \<and> f m = a \<and> map f ms = [Suc a..<b]"
  by (cases "a < b") (auto simp: upt_conv_Cons)

lemma filter_le: "map f ms = [a..<b] \<Longrightarrow> filter (\<lambda>m. f m \<le> t) ms = take (Suc t - a) ms"
proof (induction ms arbitrary: a)
  case (Cons m ms)
  from map_upt_Cons [OF Cons.prems] have a: "a < b" "f m = a" "map f ms = [Suc a..<b]" by auto
  show ?case
  proof (cases "a \<le> t")
    case True
    then have "Suc t - a = Suc (Suc t - Suc a)" by simp
    with True a Cons.IH [OF a(3)] show ?thesis by simp
  next
    case False
    have "\<forall>x \<in> set ms. f x \<ge> Suc a"
    proof
      fix x assume "x \<in> set ms"
      then have "f x \<in> set [Suc a..<b]" unfolding a(3) [symmetric] by simp
      then show "f x \<ge> Suc a" by simp
    qed
    then have "filter (\<lambda>m. f m \<le> t) ms = []" using False by (auto simp: filter_empty_conv)
    with False a show ?thesis by simp
  qed
qed simp

lemma filter_gt: "map f ms = [a..<b] \<Longrightarrow> filter (\<lambda>m. c < f m) ms = drop (Suc c - a) ms"
proof (induction ms arbitrary: a)
  case (Cons m ms)
  from map_upt_Cons [OF Cons.prems] have a: "a < b" "f m = a" "map f ms = [Suc a..<b]" by auto
  show ?case
  proof (cases "a \<le> c")
    case True
    then have "Suc c - a = Suc (Suc c - Suc a)" by simp
    with True a Cons.IH [OF a(3)] show ?thesis by simp
  next
    case False
    have "\<forall>x \<in> set ms. f x \<ge> Suc a"
    proof
      fix x assume "x \<in> set ms"
      then have "f x \<in> set [Suc a..<b]" unfolding a(3) [symmetric] by simp
      then show "f x \<ge> Suc a" by simp
    qed
    then have "filter (\<lambda>m. c < f m) ms = ms" using False by (auto intro!: filter_True)
    with False a show ?thesis by simp
  qed
qed simp

lemma planned_slice:
  assumes "ordered_stream ms"
  shows "planned ms c t = drop c (take t ms)"
proof -
  have v: "map mi_version ms = [1..<Suc (length ms)]" using assms by (simp add: ordered_stream_def)
  have "map mi_version (take t ms) = [1..<Suc (min t (length ms))]"
    unfolding take_map [symmetric] v by (cases "t \<le> length ms") (simp_all add: take_upt min_def del: upt_Suc)
  from filter_gt [OF this] have "filter (\<lambda>m. c < mi_version m) (take t ms) = drop c (take t ms)" by simp
  moreover have "planned ms c t = filter (\<lambda>m. c < mi_version m) (filter (\<lambda>m. mi_version m \<le> t) ms)"
    by (simp add: planned_def conj_commute)
  ultimately show ?thesis using filter_le [OF v, of t] by simp
qed

lemma current_of_prefix:
  assumes "ordered_stream ms" "applied = map applied_of (take (length applied) ms)"
  shows "current_version applied = length applied" "length applied \<le> length ms"
proof -
  show le: "length applied \<le> length ms" using arg_cong [OF assms(2), of length] by simp
  show "current_version applied = length applied"
  proof (cases "applied = []")
    case False
    then have "last applied = applied ! (length applied - 1)" by (rule last_conv_nth)
    also have "\<dots> = map applied_of (take (length applied) ms) ! (length applied - 1)"
      using assms(2) by (rule arg_cong)
    also have "\<dots> = applied_of (ms ! (length applied - 1))" using False le by simp
    finally have "last applied = applied_of (ms ! (length applied - 1))" .
    with False le version_nth [OF assms(1), of "length applied - 1"] show ?thesis
      by (cases "length applied") (simp_all add: current_version_def applied_of_def)
  qed (simp add: current_version_def)
qed

lemma drop_take_append:
  "i \<le> j \<Longrightarrow> j \<le> k \<Longrightarrow> drop i (take k xs) = drop i (take j xs) @ drop j (take k xs)"
  by (rule nth_equalityI) (auto simp: nth_append add.commute)

lemma apply_append:
  "apply_migrations E (xs @ ys) db = bindE (apply_migrations E xs db) (apply_migrations E ys)"
  by (induction xs arbitrary: db) (auto split: option.splits)

section \<open>One run\<close>

definition at_version :: "migration list \<Rightarrow> nat \<Rightarrow> 'd database \<Rightarrow> bool" where
  "at_version stream v db \<longleftrightarrow> v \<le> length stream \<and> load_applied_migrations db = map applied_of (take v stream)"

lemma at_version_validated:
  assumes "ordered_stream stream"
  shows "validate_migration_history stream (load_applied_migrations db) = Inr u
    \<longleftrightarrow> at_version stream (current_version (load_applied_migrations db)) db"
proof
  assume "validate_migration_history stream (load_applied_migrations db) = Inr u"
  then have p: "load_applied_migrations db = map applied_of (take (length (load_applied_migrations db)) stream)"
    by (simp add: validated_prefix)
  with current_of_prefix [OF assms p] show "at_version stream (current_version (load_applied_migrations db)) db"
    by (simp add: at_version_def)
next
  assume "at_version stream (current_version (load_applied_migrations db)) db"
  then have "load_applied_migrations db = map applied_of (take (current_version (load_applied_migrations db)) stream)"
    and "current_version (load_applied_migrations db) \<le> length stream" by (auto simp: at_version_def)
  then have "load_applied_migrations db = map applied_of (take (length (load_applied_migrations db)) stream)"
    by (metis length_map length_take min.absorb2)
  then show "validate_migration_history stream (load_applied_migrations db) = Inr u"
    by (simp add: validated_prefix)
qed

lemma at_version_current:
  assumes "ordered_stream stream" "at_version stream v db"
  shows "current_version (load_applied_migrations db) = v"
proof -
  have "load_applied_migrations db = map applied_of (take (length (load_applied_migrations db)) stream)"
    "length (load_applied_migrations db) = v"
    using assms(2) by (auto simp: at_version_def)
  with current_of_prefix(1) [OF assms(1)] show ?thesis by metis
qed

lemma transaction_body_Inr:
  assumes "ordered_stream stream"
  shows "transaction_body E stream expected target db = Inr ((c, snapshot, name, server), db1) \<longleftrightarrow>
    int c = expected \<and> c \<le> target \<and> at_version stream c db \<and> at_version stream target db1
       \<and> apply_migrations E (drop c (take target stream)) db = Inr db1
       \<and> me_inspect E db1 = Some snapshot \<and> me_identity E db1 = Some (name, server)"
    (is "_ \<longleftrightarrow> ?run")
proof
  assume "transaction_body E stream expected target db = Inr ((c, snapshot, name, server), db1)"
  then show ?run
    by (auto simp: transaction_body_def Let_def bindE_Inr_iff at_version_validated [OF assms] planned_slice [OF assms]
        split: if_splits option.splits prod.splits)
next
  assume run: ?run
  then have current: "current_version (load_applied_migrations db) = c"
    "current_version (load_applied_migrations db1) = target"
    using at_version_current [OF assms] by blast+
  with run have valid: "validate_migration_history stream (load_applied_migrations db) = Inr ()"
    "validate_migration_history stream (load_applied_migrations db1) = Inr ()"
    using at_version_validated [OF assms] by metis+
  from run have "\<not> target < c" by simp
  with run show "transaction_body E stream expected target db = Inr ((c, snapshot, name, server), db1)"
    by (simp add: transaction_body_def Let_def current valid planned_slice [OF assms])
qed

lemma migrate_Inr:
  assumes "me_stream E = Inr stream" "ordered_stream stream"
  shows "migrate E expected target db = (Inr r, db1) \<longleftrightarrow>
    me_idle E \<and> 0 \<le> target \<and> target \<le> int (length stream)
    \<and> (\<exists>c snapshot name server. int c = expected \<and> c \<le> nat target \<and> at_version stream c db
         \<and> at_version stream (nat target) db1
         \<and> apply_migrations E (drop c (take (nat target) stream)) db = Inr db1
         \<and> me_inspect E db1 = Some snapshot \<and> me_identity E db1 = Some (name, server)
         \<and> r = \<lparr>mt_runner_contract_version = RUNNER_CONTRACT_VERSION, mt_database_name = name,
             mt_server_version_num = server, mt_from_version = c, mt_to_version = nat target,
             mt_target_version = nat target,
             mt_applied_migrations = map applied_of (drop c (take (nat target) stream)),
             mt_schema_snapshot_sha256 = me_snapshot_sha256 E snapshot\<rparr>)"
proof -
  have "migrate E expected target db = (Inr r, db1) \<longleftrightarrow>
      me_idle E \<and> 0 \<le> target \<and> target \<le> int (length stream)
      \<and> (\<exists>c snapshot name server.
           transaction_body E stream expected (nat target) db = Inr ((c, snapshot, name, server), db1)
           \<and> r = receipt_of E stream (nat target) (c, snapshot, name, server))"
    using assms last_version [OF assms(2)]
    by (auto simp: migrate_def ordered_stream_def split: sum.splits prod.splits if_splits)
  then show ?thesis
    unfolding transaction_body_Inr [OF assms(2)] receipt_of_def prod.case planned_slice [OF assms(2)] by blast
qed

lemma migrate_Inl: "migrate E expected target db = (Inl e, db1) \<Longrightarrow> db1 = db"
  by (auto simp: migrate_def split: sum.splits prod.splits if_splits)

end
