(* ===== verification/MigrationClaims.thy ===== *)
theory MigrationClaims
  imports MigrationFacts
begin

text \<open>
  The properties of the migration runner, with a stream of two scripts to apply them to: the first
  creates the table of the history, the second changes the schema only.
\<close>

section \<open>An example\<close>

definition demo_entry :: "string \<Rightarrow> string \<Rightarrow> stream_entry" where
  "demo_entry name sql = \<lparr>se_name = name, se_symlink = False, se_file = True, se_data = utf8 sql\<rparr>"

definition demo_listing :: "stream_entry list" where
  "demo_listing = [demo_entry ''0002_beads.sql'' ''beads'', demo_entry ''0001_history.sql'' ''history'']"

definition demo_text :: "bytes \<Rightarrow> string option" where
  "demo_text b = (if b = utf8 ''beads'' then Some ''beads'' else if b = utf8 ''history'' then Some ''history'' else None)"

definition demo_digest :: hash where "demo_digest b = (if length b = 5 then ''b5'' else ''a7'')"

definition demo_script :: "string \<Rightarrow> string list database \<Rightarrow> string list database option" where
  "demo_script sql db =
     (if sql \<in> set (db_schema db) then None
      else Some (db\<lparr>db_schema := db_schema db @ [sql],
                    db_rows := (case db_rows db of None \<Rightarrow> Some [] | Some rows \<Rightarrow> Some rows)\<rparr>))"

definition demo_runner :: "string list migration_env" where
  "demo_runner = \<lparr>me_stream = discover_migrations demo_digest demo_text None False (Listing demo_listing),
     me_idle = True, me_script = demo_script, me_inspect = (\<lambda>db. Some (JList (map JStr (db_schema db)))),
     me_snapshot_sha256 = json_render,
     me_identity = (\<lambda>_. Some (''memoriesql'', 170000))\<rparr>"

definition demo_empty :: "string list database" where
  "demo_empty = \<lparr>db_schema = [], db_rows = None\<rparr>"

section \<open>Properties\<close>

text \<open>
  C20: A run of the migrations of a discovered stream either fails and leaves the database as it was, or
  the recorded history was exactly the prefix of the stream up to the expected version, name and checksum
  included, the scripts from there to the target were executed once each and in order, and the history is now
  exactly the prefix up to the target; the receipt names the slice that was applied. A second run to the
  same target applies nothing.
\<close>

theorem migrate_outcome:
  assumes "me_stream E = discover_migrations H decode stock packaged directory"
    and "migrate E expected target db = (result, db1)"
  shows "case result of
      Inl _ \<Rightarrow> db1 = db
    | Inr receipt \<Rightarrow> (\<exists>stream planned_slice.
        discover_migrations H decode stock packaged directory = Inr stream
        \<and> 0 \<le> expected \<and> expected \<le> target \<and> target \<le> int (length stream)
        \<and> planned_slice = drop (nat expected) (take (nat target) stream)
        \<and> load_applied_migrations db = map applied_of (take (nat expected) stream)
        \<and> apply_migrations E planned_slice db = Inr db1
        \<and> load_applied_migrations db1 = map applied_of (take (nat target) stream)
        \<and> mt_applied_migrations receipt = map applied_of planned_slice
        \<and> mt_from_version receipt = nat expected \<and> mt_to_version receipt = nat target
        \<and> migrate E target target db1
            = (Inr (receipt\<lparr>mt_from_version := nat target, mt_applied_migrations := []\<rparr>), db1))"
proof (cases result)
  case (Inl e)
  with assms(2) migrate_Inl show ?thesis by fastforce
next
  case (Inr receipt)
  with assms(2) obtain stream where stream: "me_stream E = Inr stream"
    by (auto simp: migrate_def split: if_splits sum.splits)
  with assms(1) have ordered: "ordered_stream stream" using discovered_ordered by metis
  note step = migrate_Inr [OF stream ordered]
  from assms(2) Inr step have bounds: "me_idle E" "0 \<le> target" "target \<le> int (length stream)" by auto
  from assms(2) obtain c snapshot name server where run: "int c = expected" "c \<le> nat target"
    "at_version stream c db" "at_version stream (nat target) db1"
    "apply_migrations E (drop c (take (nat target) stream)) db = Inr db1"
    "me_inspect E db1 = Some snapshot" "me_identity E db1 = Some (name, server)" and
    receipt: "receipt = \<lparr>mt_runner_contract_version = RUNNER_CONTRACT_VERSION, mt_database_name = name,
      mt_server_version_num = server, mt_from_version = c, mt_to_version = nat target,
      mt_target_version = nat target,
      mt_applied_migrations = map applied_of (drop c (take (nat target) stream)),
      mt_schema_snapshot_sha256 = me_snapshot_sha256 E snapshot\<rparr>"
    unfolding Inr step by blast
  have again: "migrate E target target db1
      = (Inr (receipt\<lparr>mt_from_version := nat target, mt_applied_migrations := []\<rparr>), db1)"
    unfolding step using bounds run receipt by simp
  have "expected = int c" "nat expected = c" using run(1) by auto
  with stream assms(1) bounds run receipt again Inr show ?thesis
    by (auto simp: at_version_def)
qed

theorem migrate_outcome_witness:
  "case migrate demo_runner 0 2 demo_empty of
     (Inl _, _) \<Rightarrow> False
   | (Inr receipt, db) \<Rightarrow>
       db_schema db = [''history'', ''beads'']
       \<and> mt_applied_migrations receipt
           = [\<lparr>am_version = 1, am_name = ''history'', am_sha256 = ''a7''\<rparr>,
              \<lparr>am_version = 2, am_name = ''beads'', am_sha256 = ''b5''\<rparr>]
       \<and> migrate demo_runner 2 2 db
           = (Inr (receipt\<lparr>mt_from_version := 2, mt_applied_migrations := []\<rparr>), db)"
proof -
  define outcome where "outcome = migrate demo_runner 0 2 demo_empty"
  obtain result db where o: "outcome = (result, db)" by (cases outcome)
  have "case outcome of (Inl _, _) \<Rightarrow> False
   | (Inr receipt, db) \<Rightarrow> db_schema db = [''history'', ''beads'']
       \<and> mt_applied_migrations receipt
           = [\<lparr>am_version = 1, am_name = ''history'', am_sha256 = ''a7''\<rparr>,
              \<lparr>am_version = 2, am_name = ''beads'', am_sha256 = ''b5''\<rparr>]"
    unfolding outcome_def by code_simp
  moreover have "me_stream demo_runner = discover_migrations demo_digest demo_text None False (Listing demo_listing)"
    by (simp add: demo_runner_def)
  note migrate_outcome [OF this o [unfolded outcome_def]]
  ultimately show ?thesis unfolding outcome_def [symmetric] o by (auto split: sum.splits)
qed

text \<open>
  C21: Migrating in two runs, to an intermediate version and on from there, is migrating in one: the one
  run succeeds, ends in the same database with the same snapshot and reports the migrations of both.
\<close>

theorem migrate_steps_compose:
  assumes "me_stream E = discover_migrations H decode stock packaged directory"
    and "migrate E a b db = (Inr first, db1)"
    and "migrate E b c db1 = (Inr second, db2)"
  shows "migrate E a c db
    = (Inr (second\<lparr>mt_from_version := mt_from_version first,
                    mt_applied_migrations := mt_applied_migrations first @ mt_applied_migrations second\<rparr>), db2)"
proof -
  from assms(2) obtain stream where stream: "me_stream E = Inr stream"
    by (auto simp: migrate_def split: if_splits sum.splits)
  with assms(1) have ordered: "ordered_stream stream" using discovered_ordered by metis
  note step = migrate_Inr [OF stream ordered]
  from assms(2) obtain i where one: "int i = a" "i \<le> nat b" "0 \<le> b" "at_version stream i db"
    "apply_migrations E (drop i (take (nat b) stream)) db = Inr db1" "mt_from_version first = i"
    "mt_applied_migrations first = map applied_of (drop i (take (nat b) stream))"
    unfolding step by auto
  from assms(3) obtain snapshot name server where two: "me_idle E" "b \<le> c" "c \<le> int (length stream)"
    "at_version stream (nat c) db2" "apply_migrations E (drop (nat b) (take (nat c) stream)) db1 = Inr db2"
    "me_inspect E db2 = Some snapshot" "me_identity E db2 = Some (name, server)"
    "second = \<lparr>mt_runner_contract_version = RUNNER_CONTRACT_VERSION, mt_database_name = name,
      mt_server_version_num = server, mt_from_version = nat b, mt_to_version = nat c,
      mt_target_version = nat c, mt_applied_migrations = map applied_of (drop (nat b) (take (nat c) stream)),
      mt_schema_snapshot_sha256 = me_snapshot_sha256 E snapshot\<rparr>"
    unfolding step by auto
  have slice: "drop i (take (nat c) stream) = drop i (take (nat b) stream) @ drop (nat b) (take (nat c) stream)"
    using one(2) two(2,3) by (intro drop_take_append) auto
  have "apply_migrations E (drop i (take (nat c) stream)) db = Inr db2"
    unfolding slice apply_append using one(5) two(5) by simp
  then show ?thesis
    unfolding step using one two by (auto simp: slice)
qed

theorem migrate_steps_compose_witness:
  "case (migrate demo_runner 0 1 demo_empty, migrate demo_runner 0 2 demo_empty) of
     ((Inr first, db1), (Inr whole, db2)) \<Rightarrow>
       (case migrate demo_runner 1 2 db1 of
          (Inr second, db) \<Rightarrow> db = db2 \<and> mt_applied_migrations whole
            = mt_applied_migrations first @ mt_applied_migrations second
        | _ \<Rightarrow> False)
   | _ \<Rightarrow> False"
proof -
  have ok: "case migrate demo_runner 0 1 demo_empty of
      (Inr first, db1) \<Rightarrow> (case migrate demo_runner 1 2 db1 of (Inr second, db) \<Rightarrow> True | _ \<Rightarrow> False) | _ \<Rightarrow> False"
    by code_simp
  obtain r1 db1 where one: "migrate demo_runner 0 1 demo_empty = (r1, db1)" by fastforce
  obtain r2 db2 where two: "migrate demo_runner 1 2 db1 = (r2, db2)" by fastforce
  from ok one two obtain first second where "r1 = Inr first" "r2 = Inr second" by (cases r1; cases r2) simp_all
  with one two have runs: "migrate demo_runner 0 1 demo_empty = (Inr first, db1)"
    "migrate demo_runner 1 2 db1 = (Inr second, db2)" by simp_all
  have "me_stream demo_runner = discover_migrations demo_digest demo_text None False (Listing demo_listing)"
    by (simp add: demo_runner_def)
  from migrate_steps_compose [OF this runs] runs show ?thesis by simp
qed

end
