(* ===== verification/Accounting.thy ===== *)
theory Accounting
  imports SemanticResults
begin

text \<open>
  \<open>application/model_accounting.py\<close>: targets, normalized usage, pricing, forecasts and the refusals
  that need an owner. Numbers a provider or a caller gives are \<open>int\<close>, since their bounds are checked.
\<close>

section \<open>Enumerations\<close>

datatype billing_basis =
    BILL_METERED | BILL_SUBSCRIPTION | BILL_LOCAL | BILL_DISCOUNTED | BILL_CREDITED | BILL_INDETERMINATE

datatype allowance_state =
    ALLOW_COVERED | ALLOW_AVAILABLE | ALLOW_EXHAUSTED | ALLOW_UNKNOWN | ALLOW_NOT_APPLICABLE

datatype usage_event_kind =
    USAGE_REPORTED | USAGE_UNAVAILABLE | REQUEST_FAILED | REQUEST_CANCELLED | LEASE_LOST_RETURN

fun usage_event_kind_value :: "usage_event_kind \<Rightarrow> string" where
  "usage_event_kind_value USAGE_REPORTED = ''usage_reported''"
| "usage_event_kind_value USAGE_UNAVAILABLE = ''usage_unavailable''"
| "usage_event_kind_value REQUEST_FAILED = ''request_failed''"
| "usage_event_kind_value REQUEST_CANCELLED = ''request_cancelled''"
| "usage_event_kind_value LEASE_LOST_RETURN = ''lease_lost_return''"

datatype request_outcome =
    OUT_SUCCEEDED | OUT_FAILED | OUT_CANCELLED | OUT_LEASE_LOST | OUT_UNKNOWN

datatype cost_basis =
    COST_PROVIDER_REPORTED | COST_CATALOG_ESTIMATE | COST_SUBSCRIPTION_COVERED | COST_LOCAL | COST_UNKNOWN

datatype usage_state = STATE_REPORTED | STATE_UNAVAILABLE

datatype quality_tier = TIER_FRONTIER | TIER_QUALIFIED_LOWER

datatype usage_provenance = PROV_PROVIDER_REPORTED | PROV_FRAMEWORK_ESTIMATED | PROV_UNAVAILABLE

section \<open>Targets and usage\<close>

record request_target =
  pt_provider_key :: string
  pt_credential_id :: uuid
  pt_model_id :: string
  pt_max_input_tokens_per_request :: int
  pt_max_output_tokens_per_request :: int
  pt_billing_basis :: billing_basis
  pt_allowance_state :: allowance_state
  pt_pricing_revision_id :: "uuid option"
  pt_quality_policy_revision_id :: uuid
  pt_quality_tier :: quality_tier
  pt_request_boundary_revision :: string
  pt_transport_retries_disabled :: bool
  pt_usage_provenance :: usage_provenance

definition make_request_target :: "request_target \<Rightarrow> request_target result" where
  "make_request_target t =
     validated
       [raise_if (\<not> identifier_field 128 (pt_provider_key t)) (FieldError ''provider_key''),
        raise_if (\<not> text_field 1 255 (pt_model_id t)) (FieldError ''model_id''),
        raise_if (pt_max_input_tokens_per_request t < 1) (FieldError ''max_input_tokens_per_request''),
        raise_if (pt_max_output_tokens_per_request t < 1) (FieldError ''max_output_tokens_per_request''),
        raise_if (\<not> identifier_field 128 (pt_request_boundary_revision t)) (FieldError ''request_boundary_revision''),
        raise_if (\<not> pt_transport_retries_disabled t)
          (ValueError ''provider transport retries must be disabled or intercepted''),
        raise_if (pt_billing_basis t = BILL_SUBSCRIPTION \<and> pt_allowance_state t = ALLOW_NOT_APPLICABLE)
          (ValueError ''subscription targets require an allowance state''),
        raise_if (pt_billing_basis t \<noteq> BILL_SUBSCRIPTION \<and> pt_allowance_state t = ALLOW_COVERED)
          (ValueError ''covered allowance is subscription-only'')] t"

record normalized_usage =
  nu_input_tokens :: int
  nu_output_tokens :: int
  nu_total_tokens :: int
  nu_cached_input_tokens :: int
  nu_cache_write_tokens :: int
  nu_reasoning_tokens :: int
  nu_tool_calls :: int

definition make_normalized_usage :: "normalized_usage \<Rightarrow> normalized_usage result" where
  "make_normalized_usage u =
     validated
       [raise_if (nu_input_tokens u < 0) (FieldError ''input_tokens''),
        raise_if (nu_output_tokens u < 0) (FieldError ''output_tokens''),
        raise_if (nu_total_tokens u < 0) (FieldError ''total_tokens''),
        raise_if (nu_cached_input_tokens u < 0) (FieldError ''cached_input_tokens''),
        raise_if (nu_cache_write_tokens u < 0) (FieldError ''cache_write_tokens''),
        raise_if (nu_reasoning_tokens u < 0) (FieldError ''reasoning_tokens''),
        raise_if (nu_tool_calls u < 0) (FieldError ''tool_calls''),
        raise_if (nu_total_tokens u \<noteq> nu_input_tokens u + nu_output_tokens u)
          (ValueError ''total_tokens must equal input_tokens plus output_tokens''),
        raise_if (nu_cached_input_tokens u + nu_cache_write_tokens u > nu_input_tokens u)
          (ValueError ''cached reads and writes cannot exceed input tokens''),
        raise_if (nu_reasoning_tokens u > nu_output_tokens u)
          (ValueError ''reasoning tokens cannot exceed output tokens'')] u"

section \<open>Pricing, policies and qualifications\<close>

record pricing_revision =
  px_pricing_revision_id :: uuid
  px_provider_key :: string
  px_model_id :: string
  px_currency :: string
  px_effective_from_epoch_us :: int
  px_effective_until_epoch_us :: "int option"
  px_input_microunits_per_million_tokens :: int
  px_cached_input_microunits_per_million_tokens :: int
  px_cache_write_microunits_per_million_tokens :: int
  px_output_microunits_per_million_tokens :: int
  px_source_hash :: string

definition make_pricing_revision :: "pricing_revision \<Rightarrow> pricing_revision result" where
  "make_pricing_revision p =
     validated
       [raise_if (\<not> identifier_field 128 (px_provider_key p)) (FieldError ''provider_key''),
        raise_if (\<not> text_field 1 255 (px_model_id p)) (FieldError ''model_id''),
        raise_if (px_currency p \<noteq> ''USD'') (FieldError ''currency''),
        raise_if (px_effective_from_epoch_us p < 0) (FieldError ''effective_from_epoch_us''),
        raise_if (\<not> opt_field (\<lambda>n. n \<ge> 1) (px_effective_until_epoch_us p)) (FieldError ''effective_until_epoch_us''),
        raise_if (px_input_microunits_per_million_tokens p < 0) (FieldError ''input_microunits_per_million_tokens''),
        raise_if (px_cached_input_microunits_per_million_tokens p < 0)
          (FieldError ''cached_input_microunits_per_million_tokens''),
        raise_if (px_cache_write_microunits_per_million_tokens p < 0)
          (FieldError ''cache_write_microunits_per_million_tokens''),
        raise_if (px_output_microunits_per_million_tokens p < 0) (FieldError ''output_microunits_per_million_tokens''),
        raise_if (\<not> is_sha256 (px_source_hash p)) (FieldError ''source_hash''),
        raise_if (\<not> opt_field (\<lambda>n. n > px_effective_from_epoch_us p) (px_effective_until_epoch_us p))
          (ValueError ''pricing revision range must be non-empty'')] p"

record quality_policy_revision =
  qx_quality_policy_revision_id :: uuid
  qx_policy_key :: string
  qx_revision :: int
  qx_default_quality_first :: bool
  qx_lower_tier_requires_frozen_qualification :: bool
  qx_source_hash :: string

definition make_quality_policy_revision :: "quality_policy_revision \<Rightarrow> quality_policy_revision result" where
  "make_quality_policy_revision q =
     validated
       [raise_if (\<not> identifier_field 128 (qx_policy_key q)) (FieldError ''policy_key''),
        raise_if (qx_revision q < 1) (FieldError ''revision''),
        raise_if (\<not> is_sha256 (qx_source_hash q)) (FieldError ''source_hash'')] q"

record task_profile_qualification =
  tq_qualification_id :: uuid
  tq_task_kind :: string
  tq_contract_revision :: int
  tq_model_profile_key :: string
  tq_model_profile_revision :: int
  tq_quality_policy_revision_id :: uuid
  tq_evidence_hash :: string
  tq_signer_key :: string
  tq_signature_hash :: string

definition make_task_profile_qualification ::
  "task_profile_qualification \<Rightarrow> task_profile_qualification result" where
  "make_task_profile_qualification q =
     validated
       [raise_if (\<not> identifier_field 128 (tq_task_kind q)) (FieldError ''task_kind''),
        raise_if (tq_contract_revision q < 1) (FieldError ''contract_revision''),
        raise_if (\<not> identifier_field 128 (tq_model_profile_key q)) (FieldError ''model_profile_key''),
        raise_if (tq_model_profile_revision q < 1) (FieldError ''model_profile_revision''),
        raise_if (\<not> is_sha256 (tq_evidence_hash q)) (FieldError ''evidence_hash''),
        raise_if (\<not> identifier_field 128 (tq_signer_key q)) (FieldError ''signer_key''),
        raise_if (\<not> is_sha256 (tq_signature_hash q)) (FieldError ''signature_hash'')] q"

record optimization_target =
  ox_optimization_target_id :: uuid
  ox_target_key :: string
  ox_revision :: int
  ox_task_kind :: string
  ox_contract_revision :: int
  ox_baseline_model_profile_key :: string
  ox_baseline_model_profile_revision :: int
  ox_candidate_model_profile_key :: string
  ox_candidate_model_profile_revision :: int
  ox_baseline_evidence_hash :: string
  ox_target_reduction_basis_points :: int
  ox_quality_gate_hash :: string
  ox_source_hash :: string

definition make_optimization_target :: "optimization_target \<Rightarrow> optimization_target result" where
  "make_optimization_target t =
     validated
       [raise_if (\<not> identifier_field 128 (ox_target_key t)) (FieldError ''target_key''),
        raise_if (ox_revision t < 1) (FieldError ''revision''),
        raise_if (\<not> identifier_field 128 (ox_task_kind t)) (FieldError ''task_kind''),
        raise_if (ox_contract_revision t < 1) (FieldError ''contract_revision''),
        raise_if (\<not> identifier_field 128 (ox_baseline_model_profile_key t)) (FieldError ''baseline_model_profile_key''),
        raise_if (ox_baseline_model_profile_revision t < 1) (FieldError ''baseline_model_profile_revision''),
        raise_if (\<not> identifier_field 128 (ox_candidate_model_profile_key t)) (FieldError ''candidate_model_profile_key''),
        raise_if (ox_candidate_model_profile_revision t < 1) (FieldError ''candidate_model_profile_revision''),
        raise_if (\<not> is_sha256 (ox_baseline_evidence_hash t)) (FieldError ''baseline_evidence_hash''),
        raise_if (ox_target_reduction_basis_points t < 0 \<or> ox_target_reduction_basis_points t > 10000)
          (FieldError ''target_reduction_basis_points''),
        raise_if (\<not> is_sha256 (ox_quality_gate_hash t)) (FieldError ''quality_gate_hash''),
        raise_if (\<not> is_sha256 (ox_source_hash t)) (FieldError ''source_hash'')] t"

section \<open>Forecasts\<close>

record usage_forecast =
  fc_forecast_id :: uuid
  fc_forecast_series_key :: string
  fc_forecast_hash :: string
  fc_tenant_id :: string
  fc_workspace_id :: string
  fc_access_scope_id :: string
  fc_source_scope_hash :: string
  fc_quality_policy_revision_id :: uuid
  fc_model_profile_key :: string
  fc_model_profile_revision :: int
  fc_billing_basis :: billing_basis
  fc_pricing_revision_id :: "uuid option"
  fc_pricing_observed_at_epoch_us :: int
  fc_item_count :: int
  fc_low_shadow_cost_microunits :: "int option"
  fc_expected_shadow_cost_microunits :: "int option"
  fc_high_shadow_cost_microunits :: "int option"
  fc_incremental_cash_exposure_microunits :: "int option"
  fc_safety_ceiling_microunits :: "int option"
  fc_expected_completion_low_ms :: int
  fc_expected_completion_high_ms :: int
  fc_allowance_state :: allowance_state
  fc_cost_basis :: cost_basis
  fc_queue_effect_hash :: string
  fc_assumptions_hash :: string

definition forecast_range_check :: "usage_forecast \<Rightarrow> py_error option" where
  "forecast_range_check f =
     (case (fc_low_shadow_cost_microunits f, fc_expected_shadow_cost_microunits f, fc_high_shadow_cost_microunits f) of
        (Some low, Some expected, Some high) \<Rightarrow>
          raise_if (\<not> (low \<le> expected \<and> expected \<le> high)) (ValueError ''forecast range must be ordered'')
      | (None, None, None) \<Rightarrow> None
      | _ \<Rightarrow> Some (ValueError ''forecast range is atomic or wholly unavailable''))"

definition forecast_cash_checks :: "usage_forecast \<Rightarrow> py_error option list" where
  "forecast_cash_checks f =
     (let basis = fc_billing_basis f; cost = fc_cost_basis f; cash = fc_incremental_cash_exposure_microunits f
      in [raise_if (basis = BILL_METERED \<and> cost = COST_CATALOG_ESTIMATE \<and> fc_pricing_revision_id f = None)
            (ValueError ''catalog-priced forecasts require a pricing revision''),
          raise_if (cost = COST_CATALOG_ESTIMATE
              \<and> (basis \<noteq> BILL_METERED \<or> fc_pricing_revision_id f = None \<or> cash = None))
            (ValueError ''catalog-estimated cash requires priced metered billing''),
          raise_if (cost = COST_SUBSCRIPTION_COVERED
              \<and> \<not> (basis = BILL_SUBSCRIPTION \<and> fc_allowance_state f = ALLOW_COVERED \<and> cash = Some 0))
            (ValueError ''subscription-covered forecasts require covered zero cash''),
          raise_if (cost = COST_LOCAL \<and> \<not> (basis = BILL_LOCAL \<and> cash = None))
            (ValueError ''local forecasts require unknown incremental cash''),
          raise_if (cost = COST_PROVIDER_REPORTED \<and> cash = None)
            (ValueError ''provider-reported forecasts require cash exposure''),
          raise_if (cost = COST_UNKNOWN \<and> cash \<noteq> None)
            (ValueError ''unknown forecast cash cannot carry a value'')])"

definition make_usage_forecast :: "usage_forecast \<Rightarrow> usage_forecast result" where
  "make_usage_forecast f =
     validated
       ([raise_if (\<not> is_sha256 (fc_forecast_series_key f)) (FieldError ''forecast_series_key''),
         raise_if (\<not> is_sha256 (fc_forecast_hash f)) (FieldError ''forecast_hash''),
         raise_if (\<not> text_field 1 128 (fc_tenant_id f)) (FieldError ''tenant_id''),
         raise_if (\<not> text_field 1 128 (fc_workspace_id f)) (FieldError ''workspace_id''),
         raise_if (\<not> text_field 1 128 (fc_access_scope_id f)) (FieldError ''access_scope_id''),
         raise_if (\<not> is_sha256 (fc_source_scope_hash f)) (FieldError ''source_scope_hash''),
         raise_if (\<not> identifier_field 128 (fc_model_profile_key f)) (FieldError ''model_profile_key''),
         raise_if (fc_model_profile_revision f < 1) (FieldError ''model_profile_revision''),
         raise_if (fc_pricing_observed_at_epoch_us f < 0) (FieldError ''pricing_observed_at_epoch_us''),
         raise_if (fc_item_count f < 1) (FieldError ''item_count''),
         raise_if (\<not> opt_field (\<lambda>n. n \<ge> 0) (fc_low_shadow_cost_microunits f)) (FieldError ''low_shadow_cost_microunits''),
         raise_if (\<not> opt_field (\<lambda>n. n \<ge> 0) (fc_expected_shadow_cost_microunits f))
           (FieldError ''expected_shadow_cost_microunits''),
         raise_if (\<not> opt_field (\<lambda>n. n \<ge> 0) (fc_high_shadow_cost_microunits f)) (FieldError ''high_shadow_cost_microunits''),
         raise_if (\<not> opt_field (\<lambda>n. n \<ge> 0) (fc_incremental_cash_exposure_microunits f))
           (FieldError ''incremental_cash_exposure_microunits''),
         raise_if (\<not> opt_field (\<lambda>n. n \<ge> 0) (fc_safety_ceiling_microunits f)) (FieldError ''safety_ceiling_microunits''),
         raise_if (fc_expected_completion_low_ms f < 0) (FieldError ''expected_completion_low_ms''),
         raise_if (fc_expected_completion_high_ms f < 0) (FieldError ''expected_completion_high_ms''),
         raise_if (\<not> is_sha256 (fc_queue_effect_hash f)) (FieldError ''queue_effect_hash''),
         raise_if (\<not> is_sha256 (fc_assumptions_hash f)) (FieldError ''assumptions_hash''),
         forecast_range_check f,
         raise_if (fc_expected_completion_low_ms f > fc_expected_completion_high_ms f)
           (ValueError ''forecast completion range must be ordered'')]
        @ forecast_cash_checks f) f"

record forecast_approval =
  fv_approval_id :: uuid
  fv_forecast_id :: uuid
  fv_forecast_hash :: string
  fv_source_scope_hash :: string
  fv_assumptions_hash :: string
  fv_quality_policy_revision_id :: uuid
  fv_model_profile_key :: string
  fv_model_profile_revision :: int
  fv_safety_ceiling_microunits :: "int option"
  fv_approved_by_principal_id :: string
  fv_idempotency_key :: string

definition make_forecast_approval :: "forecast_approval \<Rightarrow> forecast_approval result" where
  "make_forecast_approval a =
     validated
       [raise_if (\<not> is_sha256 (fv_forecast_hash a)) (FieldError ''forecast_hash''),
        raise_if (\<not> is_sha256 (fv_source_scope_hash a)) (FieldError ''source_scope_hash''),
        raise_if (\<not> is_sha256 (fv_assumptions_hash a)) (FieldError ''assumptions_hash''),
        raise_if (\<not> identifier_field 128 (fv_model_profile_key a)) (FieldError ''model_profile_key''),
        raise_if (fv_model_profile_revision a < 1) (FieldError ''model_profile_revision''),
        raise_if (\<not> opt_field (\<lambda>n. n \<ge> 0) (fv_safety_ceiling_microunits a)) (FieldError ''safety_ceiling_microunits''),
        raise_if (\<not> text_field 1 128 (fv_approved_by_principal_id a)) (FieldError ''approved_by_principal_id''),
        raise_if (\<not> is_sha256 (fv_idempotency_key a)) (FieldError ''idempotency_key'')] a"

section \<open>Refusals\<close>

text \<open>The code of each deterministic refusal, by its exact message; the setting is left out.\<close>

definition ACCOUNTING_CONFIGURATION_REFUSALS :: "(string \<times> string) list" where
  "ACCOUNTING_CONFIGURATION_REFUSALS =
     [(''pinned pricing revision is unavailable'', ''accounting.pricing_revision_unavailable''),
      (''provider reservation is not conservative'', ''accounting.reservation_not_conservative''),
      (''dollar ceiling has no enforceable cash basis'', ''accounting.ceiling_cash_basis_missing''),
      (''prior request has no enforceable cash basis'', ''accounting.prior_request_cash_basis_missing''),
      (''quality-first policy revision is unavailable'', ''accounting.quality_policy_unavailable''),
      (''lower-tier profile lacks frozen qualification'', ''accounting.lower_tier_unqualified''),
      (''provider transport request boundary is not visible'', ''accounting.transport_retries_enabled'')]"

definition accounting_configuration_refusal :: "string \<Rightarrow> string option" where
  "accounting_configuration_refusal message = map_of ACCOUNTING_CONFIGURATION_REFUSALS message"

end
