(* ===== verification/ManagedDispatch.thy ===== *)
theory ManagedDispatch
  imports Accounting
begin

text \<open>
  \<open>application/managed_dispatch.py\<close> with the intents and usage events of
  \<open>application/model_accounting.py\<close>: observable turns of a managed provider beside single inferences,
  the supervision that approves them, and what is accounted of a turn.
\<close>

section \<open>Targets and supervision\<close>

text \<open>The fields of one admissible value are left out.\<close>

record managed_target =
  mg_provider_key :: string
  mg_credential_id :: uuid
  mg_model_id :: string
  mg_billing_basis :: billing_basis
  mg_allowance_state :: allowance_state
  mg_pricing_revision_id :: "uuid option"
  mg_quality_policy_revision_id :: uuid
  mg_quality_tier :: quality_tier
  mg_request_boundary_revision :: string
  mg_usage_provenance :: usage_provenance

definition make_managed_target :: "managed_target \<Rightarrow> managed_target result" where
  "make_managed_target t =
     validated
       [raise_if (\<not> identifier_field 128 (mg_provider_key t)) (FieldError ''provider_key''),
        raise_if (\<not> text_field 1 255 (mg_model_id t)) (FieldError ''model_id''),
        raise_if (\<not> identifier_field 128 (mg_request_boundary_revision t)) (FieldError ''request_boundary_revision''),
        (if mg_billing_basis t = BILL_SUBSCRIPTION
         then raise_if (mg_allowance_state t \<notin> {ALLOW_COVERED, ALLOW_AVAILABLE})
                (ValueError ''managed subscription qualification requires known allowance'')
         else raise_if (mg_allowance_state t = ALLOW_COVERED)
                (ValueError ''covered allowance is subscription-only''))] t"

datatype dispatch_target = SingleInference request_target | ManagedTurn managed_target

fun make_dispatch_target :: "dispatch_target \<Rightarrow> dispatch_target result" where
  "make_dispatch_target (SingleInference t) = bindE (make_request_target t) (\<lambda>t. Inr (SingleInference t))"
| "make_dispatch_target (ManagedTurn t) = bindE (make_managed_target t) (\<lambda>t. Inr (ManagedTurn t))"

fun is_managed :: "dispatch_target \<Rightarrow> bool" where
  "is_managed (SingleInference t) = False"
| "is_managed (ManagedTurn t) = True"

fun target_billing_basis :: "dispatch_target \<Rightarrow> billing_basis" where
  "target_billing_basis (SingleInference t) = pt_billing_basis t"
| "target_billing_basis (ManagedTurn t) = mg_billing_basis t"

fun target_pricing :: "dispatch_target \<Rightarrow> uuid option" where
  "target_pricing (SingleInference t) = pt_pricing_revision_id t"
| "target_pricing (ManagedTurn t) = mg_pricing_revision_id t"

fun target_provenance :: "dispatch_target \<Rightarrow> usage_provenance" where
  "target_provenance (SingleInference t) = pt_usage_provenance t"
| "target_provenance (ManagedTurn t) = mg_usage_provenance t"

record supervised_route =
  sr_reference :: model_profile
  sr_target :: dispatch_target
  sr_qualification_revision :: string

definition make_supervised_route :: "supervised_route \<Rightarrow> supervised_route result" where
  "make_supervised_route r =
     validated
       [nested (make_model_profile (sr_reference r)),
        nested (make_dispatch_target (sr_target r)),
        raise_if (\<not> identifier_field 128 (sr_qualification_revision r)) (FieldError ''qualification_revision'')] r"

record supervised_qualification =
  sq_qualification_id :: uuid
  sq_semantic_task_id :: uuid
  sq_routes :: "supervised_route list"
  sq_deadline :: datetime
  sq_reported_input_token_stop :: int
  sq_reported_generated_token_stop :: int
  sq_reported_cash_stop_microunits :: "int option"

fun is_naive :: "datetime \<Rightarrow> bool" where
  "is_naive (Aware t) = False"
| "is_naive (Naive t) = True"

definition make_supervised_qualification :: "supervised_qualification \<Rightarrow> supervised_qualification result" where
  "make_supervised_qualification q =
     validated
       [raise_if (sq_routes q = [] \<or> length (sq_routes q) > 2) (FieldError ''routes''),
        nested_list make_supervised_route (sq_routes q),
        raise_if (sq_reported_input_token_stop q < 1) (FieldError ''reported_input_token_stop''),
        raise_if (sq_reported_generated_token_stop q < 1) (FieldError ''reported_generated_token_stop''),
        raise_if (\<not> opt_field (\<lambda>n. n \<ge> 0) (sq_reported_cash_stop_microunits q))
          (FieldError ''reported_cash_stop_microunits''),
        raise_if (is_naive (sq_deadline q)) (ValueError ''qualification requires an absolute aware deadline''),
        raise_if (\<not> list_all (\<lambda>r. is_managed (sr_target r)) (take 1 (sq_routes q)))
          (ValueError ''first route must be the managed turn''),
        raise_if (length (sq_routes q) = 2 \<and> sr_reference (sq_routes q ! 0) = sr_reference (sq_routes q ! 1))
          (ValueError ''qualification routes require distinct exact profiles'')] q"

section \<open>Intents\<close>

text \<open>
  \<open>ProviderRequestIntent\<close> and its two subclasses as one record: \<open>in_supervision\<close> holds the
  qualification and its revision of a supervised class, and a managed target makes the class
  \<open>ManagedDispatchIntent\<close>.
\<close>

record request_intent =
  in_request_id :: uuid
  in_tenant_id :: string
  in_workspace_id :: string
  in_access_scope_id :: string
  in_semantic_task_id :: "string option"
  in_semantic_attempt_id :: "string option"
  in_retrieval_execution_id :: "uuid option"
  in_run_id :: string
  in_parent_run_id :: "string option"
  in_run_role :: string
  in_module_key :: string
  in_operation_key :: string
  in_task_kind :: string
  in_task_contract_revision :: int
  in_origin_principal_id :: string
  in_origin_delegation_id :: "string option"
  in_policy_revision :: int
  in_model_profile_key :: string
  in_model_profile_revision :: int
  in_request_sequence :: int
  in_target :: dispatch_target
  in_safety_ceiling_microunits :: "int option"
  in_conservative_reservation_microunits :: int
  in_max_input_tokens :: "int option"
  in_max_output_tokens :: "int option"
  in_request_payload_hash :: string
  in_supervision :: "(supervised_qualification \<times> string) option"

definition intent_fields :: "request_intent \<Rightarrow> py_error option list" where
  "intent_fields i =
     [raise_if (\<not> text_field 1 128 (in_tenant_id i)) (FieldError ''tenant_id''),
      raise_if (\<not> text_field 1 128 (in_workspace_id i)) (FieldError ''workspace_id''),
      raise_if (\<not> text_field 1 128 (in_access_scope_id i)) (FieldError ''access_scope_id''),
      raise_if (\<not> opt_field (text_field 1 128) (in_semantic_task_id i)) (FieldError ''semantic_task_id''),
      raise_if (\<not> opt_field (text_field 1 128) (in_semantic_attempt_id i)) (FieldError ''semantic_attempt_id''),
      raise_if (\<not> identifier_field 128 (in_run_id i)) (FieldError ''run_id''),
      raise_if (\<not> opt_field (identifier_field 128) (in_parent_run_id i)) (FieldError ''parent_run_id''),
      raise_if (\<not> identifier_field 64 (in_run_role i)) (FieldError ''run_role''),
      raise_if (\<not> identifier_field 128 (in_module_key i)) (FieldError ''module_key''),
      raise_if (\<not> identifier_field 128 (in_operation_key i)) (FieldError ''operation_key''),
      raise_if (\<not> identifier_field 128 (in_task_kind i)) (FieldError ''task_kind''),
      raise_if (in_task_contract_revision i < 1) (FieldError ''task_contract_revision''),
      raise_if (\<not> text_field 1 128 (in_origin_principal_id i)) (FieldError ''origin_principal_id''),
      raise_if (\<not> opt_field (text_field 1 128) (in_origin_delegation_id i)) (FieldError ''origin_delegation_id''),
      raise_if (in_policy_revision i < 1) (FieldError ''policy_revision''),
      raise_if (\<not> identifier_field 128 (in_model_profile_key i)) (FieldError ''model_profile_key''),
      raise_if (in_model_profile_revision i < 1) (FieldError ''model_profile_revision''),
      raise_if (in_request_sequence i < 1) (FieldError ''request_sequence''),
      nested (make_dispatch_target (in_target i)),
      raise_if (\<not> is_sha256 (in_request_payload_hash i)) (FieldError ''request_payload_hash''),
      (case in_supervision i of
         None \<Rightarrow> None
       | Some (q, revision) \<Rightarrow>
           first_error [nested (make_supervised_qualification q),
             raise_if (\<not> identifier_field 128 revision) (FieldError ''qualification_revision'')])]"

text \<open>\<open>require_one_execution_authority\<close> of the bounded classes, with the bounds as numbers.\<close>

definition bounded_intent_checks :: "request_intent \<Rightarrow> request_target \<Rightarrow> py_error option list" where
  "bounded_intent_checks i t =
     (let metered = (pt_billing_basis t = BILL_METERED);
          semantic = (in_semantic_task_id i \<noteq> None \<and> in_semantic_attempt_id i \<noteq> None)
      in [raise_if (\<not> opt_field (\<lambda>n. n \<ge> 0) (in_safety_ceiling_microunits i)) (FieldError ''safety_ceiling_microunits''),
          raise_if (in_conservative_reservation_microunits i < 0)
            (FieldError ''conservative_reservation_microunits''),
          raise_if (case in_max_input_tokens i of None \<Rightarrow> True | Some n \<Rightarrow> n < 1) (FieldError ''max_input_tokens''),
          raise_if (case in_max_output_tokens i of None \<Rightarrow> True | Some n \<Rightarrow> n < 1) (FieldError ''max_output_tokens''),
          raise_if (semantic = (in_retrieval_execution_id i \<noteq> None))
            (ValueError ''exactly one semantic task attempt or retrieval execution is required''),
          raise_if ((in_semantic_task_id i = None) \<noteq> (in_semantic_attempt_id i = None))
            (ValueError ''semantic task and attempt must be recorded together''),
          raise_if (metered \<and> in_safety_ceiling_microunits i \<noteq> None \<and> pt_pricing_revision_id t = None)
            (ValueError ''a dollar safety ceiling requires a pinned pricing revision''),
          raise_if (metered \<and> in_safety_ceiling_microunits i \<noteq> None \<and> in_conservative_reservation_microunits i \<le> 0)
            (ValueError ''metered requests with a safety ceiling require a reservation''),
          raise_if (metered \<and> pt_pricing_revision_id t = None \<and> in_conservative_reservation_microunits i \<noteq> 0)
            (ValueError ''unpriced requests cannot claim a cash reservation''),
          raise_if (in_safety_ceiling_microunits i \<noteq> None
              \<and> \<not> (metered \<and> pt_pricing_revision_id t \<noteq> None
                   \<or> pt_billing_basis t = BILL_SUBSCRIPTION \<and> pt_allowance_state t = ALLOW_COVERED))
            (ValueError ''a dollar safety ceiling requires a known incremental cash basis''),
          raise_if (in_max_input_tokens i \<noteq> Some (pt_max_input_tokens_per_request t))
            (ValueError ''input reservation must use the certified target bound''),
          raise_if (case in_max_output_tokens i of None \<Rightarrow> False | Some n \<Rightarrow> n > pt_max_output_tokens_per_request t)
            (ValueError ''output reservation exceeds the certified target bound'')])"

definition managed_intent_checks :: "request_intent \<Rightarrow> py_error option list" where
  "managed_intent_checks i =
     [raise_if (in_max_input_tokens i \<noteq> None) (FieldError ''max_input_tokens''),
      raise_if (in_max_output_tokens i \<noteq> None) (FieldError ''max_output_tokens''),
      raise_if (in_safety_ceiling_microunits i \<noteq> None) (FieldError ''safety_ceiling_microunits''),
      raise_if (in_conservative_reservation_microunits i \<noteq> 0) (FieldError ''conservative_reservation_microunits''),
      raise_if (in_supervision i = None) (FieldError ''supervision''),
      raise_if (in_semantic_task_id i = None \<or> in_semantic_attempt_id i = None \<or> in_retrieval_execution_id i \<noteq> None)
        (ValueError ''managed dispatch requires one exact semantic task attempt''),
      raise_if (case in_supervision i of None \<Rightarrow> False
          | Some (q, _) \<Rightarrow> Some (uuid_str (sq_semantic_task_id q)) \<noteq> in_semantic_task_id i)
        (ValueError ''managed dispatch qualification names another task'')]"

definition make_request_intent :: "request_intent \<Rightarrow> request_intent result" where
  "make_request_intent i =
     validated
       (intent_fields i @ (case in_target i of
          SingleInference t \<Rightarrow> bounded_intent_checks i t
        | ManagedTurn t \<Rightarrow> managed_intent_checks i)) i"

section \<open>Observations\<close>

record inference_observation =
  io_request_id_hash :: string
  io_usage :: "normalized_usage option"
  io_provenance :: usage_provenance

definition make_inference_observation :: "inference_observation \<Rightarrow> inference_observation result" where
  "make_inference_observation r =
     validated
       [raise_if (\<not> is_sha256 (io_request_id_hash r)) (FieldError ''request_id_hash''),
        nested_opt make_normalized_usage (io_usage r),
        raise_if ((io_usage r = None) \<noteq> (io_provenance r = PROV_UNAVAILABLE))
          (ValueError ''request observation must state unavailable usage explicitly'')] r"

datatype count_basis = COUNT_PROVIDER_REPORTED | COUNT_HOST_OBSERVED | COUNT_UNKNOWN

record managed_observation =
  mo_turn_completed :: bool
  mo_underlying_inference_count :: "int option"
  mo_inference_count_basis :: count_basis
  mo_reported_total :: "normalized_usage option"
  mo_estimated_total :: "normalized_usage option"
  mo_request_observations :: "inference_observation list"
  mo_request_observations_complete :: bool

definition default_observation :: managed_observation where
  "default_observation =
     \<lparr>mo_turn_completed = False, mo_underlying_inference_count = None,
      mo_inference_count_basis = COUNT_UNKNOWN, mo_reported_total = None, mo_estimated_total = None,
      mo_request_observations = [], mo_request_observations_complete = False\<rparr>"

definition summed_usage :: "normalized_usage list \<Rightarrow> normalized_usage" where
  "summed_usage us =
     \<lparr>nu_input_tokens = sum_list (map nu_input_tokens us), nu_output_tokens = sum_list (map nu_output_tokens us),
      nu_total_tokens = sum_list (map nu_total_tokens us),
      nu_cached_input_tokens = sum_list (map nu_cached_input_tokens us),
      nu_cache_write_tokens = sum_list (map nu_cache_write_tokens us),
      nu_reasoning_tokens = sum_list (map nu_reasoning_tokens us),
      nu_tool_calls = sum_list (map nu_tool_calls us)\<rparr>"

definition request_total :: "managed_observation \<Rightarrow> (normalized_usage option \<times> usage_provenance) result" where
  "request_total ob =
     (let rs = mo_request_observations ob
      in if \<not> mo_request_observations_complete ob \<or> list_ex (\<lambda>r. io_usage r = None) rs
         then Inr (None, PROV_UNAVAILABLE)
         else bindE (make_normalized_usage (summed_usage (map (the \<circ> io_usage) rs)))
                (\<lambda>aggregate. Inr (Some aggregate,
                   if list_all (\<lambda>r. io_provenance r = PROV_PROVIDER_REPORTED) rs
                   then PROV_PROVIDER_REPORTED else PROV_FRAMEWORK_ESTIMATED)))"

definition observation_counts_check :: "managed_observation \<Rightarrow> py_error option" where
  "observation_counts_check ob =
     (let ids = map io_request_id_hash (mo_request_observations ob);
          count = mo_underlying_inference_count ob
      in first_error
       [raise_if ((count = None) \<noteq> (mo_inference_count_basis ob = COUNT_UNKNOWN))
          (ValueError ''unknown inference count must remain null''),
        raise_if (\<not> distinct ids) (ValueError ''duplicate inference observations''),
        raise_if (\<not> opt_field (\<lambda>n. int (length ids) \<le> n) count)
          (ValueError ''observations exceed declared inference count''),
        (if mo_request_observations_complete ob
         then first_error
           [raise_if (mo_inference_count_basis ob \<noteq> COUNT_HOST_OBSERVED \<or> count \<noteq> Some (int (length ids)))
              (ValueError ''complete request observations require an observed exact count''),
            (case request_total ob of
               Inl e \<Rightarrow> Some e
             | Inr (aggregate, provenance) \<Rightarrow>
                 raise_if (mo_reported_total ob \<noteq> None \<and> provenance = PROV_PROVIDER_REPORTED
                     \<and> aggregate \<noteq> mo_reported_total ob)
                   (ValueError ''complete reported requests disagree with reported total''))]
         else None)])"

definition make_managed_observation :: "managed_observation \<Rightarrow> managed_observation result" where
  "make_managed_observation ob =
     validated
       [raise_if (\<not> opt_field (\<lambda>n. n \<ge> 0) (mo_underlying_inference_count ob)) (FieldError ''underlying_inference_count''),
        nested_opt make_normalized_usage (mo_reported_total ob),
        nested_opt make_normalized_usage (mo_estimated_total ob),
        raise_if (length (mo_request_observations ob) > 64) (FieldError ''request_observations''),
        nested_list make_inference_observation (mo_request_observations ob),
        observation_counts_check ob] ob"

definition accounted_total :: "managed_observation \<Rightarrow> (normalized_usage option \<times> usage_provenance) result" where
  "accounted_total ob =
     (case mo_reported_total ob of
        Some aggregate \<Rightarrow> Inr (Some aggregate, PROV_PROVIDER_REPORTED)
      | None \<Rightarrow>
          bindE (request_total ob) (\<lambda>(aggregate, provenance).
            if aggregate \<noteq> None then Inr (aggregate, provenance)
            else if mo_estimated_total ob \<noteq> None then Inr (mo_estimated_total ob, PROV_FRAMEWORK_ESTIMATED)
            else Inr (None, PROV_UNAVAILABLE)))"

section \<open>Usage events\<close>

text \<open>\<open>ModelUsageEvent\<close>, and \<open>ManagedUsageEvent\<close> when \<open>ue_observation\<close> is given.\<close>

record usage_event =
  ue_event_id :: uuid
  ue_request_id :: uuid
  ue_dedupe_key :: string
  ue_event_kind :: usage_event_kind
  ue_outcome :: request_outcome
  ue_usage_state :: usage_state
  ue_usage_provenance :: usage_provenance
  ue_usage :: "normalized_usage option"
  ue_provider_reported_cost_microunits :: "int option"
  ue_provider_reported_currency :: "string option"
  ue_provider_request_id_hash :: "string option"
  ue_diagnostic_code :: "string option"
  ue_observation :: "managed_observation option"

fun required_outcome :: "usage_event_kind \<Rightarrow> request_outcome" where
  "required_outcome USAGE_REPORTED = OUT_SUCCEEDED"
| "required_outcome USAGE_UNAVAILABLE = OUT_SUCCEEDED"
| "required_outcome REQUEST_FAILED = OUT_FAILED"
| "required_outcome REQUEST_CANCELLED = OUT_CANCELLED"
| "required_outcome LEASE_LOST_RETURN = OUT_LEASE_LOST"

definition usage_state_checks :: "usage_event \<Rightarrow> py_error option list" where
  "usage_state_checks e =
     [raise_if (ue_usage_state e = STATE_REPORTED \<and> ue_usage e = None)
        (ValueError ''reported usage requires normalized units''),
      raise_if (ue_usage_state e = STATE_UNAVAILABLE \<and> ue_usage e \<noteq> None)
        (ValueError ''unavailable usage cannot carry normalized units''),
      raise_if (ue_usage_state e = STATE_UNAVAILABLE \<and> ue_usage_provenance e \<noteq> PROV_UNAVAILABLE)
        (ValueError ''unavailable usage requires unavailable provenance''),
      raise_if (ue_usage_state e = STATE_REPORTED \<and> ue_usage_provenance e = PROV_UNAVAILABLE)
        (ValueError ''reported usage requires a known provenance''),
      raise_if ((ue_provider_reported_cost_microunits e = None) \<noteq> (ue_provider_reported_currency e = None))
        (ValueError ''provider-reported cost and currency are atomic''),
      raise_if (ue_event_kind e = USAGE_REPORTED \<and> ue_usage_state e \<noteq> STATE_REPORTED)
        (ValueError ''usage_reported requires reported usage''),
      raise_if (ue_event_kind e = USAGE_UNAVAILABLE \<and> ue_usage_state e \<noteq> STATE_UNAVAILABLE)
        (ValueError ''usage_unavailable requires unavailable usage''),
      raise_if (ue_outcome e \<noteq> required_outcome (ue_event_kind e))
        (ValueError ''usage event kind and request outcome disagree'')]"

definition make_usage_event :: "usage_event \<Rightarrow> usage_event result" where
  "make_usage_event e =
     validated
       ([raise_if (\<not> is_sha256 (ue_dedupe_key e)) (FieldError ''dedupe_key''),
         nested_opt make_normalized_usage (ue_usage e),
         raise_if (\<not> opt_field (\<lambda>n. n \<ge> 0) (ue_provider_reported_cost_microunits e))
           (FieldError ''provider_reported_cost_microunits''),
         raise_if (\<not> opt_field (\<lambda>c. c = ''USD'') (ue_provider_reported_currency e))
           (FieldError ''provider_reported_currency''),
         raise_if (\<not> opt_field is_sha256 (ue_provider_request_id_hash e)) (FieldError ''provider_request_id_hash''),
         raise_if (\<not> opt_field (identifier_field 128) (ue_diagnostic_code e)) (FieldError ''diagnostic_code''),
         nested_opt make_managed_observation (ue_observation e)]
        @ usage_state_checks e
        @ [case ue_observation e of
             None \<Rightarrow> None
           | Some ob \<Rightarrow>
               (case accounted_total ob of
                  Inl err \<Rightarrow> Some err
                | Inr (aggregate, provenance) \<Rightarrow>
                    raise_if (ue_usage e \<noteq> aggregate \<or> ue_usage_provenance e \<noteq> provenance)
                      (ValueError ''accounting must select one aggregate without double counting''))]) e"

end
