(* ===== verification/RunTree.thy ===== *)
theory RunTree
  imports ManagedDispatch
begin

text \<open>
  \<open>infrastructure/models/pydanticai_executor.py\<close>, first part: the errors of a run, the normalization of
  failures, the budget and the terminal state that the agents of one run tree share (\<open>_TreeState\<close>), and
  the profiles a model may be called under. Each method of the tree runs under a lock of the event
  loop without awaiting anything, so it is one step on the tree.
\<close>

section \<open>Errors and failures\<close>

record run_failure =
  rf_status :: result_status
  rf_error_code :: string

text \<open>
  The classes that \<open>_normalize_failure\<close> tells apart; \<open>TaskCancelled\<close> is \<open>asyncio.CancelledError\<close>, which
  is no \<open>Exception\<close>, and \<open>AllowanceUnavailable\<close> and \<open>AccountingConfiguration\<close> carry their code.
\<close>

datatype run_exception =
    CompleteInputError result_status string
  | TreeFailure run_failure
  | UsageLimitExceeded
  | CostSafetyCeilingExceeded
  | AllowanceUnavailable string
  | AccountingConfiguration string
  | AccountingPersistence
  | RunCancelled
  | ProviderRequestTimeout
  | TimeoutError
  | ContentFilterError
  | ModelHTTPError int
  | ModelAPIError
  | ConcurrencyLimitExceeded
  | EvidenceGuardError string
  | EventSinkError
  | RuntimeContractError string
  | InvalidOutput
  | UnexpectedError
  | TaskCancelled

definition provider_http_code :: "int \<Rightarrow> string" where
  "provider_http_code status =
     (if status = 429 then ''provider.rate_limited''
      else if status \<ge> 500 then ''provider.server_error'' else ''provider.http_error'')"

fun normalize_failure :: "run_exception \<Rightarrow> run_failure" where
  "normalize_failure (CompleteInputError status code) = \<lparr>rf_status = status, rf_error_code = code\<rparr>"
| "normalize_failure (TreeFailure f) = f"
| "normalize_failure UsageLimitExceeded = \<lparr>rf_status = RS_BUDGET_EXHAUSTED, rf_error_code = ''runtime.usage_limit''\<rparr>"
| "normalize_failure CostSafetyCeilingExceeded =
     \<lparr>rf_status = RS_BUDGET_EXHAUSTED, rf_error_code = ''accounting.cost_safety_ceiling''\<rparr>"
| "normalize_failure (AllowanceUnavailable code) = \<lparr>rf_status = RS_POLICY_PAUSED, rf_error_code = code\<rparr>"
| "normalize_failure (AccountingConfiguration code) = \<lparr>rf_status = RS_POLICY_PAUSED, rf_error_code = code\<rparr>"
| "normalize_failure AccountingPersistence =
     \<lparr>rf_status = RS_UNAVAILABLE, rf_error_code = ''accounting.persistence_failed''\<rparr>"
| "normalize_failure RunCancelled = \<lparr>rf_status = RS_CANCELLED, rf_error_code = ''runtime.cancelled''\<rparr>"
| "normalize_failure ProviderRequestTimeout = \<lparr>rf_status = RS_UNAVAILABLE, rf_error_code = ''provider.timeout''\<rparr>"
| "normalize_failure TimeoutError = \<lparr>rf_status = RS_UNAVAILABLE, rf_error_code = ''runtime.dependency_timeout''\<rparr>"
| "normalize_failure ContentFilterError = \<lparr>rf_status = RS_FAILED, rf_error_code = ''provider.refusal''\<rparr>"
| "normalize_failure (ModelHTTPError status) =
     \<lparr>rf_status = (if status \<in> {408, 409, 425, 429} \<or> status \<ge> 500 then RS_UNAVAILABLE else RS_FAILED),
      rf_error_code = provider_http_code status\<rparr>"
| "normalize_failure ModelAPIError = \<lparr>rf_status = RS_UNAVAILABLE, rf_error_code = ''provider.api_error''\<rparr>"
| "normalize_failure ConcurrencyLimitExceeded =
     \<lparr>rf_status = RS_UNAVAILABLE, rf_error_code = ''runtime.concurrency_limit''\<rparr>"
| "normalize_failure (EvidenceGuardError code) =
     \<lparr>rf_status = (if code = ''runtime.evidence_budget_exhausted'' then RS_BUDGET_EXHAUSTED
                   else if code = ''runtime.evidence_stale'' then RS_STALE_INPUT
                   else if code = ''runtime.evidence_unavailable'' then RS_UNAVAILABLE
                   else RS_INVALID_OUTPUT),
      rf_error_code = code\<rparr>"
| "normalize_failure EventSinkError = \<lparr>rf_status = RS_FAILED, rf_error_code = ''runtime.event_sink_failed''\<rparr>"
| "normalize_failure (RuntimeContractError code) =
     \<lparr>rf_status = (if code = ''runtime.output_contract_mismatch'' then RS_INVALID_OUTPUT else RS_FAILED),
      rf_error_code = code\<rparr>"
| "normalize_failure InvalidOutput = \<lparr>rf_status = RS_INVALID_OUTPUT, rf_error_code = ''runtime.invalid_output''\<rparr>"
| "normalize_failure UnexpectedError = \<lparr>rf_status = RS_FAILED, rf_error_code = ''runtime.unexpected_error''\<rparr>"
| "normalize_failure TaskCancelled = \<lparr>rf_status = RS_FAILED, rf_error_code = ''runtime.unexpected_error''\<rparr>"

text \<open>
  \<open>_raise_accounting_error\<close>: what an error of the database becomes, by its text and the primary message
  of its diagnostics, if it has one.
\<close>

definition contains :: "string \<Rightarrow> string \<Rightarrow> bool" where
  "contains marker detail \<longleftrightarrow> list_ex (\<lambda>i. take (length marker) (drop i detail) = marker) [0..<Suc (length detail)]"

definition accounting_error :: "string \<Rightarrow> string option \<Rightarrow> run_exception" where
  "accounting_error detail primary =
     (if list_ex (\<lambda>marker. contains marker detail)
           [''supervised_qualification_unavailable'', ''supervised_route_mismatch'',
            ''supervised_dispatch_allowance_consumed'', ''supervised_prior_dispatch_unsettled_or_stop_reached'',
            ''supervised_prior_dispatch_outside_approval'', ''supervised_followup_exceeds_remaining_allowance'']
      then AllowanceUnavailable ''accounting.supervised_dispatch_unavailable''
      else if contains ''accounting.cost_safety_ceiling'' detail then CostSafetyCeilingExceeded
      else if contains ''accounting.required_model_allowance_unavailable'' detail
      then AllowanceUnavailable ''accounting.required_model_allowance_unavailable''
      else case accounting_configuration_refusal (case primary of None \<Rightarrow> detail | Some m \<Rightarrow> m) of
             Some code \<Rightarrow> AccountingConfiguration code
           | None \<Rightarrow> AccountingPersistence)"

section \<open>The state of a run tree\<close>

record source_delivery =
  dl_units :: int
  dl_content :: json

record classification_packet =
  cz_evidence :: "(int \<times> json) list"
  cz_content :: json

record run_tree =
  tree_delegate_calls :: nat
  tree_request_sequence :: nat
  tree_reserved_requests :: int
  tree_reserved_input_tokens :: int
  tree_reserved_output_tokens :: int
  tree_terminal_failure :: "run_failure option"
  tree_success_closed :: bool
  tree_token_cancelled :: bool
  tree_usage_requests :: int
  tree_usage_input_tokens :: int
  tree_usage_output_tokens :: int
  tree_delivered_source_units :: int
  tree_classification_request :: "(uuid \<times> string) option"
  tree_specialist_request :: "(uuid \<times> string) option"
  tree_complete_window :: "json option"
  tree_source_delivery :: "source_delivery option"
  tree_classification_packet :: "classification_packet option"
  tree_relation_packet :: "json option"
  tree_specialist_packet :: "json option"
  tree_repair_frame :: "string option"

record request_bounds =
  bd_input_tokens :: int
  bd_output_tokens :: int

type_synonym 'a tree_op = "run_tree \<Rightarrow> (run_exception + 'a) \<times> run_tree"

definition next_provider_request_sequence :: "run_budget \<Rightarrow> request_bounds option \<Rightarrow> nat tree_op" where
  "next_provider_request_sequence B bounds t =
     (let numbered = (\<lambda>t. (Inr (Suc (tree_request_sequence t)),
            t\<lparr>tree_request_sequence := Suc (tree_request_sequence t)\<rparr>))
      in case bounds of
           None \<Rightarrow> numbered t
         | Some b \<Rightarrow>
             (let inputs = tree_reserved_input_tokens t + bd_input_tokens b;
                  outputs = tree_reserved_output_tokens t + bd_output_tokens b
              in if tree_reserved_requests t \<ge> int (rb_request_limit B)
                    \<or> inputs > int (rb_input_token_limit B) \<or> outputs > int (rb_output_token_limit B)
                    \<or> inputs + outputs > int (rb_total_token_limit B)
                 then (Inl UsageLimitExceeded, t)
                 else numbered (t\<lparr>tree_reserved_requests := tree_reserved_requests t + 1,
                        tree_reserved_input_tokens := inputs, tree_reserved_output_tokens := outputs\<rparr>)))"

definition fail_tree :: "run_failure \<Rightarrow> run_tree \<Rightarrow> run_tree" where
  "fail_tree f t = t\<lparr>tree_terminal_failure := Some f, tree_token_cancelled := True\<rparr>"

definition reserve_delegate :: "run_budget \<Rightarrow> unit tree_op" where
  "reserve_delegate B t =
     (case tree_terminal_failure t of
        Some f \<Rightarrow> (Inl (TreeFailure f), t)
      | None \<Rightarrow>
          if rb_max_parallel_delegates B < 1 \<or> tree_delegate_calls t \<ge> rb_max_delegate_calls B
          then (let f = \<lparr>rf_status = RS_BUDGET_EXHAUSTED, rf_error_code = ''runtime.delegate_call_limit''\<rparr>
                in (Inl (TreeFailure f), fail_tree f t))
          else (Inr (), t\<lparr>tree_delegate_calls := tree_delegate_calls t + 1\<rparr>))"

definition set_terminal :: "run_failure \<Rightarrow> run_failure tree_op" where
  "set_terminal f t =
     (case tree_terminal_failure t of Some g \<Rightarrow> (Inr g, t) | None \<Rightarrow> (Inr f, fail_tree f t))"

definition stop_failure :: "bool \<Rightarrow> bool \<Rightarrow> run_failure option" where
  "stop_failure cancelled overdue =
     (if cancelled then Some \<lparr>rf_status = RS_CANCELLED, rf_error_code = ''runtime.cancelled''\<rparr>
      else if overdue then Some \<lparr>rf_status = RS_BUDGET_EXHAUSTED, rf_error_code = ''runtime.wall_clock_limit''\<rparr>
      else None)"

text \<open>The signal of the task and the clock are read under the lock.\<close>

definition close_for_success :: "bool \<Rightarrow> bool \<Rightarrow> unit tree_op" where
  "close_for_success cancelled overdue t =
     (case tree_terminal_failure t of
        Some f \<Rightarrow> (Inl (TreeFailure f), t)
      | None \<Rightarrow>
          (case stop_failure cancelled overdue of
             None \<Rightarrow> (Inr (), t\<lparr>tree_success_closed := True\<rparr>)
           | Some f \<Rightarrow> (Inl (TreeFailure f), fail_tree f t)))"

definition cancel_from_external_signal :: "bool tree_op" where
  "cancel_from_external_signal t =
     (if tree_success_closed t then (Inr False, t)
      else if tree_terminal_failure t = None
      then (Inr True, fail_tree \<lparr>rf_status = RS_CANCELLED, rf_error_code = ''runtime.cancelled''\<rparr> t)
      else (Inr True, t))"

definition require_open :: "unit tree_op" where
  "require_open t =
     (case tree_terminal_failure t of Some f \<Rightarrow> (Inl (TreeFailure f), t) | None \<Rightarrow> (Inr (), t))"

definition require_dispatch_open :: "bool \<Rightarrow> bool \<Rightarrow> unit tree_op" where
  "require_dispatch_open cancelled overdue t =
     (case tree_terminal_failure t of
        Some f \<Rightarrow> (Inl (TreeFailure f), t)
      | None \<Rightarrow>
          (case stop_failure cancelled overdue of
             None \<Rightarrow> (Inr (), t)
           | Some f \<Rightarrow> (Inl (TreeFailure f), fail_tree f t)))"

section \<open>Profiles and admissions\<close>

datatype provider_class = Characterized | BoundedProvider | ManagedProvider | OtherModel

record provider_model =
  pm_identity :: nat
  pm_class :: provider_class

text \<open>\<open>RealModelAdmission\<close>, and \<open>ManagedModelAdmission\<close> when \<open>am_managed\<close> holds.\<close>

record model_admission =
  ma_managed :: bool
  ma_model :: provider_model
  ma_reference :: model_profile
  ma_request_target :: dispatch_target
  ma_qualification_revision :: string

definition make_model_admission :: "model_admission \<Rightarrow> model_admission result" where
  "make_model_admission a =
     validated
       (if ma_managed a
        then [raise_if (pm_class (ma_model a) \<noteq> ManagedProvider \<or> \<not> is_identifier (ma_qualification_revision a))
                (ValueError ''managed admission requires exact interface and qualification'')]
        else [raise_if (pm_class (ma_model a) \<noteq> BoundedProvider)
                (ValueError ''admission requires the bounded transport interface''),
              raise_if (\<not> is_identifier (ma_qualification_revision a))
                (ValueError ''admission requires a stable qualification revision'')]) a"

record profile_binding =
  pb_reference :: model_profile
  pb_model :: provider_model
  pb_max_running :: int
  pb_max_queued :: int
  pb_request_target :: dispatch_target
  pb_conservative_reservation_microunits :: int
  pb_admission :: "model_admission option"
  pb_supervision :: "supervised_qualification option"

definition managed_admission :: "profile_binding \<Rightarrow> bool" where
  "managed_admission b \<longleftrightarrow> (case pb_admission b of None \<Rightarrow> False | Some a \<Rightarrow> ma_managed a)"

definition binding_admission_check :: "profile_binding \<Rightarrow> py_error option" where
  "binding_admission_check b =
     (case pb_admission b of
        None \<Rightarrow> raise_if (pm_class (pb_model b) \<noteq> Characterized)
          (ValueError ''real models require explicit bounded admission'')
      | Some a \<Rightarrow> raise_if (pm_identity (ma_model a) \<noteq> pm_identity (pb_model b) \<or> ma_reference a \<noteq> pb_reference b
            \<or> ma_request_target a \<noteq> pb_request_target b)
          (ValueError ''real-model admission does not match the exact binding''))"

definition supervision_check :: "profile_binding \<Rightarrow> py_error option" where
  "supervision_check b =
     (case pb_supervision b of
        None \<Rightarrow> None
      | Some q \<Rightarrow>
          raise_if (case pb_admission b of
              None \<Rightarrow> True
            | Some a \<Rightarrow> \<not> list_ex (\<lambda>r. sr_reference r = pb_reference b \<and> sr_target r = pb_request_target b
                \<and> sr_qualification_revision r = ma_qualification_revision a) (sq_routes q))
            (ValueError ''supervision does not approve this exact route and qualification''))"

definition make_profile_binding :: "profile_binding \<Rightarrow> profile_binding result" where
  "make_profile_binding b =
     (let managed = managed_admission b; reservation = pb_conservative_reservation_microunits b;
          metered = (target_billing_basis (pb_request_target b) = BILL_METERED);
          priced = (target_pricing (pb_request_target b) \<noteq> None)
      in validated
       [raise_if (pb_max_running b < 1 \<or> pb_max_queued b < 0)
          (ValueError ''model concurrency limits must be bounded and non-negative''),
        binding_admission_check b,
        raise_if (is_managed (pb_request_target b) \<noteq> managed)
          (ValueError ''managed target requires exact managed admission''),
        raise_if (managed \<and> (pb_supervision b = None \<or> reservation \<noteq> 0))
          (ValueError ''managed admission requires explicit supervision, not a hard cash reservation''),
        supervision_check b,
        raise_if (reservation < 0) (ValueError ''provider cost reservation cannot be negative''),
        raise_if (\<not> managed \<and> metered \<and> priced \<and> reservation \<le> 0)
          (ValueError ''metered profiles require a conservative reservation''),
        raise_if (metered \<and> \<not> priced \<and> reservation \<noteq> 0)
          (ValueError ''unpriced profiles cannot claim a cash reservation'')] b)"

type_synonym profile_key = "string \<times> nat"

definition profile_key_of :: "model_profile \<Rightarrow> profile_key" where
  "profile_key_of p = (mp_profile_key p, mp_revision p)"

fun bind_profiles :: "profile_binding list \<Rightarrow> (profile_key \<times> profile_binding) list
    \<Rightarrow> (profile_key \<times> profile_binding) list result" where
  "bind_profiles [] resolved = Inr resolved"
| "bind_profiles (b # bs) resolved =
     (if profile_key_of (pb_reference b) \<in> fst ` set resolved
      then Inl (ValueError ''duplicate runtime model profile'')
      else bind_profiles bs (resolved @ [(profile_key_of (pb_reference b), b)]))"

definition make_profile_registry :: "profile_binding list \<Rightarrow> (profile_key \<times> profile_binding) list result" where
  "make_profile_registry bs =
     (let supervised = concat (map (\<lambda>b. case pb_supervision b of None \<Rightarrow> [] | Some q \<Rightarrow> [q]) bs)
      in if length (remdups (map (\<lambda>b. pb_admission b \<noteq> None) bs)) > 1
         then Inl (ValueError ''real and characterized profiles cannot share a registry'')
         else if supervised \<noteq> [] \<and> (length supervised \<noteq> length bs \<or> list_ex (\<lambda>q. q \<noteq> hd supervised) supervised)
         then Inl (ValueError ''supervised registry requires one exact task qualification for all routes'')
         else bind_profiles bs [])"

definition resolve_profile ::
  "(profile_key \<times> profile_binding) list \<Rightarrow> model_profile \<Rightarrow> run_exception + profile_binding" where
  "resolve_profile registry reference =
     (case map_of registry (profile_key_of reference) of
        None \<Rightarrow> Inl (RuntimeContractError ''runtime.unknown_model_profile'')
      | Some b \<Rightarrow>
          if pb_reference b \<noteq> reference then Inl (RuntimeContractError ''runtime.model_profile_mismatch'')
          else Inr b)"

end
