(* ===== verification/DispatchGuard.thy ===== *)
theory DispatchGuard
  imports RunTree
begin

text \<open>
  \<open>infrastructure/models/pydanticai_executor.py\<close>, second part: the dispatch boundary
  (\<open>_DispatchGuardedModel.request\<close>), at which a provider is called under a durable intent and accounted
  for by a usage event. A port acts on the run tree and the world \<open>'w\<close>: while it is awaited the other
  agents of the tree run, so it may change the tree too. The signal of the task and the clocks are
  read without awaiting. What pydantic parses of a prompt, and the provider, are ports.
\<close>

section \<open>Requests and responses\<close>

datatype prompt = TextPrompt string | OtherPrompt

record outgoing =
  og_prompts :: "prompt list"
  og_rest :: json

text \<open>The settings, with the entry \<open>max_tokens\<close> if it is an integer.\<close>

record model_settings =
  ms_max_tokens :: "int option"
  ms_rest :: json

record provider_usage =
  pu_input_tokens :: int
  pu_output_tokens :: int
  pu_cache_read_tokens :: int
  pu_cache_write_tokens :: int
  pu_reasoning_tokens :: "int option"
  pu_other_details :: bool

record model_response =
  mr_usage :: provider_usage
  mr_tool_calls :: nat
  mr_content :: json

record managed_turn =
  mt_response :: model_response
  mt_observation :: managed_observation

datatype input_kind = RevisitingInput | CompleteInput | RelationInput | OtherInput

record run_config =
  rn_budget :: run_budget
  rn_task_id :: string
  rn_attempt_id :: string
  rn_owning_module :: string
  rn_task_kind :: string
  rn_contract_revision :: int
  rn_input_kind :: input_kind
  rn_principal_id :: string
  rn_delegation_id :: "string option"
  rn_tenant_id :: string
  rn_workspace_id :: string
  rn_policy_revision :: int
  rn_allowed_access_scope_ids :: "string list"
  rn_complete_input :: bool
  rn_exposure_recorder :: bool
  rn_source_revisiting :: bool
  rn_source_delivery_recorder :: bool
  rn_relation_assessment :: bool
  rn_relation_delivery_recorder :: bool

record agent_run =
  ar_run_id :: string
  ar_parent_run_id :: "string option"
  ar_run_role :: string
  ar_agent_key :: string
  ar_binding :: profile_binding

section \<open>Ports\<close>

type_synonym ('w, 'a) guarded = "run_tree \<times> 'w \<Rightarrow> (run_exception + 'a) \<times> (run_tree \<times> 'w)"

record 'w dispatch_ports =
  dq_cancelled :: "'w \<Rightarrow> bool"
  dq_overdue :: "'w \<Rightarrow> bool"
  dq_lease_lost :: "'w \<Rightarrow> bool"
  dq_utc_now :: "'w \<Rightarrow> int"
  dq_uuid4 :: "('w, uuid) guarded"
  dq_digest :: hash
  dq_payload_hash :: "outgoing \<Rightarrow> model_settings \<Rightarrow> string"
  dq_parse_delivery :: "string \<Rightarrow> source_delivery option"
  dq_parse_window :: "string \<Rightarrow> json option"
  dq_parse_packet :: "bool \<Rightarrow> string \<Rightarrow> json option"
  dq_parse_classification :: "string \<Rightarrow> classification_packet option"
  dq_evidence_delivery :: "classification_packet \<Rightarrow> json \<Rightarrow> run_exception + source_delivery"
  dq_record_intent :: "request_intent \<Rightarrow> ('w, unit) guarded"
  dq_append_usage :: "usage_event \<Rightarrow> ('w, unit) guarded"
  dq_authorize_dispatch :: "('w, unit) guarded"
  dq_authorize_delivery :: "source_delivery \<Rightarrow> ('w, unit) guarded"
  dq_authorize_relation :: "json \<Rightarrow> ('w, unit) guarded"
  dq_record_received :: "uuid \<Rightarrow> string \<Rightarrow> json \<Rightarrow> ('w, unit) guarded"
  dq_record_delivery :: "uuid \<Rightarrow> string \<Rightarrow> source_delivery \<Rightarrow> ('w, unit) guarded"
  dq_record_relation :: "uuid \<Rightarrow> string \<Rightarrow> json \<Rightarrow> ('w, unit) guarded"
  dq_request :: "outgoing \<Rightarrow> model_settings \<Rightarrow> ('w, model_response) guarded"
  dq_request_bounded :: "outgoing \<Rightarrow> model_settings \<Rightarrow> request_bounds \<Rightarrow> ('w, model_response) guarded"
  dq_request_managed :: "outgoing \<Rightarrow> model_settings \<Rightarrow> supervised_qualification \<Rightarrow> ('w, managed_turn) guarded"

definition returnG :: "'a \<Rightarrow> ('w, 'a) guarded" where
  "returnG x s = (Inr x, s)"

definition liftG :: "run_exception + 'a \<Rightarrow> ('w, 'a) guarded" where
  "liftG r s = (r, s)"

definition raiseG :: "run_exception \<Rightarrow> ('w, 'a) guarded" where
  "raiseG e s = (Inl e, s)"

definition bindG :: "('w, 'a) guarded \<Rightarrow> ('a \<Rightarrow> ('w, 'b) guarded) \<Rightarrow> ('w, 'b) guarded" where
  "bindG m f s = (case m s of (Inl e, s1) \<Rightarrow> (Inl e, s1) | (Inr x, s1) \<Rightarrow> f x s1)"

definition checkG :: "bool \<Rightarrow> run_exception \<Rightarrow> ('w, unit) guarded" where
  "checkG b e = (if b then raiseG e else returnG ())"

definition treeG :: "'a tree_op \<Rightarrow> ('w, 'a) guarded" where
  "treeG f s = (let (r, t) = f (fst s) in (r, (t, snd s)))"

definition readG :: "(run_tree \<Rightarrow> 'w \<Rightarrow> 'a) \<Rightarrow> ('w, 'a) guarded" where
  "readG f s = (Inr (f (fst s) (snd s)), s)"

definition modifyG :: "(run_tree \<Rightarrow> run_tree) \<Rightarrow> ('w, unit) guarded" where
  "modifyG f s = (Inr (), (f (fst s), snd s))"

text \<open>The value of \<open>attemptG\<close> is the exception or the result; it does not raise.\<close>

definition attemptG :: "('w, 'a) guarded \<Rightarrow> ('w, run_exception + 'a) guarded" where
  "attemptG m s = (let (r, s1) = m s in (Inr r, s1))"

fun forG :: "('a \<Rightarrow> ('w, unit) guarded) \<Rightarrow> 'a list \<Rightarrow> ('w, unit) guarded" where
  "forG f [] = returnG ()"
| "forG f (x # xs) = bindG (f x) (\<lambda>_. forG f xs)"

definition dispatch_open :: "'w dispatch_ports \<Rightarrow> ('w, unit) guarded" where
  "dispatch_open P =
     bindG (readG (\<lambda>t w. (dq_cancelled P w, dq_overdue P w))) (\<lambda>(c, late). treeG (require_dispatch_open c late))"

section \<open>What a request exposes\<close>

definition DELIVERY_UNITS :: int where "DELIVERY_UNITS = 262144"

record exposure =
  xp_window :: "json option"
  xp_delivery :: "source_delivery option"
  xp_relation :: "(bool \<times> json) option"
  xp_classification :: "classification_packet option"

definition deliver_units :: "int \<Rightarrow> string \<Rightarrow> ('w, unit) guarded" where
  "deliver_units units code =
     bindG (readG (\<lambda>t w. tree_delivered_source_units t)) (\<lambda>n.
     bindG (checkG (n + units > DELIVERY_UNITS) (CompleteInputError RS_BUDGET_EXHAUSTED code)) (\<lambda>_.
     modifyG (\<lambda>t. t\<lparr>tree_delivered_source_units := n + units\<rparr>)))"

definition exposed_delivery ::
  "'w dispatch_ports \<Rightarrow> run_config \<Rightarrow> agent_run \<Rightarrow> outgoing \<Rightarrow> string option \<Rightarrow> ('w, source_delivery option) guarded" where
  "exposed_delivery P C R out repair =
     (case repair of
        Some frame \<Rightarrow>
          bindG (checkG (og_prompts out \<noteq> [TextPrompt frame]) (EvidenceGuardError ''runtime.repair_frame_mismatch''))
            (\<lambda>_. returnG None)
      | None \<Rightarrow>
          if rn_input_kind C \<noteq> RevisitingInput \<or> ar_parent_run_id R \<noteq> None then returnG None
          else bindG (readG (\<lambda>t w. tree_source_delivery t)) (\<lambda>expected.
            bindG (checkG (\<not> rn_source_revisiting C \<or> \<not> rn_source_delivery_recorder C \<or> expected = None)
              (EvidenceGuardError ''source_revisiting.unavailable'')) (\<lambda>_.
            case (case og_prompts out of [TextPrompt s] \<Rightarrow> dq_parse_delivery P s | _ \<Rightarrow> None) of
              None \<Rightarrow> raiseG (EvidenceGuardError ''source_revisiting.exposure_mismatch'')
            | Some d \<Rightarrow>
                bindG (checkG (Some d \<noteq> expected) (EvidenceGuardError ''source_revisiting.exposure_mismatch'')) (\<lambda>_.
                bindG (deliver_units (dl_units d) ''source_revisiting.delivery_budget'') (\<lambda>_.
                returnG (Some d))))))"

definition exposed_window ::
  "'w dispatch_ports \<Rightarrow> run_config \<Rightarrow> outgoing \<Rightarrow> string option \<Rightarrow> ('w, json option) guarded" where
  "exposed_window P C out repair =
     (if repair \<noteq> None \<or> rn_input_kind C \<noteq> CompleteInput then returnG None
      else bindG (readG (\<lambda>t w. tree_complete_window t)) (\<lambda>expected.
        bindG (checkG (\<not> rn_complete_input C \<or> \<not> rn_exposure_recorder C \<or> expected = None)
          (EvidenceGuardError ''complete_input.unavailable'')) (\<lambda>_.
        case (case og_prompts out of [TextPrompt s] \<Rightarrow> dq_parse_window P s | _ \<Rightarrow> None) of
          None \<Rightarrow> raiseG (EvidenceGuardError ''complete_input.exposure_mismatch'')
        | Some window \<Rightarrow>
            bindG (checkG (Some window \<noteq> expected) (EvidenceGuardError ''complete_input.exposure_mismatch'')) (\<lambda>_.
            returnG (Some window)))))"

definition CLASSIFIER_KEY :: string where "CLASSIFIER_KEY = ''memory.semantic.bead-type-classifier''"
definition RELATION_SPECIALIST_KEY :: string where
  "RELATION_SPECIALIST_KEY = ''memory.semantic.relation-specialist''"

definition verified_relation_packet ::
  "'w dispatch_ports \<Rightarrow> run_config \<Rightarrow> agent_run \<Rightarrow> outgoing \<Rightarrow> ('w, bool \<times> json) guarded" where
  "verified_relation_packet P C R out =
     (let specialist = (ar_agent_key R = RELATION_SPECIALIST_KEY)
      in bindG (checkG (\<not> rn_relation_assessment C \<or> \<not> rn_relation_delivery_recorder C)
           (EvidenceGuardError ''relation_assessment.unavailable'')) (\<lambda>_.
         bindG (readG (\<lambda>t w. (if specialist then tree_specialist_packet t else tree_relation_packet t,
             specialist \<and> tree_specialist_request t \<noteq> None))) (\<lambda>(expected, again).
         case (case og_prompts out of
                 [TextPrompt s] \<Rightarrow> if expected = None \<or> again then None else dq_parse_packet P specialist s
               | _ \<Rightarrow> None) of
           None \<Rightarrow> raiseG (EvidenceGuardError ''relation_assessment.exposure_mismatch'')
         | Some packet \<Rightarrow>
             bindG (checkG (Some packet \<noteq> expected) (EvidenceGuardError ''relation_assessment.exposure_mismatch''))
               (\<lambda>_. returnG (specialist, packet)))))"

definition exposed_classification ::
  "'w dispatch_ports \<Rightarrow> agent_run \<Rightarrow> outgoing \<Rightarrow> ('w, classification_packet option) guarded" where
  "exposed_classification P R out =
     (if ar_agent_key R \<noteq> CLASSIFIER_KEY then returnG None
      else bindG (readG (\<lambda>t w. (tree_classification_packet t, tree_classification_request t))) (\<lambda>(expected, request).
        case expected of
          None \<Rightarrow> raiseG (EvidenceGuardError ''classification.dispatch_invalid'')
        | Some packet \<Rightarrow>
            bindG (checkG (request \<noteq> None) (EvidenceGuardError ''classification.dispatch_invalid'')) (\<lambda>_.
            case og_prompts out of
              [TextPrompt s] \<Rightarrow>
                (case dq_parse_classification P s of
                   None \<Rightarrow> raiseG InvalidOutput
                 | Some actual \<Rightarrow>
                     bindG (checkG (actual \<noteq> packet) (EvidenceGuardError ''classification.packet_mismatch'')) (\<lambda>_.
                     bindG (deliver_units (sum_list (map fst (cz_evidence packet))) ''classification.delivery_budget'')
                       (\<lambda>_. returnG (Some packet))))
            | _ \<Rightarrow> raiseG (EvidenceGuardError ''classification.packet_mismatch''))))"

definition request_exposure ::
  "'w dispatch_ports \<Rightarrow> run_config \<Rightarrow> agent_run \<Rightarrow> outgoing \<Rightarrow> ('w, exposure) guarded" where
  "request_exposure P C R out =
     bindG (readG (\<lambda>t w. if ar_parent_run_id R = None then tree_repair_frame t else None)) (\<lambda>repair.
     bindG (exposed_delivery P C R out repair) (\<lambda>delivery.
     bindG (exposed_window P C out repair) (\<lambda>window.
     bindG (if repair = None \<and> rn_input_kind C = RelationInput
            then bindG (verified_relation_packet P C R out) (\<lambda>p. returnG (Some p)) else returnG None) (\<lambda>relation.
     bindG (exposed_classification P R out) (\<lambda>classification.
     returnG \<lparr>xp_window = window, xp_delivery = delivery, xp_relation = relation,
       xp_classification = classification\<rparr>)))))"

section \<open>The intent\<close>

definition supervision_open :: "'w dispatch_ports \<Rightarrow> run_config \<Rightarrow> agent_run \<Rightarrow> ('w, unit) guarded" where
  "supervision_open P C R =
     (case pb_supervision (ar_binding R) of
        None \<Rightarrow> returnG ()
      | Some q \<Rightarrow>
          bindG (checkG (uuid_str (sq_semantic_task_id q) \<noteq> rn_task_id C)
            (AccountingConfiguration ''accounting.supervision_task_mismatch'')) (\<lambda>_.
          bindG (readG (\<lambda>t w. dq_utc_now P w)) (\<lambda>now.
          case sq_deadline q of
            Naive _ \<Rightarrow> raiseG UnexpectedError
          | Aware deadline \<Rightarrow> checkG (now \<ge> deadline) UsageLimitExceeded)))"

text \<open>The access scope, and the refusal of a dollar ceiling that cannot be enforced.\<close>

definition accounting_scope :: "run_config \<Rightarrow> agent_run \<Rightarrow> ('w, string) guarded" where
  "accounting_scope C R =
     (case sort (remdups (rn_allowed_access_scope_ids C)) of
        [scope] \<Rightarrow>
          (case pb_request_target (ar_binding R) of
             SingleInference t \<Rightarrow>
               if pt_billing_basis t = BILL_METERED \<and> pt_pricing_revision_id t = None
                  \<and> rb_cost_safety_limit_microusd (rn_budget C) \<noteq> None
               then raiseG (AccountingConfiguration ''accounting.ceiling_cash_basis_missing'')
               else returnG scope
           | ManagedTurn t \<Rightarrow> returnG scope)
      | _ \<Rightarrow> raiseG (AccountingConfiguration ''accounting.access_scope_ambiguous''))"

definition maximum_output :: "run_config \<Rightarrow> agent_run \<Rightarrow> model_settings \<Rightarrow> run_exception + int" where
  "maximum_output C R settings =
     bindE (case pb_request_target (ar_binding R) of
              SingleInference t \<Rightarrow> Inr (pt_max_output_tokens_per_request t)
            | ManagedTurn t \<Rightarrow>
                (case pb_supervision (ar_binding R) of
                   None \<Rightarrow> Inl UnexpectedError
                 | Some q \<Rightarrow> Inr (sq_reported_generated_token_stop q)))
       (\<lambda>stop. let bound = min stop (int (rb_output_token_limit (rn_budget C)))
               in Inr (case ms_max_tokens settings of None \<Rightarrow> bound | Some n \<Rightarrow> min bound n))"

definition bounds_of :: "agent_run \<Rightarrow> int \<Rightarrow> run_exception + request_bounds option" where
  "bounds_of R maximum =
     (case pb_admission (ar_binding R) of
        None \<Rightarrow> Inr None
      | Some a \<Rightarrow>
          if ma_managed a then Inr None
          else case pb_request_target (ar_binding R) of
                 ManagedTurn t \<Rightarrow> Inl UnexpectedError
               | SingleInference t \<Rightarrow>
                   if pt_max_input_tokens_per_request t < 1 \<or> maximum < 1 then Inl UnexpectedError
                   else Inr (Some \<lparr>bd_input_tokens = pt_max_input_tokens_per_request t, bd_output_tokens = maximum\<rparr>))"

definition intent_of ::
  "run_config \<Rightarrow> agent_run \<Rightarrow> uuid \<Rightarrow> string \<Rightarrow> nat \<Rightarrow> int \<Rightarrow> string \<Rightarrow> run_exception + request_intent" where
  "intent_of C R request_id scope sequence maximum payload_hash =
     (let b = ar_binding R; managed = managed_admission b;
          plain = \<lparr>in_request_id = request_id, in_tenant_id = rn_tenant_id C, in_workspace_id = rn_workspace_id C,
            in_access_scope_id = scope, in_semantic_task_id = Some (rn_task_id C),
            in_semantic_attempt_id = Some (rn_attempt_id C), in_retrieval_execution_id = None,
            in_run_id = ar_run_id R, in_parent_run_id = ar_parent_run_id R, in_run_role = ar_run_role R,
            in_module_key = rn_owning_module C, in_operation_key = ''semantic.model-request'',
            in_task_kind = rn_task_kind C, in_task_contract_revision = rn_contract_revision C,
            in_origin_principal_id = rn_principal_id C, in_origin_delegation_id = rn_delegation_id C,
            in_policy_revision = rn_policy_revision C,
            in_model_profile_key = mp_profile_key (pb_reference b),
            in_model_profile_revision = int (mp_revision (pb_reference b)),
            in_request_sequence = int sequence, in_target = pb_request_target b,
            in_safety_ceiling_microunits =
              (if managed then None else map_option int (rb_cost_safety_limit_microusd (rn_budget C))),
            in_conservative_reservation_microunits = pb_conservative_reservation_microunits b,
            in_max_input_tokens = (case pb_request_target b of
                SingleInference t \<Rightarrow> Some (pt_max_input_tokens_per_request t) | ManagedTurn t \<Rightarrow> None),
            in_max_output_tokens = (if managed then None else Some maximum),
            in_request_payload_hash = payload_hash, in_supervision = None\<rparr>
      in bindE (case (pb_supervision b, pb_admission b) of
                  (None, _) \<Rightarrow> if managed then Inl InvalidOutput else Inr plain
                | (Some q, None) \<Rightarrow> Inl UnexpectedError
                | (Some q, Some a) \<Rightarrow> Inr (plain\<lparr>in_supervision := Some (q, ma_qualification_revision a)\<rparr>))
           (\<lambda>i. case make_request_intent i of Inl e \<Rightarrow> Inl InvalidOutput | Inr i \<Rightarrow> Inr i))"

record ticket =
  tk_intent :: request_intent
  tk_settings :: model_settings
  tk_bounds :: "request_bounds option"
  tk_exposure :: exposure

definition prepare_request ::
  "'w dispatch_ports \<Rightarrow> run_config \<Rightarrow> agent_run \<Rightarrow> outgoing \<Rightarrow> model_settings \<Rightarrow> ('w, ticket) guarded" where
  "prepare_request P C R out settings =
     bindG (dispatch_open P) (\<lambda>_.
     bindG (request_exposure P C R out) (\<lambda>x.
     bindG (dq_uuid4 P) (\<lambda>request_id.
     bindG (accounting_scope C R) (\<lambda>scope.
     bindG (supervision_open P C R) (\<lambda>_.
     bindG (liftG (maximum_output C R settings)) (\<lambda>maximum.
     bindG (liftG (bounds_of R maximum)) (\<lambda>bounds.
     bindG (treeG (next_provider_request_sequence (rn_budget C) bounds)) (\<lambda>sequence.
       let bounded = (if managed_admission (ar_binding R) then settings else settings\<lparr>ms_max_tokens := Some maximum\<rparr>)
       in bindG (liftG (intent_of C R request_id scope sequence maximum (dq_payload_hash P out bounded))) (\<lambda>i.
          returnG \<lparr>tk_intent = i, tk_settings = bounded, tk_bounds = bounds, tk_exposure = x\<rparr>)))))))))"

section \<open>Authorization of the delivery\<close>

definition authorize_window :: "'w dispatch_ports \<Rightarrow> exposure \<Rightarrow> ('w, unit) guarded" where
  "authorize_window P x =
     (case xp_window x of
        None \<Rightarrow> returnG ()
      | Some _ \<Rightarrow> bindG (dq_authorize_dispatch P) (\<lambda>_. dispatch_open P))"

definition authorize_source :: "'w dispatch_ports \<Rightarrow> exposure \<Rightarrow> ('w, unit) guarded" where
  "authorize_source P x =
     (case xp_delivery x of
        None \<Rightarrow> returnG ()
      | Some d \<Rightarrow> bindG (dq_authorize_delivery P d) (\<lambda>_. dispatch_open P))"

definition authorize_classification ::
  "'w dispatch_ports \<Rightarrow> run_config \<Rightarrow> request_intent \<Rightarrow> exposure \<Rightarrow> ('w, unit) guarded" where
  "authorize_classification P C i x =
     (case xp_classification x of
        None \<Rightarrow> returnG ()
      | Some packet \<Rightarrow>
          bindG (checkG (\<not> rn_source_revisiting C) UnexpectedError) (\<lambda>_.
          bindG (forG (\<lambda>e. bindG (liftG (dq_evidence_delivery P packet (snd e))) (dq_authorize_delivery P))
            (cz_evidence packet)) (\<lambda>_.
          bindG (dispatch_open P) (\<lambda>_.
          modifyG (\<lambda>t. t\<lparr>tree_classification_request := Some (in_request_id i, in_request_payload_hash i)\<rparr>)))))"

definition authorize_packet :: "'w dispatch_ports \<Rightarrow> request_intent \<Rightarrow> exposure \<Rightarrow> ('w, unit) guarded" where
  "authorize_packet P i x =
     (case xp_relation x of
        None \<Rightarrow> returnG ()
      | Some (specialist, packet) \<Rightarrow>
          bindG (dq_authorize_relation P packet) (\<lambda>_.
          bindG (dispatch_open P) (\<lambda>_.
          if specialist
          then modifyG (\<lambda>t. t\<lparr>tree_specialist_request := Some (in_request_id i, in_request_payload_hash i)\<rparr>)
          else returnG ())))"

definition authorize_exposure :: "'w dispatch_ports \<Rightarrow> run_config \<Rightarrow> ticket \<Rightarrow> ('w, unit) guarded" where
  "authorize_exposure P C k =
     bindG (dispatch_open P) (\<lambda>_.
     bindG (authorize_window P (tk_exposure k)) (\<lambda>_.
     bindG (authorize_source P (tk_exposure k)) (\<lambda>_.
     bindG (authorize_classification P C (tk_intent k) (tk_exposure k)) (\<lambda>_.
     authorize_packet P (tk_intent k) (tk_exposure k)))))"

end
