(* ===== verification/DispatchRun.thy ===== *)
theory DispatchRun
  imports DispatchGuard
begin

text \<open>
  \<open>infrastructure/models/pydanticai_executor.py\<close>, third part: the call of the provider, the usage event of
  its outcome, the bounds it must have kept, and the record of what was delivered.
\<close>

section \<open>Usage events\<close>

definition has_reported_usage :: "model_response \<Rightarrow> usage_provenance \<Rightarrow> bool" where
  "has_reported_usage r provenance \<longleftrightarrow>
     (let u = mr_usage r
      in provenance \<noteq> PROV_UNAVAILABLE
         \<and> (pu_input_tokens u \<noteq> 0 \<or> pu_output_tokens u \<noteq> 0 \<or> pu_cache_read_tokens u \<noteq> 0
            \<or> pu_cache_write_tokens u \<noteq> 0 \<or> pu_reasoning_tokens u \<noteq> None \<or> pu_other_details u))"

definition normalized_of :: "model_response \<Rightarrow> normalized_usage" where
  "normalized_of r =
     (let u = mr_usage r; cached = min (pu_input_tokens u) (pu_cache_read_tokens u)
      in \<lparr>nu_input_tokens = pu_input_tokens u, nu_output_tokens = pu_output_tokens u,
          nu_total_tokens = pu_input_tokens u + pu_output_tokens u,
          nu_cached_input_tokens = cached,
          nu_cache_write_tokens = min (pu_input_tokens u - cached) (pu_cache_write_tokens u),
          nu_reasoning_tokens = min (pu_output_tokens u)
            (max 0 (case pu_reasoning_tokens u of None \<Rightarrow> 0 | Some n \<Rightarrow> n)),
          nu_tool_calls = int (mr_tool_calls r)\<rparr>)"

definition dedupe_key :: "hash \<Rightarrow> uuid \<Rightarrow> usage_event_kind \<Rightarrow> uuid \<Rightarrow> string" where
  "dedupe_key H request_id kind event_id =
     H (utf8 (uuid_str request_id @ '':'' @ usage_event_kind_value kind @ '':'' @ uuid_str event_id))"

text \<open>What is known of an outcome: its kind and the arguments that both functions take.\<close>

record settlement =
  st_event_kind :: usage_event_kind
  st_outcome :: request_outcome
  st_response :: "model_response option"
  st_diagnostic_code :: "string option"
  st_usage_provenance :: usage_provenance

definition request_usage_event :: "hash \<Rightarrow> uuid \<Rightarrow> settlement \<Rightarrow> uuid \<Rightarrow> usage_event result" where
  "request_usage_event H request_id s event_id =
     (let reported = (case st_response s of
            None \<Rightarrow> None
          | Some r \<Rightarrow> if has_reported_usage r (st_usage_provenance s) then Some r else None)
      in bindE (case reported of
                  None \<Rightarrow> Inr None
                | Some r \<Rightarrow> bindE (make_normalized_usage (normalized_of r)) (\<lambda>u. Inr (Some u))) (\<lambda>normalized.
           make_usage_event
             \<lparr>ue_event_id = event_id, ue_request_id = request_id,
              ue_dedupe_key = dedupe_key H request_id (st_event_kind s) event_id,
              ue_event_kind = st_event_kind s, ue_outcome = st_outcome s,
              ue_usage_state = (if reported \<noteq> None then STATE_REPORTED else STATE_UNAVAILABLE),
              ue_usage_provenance = (if reported \<noteq> None then st_usage_provenance s else PROV_UNAVAILABLE),
              ue_usage = normalized, ue_provider_reported_cost_microunits = None,
              ue_provider_reported_currency = None, ue_provider_request_id_hash = None,
              ue_diagnostic_code = st_diagnostic_code s, ue_observation = None\<rparr>))"

definition managed_usage_event ::
  "hash \<Rightarrow> uuid \<Rightarrow> managed_observation option \<Rightarrow> settlement \<Rightarrow> uuid \<Rightarrow> usage_event result" where
  "managed_usage_event H request_id observation s event_id =
     (let observed = (case observation of None \<Rightarrow> default_observation | Some ob \<Rightarrow> ob)
      in bindE (accounted_total observed) (\<lambda>(aggregate, provenance).
           let kind = (if st_outcome s = OUT_SUCCEEDED
                 then (if aggregate \<noteq> None then USAGE_REPORTED else USAGE_UNAVAILABLE) else st_event_kind s)
           in make_usage_event
             \<lparr>ue_event_id = event_id, ue_request_id = request_id,
              ue_dedupe_key = dedupe_key H request_id kind event_id,
              ue_event_kind = kind, ue_outcome = st_outcome s,
              ue_usage_state = (if aggregate \<noteq> None then STATE_REPORTED else STATE_UNAVAILABLE),
              ue_usage_provenance = provenance, ue_usage = aggregate,
              ue_provider_reported_cost_microunits = None, ue_provider_reported_currency = None,
              ue_provider_request_id_hash = None, ue_diagnostic_code = st_diagnostic_code s,
              ue_observation = Some observed\<rparr>))"

definition dispatch_usage_event ::
  "hash \<Rightarrow> uuid \<Rightarrow> bool \<Rightarrow> managed_observation option \<Rightarrow> settlement \<Rightarrow> uuid \<Rightarrow> usage_event result" where
  "dispatch_usage_event H request_id managed observation s event_id =
     (if managed then managed_usage_event H request_id observation s event_id
      else request_usage_event H request_id s event_id)"

definition append_settlement ::
  "'w dispatch_ports \<Rightarrow> uuid \<Rightarrow> bool \<Rightarrow> managed_observation option \<Rightarrow> settlement \<Rightarrow> ('w, unit) guarded" where
  "append_settlement P request_id managed observation s =
     bindG (dq_uuid4 P) (\<lambda>event_id.
     case dispatch_usage_event (dq_digest P) request_id managed observation s event_id of
       Inl _ \<Rightarrow> raiseG InvalidOutput
     | Inr e \<Rightarrow> dq_append_usage P e)"

section \<open>The call\<close>

text \<open>The scratch counters of a managed turn show the accounted total.\<close>

definition with_accounted :: "normalized_usage option \<Rightarrow> model_response \<Rightarrow> model_response" where
  "with_accounted aggregate r = r\<lparr>mr_usage :=
     (case aggregate of
        None \<Rightarrow> \<lparr>pu_input_tokens = 0, pu_output_tokens = 0, pu_cache_read_tokens = 0, pu_cache_write_tokens = 0,
          pu_reasoning_tokens = None, pu_other_details = False\<rparr>
      | Some u \<Rightarrow> \<lparr>pu_input_tokens = nu_input_tokens u, pu_output_tokens = nu_output_tokens u,
          pu_cache_read_tokens = nu_cached_input_tokens u, pu_cache_write_tokens = nu_cache_write_tokens u,
          pu_reasoning_tokens = Some (nu_reasoning_tokens u), pu_other_details = False\<rparr>)\<rparr>"

type_synonym called = "(run_exception + model_response) \<times> managed_observation option"

definition call_managed ::
  "'w dispatch_ports \<Rightarrow> agent_run \<Rightarrow> outgoing \<Rightarrow> model_settings \<Rightarrow> ('w, called) guarded" where
  "call_managed P R out settings =
     (case pb_supervision (ar_binding R) of
        None \<Rightarrow> returnG (Inl UnexpectedError, None)
      | Some q \<Rightarrow>
          bindG (attemptG (dq_request_managed P out settings q)) (\<lambda>turn.
          case turn of
            Inl e \<Rightarrow> returnG (Inl e, None)
          | Inr m \<Rightarrow>
              (case accounted_total (mt_observation m) of
                 Inl _ \<Rightarrow> returnG (Inl InvalidOutput, Some (mt_observation m))
               | Inr (aggregate, _) \<Rightarrow>
                   returnG (Inr (with_accounted aggregate (mt_response m)), Some (mt_observation m)))))"

definition call_provider ::
  "'w dispatch_ports \<Rightarrow> agent_run \<Rightarrow> outgoing \<Rightarrow> ticket \<Rightarrow> ('w, called) guarded" where
  "call_provider P R out k =
     (if managed_admission (ar_binding R) then call_managed P R out (tk_settings k)
      else bindG (attemptG (case tk_bounds k of
             Some bounds \<Rightarrow> dq_request_bounded P out (tk_settings k) bounds
           | None \<Rightarrow> dq_request P out (tk_settings k))) (\<lambda>r. returnG (r, None)))"

definition failed_settlement :: "run_exception \<Rightarrow> settlement" where
  "failed_settlement e =
     (if e = TaskCancelled
      then \<lparr>st_event_kind = REQUEST_CANCELLED, st_outcome = OUT_CANCELLED, st_response = None,
            st_diagnostic_code = Some ''provider.request-cancelled'', st_usage_provenance = PROV_UNAVAILABLE\<rparr>
      else \<lparr>st_event_kind = REQUEST_FAILED, st_outcome = OUT_FAILED, st_response = None,
            st_diagnostic_code = Some ''provider.request-failed'', st_usage_provenance = PROV_UNAVAILABLE\<rparr>)"

definition returned_settlement :: "usage_provenance \<Rightarrow> bool \<Rightarrow> bool \<Rightarrow> model_response \<Rightarrow> settlement" where
  "returned_settlement provenance lease_lost cancelled r =
     \<lparr>st_event_kind = (if lease_lost then LEASE_LOST_RETURN else if cancelled then REQUEST_CANCELLED
        else if has_reported_usage r provenance then USAGE_REPORTED else USAGE_UNAVAILABLE),
      st_outcome = (if lease_lost then OUT_LEASE_LOST else if cancelled then OUT_CANCELLED else OUT_SUCCEEDED),
      st_response = Some r,
      st_diagnostic_code = (if has_reported_usage r provenance then None else Some ''provider.usage-unavailable''),
      st_usage_provenance = provenance\<rparr>"

text \<open>The usage event is appended before an exception of the call is raised again.\<close>

definition settle_call :: "'w dispatch_ports \<Rightarrow> agent_run \<Rightarrow> uuid \<Rightarrow> called \<Rightarrow> ('w, model_response) guarded" where
  "settle_call P R request_id c =
     (let managed = managed_admission (ar_binding R); observation = snd c
      in case fst c of
           Inl e \<Rightarrow>
             bindG (append_settlement P request_id managed observation (failed_settlement e)) (\<lambda>_. raiseG e)
         | Inr r \<Rightarrow>
             bindG (readG (\<lambda>t w. (dq_lease_lost P w, dq_cancelled P w))) (\<lambda>(lost, cancelled).
             bindG (append_settlement P request_id managed observation
               (returned_settlement (target_provenance (pb_request_target (ar_binding R))) lost
                 (cancelled \<and> \<not> lost) r)) (\<lambda>_.
             returnG r)))"

section \<open>After the call\<close>

definition note_usage :: "model_response \<Rightarrow> run_tree \<Rightarrow> run_tree" where
  "note_usage r t = t\<lparr>tree_usage_requests := tree_usage_requests t + 1,
     tree_usage_input_tokens := tree_usage_input_tokens t + pu_input_tokens (mr_usage r),
     tree_usage_output_tokens := tree_usage_output_tokens t + pu_output_tokens (mr_usage r)\<rparr>"

definition settle_managed :: "normalized_usage \<Rightarrow> run_tree \<Rightarrow> run_tree" where
  "settle_managed u t = t\<lparr>tree_reserved_requests := tree_reserved_requests t + 1,
     tree_reserved_input_tokens := tree_reserved_input_tokens t + nu_input_tokens u,
     tree_reserved_output_tokens := tree_reserved_output_tokens t + nu_output_tokens u\<rparr>"

definition check_bounds :: "request_bounds option \<Rightarrow> model_response \<Rightarrow> ('w, unit) guarded" where
  "check_bounds bounds r =
     (case bounds of
        None \<Rightarrow> returnG ()
      | Some b \<Rightarrow>
          if pu_input_tokens (mr_usage r) > bd_input_tokens b \<or> pu_output_tokens (mr_usage r) > bd_output_tokens b
          then bindG (modifyG (note_usage r)) (\<lambda>_. raiseG UsageLimitExceeded)
          else returnG ())"

definition check_managed :: "agent_run \<Rightarrow> managed_observation option \<Rightarrow> model_response \<Rightarrow> ('w, unit) guarded" where
  "check_managed R observation r =
     (if \<not> managed_admission (ar_binding R) then returnG ()
      else case (observation, pb_supervision (ar_binding R)) of
        (Some ob, Some q) \<Rightarrow>
          (case accounted_total ob of
             Inl _ \<Rightarrow> raiseG InvalidOutput
           | Inr (aggregate, provenance) \<Rightarrow>
               (case (if mo_turn_completed ob \<and> provenance = PROV_PROVIDER_REPORTED then aggregate else None) of
                  None \<Rightarrow> bindG (modifyG (note_usage r)) (\<lambda>_. raiseG UsageLimitExceeded)
                | Some u \<Rightarrow>
                    if nu_input_tokens u \<ge> sq_reported_input_token_stop q
                       \<or> nu_output_tokens u \<ge> sq_reported_generated_token_stop q
                    then bindG (modifyG (note_usage r)) (\<lambda>_. raiseG UsageLimitExceeded)
                    else modifyG (settle_managed u)))
      | _ \<Rightarrow> raiseG UnexpectedError)"

definition record_exposure :: "'w dispatch_ports \<Rightarrow> ticket \<Rightarrow> ('w, unit) guarded" where
  "record_exposure P k =
     (let i = tk_intent k; x = tk_exposure k
      in bindG (case xp_window x of
                  None \<Rightarrow> returnG ()
                | Some window \<Rightarrow> bindG (dispatch_open P) (\<lambda>_.
                    dq_record_received P (in_request_id i) (in_request_payload_hash i) window)) (\<lambda>_.
         bindG (case xp_delivery x of
                  None \<Rightarrow> returnG ()
                | Some d \<Rightarrow> bindG (dispatch_open P) (\<lambda>_.
                    dq_record_delivery P (in_request_id i) (in_request_payload_hash i) d)) (\<lambda>_.
         case xp_relation x of
           Some (False, packet) \<Rightarrow> bindG (dispatch_open P) (\<lambda>_.
             dq_record_relation P (in_request_id i) (in_request_payload_hash i) packet)
         | _ \<Rightarrow> returnG ())))"

definition guarded_request ::
  "'w dispatch_ports \<Rightarrow> run_config \<Rightarrow> agent_run \<Rightarrow> outgoing \<Rightarrow> model_settings \<Rightarrow> ('w, model_response) guarded" where
  "guarded_request P C R out settings =
     bindG (prepare_request P C R out settings) (\<lambda>k.
     bindG (dq_record_intent P (tk_intent k)) (\<lambda>_.
     bindG (authorize_exposure P C k) (\<lambda>_.
     bindG (call_provider P R out k) (\<lambda>c.
     bindG (settle_call P R (in_request_id (tk_intent k)) c) (\<lambda>r.
     bindG (check_bounds (tk_bounds k) r) (\<lambda>_.
     bindG (check_managed R (snd c) r) (\<lambda>_.
     bindG (record_exposure P k) (\<lambda>_.
     returnG r))))))))"

end
