(* ===== verification/DispatchFacts.thy ===== *)
theory DispatchFacts
  imports DispatchRun
begin

text \<open>
  The library for the dispatch boundary: a trace of what a request does to the ledger and the
  provider, quiet computations, which add nothing to it, and the state in which a provider is called.
\<close>

section \<open>Computations\<close>

lemma bindG_Inr_iff:
  "bindG m f s = (Inr y, s2) \<longleftrightarrow> (\<exists>x s1. m s = (Inr x, s1) \<and> f x s1 = (Inr y, s2))"
  by (auto simp: bindG_def split: sum.splits prod.splits)

lemma bindG_Inl_iff:
  "bindG m f s = (Inl e, s2) \<longleftrightarrow> m s = (Inl e, s2) \<or> (\<exists>x s1. m s = (Inr x, s1) \<and> f x s1 = (Inl e, s2))"
  by (auto simp: bindG_def split: sum.splits prod.splits)

lemma bindG_cases:
  assumes "bindG m f s = (r, s2)"
  obtains (raises) e where "m s = (Inl e, s2)" "r = Inl e"
    | (returns) x s1 where "m s = (Inr x, s1)" "f x s1 = (r, s2)"
  using assms by (auto simp: bindG_def split: sum.splits prod.splits)

lemma runG_simps [simp]:
  "returnG x s = (Inr x, s)" "raiseG e s = (Inl e, s)" "liftG r s = (r, s)"
  "readG f s = (Inr (f (fst s) (snd s)), s)" "modifyG g s = (Inr (), (g (fst s), snd s))"
  by (simp_all add: returnG_def raiseG_def liftG_def readG_def modifyG_def)

lemma checkG_run: "checkG b e s = (if b then (Inl e, s) else (Inr (), s))"
  by (simp add: checkG_def)

section \<open>The trace\<close>

text \<open>
  \<open>ProviderCalled\<close> notes whether the tree was open when the call began, and the exception the call
  ended with, if any; \<open>UsageAppended\<close> notes whether the append returned.
\<close>

datatype dispatch_event =
    IntentRecorded request_intent
  | IntentRefused request_intent
  | ProviderCalled bool "run_exception option"
  | UsageAppended usage_event bool

type_synonym 'w traced_dispatch = "'w \<times> dispatch_event list"

definition tree_open :: "'w dispatch_ports \<Rightarrow> run_tree \<times> 'w \<Rightarrow> bool" where
  "tree_open P s \<longleftrightarrow> tree_terminal_failure (fst s) = None \<and> \<not> dq_cancelled P (snd s) \<and> \<not> dq_overdue P (snd s)"

definition notedG ::
  "(run_tree \<times> 'w \<Rightarrow> run_exception + 'a \<Rightarrow> dispatch_event list) \<Rightarrow> ('w, 'a) guarded \<Rightarrow> ('w traced_dispatch, 'a) guarded" where
  "notedG note m s =
     (let (t, w, h) = s; (r, t1, w1) = m (t, w) in (r, (t1, (w1, h @ note (t, w) r))))"

definition error_of :: "'e + 'a \<Rightarrow> 'e option" where
  "error_of r = (case r of Inl e \<Rightarrow> Some e | Inr _ \<Rightarrow> None)"

definition silentG :: "('w, 'a) guarded \<Rightarrow> ('w traced_dispatch, 'a) guarded" where
  "silentG m = notedG (\<lambda>s r. []) m"

definition traced_dispatch :: "'w dispatch_ports \<Rightarrow> 'w traced_dispatch dispatch_ports" where
  "traced_dispatch P =
     \<lparr>dq_cancelled = (\<lambda>w. dq_cancelled P (fst w)), dq_overdue = (\<lambda>w. dq_overdue P (fst w)),
      dq_lease_lost = (\<lambda>w. dq_lease_lost P (fst w)), dq_utc_now = (\<lambda>w. dq_utc_now P (fst w)),
      dq_uuid4 = silentG (dq_uuid4 P), dq_digest = dq_digest P, dq_payload_hash = dq_payload_hash P,
      dq_parse_delivery = dq_parse_delivery P, dq_parse_window = dq_parse_window P,
      dq_parse_packet = dq_parse_packet P, dq_parse_classification = dq_parse_classification P,
      dq_evidence_delivery = dq_evidence_delivery P,
      dq_record_intent = (\<lambda>i. notedG (\<lambda>s r. [if error_of r = None then IntentRecorded i else IntentRefused i])
        (dq_record_intent P i)),
      dq_append_usage = (\<lambda>e. notedG (\<lambda>s r. [UsageAppended e (error_of r = None)]) (dq_append_usage P e)),
      dq_authorize_dispatch = silentG (dq_authorize_dispatch P),
      dq_authorize_delivery = (\<lambda>d. silentG (dq_authorize_delivery P d)),
      dq_authorize_relation = (\<lambda>p. silentG (dq_authorize_relation P p)),
      dq_record_received = (\<lambda>i h x. silentG (dq_record_received P i h x)),
      dq_record_delivery = (\<lambda>i h x. silentG (dq_record_delivery P i h x)),
      dq_record_relation = (\<lambda>i h x. silentG (dq_record_relation P i h x)),
      dq_request = (\<lambda>out st. notedG (\<lambda>s r. [ProviderCalled (tree_open P s) (error_of r)]) (dq_request P out st)),
      dq_request_bounded = (\<lambda>out st b. notedG (\<lambda>s r. [ProviderCalled (tree_open P s) (error_of r)])
        (dq_request_bounded P out st b)),
      dq_request_managed = (\<lambda>out st q. notedG (\<lambda>s r. [ProviderCalled (tree_open P s) (error_of r)])
        (dq_request_managed P out st q))\<rparr>"

lemma error_of_simps [simp]: "error_of (Inl e) = Some e" "error_of (Inr x) = None"
  by (simp_all add: error_of_def)

lemma traced_dispatch_fields [simp]:
  "dq_cancelled (traced_dispatch P) = (\<lambda>w. dq_cancelled P (fst w))" "dq_overdue (traced_dispatch P) = (\<lambda>w. dq_overdue P (fst w))"
  "dq_lease_lost (traced_dispatch P) = (\<lambda>w. dq_lease_lost P (fst w))" "dq_utc_now (traced_dispatch P) = (\<lambda>w. dq_utc_now P (fst w))"
  "dq_uuid4 (traced_dispatch P) = silentG (dq_uuid4 P)" "dq_digest (traced_dispatch P) = dq_digest P"
  "dq_payload_hash (traced_dispatch P) = dq_payload_hash P" "dq_parse_delivery (traced_dispatch P) = dq_parse_delivery P"
  "dq_parse_window (traced_dispatch P) = dq_parse_window P" "dq_parse_packet (traced_dispatch P) = dq_parse_packet P"
  "dq_parse_classification (traced_dispatch P) = dq_parse_classification P"
  "dq_evidence_delivery (traced_dispatch P) = dq_evidence_delivery P"
  "dq_authorize_dispatch (traced_dispatch P) = silentG (dq_authorize_dispatch P)"
  "dq_authorize_delivery (traced_dispatch P) d = silentG (dq_authorize_delivery P d)"
  "dq_authorize_relation (traced_dispatch P) p = silentG (dq_authorize_relation P p)"
  "dq_record_received (traced_dispatch P) j h y = silentG (dq_record_received P j h y)"
  "dq_record_delivery (traced_dispatch P) j h d = silentG (dq_record_delivery P j h d)"
  "dq_record_relation (traced_dispatch P) j h y = silentG (dq_record_relation P j h y)"
  by (simp_all add: traced_dispatch_def)

section \<open>Quiet computations\<close>

definition history :: "run_tree \<times> 'w traced_dispatch \<Rightarrow> dispatch_event list" where
  "history s = snd (snd s)"

definition quietG :: "('w traced_dispatch, 'a) guarded \<Rightarrow> bool" where
  "quietG m \<longleftrightarrow> (\<forall>s r s1. m s = (r, s1) \<longrightarrow> history s1 = history s)"

named_theorems quietG_intros \<open>computations that add nothing to the trace\<close>

lemma quietGD: "quietG m \<Longrightarrow> m s = (r, s1) \<Longrightarrow> history s1 = history s"
  unfolding quietG_def by blast

lemma quietG_bind [quietG_intros]:
  assumes "quietG m" "\<And>x. quietG (f x)"
  shows "quietG (bindG m f)"
  unfolding quietG_def
proof (intro allI impI)
  fix s r s2 assume "bindG m f s = (r, s2)"
  then show "history s2 = history s"
  proof (cases rule: bindG_cases)
    case (raises e)
    with assms(1) show ?thesis by (blast dest: quietGD)
  next
    case (returns x s1)
    from quietGD [OF assms(1) returns(1)] quietGD [OF assms(2) returns(2)] show ?thesis by simp
  qed
qed

lemma quietG_base [quietG_intros]:
  "quietG (returnG x)" "quietG (raiseG e)" "quietG (liftG r)" "quietG (readG f)" "quietG (modifyG g)"
  "quietG (checkG b e)" "quietG (treeG op)"
  by (auto simp: quietG_def history_def checkG_run treeG_def split: if_splits prod.splits)

lemma quietG_silent [quietG_intros]: "quietG (silentG m)"
  by (auto simp: quietG_def history_def silentG_def notedG_def split: prod.splits)

lemma quietG_if [quietG_intros]: "quietG m \<Longrightarrow> quietG n \<Longrightarrow> quietG (if b then m else n)"
  by simp

lemma quietG_for [quietG_intros]: "(\<And>x. quietG (f x)) \<Longrightarrow> quietG (forG f xs)"
  by (induction xs) (simp_all add: quietG_intros)

lemma quietG_option [quietG_intros]:
  "quietG m \<Longrightarrow> (\<And>y. quietG (f y)) \<Longrightarrow> quietG (case x of None \<Rightarrow> m | Some y \<Rightarrow> f y)"
  by (cases x) simp_all

lemma quietG_prod [quietG_intros]: "(\<And>x y. quietG (f x y)) \<Longrightarrow> quietG (case p of (x, y) \<Rightarrow> f x y)"
  by (cases p) simp

lemma quiet_open [quietG_intros]: "quietG (dispatch_open (traced_dispatch P))"
  unfolding dispatch_open_def by (intro quietG_intros)

lemma quiet_deliver [quietG_intros]: "quietG (deliver_units n code)"
  unfolding deliver_units_def by (intro quietG_intros)

lemma quiet_exposure [quietG_intros]: "quietG (request_exposure (traced_dispatch P) C R out)"
proof -
  have "quietG (exposed_delivery (traced_dispatch P) C R out repair)" for repair
    unfolding exposed_delivery_def by (intro quietG_intros)
  moreover have "quietG (exposed_window (traced_dispatch P) C out repair)" for repair
    unfolding exposed_window_def by (intro quietG_intros)
  moreover have "quietG (verified_relation_packet (traced_dispatch P) C R out)"
    unfolding verified_relation_packet_def Let_def by (intro quietG_intros)
  moreover have "quietG (exposed_classification (traced_dispatch P) R out)"
    unfolding exposed_classification_def
    by (intro quietG_intros) (auto split: list.split prompt.split intro: quietG_intros)
  ultimately show ?thesis
    unfolding request_exposure_def by (intro quietG_intros) blast+
qed

lemma quiet_prepare: "quietG (prepare_request (traced_dispatch P) C R out settings)"
proof -
  have "quietG (accounting_scope C R)"
    unfolding accounting_scope_def by (auto split: list.split dispatch_target.split intro: quietG_intros)
  moreover have "quietG (supervision_open (traced_dispatch P) C R)"
    unfolding supervision_open_def by (intro quietG_intros) (auto split: datetime.split intro: quietG_intros)
  ultimately show ?thesis
    unfolding prepare_request_def Let_def by (auto intro!: quietG_intros)
qed

lemma quiet_authorize: "quietG (authorize_exposure (traced_dispatch P) C k)"
  unfolding authorize_exposure_def authorize_window_def authorize_source_def authorize_classification_def
    authorize_packet_def by (auto intro!: quietG_intros)

lemma quiet_after: "quietG (check_bounds b r)" "quietG (check_managed R ob r)" "quietG (record_exposure (traced_dispatch P) k)"
  unfolding check_bounds_def check_managed_def record_exposure_def Let_def
  by (auto intro!: quietG_intros split: option.split sum.split prod.split bool.split)

section \<open>The tree is open when the provider is called\<close>

lemma open_returns [simp]: "dispatch_open P s = (Inr u, s1) \<longleftrightarrow> s1 = s \<and> tree_open P s"
  unfolding dispatch_open_def bindG_def treeG_def require_dispatch_open_def stop_failure_def tree_open_def
  by (cases s) (auto simp: fail_tree_def split: option.splits)

lemma authorized_open:
  assumes "authorize_exposure P C k s = (Inr u, s1)" shows "tree_open P s1"
proof -
  let ?x = "tk_exposure k" and ?i = "tk_intent k"
  from assms obtain sa sb sc where step: "dispatch_open P s = (Inr (), sa)"
    "authorize_window P ?x sa = (Inr (), sb)" "authorize_source P ?x sb = (Inr (), sc)"
    and rest: "bindG (authorize_classification P C ?i ?x) (\<lambda>_. authorize_packet P ?i ?x) sc = (Inr u, s1)"
    unfolding authorize_exposure_def by (auto simp: bindG_Inr_iff)
  from rest obtain sd where cl: "authorize_classification P C ?i ?x sc = (Inr (), sd)"
    and pk: "authorize_packet P ?i ?x sd = (Inr u, s1)" by (auto simp: bindG_Inr_iff)
  have keep: "tree_open P (f t, w) = tree_open P (t, w)"
    if "\<And>t. tree_terminal_failure (f t) = tree_terminal_failure t" for f t w
    using that by (simp add: tree_open_def)
  from step(1) have "tree_open P sa" by simp
  with step(2) have "tree_open P sb"
    by (auto simp: authorize_window_def bindG_Inr_iff split: option.splits)
  with step(3) have "tree_open P sc"
    by (auto simp: authorize_source_def bindG_Inr_iff split: option.splits)
  with cl have "tree_open P sd"
    by (auto simp: authorize_classification_def bindG_Inr_iff keep split: option.splits)
  with pk show ?thesis
    by (auto simp: authorize_packet_def bindG_Inr_iff keep split: option.splits if_splits)
qed

end
