(* ===== verification/DispatchEvents.thy ===== *)
theory DispatchEvents
  imports DispatchFacts
begin

text \<open>
  The usage event of every outcome is a valid one, and the trace of a request.
\<close>

section \<open>Valid events\<close>

definition fair_usage :: "model_response \<Rightarrow> bool" where
  "fair_usage r \<longleftrightarrow>
     0 \<le> pu_input_tokens (mr_usage r) \<and> 0 \<le> pu_output_tokens (mr_usage r)
     \<and> 0 \<le> pu_cache_read_tokens (mr_usage r) \<and> 0 \<le> pu_cache_write_tokens (mr_usage r)"

lemma normalized_valid: "fair_usage r \<Longrightarrow> is_ok (make_normalized_usage (normalized_of r))"
  by (auto simp: make_normalized_usage_def normalized_of_def fair_usage_def Let_def)

lemma make_normalized_iff: "make_normalized_usage u = Inr v \<longleftrightarrow> v = u \<and> is_ok (make_normalized_usage u)"
  unfolding make_normalized_usage_def by auto

lemma normalized_nonneg:
  "is_ok (make_normalized_usage u) \<longleftrightarrow>
     nu_input_tokens u \<ge> 0 \<and> nu_output_tokens u \<ge> 0 \<and> nu_total_tokens u = nu_input_tokens u + nu_output_tokens u
     \<and> nu_cached_input_tokens u \<ge> 0 \<and> nu_cache_write_tokens u \<ge> 0 \<and> nu_reasoning_tokens u \<ge> 0
     \<and> nu_tool_calls u \<ge> 0 \<and> nu_cached_input_tokens u + nu_cache_write_tokens u \<le> nu_input_tokens u
     \<and> nu_reasoning_tokens u \<le> nu_output_tokens u"
  by (auto simp: make_normalized_usage_def)

lemma summed_valid:
  "list_all (\<lambda>u. is_ok (make_normalized_usage u)) us \<Longrightarrow> is_ok (make_normalized_usage (summed_usage us))"
proof (induction us)
  case (Cons u us)
  then have "is_ok (make_normalized_usage (summed_usage us))" "is_ok (make_normalized_usage u)" by simp_all
  then show ?case unfolding normalized_nonneg by (simp add: summed_usage_def)
qed (simp add: normalized_nonneg summed_usage_def)

lemma observation_parts:
  assumes "is_ok (make_managed_observation ob)"
  shows "\<forall>u. mo_reported_total ob = Some u \<longrightarrow> is_ok (make_normalized_usage u)"
    and "\<forall>u. mo_estimated_total ob = Some u \<longrightarrow> is_ok (make_normalized_usage u)"
    and "\<forall>r \<in> set (mo_request_observations ob). \<forall>u. io_usage r = Some u \<longrightarrow> is_ok (make_normalized_usage u)"
  using assms by (auto simp: make_managed_observation_def make_inference_observation_def)

lemma request_total_valid:
  assumes "is_ok (make_managed_observation ob)"
  obtains aggregate provenance where "request_total ob = Inr (aggregate, provenance)"
    "(aggregate = None) = (provenance = PROV_UNAVAILABLE)"
    "\<forall>u. aggregate = Some u \<longrightarrow> is_ok (make_normalized_usage u)"
proof (cases "\<not> mo_request_observations_complete ob \<or> list_ex (\<lambda>r. io_usage r = None) (mo_request_observations ob)")
  case True
  then have "request_total ob = Inr (None, PROV_UNAVAILABLE)" by (auto simp: request_total_def)
  with that show ?thesis by simp
next
  case False
  then have "list_all (\<lambda>u. is_ok (make_normalized_usage u)) (map (the \<circ> io_usage) (mo_request_observations ob))"
    using observation_parts(3) [OF assms] by (fastforce simp: list_all_iff list_ex_iff)
  then obtain v where "make_normalized_usage (summed_usage (map (the \<circ> io_usage) (mo_request_observations ob))) = Inr v"
    "is_ok (make_normalized_usage v)"
    using summed_valid make_normalized_iff by (metis is_ok_def)
  with False that [of "Some v"] show ?thesis by (auto simp: request_total_def Let_def)
qed

lemma accounted_valid:
  assumes "is_ok (make_managed_observation ob)"
  obtains aggregate provenance where "accounted_total ob = Inr (aggregate, provenance)"
    "(aggregate = None) = (provenance = PROV_UNAVAILABLE)"
    "\<forall>u. aggregate = Some u \<longrightarrow> is_ok (make_normalized_usage u)"
proof (cases "mo_reported_total ob")
  case None
  obtain aggregate provenance where total: "request_total ob = Inr (aggregate, provenance)"
    "(aggregate = None) = (provenance = PROV_UNAVAILABLE)"
    "\<forall>u. aggregate = Some u \<longrightarrow> is_ok (make_normalized_usage u)"
    by (rule request_total_valid [OF assms])
  show ?thesis
  proof (cases aggregate)
    case None
    with total \<open>mo_reported_total ob = None\<close> observation_parts(2) [OF assms] that show ?thesis
      by (cases "mo_estimated_total ob") (auto simp: accounted_total_def)
  next
    case (Some u)
    with total \<open>mo_reported_total ob = None\<close> that [of aggregate] show ?thesis by (auto simp: accounted_total_def)
  qed
next
  case (Some u)
  with observation_parts(1) [OF assms] that [of "Some u"] show ?thesis by (auto simp: accounted_total_def)
qed

lemma default_observation_valid: "is_ok (make_managed_observation default_observation)"
  by (simp add: make_managed_observation_def default_observation_def observation_counts_check_def nested_list_def)

text \<open>What the two settlements of a call have in common.\<close>

definition settled :: "settlement \<Rightarrow> bool" where
  "settled s \<longleftrightarrow>
     st_outcome s = required_outcome (st_event_kind s) \<and> opt_field (identifier_field 128) (st_diagnostic_code s)
     \<and> (case st_response s of
          None \<Rightarrow> st_outcome s \<noteq> OUT_SUCCEEDED
        | Some r \<Rightarrow> st_outcome s = OUT_SUCCEEDED \<longrightarrow>
            st_event_kind s = (if has_reported_usage r (st_usage_provenance s) then USAGE_REPORTED else USAGE_UNAVAILABLE))"

lemma diagnostics: "identifier_field 128 ''provider.request-cancelled''" "identifier_field 128 ''provider.request-failed''"
  "identifier_field 128 ''provider.usage-unavailable''"
  by code_simp+

lemma settled_call [simp]: "settled (failed_settlement e)" "settled (returned_settlement provenance lost cancelled r)"
  by (auto simp: settled_def failed_settlement_def returned_settlement_def diagnostics)

lemma event_valid:
  assumes "is_sha256 (ue_dedupe_key e)" "opt_field (identifier_field 128) (ue_diagnostic_code e)"
    "ue_provider_reported_cost_microunits e = None" "ue_provider_reported_currency e = None"
    "ue_provider_request_id_hash e = None"
    "ue_usage_state e = (if ue_usage e = None then STATE_UNAVAILABLE else STATE_REPORTED)"
    "(ue_usage e = None) = (ue_usage_provenance e = PROV_UNAVAILABLE)"
    "\<forall>u. ue_usage e = Some u \<longrightarrow> is_ok (make_normalized_usage u)"
    "ue_outcome e = required_outcome (ue_event_kind e)"
    "ue_event_kind e = USAGE_REPORTED \<longrightarrow> ue_usage e \<noteq> None"
    "ue_event_kind e = USAGE_UNAVAILABLE \<longrightarrow> ue_usage e = None"
    "\<forall>ob. ue_observation e = Some ob \<longrightarrow> is_ok (make_managed_observation ob)
       \<and> accounted_total ob = Inr (ue_usage e, ue_usage_provenance e)"
  shows "make_usage_event e = Inr e"
proof -
  have "\<forall>c \<in> set (usage_state_checks e). c = None"
    using assms(3-7,9-11) by (auto simp: usage_state_checks_def)
  with assms show ?thesis by (auto simp: make_usage_event_def split: option.splits)
qed

lemma managed_event_valid:
  assumes "settled s" "sha256_documented H" "\<forall>ob. observation = Some ob \<longrightarrow> is_ok (make_managed_observation ob)"
  shows "\<exists>e. managed_usage_event H request_id observation s event_id = Inr e \<and> make_usage_event e = Inr e
    \<and> ue_request_id e = request_id \<and> ue_outcome e = st_outcome s"
proof -
  define observed where "observed = (case observation of None \<Rightarrow> default_observation | Some ob \<Rightarrow> ob)"
  have ok: "is_ok (make_managed_observation observed)"
    using assms(3) default_observation_valid by (auto simp: observed_def split: option.split)
  then obtain aggregate provenance where total: "accounted_total observed = Inr (aggregate, provenance)"
    "(aggregate = None) = (provenance = PROV_UNAVAILABLE)"
    "\<forall>u. aggregate = Some u \<longrightarrow> is_ok (make_normalized_usage u)" by (rule accounted_valid)
  define kind where "kind = (if st_outcome s = OUT_SUCCEEDED
    then (if aggregate \<noteq> None then USAGE_REPORTED else USAGE_UNAVAILABLE) else st_event_kind s)"
  define e where "e = \<lparr>ue_event_id = event_id, ue_request_id = request_id,
    ue_dedupe_key = dedupe_key H request_id kind event_id, ue_event_kind = kind, ue_outcome = st_outcome s,
    ue_usage_state = (if aggregate \<noteq> None then STATE_REPORTED else STATE_UNAVAILABLE),
    ue_usage_provenance = provenance, ue_usage = aggregate,
    ue_provider_reported_cost_microunits = None, ue_provider_reported_currency = None,
    ue_provider_request_id_hash = None, ue_diagnostic_code = st_diagnostic_code s, ue_observation = Some observed\<rparr>"
  have outcome: "st_outcome s = required_outcome kind"
    using assms(1) by (auto simp: settled_def kind_def)
  have named: "kind = USAGE_REPORTED \<longrightarrow> aggregate \<noteq> None" "kind = USAGE_UNAVAILABLE \<longrightarrow> aggregate = None"
    using assms(1) by (auto simp: settled_def kind_def split: if_splits)
  have "make_usage_event e = Inr e"
    by (rule event_valid) (use assms(1,2) total ok outcome named in
      \<open>auto simp: e_def settled_def dedupe_key_def sha256_documented_def\<close>)
  moreover have "managed_usage_event H request_id observation s event_id = make_usage_event e"
    by (simp add: managed_usage_event_def observed_def [symmetric] total(1) e_def kind_def Let_def)
  ultimately show ?thesis by (auto simp: e_def)
qed

lemma request_event_valid:
  assumes "settled s" "sha256_documented H" "\<forall>r. st_response s = Some r \<longrightarrow> fair_usage r"
  shows "\<exists>e. request_usage_event H request_id s event_id = Inr e \<and> make_usage_event e = Inr e
    \<and> ue_request_id e = request_id \<and> ue_outcome e = st_outcome s"
proof -
  define reported where "reported = (case st_response s of None \<Rightarrow> None
    | Some r \<Rightarrow> if has_reported_usage r (st_usage_provenance s) then Some r else None)"
  define e where "e = \<lparr>ue_event_id = event_id, ue_request_id = request_id,
    ue_dedupe_key = dedupe_key H request_id (st_event_kind s) event_id, ue_event_kind = st_event_kind s,
    ue_outcome = st_outcome s,
    ue_usage_state = (if reported \<noteq> None then STATE_REPORTED else STATE_UNAVAILABLE),
    ue_usage_provenance = (if reported \<noteq> None then st_usage_provenance s else PROV_UNAVAILABLE),
    ue_usage = map_option normalized_of reported,
    ue_provider_reported_cost_microunits = None, ue_provider_reported_currency = None,
    ue_provider_request_id_hash = None, ue_diagnostic_code = st_diagnostic_code s, ue_observation = None\<rparr>"
  have known: "reported \<noteq> None \<longrightarrow> st_usage_provenance s \<noteq> PROV_UNAVAILABLE"
    by (auto simp: reported_def has_reported_usage_def split: option.splits if_splits)
  have named: "st_event_kind s = USAGE_REPORTED \<longrightarrow> reported \<noteq> None" "st_event_kind s = USAGE_UNAVAILABLE \<longrightarrow> reported = None"
    using assms(1) by (auto simp: settled_def reported_def split: option.splits if_splits)
  have fair: "\<forall>r. reported = Some r \<longrightarrow> is_ok (make_normalized_usage (normalized_of r))"
    using assms(3) normalized_valid by (auto simp: reported_def split: option.splits if_splits)
  have "make_usage_event e = Inr e"
  proof (rule event_valid)
    show "is_sha256 (ue_dedupe_key e)" using assms(2) by (simp add: e_def dedupe_key_def sha256_documented_def)
    show "\<forall>u. ue_usage e = Some u \<longrightarrow> is_ok (make_normalized_usage u)" using fair by (auto simp: e_def)
    show "(ue_usage e = None) = (ue_usage_provenance e = PROV_UNAVAILABLE)" using known by (simp add: e_def)
  qed (use assms(1) named in \<open>simp_all add: e_def settled_def\<close>)
  moreover have "request_usage_event H request_id s event_id = make_usage_event e"
  proof (cases reported)
    case (Some r)
    with fair have "make_normalized_usage (normalized_of r) = Inr (normalized_of r)"
      by (metis make_normalized_iff)
    with Some show ?thesis
      unfolding request_usage_event_def reported_def [symmetric] Let_def e_def by simp
  qed (simp add: request_usage_event_def reported_def [symmetric] e_def)
  ultimately show ?thesis by (auto simp: e_def)
qed

lemma dispatch_event_valid:
  assumes "settled s" "sha256_documented H" "\<forall>r. st_response s = Some r \<longrightarrow> \<not> managed \<longrightarrow> fair_usage r"
    and "\<forall>ob. observation = Some ob \<longrightarrow> is_ok (make_managed_observation ob)"
  shows "\<exists>e. dispatch_usage_event H request_id managed observation s event_id = Inr e \<and> make_usage_event e = Inr e
    \<and> ue_request_id e = request_id \<and> ue_outcome e = st_outcome s"
  using managed_event_valid [OF assms(1,2,4)] request_event_valid [OF assms(1,2)] assms(3)
  by (cases managed) (simp_all add: dispatch_usage_event_def)

end
