(* ===== verification/DispatchTrace.thy ===== *)
theory DispatchTrace
  imports DispatchEvents
begin

text \<open>
  What one request adds to the trace, part by part.
\<close>

text \<open>What is expected of the ports outside the repository: an identifier source that returns, digests of
  the documented form, counts that are not negative and observations that passed their validator.\<close>

definition trusted_ports :: "'w dispatch_ports \<Rightarrow> bool" where
  "trusted_ports P \<longleftrightarrow>
     (\<forall>s. error_of (fst (dq_uuid4 P s)) = None) \<and> sha256_documented (dq_digest P)
     \<and> (\<forall>out st s r s1. dq_request P out st s = (Inr r, s1) \<longrightarrow> fair_usage r)
     \<and> (\<forall>out st b s r s1. dq_request_bounded P out st b s = (Inr r, s1) \<longrightarrow> fair_usage r)
     \<and> (\<forall>out st q s m s1. dq_request_managed P out st q s = (Inr m, s1)
          \<longrightarrow> is_ok (make_managed_observation (mt_observation m)))"

section \<open>The intent\<close>

lemma make_request_intent_Inr: "make_request_intent i = Inr j \<longleftrightarrow> j = i \<and> is_ok (make_request_intent i)"
  unfolding make_request_intent_def by auto

lemma checked_intent:
  "(case make_request_intent i of Inl e \<Rightarrow> Inl err | Inr j \<Rightarrow> Inr j) = Inr k \<longleftrightarrow> k = i \<and> is_ok (make_request_intent i)"
proof (cases "make_request_intent i")
  case (Inr j)
  then have "j = i" by (simp add: make_request_intent_Inr)
  with Inr show ?thesis by auto
qed simp

lemma intent_of_Inr:
  assumes "intent_of C R request_id scope sequence maximum h = Inr i"
  shows "is_ok (make_request_intent i)" "in_request_id i = request_id" "in_semantic_task_id i = Some (rn_task_id C)"
    "in_semantic_attempt_id i = Some (rn_attempt_id C)" "in_request_sequence i = int sequence"
    "managed_admission (ar_binding R) \<longrightarrow> pb_supervision (ar_binding R) \<noteq> None"
  using assms
  by (auto simp: intent_of_def Let_def bindE_Inr_iff checked_intent split: option.splits if_splits)

lemma prepared_intent:
  assumes "prepare_request P C R out settings s = (Inr k, s1)"
  shows "is_ok (make_request_intent (tk_intent k))" "in_semantic_task_id (tk_intent k) = Some (rn_task_id C)"
    "in_semantic_attempt_id (tk_intent k) = Some (rn_attempt_id C)"
    "managed_admission (ar_binding R) \<longrightarrow> pb_supervision (ar_binding R) \<noteq> None"
proof -
  from assms obtain request_id scope sequence maximum h where
    "intent_of C R request_id scope sequence maximum h = Inr (tk_intent k)"
    unfolding prepare_request_def by (auto simp: bindG_Inr_iff Let_def)
  from intent_of_Inr [OF this] show
    "is_ok (make_request_intent (tk_intent k))" "in_semantic_task_id (tk_intent k) = Some (rn_task_id C)"
    "in_semantic_attempt_id (tk_intent k) = Some (rn_attempt_id C)"
    "managed_admission (ar_binding R) \<longrightarrow> pb_supervision (ar_binding R) \<noteq> None" by blast+
qed

section \<open>The call\<close>

lemma notedG_run:
  assumes "notedG note m s = (r, s1)"
  obtains s2 where "m (fst s, fst (snd s)) = (r, s2)" "history s1 = history s @ note (fst s, fst (snd s)) r"
    "fst s1 = fst s2" "fst (snd s1) = snd s2"
  using assms by (auto simp: notedG_def history_def split: prod.splits)

lemma attemptG_run: "attemptG m s = (r, s1) \<longleftrightarrow> (\<exists>x. m s = (x, s1) \<and> r = Inr x)"
  by (auto simp: attemptG_def split: prod.splits)

text \<open>How a call ended: \<open>x\<close> is the exception of the provider.\<close>

definition call_ended :: "bool \<Rightarrow> run_exception option \<Rightarrow> called \<Rightarrow> bool" where
  "call_ended managed x c \<longleftrightarrow>
     (case x of Some e \<Rightarrow> fst c = Inl e \<and> snd c = None | None \<Rightarrow> (\<exists>r. fst c = Inr r \<and> (managed \<or> fair_usage r)))
     \<and> (\<forall>ob. snd c = Some ob \<longrightarrow> is_ok (make_managed_observation ob))"

lemma call_unmanaged:
  assumes "trusted_ports P" "\<not> managed_admission (ar_binding R)"
    and "call_provider (traced_dispatch P) R out k s = (r, s1)"
  shows "\<exists>c x. r = Inr c \<and> call_ended False x c
    \<and> history s1 = history s @ [ProviderCalled (tree_open P (fst s, fst (snd s))) x]"
proof -
  have fair: "dq_request P out st s0 = (Inr m, s2) \<Longrightarrow> fair_usage m"
    "dq_request_bounded P out st b s0 = (Inr m, s2) \<Longrightarrow> fair_usage m" for out st b s0 m s2
    using assms(1) unfolding trusted_ports_def by blast+
  from assms(2,3) obtain x where x: "(case tk_bounds k of
      Some bounds \<Rightarrow> dq_request_bounded (traced_dispatch P) out (tk_settings k) bounds
    | None \<Rightarrow> dq_request (traced_dispatch P) out (tk_settings k)) s = (x, s1)" "r = Inr (x, None)"
    unfolding call_provider_def bindG_def by (auto simp: attemptG_run split: prod.splits sum.splits)
  from x(1) have h: "history s1 = history s @ [ProviderCalled (tree_open P (fst s, fst (snd s))) (error_of x)]"
    by (cases "tk_bounds k") (auto simp: traced_dispatch_def elim!: notedG_run)
  have returned: "fair_usage y" if "x = Inr y" for y
    using x(1) that by (cases "tk_bounds k") (auto simp: traced_dispatch_def elim!: notedG_run dest: fair)
  have "call_ended False (error_of x) (x, None)"
    using returned by (cases x) (auto simp: call_ended_def)
  with h x(2) show ?thesis by blast
qed

lemma call_managed_trace:
  assumes "trusted_ports P" "managed_admission (ar_binding R)" "pb_supervision (ar_binding R) \<noteq> None"
    and "call_provider (traced_dispatch P) R out k s = (r, s1)"
  shows "\<exists>c x. r = Inr c \<and> call_ended True x c
    \<and> history s1 = history s @ [ProviderCalled (tree_open P (fst s, fst (snd s))) x]"
proof -
  from assms(3) obtain q where q: "pb_supervision (ar_binding R) = Some q" by blast
  let ?call = "dq_request_managed (traced_dispatch P) out (tk_settings k) q"
  obtain turn sa where run: "?call s = (turn, sa)" by (rule prod.exhaust)
  from run obtain s2 where m: "dq_request_managed P out (tk_settings k) q (fst s, fst (snd s)) = (turn, s2)"
    and h: "history sa = history s @ [ProviderCalled (tree_open P (fst s, fst (snd s))) (error_of turn)]"
    by (auto simp: traced_dispatch_def elim!: notedG_run)
  have call: "call_provider (traced_dispatch P) R out k s = (case turn of
      Inl e \<Rightarrow> (Inr (Inl e, None), sa)
    | Inr m \<Rightarrow> (case accounted_total (mt_observation m) of
        Inl _ \<Rightarrow> (Inr (Inl InvalidOutput, Some (mt_observation m)), sa)
      | Inr (aggregate, _) \<Rightarrow> (Inr (Inr (with_accounted aggregate (mt_response m)), Some (mt_observation m)), sa)))"
    using assms(2) q run by (auto simp: call_provider_def call_managed_def bindG_def attemptG_def split: sum.splits prod.splits)
  show ?thesis
  proof (cases turn)
    case (Inl e)
    with call assms(4) h show ?thesis by (auto simp: call_ended_def)
  next
    case (Inr mt)
    with m assms(1) have ok: "is_ok (make_managed_observation (mt_observation mt))"
      unfolding trusted_ports_def by blast
    then obtain aggregate provenance where "accounted_total (mt_observation mt) = Inr (aggregate, provenance)"
      by (rule accounted_valid)
    with Inr call assms(4) h ok show ?thesis by (auto simp: call_ended_def)
  qed
qed

lemma call_trace:
  assumes "trusted_ports P" "managed_admission (ar_binding R) \<longrightarrow> pb_supervision (ar_binding R) \<noteq> None"
    and "call_provider (traced_dispatch P) R out k s = (r, s1)"
  shows "\<exists>c x. r = Inr c \<and> call_ended (managed_admission (ar_binding R)) x c
    \<and> history s1 = history s @ [ProviderCalled (tree_open P (fst s, fst (snd s))) x]"
proof (cases "managed_admission (ar_binding R)")
  case True
  with call_managed_trace [OF assms(1) _ _ assms(3)] assms(2) show ?thesis by simp
next
  case False
  with call_unmanaged [OF assms(1) _ assms(3)] show ?thesis by simp
qed

section \<open>The settlement\<close>

text \<open>The outcome that the usage event of a call may report.\<close>

definition outcome_of_call :: "run_exception option \<Rightarrow> request_outcome set" where
  "outcome_of_call x =
     (case x of
        None \<Rightarrow> {OUT_SUCCEEDED, OUT_CANCELLED, OUT_LEASE_LOST}
      | Some e \<Rightarrow> if e = TaskCancelled then {OUT_CANCELLED} else {OUT_FAILED})"

lemma append_trace:
  assumes "trusted_ports P" "settled st" "\<forall>r. st_response st = Some r \<longrightarrow> \<not> managed \<longrightarrow> fair_usage r"
    and "\<forall>ob. observation = Some ob \<longrightarrow> is_ok (make_managed_observation ob)"
    and "append_settlement (traced_dispatch P) request_id managed observation st s = (r, s1)"
  shows "\<exists>e. make_usage_event e = Inr e \<and> ue_request_id e = request_id \<and> ue_outcome e = st_outcome st
    \<and> history s1 = history s @ [UsageAppended e (error_of r = None)]"
proof -
  obtain z s2 where z: "silentG (dq_uuid4 P) s = (z, s2)" by (rule prod.exhaust)
  then have "error_of z = None" "history s2 = history s"
    using assms(1) quietGD [OF quietG_silent z]
    unfolding silentG_def trusted_ports_def by (auto elim!: notedG_run) (metis fst_conv)
  then obtain event_id where u: "silentG (dq_uuid4 P) s = (Inr event_id, s2)" "history s2 = history s"
    using z by (cases z) auto
  from dispatch_event_valid [OF assms(2) _ assms(3,4), of "dq_digest P" request_id event_id] assms(1)
  obtain e where e: "dispatch_usage_event (dq_digest P) request_id managed observation st event_id = Inr e"
    "make_usage_event e = Inr e" "ue_request_id e = request_id" "ue_outcome e = st_outcome st"
    unfolding trusted_ports_def by blast
  with u assms(5) have "dq_append_usage (traced_dispatch P) e s2 = (r, s1)"
    by (simp add: append_settlement_def bindG_def)
  then have "history s1 = history s2 @ [UsageAppended e (error_of r = None)]"
    by (auto simp: traced_dispatch_def elim!: notedG_run)
  with e u(2) show ?thesis by metis
qed

lemma settle_trace:
  assumes "trusted_ports P" "call_ended (managed_admission (ar_binding R)) x c"
    and "settle_call (traced_dispatch P) R request_id c s = (r, s1)"
  shows "\<exists>e b. make_usage_event e = Inr e \<and> ue_request_id e = request_id \<and> ue_outcome e \<in> outcome_of_call x
    \<and> history s1 = history s @ [UsageAppended e b] \<and> (\<forall>y. r = Inr y \<longrightarrow> b \<and> x = None)
    \<and> (\<forall>err. x = Some err \<longrightarrow> b \<longrightarrow> r = Inl err)"
proof -
  have obs: "\<forall>ob. snd c = Some ob \<longrightarrow> is_ok (make_managed_observation ob)" using assms(2) by (auto simp: call_ended_def)
  show ?thesis
  proof (cases x)
    case (Some err)
    with assms(2) have c: "fst c = Inl err" by (simp add: call_ended_def)
    let ?m = "append_settlement (traced_dispatch P) request_id (managed_admission (ar_binding R)) (snd c) (failed_settlement err)"
    obtain z s2 where z: "?m s = (z, s2)" by (rule prod.exhaust)
    have "\<forall>r. st_response (failed_settlement err) = Some r \<longrightarrow> \<not> managed_admission (ar_binding R) \<longrightarrow> fair_usage r"
      by (simp add: failed_settlement_def)
    from append_trace [OF assms(1) settled_call(1) this obs z] obtain e where e: "make_usage_event e = Inr e" "ue_request_id e = request_id"
      "ue_outcome e = st_outcome (failed_settlement err)" "history s2 = history s @ [UsageAppended e (error_of z = None)]"
      by blast
    have "r = (case z of Inl a \<Rightarrow> Inl a | Inr _ \<Rightarrow> Inl err)" "s1 = s2"
      using assms(3) c z by (auto simp: settle_call_def bindG_def split: sum.splits)
    with e Some show ?thesis
      by (intro exI [of _ e] exI [of _ "error_of z = None"])
        (auto simp: outcome_of_call_def failed_settlement_def split: sum.splits)
  next
    case None
    with assms(2) obtain y where c: "fst c = Inr y" "managed_admission (ar_binding R) \<or> fair_usage y"
      by (auto simp: call_ended_def)
    let ?lost = "dq_lease_lost P (fst (snd s))" and ?cancelled = "dq_cancelled P (fst (snd s))"
    define st where "st = returned_settlement (target_provenance (pb_request_target (ar_binding R))) ?lost
      (?cancelled \<and> \<not> ?lost) y"
    obtain z s2 where z: "append_settlement (traced_dispatch P) request_id (managed_admission (ar_binding R)) (snd c) st s = (z, s2)"
      by (rule prod.exhaust)
    have "settled st" "\<forall>r. st_response st = Some r \<longrightarrow> \<not> managed_admission (ar_binding R) \<longrightarrow> fair_usage r"
      using c(2) by (auto simp: st_def returned_settlement_def settled_call [unfolded returned_settlement_def])
    from append_trace [OF assms(1) this obs z] obtain e where e: "make_usage_event e = Inr e" "ue_request_id e = request_id"
      "ue_outcome e = st_outcome st" "history s2 = history s @ [UsageAppended e (error_of z = None)]" by blast
    have "r = (case z of Inl a \<Rightarrow> Inl a | Inr _ \<Rightarrow> Inr y)" "s1 = s2"
      using assms(3) c(1) z by (auto simp: settle_call_def bindG_def st_def split: sum.splits)
    with e None show ?thesis
      by (intro exI [of _ e] exI [of _ "error_of z = None"])
        (auto simp: outcome_of_call_def st_def returned_settlement_def split: sum.splits)
  qed
qed

section \<open>From the call to the end\<close>

lemma called_and_settled:
  assumes "trusted_ports P" "managed_admission (ar_binding R) \<longrightarrow> pb_supervision (ar_binding R) \<noteq> None"
    and "bindG (call_provider (traced_dispatch P) R out k) (\<lambda>c. bindG (settle_call (traced_dispatch P) R request_id c) (\<lambda>y.
      bindG (check_bounds (tk_bounds k) y) (\<lambda>_. bindG (check_managed R (snd c) y) (\<lambda>_.
      bindG (record_exposure (traced_dispatch P) k) (\<lambda>_. returnG y))))) s = (r, s1)"
  shows "\<exists>x e b. history s1 = history s @ [ProviderCalled (tree_open P (fst s, fst (snd s))) x, UsageAppended e b]
    \<and> make_usage_event e = Inr e \<and> ue_request_id e = request_id \<and> ue_outcome e \<in> outcome_of_call x
    \<and> (\<forall>y. r = Inr y \<longrightarrow> b \<and> x = None) \<and> (\<forall>err. x = Some err \<longrightarrow> b \<longrightarrow> r = Inl err)"
  using assms(3)
proof (cases rule: bindG_cases)
  case (raises e)
  with call_trace [OF assms(1,2) raises(1)] show ?thesis by auto
next
  case (returns c sa)
  with call_trace [OF assms(1,2) returns(1)] obtain x where x:
    "call_ended (managed_admission (ar_binding R)) x c"
    "history sa = history s @ [ProviderCalled (tree_open P (fst s, fst (snd s))) x]" by auto
  note settle = settle_trace [OF assms(1) x(1)]
  from returns(2) show ?thesis
  proof (cases rule: bindG_cases)
    case (raises e)
    from settle [OF raises(1)] raises(2) x(2) show ?thesis by auto
  next
    case (returns y sb)
    have "quietG (bindG (check_bounds (tk_bounds k) y) (\<lambda>_. bindG (check_managed R (snd c) y) (\<lambda>_.
        bindG (record_exposure (traced_dispatch P) k) (\<lambda>_. returnG y))))"
      by (intro quietG_bind quiet_after quietG_base)
    from quietGD [OF this returns(2)] have "history s1 = history sb" .
    with settle [OF returns(1)] x(2) show ?thesis by auto
  qed
qed

end
