(* ===== verification/DispatchTree.thy ===== *)
theory DispatchTree
  imports DispatchFacts
begin

text \<open>
  The run tree as a state machine that all agents of a run move, and a request under such
  interference: a relation that every port keeps is kept by the request.
\<close>

section \<open>Steps of the tree\<close>

definition tree_accounts :: "run_tree \<Rightarrow> _" where
  "tree_accounts t =
     (tree_delegate_calls t, tree_request_sequence t,
      (tree_reserved_requests t, tree_reserved_input_tokens t, tree_reserved_output_tokens t),
      tree_terminal_failure t, tree_success_closed t, tree_token_cancelled t)"

text \<open>\<open>managed\<close> says whether managed turns, whose usage is not bounded in advance, may be settled.\<close>

inductive tree_step :: "run_budget \<Rightarrow> bool \<Rightarrow> run_tree \<Rightarrow> run_tree \<Rightarrow> bool" for B managed where
  reserve: "opt_field (\<lambda>b. 0 \<le> bd_input_tokens b \<and> 0 \<le> bd_output_tokens b) bounds
    \<Longrightarrow> tree_step B managed t (snd (next_provider_request_sequence B bounds t))"
| delegate: "tree_step B managed t (snd (reserve_delegate B t))"
| terminal: "tree_step B managed t (snd (set_terminal f t))"
| close: "tree_step B managed t (snd (close_for_success c late t))"
| external: "tree_step B managed t (snd (cancel_from_external_signal t))"
| dispatch: "tree_step B managed t (snd (require_dispatch_open c late t))"
| settle: "managed \<Longrightarrow> 0 \<le> nu_input_tokens u \<Longrightarrow> 0 \<le> nu_output_tokens u \<Longrightarrow> tree_step B managed t (settle_managed u t)"
| other: "tree_accounts t' = tree_accounts t \<Longrightarrow> tree_step B managed t t'"

definition tree_moves :: "run_budget \<Rightarrow> bool \<Rightarrow> run_tree \<Rightarrow> run_tree \<Rightarrow> bool" where
  "tree_moves B managed = (tree_step B managed)\<^sup>*\<^sup>*"

lemma tree_moves_refl [simp]: "tree_moves B managed t t"
  by (simp add: tree_moves_def)

lemma tree_moves_trans: "tree_moves B managed t u \<Longrightarrow> tree_moves B managed u v \<Longrightarrow> tree_moves B managed t v"
  by (simp add: tree_moves_def)

lemma tree_moves_step: "tree_step B managed t u \<Longrightarrow> tree_moves B managed t u"
  by (simp add: tree_moves_def r_into_rtranclp)

lemmas tree_ops = next_provider_request_sequence_def reserve_delegate_def set_terminal_def close_for_success_def
  cancel_from_external_signal_def require_dispatch_open_def settle_managed_def fail_tree_def Let_def

text \<open>What never goes back: the first failure, the closing, the numbering and the reservations.\<close>

definition tree_grows :: "run_tree \<Rightarrow> run_tree \<Rightarrow> bool" where
  "tree_grows t u \<longleftrightarrow>
     (\<forall>f. tree_terminal_failure t = Some f \<longrightarrow> tree_terminal_failure u = Some f)
     \<and> (tree_success_closed t \<longrightarrow> tree_success_closed u) \<and> (tree_token_cancelled t \<longrightarrow> tree_token_cancelled u)
     \<and> tree_delegate_calls t \<le> tree_delegate_calls u \<and> tree_request_sequence t \<le> tree_request_sequence u
     \<and> tree_reserved_requests t \<le> tree_reserved_requests u
     \<and> tree_reserved_input_tokens t \<le> tree_reserved_input_tokens u
     \<and> tree_reserved_output_tokens t \<le> tree_reserved_output_tokens u"

lemma tree_step_grows: "tree_step B managed t u \<Longrightarrow> tree_grows t u"
  by (induction rule: tree_step.induct)
    (auto simp: tree_grows_def tree_ops tree_accounts_def split: option.splits if_splits)

lemma tree_grows_refl [simp]: "tree_grows t t"
  by (simp add: tree_grows_def)

lemma tree_grows_trans: "tree_grows t u \<Longrightarrow> tree_grows u v \<Longrightarrow> tree_grows t v"
  unfolding tree_grows_def by (meson le_trans order_trans)

lemma tree_moves_grows: "tree_moves B managed t u \<Longrightarrow> tree_grows t u"
  unfolding tree_moves_def
proof (induction rule: rtranclp_induct)
  case (step u v)
  with tree_step_grows tree_grows_trans show ?case by blast
qed simp

text \<open>The invariant of a tree: what was reserved and delegated is within the budget, and the token of
  the run is cancelled exactly when the run has failed.\<close>

definition tree_ok :: "run_budget \<Rightarrow> bool \<Rightarrow> run_tree \<Rightarrow> bool" where
  "tree_ok B managed t \<longleftrightarrow>
     tree_delegate_calls t \<le> rb_max_delegate_calls B
     \<and> tree_token_cancelled t = (tree_terminal_failure t \<noteq> None)
     \<and> (\<not> managed \<longrightarrow>
          tree_reserved_requests t \<le> int (rb_request_limit B)
          \<and> tree_reserved_input_tokens t \<le> int (rb_input_token_limit B)
          \<and> tree_reserved_output_tokens t \<le> int (rb_output_token_limit B)
          \<and> tree_reserved_input_tokens t + tree_reserved_output_tokens t \<le> int (rb_total_token_limit B))"

lemma tree_step_ok: "tree_step B managed t u \<Longrightarrow> tree_ok B managed t \<Longrightarrow> tree_ok B managed u"
  by (induction rule: tree_step.induct)
    (auto simp: tree_ok_def tree_ops tree_accounts_def split: option.splits if_splits)

lemma tree_moves_ok: "tree_moves B managed t u \<Longrightarrow> tree_ok B managed t \<Longrightarrow> tree_ok B managed u"
  unfolding tree_moves_def by (induction rule: rtranclp_induct) (auto intro: tree_step_ok)

section \<open>Requests under interference\<close>

definition keeps :: "(run_tree \<Rightarrow> run_tree \<Rightarrow> bool) \<Rightarrow> ('w, 'a) guarded \<Rightarrow> bool" where
  "keeps rel m \<longleftrightarrow> (\<forall>s r s1. m s = (r, s1) \<longrightarrow> rel (fst s) (fst s1))"

lemma keepsD: "keeps rel m \<Longrightarrow> m s = (r, s1) \<Longrightarrow> rel (fst s) (fst s1)"
  unfolding keeps_def by blast

definition ports_keep :: "(run_tree \<Rightarrow> run_tree \<Rightarrow> bool) \<Rightarrow> 'w dispatch_ports \<Rightarrow> bool" where
  "ports_keep rel P \<longleftrightarrow>
     keeps rel (dq_uuid4 P) \<and> (\<forall>i. keeps rel (dq_record_intent P i)) \<and> (\<forall>e. keeps rel (dq_append_usage P e))
     \<and> keeps rel (dq_authorize_dispatch P) \<and> (\<forall>d. keeps rel (dq_authorize_delivery P d))
     \<and> (\<forall>p. keeps rel (dq_authorize_relation P p)) \<and> (\<forall>i h x. keeps rel (dq_record_received P i h x))
     \<and> (\<forall>i h x. keeps rel (dq_record_delivery P i h x)) \<and> (\<forall>i h x. keeps rel (dq_record_relation P i h x))
     \<and> (\<forall>out st. keeps rel (dq_request P out st)) \<and> (\<forall>out st b. keeps rel (dq_request_bounded P out st b))
     \<and> (\<forall>out st q. keeps rel (dq_request_managed P out st q))"

text \<open>A relation that the interference and the steps of a request keep.\<close>

locale shared_tree =
  fixes rel :: "run_tree \<Rightarrow> run_tree \<Rightarrow> bool"
    and B :: run_budget
  assumes refl: "rel t t"
    and trans: "rel t u \<Longrightarrow> rel u v \<Longrightarrow> rel t v"
    and other: "tree_accounts u = tree_accounts t \<Longrightarrow> rel t u"
    and dispatch: "rel t (snd (require_dispatch_open c late t))"
    and reserve: "opt_field (\<lambda>b. 0 \<le> bd_input_tokens b \<and> 0 \<le> bd_output_tokens b) bounds
      \<Longrightarrow> rel t (snd (next_provider_request_sequence B bounds t))"
begin

lemma keeps_bind: "keeps rel m \<Longrightarrow> (\<And>x. keeps rel (f x)) \<Longrightarrow> keeps rel (bindG m f)"
  unfolding keeps_def
proof (intro allI impI)
  fix s r s2 assume m: "\<forall>s r s1. m s = (r, s1) \<longrightarrow> rel (fst s) (fst s1)"
    and f: "\<And>x. \<forall>s r s1. f x s = (r, s1) \<longrightarrow> rel (fst s) (fst s1)" and run: "bindG m f s = (r, s2)"
  from run show "rel (fst s) (fst s2)"
  proof (cases rule: bindG_cases)
    case (returns x s1)
    with m f have "rel (fst s) (fst s1)" "rel (fst s1) (fst s2)" by blast+
    then show ?thesis by (rule trans)
  qed (use m in blast)
qed

lemma keeps_base: "keeps rel (returnG x)" "keeps rel (raiseG e)" "keeps rel (liftG r)" "keeps rel (readG g)"
  "keeps rel (checkG b e)"
  by (auto simp: keeps_def checkG_run refl split: if_splits)

lemma keeps_modify: "(\<And>t. tree_accounts (g t) = tree_accounts t) \<Longrightarrow> keeps rel (modifyG g)"
  by (auto simp: keeps_def intro: other)

lemma keeps_tree: "(\<And>t. rel t (snd (op t))) \<Longrightarrow> keeps rel (treeG op)"
  by (auto simp: keeps_def treeG_def split: prod.splits) (metis snd_conv)

lemma keeps_option: "keeps rel m \<Longrightarrow> (\<And>y. keeps rel (f y)) \<Longrightarrow> keeps rel (case x of None \<Rightarrow> m | Some y \<Rightarrow> f y)"
  by (cases x) simp_all

lemma keeps_sum: "(\<And>e. keeps rel (f e)) \<Longrightarrow> (\<And>y. keeps rel (g y)) \<Longrightarrow> keeps rel (case x of Inl e \<Rightarrow> f e | Inr y \<Rightarrow> g y)"
  by (cases x) simp_all

lemma keeps_prod: "(\<And>x y. keeps rel (f x y)) \<Longrightarrow> keeps rel (case p of (x, y) \<Rightarrow> f x y)"
  by (cases p) simp

lemma keeps_if: "keeps rel m \<Longrightarrow> keeps rel n \<Longrightarrow> keeps rel (if b then m else n)"
  by simp

lemma keeps_for: "(\<And>x. keeps rel (f x)) \<Longrightarrow> keeps rel (forG f xs)"
  by (induction xs) (simp_all add: keeps_base keeps_bind)

lemma keeps_open: "keeps rel (dispatch_open P)"
  unfolding dispatch_open_def by (intro keeps_bind keeps_base keeps_prod keeps_tree dispatch)

lemmas keeps_intros = keeps_bind keeps_base keeps_option keeps_sum keeps_prod keeps_if keeps_for keeps_open

lemma keeps_deliver: "keeps rel (deliver_units n code)"
  unfolding deliver_units_def by (intro keeps_intros keeps_modify) (simp add: tree_accounts_def)

lemma keeps_exposure: "keeps rel (request_exposure P C R out)"
proof -
  have "keeps rel (exposed_delivery P C R out repair)" for repair
    unfolding exposed_delivery_def by (intro keeps_intros keeps_deliver)
  moreover have "keeps rel (exposed_window P C out repair)" for repair
    unfolding exposed_window_def by (intro keeps_intros)
  moreover have "keeps rel (verified_relation_packet P C R out)"
    unfolding verified_relation_packet_def Let_def by (intro keeps_intros)
  moreover have "keeps rel (exposed_classification P R out)"
    unfolding exposed_classification_def
    by (intro keeps_intros) (auto split: list.split prompt.split intro: keeps_intros keeps_deliver)
  ultimately show ?thesis
    unfolding request_exposure_def by (intro keeps_intros) blast+
qed

lemma keeps_authorize:
  assumes "ports_keep rel P" shows "keeps rel (authorize_exposure P C k)"
  using assms unfolding authorize_exposure_def authorize_window_def authorize_source_def authorize_classification_def
    authorize_packet_def ports_keep_def
  by (auto intro!: keeps_intros keeps_modify simp: tree_accounts_def)

lemma keeps_call:
  assumes "ports_keep rel P" shows "keeps rel (call_provider P R out k)"
proof -
  have attempt: "keeps rel (attemptG m)" if "keeps rel m" for m :: "('w, 'b) guarded"
    using that by (auto simp: keeps_def attemptG_def split: prod.splits)
  show ?thesis
    using assms unfolding call_provider_def call_managed_def ports_keep_def
    by (auto intro!: keeps_intros attempt)
qed

lemma keeps_settle:
  assumes "ports_keep rel P" shows "keeps rel (settle_call P R request_id c)"
  using assms unfolding settle_call_def append_settlement_def ports_keep_def Let_def
  by (auto intro!: keeps_intros)

lemma keeps_after:
  assumes "ports_keep rel P"
  shows "keeps rel (check_bounds b r)" "keeps rel (record_exposure P k)"
    "\<not> managed_admission (ar_binding R) \<Longrightarrow> keeps rel (check_managed R ob r)"
  using assms unfolding check_bounds_def record_exposure_def check_managed_def ports_keep_def Let_def
  by (auto intro!: keeps_intros keeps_modify split: bool.split simp: tree_accounts_def note_usage_def)

lemma keeps_prepare:
  assumes "ports_keep rel P" "rn_budget C = B"
  shows "keeps rel (prepare_request P C R out settings)"
proof -
  have scope: "keeps rel (accounting_scope C R)"
    unfolding accounting_scope_def by (auto split: list.split dispatch_target.split intro: keeps_intros)
  have supervision: "keeps rel (supervision_open P C R)"
    unfolding supervision_open_def by (intro keeps_intros) (auto split: datetime.split intro: keeps_intros)
  have numbered: "keeps rel (bindG (liftG (bounds_of R maximum)) (\<lambda>bounds.
      bindG (treeG (next_provider_request_sequence (rn_budget C) bounds)) (f bounds)))"
    if "\<And>bounds x. keeps rel (f bounds x)" for maximum and f :: "_ \<Rightarrow> _ \<Rightarrow> ('w, 'b) guarded"
  proof (cases "bounds_of R maximum")
    case (Inr bounds)
    then have "opt_field (\<lambda>b. 0 \<le> bd_input_tokens b \<and> 0 \<le> bd_output_tokens b) bounds"
      by (auto simp: bounds_of_def split: option.splits dispatch_target.splits if_splits)
    then have "keeps rel (treeG (next_provider_request_sequence (rn_budget C) bounds))"
      unfolding assms(2) by (intro keeps_tree reserve)
    then have "keeps rel (bindG (treeG (next_provider_request_sequence (rn_budget C) bounds)) (f bounds))"
      using that by (rule keeps_bind)
    then show ?thesis using Inr by (simp add: keeps_def bindG_def)
  qed (simp add: keeps_def bindG_def refl)
  show ?thesis
    unfolding prepare_request_def Let_def using assms(1)
    by (intro keeps_bind [OF keeps_open] keeps_bind [OF keeps_exposure] keeps_bind [OF scope]
        keeps_bind [OF supervision] numbered keeps_intros) (auto simp: ports_keep_def)
qed

lemma keeps_request:
  assumes "ports_keep rel P" "rn_budget C = B" "\<not> managed_admission (ar_binding R)"
  shows "keeps rel (guarded_request P C R out settings)"
proof -
  have "keeps rel (dq_record_intent P i)" for i using assms(1) by (simp add: ports_keep_def)
  then show ?thesis
    unfolding guarded_request_def
    by (intro keeps_bind [OF keeps_prepare [OF assms(1,2)]] keeps_bind [OF keeps_authorize [OF assms(1)]]
        keeps_bind [OF keeps_call [OF assms(1)]] keeps_bind [OF keeps_settle [OF assms(1)]]
        keeps_bind [OF keeps_after(1) [OF assms(1)]] keeps_bind [OF keeps_after(2) [OF assms(1)]]
        keeps_bind [OF keeps_after(3) [OF assms(1,3)]] keeps_bind keeps_base)
qed

end

interpretation moves: shared_tree "tree_moves B managed" B for B managed
  by unfold_locales
    (auto intro: tree_moves_trans tree_moves_step tree_step.other tree_step.dispatch tree_step.reserve)

interpretation grows: shared_tree tree_grows B for B
  by unfold_locales (auto intro: tree_grows_trans tree_step_grows [of B True] tree_step.other tree_step.dispatch tree_step.reserve)

section \<open>What a response was reserved\<close>

lemma keeps_mono: "keeps rel m \<Longrightarrow> (\<And>t u. rel t u \<Longrightarrow> rel' t u) \<Longrightarrow> keeps rel' m"
  unfolding keeps_def by blast

lemma ports_keep_mono: "ports_keep rel P \<Longrightarrow> (\<And>t u. rel t u \<Longrightarrow> rel' t u) \<Longrightarrow> ports_keep rel' P"
  by (auto simp: ports_keep_def intro!: keeps_mono [where rel = rel and rel' = rel'])

lemma scope_state: "accounting_scope C R s = (Inr x, s1) \<Longrightarrow> s1 = s"
  by (auto simp: accounting_scope_def split: list.splits dispatch_target.splits if_splits)

lemma supervision_state: "supervision_open P C R s = (Inr u, s1) \<Longrightarrow> s1 = s"
  by (auto simp: supervision_open_def bindG_def checkG_run split: option.splits datetime.splits if_splits)

lemma prepared_reserved:
  assumes "ports_keep tree_grows P" "prepare_request P C R out settings s = (Inr k, s1)"
  shows "\<exists>u n maximum. tree_grows (fst s) u \<and> bounds_of R maximum = Inr (tk_bounds k)
    \<and> next_provider_request_sequence (rn_budget C) (tk_bounds k) u = (Inr n, fst s1)"
proof -
  from assms(2) obtain sa x sb request_id sc scope sd se maximum n where run:
    "dispatch_open P s = (Inr (), sa)" "request_exposure P C R out sa = (Inr x, sb)"
    "dq_uuid4 P sb = (Inr request_id, sc)" "accounting_scope C R sc = (Inr scope, sd)"
    "supervision_open P C R sd = (Inr (), se)" "bounds_of R maximum = Inr (tk_bounds k)"
    "treeG (next_provider_request_sequence (rn_budget C) (tk_bounds k)) se = (Inr n, s1)"
    unfolding prepare_request_def by (auto simp: bindG_Inr_iff Let_def)
  have "tree_grows (fst sb) (fst sc)" using assms(1) run(3) by (auto simp: ports_keep_def dest: keepsD)
  moreover have "tree_grows (fst sa) (fst sb)" by (rule keepsD [OF grows.keeps_exposure run(2)])
  moreover have "sd = sc" "se = sd" by (rule scope_state [OF run(4)], rule supervision_state [OF run(5)])
  moreover have "sa = s" using run(1) by simp
  ultimately have "tree_grows (fst s) (fst se)" using tree_grows_trans by metis
  moreover have "next_provider_request_sequence (rn_budget C) (tk_bounds k) (fst se) = (Inr n, fst s1)"
    using run(7) by (auto simp: treeG_def split: prod.splits)
  ultimately show ?thesis using run(6) by blast
qed

lemma checked_bounds: "check_bounds b r s = (Inr u, s1) \<Longrightarrow> s1 = s \<and> opt_field (\<lambda>b.
    pu_input_tokens (mr_usage r) \<le> bd_input_tokens b \<and> pu_output_tokens (mr_usage r) \<le> bd_output_tokens b) b"
  by (auto simp: check_bounds_def bindG_Inr_iff split: option.splits if_splits)

definition response_reserved :: "agent_run \<Rightarrow> run_tree \<Rightarrow> run_tree \<Rightarrow> model_response \<Rightarrow> bool" where
  "response_reserved R t u y \<longleftrightarrow>
     tree_request_sequence t < tree_request_sequence u
     \<and> (pb_admission (ar_binding R) \<noteq> None \<longrightarrow>
          tree_reserved_requests t < tree_reserved_requests u
          \<and> pu_input_tokens (mr_usage y) \<le> tree_reserved_input_tokens u - tree_reserved_input_tokens t
          \<and> pu_output_tokens (mr_usage y) \<le> tree_reserved_output_tokens u - tree_reserved_output_tokens t)"

lemma numbered: "next_provider_request_sequence B bounds t = (Inr n, u) \<Longrightarrow>
    tree_request_sequence u = Suc (tree_request_sequence t)
    \<and> opt_field (\<lambda>b. tree_reserved_requests u = tree_reserved_requests t + 1
         \<and> tree_reserved_input_tokens u = tree_reserved_input_tokens t + bd_input_tokens b
         \<and> tree_reserved_output_tokens u = tree_reserved_output_tokens t + bd_output_tokens b) bounds"
  by (auto simp: next_provider_request_sequence_def Let_def split: option.splits if_splits)

lemma request_reserved:
  assumes "ports_keep tree_grows P" "\<not> managed_admission (ar_binding R)"
    and "guarded_request P C R out settings (t, w :: 'w) = (Inr y, t1, w1)"
  shows "response_reserved R t t1 y"
proof -
  let ?rest = "\<lambda>k. bindG (dq_record_intent P (tk_intent k)) (\<lambda>_. bindG (authorize_exposure P C k) (\<lambda>_.
    bindG (call_provider P R out k) (\<lambda>c. bindG (settle_call P R (in_request_id (tk_intent k)) c) (\<lambda>r.
    bindG (check_bounds (tk_bounds k) r) (\<lambda>_. bindG (check_managed R (snd c) r) (\<lambda>_.
    bindG (record_exposure P k) (\<lambda>_. returnG r)))))))"
  from assms(3) obtain k s1 where prep: "prepare_request P C R out settings (t, w) = (Inr k, s1)"
    and rest: "?rest k s1 = (Inr y, t1, w1)"
    unfolding guarded_request_def by (rule bindG_Inr_iff [THEN iffD1, elim_format]) blast
  from rest obtain s5 s6 :: "run_tree \<times> 'w" where bounded: "check_bounds (tk_bounds k) y s5 = (Inr (), s6)"
    by (fastforce simp: bindG_Inr_iff)
  have "keeps tree_grows (dq_record_intent P i)" for i using assms(1) by (simp add: ports_keep_def)
  then have "keeps tree_grows (?rest k)"
    by (intro grows.keeps_bind grows.keeps_authorize grows.keeps_call grows.keeps_settle
        grows.keeps_after(1,2) [OF assms(1)] grows.keeps_after(3) [OF assms(1,2)] grows.keeps_base assms(1))
  from keepsD [OF this rest] have "tree_grows (fst s1) t1" by simp
  moreover obtain u n maximum where u: "tree_grows t u" "bounds_of R maximum = Inr (tk_bounds k)"
    "next_provider_request_sequence (rn_budget C) (tk_bounds k) u = (Inr n, fst s1)"
    using prepared_reserved [OF assms(1) prep] by auto
  moreover from numbered [OF u(3)] have "tree_request_sequence (fst s1) = Suc (tree_request_sequence u)" by blast
  moreover have "\<exists>b. tk_bounds k = Some b" if "pb_admission (ar_binding R) \<noteq> None"
    using that u(2) assms(2)
    by (auto simp: bounds_of_def managed_admission_def split: dispatch_target.splits if_splits) metis
  ultimately show ?thesis
    using numbered [OF u(3)] checked_bounds [OF bounded] by (auto simp: response_reserved_def tree_grows_def)
qed

end
