(* ===== verification/DispatchClaims.thy ===== *)
theory DispatchClaims
  imports DispatchTrace DispatchTree
begin

text \<open>The properties of the dispatch boundary, with the ports they are applied to.\<close>

section \<open>An example\<close>

definition demo_bounded_target :: request_target where
  "demo_bounded_target = \<lparr>pt_provider_key = ''demo'', pt_credential_id = 1, pt_model_id = ''m'',
     pt_max_input_tokens_per_request = 100, pt_max_output_tokens_per_request = 40,
     pt_billing_basis = BILL_SUBSCRIPTION, pt_allowance_state = ALLOW_COVERED, pt_pricing_revision_id = None,
     pt_quality_policy_revision_id = 2, pt_quality_tier = TIER_FRONTIER, pt_request_boundary_revision = ''r1'',
     pt_transport_retries_disabled = True, pt_usage_provenance = PROV_PROVIDER_REPORTED\<rparr>"

definition demo_reference :: model_profile where
  "demo_reference = \<lparr>mp_profile_key = ''demo'', mp_revision = 1, mp_effort_key = ''standard''\<rparr>"

definition demo_profile_binding :: profile_binding where
  "demo_profile_binding = \<lparr>pb_reference = demo_reference, pb_model = \<lparr>pm_identity = 0, pm_class = BoundedProvider\<rparr>,
     pb_max_running = 4, pb_max_queued = 16, pb_request_target = SingleInference demo_bounded_target,
     pb_conservative_reservation_microunits = 0,
     pb_admission = Some \<lparr>ma_managed = False, ma_model = \<lparr>pm_identity = 0, pm_class = BoundedProvider\<rparr>,
       ma_reference = demo_reference, ma_request_target = SingleInference demo_bounded_target,
       ma_qualification_revision = ''q1''\<rparr>,
     pb_supervision = None\<rparr>"

definition demo_agent :: agent_run where
  "demo_agent = \<lparr>ar_run_id = ''run'', ar_parent_run_id = None, ar_run_role = ''leaf'', ar_agent_key = ''author'',
     ar_binding = demo_profile_binding\<rparr>"

definition demo_run_budget :: run_budget where
  "demo_run_budget = \<lparr>rb_wall_clock_seconds = 60, rb_request_limit = 2, rb_input_token_limit = 200,
     rb_output_token_limit = 80, rb_total_token_limit = 250, rb_tool_call_limit = 0,
     rb_cost_safety_limit_microusd = None, rb_max_delegate_calls = 1, rb_max_parallel_delegates = 1,
     rb_evidence_item_limit = 1, rb_hydrated_character_limit = 1, rb_output_retries = 0, rb_tool_retries = 0\<rparr>"

definition demo_run_config :: run_config where
  "demo_run_config = \<lparr>rn_budget = demo_run_budget, rn_task_id = ''task'', rn_attempt_id = ''attempt'',
     rn_owning_module = ''core'', rn_task_kind = ''kind'', rn_contract_revision = 1, rn_input_kind = CompleteInput,
     rn_principal_id = ''worker'', rn_delegation_id = None, rn_tenant_id = ''tenant'', rn_workspace_id = ''space'',
     rn_policy_revision = 1, rn_allowed_access_scope_ids = [''scope''], rn_complete_input = True,
     rn_exposure_recorder = True, rn_source_revisiting = False, rn_source_delivery_recorder = False,
     rn_relation_assessment = False, rn_relation_delivery_recorder = False\<rparr>"

definition demo_model_response :: model_response where
  "demo_model_response = \<lparr>mr_usage = \<lparr>pu_input_tokens = 90, pu_output_tokens = 30, pu_cache_read_tokens = 0,
     pu_cache_write_tokens = 0, pu_reasoning_tokens = Some 5, pu_other_details = False\<rparr>,
     mr_tool_calls = 0, mr_content = JNull\<rparr>"

definition demo_dispatch_ports :: "unit dispatch_ports" where
  "demo_dispatch_ports =
     \<lparr>dq_cancelled = (\<lambda>w. False), dq_overdue = (\<lambda>w. False), dq_lease_lost = (\<lambda>w. False), dq_utc_now = (\<lambda>w. 0),
      dq_uuid4 = returnG 7, dq_digest = (\<lambda>b. replicate 64 (CHR ''a'')),
      dq_payload_hash = (\<lambda>out st. replicate 64 (CHR ''b'')), dq_parse_delivery = (\<lambda>s. None),
      dq_parse_window = (\<lambda>s. Some (JStr s)), dq_parse_packet = (\<lambda>b s. None), dq_parse_classification = (\<lambda>s. None),
      dq_evidence_delivery = (\<lambda>p e. Inl UnexpectedError),
      dq_record_intent = (\<lambda>i. returnG ()), dq_append_usage = (\<lambda>e. returnG ()),
      dq_authorize_dispatch = returnG (), dq_authorize_delivery = (\<lambda>d. returnG ()),
      dq_authorize_relation = (\<lambda>p. returnG ()), dq_record_received = (\<lambda>i h x. returnG ()),
      dq_record_delivery = (\<lambda>i h x. returnG ()), dq_record_relation = (\<lambda>i h x. returnG ()),
      dq_request = (\<lambda>out st. returnG demo_model_response), dq_request_bounded = (\<lambda>out st b. returnG demo_model_response),
      dq_request_managed = (\<lambda>out st q. raiseG ModelAPIError)\<rparr>"

definition demo_run_tree :: run_tree where
  "demo_run_tree = \<lparr>tree_delegate_calls = 0, tree_request_sequence = 0, tree_reserved_requests = 0,
     tree_reserved_input_tokens = 0, tree_reserved_output_tokens = 0, tree_terminal_failure = None,
     tree_success_closed = False, tree_token_cancelled = False, tree_usage_requests = 0,
     tree_usage_input_tokens = 0, tree_usage_output_tokens = 0, tree_delivered_source_units = 0,
     tree_classification_request = None, tree_specialist_request = None,
     tree_complete_window = Some (JStr ''w''), tree_source_delivery = None, tree_classification_packet = None,
     tree_relation_packet = None, tree_specialist_packet = None, tree_repair_frame = None\<rparr>"

definition demo_outgoing :: outgoing where
  "demo_outgoing = \<lparr>og_prompts = [TextPrompt ''w''], og_rest = JNull\<rparr>"

definition demo_model_settings :: model_settings where
  "demo_model_settings = \<lparr>ms_max_tokens = None, ms_rest = JNull\<rparr>"

lemma demo_ports_trusted: "trusted_ports demo_dispatch_ports"
  by (auto simp: trusted_ports_def demo_dispatch_ports_def sha256_documented_def is_sha256_def fair_usage_def
      demo_model_response_def list_all_iff hexval_def)

lemma demo_ports_keep: "ports_keep (tree_moves B False) demo_dispatch_ports"
  by (auto simp: ports_keep_def keeps_def demo_dispatch_ports_def)

section \<open>Properties\<close>

text \<open>
  C7: Every dispatch is accounted for. For ports whose identifier source returns, whose digest has the
  documented form, whose counts are not negative and whose managed observations passed their
  validator, a request either calls no provider, raises and appends nothing, or it calls the provider exactly once: after a valid intent for its task and attempt was durably
  recorded, at a moment when the run tree had not failed, the task was not cancelled and the deadline
  had not passed; and it then appends exactly one usage event, which is valid, names the request of the
  intent and reports an outcome the call allows. It returns a response only if the provider did and
  the event was appended, and otherwise raises what the provider raised.
\<close>

theorem dispatch_accounted:
  assumes "trusted_ports P"
    and "guarded_request (traced_dispatch P) C R out settings (t, w, []) = (r, t1, w1, trace)"
  shows "(\<exists>e. r = Inl e) \<and> (trace = [] \<or> (\<exists>i. trace = [IntentRecorded i] \<or> trace = [IntentRefused i]))
    \<or> (\<exists>i x e appended. trace = [IntentRecorded i, ProviderCalled True x, UsageAppended e appended]
         \<and> is_ok (make_request_intent i) \<and> in_semantic_task_id i = Some (rn_task_id C)
         \<and> in_semantic_attempt_id i = Some (rn_attempt_id C)
         \<and> make_usage_event e = Inr e \<and> ue_request_id e = in_request_id i \<and> ue_outcome e \<in> outcome_of_call x
         \<and> (\<forall>y. r = Inr y \<longrightarrow> appended \<and> x = None) \<and> (\<forall>err. x = Some err \<longrightarrow> appended \<longrightarrow> r = Inl err))"
proof -
  have final: "history (t1, w1, trace) = trace" "history (t, w, []) = []" by (simp_all add: history_def)
  show ?thesis
    using assms(2) unfolding guarded_request_def
  proof (cases rule: bindG_cases)
    case (raises e)
    with quietGD [OF quiet_prepare raises(1)] final show ?thesis by simp
  next
    case (returns k s1)
    have h1: "history s1 = []" using quietGD [OF quiet_prepare returns(1)] final by simp
    note k = prepared_intent [OF returns(1)]
    from returns(2) show ?thesis
    proof (cases rule: bindG_cases)
      case (raises e)
      then have "history (t1, w1, trace) = [IntentRefused (tk_intent k)]"
        using h1 by (auto simp: traced_dispatch_def elim!: notedG_run)
      with raises final show ?thesis by auto
    next
      case (returns _ s2)
      then have h2: "history s2 = [IntentRecorded (tk_intent k)]"
        using h1 by (auto simp: traced_dispatch_def elim!: notedG_run)
      from returns(2) show ?thesis
      proof (cases rule: bindG_cases)
        case (raises e)
        with quietGD [OF quiet_authorize raises(1)] h2 final show ?thesis by auto
      next
        case (returns _ s3)
        have h3: "history s3 = [IntentRecorded (tk_intent k)]" "tree_open P (fst s3, fst (snd s3))"
          using quietGD [OF quiet_authorize returns(1)] h2 authorized_open [OF returns(1)]
          by (simp_all add: tree_open_def)
        have rest: "bindG (call_provider (traced_dispatch P) R out k) (\<lambda>c.
            bindG (settle_call (traced_dispatch P) R (in_request_id (tk_intent k)) c) (\<lambda>y.
            bindG (check_bounds (tk_bounds k) y) (\<lambda>_. bindG (check_managed R (snd c) y) (\<lambda>_.
            bindG (record_exposure (traced_dispatch P) k) (\<lambda>_. returnG y))))) s3 = (r, t1, w1, trace)"
          by (rule returns(2))
        from called_and_settled [OF assms(1) k(4) rest] obtain x e b where
          "history (t1, w1, trace) = history s3 @ [ProviderCalled (tree_open P (fst s3, fst (snd s3))) x, UsageAppended e b]"
          "make_usage_event e = Inr e" "ue_request_id e = in_request_id (tk_intent k)" "ue_outcome e \<in> outcome_of_call x"
          "\<forall>y. r = Inr y \<longrightarrow> b \<and> x = None" "\<forall>err. x = Some err \<longrightarrow> b \<longrightarrow> r = Inl err" by blast
        with h3 final k show ?thesis by auto
      qed
    qed
  qed
qed

theorem dispatch_accounted_witness:
  "\<exists>y t1 i e. guarded_request (traced_dispatch demo_dispatch_ports) demo_run_config demo_agent demo_outgoing demo_model_settings
      (demo_run_tree, (), []) = (Inr y, t1, (), [IntentRecorded i, ProviderCalled True None, UsageAppended e True])
    \<and> ue_request_id e = in_request_id i"
proof -
  define result where "result = guarded_request (traced_dispatch demo_dispatch_ports) demo_run_config demo_agent demo_outgoing
    demo_model_settings (demo_run_tree, (), [])"
  obtain r t1 trace where res: "result = (r, t1, (), trace)" by (cases result) auto
  have "is_ok (fst result)" unfolding result_def by code_simp
  then obtain y where y: "r = Inr y" by (auto simp: res is_ok_def)
  from dispatch_accounted [OF demo_ports_trusted res [unfolded result_def]] y
  show ?thesis unfolding result_def [symmetric] res by auto
qed

text \<open>
  C9: The budget of a run holds under interference. If the ports change the run tree only by steps of its
  agents that settle no managed turn, then a request under a profile that is not managed, started on
  a tree that is within its budget and however it ends, leaves a tree whose reservations and
  delegations are within the budget and whose token is cancelled exactly if the run has failed; the first
  failure, the closing, the numbering and the reservations never go back. A response it returns was
  numbered, and under an admitted profile its tokens are within what was added to the reservations.
\<close>

theorem dispatch_budget_held:
  assumes "ports_keep (tree_moves (rn_budget C) False) P" "\<not> managed_admission (ar_binding R)"
    and "tree_ok (rn_budget C) False t"
    and "guarded_request P C R out settings (t, w) = (r, t1, w1)"
  shows "tree_ok (rn_budget C) False t1 \<and> tree_grows t t1
    \<and> (\<forall>y. r = Inr y \<longrightarrow> tree_request_sequence t < tree_request_sequence t1
         \<and> (pb_admission (ar_binding R) \<noteq> None \<longrightarrow>
              tree_reserved_requests t < tree_reserved_requests t1
              \<and> pu_input_tokens (mr_usage y) \<le> tree_reserved_input_tokens t1 - tree_reserved_input_tokens t
              \<and> pu_output_tokens (mr_usage y) \<le> tree_reserved_output_tokens t1 - tree_reserved_output_tokens t))"
proof -
  have moved: "tree_moves (rn_budget C) False t t1"
    using keepsD [OF moves.keeps_request [OF assms(1) _ assms(2)] assms(4)] by simp
  have grow: "ports_keep tree_grows P" by (rule ports_keep_mono [OF assms(1) tree_moves_grows])
  have "response_reserved R t t1 y" if "r = Inr y" for y
    using request_reserved [OF grow assms(2)] assms(4) that by blast
  then show ?thesis
    using tree_moves_ok [OF moved assms(3)] tree_moves_grows [OF moved] by (simp add: response_reserved_def)
qed

theorem dispatch_budget_held_witness:
  "case guarded_request demo_dispatch_ports demo_run_config demo_agent demo_outgoing demo_model_settings (demo_run_tree, ()) of
     (Inl _, _) \<Rightarrow> False
   | (Inr y, t1, _) \<Rightarrow> tree_ok demo_run_budget False t1 \<and> pu_input_tokens (mr_usage y) \<le> tree_reserved_input_tokens t1"
proof -
  define result where "result = guarded_request demo_dispatch_ports demo_run_config demo_agent demo_outgoing
    demo_model_settings (demo_run_tree, ())"
  obtain r t1 where res: "result = (r, t1, ())" by (cases result) auto
  have "is_ok (fst result)" unfolding result_def by code_simp
  then obtain y where y: "r = Inr y" by (auto simp: res is_ok_def)
  have start: "tree_ok (rn_budget demo_run_config) False demo_run_tree" by code_simp
  have "\<not> managed_admission (ar_binding demo_agent)" by code_simp
  from dispatch_budget_held [OF demo_ports_keep this start res [unfolded result_def]] y
  have "tree_ok demo_run_budget False t1" "pu_input_tokens (mr_usage y) \<le> tree_reserved_input_tokens t1 - tree_reserved_input_tokens demo_run_tree"
    by (auto simp: demo_run_config_def demo_agent_def demo_profile_binding_def)
  then show ?thesis unfolding result_def [symmetric] res y by (simp add: demo_run_tree_def)
qed

text \<open>
  The usage event of a call can always be built: with counts that are not negative and an observation
  that passed its validator, every way in which a call of either kind can end gives an event that its
  validator accepts.
\<close>

theorem usage_event_total:
  assumes "sha256_documented H" "fair_usage y" "is_ok (make_managed_observation ob)"
  shows "is_ok (dispatch_usage_event H request_id False None (returned_settlement provenance lost cancelled y) event_id)
    \<and> is_ok (dispatch_usage_event H request_id True (Some ob) (returned_settlement provenance lost cancelled y) event_id)
    \<and> is_ok (dispatch_usage_event H request_id managed None (failed_settlement e) event_id)
    \<and> is_ok (dispatch_usage_event H request_id managed (Some ob) (failed_settlement e) event_id)"
proof -
  have valid: "is_ok (dispatch_usage_event H request_id m observed s event_id)"
    if "settled s" "\<forall>r. st_response s = Some r \<longrightarrow> r = y" "\<forall>z. observed = Some z \<longrightarrow> z = ob" for m observed s
    using dispatch_event_valid [OF that(1) assms(1), of m observed request_id event_id] that(2,3) assms(2,3)
    by (auto simp: is_ok_def)
  have "is_ok (dispatch_usage_event H request_id False None (returned_settlement provenance lost cancelled y) event_id)"
    "is_ok (dispatch_usage_event H request_id True (Some ob) (returned_settlement provenance lost cancelled y) event_id)"
    by (rule valid; simp add: returned_settlement_def settled_call [unfolded returned_settlement_def])+
  moreover have "is_ok (dispatch_usage_event H request_id managed None (failed_settlement e) event_id)"
    "is_ok (dispatch_usage_event H request_id managed (Some ob) (failed_settlement e) event_id)"
    by (rule valid, simp, simp add: failed_settlement_def, simp)+
  ultimately show ?thesis by blast
qed

theorem usage_event_total_witness:
  "is_ok (dispatch_usage_event (dq_digest demo_dispatch_ports) 3 False None
     (returned_settlement PROV_PROVIDER_REPORTED True False demo_model_response) 4)"
  by (rule usage_event_total [OF _ _ default_observation_valid, THEN conjunct1])
    (use demo_ports_trusted in \<open>auto simp: trusted_ports_def fair_usage_def demo_model_response_def\<close>)

end
