(* ===== verification/Spec2Isabelle.thy ===== *)
theory Spec2Isabelle
  imports CaptureClaims HostClaims FoldClaims RegistryClaims SemanticClaims EnvelopeClaims BrokerClaims AuthoredClaims MigrationClaims DispatchClaims
begin

text \<open>
  \<^bold>\<open>Verification of memoriesql: capture, transcript fold, modules, semantic tasks, model dispatch and the query host\<close>

  \<^bold>\<open>The program.\<close>
  memoriesql turns append-only transcript files into durable records. A host helper process reads
  a source file and answers bounded read requests (\<open>application/capture/host_protocol.py\<close>). The raw
  capture loop (\<open>SourceRangeCaptureLoop\<close> in \<open>application/capture/source_range.py\<close>) sends the bytes
  it reads to the kernel as source-range commands and checks the receipts it gets. The host capture
  loop (\<open>HostCaptureLoop\<close> in \<open>application/capture/source_adapter.py\<close>) frames what it reads into line
  records, lets an extractor or an assembler finish turns, and submits one envelope per turn under
  a cursor it stores before and after; what is out of scope is recorded as an exclusion, and what
  cannot be processed is quarantined. The transcript
  fold loop (\<open>TranscriptFoldLoop\<close> in \<open>application/capture/transcript_fold.py\<close>) reads the ranges back,
  frames them into line records with the framing code of \<open>application/capture/source_adapter.py\<close>,
  lets a format adapter assemble turns, and commits one command per run whose outcomes (exact
  turns, unparsed spans, policy dispositions) cover the bytes it consumed; it also migrates the
  cursor of the host capture loop. Beside that pipeline stand the module manifests
  (\<open>domain/module_manifest.py\<close>) and the registry that inspects and composes them
  (\<open>application/module_registry.py\<close>), and the semantic tasks: code-registered definitions
  (\<open>application/semantic_task_contracts.py\<close>), inspected against the module registry and resolved
  for a composition (\<open>application/semantic_task_registry.py\<close>), whose executor's result is
  accepted only within the resolution. The executor calls a model only through the dispatch boundary
  of \<open>infrastructure/models/pydanticai_executor.py\<close>, which records an intent before each call and
  appends a usage event after it, both in the ledger of \<open>application/model_accounting.py\<close>. Captured turns and events reach the kernel as envelopes
  (\<open>application/capture/contracts.py\<close>), compiled under the kernel's authority into the commands of
  \<open>application/canonical_transactions.py\<close>, where authored statements come back as annotations.
  Agents query the result through the trusted host of \<open>infrastructure/results_broker/\<close>: a client
  proves the peer behind a Unix socket and exchanges frames with it, the server authenticates each
  request as a paired agent (\<open>application/authorization.py\<close> and its PostgreSQL port) and runs the
  executor or a reader, and a registry remembers which credential started which run.

  \<^bold>\<open>The theories.\<close> All paths are under \<open>src/src/memoriesql/\<close>.
  \<^item> \<open>Prelude\<close>: the result type (an error of \<open>py_error\<close> or a value), the state-passing \<open>io\<close> monad
    with its elimination rules, the validator combinator \<open>validated\<close> (checks in source order, the
    first failing one is the error) and \<open>chain\<close>, the adjacency of a list of intervals.
  \<^item> \<open>Codec\<close>: what the code uses of the Python library: hexadecimal, base64, UTF-8 and the canonical
    JSON writer. SHA-256 is a parameter, a function of type \<open>hash\<close>; where a property needs it, the
    hypothesis \<open>sha256_documented\<close> says only that a digest is 64 lower-case hexadecimal digits.
  \<^item> \<open>Manifest\<close>: identifiers, semantic versions, version ranges with their parsers and printers, and
    the manifest data of \<open>domain/module_manifest.py\<close>.
  \<^item> \<open>Registry\<close>, \<open>Inspection\<close>, \<open>Composition\<close>: \<open>application/module_registry.py\<close>: the depth-first cycle
    search, the inspection with every check in order, the registry constructor, and \<open>compose\<close>
    with its settling loop.
  \<^item> \<open>HostProtocol\<close>: the messages of the host helper and their validators.
  \<^item> \<open>SourceRange\<close>, \<open>RangeLoop\<close>: chunks, range commands, their builder, receipts, the raw cursor and
    the capture loop of \<open>source_range.py\<close>. The host, the cursor store, the kernel and \<open>uuid4\<close> are
    the fields of \<open>raw_ports\<close>, functions on an arbitrary world \<open>'w\<close> that may fail.
  \<^item> \<open>Effects\<close>: what the loops share on the \<open>io\<close> monad: \<open>try\<close> blocks, the triples \<open>ensures\<close> about the
    state after a return and after an error, histories, and the locale \<open>event_store\<close> of a store that
    follows a history.
  \<^item> \<open>SourceAdapter\<close>, \<open>AdapterCursor\<close>: the framer and the adapter cursor of \<open>source_adapter.py\<close>.
  \<^item> \<open>HostLoop\<close>, \<open>HostRun\<close>: \<open>HostCaptureLoop\<close>: its configuration and ports (\<open>host_loop\<close>), the cursor
    update, health, re-reads, quarantine, the scope seek and \<open>run_once\<close> in its single-record, window
    and streaming modes. The extractor, the assembler and the builders are pure functions that may
    raise.
  \<^item> \<open>HostTrace\<close>, \<open>HostRuns\<close>, \<open>HostFacts\<close>: the library for the host loop. \<open>host_at\<close> says how the
    submissions and stores of a run move the cursor; a triple for every part of the run shows that
    it follows it; \<open>HostRuns\<close> lifts it to sequences of runs.
  \<^item> \<open>FoldData\<close>, \<open>FoldCursor\<close>, \<open>FoldLoop\<close>, \<open>FoldRun\<close>: the data, the cursor, the helpers and the run of
    \<open>transcript_fold.py\<close>, migration included. The reader, the kernel, the cursor store and the
    adapter are the fields of \<open>fold_loop\<close> and \<open>fold_adapter\<close>.
  \<^item> \<open>FoldTrace\<close>, \<open>FoldRuns\<close>, \<open>FoldMigration\<close>, \<open>FoldReads\<close>: the library for the fold properties. A traced
    loop records the commands it submitted and the cursors it stored; \<open>FoldTrace\<close> proves what one
    run may add to that trace, \<open>FoldRuns\<close> lifts it to reachable stores by rule induction,
    \<open>FoldMigration\<close> covers the migration and \<open>FoldReads\<close> the exact reads.
  \<^item> \<open>SemanticContracts\<close>, \<open>SemanticTasks\<close>, \<open>SemanticResults\<close>: \<open>semantic_task_contracts.py\<close>: the search for
    an issue of a contract model over a table of classes, budgets, manifests, task definitions
    and inputs, results with their retry policy, acceptance and execution. What pydantic and a
    deployment's models decide (schema, payload and output validation) is the record \<open>contract_env\<close>.
  \<^item> \<open>SemanticRegistry\<close>: \<open>semantic_task_registry.py\<close>: the inspection, one definition per group of
    checks, the registry and \<open>resolve\<close>. \<open>SemanticFacts\<close> inverts \<open>resolve\<close> and the acceptance into the
    bounds they check, and derives from an accepted catalog that its tasks resolve.
  \<^item> \<open>CanonicalEvents\<close>, \<open>CanonicalStatements\<close>: \<open>canonical_transactions.py\<close>: source events and units,
    the accept command with its limits, statements, renders, annotations and the apply command.
    SHA-256 and the rendering of datetimes and floats are the record \<open>codec\<close>.
  \<^item> \<open>CaptureEnvelope\<close>: \<open>capture/contracts.py\<close>: parser receipts, identities, both envelope classes as
    one record, the submission command and \<open>compile_capture_submission\<close>. \<open>JsonFacts\<close> shows that the
    canonical JSON is ASCII and bounds its length; \<open>EnvelopeFacts\<close> inverts the compilation.
  \<^item> \<open>Authorization\<close>: \<open>domain/authorization.py\<close>, \<open>application/authorization.py\<close> and the port of
    \<open>infrastructure/postgres/authorization.py\<close>: policies, credentials, contexts and decisions, and the
    bit layout of UUIDs of version 7. The stored procedures are the fields of \<open>authorization_port\<close>.
  \<^item> \<open>JsonRead\<close>: parsed JSON, the writer with its separators, and a reader with its round trip, which
    shows that what the broker assumes of \<open>json.loads\<close> can hold.
  \<^item> \<open>BrokerWire\<close>, \<open>BrokerFrames\<close>: \<open>wire.py\<close>: sockets as the sequence of what the peer does, frames
    with deadlines, headers; and what is received of a stream, however it is split.
  \<^item> \<open>BrokerRegistry\<close>, \<open>BrokerServer\<close>, \<open>BrokerClient\<close>: \<open>registry.py\<close> as functions on the content of its
    file; \<open>server.py\<close> and \<open>readers.py\<close>: the worker of a connection, dispatch and the accept loop as a
    step relation; \<open>client.py\<close>. \<open>BrokerFacts\<close> composes client and server.
  \<^item> \<open>AuthoredChecks\<close>, \<open>AuthoredFacts\<close>: \<open>application/authored_output_checks.py\<close>: the issues of an
    annotation payload against its own task, and the part of it that is accepted.
  \<^item> \<open>MigrationRunner\<close>, \<open>MigrationFacts\<close>: \<open>infrastructure/postgres/migration_runner.py\<close>: the stream of
    migrations, the history and the run as one transaction, over a database of any schema.
  \<^item> \<open>Accounting\<close>, \<open>ManagedDispatch\<close>: \<open>application/model_accounting.py\<close> and
    \<open>application/managed_dispatch.py\<close>: targets, usage, pricing, forecasts, qualifications, observations,
    intents and usage events with their validators.
  \<^item> \<open>RunTree\<close>, \<open>DispatchGuard\<close>, \<open>DispatchRun\<close>: the dispatch boundary of \<open>pydanticai_executor.py\<close>: failures
    and their normalization, the state \<open>_TreeState\<close> that the agents of a run share, profile bindings and
    their registry, and \<open>_DispatchGuardedModel.request\<close> (\<open>guarded_request\<close>) in the parts it has: the
    exposure of the request, the intent, its authorization, the call, its usage event, the bounds and
    the delivery records. A port may change the run tree while it is awaited.
  \<^item> \<open>DispatchFacts\<close>, \<open>DispatchEvents\<close>, \<open>DispatchTrace\<close>, \<open>DispatchTree\<close>: the library for it: traced ports,
    the validity of every usage event, the trace of each part, the operations of the tree as a step
    relation, and the locale \<open>shared_tree\<close> of the relations that a request keeps under interference.
  \<^item> \<open>Scenario\<close>: concrete hosts, ledgers and registries for the witnesses.
  \<^item> \<open>CaptureClaims\<close>, \<open>HostClaims\<close>, \<open>FoldClaims\<close>, \<open>RegistryClaims\<close>, \<open>SemanticClaims\<close>,
    \<open>EnvelopeClaims\<close>, \<open>BrokerClaims\<close>, \<open>AuthoredClaims\<close>, \<open>MigrationClaims\<close>, \<open>DispatchClaims\<close>: the properties, with their witnesses.

  \<^bold>\<open>How state and operations correspond.\<close>
  A Pydantic model is a record together with a function \<open>make_<model>\<close> that runs the field checks and
  validators in the order Pydantic runs them and returns the record or the first error. Frozen
  models are immutable, so no aliasing arises. Offsets, sizes and indexes are the non-negative
  fields of the source and are \<open>nat\<close>; differences the source computes in unbounded integers are
  taken in \<open>int\<close> where they can be negative. Bytes are \<open>nat\<close> lists, times are naive or aware
  integers, and a raised exception is the left value of a result, after which the world keeps the
  effects made before it. Dictionaries are association lists in insertion order.

  \<^bold>\<open>What the lemmas show.\<close>
  For the raw capture: a command's chunks partition its bytes, the builder accepts every payload
  in bounds, and a series of transactions leaves receipts that tile the source between the stored
  positions. For the host loop: over all sequences of runs, failed ones included, every byte below
  the stored position is owned by one acknowledged submission or one recorded exclusion, no
  envelope is submitted before the time it was built with is stored, drift stops a run, and
  quarantine and health stay within their bounds. For the fold: the cursor invariant, the ownership of every byte by one outcome and
  one lineage range, the effect of a run on the kernel and on the cursor store, and over all
  sequences of runs, failed ones included, that every byte below the stored position belongs to
  exactly one command whose run stored its cursor. For the migration: commands tile the
  acknowledged prefix. For the registry: inspection accepts exactly the well-formed registries,
  the cycle search is right about acyclicity, and composition computes the greatest closed set.
  For the semantic tasks: a contract model is accepted exactly when every reachable class is
  sealed, resolution never widens what was registered and authorized, tasks of an accepted catalog
  do resolve, and an accepted result is bound to its resolution.
  For the dispatch boundary: a provider is called at most once per request, only after a valid intent
  was recorded and while the run is open, and each call is followed by one valid usage event; the
  reservations of a run stay within its budget whatever its other agents do.
  For the envelopes: a compiled submission has the kernel's authority and the envelope's content,
  compilation succeeds exactly within stated limits, and every statement of an apply command is
  grounded in the runs and the evidence of its result.
  For the query host: a remote call refines the local one, an unauthorized connection reaches
  nothing, the slots of the accept loop add up, the client sends nothing before the peer is proven,
  and the registry names the owner of a run until a day after its expiry.
  Authored output passes its checks exactly when it covers its task and is grounded, and what is
  accepted of it in part passes them again. A migration run moves the history along the stream or
  changes nothing, and runs compose.
  Round trips hold for versions, ranges and frames. A few properties record where the code stops short
  of what it means to do.

  \<^bold>\<open>Termination.\<close>
  No fuel is used. The migration loop terminates because a bound receipt advances the offset
  towards the acknowledged one; the settling loop because each changing pass removes a module; the
  cycle search because the set of unvisited modules shrinks; receiving because no piece is empty; framing, chunking and the bounded
  transaction loop by structure or by the length of what is left; the contract-model search enters
  each class of the table at most once on a path.

  \<^bold>\<open>Not modelled.\<close>
  Files and processes apart from the registry of runs and the sockets of the broker; the broker's
  preflight checks, listener, cleanup thread, configuration and operator commands; the stored
  procedures behind the kernel, the readers and the authorization port, which are SQL; the envelope
  of a conversation turn enters the fold as a type parameter with its validator, apart from its
  model in \<open>CaptureEnvelope\<close>; JSON parsing into protocol messages, which is a parameter of the parse
  functions; the extractors and builders of the source formats; the run events and the schema
  catalog of the semantic tasks; the agents, delegation, evidence tools, repair and late settlement of
  the model executor; and the parts of the system outside capture, canonical
  transactions, modules, semantic tasks, model dispatch, authored output, authorization, migrations and
  the query host.
\<close>

end
